(* ===== verification/Prelude.thy ===== *)
theory Prelude
  imports
    "HOL-Library.Word"
    "HOL-Library.Signed_Division"
    "HOL-Library.Sublist"
    "HOL-Library.Char_ord"
    "HOL-Library.List_Lexorder"
begin

text \<open>
  Shared vocabulary of the development: Go results (value, error or panic), fixed-width integers,
  byte strings, the decimal rendering and parsing of the standard library, the arithmetic of
  \<open>math.Int\<close> and the block context. Every later theory imports this one.
\<close>

named_theorems res_simps \<open>unfolding rules of the result combinators\<close>
named_theorems key_simps \<open>rewriting and injectivity of store keys\<close>

section \<open>Types\<close>

type_synonym bytes = string
type_synonym u64 = "64 word"
type_synonym i64 = "64 word"

text \<open>
  Instants are nanoseconds counted from Go's zero time (\<open>time.Time{}\<close>), durations are nanoseconds.
\<close>

type_synonym gotime = int
type_synonym duration = int

definition zero_time :: gotime where
  "zero_time = 0"

record ctx =
  BlockTime :: gotime
  BlockHeight :: i64

section \<open>Errors and results\<close>

text \<open>
  The sentinel errors of the modules, those of the SDK the code returns by name, errors built with
  \<open>fmt.Errorf\<close> or \<open>errors.New\<close> (\<open>ErrPlain\<close>) and errors handed on from a library (\<open>ErrLib\<close>).
  Wrapping adds text to the message and keeps the sentinel, so it is not recorded.
\<close>

datatype err =
    ErrRateLimitAlreadyExists
  | ErrRateLimitNotFound
  | ErrZeroChannelValue
  | ErrQuotaExceeded
  | ErrInvalidClientState
  | ErrMultipleMapping
  | NotRegisteredNativeDenom
  | ErrInvalidCoin
  | ErrInvalidAddress
  | ErrInvalidSigner
  | ErrInvalidRequest
  | ErrUnknownRequest
  | ErrKeyNotFound
  | ErrInvalidAmount
  | ErrInvalidAcknowledgement
  | ErrPlain string
  | ErrLib string

datatype 'a res = Ok 'a | Err err | Panic

fun res_bind :: "'a res \<Rightarrow> ('a \<Rightarrow> 'b res) \<Rightarrow> 'b res" where
  "res_bind (Ok a) f = f a"
| "res_bind (Err e) f = Err e"
| "res_bind Panic f = Panic"

text \<open>\<open>guard b e\<close> is the early return \<open>if !b { return e }\<close>.\<close>

definition guard :: "bool \<Rightarrow> err \<Rightarrow> unit res" where
  "guard b e = (if b then Ok () else Err e)"

text \<open>A stateful Go function: the state is returned also when it fails, as the code leaves it.\<close>

type_synonym ('s, 'a) op = "'s \<Rightarrow> 'a res \<times> 's"

definition op_bind :: "('s, 'a) op \<Rightarrow> ('a \<Rightarrow> ('s, 'b) op) \<Rightarrow> ('s, 'b) op" where
  "op_bind m f s =
     (case m s of
        (Ok a, s') \<Rightarrow> f a s'
      | (Err e, s') \<Rightarrow> (Err e, s')
      | (Panic, s') \<Rightarrow> (Panic, s'))"

definition op_lift :: "'a res \<Rightarrow> ('s, 'a) op" where
  "op_lift r s = (r, s)"

text \<open>\<open>op_must m\<close> is the call of \<open>m\<close> whose error the caller turns into a panic.\<close>

definition op_must :: "('s, 'a) op \<Rightarrow> ('s, 'a) op" where
  "op_must m s = (case m s of (Err _, s') \<Rightarrow> (Panic, s') | r \<Rightarrow> r)"

lemma res_bind_eq_Ok [simp]: "res_bind r f = Ok b \<longleftrightarrow> (\<exists>a. r = Ok a \<and> f a = Ok b)"
  by (cases r) auto

lemma res_bind_eq_Err: "res_bind r f = Err e \<longleftrightarrow> r = Err e \<or> (\<exists>a. r = Ok a \<and> f a = Err e)"
  by (cases r) auto

lemma res_bind_assoc: "res_bind (res_bind r f) g = res_bind r (\<lambda>a. res_bind (f a) g)"
  by (cases r) auto

lemma guard_eq_Ok [simp]: "guard b e = Ok u \<longleftrightarrow> b"
  by (simp add: guard_def)

lemma guard_True [simp]: "guard True e = Ok ()"
  by (simp add: guard_def)

lemma guard_False [simp]: "guard False e = Err e"
  by (simp add: guard_def)

lemma op_bind_Ok: "m s = (Ok a, s') \<Longrightarrow> op_bind m f s = f a s'"
  by (simp add: op_bind_def)

lemma op_bind_eq_Ok:
  "op_bind m f s = (Ok b, t) \<longleftrightarrow> (\<exists>a s'. m s = (Ok a, s') \<and> f a s' = (Ok b, t))"
  by (auto simp: op_bind_def split: prod.splits res.splits)

lemma op_lift_eq [simp]: "op_lift r s = (r', s') \<longleftrightarrow> r' = r \<and> s' = s"
  by (auto simp: op_lift_def)

lemma op_must_eq_Ok [simp]: "op_must m s = (Ok a, t) \<longleftrightarrow> m s = (Ok a, t)"
  by (auto simp: op_must_def split: prod.splits res.splits)

lemma op_bind_lift_Ok [simp]: "op_bind (op_lift (Ok a)) f = f a"
  by (simp add: op_bind_def op_lift_def fun_eq_iff)

lemma op_bind_lift_Err [simp]: "op_bind (op_lift (Err e)) f s = (Err e, s)"
  by (simp add: op_bind_def op_lift_def)

lemma op_bind_lift_Panic [simp]: "op_bind (op_lift Panic) f s = (Panic, s)"
  by (simp add: op_bind_def op_lift_def)

declare res_bind.simps [res_simps] guard_def [res_simps] op_lift_def [res_simps]

section \<open>Signed 64-bit readings\<close>

text \<open>
  \<open>int64\<close> and \<open>uint64\<close> are both \<open>64 word\<close>: addition wraps the same way, \<open>sint\<close> is the value
  of an \<open>int64\<close> and \<open>uint\<close> that of a \<open>uint64\<close>, so a Go conversion between the two is the identity.
\<close>

lemma sint_of_small: "0 \<le> i \<Longrightarrow> i < 2 ^ 63 \<Longrightarrow> sint (word_of_int i :: 64 word) = i"
  by (simp add: signed_of_int signed_take_bit_int_eq_self)

lemma uint_of_small: "0 \<le> i \<Longrightarrow> i < 2 ^ 64 \<Longrightarrow> uint (word_of_int i :: 64 word) = i"
  by (simp add: take_bit_int_eq_self unsigned_of_int)

section \<open>Arithmetic of \<open>math.Int\<close>\<close>

text \<open>
  \<open>math.Int\<close> is Go's arbitrary-precision integer with a bound on the size of results; an operation
  whose result is out of the bound panics. The bound \<open>fits\<close> is a parameter of the model.
\<close>

type_synonym int_bound = "int \<Rightarrow> bool"

definition Int_chk :: "int_bound \<Rightarrow> int \<Rightarrow> int res" where
  "Int_chk fits z = (if fits z then Ok z else Panic)"

definition Int_Add :: "int_bound \<Rightarrow> int \<Rightarrow> int \<Rightarrow> int res" where
  "Int_Add fits a b = Int_chk fits (a + b)"

definition Int_Sub :: "int_bound \<Rightarrow> int \<Rightarrow> int \<Rightarrow> int res" where
  "Int_Sub fits a b = Int_chk fits (a - b)"

definition Int_Mul :: "int_bound \<Rightarrow> int \<Rightarrow> int \<Rightarrow> int res" where
  "Int_Mul fits a b = Int_chk fits (a * b)"

text \<open>\<open>Quo\<close> truncates towards zero and panics on a zero divisor.\<close>

definition Int_Quo :: "int \<Rightarrow> int \<Rightarrow> int res" where
  "Int_Quo a b = (if b = 0 then Panic else Ok (a sdiv b))"

lemma Int_chk_eq_Ok [simp]: "Int_chk fits z = Ok r \<longleftrightarrow> fits z \<and> r = z"
  by (auto simp: Int_chk_def)

lemma Int_ops_Ok [simp]:
  "Int_Add fits a b = Ok r \<longleftrightarrow> fits (a + b) \<and> r = a + b"
  "Int_Sub fits a b = Ok r \<longleftrightarrow> fits (a - b) \<and> r = a - b"
  "Int_Mul fits a b = Ok r \<longleftrightarrow> fits (a * b) \<and> r = a * b"
  "Int_Quo a b = Ok r \<longleftrightarrow> b \<noteq> 0 \<and> r = a sdiv b"
  by (auto simp: Int_Add_def Int_Sub_def Int_Mul_def Int_Quo_def)

lemma Int_ops_not_Err [simp]:
  "Int_chk fits a \<noteq> Err e"
  "Int_Add fits a b \<noteq> Err e"
  "Int_Sub fits a b \<noteq> Err e"
  "Int_Mul fits a b \<noteq> Err e"
  "Int_Quo a b \<noteq> Err e"
  by (auto simp: Int_chk_def Int_Add_def Int_Sub_def Int_Mul_def Int_Quo_def)

lemma sdiv_pos_div: "0 \<le> a \<Longrightarrow> 0 < b \<Longrightarrow> a sdiv b = a div (b :: int)"
  by (cases "a = 0") (auto simp: signed_divide_int_def sgn_mult)

section \<open>Decimal rendering and parsing\<close>

text \<open>
  \<open>fmt.Sprintf("%d")\<close> on an unsigned value and \<open>strconv.ParseUint(s, 10, 64)\<close>: the latter fails on
  the empty string, on any character that is not a digit and on values of more than 64 bits.
\<close>

definition digit_char :: "nat \<Rightarrow> char" where
  "digit_char d = char_of (d + 48)"

definition char_digit :: "char \<Rightarrow> nat option" where
  "char_digit c = (let n = of_char c :: nat in if 48 \<le> n \<and> n \<le> 57 then Some (n - 48) else None)"

fun show_nat :: "nat \<Rightarrow> string" where
  "show_nat n = (if n < 10 then [digit_char n] else show_nat (n div 10) @ [digit_char (n mod 10)])"

declare show_nat.simps [simp del]

fun digits_val :: "nat \<Rightarrow> string \<Rightarrow> nat option" where
  "digits_val acc [] = Some acc"
| "digits_val acc (c # cs) =
     (case char_digit c of None \<Rightarrow> None | Some d \<Rightarrow> digits_val (10 * acc + d) cs)"

definition ParseUint :: "string \<Rightarrow> u64 option" where
  "ParseUint s =
     (if s = [] then None
      else case digits_val 0 s of
             None \<Rightarrow> None
           | Some n \<Rightarrow> if n < 2 ^ 64 then Some (of_nat n) else None)"

lemma char_digit_digit_char [simp]: "d < 10 \<Longrightarrow> char_digit (digit_char d) = Some d"
  by (simp add: char_digit_def digit_char_def Let_def)

lemma digits_val_append:
  "digits_val a (xs @ ys) = (case digits_val a xs of None \<Rightarrow> None | Some b \<Rightarrow> digits_val b ys)"
  by (induction xs arbitrary: a) (auto split: option.splits)

lemma show_nat_ne [simp]: "show_nat n \<noteq> []"
  by (subst show_nat.simps) simp

lemma digits_val_show_nat: "digits_val 0 (show_nat n) = Some n"
proof (induction n rule: show_nat.induct)
  case (1 n)
  show ?case
  proof (cases "n < 10")
    case True
    then show ?thesis by (subst show_nat.simps) simp
  next
    case False
    with 1 show ?thesis
      by (subst show_nat.simps) (simp add: digits_val_append)
  qed
qed

lemma ParseUint_show_nat: "ParseUint (show_nat (unat w)) = Some (w :: u64)"
  using unsigned_less [of w] by (simp add: ParseUint_def digits_val_show_nat)

lemma show_nat_digits: "c \<in> set (show_nat n) \<Longrightarrow> char_digit c \<noteq> None"
proof (induction n rule: show_nat.induct)
  case (1 n)
  then show ?case
    by (subst (asm) show_nat.simps) (auto split: if_splits)
qed

text \<open>
  \<open>strconv.Atoi\<close>: an optional sign, then digits, within the range of a 64-bit \<open>int\<close>.
\<close>

definition Atoi :: "string \<Rightarrow> int option" where
  "Atoi s =
     (let neg = (take 1 s = ''-'');
          ds = (if neg \<or> take 1 s = ''+'' then drop 1 s else s)
      in if ds = [] then None
         else case digits_val 0 ds of
                None \<Rightarrow> None
              | Some n \<Rightarrow>
                  (let i = (if neg then - int n else int n)
                   in if - (2 ^ 63) \<le> i \<and> i < 2 ^ 63 then Some i else None))"

section \<open>Blank strings\<close>

text \<open>
  \<open>strings.TrimSpace\<close> on bytes: the ASCII white space. The strings it is
  applied to are checked further, and no other Unicode space passes those checks.
\<close>

definition ascii_space :: string where
  "ascii_space = [CHR 0x09, CHR 0x0A, CHR 0x0B, CHR 0x0C, CHR 0x0D, CHR 0x20]"

definition blank :: "string \<Rightarrow> bool" where
  "blank s = list_all (\<lambda>c. c \<in> set ascii_space) s"

section \<open>Loops with a callback that may stop them\<close>

text \<open>
  The keepers' \<open>Iterate...\<close> functions call a callback on each entry until it returns \<open>true\<close>.
\<close>

fun iterate_until :: "('a \<Rightarrow> 's \<Rightarrow> bool \<times> 's) \<Rightarrow> 'a list \<Rightarrow> 's \<Rightarrow> 's" where
  "iterate_until cb [] s = s"
| "iterate_until cb (x # xs) s =
     (case cb x s of (stop, s') \<Rightarrow> if stop then s' else iterate_until cb xs s')"

lemma iterate_until_inv:
  assumes "\<And>x s. x \<in> set xs \<Longrightarrow> P s \<Longrightarrow> P (snd (cb x s))" and "P s"
  shows "P (iterate_until cb xs s)"
  using assms
proof (induction xs arbitrary: s)
  case (Cons x xs)
  have "P (snd (cb x s))" using Cons.prems by simp
  with Cons show ?case by (cases "cb x s") auto
qed simp

text \<open>A loop over a list that stops at the first error or panic, keeping the state reached.\<close>

fun op_each :: "('a \<Rightarrow> ('s, unit) op) \<Rightarrow> 'a list \<Rightarrow> ('s, unit) op" where
  "op_each f [] s = (Ok (), s)"
| "op_each f (x # xs) s =
     (case f x s of
        (Ok _, s') \<Rightarrow> op_each f xs s'
      | (Err e, s') \<Rightarrow> (Err e, s')
      | (Panic, s') \<Rightarrow> (Panic, s'))"

lemma op_each_append:
  "op_each f (xs @ ys) s = op_bind (op_each f xs) (\<lambda>_. op_each f ys) s"
  by (induction xs arbitrary: s) (auto simp: op_bind_def split: prod.splits res.splits)

lemma op_each_inv:
  assumes "\<And>x s. x \<in> set xs \<Longrightarrow> P s \<Longrightarrow> P (snd (f x s))" and "P s"
  shows "P (snd (op_each f xs s))"
  using assms
proof (induction xs arbitrary: s)
  case (Cons x xs)
  have p: "P (snd (f x s))" using Cons.prems by simp
  show ?case
  proof (cases "f x s")
    case (Pair r s')
    with p Cons show ?thesis by (cases r) auto
  qed
qed simp

text \<open>The same loop without state: validation of a list, first error wins.\<close>

fun res_each :: "('a \<Rightarrow> unit res) \<Rightarrow> 'a list \<Rightarrow> unit res" where
  "res_each f [] = Ok ()"
| "res_each f (x # xs) = res_bind (f x) (\<lambda>_. res_each f xs)"

lemma res_each_eq_Ok: "res_each f xs = Ok u \<longleftrightarrow> (\<forall>x \<in> set xs. f x = Ok ())"
  by (induction xs) auto

text \<open>Decoding the values an iterator visits.\<close>

lemma set_map_filter: "x \<in> set (List.map_filter f xs) \<longleftrightarrow> (\<exists>y \<in> set xs. f y = Some x)"
  by (induction xs) (auto simp: List.map_filter_simps split: option.splits)

lemma map_filter_keys:
  assumes "\<And>e. e \<in> set es \<Longrightarrow> \<exists>x. f e = Some x \<and> h x = g e"
  shows "map h (List.map_filter f es) = map g es"
  using assms
proof (induction es)
  case (Cons e es)
  from Cons.prems [of e] obtain x where "f e = Some x" "h x = g e" by auto
  with Cons show ?case by (simp add: List.map_filter_simps)
qed (simp add: List.map_filter_simps)

lemma map_filter_cong_set:
  "(\<And>e. e \<in> set es \<Longrightarrow> f e = g e) \<Longrightarrow> List.map_filter f es = List.map_filter g es"
  by (induction es) (auto simp: List.map_filter_simps split: option.split)

lemma iterate_until_collect:
  "iterate_until (\<lambda>x acc. (False, acc @ f x)) xs acc = acc @ concat (map f xs)"
  by (induction xs arbitrary: acc) simp_all

lemma singleton_list: "distinct xs \<Longrightarrow> set xs = {x} \<Longrightarrow> xs = [x]"
  by (metis card_1_singleton_iff distinct_card distinct_singleton empty_set length_0_conv length_Suc_conv
      list.inject list.set_intros(1) list.simps(15) singletonD One_nat_def set_ConsD)

text \<open>An iterator callback that may also panic.\<close>

fun op_iterate :: "('a \<Rightarrow> ('s, bool) op) \<Rightarrow> 'a list \<Rightarrow> ('s, unit) op" where
  "op_iterate cb [] s = (Ok (), s)"
| "op_iterate cb (x # xs) s =
     (case cb x s of
        (Ok stop, s') \<Rightarrow> if stop then (Ok (), s') else op_iterate cb xs s'
      | (Err e, s') \<Rightarrow> (Err e, s')
      | (Panic, s') \<Rightarrow> (Panic, s'))"

lemma op_iterate_inv:
  assumes "\<And>x s. x \<in> set xs \<Longrightarrow> P s \<Longrightarrow> P (snd (cb x s))" and "P s"
  shows "P (snd (op_iterate cb xs s))"
  using assms
proof (induction xs arbitrary: s)
  case (Cons x xs)
  have p: "P (snd (cb x s))" using Cons.prems by simp
  show ?case
  proof (cases "cb x s")
    case (Pair r s')
    with p Cons show ?thesis by (cases r) auto
  qed
qed simp

section \<open>Bytes and separators\<close>

text \<open>\<open>binary.BigEndian\<close>: the \<open>k\<close> low bytes of a number, most significant first.\<close>

fun be_bytes :: "nat \<Rightarrow> nat \<Rightarrow> bytes" where
  "be_bytes 0 n = []"
| "be_bytes (Suc k) n = be_bytes k (n div 256) @ [char_of (n mod 256)]"

definition be_val :: "bytes \<Rightarrow> nat" where
  "be_val bs = foldl (\<lambda>a c. a * 256 + of_char c) 0 bs"

definition PutUint64 :: "u64 \<Rightarrow> bytes" where
  "PutUint64 w = be_bytes 8 (unat w)"

definition Uint64_BE :: "bytes \<Rightarrow> u64" where
  "Uint64_BE bs = of_nat (be_val bs)"

lemma length_be_bytes [simp]: "length (be_bytes k n) = k"
  by (induction k arbitrary: n) simp_all

lemma be_val_be_bytes: "be_val (be_bytes k n) = n mod 256 ^ k"
proof (induction k arbitrary: n)
  case (Suc k)
  have "n mod 256 ^ Suc k = 256 * (n div 256 mod 256 ^ k) + n mod 256"
    by (simp add: mod_mult2_eq)
  then show ?case using Suc [of "n div 256"] by (simp add: be_val_def)
qed (simp add: be_val_def)

lemma length_PutUint64 [simp]: "length (PutUint64 w) = 8"
  by (simp add: PutUint64_def)

lemma Uint64_PutUint64 [simp]: "Uint64_BE (PutUint64 w) = w"
proof -
  have "unat w mod 256 ^ 8 = unat w"
    using unsigned_less [where 'a = nat, of w] by simp
  then show ?thesis unfolding Uint64_BE_def PutUint64_def be_val_be_bytes by simp
qed

lemma PutUint64_inject [simp]: "PutUint64 v = PutUint64 w \<longleftrightarrow> v = w"
  by (metis Uint64_PutUint64)

text \<open>\<open>strings.Split(s, "/")\<close> and \<open>strings.TrimRight(s, "\x00")\<close>.\<close>

fun strings_Split :: "char \<Rightarrow> string \<Rightarrow> string list" where
  "strings_Split c [] = [[]]"
| "strings_Split c (x # xs) =
     (if x = c then [] # strings_Split c xs
      else case strings_Split c xs of [] \<Rightarrow> [[x]] | y # ys \<Rightarrow> (x # y) # ys)"

definition TrimRight_NUL :: "bytes \<Rightarrow> bytes" where
  "TrimRight_NUL bs = rev (dropWhile (\<lambda>c. c = CHR 0x00) (rev bs))"

lemma strings_Split_no_sep: "c \<notin> set xs \<Longrightarrow> strings_Split c xs = [xs]"
  by (induction xs) auto

lemma strings_Split_two: "c \<notin> set xs \<Longrightarrow> c \<notin> set ys \<Longrightarrow> strings_Split c (xs @ c # ys) = [xs, ys]"
  by (induction xs) (auto simp: strings_Split_no_sep)

lemma TrimRight_NUL_pad: "CHR 0x00 \<notin> set xs \<Longrightarrow> TrimRight_NUL (xs @ replicate n CHR 0x00) = xs"
proof -
  assume n: "CHR 0x00 \<notin> set xs"
  have "dropWhile (\<lambda>c. c = CHR 0x00) (replicate n CHR 0x00 @ ys) = dropWhile (\<lambda>c. c = CHR 0x00) ys" for ys
    by (induction n) simp_all
  moreover have "dropWhile (\<lambda>c. c = CHR 0x00) (rev xs) = rev xs"
    unfolding dropWhile_eq_self_iff
  proof (cases "rev xs = []")
    case False
    then have "hd (rev xs) \<in> set xs" using hd_in_set [OF False] by simp
    with n show "rev xs = [] \<or> hd (rev xs) \<noteq> CHR 0x00" by metis
  qed simp
  ultimately show ?thesis by (simp add: TrimRight_NUL_def)
qed

end
