(* ===== verification/KVStore.thy ===== *)
theory KVStore
  imports Prelude
begin

text \<open>
  The module store: byte-string keys with values, iterated in ascending key order. A value of type
  \<open>'v kv\<close> is an association list whose keys strictly increase, so equal contents are equal
  stores. Values stand for the structs the code marshals into the store.
\<close>

section \<open>Ordered association lists\<close>

fun al_put :: "bytes \<Rightarrow> 'v \<Rightarrow> (bytes \<times> 'v) list \<Rightarrow> (bytes \<times> 'v) list" where
  "al_put k v [] = [(k, v)]"
| "al_put k v (e # es) =
     (if k < fst e then (k, v) # e # es
      else if fst e < k then e # al_put k v es
      else (k, v) # es)"

definition al_drop :: "bytes \<Rightarrow> (bytes \<times> 'v) list \<Rightarrow> (bytes \<times> 'v) list" where
  "al_drop k es = filter (\<lambda>e. fst e \<noteq> k) es"

definition al_ok :: "(bytes \<times> 'v) list \<Rightarrow> bool" where
  "al_ok es \<longleftrightarrow> sorted_wrt (<) (map fst es)"

lemma al_ok_Nil [simp]: "al_ok []"
  by (simp add: al_ok_def)

lemma al_ok_Cons [simp]: "al_ok (e # es) \<longleftrightarrow> (\<forall>e' \<in> set es. fst e < fst e') \<and> al_ok es"
  by (simp add: al_ok_def)

lemma al_put_keys: "fst ` set (al_put k v es) = insert k (fst ` set es)"
  by (induction es) (auto simp: not_less_iff_gr_or_eq)

lemma al_ok_put: "al_ok es \<Longrightarrow> al_ok (al_put k v es)"
proof (induction es)
  case Nil
  then show ?case by simp
next
  case (Cons e es)
  have "\<forall>e' \<in> set (al_put k v es). fst e < fst e'" if "fst e < k"
    using that Cons.prems al_put_keys [of k v es] by auto (metis (no_types, lifting) fst_conv image_eqI insertE imageE)
  with Cons show ?case
    by (auto dest: less_trans not_less_iff_gr_or_eq [THEN iffD1])
qed

lemma al_ok_drop: "al_ok es \<Longrightarrow> al_ok (al_drop k es)"
  by (induction es) (auto simp: al_drop_def)

lemma map_of_al_put: "al_ok es \<Longrightarrow> map_of (al_put k v es) = (map_of es)(k \<mapsto> v)"
  by (induction es) (auto simp: fun_eq_iff)

lemma map_of_al_drop: "map_of (al_drop k es) = (map_of es)(k := None)"
  by (induction es) (auto simp: al_drop_def fun_eq_iff)

lemma al_ok_distinct: "al_ok es \<Longrightarrow> distinct (map fst es)"
  by (induction es) (auto simp: image_iff)

lemma al_ok_map_of_eq:
  "al_ok xs \<Longrightarrow> al_ok ys \<Longrightarrow> map_of xs = map_of ys \<Longrightarrow> xs = ys"
proof (induction xs arbitrary: ys)
  case Nil
  then show ?case by (metis map_of.simps(1) map_of_eq_empty_iff)
next
  case (Cons x xs)
  obtain y ys' where ys: "ys = y # ys'"
    using Cons.prems(3) by (cases ys) (auto simp: fun_eq_iff split: if_splits)
  have keys: "insert (fst x) (fst ` set xs) = insert (fst y) (fst ` set ys')"
    using Cons.prems(3) ys by (metis dom_map_of_conv_image_fst list.set(2) image_insert)
  have "fst x = fst y"
    using Cons.prems(1,2) keys ys
    by (auto simp: set_eq_iff image_iff) (metis insertE insertI1 keys imageE order_less_asym)
  moreover have "snd x = snd y"
    using Cons.prems(3) ys \<open>fst x = fst y\<close> by (auto simp: fun_eq_iff split: if_splits)
  moreover have "map_of xs = map_of ys'"
  proof
    fix k
    have nx: "map_of xs (fst x) = None" "map_of ys' (fst x) = None"
      using Cons.prems(1,2) ys \<open>fst x = fst y\<close>
      by (auto simp: map_of_eq_None_iff)
    show "map_of xs k = map_of ys' k"
      using Cons.prems(3) ys \<open>fst x = fst y\<close> nx
      by (cases "k = fst x") (auto simp: fun_eq_iff split: if_splits)
  qed
  ultimately show ?case
    using Cons ys by (auto simp: prod_eq_iff)
qed

section \<open>The store type\<close>

typedef 'v kv = "{es :: (bytes \<times> 'v) list. al_ok es}"
  morphisms kv_entries kv_of
  by (rule exI [of _ "[]"]) simp

setup_lifting type_definition_kv

lift_definition kv_empty :: "'v kv" is "[]"
  by simp

lift_definition kv_set :: "bytes \<Rightarrow> 'v \<Rightarrow> 'v kv \<Rightarrow> 'v kv" is al_put
  by (rule al_ok_put)

lift_definition kv_delete :: "bytes \<Rightarrow> 'v kv \<Rightarrow> 'v kv" is al_drop
  by (rule al_ok_drop)

definition kv_get :: "'v kv \<Rightarrow> bytes \<Rightarrow> 'v option" where
  "kv_get s = map_of (kv_entries s)"

definition kv_has :: "'v kv \<Rightarrow> bytes \<Rightarrow> bool" where
  "kv_has s k \<longleftrightarrow> kv_get s k \<noteq> None"

text \<open>The entries an iterator over the keys with a prefix visits, in its order.\<close>

definition kv_prefix :: "bytes \<Rightarrow> 'v kv \<Rightarrow> (bytes \<times> 'v) list" where
  "kv_prefix p s = filter (\<lambda>e. prefix p (fst e)) (kv_entries s)"

lemma kv_entries_ok [simp]: "al_ok (kv_entries s)"
  using kv_entries by auto

lemma kv_entries_simps [simp]:
  "kv_entries kv_empty = []"
  "kv_entries (kv_set k v s) = al_put k v (kv_entries s)"
  "kv_entries (kv_delete k s) = al_drop k (kv_entries s)"
  by (simp_all add: kv_empty.rep_eq kv_set.rep_eq kv_delete.rep_eq)

lemma kv_get_empty [simp]: "kv_get kv_empty k = None"
  by (simp add: kv_get_def)

lemma kv_get_set [simp]: "kv_get (kv_set k v s) k' = (if k' = k then Some v else kv_get s k')"
  by (simp add: kv_get_def map_of_al_put)

lemma kv_get_delete [simp]: "kv_get (kv_delete k s) k' = (if k' = k then None else kv_get s k')"
  by (simp add: kv_get_def map_of_al_drop)

lemma kv_has_simps [simp]:
  "kv_has kv_empty k = False"
  "kv_has (kv_set k v s) k' \<longleftrightarrow> k' = k \<or> kv_has s k'"
  "kv_has (kv_delete k s) k' \<longleftrightarrow> k' \<noteq> k \<and> kv_has s k'"
  by (auto simp: kv_has_def)

lemma kv_eqI: "(\<And>k. kv_get s k = kv_get t k) \<Longrightarrow> s = t"
  by (metis al_ok_map_of_eq ext kv_entries_inject kv_entries_ok kv_get_def)

text \<open>Stores are compared by their entries, and their size is the number of entries.\<close>

instantiation kv :: (equal) equal
begin

definition equal_kv :: "'a kv \<Rightarrow> 'a kv \<Rightarrow> bool" where
  "equal_kv s t \<longleftrightarrow> kv_entries s = kv_entries t"

instance
  by standard (simp add: equal_kv_def kv_entries_inject)

end

instantiation kv :: (type) size
begin

definition size_kv :: "'a kv \<Rightarrow> nat" where
  "size_kv s = length (kv_entries s)"

instance ..

end

lemma kv_entries_iff: "(k, v) \<in> set (kv_entries s) \<longleftrightarrow> kv_get s k = Some v"
  by (simp add: kv_get_def al_ok_distinct)

lemma kv_entries_mem: "e \<in> set (kv_entries s) \<longleftrightarrow> kv_get s (fst e) = Some (snd e)"
  using kv_entries_iff [of "fst e" "snd e"] by simp

lemma kv_entries_keys: "k \<in> fst ` set (kv_entries s) \<longleftrightarrow> kv_has s k"
proof
  assume "kv_has s k"
  then obtain v where "(k, v) \<in> set (kv_entries s)" by (auto simp: kv_entries_iff kv_has_def)
  then show "k \<in> fst ` set (kv_entries s)" by (rule rev_image_eqI) simp
qed (auto simp: kv_entries_mem kv_has_def)

lemma kv_entries_distinct: "distinct (map fst (kv_entries s))"
  by (rule al_ok_distinct) simp

lemma kv_prefix_iff: "(k, v) \<in> set (kv_prefix p s) \<longleftrightarrow> prefix p k \<and> kv_get s k = Some v"
  by (auto simp: kv_prefix_def kv_entries_iff)

lemma kv_prefix_mem: "e \<in> set (kv_prefix p s) \<longleftrightarrow> prefix p (fst e) \<and> kv_get s (fst e) = Some (snd e)"
  using kv_prefix_iff [of "fst e" "snd e"] by simp

lemma kv_prefix_keys: "k \<in> fst ` set (kv_prefix p s) \<longleftrightarrow> prefix p k \<and> kv_has s k"
proof
  assume "prefix p k \<and> kv_has s k"
  then obtain v where "(k, v) \<in> set (kv_prefix p s)" by (auto simp: kv_prefix_iff kv_has_def)
  then show "k \<in> fst ` set (kv_prefix p s)" by (rule rev_image_eqI) simp
qed (auto simp: kv_prefix_mem kv_has_def)

lemma kv_prefix_distinct: "distinct (map fst (kv_prefix p s))"
  using kv_entries_distinct [of s] by (simp add: kv_prefix_def distinct_map_filter)

lemma size_kv_keys: "size s = card {k. kv_has s k}"
proof -
  have "{k. kv_has s k} = fst ` set (kv_entries s)" using kv_entries_keys by blast
  then show ?thesis using distinct_card [OF kv_entries_distinct [of s]] by (simp add: size_kv_def)
qed

lemma kv_set_get_same: "kv_get s k = Some v \<Longrightarrow> kv_set k v s = s"
  by (rule kv_eqI) auto

lemma kv_delete_absent: "kv_get s k = None \<Longrightarrow> kv_delete k s = s"
  by (rule kv_eqI) auto

lemma kv_delete_set [simp]: "kv_delete k (kv_set k v s) = kv_delete k s"
  by (rule kv_eqI) auto

lemma kv_set_set [simp]: "kv_set k v (kv_set k w s) = kv_set k v s"
  by (rule kv_eqI) auto

lemma kv_set_commute: "k \<noteq> k' \<Longrightarrow> kv_set k v (kv_set k' w s) = kv_set k' w (kv_set k v s)"
  by (rule kv_eqI) auto

section \<open>Deleting and rebuilding under an iterator\<close>

text \<open>
  Loops that delete or write while they iterate work on the entries the iterator was opened on.
\<close>

definition kv_delete_all :: "bytes list \<Rightarrow> 'v kv \<Rightarrow> 'v kv" where
  "kv_delete_all ks s = fold kv_delete ks s"

lemma kv_get_delete_all: "kv_get (kv_delete_all ks s) k = (if k \<in> set ks then None else kv_get s k)"
  unfolding kv_delete_all_def by (induction ks arbitrary: s) auto

definition kv_set_all :: "(bytes \<times> 'v) list \<Rightarrow> 'v kv \<Rightarrow> 'v kv" where
  "kv_set_all es s = fold (\<lambda>(k, v). kv_set k v) es s"

lemma kv_set_all_simps [simp]:
  "kv_set_all [] s = s"
  "kv_set_all (e # es) s = kv_set_all es (kv_set (fst e) (snd e) s)"
  by (simp_all add: kv_set_all_def case_prod_beta)

lemma kv_get_set_all:
  "distinct (map fst es) \<Longrightarrow>
   kv_get (kv_set_all es s) k = (case map_of es k of Some v \<Rightarrow> Some v | None \<Rightarrow> kv_get s k)"
  by (induction es arbitrary: s) (auto split: option.splits simp: map_of_eq_None_iff rev_image_eqI)

lemma kv_set_all_entries: "kv_set_all (kv_entries s) kv_empty = s"
  by (rule kv_eqI) (simp add: kv_get_set_all kv_entries_distinct flip: kv_get_def split: option.split)

section \<open>The map interface\<close>

text \<open>
  What a keeper relies on when it keeps one kind of value under an encoded key: reading back what
  was written, deleting it, and leaving every other key alone. Keys are legal when the encoding
  tells them apart.
\<close>

locale keyed_store =
  fixes enc :: "'k \<Rightarrow> bytes"
    and legal :: "'k \<Rightarrow> bool"
  assumes enc_inj: "legal k \<Longrightarrow> legal k' \<Longrightarrow> enc k = enc k' \<Longrightarrow> k = k'"
begin

lemma enc_eq: "legal k \<Longrightarrow> legal k' \<Longrightarrow> enc k = enc k' \<longleftrightarrow> k = k'"
  by (auto dest: enc_inj)

lemma get_put:
  "legal k \<Longrightarrow> legal k' \<Longrightarrow>
   kv_get (kv_set (enc k) v s) (enc k') = (if k' = k then Some v else kv_get s (enc k'))"
  by (auto simp: enc_eq)

lemma get_del:
  "legal k \<Longrightarrow> legal k' \<Longrightarrow>
   kv_get (kv_delete (enc k) s) (enc k') = (if k' = k then None else kv_get s (enc k'))"
  by (auto simp: enc_eq)

lemma has_put: "legal k \<Longrightarrow> legal k' \<Longrightarrow> kv_has (kv_set (enc k) v s) (enc k') \<longleftrightarrow> k' = k \<or> kv_has s (enc k')"
  by (auto simp: enc_eq)

lemma has_del: "legal k \<Longrightarrow> legal k' \<Longrightarrow> kv_has (kv_delete (enc k) s) (enc k') \<longleftrightarrow> k' \<noteq> k \<and> kv_has s (enc k')"
  by (auto simp: enc_eq)

end

end
