(* ===== verification/Lib.thy ===== *)
theory Lib
  imports KVStore
begin

text \<open>
  What the modules import from the Cosmos SDK and from ibc-go. The data types are those the code
  reads fields of; the functions are parameters, collected in the record \<open>lib\<close>, and
  \<open>lib_laws\<close> states the documented behaviour that some theorems rely on.
\<close>

section \<open>Data of the libraries\<close>

record Coin =
  Coin_Denom :: string
  Coin_Amount :: int

type_synonym Coins = "Coin list"

record FungibleTokenPacketData =
  Ftd_Denom :: string
  Ftd_Amount :: string
  Ftd_Sender :: string
  Ftd_Receiver :: string
  Ftd_Memo :: string

record Height =
  RevisionNumber :: u64
  RevisionHeight :: u64

record Packet =
  Pkt_Sequence :: u64
  Pkt_SourcePort :: string
  Pkt_SourceChannel :: string
  Pkt_DestPort :: string
  Pkt_DestChannel :: string
  Pkt_Data :: bytes
  Pkt_TimeoutHeight :: Height
  Pkt_TimeoutTimestamp :: u64

record DenomTrace =
  Dt_Path :: string
  Dt_BaseDenom :: string

text \<open>The response of a channel acknowledgement; \<open>Ack_Unset\<close> is a nil response.\<close>

datatype AckResponse = Ack_Result bytes | Ack_Error string | Ack_Unset

record MsgTransfer =
  Mt_SourcePort :: string
  Mt_SourceChannel :: string
  Mt_Token :: Coin
  Mt_Sender :: string
  Mt_Receiver :: string
  Mt_TimeoutHeight :: Height
  Mt_TimeoutTimestamp :: u64
  Mt_Memo :: string

section \<open>Functions of the libraries\<close>

record lib =
  int_fits :: int_bound
  NewIntFromString :: "string \<Rightarrow> int option"
  AccAddressFromBech32 :: "string \<Rightarrow> bytes res"
  ValidateDenom :: "string \<Rightarrow> unit res"
  NewCoin :: "string \<Rightarrow> int \<Rightarrow> Coin res"
  NewCoins :: "Coin list \<Rightarrow> Coins res"
  ChannelIdentifierValidator :: "string \<Rightarrow> unit res"
  ValidateIBCDenom :: "string \<Rightarrow> unit res"
  ParseDenomTrace :: "string \<Rightarrow> DenomTrace"
  IBCDenom :: "DenomTrace \<Rightarrow> string"
  Dt_Hash :: "DenomTrace \<Rightarrow> bytes"
  GetDenomPrefix :: "string \<Rightarrow> string \<Rightarrow> string"
  SenderChainIsSource :: "string \<Rightarrow> string \<Rightarrow> string \<Rightarrow> bool"
  ReceiverChainIsSource :: "string \<Rightarrow> string \<Rightarrow> string \<Rightarrow> bool"
  GetEscrowAddress :: "string \<Rightarrow> string \<Rightarrow> bytes"
  TransferPortID :: string
  TransferModuleName :: string
  Unmarshal_json :: "bytes \<Rightarrow> FungibleTokenPacketData res"
  UnmarshalJSON_packet :: "bytes \<Rightarrow> FungibleTokenPacketData res"
  UnmarshalJSON_ack :: "bytes \<Rightarrow> AckResponse res"
  MsgTransfer_ValidateBasic :: "MsgTransfer \<Rightarrow> unit res"

text \<open>
  Documented behaviour of coins: \<open>NewCoin\<close> panics on a negative amount or an invalid denomination,
  \<open>NewCoins\<close> of one valid coin drops a zero amount.
\<close>

definition coin_laws :: "lib \<Rightarrow> bool" where
  "coin_laws L \<longleftrightarrow>
     (\<forall>d a. NewCoin L d a =
        (if 0 \<le> a \<and> ValidateDenom L d = Ok () then Ok \<lparr>Coin_Denom = d, Coin_Amount = a\<rparr> else Panic)) \<and>
     (\<forall>c. 0 \<le> Coin_Amount c \<longrightarrow> ValidateDenom L (Coin_Denom c) = Ok () \<longrightarrow>
        NewCoins L [c] = Ok (if Coin_Amount c = 0 then [] else [c]))"

text \<open>The amount of a denomination in a list of coins.\<close>

definition AmountOf :: "Coins \<Rightarrow> string \<Rightarrow> int" where
  "AmountOf cs d = sum_list (map Coin_Amount (filter (\<lambda>c. Coin_Denom c = d) cs))"

lemma AmountOf_Nil [simp]: "AmountOf [] d = 0"
  by (simp add: AmountOf_def)

lemma AmountOf_single [simp]: "AmountOf [c] d = (if Coin_Denom c = d then Coin_Amount c else 0)"
  by (simp add: AmountOf_def)

lemma coin_laws_NewCoin:
  "coin_laws L \<Longrightarrow> NewCoin L d a = Ok c \<Longrightarrow>
     0 \<le> a \<and> ValidateDenom L d = Ok () \<and> c = \<lparr>Coin_Denom = d, Coin_Amount = a\<rparr>"
  by (auto simp: coin_laws_def split: if_splits)

lemma coin_laws_NewCoins_amount:
  assumes "coin_laws L" "NewCoin L d a = Ok c" "NewCoins L [c] = Ok cs"
  shows "AmountOf cs d' = (if d' = d then a else 0)"
proof -
  from coin_laws_NewCoin [OF assms(1,2)]
  have c: "0 \<le> a" "ValidateDenom L d = Ok ()" "c = \<lparr>Coin_Denom = d, Coin_Amount = a\<rparr>" by auto
  with assms(1) have "NewCoins L [c] = Ok (if a = 0 then [] else [c])"
    by (auto simp: coin_laws_def)
  with assms(3) c show ?thesis by (auto split: if_splits)
qed

text \<open>
  The bank keeper as the modules use it, over an external state of type \<open>'b\<close>.
\<close>

record 'b bank =
  SendCoins :: "bytes \<Rightarrow> bytes \<Rightarrow> Coins \<Rightarrow> ('b, unit) op"
  MintCoins :: "string \<Rightarrow> Coins \<Rightarrow> ('b, unit) op"
  BurnCoins :: "string \<Rightarrow> Coins \<Rightarrow> ('b, unit) op"
  SendCoinsFromModuleToAccount :: "string \<Rightarrow> bytes \<Rightarrow> Coins \<Rightarrow> ('b, unit) op"
  SendCoinsFromAccountToModule :: "bytes \<Rightarrow> string \<Rightarrow> Coins \<Rightarrow> ('b, unit) op"
  SendCoinsFromModuleToModule :: "string \<Rightarrow> string \<Rightarrow> Coins \<Rightarrow> ('b, unit) op"
  GetBalance :: "'b \<Rightarrow> bytes \<Rightarrow> string \<Rightarrow> int"
  GetSupply :: "'b \<Rightarrow> string \<Rightarrow> int"

text \<open>
  The documented effect of a bank call that succeeds: a transfer moves the amounts and keeps the
  supply, minting and burning change the supply and the balance of the module account \<open>mac m\<close>.
\<close>

definition moved :: "'b bank \<Rightarrow> bytes \<Rightarrow> bytes \<Rightarrow> Coins \<Rightarrow> 'b \<Rightarrow> 'b \<Rightarrow> bool" where
  "moved B from to cs b b' \<longleftrightarrow>
     (\<forall>a d. GetBalance B b' a d =
        GetBalance B b a d - (if a = from then AmountOf cs d else 0)
                           + (if a = to then AmountOf cs d else 0)) \<and>
     GetSupply B b' = GetSupply B b"

definition issued :: "'b bank \<Rightarrow> bytes \<Rightarrow> (string \<Rightarrow> int) \<Rightarrow> 'b \<Rightarrow> 'b \<Rightarrow> bool" where
  "issued B acct amt b b' \<longleftrightarrow>
     (\<forall>a d. GetBalance B b' a d = GetBalance B b a d + (if a = acct then amt d else 0)) \<and>
     (\<forall>d. GetSupply B b' d = GetSupply B b d + amt d)"

definition bank_laws :: "'b bank \<Rightarrow> (string \<Rightarrow> bytes) \<Rightarrow> bool" where
  "bank_laws B mac \<longleftrightarrow>
     (\<forall>f t cs b b'. SendCoins B f t cs b = (Ok (), b') \<longrightarrow> moved B f t cs b b') \<and>
     (\<forall>m t cs b b'. SendCoinsFromModuleToAccount B m t cs b = (Ok (), b') \<longrightarrow> moved B (mac m) t cs b b') \<and>
     (\<forall>f m cs b b'. SendCoinsFromAccountToModule B f m cs b = (Ok (), b') \<longrightarrow> moved B f (mac m) cs b b') \<and>
     (\<forall>m n cs b b'. SendCoinsFromModuleToModule B m n cs b = (Ok (), b') \<longrightarrow> moved B (mac m) (mac n) cs b b') \<and>
     (\<forall>m cs b b'. MintCoins B m cs b = (Ok (), b') \<longrightarrow> issued B (mac m) (AmountOf cs) b b') \<and>
     (\<forall>m cs b b'. BurnCoins B m cs b = (Ok (), b') \<longrightarrow> issued B (mac m) (\<lambda>d. - AmountOf cs d) b b')"

lemma bank_laws_dests:
  assumes "bank_laws B mac"
  shows "SendCoins B f t cs b = (Ok u, b') \<Longrightarrow> moved B f t cs b b'"
    and "SendCoinsFromModuleToAccount B m t cs b = (Ok u, b') \<Longrightarrow> moved B (mac m) t cs b b'"
    and "SendCoinsFromAccountToModule B f m cs b = (Ok u, b') \<Longrightarrow> moved B f (mac m) cs b b'"
    and "SendCoinsFromModuleToModule B m n cs b = (Ok u, b') \<Longrightarrow> moved B (mac m) (mac n) cs b b'"
    and "MintCoins B m cs b = (Ok u, b') \<Longrightarrow> issued B (mac m) (AmountOf cs) b b'"
    and "BurnCoins B m cs b = (Ok u, b') \<Longrightarrow> issued B (mac m) (\<lambda>d. - AmountOf cs d) b b'"
  using assms unfolding bank_laws_def by (simp_all add: unit_eq)

section \<open>Libraries over a part of the state\<close>

text \<open>An operation on a part of a larger state, read with \<open>get\<close> and written back with \<open>put\<close>.\<close>

definition op_on :: "('w \<Rightarrow> 'b) \<Rightarrow> ('b \<Rightarrow> 'w \<Rightarrow> 'w) \<Rightarrow> ('b, 'a) op \<Rightarrow> ('w, 'a) op" where
  "op_on get put m w = (case m (get w) of (r, b) \<Rightarrow> (r, put b w))"

definition bank_on :: "('w \<Rightarrow> 'b) \<Rightarrow> ('b \<Rightarrow> 'w \<Rightarrow> 'w) \<Rightarrow> 'b bank \<Rightarrow> 'w bank" where
  "bank_on get put B =
     \<lparr>SendCoins = (\<lambda>f t cs. op_on get put (SendCoins B f t cs)),
      MintCoins = (\<lambda>m cs. op_on get put (MintCoins B m cs)),
      BurnCoins = (\<lambda>m cs. op_on get put (BurnCoins B m cs)),
      SendCoinsFromModuleToAccount = (\<lambda>m t cs. op_on get put (SendCoinsFromModuleToAccount B m t cs)),
      SendCoinsFromAccountToModule = (\<lambda>f m cs. op_on get put (SendCoinsFromAccountToModule B f m cs)),
      SendCoinsFromModuleToModule = (\<lambda>m n cs. op_on get put (SendCoinsFromModuleToModule B m n cs)),
      GetBalance = (\<lambda>w. GetBalance B (get w)),
      GetSupply = (\<lambda>w. GetSupply B (get w))\<rparr>"

lemma op_on_Ok:
  "op_on get put m w = (r, w') \<longleftrightarrow> (\<exists>b. m (get w) = (r, b) \<and> w' = put b w)"
  by (auto simp: op_on_def split: prod.splits)

lemma bank_laws_on:
  assumes "bank_laws B mac" "\<And>b w. get (put b w) = b"
  shows "bank_laws (bank_on get put B) mac"
  using bank_laws_dests [OF assms(1)] assms(2)
  unfolding bank_laws_def bank_on_def moved_def issued_def by (auto simp: op_on_Ok)

end
