(* ===== verification/Ratelimit_Types.thy ===== *)
theory Ratelimit_Types
  imports Lib
begin

text \<open>
  Data of \<open>x/ratelimit\<close>: paths, quotas, flows, rate limits, epochs and whitelisted pairs, with the
  quota check, the two flow updates, the store keys, the messages with their checks, and genesis data.
\<close>

section \<open>Data\<close>

text \<open>An \<open>int32\<close> enumeration: two named values, and any other number.\<close>

datatype PacketDirection = PACKET_SEND | PACKET_RECV | PACKET_OTHER "32 word"

record Path =
  Path_Denom :: string
  Path_ChannelID :: string

record Quota =
  MaxPercentSend :: int
  MaxPercentRecv :: int
  DurationHours :: u64

record Flow =
  Inflow :: int
  Outflow :: int
  ChannelValue :: int

record RateLimit =
  Rl_Path :: Path
  Rl_Quota :: Quota
  Rl_Flow :: Flow
  MinRateLimitAmount :: int

record WhitelistedAddressPair =
  Wap_Sender :: string
  Wap_Receiver :: string

record EpochInfo =
  Identifier :: string
  StartTime :: gotime
  Duration :: duration
  CurrentEpoch :: i64
  CurrentEpochStartTime :: gotime
  EpochCountingStarted :: bool
  CurrentEpochStartHeight :: i64

section \<open>Flow and quota\<close>

definition NewFlow :: "int \<Rightarrow> Flow" where
  "NewFlow channelValue = \<lparr>Inflow = 0, Outflow = 0, ChannelValue = channelValue\<rparr>"

definition CheckExceedsQuota ::
    "int_bound \<Rightarrow> Quota \<Rightarrow> PacketDirection \<Rightarrow> int \<Rightarrow> int \<Rightarrow> int \<Rightarrow> bool res" where
  "CheckExceedsQuota fits q direction amount totalValue minRateLimitAmount =
     (if totalValue = 0 then Ok False
      else
        res_bind (if direction = PACKET_RECV
                  then res_bind (Int_Mul fits totalValue (MaxPercentRecv q)) (\<lambda>x. Int_Quo x 100)
                  else res_bind (Int_Mul fits totalValue (MaxPercentSend q)) (\<lambda>x. Int_Quo x 100))
          (\<lambda>threshold.
             let threshold = (if threshold < minRateLimitAmount then minRateLimitAmount else threshold)
             in Ok (threshold < amount)))"

text \<open>Both updates return the flow; in the code they write through the pointer.\<close>

definition AddInflow :: "int_bound \<Rightarrow> Flow \<Rightarrow> int \<Rightarrow> Quota \<Rightarrow> int \<Rightarrow> Flow res" where
  "AddInflow fits f amount quota minRateLimit =
     res_bind (Int_Sub fits (Inflow f) (Outflow f)) (\<lambda>d.
     res_bind (Int_Add fits d amount) (\<lambda>netInflow.
     res_bind (CheckExceedsQuota fits quota PACKET_RECV netInflow (ChannelValue f) minRateLimit) (\<lambda>exceeds.
       if exceeds then Err ErrQuotaExceeded
       else res_bind (Int_Add fits (Inflow f) amount) (\<lambda>i. Ok (f\<lparr>Inflow := i\<rparr>)))))"

definition AddOutflow :: "int_bound \<Rightarrow> Flow \<Rightarrow> int \<Rightarrow> Quota \<Rightarrow> int \<Rightarrow> Flow res" where
  "AddOutflow fits f amount quota minRateLimit =
     res_bind (Int_Sub fits (Outflow f) (Inflow f)) (\<lambda>d.
     res_bind (Int_Add fits d amount) (\<lambda>netOutflow.
     res_bind (CheckExceedsQuota fits quota PACKET_SEND netOutflow (ChannelValue f) minRateLimit) (\<lambda>exceeds.
       if exceeds then Err ErrQuotaExceeded
       else res_bind (Int_Add fits (Outflow f) amount) (\<lambda>i. Ok (f\<lparr>Outflow := i\<rparr>)))))"

text \<open>The amount a quota allows in a direction, with exact integers.\<close>

definition allowance :: "Quota \<Rightarrow> PacketDirection \<Rightarrow> int \<Rightarrow> int \<Rightarrow> int" where
  "allowance q direction totalValue minAmount =
     max minAmount
       ((totalValue * (if direction = PACKET_RECV then MaxPercentRecv q else MaxPercentSend q)) sdiv 100)"

lemma CheckExceedsQuota_eq_Ok:
  "CheckExceedsQuota fits q dir a v m = Ok b \<longleftrightarrow>
     (if v = 0 then \<not> b
      else fits (v * (if dir = PACKET_RECV then MaxPercentRecv q else MaxPercentSend q)) \<and>
           b = (allowance q dir v m < a))"
  by (auto simp: CheckExceedsQuota_def allowance_def Let_def max_def)

lemma CheckExceedsQuota_not_Err [simp]: "CheckExceedsQuota fits q dir a v m \<noteq> Err e"
  by (auto simp: CheckExceedsQuota_def Let_def res_bind_eq_Err)

lemma AddOutflow_eq_Ok:
  "AddOutflow fits f a q m = Ok f' \<longleftrightarrow>
     fits (Outflow f - Inflow f) \<and> fits (Outflow f - Inflow f + a) \<and> fits (Outflow f + a) \<and>
     (ChannelValue f \<noteq> 0 \<longrightarrow> fits (ChannelValue f * MaxPercentSend q) \<and>
        Outflow f - Inflow f + a \<le> allowance q PACKET_SEND (ChannelValue f) m) \<and>
     f' = f\<lparr>Outflow := Outflow f + a\<rparr>"
  by (auto simp: AddOutflow_def CheckExceedsQuota_eq_Ok not_less split: if_splits)

lemma AddInflow_eq_Ok:
  "AddInflow fits f a q m = Ok f' \<longleftrightarrow>
     fits (Inflow f - Outflow f) \<and> fits (Inflow f - Outflow f + a) \<and> fits (Inflow f + a) \<and>
     (ChannelValue f \<noteq> 0 \<longrightarrow> fits (ChannelValue f * MaxPercentRecv q) \<and>
        Inflow f - Outflow f + a \<le> allowance q PACKET_RECV (ChannelValue f) m) \<and>
     f' = f\<lparr>Inflow := Inflow f + a\<rparr>"
  by (auto simp: AddInflow_def CheckExceedsQuota_eq_Ok not_less split: if_splits)

lemma AddOutflow_eq_Err:
  "AddOutflow fits f a q m = Err e \<longleftrightarrow>
     e = ErrQuotaExceeded \<and> fits (Outflow f - Inflow f) \<and> fits (Outflow f - Inflow f + a) \<and>
     ChannelValue f \<noteq> 0 \<and> fits (ChannelValue f * MaxPercentSend q) \<and>
     allowance q PACKET_SEND (ChannelValue f) m < Outflow f - Inflow f + a"
  by (auto simp: AddOutflow_def res_bind_eq_Err CheckExceedsQuota_eq_Ok split: if_splits)

lemma AddInflow_eq_Err:
  "AddInflow fits f a q m = Err e \<longleftrightarrow>
     e = ErrQuotaExceeded \<and> fits (Inflow f - Outflow f) \<and> fits (Inflow f - Outflow f + a) \<and>
     ChannelValue f \<noteq> 0 \<and> fits (ChannelValue f * MaxPercentRecv q) \<and>
     allowance q PACKET_RECV (ChannelValue f) m < Inflow f - Outflow f + a"
  by (auto simp: AddInflow_def res_bind_eq_Err CheckExceedsQuota_eq_Ok split: if_splits)

section \<open>Keys\<close>

definition KeyPrefix :: "string \<Rightarrow> bytes" where
  "KeyPrefix p = p"

definition PendingSendPacketChannelLength :: nat where
  "PendingSendPacketChannelLength = 16"

text \<open>\<open>copy\<close> into a zeroed buffer of 16 bytes cuts a longer channel and pads a shorter one.\<close>

definition GetPendingSendPacketKey :: "string \<Rightarrow> u64 \<Rightarrow> bytes" where
  "GetPendingSendPacketKey channelID sequenceNumber =
     (let channelIDBz = take PendingSendPacketChannelLength channelID @
                        replicate (PendingSendPacketChannelLength - length channelID) CHR 0x00
      in channelIDBz @ PutUint64 sequenceNumber)"

definition GetAddressWhitelistKey :: "string \<Rightarrow> string \<Rightarrow> bytes" where
  "GetAddressWhitelistKey sender receiver = KeyPrefix sender @ KeyPrefix receiver"

definition GetRateLimitItemKey :: "string \<Rightarrow> string \<Rightarrow> bytes" where
  "GetRateLimitItemKey denom channelID = KeyPrefix denom @ KeyPrefix channelID"

text \<open>The prefixes of the sub-stores; none is a prefix of another, so the sub-stores are disjoint.\<close>

definition store_prefixes :: "bytes list" where
  "store_prefixes =
     [KeyPrefix ''path'', KeyPrefix ''rate-limit'', KeyPrefix ''pending-send-packet'',
      KeyPrefix ''denom-blacklist'', KeyPrefix ''address-blacklist'', KeyPrefix ''epoch'']"

lemma store_prefixes_disjoint:
  "i < length store_prefixes \<Longrightarrow> j < length store_prefixes \<Longrightarrow>
   prefix (store_prefixes ! i) (store_prefixes ! j @ k) \<longleftrightarrow> i = j"
  by (auto simp: store_prefixes_def KeyPrefix_def less_Suc_eq numeral_eq_Suc)

text \<open>Channel identifiers the pending-packet key tells apart.\<close>

definition pending_channel :: "string \<Rightarrow> bool" where
  "pending_channel c \<longleftrightarrow> length c \<le> 16 \<and> CHR 0x00 \<notin> set c"

lemma length_pending_key [simp]: "length (GetPendingSendPacketKey c n) = 24"
  by (simp add: GetPendingSendPacketKey_def PendingSendPacketChannelLength_def min_def)

lemma pending_key_parts:
  assumes "pending_channel c"
  shows "TrimRight_NUL (take PendingSendPacketChannelLength (GetPendingSendPacketKey c n)) = c"
    and "Uint64_BE (drop PendingSendPacketChannelLength (GetPendingSendPacketKey c n)) = n"
  using assms
  by (simp_all add: GetPendingSendPacketKey_def PendingSendPacketChannelLength_def pending_channel_def
      TrimRight_NUL_pad)

interpretation pending_keys: keyed_store "case_prod GetPendingSendPacketKey" "\<lambda>(c, n). pending_channel c"
proof unfold_locales
  fix k k' :: "string \<times> u64"
  assume "case k of (c, n) \<Rightarrow> pending_channel c" "case k' of (c, n) \<Rightarrow> pending_channel c"
    "case_prod GetPendingSendPacketKey k = case_prod GetPendingSendPacketKey k'"
  then show "k = k'"
    by (cases k, cases k') (metis case_prod_conv pending_key_parts)
qed

section \<open>Messages\<close>

text \<open>
  The amounts of the messages may be absent: \<open>math.Int{}\<close> is \<open>None\<close>, and comparing it panics.
\<close>

definition Int_cmp :: "(int \<Rightarrow> bool) \<Rightarrow> int option \<Rightarrow> bool res" where
  "Int_cmp p x = (case x of None \<Rightarrow> Panic | Some i \<Rightarrow> Ok (p i))"

record MsgRateLimit =
  Mrl_Authority :: string
  Mrl_Denom :: string
  Mrl_ChannelID :: string
  Mrl_MaxPercentSend :: "int option"
  Mrl_MaxPercentRecv :: "int option"
  Mrl_MinRateLimitAmount :: "int option"
  Mrl_DurationHours :: u64

type_synonym MsgAddRateLimit = MsgRateLimit
type_synonym MsgUpdateRateLimit = MsgRateLimit

definition NewMsgAddRateLimit ::
    "string \<Rightarrow> string \<Rightarrow> string \<Rightarrow> int \<Rightarrow> int \<Rightarrow> u64 \<Rightarrow> MsgAddRateLimit" where
  "NewMsgAddRateLimit authority denom channelID maxPercentSend maxPercentRecv durationHours =
     \<lparr>Mrl_Authority = authority, Mrl_Denom = denom, Mrl_ChannelID = channelID,
      Mrl_MaxPercentSend = Some maxPercentSend, Mrl_MaxPercentRecv = Some maxPercentRecv,
      Mrl_MinRateLimitAmount = None, Mrl_DurationHours = durationHours\<rparr>"

definition NewMsgUpdateRateLimit ::
    "string \<Rightarrow> string \<Rightarrow> string \<Rightarrow> int \<Rightarrow> int \<Rightarrow> u64 \<Rightarrow> MsgUpdateRateLimit" where
  "NewMsgUpdateRateLimit authority denom channelID maxPercentSend maxPercentRecv durationHours =
     \<lparr>Mrl_Authority = authority, Mrl_Denom = denom, Mrl_ChannelID = channelID,
      Mrl_MaxPercentSend = Some maxPercentSend, Mrl_MaxPercentRecv = Some maxPercentRecv,
      Mrl_MinRateLimitAmount = None, Mrl_DurationHours = durationHours\<rparr>"

text \<open>A condition \<open>if a || b { return err }\<close> whose operands may panic.\<close>

definition refuse :: "bool res \<Rightarrow> err \<Rightarrow> unit res" where
  "refuse b e = res_bind b (\<lambda>x. guard (\<not> x) e)"

definition or_else :: "bool res \<Rightarrow> bool res \<Rightarrow> bool res" where
  "or_else a b = res_bind a (\<lambda>x. if x then Ok True else b)"

definition and_also :: "bool res \<Rightarrow> bool res \<Rightarrow> bool res" where
  "and_also a b = res_bind a (\<lambda>x. if x then b else Ok False)"

definition MsgAddRateLimit_ValidateBasic :: "lib \<Rightarrow> MsgAddRateLimit \<Rightarrow> unit res" where
  "MsgAddRateLimit_ValidateBasic L msg =
     res_bind (AccAddressFromBech32 L (Mrl_Authority msg)) (\<lambda>_.
     res_bind (ChannelIdentifierValidator L (Mrl_ChannelID msg)) (\<lambda>_.
     res_bind (refuse (or_else (Int_cmp (\<lambda>i. 100 < i) (Mrl_MaxPercentSend msg))
                               (Int_cmp (\<lambda>i. i < 0) (Mrl_MaxPercentSend msg))) ErrInvalidRequest) (\<lambda>_.
     res_bind (refuse (or_else (Int_cmp (\<lambda>i. 100 < i) (Mrl_MaxPercentRecv msg))
                               (Int_cmp (\<lambda>i. i < 0) (Mrl_MaxPercentRecv msg))) ErrInvalidRequest) (\<lambda>_.
     res_bind (refuse (and_also (Int_cmp (\<lambda>i. i = 0) (Mrl_MaxPercentRecv msg))
                                (Int_cmp (\<lambda>i. i = 0) (Mrl_MaxPercentSend msg))) ErrInvalidRequest) (\<lambda>_.
     res_bind (refuse (Int_cmp (\<lambda>i. i \<le> 0) (Mrl_MinRateLimitAmount msg)) ErrInvalidRequest) (\<lambda>_.
     guard (Mrl_DurationHours msg \<noteq> 0) ErrInvalidRequest))))))"

definition MsgUpdateRateLimit_ValidateBasic :: "lib \<Rightarrow> MsgUpdateRateLimit \<Rightarrow> unit res" where
  "MsgUpdateRateLimit_ValidateBasic L msg =
     res_bind (AccAddressFromBech32 L (Mrl_Authority msg)) (\<lambda>_.
     res_bind (ChannelIdentifierValidator L (Mrl_ChannelID msg)) (\<lambda>_.
     res_bind (refuse (or_else (Int_cmp (\<lambda>i. 100 < i) (Mrl_MaxPercentSend msg))
                               (Int_cmp (\<lambda>i. i < 0) (Mrl_MaxPercentSend msg))) ErrInvalidRequest) (\<lambda>_.
     res_bind (refuse (or_else (Int_cmp (\<lambda>i. 100 < i) (Mrl_MaxPercentRecv msg))
                               (Int_cmp (\<lambda>i. i < 0) (Mrl_MaxPercentRecv msg))) ErrInvalidRequest) (\<lambda>_.
     res_bind (refuse (and_also (Int_cmp (\<lambda>i. i = 0) (Mrl_MaxPercentRecv msg))
                                (Int_cmp (\<lambda>i. i = 0) (Mrl_MaxPercentSend msg))) ErrInvalidRequest) (\<lambda>_.
     res_bind (refuse (Int_cmp (\<lambda>i. i \<le> 0) (Mrl_MinRateLimitAmount msg)) ErrInvalidRequest) (\<lambda>_.
     guard (Mrl_DurationHours msg \<noteq> 0) ErrInvalidRequest))))))"

record MsgRateLimitPath =
  Mrp_Authority :: string
  Mrp_Denom :: string
  Mrp_ChannelID :: string

type_synonym MsgRemoveRateLimit = MsgRateLimitPath
type_synonym MsgResetRateLimit = MsgRateLimitPath

definition NewMsgRemoveRateLimit :: "string \<Rightarrow> string \<Rightarrow> string \<Rightarrow> MsgRemoveRateLimit" where
  "NewMsgRemoveRateLimit authority denom channelID =
     \<lparr>Mrp_Authority = authority, Mrp_Denom = denom, Mrp_ChannelID = channelID\<rparr>"

definition NewMsgResetRateLimit :: "string \<Rightarrow> string \<Rightarrow> string \<Rightarrow> MsgResetRateLimit" where
  "NewMsgResetRateLimit authority denom channelID =
     \<lparr>Mrp_Authority = authority, Mrp_Denom = denom, Mrp_ChannelID = channelID\<rparr>"

definition MsgRemoveRateLimit_ValidateBasic :: "lib \<Rightarrow> MsgRemoveRateLimit \<Rightarrow> unit res" where
  "MsgRemoveRateLimit_ValidateBasic L msg =
     res_bind (AccAddressFromBech32 L (Mrp_Authority msg)) (\<lambda>_.
     ChannelIdentifierValidator L (Mrp_ChannelID msg))"

definition MsgResetRateLimit_ValidateBasic :: "lib \<Rightarrow> MsgResetRateLimit \<Rightarrow> unit res" where
  "MsgResetRateLimit_ValidateBasic L msg =
     res_bind (AccAddressFromBech32 L (Mrp_Authority msg)) (\<lambda>_.
     ChannelIdentifierValidator L (Mrp_ChannelID msg))"

text \<open>\<open>GetSigners\<close> of each message: the authority, empty when it does not parse.\<close>

definition authority_signer :: "lib \<Rightarrow> string \<Rightarrow> bytes list" where
  "authority_signer L authority =
     [case AccAddressFromBech32 L authority of Ok addr \<Rightarrow> addr | _ \<Rightarrow> []]"

definition MsgAddRateLimit_GetSigners :: "lib \<Rightarrow> MsgAddRateLimit \<Rightarrow> bytes list" where
  "MsgAddRateLimit_GetSigners L msg = authority_signer L (Mrl_Authority msg)"

definition MsgUpdateRateLimit_GetSigners :: "lib \<Rightarrow> MsgUpdateRateLimit \<Rightarrow> bytes list" where
  "MsgUpdateRateLimit_GetSigners L msg = authority_signer L (Mrl_Authority msg)"

definition MsgRemoveRateLimit_GetSigners :: "lib \<Rightarrow> MsgRemoveRateLimit \<Rightarrow> bytes list" where
  "MsgRemoveRateLimit_GetSigners L msg = authority_signer L (Mrp_Authority msg)"

definition MsgResetRateLimit_GetSigners :: "lib \<Rightarrow> MsgResetRateLimit \<Rightarrow> bytes list" where
  "MsgResetRateLimit_GetSigners L msg = authority_signer L (Mrp_Authority msg)"

lemma refuse_simps [simp]:
  "refuse b e = Ok u \<longleftrightarrow> b = Ok False"
  "or_else a b = Ok False \<longleftrightarrow> a = Ok False \<and> b = Ok False"
  "and_also a b = Ok False \<longleftrightarrow> a = Ok False \<or> a = Ok True \<and> b = Ok False"
  "Int_cmp p x = Ok r \<longleftrightarrow> (\<exists>i. x = Some i \<and> r = p i)"
  by (auto simp: refuse_def or_else_def and_also_def Int_cmp_def split: option.splits)

section \<open>Epochs and genesis data\<close>

definition no_epoch :: EpochInfo where
  "no_epoch = \<lparr>Identifier = [], StartTime = zero_time, Duration = 0, CurrentEpoch = 0,
     CurrentEpochStartTime = zero_time, EpochCountingStarted = False, CurrentEpochStartHeight = 0\<rparr>"

definition DayEpoch :: string where
  "DayEpoch = ''hour''"

definition EpochHourPeriod :: duration where
  "EpochHourPeriod = 24 * (3600 * 1000000000)"

definition EpochInfo_Validate :: "EpochInfo \<Rightarrow> unit res" where
  "EpochInfo_Validate epoch =
     res_bind (guard (Identifier epoch \<noteq> []) (ErrPlain ''epoch identifier should NOT be empty'')) (\<lambda>_.
     res_bind (guard (Duration epoch \<noteq> 0) (ErrPlain ''epoch duration should NOT be 0'')) (\<lambda>_.
     res_bind (guard (0 \<le> sint (CurrentEpoch epoch)) (ErrPlain ''epoch CurrentEpoch must be non-negative'')) (\<lambda>_.
     guard (0 \<le> sint (CurrentEpochStartHeight epoch)) (ErrPlain ''epoch CurrentEpoch must be non-negative''))))"

definition NewGenesisEpochInfo :: "string \<Rightarrow> duration \<Rightarrow> EpochInfo" where
  "NewGenesisEpochInfo identifier d =
     \<lparr>Identifier = identifier, StartTime = zero_time, Duration = d, CurrentEpoch = 0,
      CurrentEpochStartTime = zero_time, EpochCountingStarted = False, CurrentEpochStartHeight = 0\<rparr>"

text \<open>The parameters are an empty struct and are left out.\<close>

record rl_GenesisState =
  Rg_RateLimits :: "RateLimit list"
  Rg_WhitelistedAddressPairs :: "WhitelistedAddressPair list"
  Rg_PendingSendPacketSequenceNumbers :: "string list"
  Rg_Epochs :: "EpochInfo list"

definition rl_DefaultGenesisState :: rl_GenesisState where
  "rl_DefaultGenesisState =
     \<lparr>Rg_RateLimits = [], Rg_WhitelistedAddressPairs = [], Rg_PendingSendPacketSequenceNumbers = [],
      Rg_Epochs = [NewGenesisEpochInfo DayEpoch EpochHourPeriod]\<rparr>"

definition rl_ValidateGenesis :: "rl_GenesisState \<Rightarrow> unit res" where
  "rl_ValidateGenesis data = Ok ()"

end
