(* ===== verification/Tfmw_Keeper.thy ===== *)
theory Tfmw_Keeper
  imports Lib
begin

text \<open>
  The registry of \<open>x/transfermiddleware\<close>: token information of the parachain under three keys, the
  list of tokens to be removed, the relayer allow list, the messages that change them, the begin
  blocker and the genesis. The module store is one store whose keys start with a byte per kind.
\<close>

section \<open>Data\<close>

record ParachainIBCTokenInfo =
  IbcDenom :: string
  ChannelID :: string
  NativeDenom :: string
  AssetId :: string

definition no_info :: ParachainIBCTokenInfo where
  "no_info = \<lparr>IbcDenom = [], ChannelID = [], NativeDenom = [], AssetId = []\<rparr>"

record RemoveParachainIBCTokenInfo_t =
  Rm_NativeDenom :: string
  Rm_RemoveTime :: gotime

datatype tfmw_val =
    V_Info ParachainIBCTokenInfo
  | V_Denom string
  | V_One
  | V_Remove RemoveParachainIBCTokenInfo_t

datatype tfmw_event =
    EventAddParachainIBCTokenInfo string string string
  | EventRemoveParachainIBCTokenInfo string gotime
  | EventAddRlyToAllowList string

text \<open>
  \<open>tfmw_params\<close> is the only parameter, the delay before a token is removed; reading it before it was
  set panics. \<open>tfmw_events\<close> are the events emitted, newest last.
\<close>

record tfmw_state =
  tfmw_store :: "tfmw_val kv"
  tfmw_params :: "duration option"
  tfmw_events :: "tfmw_event list"

definition tfmw_empty :: tfmw_state where
  "tfmw_empty = \<lparr>tfmw_store = kv_empty, tfmw_params = None, tfmw_events = []\<rparr>"

section \<open>Keys\<close>

definition KeyParachainIBCTokenInfoByNativeDenom :: bytes where
  "KeyParachainIBCTokenInfoByNativeDenom = [CHR 0x01]"

definition KeyParachainIBCTokenInfoByAssetID :: bytes where
  "KeyParachainIBCTokenInfoByAssetID = [CHR 0x02]"

definition KeyIBCDenomAndNativeIndex :: bytes where
  "KeyIBCDenomAndNativeIndex = [CHR 0x03]"

definition KeyRlyAddress :: bytes where
  "KeyRlyAddress = [CHR 0x04]"

definition KeyParachainIBCTokenRemoveListByNativeDenom :: bytes where
  "KeyParachainIBCTokenRemoveListByNativeDenom = [CHR 0x05]"

definition GetKeyParachainIBCTokenInfoByNativeDenom :: "string \<Rightarrow> bytes" where
  "GetKeyParachainIBCTokenInfoByNativeDenom nativeDenom = KeyParachainIBCTokenInfoByNativeDenom @ nativeDenom"

definition GetKeyParachainIBCTokenInfoByAssetID :: "string \<Rightarrow> bytes" where
  "GetKeyParachainIBCTokenInfoByAssetID assetID = KeyParachainIBCTokenInfoByAssetID @ assetID"

definition GetKeyNativeDenomAndIbcSecondaryIndex :: "string \<Rightarrow> bytes" where
  "GetKeyNativeDenomAndIbcSecondaryIndex ibcDenom = KeyIBCDenomAndNativeIndex @ ibcDenom"

definition GetKeyByRlyAddress :: "string \<Rightarrow> bytes" where
  "GetKeyByRlyAddress rlyAddress = KeyRlyAddress @ rlyAddress"

definition GetKeyParachainIBCTokenRemoveListByNativeDenom :: "string \<Rightarrow> bytes" where
  "GetKeyParachainIBCTokenRemoveListByNativeDenom nativeDenom =
     KeyParachainIBCTokenRemoveListByNativeDenom @ nativeDenom"

lemmas tfmw_prefix_defs =
  KeyParachainIBCTokenInfoByNativeDenom_def KeyParachainIBCTokenInfoByAssetID_def
  KeyIBCDenomAndNativeIndex_def KeyRlyAddress_def KeyParachainIBCTokenRemoveListByNativeDenom_def

lemmas tfmw_key_defs =
  tfmw_prefix_defs
  GetKeyParachainIBCTokenInfoByNativeDenom_def GetKeyParachainIBCTokenInfoByAssetID_def
  GetKeyNativeDenomAndIbcSecondaryIndex_def GetKeyByRlyAddress_def
  GetKeyParachainIBCTokenRemoveListByNativeDenom_def

interpretation native_keys: keyed_store GetKeyParachainIBCTokenInfoByNativeDenom "\<lambda>_. True"
  by unfold_locales (simp add: tfmw_key_defs)

interpretation asset_keys: keyed_store GetKeyParachainIBCTokenInfoByAssetID "\<lambda>_. True"
  by unfold_locales (simp add: tfmw_key_defs)

interpretation ibc_keys: keyed_store GetKeyNativeDenomAndIbcSecondaryIndex "\<lambda>_. True"
  by unfold_locales (simp add: tfmw_key_defs)

interpretation rly_keys: keyed_store GetKeyByRlyAddress "\<lambda>_. True"
  by unfold_locales (simp add: tfmw_key_defs)

interpretation remove_keys: keyed_store GetKeyParachainIBCTokenRemoveListByNativeDenom "\<lambda>_. True"
  by unfold_locales (simp add: tfmw_key_defs)

lemmas tfmw_enc_eq [simp] =
  native_keys.enc_eq [OF TrueI TrueI] asset_keys.enc_eq [OF TrueI TrueI]
  ibc_keys.enc_eq [OF TrueI TrueI] rly_keys.enc_eq [OF TrueI TrueI]
  remove_keys.enc_eq [OF TrueI TrueI]

text \<open>Keys of different kinds differ in their first byte.\<close>

lemma tfmw_keys_differ [simp]:
  "GetKeyParachainIBCTokenInfoByNativeDenom a \<noteq> GetKeyParachainIBCTokenInfoByAssetID b"
  "GetKeyParachainIBCTokenInfoByNativeDenom a \<noteq> GetKeyNativeDenomAndIbcSecondaryIndex b"
  "GetKeyParachainIBCTokenInfoByNativeDenom a \<noteq> GetKeyByRlyAddress b"
  "GetKeyParachainIBCTokenInfoByNativeDenom a \<noteq> GetKeyParachainIBCTokenRemoveListByNativeDenom b"
  "GetKeyParachainIBCTokenInfoByAssetID a \<noteq> GetKeyParachainIBCTokenInfoByNativeDenom b"
  "GetKeyParachainIBCTokenInfoByAssetID a \<noteq> GetKeyNativeDenomAndIbcSecondaryIndex b"
  "GetKeyParachainIBCTokenInfoByAssetID a \<noteq> GetKeyByRlyAddress b"
  "GetKeyParachainIBCTokenInfoByAssetID a \<noteq> GetKeyParachainIBCTokenRemoveListByNativeDenom b"
  "GetKeyNativeDenomAndIbcSecondaryIndex a \<noteq> GetKeyParachainIBCTokenInfoByNativeDenom b"
  "GetKeyNativeDenomAndIbcSecondaryIndex a \<noteq> GetKeyParachainIBCTokenInfoByAssetID b"
  "GetKeyNativeDenomAndIbcSecondaryIndex a \<noteq> GetKeyByRlyAddress b"
  "GetKeyNativeDenomAndIbcSecondaryIndex a \<noteq> GetKeyParachainIBCTokenRemoveListByNativeDenom b"
  "GetKeyByRlyAddress a \<noteq> GetKeyParachainIBCTokenInfoByNativeDenom b"
  "GetKeyByRlyAddress a \<noteq> GetKeyParachainIBCTokenInfoByAssetID b"
  "GetKeyByRlyAddress a \<noteq> GetKeyNativeDenomAndIbcSecondaryIndex b"
  "GetKeyByRlyAddress a \<noteq> GetKeyParachainIBCTokenRemoveListByNativeDenom b"
  "GetKeyParachainIBCTokenRemoveListByNativeDenom a \<noteq> GetKeyParachainIBCTokenInfoByNativeDenom b"
  "GetKeyParachainIBCTokenRemoveListByNativeDenom a \<noteq> GetKeyParachainIBCTokenInfoByAssetID b"
  "GetKeyParachainIBCTokenRemoveListByNativeDenom a \<noteq> GetKeyNativeDenomAndIbcSecondaryIndex b"
  "GetKeyParachainIBCTokenRemoveListByNativeDenom a \<noteq> GetKeyByRlyAddress b"
  by (simp_all add: tfmw_key_defs)

section \<open>Reading the registry\<close>

definition hasParachainIBCTokenInfo :: "tfmw_state \<Rightarrow> string \<Rightarrow> bool" where
  "hasParachainIBCTokenInfo s nativeDenom =
     kv_has (tfmw_store s) (GetKeyParachainIBCTokenInfoByNativeDenom nativeDenom)"

definition HasParachainIBCTokenInfoByNativeDenom :: "tfmw_state \<Rightarrow> string \<Rightarrow> bool" where
  "HasParachainIBCTokenInfoByNativeDenom s nativeDenom =
     kv_has (tfmw_store s) (GetKeyParachainIBCTokenInfoByNativeDenom nativeDenom)"

definition HasParachainIBCTokenInfoByAssetID :: "tfmw_state \<Rightarrow> string \<Rightarrow> bool" where
  "HasParachainIBCTokenInfoByAssetID s assetID =
     kv_has (tfmw_store s) (GetKeyParachainIBCTokenInfoByAssetID assetID)"

text \<open>
  The getters unmarshal without looking at the error, so a missing key yields the zero struct.
\<close>

definition unmarshal_info :: "tfmw_val option \<Rightarrow> ParachainIBCTokenInfo" where
  "unmarshal_info v = (case v of Some (V_Info i) \<Rightarrow> i | _ \<Rightarrow> no_info)"

definition GetParachainIBCTokenInfoByNativeDenom :: "tfmw_state \<Rightarrow> string \<Rightarrow> ParachainIBCTokenInfo" where
  "GetParachainIBCTokenInfoByNativeDenom s nativeDenom =
     unmarshal_info (kv_get (tfmw_store s) (GetKeyParachainIBCTokenInfoByNativeDenom nativeDenom))"

definition GetParachainIBCTokenInfoByAssetID :: "tfmw_state \<Rightarrow> string \<Rightarrow> ParachainIBCTokenInfo" where
  "GetParachainIBCTokenInfoByAssetID s assetID =
     unmarshal_info (kv_get (tfmw_store s) (GetKeyParachainIBCTokenInfoByAssetID assetID))"

definition GetNativeDenomByIBCDenomSecondaryIndex :: "tfmw_state \<Rightarrow> string \<Rightarrow> string" where
  "GetNativeDenomByIBCDenomSecondaryIndex s ibcDenom =
     (case kv_get (tfmw_store s) (GetKeyNativeDenomAndIbcSecondaryIndex ibcDenom) of
        Some (V_Denom d) \<Rightarrow> d
      | _ \<Rightarrow> [])"

lemma unmarshal_info_simps [simp]:
  "unmarshal_info None = no_info"
  "unmarshal_info (Some (V_Info i)) = i"
  by (simp_all add: unmarshal_info_def)

text \<open>The decoded values under a prefix, in key order.\<close>

definition infos_under :: "bytes \<Rightarrow> tfmw_state \<Rightarrow> ParachainIBCTokenInfo list" where
  "infos_under p s =
     List.map_filter (\<lambda>e. case snd e of V_Info i \<Rightarrow> Some i | _ \<Rightarrow> None) (kv_prefix p (tfmw_store s))"

definition IterateParaTokenInfos ::
    "tfmw_state \<Rightarrow> (i64 \<Rightarrow> ParachainIBCTokenInfo \<Rightarrow> 'a \<Rightarrow> bool \<times> 'a) \<Rightarrow> 'a \<Rightarrow> 'a" where
  "IterateParaTokenInfos s fn acc =
     iterate_until (\<lambda>(i, info). fn (word_of_nat i) info)
       (enumerate 0 (infos_under KeyParachainIBCTokenInfoByAssetID s)) acc"

definition remove_list :: "tfmw_state \<Rightarrow> RemoveParachainIBCTokenInfo_t list" where
  "remove_list s =
     List.map_filter (\<lambda>e. case snd e of V_Remove r \<Rightarrow> Some r | _ \<Rightarrow> None)
       (kv_prefix KeyParachainIBCTokenRemoveListByNativeDenom (tfmw_store s))"

definition IterateRemoveListInfo ::
    "(RemoveParachainIBCTokenInfo_t \<Rightarrow> tfmw_state \<Rightarrow> bool \<times> tfmw_state) \<Rightarrow> tfmw_state \<Rightarrow> tfmw_state" where
  "IterateRemoveListInfo cb s = iterate_until cb (remove_list s) s"

section \<open>Changing the registry\<close>

definition AddParachainIBCInfo ::
    "string \<Rightarrow> string \<Rightarrow> string \<Rightarrow> string \<Rightarrow> (tfmw_state, unit) op" where
  "AddParachainIBCInfo ibcDenom channelID nativeDenom assetID s =
     (if kv_has (tfmw_store s) (GetKeyParachainIBCTokenInfoByAssetID assetID)
      then (Err ErrMultipleMapping, s)
      else if kv_has (tfmw_store s) (GetKeyNativeDenomAndIbcSecondaryIndex ibcDenom)
      then (Err ErrMultipleMapping, s)
      else if kv_has (tfmw_store s) (GetKeyParachainIBCTokenInfoByNativeDenom nativeDenom)
      then (Err ErrMultipleMapping, s)
      else
        (let info = \<lparr>IbcDenom = ibcDenom, ChannelID = channelID,
                     NativeDenom = nativeDenom, AssetId = assetID\<rparr>;
             st = tfmw_store s;
             st = kv_set (GetKeyParachainIBCTokenInfoByNativeDenom nativeDenom) (V_Info info) st;
             st = kv_set (GetKeyParachainIBCTokenInfoByAssetID assetID) (V_Info info) st;
             st = kv_set (GetKeyNativeDenomAndIbcSecondaryIndex ibcDenom) (V_Denom nativeDenom) st
         in (Ok (), s\<lparr>tfmw_store := st\<rparr>)))"

definition tfmw_GetParams :: "tfmw_state \<Rightarrow> duration res" where
  "tfmw_GetParams s = (case tfmw_params s of None \<Rightarrow> Panic | Some d \<Rightarrow> Ok d)"

definition tfmw_SetParams :: "duration \<Rightarrow> tfmw_state \<Rightarrow> tfmw_state" where
  "tfmw_SetParams d s = s\<lparr>tfmw_params := Some d\<rparr>"

definition AddParachainIBCInfoToRemoveList :: "ctx \<Rightarrow> string \<Rightarrow> (tfmw_state, gotime) op" where
  "AddParachainIBCInfoToRemoveList ctx nativeDenom s =
     (case tfmw_GetParams s of
        Ok params_Duration \<Rightarrow>
          (if \<not> kv_has (tfmw_store s) (GetKeyParachainIBCTokenInfoByNativeDenom nativeDenom)
           then (Err ErrKeyNotFound, s)
           else
             (let removeTime = BlockTime ctx + params_Duration;
                  removeToken = \<lparr>Rm_NativeDenom = nativeDenom, Rm_RemoveTime = removeTime\<rparr>
              in (Ok removeTime,
                  s\<lparr>tfmw_store := kv_set (GetKeyParachainIBCTokenRemoveListByNativeDenom nativeDenom)
                                     (V_Remove removeToken) (tfmw_store s)\<rparr>)))
      | Err e \<Rightarrow> (Err e, s)
      | Panic \<Rightarrow> (Panic, s))"

definition RemoveParachainIBCInfo :: "string \<Rightarrow> (tfmw_state, unit) op" where
  "RemoveParachainIBCInfo nativeDenom s =
     (if \<not> hasParachainIBCTokenInfo s nativeDenom then (Err NotRegisteredNativeDenom, s)
      else
        (let tokenInfo = GetParachainIBCTokenInfoByNativeDenom s nativeDenom;
             st = tfmw_store s;
             st = kv_delete (GetKeyParachainIBCTokenInfoByNativeDenom nativeDenom) st;
             st = kv_delete (GetKeyParachainIBCTokenInfoByAssetID (AssetId tokenInfo)) st;
             st = kv_delete (GetKeyNativeDenomAndIbcSecondaryIndex (IbcDenom tokenInfo)) st
         in (Ok (), s\<lparr>tfmw_store := st\<rparr>)))"

section \<open>The relayer allow list\<close>

definition SetAllowRlyAddress :: "string \<Rightarrow> tfmw_state \<Rightarrow> tfmw_state" where
  "SetAllowRlyAddress rlyAddress s =
     s\<lparr>tfmw_store := kv_set (GetKeyByRlyAddress rlyAddress) V_One (tfmw_store s)\<rparr>"

definition DeleteAllowRlyAddress :: "string \<Rightarrow> tfmw_state \<Rightarrow> tfmw_state" where
  "DeleteAllowRlyAddress rlyAddress s =
     s\<lparr>tfmw_store := kv_delete (GetKeyByRlyAddress rlyAddress) (tfmw_store s)\<rparr>"

definition HasAllowRlyAddress :: "tfmw_state \<Rightarrow> string \<Rightarrow> bool" where
  "HasAllowRlyAddress s rlyAddress =
     (if kv_has (tfmw_store s) (GetKeyByRlyAddress rlyAddress) then True
      else kv_prefix KeyRlyAddress (tfmw_store s) = [])"

definition allowed_rly :: "tfmw_state \<Rightarrow> string list" where
  "allowed_rly s =
     map (\<lambda>e. drop (length KeyRlyAddress) (fst e)) (kv_prefix KeyRlyAddress (tfmw_store s))"

definition IterateAllowRlyAddress :: "tfmw_state \<Rightarrow> (string \<Rightarrow> 'a \<Rightarrow> bool \<times> 'a) \<Rightarrow> 'a \<Rightarrow> 'a" where
  "IterateAllowRlyAddress s cb acc = iterate_until cb (allowed_rly s) acc"

end
