(* ===== verification/Tfmw_Registry.thy ===== *)
theory Tfmw_Registry
  imports Tfmw_Keeper
begin

text \<open>
  Correctness of the token registry: the three indices describe one set of tokens
  (\<open>registry_ok\<close>), adding and removing tokens act on that set, and the lookups read it. The
  interface the relay code and the rate limiter use is the locale \<open>token_registry\<close>.
\<close>

section \<open>The abstract registry\<close>

text \<open>The set of tokens a state registers, read off the index by native denomination.\<close>

definition registered :: "tfmw_state \<Rightarrow> ParachainIBCTokenInfo set" where
  "registered s =
     {i. kv_get (tfmw_store s) (GetKeyParachainIBCTokenInfoByNativeDenom (NativeDenom i)) = Some (V_Info i)}"

definition registry_ok :: "tfmw_state \<Rightarrow> bool" where
  "registry_ok s \<longleftrightarrow>
     (\<forall>n v. kv_get (tfmw_store s) (GetKeyParachainIBCTokenInfoByNativeDenom n) = Some v \<longrightarrow>
        (\<exists>i. v = V_Info i \<and> NativeDenom i = n \<and>
           kv_get (tfmw_store s) (GetKeyParachainIBCTokenInfoByAssetID (AssetId i)) = Some (V_Info i) \<and>
           kv_get (tfmw_store s) (GetKeyNativeDenomAndIbcSecondaryIndex (IbcDenom i)) = Some (V_Denom n))) \<and>
     (\<forall>a v. kv_get (tfmw_store s) (GetKeyParachainIBCTokenInfoByAssetID a) = Some v \<longrightarrow>
        (\<exists>i \<in> registered s. v = V_Info i \<and> AssetId i = a)) \<and>
     (\<forall>d v. kv_get (tfmw_store s) (GetKeyNativeDenomAndIbcSecondaryIndex d) = Some v \<longrightarrow>
        (\<exists>i \<in> registered s. v = V_Denom (NativeDenom i) \<and> IbcDenom i = d))"

lemma registry_native:
  assumes "registry_ok s" "kv_get (tfmw_store s) (GetKeyParachainIBCTokenInfoByNativeDenom n) = Some v"
  obtains i where "v = V_Info i" "NativeDenom i = n" "i \<in> registered s"
  using assms unfolding registry_ok_def registered_def by force

lemma registered_native:
  "i \<in> registered s \<Longrightarrow>
   kv_get (tfmw_store s) (GetKeyParachainIBCTokenInfoByNativeDenom (NativeDenom i)) = Some (V_Info i)"
  by (simp add: registered_def)

lemma registered_asset:
  "registry_ok s \<Longrightarrow> i \<in> registered s \<Longrightarrow>
   kv_get (tfmw_store s) (GetKeyParachainIBCTokenInfoByAssetID (AssetId i)) = Some (V_Info i)"
  unfolding registry_ok_def registered_def by fastforce

lemma registered_ibc:
  "registry_ok s \<Longrightarrow> i \<in> registered s \<Longrightarrow>
   kv_get (tfmw_store s) (GetKeyNativeDenomAndIbcSecondaryIndex (IbcDenom i)) = Some (V_Denom (NativeDenom i))"
  unfolding registry_ok_def registered_def by fastforce

lemma registry_asset:
  assumes "registry_ok s" "kv_get (tfmw_store s) (GetKeyParachainIBCTokenInfoByAssetID a) = Some v"
  obtains i where "v = V_Info i" "AssetId i = a" "i \<in> registered s"
  using assms unfolding registry_ok_def by blast

lemma registry_ibc:
  assumes "registry_ok s" "kv_get (tfmw_store s) (GetKeyNativeDenomAndIbcSecondaryIndex d) = Some v"
  obtains i where "v = V_Denom (NativeDenom i)" "IbcDenom i = d" "i \<in> registered s"
  using assms unfolding registry_ok_def by blast

lemma registry_okI:
  assumes "\<And>n v. kv_get (tfmw_store s) (GetKeyParachainIBCTokenInfoByNativeDenom n) = Some v \<Longrightarrow>
      \<exists>i \<in> registered s. v = V_Info i \<and> NativeDenom i = n"
    and "\<And>i. i \<in> registered s \<Longrightarrow>
      kv_get (tfmw_store s) (GetKeyParachainIBCTokenInfoByAssetID (AssetId i)) = Some (V_Info i) \<and>
      kv_get (tfmw_store s) (GetKeyNativeDenomAndIbcSecondaryIndex (IbcDenom i)) = Some (V_Denom (NativeDenom i))"
    and "\<And>a v. kv_get (tfmw_store s) (GetKeyParachainIBCTokenInfoByAssetID a) = Some v \<Longrightarrow>
      \<exists>i \<in> registered s. v = V_Info i \<and> AssetId i = a"
    and "\<And>d v. kv_get (tfmw_store s) (GetKeyNativeDenomAndIbcSecondaryIndex d) = Some v \<Longrightarrow>
      \<exists>i \<in> registered s. v = V_Denom (NativeDenom i) \<and> IbcDenom i = d"
  shows "registry_ok s"
  unfolding registry_ok_def
proof (intro conjI allI impI)
  fix n v
  assume "kv_get (tfmw_store s) (GetKeyParachainIBCTokenInfoByNativeDenom n) = Some v"
  from assms(1) [OF this] assms(2)
  show "\<exists>i. v = V_Info i \<and> NativeDenom i = n \<and>
      kv_get (tfmw_store s) (GetKeyParachainIBCTokenInfoByAssetID (AssetId i)) = Some (V_Info i) \<and>
      kv_get (tfmw_store s) (GetKeyNativeDenomAndIbcSecondaryIndex (IbcDenom i)) = Some (V_Denom n)"
    by blast
qed (use assms(3,4) in blast)+

text \<open>Only the three indices matter to the registry.\<close>

definition same_indices :: "tfmw_state \<Rightarrow> tfmw_state \<Rightarrow> bool" where
  "same_indices s t \<longleftrightarrow>
     (\<forall>x. kv_get (tfmw_store t) (GetKeyParachainIBCTokenInfoByNativeDenom x) =
          kv_get (tfmw_store s) (GetKeyParachainIBCTokenInfoByNativeDenom x) \<and>
          kv_get (tfmw_store t) (GetKeyParachainIBCTokenInfoByAssetID x) =
          kv_get (tfmw_store s) (GetKeyParachainIBCTokenInfoByAssetID x) \<and>
          kv_get (tfmw_store t) (GetKeyNativeDenomAndIbcSecondaryIndex x) =
          kv_get (tfmw_store s) (GetKeyNativeDenomAndIbcSecondaryIndex x))"

lemma same_indices_refl [simp]: "same_indices s s"
  by (simp add: same_indices_def)

lemma same_indices_registered: "same_indices s t \<Longrightarrow> registered t = registered s"
  by (simp add: same_indices_def registered_def)

lemma same_indices_registry_ok: "same_indices s t \<Longrightarrow> registry_ok t \<longleftrightarrow> registry_ok s"
  unfolding registry_ok_def by (simp add: same_indices_registered) (simp add: same_indices_def)

lemma registry_ok_empty [simp]: "registry_ok tfmw_empty" "registered tfmw_empty = {}"
  by (auto simp: registry_ok_def registered_def tfmw_empty_def)

section \<open>The operations on the abstract registry\<close>

definition no_clash :: "ParachainIBCTokenInfo \<Rightarrow> tfmw_state \<Rightarrow> bool" where
  "no_clash i s \<longleftrightarrow>
     (\<forall>j \<in> registered s. AssetId j \<noteq> AssetId i \<and> IbcDenom j \<noteq> IbcDenom i \<and> NativeDenom j \<noteq> NativeDenom i)"

lemma has_keys_iff:
  assumes "registry_ok s"
  shows "kv_has (tfmw_store s) (GetKeyParachainIBCTokenInfoByNativeDenom n) \<longleftrightarrow>
           (\<exists>i \<in> registered s. NativeDenom i = n)"
    and "kv_has (tfmw_store s) (GetKeyParachainIBCTokenInfoByAssetID a) \<longleftrightarrow>
           (\<exists>i \<in> registered s. AssetId i = a)"
    and "kv_has (tfmw_store s) (GetKeyNativeDenomAndIbcSecondaryIndex d) \<longleftrightarrow>
           (\<exists>i \<in> registered s. IbcDenom i = d)"
  using assms unfolding kv_has_def
  by (auto elim: registry_native registry_asset registry_ibc
      simp: registered_native registered_asset registered_ibc)

lemma AddParachainIBCInfo_result:
  assumes "registry_ok s"
    and "i = \<lparr>IbcDenom = d, ChannelID = c, NativeDenom = n, AssetId = a\<rparr>"
  shows "AddParachainIBCInfo d c n a s =
     (if no_clash i s
      then (Ok (), s\<lparr>tfmw_store :=
             kv_set (GetKeyNativeDenomAndIbcSecondaryIndex d) (V_Denom n)
              (kv_set (GetKeyParachainIBCTokenInfoByAssetID a) (V_Info i)
               (kv_set (GetKeyParachainIBCTokenInfoByNativeDenom n) (V_Info i) (tfmw_store s)))\<rparr>)
      else (Err ErrMultipleMapping, s))"
  using assms by (auto simp: AddParachainIBCInfo_def has_keys_iff no_clash_def Let_def)

lemma AddParachainIBCInfo_registered:
  assumes ok: "registry_ok s" and add: "AddParachainIBCInfo d c n a s = (Ok (), t)"
  defines "i \<equiv> \<lparr>IbcDenom = d, ChannelID = c, NativeDenom = n, AssetId = a\<rparr>"
  shows "registered t = insert i (registered s)" and "registry_ok t" and "no_clash i s"
proof -
  have nc: "no_clash i s" and
    t: "tfmw_store t =
          kv_set (GetKeyNativeDenomAndIbcSecondaryIndex d) (V_Denom n)
            (kv_set (GetKeyParachainIBCTokenInfoByAssetID a) (V_Info i)
              (kv_set (GetKeyParachainIBCTokenInfoByNativeDenom n) (V_Info i) (tfmw_store s)))"
    using add AddParachainIBCInfo_result [OF ok, of i d c n a] by (auto simp: i_def split: if_splits)
  show "no_clash i s" by (rule nc)
  show reg: "registered t = insert i (registered s)"
    using nc by (auto simp: registered_def t i_def no_clash_def split: if_splits)
  show "registry_ok t"
  proof (rule registry_okI)
    show "\<exists>i' \<in> registered t. v = V_Info i' \<and> NativeDenom i' = m"
      if "kv_get (tfmw_store t) (GetKeyParachainIBCTokenInfoByNativeDenom m) = Some v" for m v
      using that by (auto simp: reg t i_def split: if_splits elim: registry_native [OF ok])
    show "kv_get (tfmw_store t) (GetKeyParachainIBCTokenInfoByAssetID (AssetId j)) = Some (V_Info j) \<and>
          kv_get (tfmw_store t) (GetKeyNativeDenomAndIbcSecondaryIndex (IbcDenom j)) = Some (V_Denom (NativeDenom j))"
      if "j \<in> registered t" for j
      using that nc registered_asset [OF ok, of j] registered_ibc [OF ok, of j]
      by (auto simp: reg t i_def no_clash_def)
    show "\<exists>i' \<in> registered t. v = V_Info i' \<and> AssetId i' = b"
      if "kv_get (tfmw_store t) (GetKeyParachainIBCTokenInfoByAssetID b) = Some v" for b v
      using that by (auto simp: reg t i_def split: if_splits elim: registry_asset [OF ok])
    show "\<exists>i' \<in> registered t. v = V_Denom (NativeDenom i') \<and> IbcDenom i' = e"
      if "kv_get (tfmw_store t) (GetKeyNativeDenomAndIbcSecondaryIndex e) = Some v" for e v
      using that by (auto simp: reg t i_def split: if_splits elim: registry_ibc [OF ok])
  qed
qed

text \<open>Distinct tokens of a registry share no key.\<close>

lemma registered_inj:
  assumes "registry_ok s" "i \<in> registered s" "j \<in> registered s"
  shows "NativeDenom i = NativeDenom j \<Longrightarrow> i = j"
    and "AssetId i = AssetId j \<Longrightarrow> i = j"
    and "IbcDenom i = IbcDenom j \<Longrightarrow> i = j"
proof -
  show n: "i = j" if "NativeDenom i = NativeDenom j"
    using registered_native [OF assms(2)] registered_native [OF assms(3)]
    unfolding that by (metis option.inject tfmw_val.inject(1))
  show "i = j" if "AssetId i = AssetId j"
    using registered_asset [OF assms(1,2)] registered_asset [OF assms(1,3)]
    unfolding that by (metis option.inject tfmw_val.inject(1))
  show "i = j" if "IbcDenom i = IbcDenom j"
    using registered_ibc [OF assms(1,2)] registered_ibc [OF assms(1,3)]
    unfolding that by (intro n) (metis option.inject tfmw_val.inject(2))
qed

lemma registered_inj_on:
  assumes "registry_ok s"
  shows "inj_on NativeDenom (registered s)" "inj_on AssetId (registered s)" "inj_on IbcDenom (registered s)"
  by (rule inj_onI, erule (2) registered_inj [OF assms])+

lemma RemoveParachainIBCInfo_result:
  assumes "registry_ok s"
  shows "i \<in> registered s \<Longrightarrow> NativeDenom i = n \<Longrightarrow>
      RemoveParachainIBCInfo n s =
        (Ok (), s\<lparr>tfmw_store :=
           kv_delete (GetKeyNativeDenomAndIbcSecondaryIndex (IbcDenom i))
             (kv_delete (GetKeyParachainIBCTokenInfoByAssetID (AssetId i))
               (kv_delete (GetKeyParachainIBCTokenInfoByNativeDenom n) (tfmw_store s)))\<rparr>)"
    and "\<forall>i \<in> registered s. NativeDenom i \<noteq> n \<Longrightarrow>
      RemoveParachainIBCInfo n s = (Err NotRegisteredNativeDenom, s)"
proof -
  assume i: "i \<in> registered s" "NativeDenom i = n"
  then have "hasParachainIBCTokenInfo s n"
    using has_keys_iff(1) [OF assms, of n] by (auto simp: hasParachainIBCTokenInfo_def)
  moreover have "GetParachainIBCTokenInfoByNativeDenom s n = i"
    using registered_native [OF i(1)] i(2) by (simp add: GetParachainIBCTokenInfoByNativeDenom_def)
  ultimately show "RemoveParachainIBCInfo n s =
        (Ok (), s\<lparr>tfmw_store :=
           kv_delete (GetKeyNativeDenomAndIbcSecondaryIndex (IbcDenom i))
             (kv_delete (GetKeyParachainIBCTokenInfoByAssetID (AssetId i))
               (kv_delete (GetKeyParachainIBCTokenInfoByNativeDenom n) (tfmw_store s)))\<rparr>)"
    by (simp add: RemoveParachainIBCInfo_def Let_def)
next
  assume "\<forall>i \<in> registered s. NativeDenom i \<noteq> n"
  then show "RemoveParachainIBCInfo n s = (Err NotRegisteredNativeDenom, s)"
    using has_keys_iff(1) [OF assms, of n]
    by (simp add: RemoveParachainIBCInfo_def hasParachainIBCTokenInfo_def)
qed

lemma RemoveParachainIBCInfo_registered:
  assumes ok: "registry_ok s" and rm: "RemoveParachainIBCInfo n s = (Ok (), t)"
  shows "registered t = {i \<in> registered s. NativeDenom i \<noteq> n}" and "registry_ok t"
proof -
  obtain i where i: "i \<in> registered s" "NativeDenom i = n"
    using rm RemoveParachainIBCInfo_result(2) [OF ok, of n] by fastforce
  have t: "tfmw_store t =
           kv_delete (GetKeyNativeDenomAndIbcSecondaryIndex (IbcDenom i))
             (kv_delete (GetKeyParachainIBCTokenInfoByAssetID (AssetId i))
               (kv_delete (GetKeyParachainIBCTokenInfoByNativeDenom n) (tfmw_store s)))"
    using rm RemoveParachainIBCInfo_result(1) [OF ok i] by auto
  show reg: "registered t = {i \<in> registered s. NativeDenom i \<noteq> n}"
    by (auto simp: registered_def t)
  have keep: "AssetId j \<noteq> AssetId i \<and> IbcDenom j \<noteq> IbcDenom i" if "j \<in> registered t" for j
    using that registered_inj [OF ok i(1), of j] i by (auto simp: reg)
  have keep': "j \<in> registered t" if "j \<in> registered s" "j \<noteq> i" for j
    using that registered_inj(1) [OF ok i(1), of j] i by (auto simp: reg)
  show "registry_ok t"
  proof (rule registry_okI)
    show "\<exists>i' \<in> registered t. v = V_Info i' \<and> NativeDenom i' = m"
      if "kv_get (tfmw_store t) (GetKeyParachainIBCTokenInfoByNativeDenom m) = Some v" for m v
      using that by (auto simp: reg t split: if_splits elim!: registry_native [OF ok])
    show "kv_get (tfmw_store t) (GetKeyParachainIBCTokenInfoByAssetID (AssetId j)) = Some (V_Info j) \<and>
          kv_get (tfmw_store t) (GetKeyNativeDenomAndIbcSecondaryIndex (IbcDenom j)) = Some (V_Denom (NativeDenom j))"
      if j: "j \<in> registered t" for j
      using keep [OF j] j registered_asset [OF ok, of j] registered_ibc [OF ok, of j] by (auto simp: reg t)
    show "\<exists>i' \<in> registered t. v = V_Info i' \<and> AssetId i' = b"
      if "kv_get (tfmw_store t) (GetKeyParachainIBCTokenInfoByAssetID b) = Some v" for b v
      using that keep' by (auto simp: t split: if_splits elim!: registry_asset [OF ok])
    show "\<exists>i' \<in> registered t. v = V_Denom (NativeDenom i') \<and> IbcDenom i' = e"
      if "kv_get (tfmw_store t) (GetKeyNativeDenomAndIbcSecondaryIndex e) = Some v" for e v
      using that keep' by (auto simp: t split: if_splits elim!: registry_ibc [OF ok])
  qed
qed

section \<open>The registry interface\<close>

text \<open>
  The lookups of \<open>types.TransferMiddlewareKeeper\<close> that other code calls, over the set of registered
  tokens.
\<close>

locale token_registry =
  fixes inv :: "'s \<Rightarrow> bool"
    and infos :: "'s \<Rightarrow> ParachainIBCTokenInfo set"
    and has_native :: "'s \<Rightarrow> string \<Rightarrow> bool"
    and by_native :: "'s \<Rightarrow> string \<Rightarrow> ParachainIBCTokenInfo"
    and by_asset :: "'s \<Rightarrow> string \<Rightarrow> ParachainIBCTokenInfo"
    and native_of_ibc :: "'s \<Rightarrow> string \<Rightarrow> string"
  assumes has_native_iff: "inv s \<Longrightarrow> has_native s n \<longleftrightarrow> (\<exists>i \<in> infos s. NativeDenom i = n)"
    and by_native_in: "inv s \<Longrightarrow> i \<in> infos s \<Longrightarrow> by_native s (NativeDenom i) = i"
    and by_native_out: "inv s \<Longrightarrow> \<forall>i \<in> infos s. NativeDenom i \<noteq> n \<Longrightarrow> by_native s n = no_info"
    and by_asset_in: "inv s \<Longrightarrow> i \<in> infos s \<Longrightarrow> by_asset s (AssetId i) = i"
    and by_asset_out: "inv s \<Longrightarrow> \<forall>i \<in> infos s. AssetId i \<noteq> a \<Longrightarrow> by_asset s a = no_info"
    and ibc_in: "inv s \<Longrightarrow> i \<in> infos s \<Longrightarrow> native_of_ibc s (IbcDenom i) = NativeDenom i"
    and ibc_out: "inv s \<Longrightarrow> \<forall>i \<in> infos s. IbcDenom i \<noteq> d \<Longrightarrow> native_of_ibc s d = []"
begin

lemma by_native_has:
  assumes "inv s" "has_native s n"
  shows "by_native s n \<in> infos s" and "NativeDenom (by_native s n) = n"
  using assms by (auto simp: has_native_iff by_native_in)

lemma by_asset_cases:
  assumes "inv s"
  obtains (found) i where "i \<in> infos s" "AssetId i = a" "by_asset s a = i"
    | (missing) "by_asset s a = no_info"
  using by_asset_out [OF assms, of a] by_asset_in [OF assms] by blast

text \<open>
  When the asset index and the IBC index agree on a non-empty native denomination, they speak of
  the same token.
\<close>

lemma indices_agree:
  assumes "inv s" "native_of_ibc s d = NativeDenom (by_asset s a)" "native_of_ibc s d \<noteq> []"
  shows "by_asset s a \<in> infos s" and "AssetId (by_asset s a) = a" and "IbcDenom (by_asset s a) = d"
proof -
  have "by_asset s a \<noteq> no_info" using assms(2,3) by (auto simp: no_info_def)
  with by_asset_cases [OF assms(1), of a]
  show in_infos: "by_asset s a \<in> infos s" and "AssetId (by_asset s a) = a" by metis+
  from assms(1,3) obtain j where j: "j \<in> infos s" "IbcDenom j = d"
    using ibc_out [of s d] by blast
  then have "NativeDenom j = NativeDenom (by_asset s a)"
    using ibc_in [OF assms(1) j(1)] assms(2) by simp
  then have "j = by_asset s a"
    using by_native_in [OF assms(1)] j(1) in_infos by metis
  with j show "IbcDenom (by_asset s a) = d" by simp
qed

end

interpretation tfmw: token_registry registry_ok registered HasParachainIBCTokenInfoByNativeDenom
  GetParachainIBCTokenInfoByNativeDenom GetParachainIBCTokenInfoByAssetID
  GetNativeDenomByIBCDenomSecondaryIndex
proof unfold_locales
  fix s n a d and i :: ParachainIBCTokenInfo
  assume ok: "registry_ok s"
  show "HasParachainIBCTokenInfoByNativeDenom s n \<longleftrightarrow> (\<exists>i \<in> registered s. NativeDenom i = n)"
    by (simp add: HasParachainIBCTokenInfoByNativeDenom_def has_keys_iff(1) [OF ok])
  show "GetParachainIBCTokenInfoByNativeDenom s n = no_info" if "\<forall>i \<in> registered s. NativeDenom i \<noteq> n"
    using that has_keys_iff(1) [OF ok, of n]
    by (simp add: GetParachainIBCTokenInfoByNativeDenom_def kv_has_def)
  show "GetParachainIBCTokenInfoByAssetID s a = no_info" if "\<forall>i \<in> registered s. AssetId i \<noteq> a"
    using that has_keys_iff(2) [OF ok, of a]
    by (simp add: GetParachainIBCTokenInfoByAssetID_def kv_has_def)
  show "GetNativeDenomByIBCDenomSecondaryIndex s d = []" if "\<forall>i \<in> registered s. IbcDenom i \<noteq> d"
    using that has_keys_iff(3) [OF ok, of d]
    by (simp add: GetNativeDenomByIBCDenomSecondaryIndex_def kv_has_def)
  assume i: "i \<in> registered s"
  show "GetParachainIBCTokenInfoByNativeDenom s (NativeDenom i) = i"
    by (simp add: GetParachainIBCTokenInfoByNativeDenom_def registered_native [OF i])
  show "GetParachainIBCTokenInfoByAssetID s (AssetId i) = i"
    by (simp add: GetParachainIBCTokenInfoByAssetID_def registered_asset [OF ok i])
  show "GetNativeDenomByIBCDenomSecondaryIndex s (IbcDenom i) = NativeDenom i"
    by (simp add: GetNativeDenomByIBCDenomSecondaryIndex_def registered_ibc [OF ok i])
qed

end
