(* ===== verification/Ratelimit_Keeper.thy ===== *)
theory Ratelimit_Keeper
  imports Ratelimit_Types Tfmw_Registry
begin

text \<open>
  The keeper of \<open>x/ratelimit\<close>: rate limits, pending packets, the whitelist and epochs, each in the
  sub-store of its prefix, with the flow check, the reset at the end of an epoch, the begin blocker,
  genesis, the message server and the queries.
\<close>

section \<open>State\<close>

datatype rl_event =
    TransferDenied string PacketDirection string string int err
  | EpochStart i64 int

record rl_state =
  rl_limits :: "RateLimit kv"
  rl_pending :: "unit kv"
  rl_whitelist :: "WhitelistedAddressPair kv"
  rl_epochs :: "EpochInfo kv"
  rl_events :: "rl_event list"

definition rl_empty :: rl_state where
  "rl_empty = \<lparr>rl_limits = kv_empty, rl_pending = kv_empty, rl_whitelist = kv_empty,
     rl_epochs = kv_empty, rl_events = []\<rparr>"

text \<open>What the keeper reads of other modules: the supply in the bank and the token registry.\<close>

record rl_env =
  env_supply :: "string \<Rightarrow> int"
  env_tfmw :: tfmw_state

record RateLimitedPacketInfo =
  Pi_ChannelID :: string
  Pi_Denom :: string
  Pi_Amount :: int
  Pi_Sender :: string
  Pi_Receiver :: string

definition emit_rl :: "rl_event \<Rightarrow> rl_state \<Rightarrow> rl_state" where
  "emit_rl e s = s\<lparr>rl_events := rl_events s @ [e]\<rparr>"

section \<open>Rate limits\<close>

definition GetChannelValue :: "rl_env \<Rightarrow> string \<Rightarrow> int" where
  "GetChannelValue env denom = env_supply env denom"

definition SetRateLimit :: "RateLimit \<Rightarrow> rl_state \<Rightarrow> rl_state" where
  "SetRateLimit rateLimit s =
     s\<lparr>rl_limits := kv_set (GetRateLimitItemKey (Path_Denom (Rl_Path rateLimit)) (Path_ChannelID (Rl_Path rateLimit)))
                      rateLimit (rl_limits s)\<rparr>"

definition GetRateLimit :: "rl_state \<Rightarrow> string \<Rightarrow> string \<Rightarrow> RateLimit option" where
  "GetRateLimit s denom channelID = kv_get (rl_limits s) (GetRateLimitItemKey denom channelID)"

definition GetAllRateLimits :: "rl_state \<Rightarrow> RateLimit list" where
  "GetAllRateLimits s = map snd (kv_entries (rl_limits s))"

text \<open>The lookup the add, update, remove and reset operations start with.\<close>

definition resolve_denom :: "rl_env \<Rightarrow> string \<Rightarrow> string \<Rightarrow> string" where
  "resolve_denom env denom channelID =
     (if HasParachainIBCTokenInfoByNativeDenom (env_tfmw env) denom
      then (let tokenInfo = GetParachainIBCTokenInfoByNativeDenom (env_tfmw env) denom
            in if channelID = ChannelID tokenInfo then IbcDenom tokenInfo else denom)
      else denom)"

text \<open>An absent amount is written to the store as zero.\<close>

definition stored_Int :: "int option \<Rightarrow> int" where
  "stored_Int x = (case x of None \<Rightarrow> 0 | Some i \<Rightarrow> i)"

definition limit_of_msg :: "rl_env \<Rightarrow> string \<Rightarrow> MsgRateLimit \<Rightarrow> int \<Rightarrow> RateLimit" where
  "limit_of_msg env denom msg channelValue =
     \<lparr>Rl_Path = \<lparr>Path_Denom = denom, Path_ChannelID = Mrl_ChannelID msg\<rparr>,
      Rl_Quota = \<lparr>MaxPercentSend = stored_Int (Mrl_MaxPercentSend msg),
                  MaxPercentRecv = stored_Int (Mrl_MaxPercentRecv msg),
                  DurationHours = Mrl_DurationHours msg\<rparr>,
      Rl_Flow = \<lparr>Inflow = 0, Outflow = 0, ChannelValue = channelValue\<rparr>,
      MinRateLimitAmount = stored_Int (Mrl_MinRateLimitAmount msg)\<rparr>"

definition AddRateLimit :: "rl_env \<Rightarrow> MsgAddRateLimit \<Rightarrow> (rl_state, unit) op" where
  "AddRateLimit env msg s =
     (let denom = resolve_denom env (Mrl_Denom msg) (Mrl_ChannelID msg);
          channelValue = GetChannelValue env denom
      in if channelValue = 0 then (Err ErrZeroChannelValue, s)
         else if GetRateLimit s denom (Mrl_ChannelID msg) \<noteq> None then (Err ErrRateLimitAlreadyExists, s)
         else (Ok (), SetRateLimit (limit_of_msg env denom msg channelValue) s))"

definition UpdateRateLimit :: "rl_env \<Rightarrow> MsgUpdateRateLimit \<Rightarrow> (rl_state, unit) op" where
  "UpdateRateLimit env msg s =
     (let denom = resolve_denom env (Mrl_Denom msg) (Mrl_ChannelID msg)
      in if GetRateLimit s denom (Mrl_ChannelID msg) = None then (Err ErrRateLimitNotFound, s)
         else (Ok (), SetRateLimit (limit_of_msg env denom msg (GetChannelValue env denom)) s))"

definition RemoveRateLimit :: "rl_env \<Rightarrow> string \<Rightarrow> string \<Rightarrow> (rl_state, unit) op" where
  "RemoveRateLimit env denom channelID s =
     (let denom = resolve_denom env denom channelID
      in if GetRateLimit s denom channelID = None then (Err ErrRateLimitNotFound, s)
         else (Ok (), s\<lparr>rl_limits := kv_delete (GetRateLimitItemKey denom channelID) (rl_limits s)\<rparr>))"

section \<open>Pending packets\<close>

definition SetPendingSendPacket :: "string \<Rightarrow> u64 \<Rightarrow> rl_state \<Rightarrow> rl_state" where
  "SetPendingSendPacket channelID sequence s =
     s\<lparr>rl_pending := kv_set (GetPendingSendPacketKey channelID sequence) () (rl_pending s)\<rparr>"

definition RemovePendingSendPacket :: "string \<Rightarrow> u64 \<Rightarrow> rl_state \<Rightarrow> rl_state" where
  "RemovePendingSendPacket channelID sequence s =
     s\<lparr>rl_pending := kv_delete (GetPendingSendPacketKey channelID sequence) (rl_pending s)\<rparr>"

definition CheckPacketSentDuringCurrentQuota :: "rl_state \<Rightarrow> string \<Rightarrow> u64 \<Rightarrow> bool" where
  "CheckPacketSentDuringCurrentQuota s channelID sequence =
     kv_has (rl_pending s) (GetPendingSendPacketKey channelID sequence)"

definition GetAllPendingSendPackets :: "rl_state \<Rightarrow> string list" where
  "GetAllPendingSendPackets s =
     map (\<lambda>(key, _).
        let channelID = TrimRight_NUL (take PendingSendPacketChannelLength key);
            sequence = Uint64_BE (drop PendingSendPacketChannelLength key)
        in channelID @ ''/'' @ show_nat (unat sequence)) (kv_entries (rl_pending s))"

definition RemoveAllChannelPendingSendPackets :: "string \<Rightarrow> rl_state \<Rightarrow> rl_state" where
  "RemoveAllChannelPendingSendPackets channelID s =
     s\<lparr>rl_pending := kv_delete_all (map fst (kv_prefix (KeyPrefix channelID) (rl_pending s))) (rl_pending s)\<rparr>"

definition ResetRateLimit :: "rl_env \<Rightarrow> string \<Rightarrow> string \<Rightarrow> (rl_state, unit) op" where
  "ResetRateLimit env denom channelID s =
     (let denom = resolve_denom env denom channelID
      in case GetRateLimit s denom channelID of
           None \<Rightarrow> (Err ErrRateLimitNotFound, s)
         | Some rateLimit \<Rightarrow>
             (let flow = \<lparr>Inflow = 0, Outflow = 0, ChannelValue = GetChannelValue env denom\<rparr>;
                  s = SetRateLimit (rateLimit\<lparr>Rl_Flow := flow\<rparr>) s
              in (Ok (), RemoveAllChannelPendingSendPackets channelID s)))"

section \<open>Whitelist\<close>

definition SetWhitelistedAddressPair :: "WhitelistedAddressPair \<Rightarrow> rl_state \<Rightarrow> rl_state" where
  "SetWhitelistedAddressPair whitelist s =
     s\<lparr>rl_whitelist := kv_set (GetAddressWhitelistKey (Wap_Sender whitelist) (Wap_Receiver whitelist))
                         whitelist (rl_whitelist s)\<rparr>"

definition RemoveWhitelistedAddressPair :: "string \<Rightarrow> string \<Rightarrow> rl_state \<Rightarrow> rl_state" where
  "RemoveWhitelistedAddressPair sender receiver s =
     s\<lparr>rl_whitelist := kv_delete (GetAddressWhitelistKey sender receiver) (rl_whitelist s)\<rparr>"

text \<open>A pair of two empty strings marshals to no bytes and reads as absent.\<close>

definition IsAddressPairWhitelisted :: "rl_state \<Rightarrow> string \<Rightarrow> string \<Rightarrow> bool" where
  "IsAddressPairWhitelisted s sender receiver =
     (case kv_get (rl_whitelist s) (GetAddressWhitelistKey sender receiver) of
        None \<Rightarrow> False
      | Some w \<Rightarrow> Wap_Sender w \<noteq> [] \<or> Wap_Receiver w \<noteq> [])"

definition GetAllWhitelistedAddressPairs :: "rl_state \<Rightarrow> WhitelistedAddressPair list" where
  "GetAllWhitelistedAddressPairs s = map snd (kv_entries (rl_whitelist s))"

section \<open>Flow\<close>

definition EmitTransferDeniedEvent ::
    "string \<Rightarrow> string \<Rightarrow> string \<Rightarrow> PacketDirection \<Rightarrow> int \<Rightarrow> err \<Rightarrow> rl_state \<Rightarrow> rl_state" where
  "EmitTransferDeniedEvent reason denom channelID direction amount e s =
     emit_rl (TransferDenied reason direction denom channelID amount e) s"

definition UpdateFlow :: "int_bound \<Rightarrow> RateLimit \<Rightarrow> PacketDirection \<Rightarrow> int \<Rightarrow> RateLimit res" where
  "UpdateFlow fits rateLimit direction amount =
     (case direction of
        PACKET_SEND \<Rightarrow>
          res_bind (AddOutflow fits (Rl_Flow rateLimit) amount (Rl_Quota rateLimit) (MinRateLimitAmount rateLimit))
            (\<lambda>f. Ok (rateLimit\<lparr>Rl_Flow := f\<rparr>))
      | PACKET_RECV \<Rightarrow>
          res_bind (AddInflow fits (Rl_Flow rateLimit) amount (Rl_Quota rateLimit) (MinRateLimitAmount rateLimit))
            (\<lambda>f. Ok (rateLimit\<lparr>Rl_Flow := f\<rparr>))
      | PACKET_OTHER _ \<Rightarrow> Err ErrInvalidRequest)"

definition CheckRateLimitAndUpdateFlow ::
    "int_bound \<Rightarrow> PacketDirection \<Rightarrow> RateLimitedPacketInfo \<Rightarrow> (rl_state, bool) op" where
  "CheckRateLimitAndUpdateFlow fits direction packetInfo s =
     (let denom = Pi_Denom packetInfo;
          channelID = Pi_ChannelID packetInfo;
          amount = Pi_Amount packetInfo
      in case GetRateLimit s denom channelID of
           None \<Rightarrow> (Ok False, s)
         | Some rateLimit \<Rightarrow>
             (if IsAddressPairWhitelisted s (Pi_Sender packetInfo) (Pi_Receiver packetInfo) then (Ok False, s)
              else
                (case UpdateFlow fits rateLimit direction amount of
                   Ok rateLimit \<Rightarrow> (Ok True, SetRateLimit rateLimit s)
                 | Err e \<Rightarrow>
                     (Err e, EmitTransferDeniedEvent ''rate_limit_exceeded'' denom channelID direction amount e s)
                 | Panic \<Rightarrow> (Panic, s))))"

definition UndoSendPacket ::
    "int_bound \<Rightarrow> string \<Rightarrow> u64 \<Rightarrow> string \<Rightarrow> int \<Rightarrow> (rl_state, unit) op" where
  "UndoSendPacket fits channelID sequence denom amount s =
     (case GetRateLimit s denom channelID of
        None \<Rightarrow> (Ok (), s)
      | Some rateLimit \<Rightarrow>
          (if CheckPacketSentDuringCurrentQuota s channelID sequence
           then (case Int_Sub fits (Outflow (Rl_Flow rateLimit)) amount of
                   Ok outflow \<Rightarrow>
                     (let s = SetRateLimit (rateLimit\<lparr>Rl_Flow := (Rl_Flow rateLimit)\<lparr>Outflow := outflow\<rparr>\<rparr>) s
                      in (Ok (), RemovePendingSendPacket channelID sequence s))
                 | Err e \<Rightarrow> (Err e, s)
                 | Panic \<Rightarrow> (Panic, s))
           else (Ok (), s)))"

end
