(* ===== verification/Ratelimit_Packet.thy ===== *)
theory Ratelimit_Packet
  imports Ratelimit_Keeper
begin

text \<open>
  The packet side of \<open>x/ratelimit\<close>: which denomination and channel a packet counts for, and what
  sending, receiving, acknowledging and timing out a packet do to the flows.
\<close>

section \<open>Reading a packet\<close>

definition ParseDenomFromSendPacket :: "lib \<Rightarrow> FungibleTokenPacketData \<Rightarrow> string" where
  "ParseDenomFromSendPacket L packet =
     (let denomTrace = ParseDenomTrace L (Ftd_Denom packet)
      in if Dt_Path denomTrace = [] then Ftd_Denom packet else IBCDenom L denomTrace)"

text \<open>Cutting the prefix off a shorter string panics, as slicing does in Go.\<close>

definition ParseDenomFromRecvPacket :: "lib \<Rightarrow> Packet \<Rightarrow> FungibleTokenPacketData \<Rightarrow> string res" where
  "ParseDenomFromRecvPacket L packet packetData =
     (if ReceiverChainIsSource L (Pkt_SourcePort packet) (Pkt_SourceChannel packet) (Ftd_Denom packetData)
      then
        (let sourcePrefix = GetDenomPrefix L (Pkt_SourcePort packet) (Pkt_SourceChannel packet)
         in if length (Ftd_Denom packetData) < length sourcePrefix then Panic
            else
              (let unprefixedDenom = drop (length sourcePrefix) (Ftd_Denom packetData);
                   denomTrace = ParseDenomTrace L unprefixedDenom
               in Ok (if Dt_Path denomTrace = [] then unprefixedDenom else IBCDenom L denomTrace)))
      else
        (let destinationPrefix = GetDenomPrefix L (Pkt_DestPort packet) (Pkt_DestChannel packet);
             prefixedDenom = destinationPrefix @ Ftd_Denom packetData;
             denomTrace = ParseDenomTrace L prefixedDenom
         in Ok (IBCDenom L denomTrace)))"

definition ParsePacketInfo :: "lib \<Rightarrow> Packet \<Rightarrow> PacketDirection \<Rightarrow> RateLimitedPacketInfo res" where
  "ParsePacketInfo L packet direction =
     res_bind (Unmarshal_json L (Pkt_Data packet)) (\<lambda>packetData.
     res_bind (if direction = PACKET_SEND
               then Ok (Pkt_SourceChannel packet, ParseDenomFromSendPacket L packetData)
               else res_bind (ParseDenomFromRecvPacket L packet packetData)
                      (\<lambda>denom. Ok (Pkt_DestChannel packet, denom)))
       (\<lambda>(channelID, denom).
     case NewIntFromString L (Ftd_Amount packetData) of
       None \<Rightarrow> Err ErrInvalidRequest
     | Some amount \<Rightarrow>
         Ok \<lparr>Pi_ChannelID = channelID, Pi_Denom = denom, Pi_Amount = amount,
             Pi_Sender = Ftd_Sender packetData, Pi_Receiver = Ftd_Receiver packetData\<rparr>))"

section \<open>The four packet handlers\<close>

definition SendRateLimitedPacket :: "lib \<Rightarrow> Packet \<Rightarrow> (rl_state, unit) op" where
  "SendRateLimitedPacket L packet =
     op_bind (op_lift (ParsePacketInfo L packet PACKET_SEND)) (\<lambda>packetInfo.
     op_bind (CheckRateLimitAndUpdateFlow (int_fits L) PACKET_SEND packetInfo) (\<lambda>updatedFlow s.
       (Ok (), if updatedFlow then SetPendingSendPacket (Pi_ChannelID packetInfo) (Pkt_Sequence packet) s else s)))"

definition ReceiveRateLimitedPacket :: "lib \<Rightarrow> Packet \<Rightarrow> (rl_state, unit) op" where
  "ReceiveRateLimitedPacket L packet =
     op_bind (op_lift (ParsePacketInfo L packet PACKET_RECV)) (\<lambda>packetInfo.
     op_bind (CheckRateLimitAndUpdateFlow (int_fits L) PACKET_RECV packetInfo) (\<lambda>_ s. (Ok (), s)))"

definition AcknowledgeRateLimitedPacket :: "lib \<Rightarrow> Packet \<Rightarrow> bytes \<Rightarrow> (rl_state, unit) op" where
  "AcknowledgeRateLimitedPacket L packet ack =
     op_bind (op_lift (ParsePacketInfo L packet PACKET_SEND)) (\<lambda>packetInfo s.
       case UnmarshalJSON_ack L ack of
         Err _ \<Rightarrow> (Err ErrUnknownRequest, s)
       | Panic \<Rightarrow> (Panic, s)
       | Ok response \<Rightarrow>
           (case response of
              Ack_Result result \<Rightarrow>
                (if result = [] then (Err ErrInvalidAcknowledgement, s)
                 else (Ok (), RemovePendingSendPacket (Pi_ChannelID packetInfo) (Pkt_Sequence packet) s))
            | _ \<Rightarrow> UndoSendPacket (int_fits L) (Pi_ChannelID packetInfo) (Pkt_Sequence packet)
                     (Pi_Denom packetInfo) (Pi_Amount packetInfo) s))"

definition TimeoutRateLimitedPacket :: "lib \<Rightarrow> Packet \<Rightarrow> (rl_state, unit) op" where
  "TimeoutRateLimitedPacket L packet =
     op_bind (op_lift (ParsePacketInfo L packet PACKET_SEND)) (\<lambda>packetInfo.
       UndoSendPacket (int_fits L) (Pi_ChannelID packetInfo) (Pkt_Sequence packet)
         (Pi_Denom packetInfo) (Pi_Amount packetInfo))"

section \<open>Effect of the handlers\<close>

lemma ParsePacketInfo_send:
  "ParsePacketInfo L p PACKET_SEND = Ok i \<Longrightarrow> Pi_ChannelID i = Pkt_SourceChannel p"
  by (auto simp: ParsePacketInfo_def split: option.splits)

lemma ParsePacketInfo_recv:
  "ParsePacketInfo L p PACKET_RECV = Ok i \<Longrightarrow> Pi_ChannelID i = Pkt_DestChannel p"
  by (auto simp: ParsePacketInfo_def split: option.splits)

text \<open>The limit a packet with this information counts against, if it is not whitelisted.\<close>

definition limiting :: "rl_state \<Rightarrow> RateLimitedPacketInfo \<Rightarrow> RateLimit option" where
  "limiting s i =
     (if IsAddressPairWhitelisted s (Pi_Sender i) (Pi_Receiver i) then None
      else GetRateLimit s (Pi_Denom i) (Pi_ChannelID i))"

lemma CheckRateLimit_cases:
  "CheckRateLimitAndUpdateFlow fits dir i s =
     (case limiting s i of
        None \<Rightarrow> (Ok False, s)
      | Some r \<Rightarrow>
          (case UpdateFlow fits r dir (Pi_Amount i) of
             Ok r' \<Rightarrow> (Ok True, SetRateLimit r' s)
           | Err e \<Rightarrow> (Err e, emit_rl (TransferDenied ''rate_limit_exceeded'' dir (Pi_Denom i) (Pi_ChannelID i)
                                    (Pi_Amount i) e) s)
           | Panic \<Rightarrow> (Panic, s)))"
  by (auto simp: CheckRateLimitAndUpdateFlow_def limiting_def EmitTransferDeniedEvent_def Let_def
      split: option.splits res.splits)

lemma UpdateFlow_path:
  "UpdateFlow fits r dir a = Ok r' \<Longrightarrow>
     Rl_Path r' = Rl_Path r \<and> Rl_Quota r' = Rl_Quota r \<and> MinRateLimitAmount r' = MinRateLimitAmount r \<and>
     ChannelValue (Rl_Flow r') = ChannelValue (Rl_Flow r)"
  by (auto simp: UpdateFlow_def AddOutflow_eq_Ok AddInflow_eq_Ok split: PacketDirection.splits)

text \<open>A rate limit is kept under the key of its own path.\<close>

definition limits_ok :: "rl_state \<Rightarrow> bool" where
  "limits_ok s \<longleftrightarrow>
     (\<forall>k r. kv_get (rl_limits s) k = Some r \<longrightarrow>
        k = GetRateLimitItemKey (Path_Denom (Rl_Path r)) (Path_ChannelID (Rl_Path r)))"

lemma limits_ok_empty [simp]: "limits_ok rl_empty"
  by (simp add: limits_ok_def rl_empty_def)

lemma limits_ok_SetRateLimit [simp]: "limits_ok s \<Longrightarrow> limits_ok (SetRateLimit r s)"
  by (auto simp: limits_ok_def SetRateLimit_def)

lemma limits_ok_key:
  "limits_ok s \<Longrightarrow> GetRateLimit s d c = Some r \<Longrightarrow>
     GetRateLimitItemKey (Path_Denom (Rl_Path r)) (Path_ChannelID (Rl_Path r)) = GetRateLimitItemKey d c"
  by (simp add: limits_ok_def GetRateLimit_def)

text \<open>Reading after a write, in terms of the key.\<close>

lemma GetRateLimit_SetRateLimit:
  "GetRateLimit (SetRateLimit r s) d c =
     (if GetRateLimitItemKey d c = GetRateLimitItemKey (Path_Denom (Rl_Path r)) (Path_ChannelID (Rl_Path r))
      then Some r else GetRateLimit s d c)"
  by (simp add: GetRateLimit_def SetRateLimit_def)

lemma GetRateLimit_frames [simp]:
  "GetRateLimit (emit_rl e s) d c = GetRateLimit s d c"
  "GetRateLimit (SetPendingSendPacket ch n s) d c = GetRateLimit s d c"
  "GetRateLimit (RemovePendingSendPacket ch n s) d c = GetRateLimit s d c"
  "GetRateLimit (RemoveAllChannelPendingSendPackets ch s) d c = GetRateLimit s d c"
  "GetRateLimit (SetWhitelistedAddressPair w s) d c = GetRateLimit s d c"
  "GetRateLimit (RemoveWhitelistedAddressPair a b s) d c = GetRateLimit s d c"
  by (simp_all add: GetRateLimit_def emit_rl_def SetPendingSendPacket_def RemovePendingSendPacket_def
      RemoveAllChannelPendingSendPackets_def SetWhitelistedAddressPair_def RemoveWhitelistedAddressPair_def)

lemma rl_limits_frames [simp]:
  "rl_limits (emit_rl e s) = rl_limits s"
  "rl_limits (SetPendingSendPacket ch n s) = rl_limits s"
  "rl_limits (RemovePendingSendPacket ch n s) = rl_limits s"
  "rl_limits (RemoveAllChannelPendingSendPackets ch s) = rl_limits s"
  "rl_limits (SetWhitelistedAddressPair w s) = rl_limits s"
  by (simp_all add: emit_rl_def SetPendingSendPacket_def RemovePendingSendPacket_def
      RemoveAllChannelPendingSendPackets_def SetWhitelistedAddressPair_def)

lemma rl_pending_frames [simp]:
  "rl_pending (SetRateLimit r s) = rl_pending s"
  "rl_pending (emit_rl e s) = rl_pending s"
  by (simp_all add: SetRateLimit_def emit_rl_def)

lemma whitelist_frames [simp]:
  "IsAddressPairWhitelisted (SetRateLimit r s) a b = IsAddressPairWhitelisted s a b"
  "IsAddressPairWhitelisted (emit_rl e s) a b = IsAddressPairWhitelisted s a b"
  "IsAddressPairWhitelisted (SetPendingSendPacket ch n s) a b = IsAddressPairWhitelisted s a b"
  "IsAddressPairWhitelisted (RemovePendingSendPacket ch n s) a b = IsAddressPairWhitelisted s a b"
  by (simp_all add: IsAddressPairWhitelisted_def SetRateLimit_def emit_rl_def SetPendingSendPacket_def
      RemovePendingSendPacket_def)

end
