(* ===== verification/Ratelimit_Module.thy ===== *)
theory Ratelimit_Module
  imports Ratelimit_Keeper
begin

text \<open>
  Epochs, begin blocker, genesis, message server and queries of \<open>x/ratelimit\<close>.
\<close>

section \<open>Epochs\<close>

definition EpochKeyPrefix :: bytes where
  "EpochKeyPrefix = KeyPrefix ''epoch''"

text \<open>The sub-store \<open>rl_epochs\<close> keeps the keys without their prefix.\<close>

definition HasEpochInfo :: "rl_state \<Rightarrow> string \<Rightarrow> bool" where
  "HasEpochInfo s identifier = kv_has (rl_epochs s) identifier"

definition GetEpochInfo :: "rl_state \<Rightarrow> string \<Rightarrow> EpochInfo" where
  "GetEpochInfo s identifier =
     (case kv_get (rl_epochs s) identifier of None \<Rightarrow> no_epoch | Some epoch \<Rightarrow> epoch)"

definition setEpochInfo :: "EpochInfo \<Rightarrow> rl_state \<Rightarrow> rl_state" where
  "setEpochInfo epoch s = s\<lparr>rl_epochs := kv_set (Identifier epoch) epoch (rl_epochs s)\<rparr>"

definition DeleteEpochInfo :: "string \<Rightarrow> rl_state \<Rightarrow> rl_state" where
  "DeleteEpochInfo identifier s = s\<lparr>rl_epochs := kv_delete identifier (rl_epochs s)\<rparr>"

definition AddEpochInfo :: "ctx \<Rightarrow> EpochInfo \<Rightarrow> (rl_state, unit) op" where
  "AddEpochInfo ctx epoch s =
     (case EpochInfo_Validate epoch of
        Ok _ \<Rightarrow>
          (if GetEpochInfo s (Identifier epoch) \<noteq> no_epoch
           then (Err (ErrPlain ''epoch with identifier already exists''), s)
           else
             (let epoch = (if StartTime epoch = zero_time then epoch\<lparr>StartTime := BlockTime ctx\<rparr> else epoch);
                  epoch = epoch\<lparr>CurrentEpochStartHeight := BlockHeight ctx\<rparr>
              in (Ok (), setEpochInfo epoch s)))
      | Err e \<Rightarrow> (Err e, s)
      | Panic \<Rightarrow> (Panic, s))"

definition epochs_of :: "rl_state \<Rightarrow> EpochInfo list" where
  "epochs_of s = map snd (kv_entries (rl_epochs s))"

definition IterateEpochInfo :: "(i64 \<Rightarrow> EpochInfo \<Rightarrow> (rl_state, bool) op) \<Rightarrow> (rl_state, unit) op" where
  "IterateEpochInfo fn s =
     op_iterate (\<lambda>(i, epoch). fn (word_of_nat i) epoch) (enumerate 0 (epochs_of s)) s"

definition AllEpochInfos :: "rl_state \<Rightarrow> EpochInfo list" where
  "AllEpochInfos s =
     iterate_until (\<lambda>epochInfo epochs. (False, epochs @ [epochInfo])) (epochs_of s) []"

definition NumBlocksSinceEpochStart :: "ctx \<Rightarrow> rl_state \<Rightarrow> string \<Rightarrow> i64 res" where
  "NumBlocksSinceEpochStart ctx s identifier =
     (let epoch = GetEpochInfo s identifier
      in if epoch = no_epoch then Err (ErrPlain ''epoch with identifier not found'')
         else Ok (BlockHeight ctx - CurrentEpochStartHeight epoch))"

text \<open>The reset of one rate limit at the end of an epoch; an error of the reset is only logged.\<close>

definition reset_due :: "rl_env \<Rightarrow> u64 \<Rightarrow> RateLimit \<Rightarrow> (rl_state, unit) op" where
  "reset_due env epochHour rateLimit s =
     (if DurationHours (Rl_Quota rateLimit) = 0 then (Panic, s)
      else if epochHour mod DurationHours (Rl_Quota rateLimit) = 0
      then (case ResetRateLimit env (Path_Denom (Rl_Path rateLimit)) (Path_ChannelID (Rl_Path rateLimit)) s of
              (Panic, s') \<Rightarrow> (Panic, s')
            | (_, s') \<Rightarrow> (Ok (), s'))
      else (Ok (), s))"

definition AfterEpochEnd :: "rl_env \<Rightarrow> EpochInfo \<Rightarrow> (rl_state, unit) op" where
  "AfterEpochEnd env epochInfo s =
     (if Identifier epochInfo = DayEpoch
      then (let epochHour = CurrentEpoch epochInfo
            in op_each (reset_due env epochHour) (GetAllRateLimits s) s)
      else (Ok (), s))"

text \<open>\<open>time.Time.Unix\<close>: seconds since 1970, from nanoseconds since the zero time.\<close>

definition Unix :: "gotime \<Rightarrow> int" where
  "Unix t = t div 1000000000 - 62135596800"

definition epoch_callback :: "rl_env \<Rightarrow> ctx \<Rightarrow> EpochInfo \<Rightarrow> (rl_state, bool) op" where
  "epoch_callback env ctx epochInfo s =
     (if BlockTime ctx < StartTime epochInfo then (Ok True, s)
      else
        (let shouldInitialEpochStart = (\<not> EpochCountingStarted epochInfo);
             epochEndTime = CurrentEpochStartTime epochInfo + Duration epochInfo;
             shouldEpochStart = (epochEndTime < BlockTime ctx \<or> shouldInitialEpochStart)
         in if \<not> shouldEpochStart then (Ok False, s)
            else
              (let epochInfo = epochInfo\<lparr>CurrentEpochStartHeight := BlockHeight ctx\<rparr>
               in op_bind
                    (if shouldInitialEpochStart
                     then op_lift (Ok (epochInfo\<lparr>EpochCountingStarted := True, CurrentEpoch := 1,
                                                 CurrentEpochStartTime := StartTime epochInfo\<rparr>))
                     else op_bind (AfterEpochEnd env epochInfo)
                            (\<lambda>_. op_lift (Ok (epochInfo\<lparr>CurrentEpoch := CurrentEpoch epochInfo + 1,
                                    CurrentEpochStartTime := CurrentEpochStartTime epochInfo + Duration epochInfo\<rparr>))))
                    (\<lambda>epochInfo s.
                       let s = emit_rl (EpochStart (CurrentEpoch epochInfo) (Unix (CurrentEpochStartTime epochInfo))) s
                       in (Ok False, setEpochInfo epochInfo s)) s)))"

definition rl_BeginBlocker :: "rl_env \<Rightarrow> ctx \<Rightarrow> (rl_state, unit) op" where
  "rl_BeginBlocker env ctx s = IterateEpochInfo (\<lambda>_ epochInfo. epoch_callback env ctx epochInfo) s"

section \<open>Genesis\<close>

definition init_pending :: "string \<Rightarrow> (rl_state, unit) op" where
  "init_pending pendingPacketID s =
     (case strings_Split CHR ''/'' pendingPacketID of
        [channelID, seq] \<Rightarrow>
          (case ParseUint seq of
             None \<Rightarrow> (Panic, s)
           | Some sequence \<Rightarrow> (Ok (), SetPendingSendPacket channelID sequence s))
      | _ \<Rightarrow> (Panic, s))"

definition rl_InitGenesis :: "ctx \<Rightarrow> rl_GenesisState \<Rightarrow> (rl_state, unit) op" where
  "rl_InitGenesis ctx genState s =
     (let s = fold SetRateLimit (Rg_RateLimits genState) s;
          s = fold SetWhitelistedAddressPair (Rg_WhitelistedAddressPairs genState) s
      in op_bind (op_each init_pending (Rg_PendingSendPacketSequenceNumbers genState))
           (\<lambda>_. op_each (\<lambda>epoch. op_must (AddEpochInfo ctx epoch)) (Rg_Epochs genState)) s)"

definition rl_ExportGenesis :: "rl_state \<Rightarrow> rl_GenesisState" where
  "rl_ExportGenesis s =
     (let genesis = rl_DefaultGenesisState;
          genesis = genesis\<lparr>Rg_RateLimits := GetAllRateLimits s\<rparr>;
          genesis = genesis\<lparr>Rg_WhitelistedAddressPairs := GetAllWhitelistedAddressPairs s\<rparr>
      in genesis\<lparr>Rg_PendingSendPacketSequenceNumbers := GetAllPendingSendPackets s\<rparr>)"

section \<open>Message server\<close>

definition AddTransferRateLimit ::
    "lib \<Rightarrow> rl_env \<Rightarrow> string \<Rightarrow> MsgAddRateLimit \<Rightarrow> (rl_state, unit) op" where
  "AddTransferRateLimit L env authority msg =
     op_bind (op_lift (guard (authority = Mrl_Authority msg) ErrInvalidSigner)) (\<lambda>_.
     op_bind (op_lift (MsgAddRateLimit_ValidateBasic L msg)) (\<lambda>_. AddRateLimit env msg))"

definition UpdateTransferRateLimit ::
    "lib \<Rightarrow> rl_env \<Rightarrow> string \<Rightarrow> MsgUpdateRateLimit \<Rightarrow> (rl_state, unit) op" where
  "UpdateTransferRateLimit L env authority msg =
     op_bind (op_lift (guard (authority = Mrl_Authority msg) ErrInvalidSigner)) (\<lambda>_.
     op_bind (op_lift (MsgUpdateRateLimit_ValidateBasic L msg)) (\<lambda>_. UpdateRateLimit env msg))"

definition RemoveTransferRateLimit :: "rl_env \<Rightarrow> string \<Rightarrow> MsgRemoveRateLimit \<Rightarrow> (rl_state, unit) op" where
  "RemoveTransferRateLimit env authority msg =
     op_bind (op_lift (guard (authority = Mrp_Authority msg) ErrInvalidSigner)) (\<lambda>_.
     RemoveRateLimit env (Mrp_Denom msg) (Mrp_ChannelID msg))"

definition ResetTransferRateLimit :: "rl_env \<Rightarrow> string \<Rightarrow> MsgResetRateLimit \<Rightarrow> (rl_state, unit) op" where
  "ResetTransferRateLimit env authority msg =
     op_bind (op_lift (guard (authority = Mrp_Authority msg) ErrInvalidSigner)) (\<lambda>_.
     ResetRateLimit env (Mrp_Denom msg) (Mrp_ChannelID msg))"

section \<open>Queries\<close>

definition AllRateLimits :: "rl_state \<Rightarrow> RateLimit list res" where
  "AllRateLimits s = Ok (GetAllRateLimits s)"

definition query_RateLimit :: "rl_state \<Rightarrow> string \<Rightarrow> string \<Rightarrow> RateLimit option res" where
  "query_RateLimit s req_Denom req_ChannelID = Ok (GetRateLimit s req_Denom req_ChannelID)"

text \<open>
  The client state behind a channel is read from the channel keeper: \<open>Ok (Some id)\<close> is a Tendermint
  client of chain \<open>id\<close>, \<open>Ok None\<close> a client of another type.
\<close>

fun limits_of_chain ::
    "(string \<Rightarrow> string \<Rightarrow> string option res) \<Rightarrow> string \<Rightarrow> string \<Rightarrow> RateLimit list \<Rightarrow> RateLimit list \<Rightarrow> RateLimit list res" where
  "limits_of_chain client portID chainId acc [] = Ok acc"
| "limits_of_chain client portID chainId acc (r # rs) =
     (case client portID (Path_ChannelID (Rl_Path r)) of
        Err _ \<Rightarrow> Err ErrInvalidClientState
      | Panic \<Rightarrow> Panic
      | Ok None \<Rightarrow> Err ErrInvalidClientState
      | Ok (Some c) \<Rightarrow> limits_of_chain client portID chainId (if c = chainId then acc @ [r] else acc) rs)"

definition RateLimitsByChainID ::
    "lib \<Rightarrow> (string \<Rightarrow> string \<Rightarrow> string option res) \<Rightarrow> rl_state \<Rightarrow> string \<Rightarrow> RateLimit list res" where
  "RateLimitsByChainID L GetChannelClientState s req_ChainId =
     limits_of_chain GetChannelClientState (TransferPortID L) req_ChainId [] (GetAllRateLimits s)"

definition RateLimitsByChannelID :: "rl_state \<Rightarrow> string \<Rightarrow> RateLimit list res" where
  "RateLimitsByChannelID s req_ChannelID =
     Ok (fold (\<lambda>r acc. if Path_ChannelID (Rl_Path r) = req_ChannelID then acc @ [r] else acc)
           (GetAllRateLimits s) [])"

definition AllWhitelistedAddresses :: "rl_state \<Rightarrow> WhitelistedAddressPair list res" where
  "AllWhitelistedAddresses s = Ok (GetAllWhitelistedAddressPairs s)"

end
