(* ===== verification/Ratelimit_Safety.thy ===== *)
theory Ratelimit_Safety
  imports Ratelimit_Packet Ratelimit_Module
begin

text \<open>
  The reachable states of \<open>x/ratelimit\<close> and the safety of its flows: in every one of them the net
  outflow of a rate limit is within its allowance.
\<close>

section \<open>The invariant\<close>

definition net_outflow :: "RateLimit \<Rightarrow> int" where
  "net_outflow r = Outflow (Rl_Flow r) - Inflow (Rl_Flow r)"

definition send_allowance :: "RateLimit \<Rightarrow> int" where
  "send_allowance r = allowance (Rl_Quota r) PACKET_SEND (ChannelValue (Rl_Flow r)) (MinRateLimitAmount r)"

definition limit_ok :: "RateLimit \<Rightarrow> bool" where
  "limit_ok r \<longleftrightarrow> 0 \<le> MinRateLimitAmount r \<and>
     (ChannelValue (Rl_Flow r) \<noteq> 0 \<longrightarrow> net_outflow r \<le> send_allowance r)"

definition limits_safe :: "rl_state \<Rightarrow> bool" where
  "limits_safe s \<longleftrightarrow> limits_ok s \<and> (\<forall>k r. kv_get (rl_limits s) k = Some r \<longrightarrow> limit_ok r)"

lemma send_allowance_nonneg: "0 \<le> MinRateLimitAmount r \<Longrightarrow> 0 \<le> send_allowance r"
  by (simp add: send_allowance_def allowance_def le_max_iff_disj)

lemma limit_ok_reset:
  "0 \<le> MinRateLimitAmount r \<Longrightarrow> limit_ok (r\<lparr>Rl_Flow := \<lparr>Inflow = 0, Outflow = 0, ChannelValue = v\<rparr>\<rparr>)"
  by (simp add: limit_ok_def net_outflow_def send_allowance_nonneg)

lemma limits_safe_SetRateLimit: "limits_safe s \<Longrightarrow> limit_ok r \<Longrightarrow> limits_safe (SetRateLimit r s)"
  unfolding limits_safe_def by (auto simp: SetRateLimit_def limits_ok_def split: if_splits)

lemma limits_safe_cong: "rl_limits t = rl_limits s \<Longrightarrow> limits_safe t = limits_safe s"
  by (simp add: limits_safe_def limits_ok_def)

lemma limits_safe_frames [simp]:
  "limits_safe (emit_rl e s) = limits_safe s"
  "limits_safe (SetPendingSendPacket ch n s) = limits_safe s"
  "limits_safe (RemovePendingSendPacket ch n s) = limits_safe s"
  "limits_safe (RemoveAllChannelPendingSendPackets ch s) = limits_safe s"
  by (rule limits_safe_cong, simp)+

lemma limits_safe_get: "limits_safe s \<Longrightarrow> GetRateLimit s d c = Some r \<Longrightarrow> limit_ok r"
  unfolding limits_safe_def GetRateLimit_def by blast

section \<open>Packet operations keep it\<close>

lemma UpdateFlow_limit_ok:
  assumes "UpdateFlow fits r dir a = Ok r'" "limit_ok r" "0 \<le> a"
  shows "limit_ok r'"
  using assms
  by (auto simp: UpdateFlow_def AddOutflow_eq_Ok AddInflow_eq_Ok limit_ok_def net_outflow_def send_allowance_def
      split: PacketDirection.splits)

lemma limits_safe_Check:
  assumes "limits_safe s" "0 \<le> Pi_Amount i"
  shows "limits_safe (snd (CheckRateLimitAndUpdateFlow fits dir i s))"
proof (cases "limiting s i")
  case None
  with assms show ?thesis by (simp add: CheckRateLimit_cases)
next
  case (Some r)
  then have "limit_ok r" using limits_safe_get [OF assms(1)] by (auto simp: limiting_def split: if_splits)
  with Some assms show ?thesis
    by (cases "UpdateFlow fits r dir (Pi_Amount i)")
       (auto simp: CheckRateLimit_cases intro: limits_safe_SetRateLimit UpdateFlow_limit_ok)
qed

lemma limits_safe_Undo:
  assumes "limits_safe s" "0 \<le> a"
  shows "limits_safe (snd (UndoSendPacket fits c n d a s))"
proof (cases "GetRateLimit s d c")
  case (Some r)
  have r: "limit_ok r" by (rule limits_safe_get [OF assms(1) Some])
  have "limit_ok (r\<lparr>Rl_Flow := (Rl_Flow r)\<lparr>Outflow := Outflow (Rl_Flow r) - a\<rparr>\<rparr>)"
    using r assms(2) by (auto simp: limit_ok_def net_outflow_def send_allowance_def)
  with Some assms show ?thesis
    by (auto simp: UndoSendPacket_def Let_def intro: limits_safe_SetRateLimit split: res.splits)
qed (simp add: UndoSendPacket_def assms)

text \<open>Packets the transfer application can carry have no negative amount.\<close>

definition amount_ok :: "lib \<Rightarrow> Packet \<Rightarrow> PacketDirection \<Rightarrow> bool" where
  "amount_ok L p dir = (case ParsePacketInfo L p dir of Ok i \<Rightarrow> 0 \<le> Pi_Amount i | _ \<Rightarrow> True)"

lemma limits_safe_send:
  assumes "limits_safe s" "amount_ok L p PACKET_SEND"
  shows "limits_safe (snd (SendRateLimitedPacket L p s))"
proof (cases "ParsePacketInfo L p PACKET_SEND")
  case (Ok i)
  with assms(2) limits_safe_Check [OF assms(1), of i "int_fits L" PACKET_SEND] show ?thesis
    by (cases "CheckRateLimitAndUpdateFlow (int_fits L) PACKET_SEND i s")
       (auto simp: SendRateLimitedPacket_def op_bind_def op_lift_def amount_ok_def split: res.splits)
qed (simp_all add: SendRateLimitedPacket_def op_bind_def op_lift_def assms)

lemma limits_safe_receive:
  assumes "limits_safe s" "amount_ok L p PACKET_RECV"
  shows "limits_safe (snd (ReceiveRateLimitedPacket L p s))"
proof (cases "ParsePacketInfo L p PACKET_RECV")
  case (Ok i)
  with assms(2) limits_safe_Check [OF assms(1), of i "int_fits L" PACKET_RECV] show ?thesis
    by (cases "CheckRateLimitAndUpdateFlow (int_fits L) PACKET_RECV i s")
       (auto simp: ReceiveRateLimitedPacket_def op_bind_def op_lift_def amount_ok_def split: res.splits)
qed (simp_all add: ReceiveRateLimitedPacket_def op_bind_def op_lift_def assms)

lemma limits_safe_timeout:
  assumes "limits_safe s" "amount_ok L p PACKET_SEND"
  shows "limits_safe (snd (TimeoutRateLimitedPacket L p s))"
  using assms limits_safe_Undo
  by (cases "ParsePacketInfo L p PACKET_SEND")
     (simp_all add: TimeoutRateLimitedPacket_def op_bind_def op_lift_def amount_ok_def split: prod.splits res.splits)

lemma limits_safe_ack:
  assumes "limits_safe s" "amount_ok L p PACKET_SEND"
  shows "limits_safe (snd (AcknowledgeRateLimitedPacket L p ack s))"
proof (cases "ParsePacketInfo L p PACKET_SEND")
  case (Ok i)
  with assms limits_safe_Undo [OF assms(1), of "Pi_Amount i" "int_fits L" "Pi_ChannelID i" "Pkt_Sequence p" "Pi_Denom i"]
  show ?thesis
    by (auto simp: AcknowledgeRateLimitedPacket_def op_bind_def op_lift_def amount_ok_def
        split: res.splits AckResponse.splits prod.splits)
qed (simp_all add: AcknowledgeRateLimitedPacket_def op_bind_def op_lift_def assms)

section \<open>Administration and epochs keep it\<close>

lemma limits_safe_Reset: "limits_safe s \<Longrightarrow> limits_safe (snd (ResetRateLimit env d c s))"
  by (auto simp: ResetRateLimit_def Let_def limit_ok_def split: option.splits
      intro!: limits_safe_SetRateLimit limit_ok_reset dest: limits_safe_get)

lemma limits_safe_Remove: "limits_safe s \<Longrightarrow> limits_safe (snd (RemoveRateLimit env d c s))"
  by (auto simp: RemoveRateLimit_def Let_def limits_safe_def limits_ok_def)

lemma limit_of_msg_ok: "0 \<le> stored_Int (Mrl_MinRateLimitAmount msg) \<Longrightarrow> limit_ok (limit_of_msg env d msg v)"
  by (simp add: limit_of_msg_def limit_ok_def net_outflow_def send_allowance_nonneg)

lemma limits_safe_Add:
  "limits_safe s \<Longrightarrow> 0 \<le> stored_Int (Mrl_MinRateLimitAmount msg) \<Longrightarrow> limits_safe (snd (AddRateLimit env msg s))"
  by (auto simp: AddRateLimit_def Let_def intro: limits_safe_SetRateLimit limit_of_msg_ok)

lemma limits_safe_Update:
  "limits_safe s \<Longrightarrow> 0 \<le> stored_Int (Mrl_MinRateLimitAmount msg) \<Longrightarrow> limits_safe (snd (UpdateRateLimit env msg s))"
  by (auto simp: UpdateRateLimit_def Let_def intro: limits_safe_SetRateLimit limit_of_msg_ok)

lemma ValidateBasic_min:
  "MsgAddRateLimit_ValidateBasic L msg = Ok u \<Longrightarrow> 0 \<le> stored_Int (Mrl_MinRateLimitAmount msg)"
  "MsgUpdateRateLimit_ValidateBasic L msg = Ok u \<Longrightarrow> 0 \<le> stored_Int (Mrl_MinRateLimitAmount msg)"
  by (auto simp: MsgAddRateLimit_ValidateBasic_def MsgUpdateRateLimit_ValidateBasic_def stored_Int_def)

lemma limits_safe_lift:
  "limits_safe s \<Longrightarrow> (\<And>a. r = Ok a \<Longrightarrow> limits_safe (snd (f a s))) \<Longrightarrow> limits_safe (snd (op_bind (op_lift r) f s))"
  by (cases r) simp_all

lemma limits_safe_AddMsg: "limits_safe s \<Longrightarrow> limits_safe (snd (AddTransferRateLimit L env au msg s))"
  unfolding AddTransferRateLimit_def
  by (rule limits_safe_lift, assumption, rule limits_safe_lift, assumption)
     (blast intro: limits_safe_Add ValidateBasic_min)

lemma limits_safe_UpdateMsg: "limits_safe s \<Longrightarrow> limits_safe (snd (UpdateTransferRateLimit L env au msg s))"
  unfolding UpdateTransferRateLimit_def
  by (rule limits_safe_lift, assumption, rule limits_safe_lift, assumption)
     (blast intro: limits_safe_Update ValidateBasic_min)

lemma limits_safe_RemoveMsg: "limits_safe s \<Longrightarrow> limits_safe (snd (RemoveTransferRateLimit env au pm s))"
  unfolding RemoveTransferRateLimit_def by (rule limits_safe_lift) (blast intro: limits_safe_Remove)+

lemma limits_safe_ResetMsg: "limits_safe s \<Longrightarrow> limits_safe (snd (ResetTransferRateLimit env au pm s))"
  unfolding ResetTransferRateLimit_def by (rule limits_safe_lift) (blast intro: limits_safe_Reset)+

lemma limits_safe_reset_due: "limits_safe s \<Longrightarrow> limits_safe (snd (reset_due env h r s))"
  using limits_safe_Reset [of s env "Path_Denom (Rl_Path r)" "Path_ChannelID (Rl_Path r)"]
  by (auto simp: reset_due_def split: prod.splits res.splits)

lemma limits_safe_AfterEpochEnd: "limits_safe s \<Longrightarrow> limits_safe (snd (AfterEpochEnd env e s))"
  by (auto simp: AfterEpochEnd_def Let_def intro!: op_each_inv limits_safe_reset_due)

lemma limits_safe_setEpochInfo [simp]: "limits_safe (setEpochInfo e s) = limits_safe s"
  by (rule limits_safe_cong) (simp add: setEpochInfo_def)

lemma limits_safe_epoch_callback: "limits_safe s \<Longrightarrow> limits_safe (snd (epoch_callback env ctx e s))"
  using limits_safe_AfterEpochEnd [of s env "e\<lparr>CurrentEpochStartHeight := BlockHeight ctx\<rparr>"]
  by (auto simp: epoch_callback_def Let_def op_bind_def op_lift_def split: prod.splits res.splits)

lemma limits_safe_BeginBlocker: "limits_safe s \<Longrightarrow> limits_safe (snd (rl_BeginBlocker env ctx s))"
  unfolding rl_BeginBlocker_def IterateEpochInfo_def
  by (rule op_iterate_inv) (auto intro: limits_safe_epoch_callback)

end
