(* ===== verification/Tfmw_Module.thy ===== *)
theory Tfmw_Module
  imports Tfmw_Registry
begin

text \<open>
  The entry points of \<open>x/transfermiddleware\<close>: messages and their checks, the message server, the
  begin blocker that executes the removal list, genesis and queries; then the reachable states of
  the module and what holds in them.
\<close>

section \<open>Messages\<close>

record MsgAddParachainIBCTokenInfo =
  Mai_Authority :: string
  Mai_IbcDenom :: string
  Mai_NativeDenom :: string
  Mai_AssetId :: string
  Mai_ChannelID :: string

definition NewMsgAddParachainIBCTokenInfo ::
    "string \<Rightarrow> string \<Rightarrow> string \<Rightarrow> string \<Rightarrow> string \<Rightarrow> MsgAddParachainIBCTokenInfo" where
  "NewMsgAddParachainIBCTokenInfo authority ibcDenom nativeDenom assetID channelID =
     \<lparr>Mai_Authority = authority, Mai_IbcDenom = ibcDenom, Mai_NativeDenom = nativeDenom,
      Mai_AssetId = assetID, Mai_ChannelID = channelID\<rparr>"

text \<open>\<open>GetSigners\<close> drops the error of the address parser; the address is then empty.\<close>

definition addr_or_nil :: "lib \<Rightarrow> string \<Rightarrow> bytes" where
  "addr_or_nil L a = (case AccAddressFromBech32 L a of Ok addr \<Rightarrow> addr | _ \<Rightarrow> [])"

definition MsgAddParachainIBCTokenInfo_GetSigners :: "lib \<Rightarrow> MsgAddParachainIBCTokenInfo \<Rightarrow> bytes list" where
  "MsgAddParachainIBCTokenInfo_GetSigners L msg = [addr_or_nil L (Mai_Authority msg)]"

definition MsgAddParachainIBCTokenInfo_ValidateBasic :: "lib \<Rightarrow> MsgAddParachainIBCTokenInfo \<Rightarrow> unit res" where
  "MsgAddParachainIBCTokenInfo_ValidateBasic L msg =
     res_bind (AccAddressFromBech32 L (Mai_Authority msg)) (\<lambda>_.
     res_bind (ChannelIdentifierValidator L (Mai_ChannelID msg)) (\<lambda>_.
     ValidateIBCDenom L (Mai_IbcDenom msg)))"

record MsgRemoveParachainIBCTokenInfo =
  Mri_Authority :: string
  Mri_NativeDenom :: string

definition NewMsgRemoveParachainIBCTokenInfo :: "string \<Rightarrow> string \<Rightarrow> MsgRemoveParachainIBCTokenInfo" where
  "NewMsgRemoveParachainIBCTokenInfo authority nativeDenom =
     \<lparr>Mri_Authority = authority, Mri_NativeDenom = nativeDenom\<rparr>"

definition MsgRemoveParachainIBCTokenInfo_GetSigners :: "lib \<Rightarrow> MsgRemoveParachainIBCTokenInfo \<Rightarrow> bytes list" where
  "MsgRemoveParachainIBCTokenInfo_GetSigners L msg = [addr_or_nil L (Mri_Authority msg)]"

definition MsgRemoveParachainIBCTokenInfo_ValidateBasic :: "lib \<Rightarrow> MsgRemoveParachainIBCTokenInfo \<Rightarrow> unit res" where
  "MsgRemoveParachainIBCTokenInfo_ValidateBasic L msg =
     res_bind (AccAddressFromBech32 L (Mri_Authority msg)) (\<lambda>_. Ok ())"

record MsgAddRlyAddress =
  Mar_Authority :: string
  Mar_RlyAddress :: string

definition NewMsgAddRlyAddress :: "string \<Rightarrow> string \<Rightarrow> MsgAddRlyAddress" where
  "NewMsgAddRlyAddress authority rlyAdress = \<lparr>Mar_Authority = authority, Mar_RlyAddress = rlyAdress\<rparr>"

definition MsgAddRlyAddress_GetSigners :: "lib \<Rightarrow> MsgAddRlyAddress \<Rightarrow> bytes list" where
  "MsgAddRlyAddress_GetSigners L msg = [addr_or_nil L (Mar_Authority msg)]"

definition MsgAddRlyAddress_ValidateBasic :: "lib \<Rightarrow> MsgAddRlyAddress \<Rightarrow> unit res" where
  "MsgAddRlyAddress_ValidateBasic L msg =
     res_bind (AccAddressFromBech32 L (Mar_Authority msg)) (\<lambda>_.
     res_bind (AccAddressFromBech32 L (Mar_RlyAddress msg)) (\<lambda>_. Ok ()))"

section \<open>Message server\<close>

text \<open>\<open>authority\<close> is the keeper's field: the address that may execute these messages.\<close>

definition emit_tfmw :: "tfmw_event \<Rightarrow> tfmw_state \<Rightarrow> tfmw_state" where
  "emit_tfmw e s = s\<lparr>tfmw_events := tfmw_events s @ [e]\<rparr>"

definition AddParachainIBCTokenInfo ::
    "string \<Rightarrow> MsgAddParachainIBCTokenInfo \<Rightarrow> (tfmw_state, unit) op" where
  "AddParachainIBCTokenInfo authority req s =
     (if authority \<noteq> Mai_Authority req then (Err ErrInvalidSigner, s)
      else
        (case AddParachainIBCInfo (Mai_IbcDenom req) (Mai_ChannelID req) (Mai_NativeDenom req) (Mai_AssetId req) s of
           (Ok _, s') \<Rightarrow>
             (Ok (), emit_tfmw (EventAddParachainIBCTokenInfo (Mai_NativeDenom req) (Mai_IbcDenom req) (Mai_AssetId req)) s')
         | (Err e, s') \<Rightarrow> (Err e, s')
         | (Panic, s') \<Rightarrow> (Panic, s')))"

definition RemoveParachainIBCTokenInfo ::
    "string \<Rightarrow> ctx \<Rightarrow> MsgRemoveParachainIBCTokenInfo \<Rightarrow> (tfmw_state, unit) op" where
  "RemoveParachainIBCTokenInfo authority ctx req s =
     (if authority \<noteq> Mri_Authority req then (Err ErrInvalidSigner, s)
      else
        (case AddParachainIBCInfoToRemoveList ctx (Mri_NativeDenom req) s of
           (Ok removeTime, s') \<Rightarrow>
             (Ok (), emit_tfmw (EventRemoveParachainIBCTokenInfo (Mri_NativeDenom req) removeTime) s')
         | (Err e, s') \<Rightarrow> (Err e, s')
         | (Panic, s') \<Rightarrow> (Panic, s')))"

definition AddRlyAddress :: "string \<Rightarrow> MsgAddRlyAddress \<Rightarrow> (tfmw_state, unit) op" where
  "AddRlyAddress authority req s =
     (if authority \<noteq> Mar_Authority req then (Err ErrInvalidSigner, s)
      else if HasAllowRlyAddress s (Mar_RlyAddress req)
      then (Err (ErrPlain ''address already registry in allow list''), s)
      else (Ok (), emit_tfmw (EventAddRlyToAllowList (Mar_RlyAddress req))
                     (SetAllowRlyAddress (Mar_RlyAddress req) s)))"

section \<open>Begin blocker\<close>

definition remove_callback :: "ctx \<Rightarrow> RemoveParachainIBCTokenInfo_t \<Rightarrow> tfmw_state \<Rightarrow> bool \<times> tfmw_state" where
  "remove_callback ctx removeList s =
     (if Rm_RemoveTime removeList < BlockTime ctx
      then (case RemoveParachainIBCInfo (Rm_NativeDenom removeList) s of
              (Ok _, s') \<Rightarrow> (False, s')
            | (_, s') \<Rightarrow> (True, s'))
      else (False, s))"

definition tfmw_BeginBlocker :: "ctx \<Rightarrow> tfmw_state \<Rightarrow> tfmw_state" where
  "tfmw_BeginBlocker ctx s = IterateRemoveListInfo (remove_callback ctx) s"

section \<open>Genesis\<close>

record tfmw_GenesisState =
  Tg_TokenInfos :: "ParachainIBCTokenInfo list"
  Tg_Params :: duration

definition tfmw_NewParams :: "duration \<Rightarrow> duration" where
  "tfmw_NewParams removeDuration = removeDuration"

definition tfmw_DefaultParams :: duration where
  "tfmw_DefaultParams = tfmw_NewParams (168 * 3600 * 1000000000)"

definition tfmw_DefaultGenesisState :: tfmw_GenesisState where
  "tfmw_DefaultGenesisState = \<lparr>Tg_TokenInfos = [], Tg_Params = tfmw_DefaultParams\<rparr>"

definition ParachainIBCTokenInfo_ValidateBasic :: "ParachainIBCTokenInfo \<Rightarrow> unit res" where
  "ParachainIBCTokenInfo_ValidateBasic p =
     (case Atoi (AssetId p) of None \<Rightarrow> Err (ErrPlain ''error parsing into int'') | Some _ \<Rightarrow> Ok ())"

text \<open>The map \<open>infoMap\<close> of the loop is the list of the asset ids seen so far.\<close>

fun validateTokenInfos_loop :: "string list \<Rightarrow> ParachainIBCTokenInfo list \<Rightarrow> unit res" where
  "validateTokenInfos_loop infoMap [] = Ok ()"
| "validateTokenInfos_loop infoMap (info # infos) =
     res_bind (ParachainIBCTokenInfo_ValidateBasic info) (\<lambda>_.
       if AssetId info \<in> set infoMap then Err (ErrPlain ''duplicate parachain token info in genesis state'')
       else validateTokenInfos_loop (AssetId info # infoMap) infos)"

definition validateTokenInfos :: "ParachainIBCTokenInfo list \<Rightarrow> unit res" where
  "validateTokenInfos infos = validateTokenInfos_loop [] infos"

definition tfmw_ValidateGenesis :: "tfmw_GenesisState \<Rightarrow> unit res" where
  "tfmw_ValidateGenesis data = validateTokenInfos (Tg_TokenInfos data)"

definition add_info :: "ParachainIBCTokenInfo \<Rightarrow> (tfmw_state, unit) op" where
  "add_info i = AddParachainIBCInfo (IbcDenom i) (ChannelID i) (NativeDenom i) (AssetId i)"

definition tfmw_InitGenesis :: "tfmw_GenesisState \<Rightarrow> (tfmw_state, unit) op" where
  "tfmw_InitGenesis genState s =
     op_bind (op_each (\<lambda>i. op_must (add_info i)) (Tg_TokenInfos genState))
       (\<lambda>_ s'. (Ok (), tfmw_SetParams (Tg_Params genState) s')) s"

definition tfmw_ExportGenesis :: "tfmw_state \<Rightarrow> tfmw_GenesisState res" where
  "tfmw_ExportGenesis s =
     (let infos = IterateParaTokenInfos s (\<lambda>_ info acc. (False, acc @ [info])) []
      in res_bind (tfmw_GetParams s) (\<lambda>p. Ok \<lparr>Tg_TokenInfos = infos, Tg_Params = p\<rparr>))"

section \<open>Queries\<close>

text \<open>The answer holds the fields of the token information.\<close>

definition ParaTokenInfo :: "tfmw_state \<Rightarrow> string \<Rightarrow> ParachainIBCTokenInfo res" where
  "ParaTokenInfo s req_NativeDenom = Ok (GetParachainIBCTokenInfoByNativeDenom s req_NativeDenom)"

text \<open>\<open>FilteredPaginate\<close> picks a page of the relayers in the order of the store.\<close>

definition RelayerAccount ::
    "(string list \<Rightarrow> 'p \<Rightarrow> (string list \<times> 'r) res) \<Rightarrow> tfmw_state \<Rightarrow> 'p \<Rightarrow> (string list \<times> 'r) res" where
  "RelayerAccount FilteredPaginate s pagination = FilteredPaginate (allowed_rly s) pagination"

definition EscrowAddress :: "lib \<Rightarrow> (bytes \<Rightarrow> string) \<Rightarrow> string \<Rightarrow> string res" where
  "EscrowAddress L addr_String req_ChannelID =
     Ok (addr_String (GetEscrowAddress L (TransferPortID L) req_ChannelID))"

definition GetTotalEscrowedToken ::
    "lib \<Rightarrow> (bytes \<Rightarrow> string \<Rightarrow> int) \<Rightarrow> tfmw_state \<Rightarrow> Coins" where
  "GetTotalEscrowedToken L balance s =
     IterateParaTokenInfos s
       (\<lambda>_ info coins.
          (let escrow = GetEscrowAddress L (TransferPortID L) (ChannelID info);
               escrowIbcCoin = \<lparr>Coin_Denom = IbcDenom info, Coin_Amount = balance escrow (IbcDenom info)\<rparr>;
               escrowNativeCoin = \<lparr>Coin_Denom = NativeDenom info, Coin_Amount = balance escrow (NativeDenom info)\<rparr>
           in (False, coins @ [escrowIbcCoin, escrowNativeCoin]))) []"

section \<open>Frame lemmas\<close>

text \<open>Every operation that only touches other keys keeps the three indices.\<close>

lemma same_indices_frames [simp]:
  "same_indices s (emit_tfmw e s) = True"
  "same_indices s (SetAllowRlyAddress a s) = True"
  "same_indices s (DeleteAllowRlyAddress a s) = True"
  "same_indices s (tfmw_SetParams d s) = True"
  by (simp_all add: same_indices_def emit_tfmw_def SetAllowRlyAddress_def DeleteAllowRlyAddress_def
      tfmw_SetParams_def)

lemma same_indices_trans: "same_indices r s \<Longrightarrow> same_indices s t \<Longrightarrow> same_indices r t"
  by (simp add: same_indices_def)

lemma same_indices_remove_list:
  "AddParachainIBCInfoToRemoveList ctx n s = (r, t) \<Longrightarrow> same_indices s t"
  by (auto simp: AddParachainIBCInfoToRemoveList_def same_indices_def Let_def
      split: res.splits if_splits)

lemma same_indices_RemoveMsg:
  "RemoveParachainIBCTokenInfo au ctx req s = (r, t) \<Longrightarrow> same_indices s t"
  by (auto simp: RemoveParachainIBCTokenInfo_def dest!: same_indices_remove_list
      split: if_splits prod.splits res.splits intro: same_indices_trans)

lemma same_indices_AddRly: "AddRlyAddress au req s = (r, t) \<Longrightarrow> same_indices s t"
  by (auto simp: AddRlyAddress_def same_indices_def emit_tfmw_def SetAllowRlyAddress_def split: if_splits)

lemma registry_ok_AddParachainIBCInfo:
  assumes "registry_ok s"
  shows "registry_ok (snd (AddParachainIBCInfo d c n a s))"
proof (cases "AddParachainIBCInfo d c n a s")
  case (Pair r t)
  then have "r = Ok () \<or> t = s"
    by (auto simp: AddParachainIBCInfo_def Let_def split: if_splits)
  with Pair assms AddParachainIBCInfo_registered(2) [OF assms] show ?thesis by auto
qed

lemma registry_ok_RemoveParachainIBCInfo:
  assumes "registry_ok s"
  shows "registry_ok (snd (RemoveParachainIBCInfo n s))"
proof (cases "RemoveParachainIBCInfo n s")
  case (Pair r t)
  then have "r = Ok () \<or> t = s"
    by (auto simp: RemoveParachainIBCInfo_def Let_def split: if_splits)
  with Pair assms RemoveParachainIBCInfo_registered(2) [OF assms] show ?thesis by auto
qed

lemma registry_ok_remove_callback:
  assumes "registry_ok s"
  shows "registry_ok (snd (remove_callback ctx r s))"
  using registry_ok_RemoveParachainIBCInfo [OF assms, of "Rm_NativeDenom r"] assms
  by (auto simp: remove_callback_def split: prod.splits res.splits)

lemma registry_ok_BeginBlocker: "registry_ok s \<Longrightarrow> registry_ok (tfmw_BeginBlocker ctx s)"
  unfolding tfmw_BeginBlocker_def IterateRemoveListInfo_def
  by (rule iterate_until_inv) (auto intro: registry_ok_remove_callback)

lemma registry_ok_InitGenesis:
  assumes "registry_ok s"
  shows "registry_ok (snd (tfmw_InitGenesis g s))"
proof -
  have "registry_ok (snd (op_each (\<lambda>i. op_must (add_info i)) (Tg_TokenInfos g) s))"
  proof (rule op_each_inv)
    fix x t
    assume "registry_ok t"
    then show "registry_ok (snd (op_must (add_info x) t))"
      using registry_ok_AddParachainIBCInfo [of t "IbcDenom x" "ChannelID x" "NativeDenom x" "AssetId x"]
      by (auto simp: add_info_def op_must_def split: prod.splits res.splits)
  qed (rule assms)
  then show ?thesis
    by (auto simp: tfmw_InitGenesis_def op_bind_def same_indices_registry_ok [OF eqTrueE, OF same_indices_frames(4)]
        split: prod.splits res.splits)
qed

end
