(* ===== verification/Reference_Lib.thy ===== *)
theory Reference_Lib
  imports Lib
begin

text \<open>
  One concrete choice of the library parameters: a ledger that keeps balances and supplies, and simple
  codecs. It shows that the laws the theorems assume of the libraries can hold together, and it is
  what the witnesses evaluate.
\<close>

section \<open>A ledger\<close>

record ledger =
  lg_balance :: "bytes \<Rightarrow> string \<Rightarrow> int"
  lg_supply :: "string \<Rightarrow> int"

definition mod_addr :: "string \<Rightarrow> bytes" where
  "mod_addr m = ''module/'' @ m"

definition covered :: "(string \<Rightarrow> int) \<Rightarrow> Coins \<Rightarrow> bool" where
  "covered bal cs \<longleftrightarrow> list_all (\<lambda>c. 0 \<le> Coin_Amount c \<and> AmountOf cs (Coin_Denom c) \<le> bal (Coin_Denom c)) cs"

definition lg_send :: "bytes \<Rightarrow> bytes \<Rightarrow> Coins \<Rightarrow> (ledger, unit) op" where
  "lg_send f t cs b =
     (if covered (lg_balance b f) cs
      then (Ok (), b\<lparr>lg_balance := (\<lambda>a d. lg_balance b a d - (if a = f then AmountOf cs d else 0)
                                                        + (if a = t then AmountOf cs d else 0))\<rparr>)
      else (Err (ErrLib ''insufficient funds''), b))"

definition lg_issue :: "string \<Rightarrow> (string \<Rightarrow> int) \<Rightarrow> ledger \<Rightarrow> ledger" where
  "lg_issue m amt b =
     b\<lparr>lg_balance := (\<lambda>a d. lg_balance b a d + (if a = mod_addr m then amt d else 0)),
       lg_supply := (\<lambda>d. lg_supply b d + amt d)\<rparr>"

definition ref_bank :: "ledger bank" where
  "ref_bank =
     \<lparr>SendCoins = lg_send,
      MintCoins = (\<lambda>m cs b. (Ok (), lg_issue m (AmountOf cs) b)),
      BurnCoins = (\<lambda>m cs b. if covered (lg_balance b (mod_addr m)) cs
                             then (Ok (), lg_issue m (\<lambda>d. - AmountOf cs d) b)
                             else (Err (ErrLib ''insufficient funds''), b)),
      SendCoinsFromModuleToAccount = (\<lambda>m t. lg_send (mod_addr m) t),
      SendCoinsFromAccountToModule = (\<lambda>f m. lg_send f (mod_addr m)),
      SendCoinsFromModuleToModule = (\<lambda>m n. lg_send (mod_addr m) (mod_addr n)),
      GetBalance = lg_balance,
      GetSupply = lg_supply\<rparr>"

lemma bank_laws_ref: "bank_laws ref_bank mod_addr"
  by (auto simp: bank_laws_def ref_bank_def lg_send_def lg_issue_def moved_def issued_def split: if_splits)

section \<open>Codecs\<close>

text \<open>
  The decoders know a few packets by name; traces are the text before the last slash, and the hash of
  a trace is the text itself.
\<close>

definition ref_trace :: "string \<Rightarrow> DenomTrace" where
  "ref_trace d =
     \<lparr>Dt_Path = rev (drop 1 (dropWhile (\<lambda>c. c \<noteq> CHR ''/'') (rev d))),
      Dt_BaseDenom = rev (takeWhile (\<lambda>c. c \<noteq> CHR ''/'') (rev d))\<rparr>"

definition ref_ibc_denom :: "DenomTrace \<Rightarrow> string" where
  "ref_ibc_denom t =
     (if Dt_Path t = [] then Dt_BaseDenom t else ''ibc/'' @ Dt_Path t @ ''/'' @ Dt_BaseDenom t)"

definition ref_prefix :: "string \<Rightarrow> string \<Rightarrow> string" where
  "ref_prefix port channel = port @ ''/'' @ channel @ ''/''"

definition ref_packet :: "bytes \<Rightarrow> FungibleTokenPacketData res" where
  "ref_packet b =
     (if b = ''pica'' then Ok \<lparr>Ftd_Denom = ''ppica'', Ftd_Amount = ''40'', Ftd_Sender = ''alice'',
                               Ftd_Receiver = ''bob'', Ftd_Memo = []\<rparr>
      else if b = ''one'' then Ok \<lparr>Ftd_Denom = ''1'', Ftd_Amount = ''40'', Ftd_Sender = ''bob'',
                               Ftd_Receiver = ''alice'', Ftd_Memo = []\<rparr>
      else if b = ''voucher'' then Ok \<lparr>Ftd_Denom = ''transfer/channel-0/1'', Ftd_Amount = ''40'',
                               Ftd_Sender = ''alice'', Ftd_Receiver = ''bob'', Ftd_Memo = []\<rparr>
      else Err (ErrLib ''json''))"

definition ref_ack :: "bytes \<Rightarrow> AckResponse res" where
  "ref_ack b =
     (if b = ''ok'' then Ok (Ack_Result [CHR 0x01])
      else if b = ''failed'' then Ok (Ack_Error ''failed'')
      else Err (ErrLib ''json''))"

definition ref_int :: "string \<Rightarrow> int option" where
  "ref_int s = (if s = [] then None else map_option int (digits_val 0 s))"

definition ref_coin :: "string \<Rightarrow> int \<Rightarrow> Coin res" where
  "ref_coin d a = (if 0 \<le> a \<and> d \<noteq> [] then Ok \<lparr>Coin_Denom = d, Coin_Amount = a\<rparr> else Panic)"

definition ref_coins :: "Coin list \<Rightarrow> Coins res" where
  "ref_coins cs =
     (if list_all (\<lambda>c. 0 \<le> Coin_Amount c \<and> Coin_Denom c \<noteq> []) cs
      then Ok (filter (\<lambda>c. Coin_Amount c \<noteq> 0) cs) else Panic)"

definition ref_lib :: lib where
  "ref_lib =
     \<lparr>int_fits = (\<lambda>i. \<bar>i\<bar> < 2 ^ 256),
      NewIntFromString = ref_int,
      AccAddressFromBech32 = (\<lambda>a. if a = [] then Err ErrInvalidAddress else Ok a),
      ValidateDenom = (\<lambda>d. guard (d \<noteq> []) ErrInvalidCoin),
      NewCoin = ref_coin,
      NewCoins = ref_coins,
      ChannelIdentifierValidator = (\<lambda>c. guard (8 \<le> length c \<and> length c \<le> 64) (ErrLib ''channel'')),
      ValidateIBCDenom = (\<lambda>d. guard (d \<noteq> []) (ErrLib ''denom'')),
      ParseDenomTrace = ref_trace,
      IBCDenom = ref_ibc_denom,
      Dt_Hash = ref_ibc_denom,
      GetDenomPrefix = ref_prefix,
      SenderChainIsSource = (\<lambda>p c d. \<not> prefix (ref_prefix p c) d),
      ReceiverChainIsSource = (\<lambda>p c d. prefix (ref_prefix p c) d),
      GetEscrowAddress = (\<lambda>p c. ''escrow/'' @ p @ c),
      TransferPortID = ''transfer'',
      TransferModuleName = ''transfer'',
      Unmarshal_json = ref_packet,
      UnmarshalJSON_packet = ref_packet,
      UnmarshalJSON_ack = ref_ack,
      MsgTransfer_ValidateBasic = (\<lambda>m. guard (0 < Coin_Amount (Mt_Token m)) ErrInvalidCoin)\<rparr>"

lemma coin_laws_ref: "coin_laws ref_lib"
  by (auto simp: coin_laws_def ref_lib_def ref_coin_def ref_coins_def)

lemma ref_lib_simps [simp]:
  "int_fits ref_lib i \<longleftrightarrow> \<bar>i\<bar> < 2 ^ 256"
  "NewIntFromString ref_lib = ref_int"
  "AccAddressFromBech32 ref_lib a = (if a = [] then Err ErrInvalidAddress else Ok a)"
  "ValidateDenom ref_lib d = guard (d \<noteq> []) ErrInvalidCoin"
  "NewCoin ref_lib = ref_coin"
  "NewCoins ref_lib = ref_coins"
  "ChannelIdentifierValidator ref_lib c = guard (8 \<le> length c \<and> length c \<le> 64) (ErrLib ''channel'')"
  "ValidateIBCDenom ref_lib d = guard (d \<noteq> []) (ErrLib ''denom'')"
  "ParseDenomTrace ref_lib = ref_trace"
  "IBCDenom ref_lib = ref_ibc_denom"
  "Dt_Hash ref_lib = ref_ibc_denom"
  "GetDenomPrefix ref_lib = ref_prefix"
  "SenderChainIsSource ref_lib p c d \<longleftrightarrow> \<not> prefix (ref_prefix p c) d"
  "ReceiverChainIsSource ref_lib p c d \<longleftrightarrow> prefix (ref_prefix p c) d"
  "GetEscrowAddress ref_lib p c = ''escrow/'' @ p @ c"
  "TransferPortID ref_lib = ''transfer''"
  "TransferModuleName ref_lib = ''transfer''"
  "Unmarshal_json ref_lib = ref_packet"
  "UnmarshalJSON_packet ref_lib = ref_packet"
  "UnmarshalJSON_ack ref_lib = ref_ack"
  "MsgTransfer_ValidateBasic ref_lib m = guard (0 < Coin_Amount (Mt_Token m)) ErrInvalidCoin"
  by (simp_all add: ref_lib_def)

end
