(* ===== verification/Mint.thy ===== *)
theory Mint
  imports Reference_Lib
begin

text \<open>
  \<open>x/mint\<close>: the inflation rate, the provision of a block and the pool it is paid from. Decimals are the
  SDK's \<open>LegacyDec\<close>: the integer of \<open>10 ^ -18\<close> units, whose rounding operations are parameters with their
  documented precision as laws.
\<close>

section \<open>Decimals\<close>

type_synonym Dec = int

definition dec_unit :: int where
  "dec_unit = 10 ^ 18"

record dec_ops =
  NewDecFromInt :: "int \<Rightarrow> Dec res"
  dec_Add :: "Dec \<Rightarrow> Dec \<Rightarrow> Dec res"
  dec_Sub :: "Dec \<Rightarrow> Dec \<Rightarrow> Dec res"
  dec_Mul :: "Dec \<Rightarrow> Dec \<Rightarrow> Dec res"
  dec_Quo :: "Dec \<Rightarrow> Dec \<Rightarrow> Dec res"
  dec_MulInt :: "Dec \<Rightarrow> int \<Rightarrow> Dec res"
  dec_QuoInt :: "Dec \<Rightarrow> int \<Rightarrow> Dec res"
  TruncateInt :: "Dec \<Rightarrow> int res"

text \<open>
  Documented results, when an operation does not panic: sums, differences and products with an integer
  are exact, division by an integer and truncation round towards zero, a quotient is within one unit
  in the last place.
\<close>

definition dec_laws :: "dec_ops \<Rightarrow> bool" where
  "dec_laws A \<longleftrightarrow>
     (\<forall>i r. NewDecFromInt A i = Ok r \<longrightarrow> r = i * dec_unit) \<and>
     (\<forall>a b r. dec_Quo A a b = Ok r \<longrightarrow> b \<noteq> 0 \<and> \<bar>r * b - a * dec_unit\<bar> \<le> \<bar>b\<bar>) \<and>
     (\<forall>a b c r q. dec_Quo A a c = Ok r \<longrightarrow> dec_Quo A b c = Ok q \<longrightarrow> 0 < c \<longrightarrow> a \<le> b \<longrightarrow> r \<le> q) \<and>
     (\<forall>a i r. dec_MulInt A a i = Ok r \<longrightarrow> r = a * i) \<and>
     (\<forall>a i r. dec_QuoInt A a i = Ok r \<longrightarrow> i \<noteq> 0 \<and> r = a sdiv i) \<and>
     (\<forall>a r. TruncateInt A a = Ok r \<longrightarrow> r = a sdiv dec_unit)"

section \<open>Data\<close>

record Minter =
  Inflation :: Dec
  AnnualProvisions :: Dec

record mint_Params =
  MintDenom :: string
  InflationRateChange :: Dec
  GoalBonded :: Dec
  BlocksPerYear :: u64
  MaxTokenPerYear :: int
  MinTokenPerYear :: int

definition NewMinter :: "Dec \<Rightarrow> Dec \<Rightarrow> Minter" where
  "NewMinter inflation annualProvisions = \<lparr>Inflation = inflation, AnnualProvisions = annualProvisions\<rparr>"

definition InitialMinter :: "Dec \<Rightarrow> Minter" where
  "InitialMinter inflation = NewMinter inflation 0"

text \<open>\<open>NewDecWithPrec(n, 2)\<close> is \<open>n\<close> hundredths.\<close>

definition hundredths :: "int \<Rightarrow> Dec" where
  "hundredths n = n * 10 ^ 16"

definition DefaultInitialMinter :: Minter where
  "DefaultInitialMinter = InitialMinter (hundredths 13)"

definition ValidateMinter :: "Minter \<Rightarrow> unit res" where
  "ValidateMinter minter =
     guard (\<not> Inflation minter < 0) (ErrPlain ''mint parameter Inflation should be positive'')"

definition mint_NewParams :: "string \<Rightarrow> Dec \<Rightarrow> Dec \<Rightarrow> Dec \<Rightarrow> Dec \<Rightarrow> u64 \<Rightarrow> int \<Rightarrow> mint_Params" where
  "mint_NewParams mintDenom inflationRateChange _ _ goalBonded blocksPerYear tokenPerYear =
     \<lparr>MintDenom = mintDenom, InflationRateChange = inflationRateChange, GoalBonded = goalBonded,
      BlocksPerYear = blocksPerYear, MaxTokenPerYear = tokenPerYear, MinTokenPerYear = tokenPerYear\<rparr>"

text \<open>\<open>bondDenom\<close> is the SDK's default staking denomination.\<close>

definition mint_DefaultParams :: "string \<Rightarrow> mint_Params" where
  "mint_DefaultParams bondDenom =
     \<lparr>MintDenom = bondDenom, InflationRateChange = hundredths 13, GoalBonded = hundredths 67,
      BlocksPerYear = 60 * 60 * 8766 div 5, MaxTokenPerYear = 1000000000000000, MinTokenPerYear = 800000000000000\<rparr>"

section \<open>Validation\<close>

definition validateMintDenom :: "lib \<Rightarrow> string \<Rightarrow> unit res" where
  "validateMintDenom L v =
     (if blank v then Err (ErrPlain ''mint denom cannot be blank'') else ValidateDenom L v)"

definition validateInflationRateChange :: "Dec \<Rightarrow> unit res" where
  "validateInflationRateChange v =
     (if v < 0 then Err (ErrPlain ''inflation rate change cannot be negative'')
      else if dec_unit < v then Err (ErrPlain ''inflation rate change too large'') else Ok ())"

definition validateGoalBonded :: "Dec \<Rightarrow> unit res" where
  "validateGoalBonded v =
     (if v < 0 \<or> v = 0 then Err (ErrPlain ''goal bonded must be positive'')
      else if dec_unit < v then Err (ErrPlain ''goal bonded too large'') else Ok ())"

definition validateBlocksPerYear :: "u64 \<Rightarrow> unit res" where
  "validateBlocksPerYear v = guard (v \<noteq> 0) (ErrPlain ''blocks per year must be positive'')"

definition mint_Params_Validate :: "lib \<Rightarrow> mint_Params \<Rightarrow> unit res" where
  "mint_Params_Validate L p =
     res_bind (validateMintDenom L (MintDenom p)) (\<lambda>_.
     res_bind (validateInflationRateChange (InflationRateChange p)) (\<lambda>_.
     res_bind (validateGoalBonded (GoalBonded p)) (\<lambda>_.
     res_bind (validateBlocksPerYear (BlocksPerYear p)) (\<lambda>_.
       guard (\<not> MaxTokenPerYear p < MinTokenPerYear p)
         (ErrPlain ''MaxTokenPerYear must be greater than or equal to MinTokenPerYear'')))))"

section \<open>Minter\<close>

text \<open>\<open>int64(params.BlocksPerYear)\<close> reads the unsigned number as a signed one.\<close>

definition int64_of :: "u64 \<Rightarrow> int" where
  "int64_of w = sint w"

definition clamp_inflation :: "Dec \<Rightarrow> Dec \<Rightarrow> Dec \<Rightarrow> Dec" where
  "clamp_inflation inflationMax inflationMin inflation =
     (let inflation = (if inflationMax < inflation then inflationMax else inflation)
      in if inflation < inflationMin then inflationMin else inflation)"

definition NextInflationRate :: "dec_ops \<Rightarrow> Minter \<Rightarrow> mint_Params \<Rightarrow> Dec \<Rightarrow> int \<Rightarrow> Dec res" where
  "NextInflationRate A m params bondedRatio totalStakingSupply =
     res_bind (NewDecFromInt A totalStakingSupply) (\<lambda>totalStakingSupplyDec.
       if totalStakingSupplyDec < 1 then Ok (Inflation m)
       else
         res_bind (dec_Quo A bondedRatio (GoalBonded params)) (\<lambda>q.
         res_bind (dec_Sub A dec_unit q) (\<lambda>d.
         res_bind (dec_Mul A d (InflationRateChange params)) (\<lambda>inflationRateChangePerYear.
         res_bind (NewDecFromInt A (int64_of (BlocksPerYear params))) (\<lambda>blocks.
         res_bind (dec_Quo A inflationRateChangePerYear blocks) (\<lambda>inflationRateChange.
         res_bind (dec_Add A (Inflation m) inflationRateChange) (\<lambda>inflation.
         res_bind (NewDecFromInt A (MaxTokenPerYear params)) (\<lambda>maxDec.
         res_bind (dec_Quo A maxDec totalStakingSupplyDec) (\<lambda>inflationMax.
         res_bind (NewDecFromInt A (MinTokenPerYear params)) (\<lambda>minDec.
         res_bind (dec_Quo A minDec totalStakingSupplyDec) (\<lambda>inflationMin.
           Ok (clamp_inflation inflationMax inflationMin inflation))))))))))))"

definition NextAnnualProvisions :: "dec_ops \<Rightarrow> Minter \<Rightarrow> mint_Params \<Rightarrow> int \<Rightarrow> Dec res" where
  "NextAnnualProvisions A m _ totalSupply = dec_MulInt A (Inflation m) totalSupply"

definition BlockProvision :: "lib \<Rightarrow> dec_ops \<Rightarrow> Minter \<Rightarrow> mint_Params \<Rightarrow> Coin res" where
  "BlockProvision L A m params =
     res_bind (dec_QuoInt A (AnnualProvisions m) (int64_of (BlocksPerYear params))) (\<lambda>provisionAmt.
     res_bind (TruncateInt A provisionAmt) (\<lambda>amt. NewCoin L (MintDenom params) amt))"

definition DefaultInflationCalculationFn :: "dec_ops \<Rightarrow> Minter \<Rightarrow> mint_Params \<Rightarrow> Dec \<Rightarrow> int \<Rightarrow> Dec res" where
  "DefaultInflationCalculationFn A minter params bondedRatio totalStakingSupply =
     NextInflationRate A minter params bondedRatio totalStakingSupply"

section \<open>Keeper\<close>

datatype mint_val = V_Minter Minter | V_MintParams mint_Params | V_Allowed

type_synonym mint_state = "mint_val kv"

definition MinterKey :: bytes where
  "MinterKey = [CHR 0x00]"

definition AllowedAddressKey :: bytes where
  "AllowedAddressKey = [CHR 0x01]"

definition mint_ParamsKey :: bytes where
  "mint_ParamsKey = ''ParamsKey''"

definition GetAllowedAddressStoreKey :: "string \<Rightarrow> bytes" where
  "GetAllowedAddressStoreKey address = AllowedAddressKey @ address"

definition mint_ModuleName :: string where
  "mint_ModuleName = ''mint''"

text \<open>The chain as the module sees it: its own store and the rest, which the other keepers change.\<close>

record 'b mint_world =
  mw_store :: mint_state
  mw_ext :: 'b

text \<open>
  The keeper's fields. \<open>accountKeeper\<close> is \<open>None\<close> when the struct field is left nil; the account keeper
  is the function that gives the address of the account of a module.
\<close>

record 'b mint_Keeper =
  mk_accountKeeper :: "(string \<Rightarrow> bytes) option"
  mk_StakingTokenSupply :: "'b \<Rightarrow> int res"
  mk_BondedRatio :: "'b \<Rightarrow> Dec res"
  mk_bankKeeper :: "'b bank"
  mk_feeCollectorName :: string
  mk_authority :: string

text \<open>\<open>NewKeeper\<close> checks that the module account has an address and keeps every keeper but the account one.\<close>

definition mint_NewKeeper ::
    "('b \<Rightarrow> int res) \<Rightarrow> ('b \<Rightarrow> Dec res) \<Rightarrow> (string \<Rightarrow> bytes option) \<Rightarrow> 'b bank \<Rightarrow> string \<Rightarrow> string \<Rightarrow>
     'b mint_Keeper res" where
  "mint_NewKeeper supply ratio GetModuleAddress bk feeCollectorName authority =
     (case GetModuleAddress mint_ModuleName of
        None \<Rightarrow> Panic
      | Some _ \<Rightarrow>
          Ok \<lparr>mk_accountKeeper = None, mk_StakingTokenSupply = supply, mk_BondedRatio = ratio, mk_bankKeeper = bk,
              mk_feeCollectorName = feeCollectorName, mk_authority = authority\<rparr>)"

definition GetModuleAccountAccAddress :: "'b mint_Keeper \<Rightarrow> bytes res" where
  "GetModuleAccountAccAddress k =
     (case mk_accountKeeper k of None \<Rightarrow> Panic | Some addr \<Rightarrow> Ok (addr mint_ModuleName))"

definition GetMinter :: "mint_state \<Rightarrow> Minter res" where
  "GetMinter s = (case kv_get s MinterKey of Some (V_Minter m) \<Rightarrow> Ok m | _ \<Rightarrow> Panic)"

definition SetMinter :: "Minter \<Rightarrow> mint_state \<Rightarrow> mint_state" where
  "SetMinter minter s = kv_set MinterKey (V_Minter minter) s"

definition SetAllowedAddress :: "string \<Rightarrow> mint_state \<Rightarrow> mint_state" where
  "SetAllowedAddress address s = kv_set (GetAllowedAddressStoreKey address) V_Allowed s"

definition IsAllowedAddress :: "mint_state \<Rightarrow> string \<Rightarrow> bool" where
  "IsAllowedAddress s address = kv_has s (GetAllowedAddressStoreKey address)"

definition mint_SetParams :: "lib \<Rightarrow> mint_Params \<Rightarrow> (mint_state, unit) op" where
  "mint_SetParams L p s =
     (case mint_Params_Validate L p of
        Err e \<Rightarrow> (Err e, s)
      | Panic \<Rightarrow> (Panic, s)
      | Ok _ \<Rightarrow> (Ok (), kv_set mint_ParamsKey (V_MintParams p) s))"

text \<open>
  Without stored parameters the zero value is returned. Its decimals are nil pointers; they read as zero
  here, and the code panics on the first use of either (a nil decimal or a division by zero).
\<close>

definition zero_mint_Params :: mint_Params where
  "zero_mint_Params =
     \<lparr>MintDenom = [], InflationRateChange = 0, GoalBonded = 0, BlocksPerYear = 0,
      MaxTokenPerYear = 0, MinTokenPerYear = 0\<rparr>"

definition mint_GetParams :: "mint_state \<Rightarrow> mint_Params" where
  "mint_GetParams s = (case kv_get s mint_ParamsKey of Some (V_MintParams p) \<Rightarrow> p | _ \<Rightarrow> zero_mint_Params)"

definition on_mint :: "(mint_state, 'a) op \<Rightarrow> ('b mint_world, 'a) op" where
  "on_mint = op_on mw_store (\<lambda>m w. w\<lparr>mw_store := m\<rparr>)"

definition on_mint_ext :: "('b, 'a) op \<Rightarrow> ('b mint_world, 'a) op" where
  "on_mint_ext = op_on mw_ext (\<lambda>b w. w\<lparr>mw_ext := b\<rparr>)"

definition mint_MintCoins :: "'b mint_Keeper \<Rightarrow> Coins \<Rightarrow> ('b, unit) op" where
  "mint_MintCoins k newCoins =
     (if newCoins = [] then op_lift (Ok ()) else MintCoins (mk_bankKeeper k) mint_ModuleName newCoins)"

definition AddCollectedFees :: "'b mint_Keeper \<Rightarrow> Coins \<Rightarrow> ('b, unit) op" where
  "AddCollectedFees k fees =
     SendCoinsFromModuleToModule (mk_bankKeeper k) mint_ModuleName (mk_feeCollectorName k) fees"

section \<open>Begin blocker\<close>

text \<open>
  The inflation function is the one the module was built with. The error of the transfer is logged only:
  the block goes on, with what the transfer left. The event is emitted in both cases; events and
  telemetry are not part of the state.
\<close>

definition mint_BeginBlocker ::
    "lib \<Rightarrow> dec_ops \<Rightarrow> 'b mint_Keeper \<Rightarrow> (Minter \<Rightarrow> mint_Params \<Rightarrow> Dec \<Rightarrow> int \<Rightarrow> Dec res) \<Rightarrow>
     ('b mint_world, unit) op" where
  "mint_BeginBlocker L A k ic w =
     op_bind (op_lift (GetMinter (mw_store w))) (\<lambda>minter.
       let params = mint_GetParams (mw_store w) in
       op_bind (op_lift (mk_StakingTokenSupply k (mw_ext w))) (\<lambda>totalStakingSupply.
       op_bind (op_lift (mk_BondedRatio k (mw_ext w))) (\<lambda>bondedRatio.
       op_bind (op_lift (ic minter params bondedRatio totalStakingSupply)) (\<lambda>inflation.
         let minter = minter\<lparr>Inflation := inflation\<rparr> in
         op_bind (op_lift (NextAnnualProvisions A minter params totalStakingSupply)) (\<lambda>provisions w.
           let minter = minter\<lparr>AnnualProvisions := provisions\<rparr>;
               w = w\<lparr>mw_store := SetMinter minter (mw_store w)\<rparr>
           in op_bind (op_lift (res_bind (BlockProvision L A minter params) (\<lambda>c. NewCoins L [c])))
                (\<lambda>mintedCoins w.
                   case on_mint_ext (AddCollectedFees k mintedCoins) w of
                     (Panic, w') \<Rightarrow> (Panic, w')
                   | (_, w') \<Rightarrow> (Ok (), w')) w))))) w"

section \<open>Messages\<close>

record MsgUpdateParams =
  Mup_Authority :: string
  Mup_Params :: mint_Params

record MsgFundModuleAccount =
  Mfm_FromAddress :: string
  Mfm_Amount :: Coins

record MsgAddAccountToFundModuleSet =
  Maa_Authority :: string
  Maa_AllowedAddress :: string

text \<open>\<open>show_addr\<close> is the bech32 text of an address.\<close>

definition NewMsgFundModuleAccount :: "(bytes \<Rightarrow> string) \<Rightarrow> bytes \<Rightarrow> Coins \<Rightarrow> MsgFundModuleAccount" where
  "NewMsgFundModuleAccount show_addr fromAddr amount =
     \<lparr>Mfm_FromAddress = show_addr fromAddr, Mfm_Amount = amount\<rparr>"

definition NewMsgAddAccountToFundModuleSet :: "string \<Rightarrow> string \<Rightarrow> MsgAddAccountToFundModuleSet" where
  "NewMsgAddAccountToFundModuleSet authority allowedAddress =
     \<lparr>Maa_Authority = authority, Maa_AllowedAddress = allowedAddress\<rparr>"

definition MsgFundModuleAccount_GetSigners :: "lib \<Rightarrow> MsgFundModuleAccount \<Rightarrow> bytes list res" where
  "MsgFundModuleAccount_GetSigners L m =
     (case AccAddressFromBech32 L (Mfm_FromAddress m) of Ok a \<Rightarrow> Ok [a] | _ \<Rightarrow> Panic)"

definition MsgAddAccountToFundModuleSet_GetSigners :: "lib \<Rightarrow> MsgAddAccountToFundModuleSet \<Rightarrow> bytes list res" where
  "MsgAddAccountToFundModuleSet_GetSigners L m =
     (case AccAddressFromBech32 L (Maa_Authority m) of Ok a \<Rightarrow> Ok [a] | _ \<Rightarrow> Panic)"

text \<open>Here the error is dropped and the address is then nil.\<close>

definition MsgUpdateParams_GetSigners :: "lib \<Rightarrow> MsgUpdateParams \<Rightarrow> bytes list res" where
  "MsgUpdateParams_GetSigners L m =
     (case AccAddressFromBech32 L (Mup_Authority m) of Ok a \<Rightarrow> Ok [a] | Err _ \<Rightarrow> Ok [[]] | Panic \<Rightarrow> Panic)"

definition MsgFundModuleAccount_ValidateBasic :: "lib \<Rightarrow> MsgFundModuleAccount \<Rightarrow> unit res" where
  "MsgFundModuleAccount_ValidateBasic L m =
     res_bind (AccAddressFromBech32 L (Mfm_FromAddress m)) (\<lambda>_. Ok ())"

definition MsgAddAccountToFundModuleSet_ValidateBasic :: "lib \<Rightarrow> MsgAddAccountToFundModuleSet \<Rightarrow> unit res" where
  "MsgAddAccountToFundModuleSet_ValidateBasic L m =
     res_bind (AccAddressFromBech32 L (Maa_Authority m)) (\<lambda>_.
     res_bind (AccAddressFromBech32 L (Maa_AllowedAddress m)) (\<lambda>_. Ok ()))"

definition MsgUpdateParams_ValidateBasic :: "lib \<Rightarrow> MsgUpdateParams \<Rightarrow> unit res" where
  "MsgUpdateParams_ValidateBasic L m =
     res_bind (AccAddressFromBech32 L (Mup_Authority m)) (\<lambda>_. mint_Params_Validate L (Mup_Params m))"

definition UpdateParams :: "lib \<Rightarrow> 'b mint_Keeper \<Rightarrow> MsgUpdateParams \<Rightarrow> ('b mint_world, unit) op" where
  "UpdateParams L k req w =
     (if mk_authority k \<noteq> Mup_Authority req then (Err ErrInvalidSigner, w)
      else on_mint (mint_SetParams L (Mup_Params req)) w)"

definition FundModuleAccount :: "lib \<Rightarrow> 'b mint_Keeper \<Rightarrow> MsgFundModuleAccount \<Rightarrow> ('b mint_world, unit) op" where
  "FundModuleAccount L k req =
     op_bind (op_lift (AccAddressFromBech32 L (Mfm_FromAddress req))) (\<lambda>sender w.
       if \<not> IsAllowedAddress (mw_store w) (Mfm_FromAddress req) then (Err ErrInvalidAddress, w)
       else
         (let params = mint_GetParams (mw_store w)
          in if 1 < length (Mfm_Amount req) then (Err ErrInvalidCoin, w)
             else
               (case Mfm_Amount req of
                  [] \<Rightarrow> (Panic, w)
                | c # _ \<Rightarrow>
                    (if Coin_Denom c \<noteq> MintDenom params then (Err ErrInvalidCoin, w)
                     else
                       op_bind (op_lift (GetModuleAccountAccAddress k)) (\<lambda>addr.
                         on_mint_ext (SendCoins (mk_bankKeeper k) sender addr (Mfm_Amount req))) w))))"

definition AddAccountToFundModuleSet ::
    "'b mint_Keeper \<Rightarrow> MsgAddAccountToFundModuleSet \<Rightarrow> ('b mint_world, unit) op" where
  "AddAccountToFundModuleSet k req w =
     (if mk_authority k \<noteq> Maa_Authority req then (Err ErrInvalidSigner, w)
      else (Ok (), w\<lparr>mw_store := SetAllowedAddress (Maa_AllowedAddress req) (mw_store w)\<rparr>))"

section \<open>Genesis and queries\<close>

record mint_GenesisState =
  Mg_Minter :: Minter
  Mg_Params :: mint_Params
  Mg_IncentivesSupply :: Coin

definition mint_NewGenesisState :: "Minter \<Rightarrow> mint_Params \<Rightarrow> Coin \<Rightarrow> mint_GenesisState" where
  "mint_NewGenesisState minter params incentives =
     \<lparr>Mg_Minter = minter, Mg_Params = params, Mg_IncentivesSupply = incentives\<rparr>"

definition mint_DefaultGenesisState :: "lib \<Rightarrow> string \<Rightarrow> mint_GenesisState res" where
  "mint_DefaultGenesisState L bondDenom =
     res_bind (NewCoin L bondDenom 100000000000) (\<lambda>c.
       Ok (mint_NewGenesisState DefaultInitialMinter (mint_DefaultParams bondDenom) c))"

definition mint_ValidateGenesis :: "lib \<Rightarrow> mint_GenesisState \<Rightarrow> unit res" where
  "mint_ValidateGenesis L data =
     res_bind (mint_Params_Validate L (Mg_Params data)) (\<lambda>_. ValidateMinter (Mg_Minter data))"

definition mint_InitGenesis :: "lib \<Rightarrow> 'b mint_Keeper \<Rightarrow> mint_GenesisState \<Rightarrow> ('b mint_world, unit) op" where
  "mint_InitGenesis L k data w =
     op_bind (op_must (on_mint (mint_SetParams L (Mg_Params data)))) (\<lambda>_.
     op_bind (op_lift (NewCoins L [Mg_IncentivesSupply data])) (\<lambda>newCoins.
       op_must (on_mint_ext (mint_MintCoins k newCoins))))
       (w\<lparr>mw_store := SetMinter (Mg_Minter data) (mw_store w)\<rparr>)"

text \<open>\<open>moduleAddress\<close> is the address of the module account, from the account keeper of the module.\<close>

definition mint_ExportGenesis :: "'b mint_Keeper \<Rightarrow> bytes \<Rightarrow> 'b mint_world \<Rightarrow> mint_GenesisState res" where
  "mint_ExportGenesis k moduleAddress w =
     res_bind (GetMinter (mw_store w)) (\<lambda>minter.
       let params = mint_GetParams (mw_store w);
           remIncentives = \<lparr>Coin_Denom = MintDenom params,
                            Coin_Amount = GetBalance (mk_bankKeeper k) (mw_ext w) moduleAddress (MintDenom params)\<rparr>
       in Ok (mint_NewGenesisState minter params remIncentives))"

definition query_mint_Params :: "mint_state \<Rightarrow> mint_Params" where
  "query_mint_Params s = mint_GetParams s"

definition query_Inflation :: "mint_state \<Rightarrow> Dec res" where
  "query_Inflation s = res_bind (GetMinter s) (\<lambda>m. Ok (Inflation m))"

definition query_AnnualProvisions :: "mint_state \<Rightarrow> Dec res" where
  "query_AnnualProvisions s = res_bind (GetMinter s) (\<lambda>m. Ok (AnnualProvisions m))"

end
