(* ===== verification/Bech32_Migration.thy ===== *)
theory Bech32_Migration
  imports KVStore
begin

text \<open>
  \<open>bech32-migration\<close>: rewriting the addresses that the stores of the SDK modules keep as bech32 text under
  an old prefix. The bech32 codec, the stored types of the SDK with their encodings and the key prefixes of
  its modules are parameters; of a stored type only the addresses are named, the other fields are one
  component of type \<open>'x\<close>. Counters that are only logged are left out.
\<close>

section \<open>Addresses\<close>

record bech32_lib =
  GetFromBech32 :: "string \<Rightarrow> string \<Rightarrow> bytes option"
  VerifyAddressFormat :: "bytes \<Rightarrow> bool"
  AccAddress_String :: "bytes \<Rightarrow> string"
  ValAddress_String :: "bytes \<Rightarrow> string"
  ConsAddress_String :: "bytes \<Rightarrow> string"
  PrefixValidator :: string
  PrefixOperator :: string
  PrefixConsensus :: string

definition OldBech32Prefix :: string where
  "OldBech32Prefix = ''centauri''"

definition OldBech32PrefixAccAddr :: string where
  "OldBech32PrefixAccAddr = OldBech32Prefix"

definition OldBech32PrefixValAddr :: "bech32_lib \<Rightarrow> string" where
  "OldBech32PrefixValAddr B = OldBech32Prefix @ PrefixValidator B @ PrefixOperator B"

definition OldBech32PrefixConsAddr :: "bech32_lib \<Rightarrow> string" where
  "OldBech32PrefixConsAddr B = OldBech32Prefix @ PrefixValidator B @ PrefixConsensus B"

definition AccAddressFromOldBech32 :: "bech32_lib \<Rightarrow> string \<Rightarrow> string \<Rightarrow> bytes option" where
  "AccAddressFromOldBech32 B address pfx =
     (if blank address then None
      else case GetFromBech32 B address pfx of
             None \<Rightarrow> None
           | Some bz \<Rightarrow> if VerifyAddressFormat B bz then Some bz else None)"

definition ConsAddressFromOldBech32 :: "bech32_lib \<Rightarrow> string \<Rightarrow> string \<Rightarrow> bytes option" where
  "ConsAddressFromOldBech32 B address pfx =
     (if blank address then None
      else case GetFromBech32 B address pfx of
             None \<Rightarrow> None
           | Some bz \<Rightarrow> if VerifyAddressFormat B bz then Some bz else None)"

definition ValAddressFromOldBech32 :: "bech32_lib \<Rightarrow> string \<Rightarrow> string \<Rightarrow> bytes option" where
  "ValAddressFromOldBech32 B address pfx =
     (if blank address then None
      else case GetFromBech32 B address pfx of
             None \<Rightarrow> None
           | Some bz \<Rightarrow> if VerifyAddressFormat B bz then Some bz else None)"

definition ConvertValAddr :: "bech32_lib \<Rightarrow> string \<Rightarrow> string" where
  "ConvertValAddr B valAddr =
     (case ValAddressFromOldBech32 B valAddr (OldBech32PrefixValAddr B) of
        None \<Rightarrow> valAddr | Some a \<Rightarrow> ValAddress_String B a)"

definition ConvertAccAddr :: "bech32_lib \<Rightarrow> string \<Rightarrow> string" where
  "ConvertAccAddr B accAddr =
     (case AccAddressFromOldBech32 B accAddr OldBech32PrefixAccAddr of
        None \<Rightarrow> accAddr | Some a \<Rightarrow> AccAddress_String B a)"

definition ConvertConsAddr :: "bech32_lib \<Rightarrow> string \<Rightarrow> string" where
  "ConvertConsAddr B consAddr =
     (case ConsAddressFromOldBech32 B consAddr (OldBech32PrefixConsAddr B) of
        None \<Rightarrow> consAddr | Some a \<Rightarrow> ConsAddress_String B a)"

section \<open>Rewriting a part of a store\<close>

definition IterateStoreByPrefix :: "bytes \<Rightarrow> (bytes \<Rightarrow> bytes res) \<Rightarrow> (bytes kv, unit) op" where
  "IterateStoreByPrefix p fn store =
     op_each (\<lambda>(k, v) s. op_bind (op_lift (fn v)) (\<lambda>newValue s. (Ok (), kv_set k newValue s)) s)
       (kv_prefix p store) store"

text \<open>An encoding of a stored type; \<open>rewrite\<close> decodes, changes and encodes, and panics on bytes that do not decode.\<close>

record 'v codec =
  unmarshal :: "bytes \<Rightarrow> 'v res"
  marshal :: "'v \<Rightarrow> bytes"

definition rewrite :: "'v codec \<Rightarrow> ('v \<Rightarrow> 'v) \<Rightarrow> bytes \<Rightarrow> bytes res" where
  "rewrite c f bz = (case unmarshal c bz of Ok v \<Rightarrow> Ok (marshal c (f v)) | _ \<Rightarrow> Panic)"

section \<open>Stored types of the SDK\<close>

record 'x Validator =
  Val_OperatorAddress :: string
  Val_rest :: 'x

record 'x Delegation =
  Del_DelegatorAddress :: string
  Del_ValidatorAddress :: string
  Del_rest :: 'x

record 'x Redelegation =
  Red_DelegatorAddress :: string
  Red_ValidatorSrcAddress :: string
  Red_ValidatorDstAddress :: string
  Red_rest :: 'x

record 'x UnbondingDelegation =
  Ubd_DelegatorAddress :: string
  Ubd_ValidatorAddress :: string
  Ubd_rest :: 'x

record 'x HistoricalInfo =
  Hi_Valset :: "'x Validator list"
  Hi_rest :: 'x

record DVPair =
  Dv_DelegatorAddress :: string
  Dv_ValidatorAddress :: string

record DVVTriplet =
  Dvv_DelegatorAddress :: string
  Dvv_ValidatorSrcAddress :: string
  Dvv_ValidatorDstAddress :: string

record 'x ValidatorSigningInfo =
  Si_Address :: string
  Si_rest :: 'x

record 'x Vote =
  Vote_Voter :: string
  Vote_rest :: 'x

record 'x Deposit =
  Dep_Depositor :: string
  Dep_rest :: 'x

text \<open>Accounts by their concrete type; each known type holds its address.\<close>

datatype 'x AccountI =
    BaseAccount string 'x
  | ModuleAccount string 'x
  | BaseVestingAccount string 'x
  | ContinuousVestingAccount string 'x
  | DelayedVestingAccount string 'x
  | PeriodicVestingAccount string 'x
  | PermanentLockedAccount string 'x
  | UnknownAccount 'x

section \<open>Staking\<close>

record 'x staking_codec =
  c_Validator :: "'x Validator codec"
  c_Delegation :: "'x Delegation codec"
  c_Redelegation :: "'x Redelegation codec"
  c_UnbondingDelegation :: "'x UnbondingDelegation codec"
  c_HistoricalInfo :: "'x HistoricalInfo codec"
  c_DVPairs :: "DVPair list codec"
  c_DVVTriplets :: "DVVTriplet list codec"
  c_ValAddresses :: "string list codec"
  ValidatorsKey :: bytes
  DelegationKey :: bytes
  RedelegationKey :: bytes
  UnbondingDelegationKey :: bytes
  HistoricalInfoKey :: bytes
  UnbondingQueueKey :: bytes
  RedelegationQueueKey :: bytes
  ValidatorQueueKey :: bytes

definition conv_validator :: "bech32_lib \<Rightarrow> 'x Validator \<Rightarrow> 'x Validator" where
  "conv_validator B v = v\<lparr>Val_OperatorAddress := ConvertValAddr B (Val_OperatorAddress v)\<rparr>"

definition conv_delegation :: "bech32_lib \<Rightarrow> 'x Delegation \<Rightarrow> 'x Delegation" where
  "conv_delegation B d =
     d\<lparr>Del_DelegatorAddress := ConvertAccAddr B (Del_DelegatorAddress d),
       Del_ValidatorAddress := ConvertValAddr B (Del_ValidatorAddress d)\<rparr>"

definition conv_redelegation :: "bech32_lib \<Rightarrow> 'x Redelegation \<Rightarrow> 'x Redelegation" where
  "conv_redelegation B r =
     r\<lparr>Red_DelegatorAddress := ConvertAccAddr B (Red_DelegatorAddress r),
       Red_ValidatorSrcAddress := ConvertValAddr B (Red_ValidatorSrcAddress r),
       Red_ValidatorDstAddress := ConvertValAddr B (Red_ValidatorDstAddress r)\<rparr>"

definition conv_unbonding :: "bech32_lib \<Rightarrow> 'x UnbondingDelegation \<Rightarrow> 'x UnbondingDelegation" where
  "conv_unbonding B u =
     u\<lparr>Ubd_DelegatorAddress := ConvertAccAddr B (Ubd_DelegatorAddress u),
       Ubd_ValidatorAddress := ConvertValAddr B (Ubd_ValidatorAddress u)\<rparr>"

definition conv_historical :: "bech32_lib \<Rightarrow> 'x HistoricalInfo \<Rightarrow> 'x HistoricalInfo" where
  "conv_historical B h = h\<lparr>Hi_Valset := map (conv_validator B) (Hi_Valset h)\<rparr>"

definition staking_MigrateAddressBech32 ::
    "bech32_lib \<Rightarrow> 'x staking_codec \<Rightarrow> (bytes kv, unit) op" where
  "staking_MigrateAddressBech32 B C =
     op_bind (IterateStoreByPrefix (ValidatorsKey C) (rewrite (c_Validator C) (conv_validator B))) (\<lambda>_.
     op_bind (IterateStoreByPrefix (DelegationKey C) (rewrite (c_Delegation C) (conv_delegation B))) (\<lambda>_.
     op_bind (IterateStoreByPrefix (RedelegationKey C) (rewrite (c_Redelegation C) (conv_redelegation B))) (\<lambda>_.
     op_bind (IterateStoreByPrefix (UnbondingDelegationKey C) (rewrite (c_UnbondingDelegation C) (conv_unbonding B))) (\<lambda>_.
       IterateStoreByPrefix (HistoricalInfoKey C) (rewrite (c_HistoricalInfo C) (conv_historical B))))))"

definition conv_pair :: "bech32_lib \<Rightarrow> DVPair \<Rightarrow> DVPair" where
  "conv_pair B p =
     p\<lparr>Dv_DelegatorAddress := ConvertAccAddr B (Dv_DelegatorAddress p),
       Dv_ValidatorAddress := ConvertValAddr B (Dv_ValidatorAddress p)\<rparr>"

definition conv_triplet :: "bech32_lib \<Rightarrow> DVVTriplet \<Rightarrow> DVVTriplet" where
  "conv_triplet B t =
     t\<lparr>Dvv_DelegatorAddress := ConvertAccAddr B (Dvv_DelegatorAddress t),
       Dvv_ValidatorDstAddress := ConvertValAddr B (Dvv_ValidatorDstAddress t),
       Dvv_ValidatorSrcAddress := ConvertValAddr B (Dvv_ValidatorSrcAddress t)\<rparr>"

definition MigrateUnbonding :: "bech32_lib \<Rightarrow> 'x staking_codec \<Rightarrow> (bytes kv, unit) op" where
  "MigrateUnbonding B C =
     op_bind (IterateStoreByPrefix (UnbondingQueueKey C) (rewrite (c_DVPairs C) (map (conv_pair B)))) (\<lambda>_.
     op_bind (IterateStoreByPrefix (RedelegationQueueKey C) (rewrite (c_DVVTriplets C) (map (conv_triplet B)))) (\<lambda>_.
       IterateStoreByPrefix (ValidatorQueueKey C) (rewrite (c_ValAddresses C) (map (ConvertValAddr B)))))"

section \<open>Slashing\<close>

definition conv_signing_info :: "bech32_lib \<Rightarrow> 'x ValidatorSigningInfo \<Rightarrow> 'x ValidatorSigningInfo" where
  "conv_signing_info B i = i\<lparr>Si_Address := ConvertConsAddr B (Si_Address i)\<rparr>"

definition slashing_MigrateAddressBech32 ::
    "bech32_lib \<Rightarrow> 'x ValidatorSigningInfo codec \<Rightarrow> bytes \<Rightarrow> (bytes kv, unit) op" where
  "slashing_MigrateAddressBech32 B c ValidatorSigningInfoKeyPrefix =
     IterateStoreByPrefix ValidatorSigningInfoKeyPrefix (rewrite c (conv_signing_info B))"

section \<open>Governance\<close>

text \<open>
  Votes and deposits have an old and a new encoding. \<open>partial_Deposit\<close> is what a failed decoding leaves in
  the variable it decodes into.
\<close>

record 'x gov_codec =
  c_Vote_v1beta1 :: "'x Vote codec"
  c_Vote_v1 :: "'x Vote codec"
  c_Deposit_v1beta1 :: "'x Deposit codec"
  c_Deposit_v1 :: "'x Deposit codec"
  partial_Deposit :: "bytes \<Rightarrow> 'x Deposit"
  VotesKeyPrefix :: bytes
  DepositsKeyPrefix :: bytes

definition conv_vote :: "bech32_lib \<Rightarrow> 'x Vote \<Rightarrow> 'x Vote" where
  "conv_vote B v = v\<lparr>Vote_Voter := ConvertAccAddr B (Vote_Voter v)\<rparr>"

definition conv_deposit :: "bech32_lib \<Rightarrow> 'x Deposit \<Rightarrow> 'x Deposit" where
  "conv_deposit B d = d\<lparr>Dep_Depositor := ConvertAccAddr B (Dep_Depositor d)\<rparr>"

definition migrate_vote :: "bech32_lib \<Rightarrow> 'x gov_codec \<Rightarrow> bytes \<Rightarrow> bytes res" where
  "migrate_vote B C bz =
     (case unmarshal (c_Vote_v1beta1 C) bz of
        Ok vote \<Rightarrow> Ok (marshal (c_Vote_v1beta1 C) (conv_vote B vote))
      | Err _ \<Rightarrow> rewrite (c_Vote_v1 C) (conv_vote B) bz
      | Panic \<Rightarrow> Panic)"

text \<open>
  The new deposit is decoded into a variable that is not used again: what is converted and written is the
  old one, as the failed decoding left it.
\<close>

definition migrate_deposit :: "bech32_lib \<Rightarrow> 'x gov_codec \<Rightarrow> bytes \<Rightarrow> bytes res" where
  "migrate_deposit B C bz =
     (case unmarshal (c_Deposit_v1beta1 C) bz of
        Ok deposit \<Rightarrow> Ok (marshal (c_Deposit_v1beta1 C) (conv_deposit B deposit))
      | Err _ \<Rightarrow>
          (case unmarshal (c_Deposit_v1 C) bz of
             Ok vote \<Rightarrow> Ok (marshal (c_Deposit_v1beta1 C) (conv_deposit B (partial_Deposit C bz)))
           | _ \<Rightarrow> Panic)
      | Panic \<Rightarrow> Panic)"

definition gov_MigrateAddressBech32 :: "bech32_lib \<Rightarrow> 'x gov_codec \<Rightarrow> (bytes kv, unit) op" where
  "gov_MigrateAddressBech32 B C =
     op_bind (IterateStoreByPrefix (VotesKeyPrefix C) (migrate_vote B C)) (\<lambda>_.
       IterateStoreByPrefix (DepositsKeyPrefix C) (migrate_deposit B C))"

section \<open>Accounts\<close>

text \<open>\<open>MarshalInterface\<close> may fail. An account of an unknown type is left as it is.\<close>

record 'x account_codec =
  unmarshal_account :: "bytes \<Rightarrow> 'x AccountI res"
  marshal_account :: "'x AccountI \<Rightarrow> bytes res"
  AddressStoreKeyPrefix :: bytes

fun conv_account :: "bech32_lib \<Rightarrow> 'x AccountI \<Rightarrow> 'x AccountI option" where
  "conv_account B (BaseAccount a x) = Some (BaseAccount (ConvertAccAddr B a) x)"
| "conv_account B (ModuleAccount a x) = Some (ModuleAccount (ConvertAccAddr B a) x)"
| "conv_account B (BaseVestingAccount a x) = Some (BaseVestingAccount (ConvertAccAddr B a) x)"
| "conv_account B (ContinuousVestingAccount a x) = Some (ContinuousVestingAccount (ConvertAccAddr B a) x)"
| "conv_account B (DelayedVestingAccount a x) = Some (DelayedVestingAccount (ConvertAccAddr B a) x)"
| "conv_account B (PeriodicVestingAccount a x) = Some (PeriodicVestingAccount (ConvertAccAddr B a) x)"
| "conv_account B (PermanentLockedAccount a x) = Some (PermanentLockedAccount (ConvertAccAddr B a) x)"
| "conv_account B (UnknownAccount x) = None"

definition migrate_account :: "bech32_lib \<Rightarrow> 'x account_codec \<Rightarrow> bytes \<Rightarrow> bytes res" where
  "migrate_account B C bz =
     (case unmarshal_account C bz of
        Ok acc \<Rightarrow>
          (case conv_account B acc of
             None \<Rightarrow> Ok bz
           | Some acc \<Rightarrow> (case marshal_account C acc of Ok bz \<Rightarrow> Ok bz | _ \<Rightarrow> Panic))
      | _ \<Rightarrow> Panic)"

definition auth_MigrateAddressBech32 :: "bech32_lib \<Rightarrow> 'x account_codec \<Rightarrow> (bytes kv, unit) op" where
  "auth_MigrateAddressBech32 B C = IterateStoreByPrefix (AddressStoreKeyPrefix C) (migrate_account B C)"

end
