(* ===== verification/Upgrades.thy ===== *)
theory Upgrades
  imports Ratelimit_Safety Tfmw_Module Mint Bech32_Migration
begin

text \<open>
  \<open>app/upgrades\<close> and \<open>app/fork.go\<close>: the handlers of the planned upgrades, the logic of the hard forks, and the
  begin-block hook and set-up that run them. The state has the stores of the modules the handlers write; the
  rest of the chain is of a type \<open>'b\<close>. The keepers of other modules and \<open>RunMigrations\<close> are parameters. Log
  messages are left out.
\<close>

section \<open>The application\<close>

record 'b app_state =
  as_tfmw :: tfmw_state
  as_rl :: rl_state
  as_mint :: mint_state
  as_staking :: "bytes kv"
  as_slashing :: "bytes kv"
  as_gov :: "bytes kv"
  as_auth :: "bytes kv"
  as_ext :: 'b

definition on_as_rl :: "(rl_state, 'a) op \<Rightarrow> ('b app_state, 'a) op" where
  "on_as_rl = op_on as_rl (\<lambda>r s. s\<lparr>as_rl := r\<rparr>)"

definition on_as_ext :: "('b, 'a) op \<Rightarrow> ('b app_state, 'a) op" where
  "on_as_ext = op_on as_ext (\<lambda>b s. s\<lparr>as_ext := b\<rparr>)"

text \<open>A call whose error the code drops; a panic is not dropped.\<close>

definition ignore_err :: "('s, unit) op \<Rightarrow> ('s, unit) op" where
  "ignore_err m s = (case m s of (Err _, s') \<Rightarrow> (Ok (), s') | r \<Rightarrow> r)"

text \<open>
  A handler maps the version map \<open>'v\<close> of the modules to a new one. When it fails, the map it returns beside
  the error is not used.
\<close>

type_synonym ('b, 'v) upgrade_handler = "'v \<Rightarrow> ('b app_state, 'v) op"

record 'b rl_reads =
  rd_supply :: "'b \<Rightarrow> string \<Rightarrow> int"

definition app_rl_env :: "'b rl_reads \<Rightarrow> 'b app_state \<Rightarrow> rl_env" where
  "app_rl_env R s = \<lparr>env_supply = rd_supply R (as_ext s), env_tfmw = as_tfmw s\<rparr>"

record StoreUpgrades =
  Added :: "string list"
  Deleted :: "string list"

record ('b, 'v) Upgrade =
  UpgradeName :: string
  CreateUpgradeHandler :: "('b, 'v) upgrade_handler"
  Upgrade_StoreUpgrades :: StoreUpgrades

record 'b Fork =
  Fork_Name :: string
  UpgradeHeight :: i64
  BeginForkLogic :: "('b app_state, unit) op"

fun BeginBlockForks :: "'b Fork list \<Rightarrow> ctx \<Rightarrow> ('b app_state, unit) op" where
  "BeginBlockForks [] ctx s = (Ok (), s)"
| "BeginBlockForks (fork # forks) ctx s =
     (if BlockHeight ctx = UpgradeHeight fork then BeginForkLogic fork s else BeginBlockForks forks ctx s)"

section \<open>v4\<close>

datatype AccessType = AccessTypeNobody | AccessTypeAnyOfAddresses | AccessTypeOther nat

record AccessConfig =
  Permission :: AccessType
  Addresses :: "string list"

record wasm_Params =
  CodeUploadAccess :: AccessConfig
  InstantiateDefaultPermission :: AccessType

record 'b wasm_keeper =
  Wasm_GetParams :: "'b \<Rightarrow> wasm_Params"
  Wasm_SetParams :: "wasm_Params \<Rightarrow> ('b, unit) op"

definition v4_UpgradeHandler :: "('b, 'v) upgrade_handler \<Rightarrow> 'b wasm_keeper \<Rightarrow> ('b, 'v) upgrade_handler" where
  "v4_UpgradeHandler RunMigrations W vm s =
     (let s = s\<lparr>as_tfmw := tfmw_SetParams tfmw_DefaultParams (as_tfmw s)\<rparr>;
          wasmdParams = \<lparr>CodeUploadAccess = \<lparr>Permission = AccessTypeNobody, Addresses = []\<rparr>,
                         InstantiateDefaultPermission = AccessTypeNobody\<rparr>
      in op_bind (ignore_err (on_as_ext (Wasm_SetParams W wasmdParams))) (\<lambda>_. RunMigrations vm) s)"

section \<open>v4.5: the messages of interchain accounts\<close>

text \<open>The message types by their Go names; \<open>MsgTypeURL\<close> gives the URL of a type.\<close>

datatype sdk_msg_type =
    bank_MsgSend | staking_MsgDelegate | staking_MsgBeginRedelegate | staking_MsgCreateValidator
  | staking_MsgEditValidator | staking_MsgUndelegate | distr_MsgWithdrawDelegatorReward
  | distr_MsgSetWithdrawAddress | distr_MsgWithdrawValidatorCommission | distr_MsgFundCommunityPool
  | gov_MsgVote | authz_MsgExec | authz_MsgGrant | authz_MsgRevoke | transfer_MsgTransfer

record icahost_Params =
  HostEnabled :: bool
  AllowMessages :: "string list"

definition v4_5_allowed :: "sdk_msg_type list" where
  "v4_5_allowed =
     [bank_MsgSend, staking_MsgDelegate, staking_MsgBeginRedelegate, staking_MsgCreateValidator,
      staking_MsgEditValidator, distr_MsgWithdrawDelegatorReward, distr_MsgSetWithdrawAddress,
      distr_MsgWithdrawValidatorCommission, distr_MsgFundCommunityPool, gov_MsgVote, authz_MsgExec,
      authz_MsgGrant, authz_MsgRevoke,
      transfer_MsgTransfer, bank_MsgSend, staking_MsgDelegate, staking_MsgBeginRedelegate,
      staking_MsgCreateValidator, staking_MsgEditValidator,
      staking_MsgUndelegate, distr_MsgWithdrawDelegatorReward, distr_MsgSetWithdrawAddress,
      distr_MsgWithdrawValidatorCommission, distr_MsgFundCommunityPool, gov_MsgVote]"

definition v4_5_RunForkLogic ::
    "(sdk_msg_type \<Rightarrow> string) \<Rightarrow> (icahost_Params \<Rightarrow> 'b \<Rightarrow> 'b) \<Rightarrow> ('b app_state, unit) op" where
  "v4_5_RunForkLogic MsgTypeURL ICAHost_SetParams s =
     (let hostParams = \<lparr>HostEnabled = True, AllowMessages = map MsgTypeURL v4_5_allowed\<rparr>
      in (Ok (), s\<lparr>as_ext := ICAHost_SetParams hostParams (as_ext s)\<rparr>))"

section \<open>v4.5.1: removing the rate limits\<close>

definition v4_5_1_RemoveRateLimit :: "'b rl_reads \<Rightarrow> ('b app_state, unit) op" where
  "v4_5_1_RemoveRateLimit R s =
     op_each (\<lambda>rateLimit.
         op_must (on_as_rl (RemoveRateLimit (app_rl_env R s)
           (Path_Denom (Rl_Path rateLimit)) (Path_ChannelID (Rl_Path rateLimit)))))
       (GetAllRateLimits (as_rl s)) s"

definition v4_5_1_RunForkLogic :: "'b rl_reads \<Rightarrow> ('b app_state, unit) op" where
  "v4_5_1_RunForkLogic R = v4_5_1_RemoveRateLimit R"

section \<open>v5 and v5.1: minimum amounts of the rate limits\<close>

text \<open>The block the code repeats for each denomination: a limit without a minimum gets one, an absent one is made.\<close>

definition set_min_amount :: "'b rl_reads \<Rightarrow> string \<Rightarrow> int \<Rightarrow> 'b app_state \<Rightarrow> 'b app_state" where
  "set_min_amount R denom amount s =
     (case GetRateLimit (as_rl s) denom ''channel-2'' of
        None \<Rightarrow>
          (let channelValue = GetChannelValue (app_rl_env R s) denom;
               rateLimit =
                 \<lparr>Rl_Path = \<lparr>Path_Denom = denom, Path_ChannelID = ''channel-2''\<rparr>,
                  Rl_Quota = \<lparr>MaxPercentSend = 30, MaxPercentRecv = 30, DurationHours = 24\<rparr>,
                  Rl_Flow = \<lparr>Inflow = 0, Outflow = 0, ChannelValue = channelValue\<rparr>,
                  MinRateLimitAmount = amount\<rparr>
           in s\<lparr>as_rl := SetRateLimit rateLimit (as_rl s)\<rparr>)
      | Some rateLimit \<Rightarrow> s\<lparr>as_rl := SetRateLimit (rateLimit\<lparr>MinRateLimitAmount := amount\<rparr>) (as_rl s)\<rparr>)"

definition uatom :: string where
  "uatom = ''ibc/EF48E6B1A1A19F47ECAEA62F5670C37C0580E86A9E88498B7E393EB6F49F33C0''"

definition dot :: string where
  "dot = ''ibc/3CC19CEC7E5A3E90E78A5A9ECC5A0E2F8F826A375CF1E096F4515CF09DA3E366''"

definition ksm :: string where
  "ksm = ''ibc/EE9046745AEC0E8302CB7ED9D5AD67F528FB3B7AE044B247FB0FB293DBDA35E9''"

definition usdt :: string where
  "usdt = ''ibc/F3EC9F834E57DF704FA3AEAF14E8391C2E58397FE56960AD70E67562990D8265''"

definition v5_UpgradeHandler :: "('b, 'v) upgrade_handler \<Rightarrow> 'b rl_reads \<Rightarrow> ('b, 'v) upgrade_handler" where
  "v5_UpgradeHandler RunMigrations R vm s =
     (let s = set_min_amount R uatom 1282000000 s;
          s = set_min_amount R dot 22670000000000 s;
          s = set_min_amount R ksm 510000000000000 s;
          s = set_min_amount R usdt 10000000000 s
      in RunMigrations vm s)"

definition uosmo :: string where
  "uosmo = ''ibc/47BD209179859CDE4A2806763D7189B6E6FE13A17880FE2B42DE1E6C1E329E23''"

text \<open>
  A limit stored before the field existed has a nil minimum amount. The store model has no nil: which of the
  limits read back have one is the parameter \<open>IsNil\<close>.
\<close>

definition FixRateLimit :: "(RateLimit \<Rightarrow> bool) \<Rightarrow> 'b rl_reads \<Rightarrow> 'b app_state \<Rightarrow> 'b app_state" where
  "FixRateLimit IsNil R s =
     (let s = set_min_amount R uosmo 1 s
      in s\<lparr>as_rl := fold (\<lambda>ratelimit r. if IsNil ratelimit then SetRateLimit (ratelimit\<lparr>MinRateLimitAmount := 1\<rparr>) r else r)
             (GetAllRateLimits (as_rl s)) (as_rl s)\<rparr>)"

definition v5_1_0_RunForkLogic :: "(RateLimit \<Rightarrow> bool) \<Rightarrow> 'b rl_reads \<Rightarrow> ('b app_state, unit) op" where
  "v5_1_0_RunForkLogic IsNil R s = (Ok (), FixRateLimit IsNil R s)"

section \<open>v5.2: the contract of a light client\<close>

text \<open>
  The client keeper. Client states are of a type \<open>'c\<close>: \<open>is_wasm\<close> is the type assertion to the wasm client state
  and \<open>with_CodeId\<close> the assignment of its field. A client store is named by the identifier of its client.
\<close>

record ('b, 'c) client_keeper =
  Ck_GetClientState :: "'b \<Rightarrow> string \<Rightarrow> 'c option"
  Ck_SetClientState :: "string \<Rightarrow> 'c \<Rightarrow> 'b \<Rightarrow> 'b"
  Ck_GetClientStatus :: "'b \<Rightarrow> 'c \<Rightarrow> string \<Rightarrow> string"
  Ck_Active :: string
  Ck_CheckSubstituteAndUpdateState :: "'c \<Rightarrow> string \<Rightarrow> string \<Rightarrow> 'c \<Rightarrow> ('b, unit) op"
  is_wasm :: "'c \<Rightarrow> bool"
  with_CodeId :: "bytes \<Rightarrow> 'c \<Rightarrow> 'c"
  ParseHexHash :: "string \<Rightarrow> bytes option"

definition newWasmCodeID :: string where
  "newWasmCodeID = ''ad84ee3292e28b4e46da16974c118d40093e1a6e28a083f2f045f68fde7fb575''"

definition subjectClientId :: string where
  "subjectClientId = ''08-wasm-5''"

definition substituteClientId :: string where
  "substituteClientId = ''08-wasm-133''"

definition UpdateWasmContract :: "('b, 'c) client_keeper \<Rightarrow> ('b, unit) op" where
  "UpdateWasmContract K b =
     (case Ck_GetClientState K b subjectClientId of
        None \<Rightarrow> (Panic, b)
      | Some clientState \<Rightarrow>
          (if \<not> is_wasm K clientState then (Panic, b)
           else case ParseHexHash K newWasmCodeID of
                  None \<Rightarrow> (Panic, b)
                | Some code \<Rightarrow> (Ok (), Ck_SetClientState K subjectClientId (with_CodeId K code clientState) b)))"

definition ClientUpdate :: "('b, 'c) client_keeper \<Rightarrow> string \<Rightarrow> string \<Rightarrow> ('b, unit) op" where
  "ClientUpdate K subject substitute b =
     (case Ck_GetClientState K b subject of
        None \<Rightarrow> (Err (ErrLib ''client not found''), b)
      | Some subjectClientState \<Rightarrow>
          (case Ck_GetClientState K b substitute of
             None \<Rightarrow> (Err (ErrLib ''client not found''), b)
           | Some substituteClientState \<Rightarrow>
               (if Ck_GetClientStatus K b substituteClientState substitute \<noteq> Ck_Active K
                then (Err (ErrLib ''client not active''), b)
                else Ck_CheckSubstituteAndUpdateState K subjectClientState subject substitute substituteClientState b)))"

definition v5_2_0_RunForkLogic :: "('b, 'c) client_keeper \<Rightarrow> ('b app_state, unit) op" where
  "v5_2_0_RunForkLogic K =
     op_bind (on_as_ext (UpdateWasmContract K)) (\<lambda>_.
       op_must (on_as_ext (ClientUpdate K subjectClientId substituteClientId)))"

section \<open>v6 and v7\<close>

text \<open>The names of other modules and of their stores are parameters.\<close>

record module_names =
  wasm_ModuleName :: string
  gov_ModuleName :: string
  authz_ModuleName :: string
  wasm_StoreKey :: string
  ibchooks_StoreKey :: string
  icahost_StoreKey :: string

definition v6_UpgradeHandler :: "('b, 'v) upgrade_handler \<Rightarrow> ('b, 'v) upgrade_handler" where
  "v6_UpgradeHandler RunMigrations vm = RunMigrations vm"

text \<open>\<open>module_text\<close> is the bech32 text of the address of a module account.\<close>

definition v7_UpgradeHandler ::
    "('b, 'v) upgrade_handler \<Rightarrow> module_names \<Rightarrow>
     (string \<Rightarrow> string) \<Rightarrow> 'b wasm_keeper \<Rightarrow> ('b, 'v) upgrade_handler" where
  "v7_UpgradeHandler RunMigrations M module_text W vm s =
     (let allowed = [module_text (wasm_ModuleName M), module_text (gov_ModuleName M), ''centauri1u2sr0p2j75fuezu92nfxg5wm46gu22ywfgul6k''];
          wasmdParams = Wasm_GetParams W (as_ext s);
          access = CodeUploadAccess wasmdParams;
          access = \<lparr>Permission = AccessTypeAnyOfAddresses, Addresses = Addresses access @ allowed\<rparr>
      in op_bind (on_as_ext (Wasm_SetParams W (wasmdParams\<lparr>CodeUploadAccess := access\<rparr>))) (\<lambda>_. RunMigrations vm) s)"

section \<open>The reward upgrade\<close>

definition listAllowedRelayAddress :: "string list" where
  "listAllowedRelayAddress =
     [''centauri1eqv3xl0vk0md74qukfghfff4z3axsp29rr9c85'',
      ''centauri1av6x9sll0yx4anske424jtgxejnrgqv6j6tjjt'',
      ''centauri1c8sxuxfgj5qj0l9gehs7any7s8mmx03qd7yd3f'',
      ''centauri17qv55sj9rgxs722wkkg0gewjv45msem90v6fpw'']"

definition reward_UpgradeHandler :: "lib \<Rightarrow> ('b, 'v) upgrade_handler \<Rightarrow> ('b, 'v) upgrade_handler" where
  "reward_UpgradeHandler L RunMigrations vm s =
     (let s = s\<lparr>as_tfmw := fold SetAllowRlyAddress listAllowedRelayAddress (as_tfmw s)\<rparr>;
          mintParam = mint_GetParams (as_mint s);
          mintParam = mintParam\<lparr>MaxTokenPerYear := 99999999000000000000, MinTokenPerYear := 99999999000000000000\<rparr>
      in op_bind (op_on as_mint (\<lambda>m s. s\<lparr>as_mint := m\<rparr>) (mint_SetParams L mintParam)) (\<lambda>_. RunMigrations vm) s)"

section \<open>The centauri upgrade\<close>

record 'x slashing_Params =
  SlashFractionDowntime :: Dec
  Sp_rest :: 'x

record 'x gov_Params =
  MinInitialDepositRatio :: string
  Gp_rest :: 'x

record ('b, 'x) centauri_env =
  ce_bech32 :: bech32_lib
  ce_staking :: "'x staking_codec"
  ce_slashing :: "'x ValidatorSigningInfo codec"
  ce_slashing_key :: bytes
  ce_gov :: "'x gov_codec"
  ce_auth :: "'x account_codec"
  Slashing_GetParams :: "'b \<Rightarrow> 'x slashing_Params"
  Slashing_SetParams :: "'x slashing_Params \<Rightarrow> ('b, unit) op"
  Gov_GetParams :: "'b \<Rightarrow> 'x gov_Params"
  Gov_SetParams :: "'x gov_Params \<Rightarrow> ('b, unit) op"
  Dec_String :: "Dec \<Rightarrow> string"

definition centauri_UpgradeHandler ::
    "('b, 'v) upgrade_handler \<Rightarrow> ('b, 'x) centauri_env \<Rightarrow> ('b, 'v) upgrade_handler" where
  "centauri_UpgradeHandler RunMigrations E vm =
     op_bind (op_on as_staking (\<lambda>m s. s\<lparr>as_staking := m\<rparr>)
       (staking_MigrateAddressBech32 (ce_bech32 E) (ce_staking E))) (\<lambda>_.
     op_bind (op_on as_slashing (\<lambda>m s. s\<lparr>as_slashing := m\<rparr>)
       (slashing_MigrateAddressBech32 (ce_bech32 E) (ce_slashing E) (ce_slashing_key E))) (\<lambda>_.
     op_bind (op_on as_gov (\<lambda>m s. s\<lparr>as_gov := m\<rparr>) (gov_MigrateAddressBech32 (ce_bech32 E) (ce_gov E))) (\<lambda>_.
     op_bind (op_on as_auth (\<lambda>m s. s\<lparr>as_auth := m\<rparr>) (auth_MigrateAddressBech32 (ce_bech32 E) (ce_auth E))) (\<lambda>_ s.
       let newParamsSet = (Slashing_GetParams E (as_ext s))\<lparr>SlashFractionDowntime := 10 ^ 13\<rparr>
       in op_bind (ignore_err (on_as_ext (Slashing_SetParams E newParamsSet))) (\<lambda>_ s.
            let newGovParamsSet = (Gov_GetParams E (as_ext s))\<lparr>MinInitialDepositRatio := Dec_String E (10 ^ 16)\<rparr>
            in op_bind (ignore_err (on_as_ext (Gov_SetParams E newGovParamsSet))) (\<lambda>_. RunMigrations vm) s) s))))"

section \<open>Set-up\<close>

text \<open>The list of forks of the application is empty.\<close>

definition app_Upgrades ::
    "('b, 'v) upgrade_handler \<Rightarrow> 'b rl_reads \<Rightarrow> 'b wasm_keeper \<Rightarrow> (string \<Rightarrow> string) \<Rightarrow> module_names \<Rightarrow> ('b, 'v) Upgrade list" where
  "app_Upgrades RunMigrations R W module_text M =
     [\<lparr>UpgradeName = ''v4'', CreateUpgradeHandler = v4_UpgradeHandler RunMigrations W,
       Upgrade_StoreUpgrades = \<lparr>Added = [wasm_StoreKey M, ibchooks_StoreKey M, ''ratelimit'', icahost_StoreKey M], Deleted = []\<rparr>\<rparr>,
      \<lparr>UpgradeName = ''v5'', CreateUpgradeHandler = v5_UpgradeHandler RunMigrations R,
       Upgrade_StoreUpgrades = \<lparr>Added = [''txboundary''], Deleted = []\<rparr>\<rparr>,
      \<lparr>UpgradeName = ''v6'', CreateUpgradeHandler = v6_UpgradeHandler RunMigrations,
       Upgrade_StoreUpgrades = \<lparr>Added = [authz_ModuleName M], Deleted = []\<rparr>\<rparr>,
      \<lparr>UpgradeName = ''v7'', CreateUpgradeHandler = v7_UpgradeHandler RunMigrations M module_text W,
       Upgrade_StoreUpgrades = \<lparr>Added = [], Deleted = []\<rparr>\<rparr>]"

definition app_Forks :: "'b Fork list" where
  "app_Forks = []"

definition setupUpgradeHandlers ::
    "('b, 'v) Upgrade list \<Rightarrow> (string \<rightharpoonup> ('b, 'v) upgrade_handler) \<Rightarrow> (string \<rightharpoonup> ('b, 'v) upgrade_handler)" where
  "setupUpgradeHandlers upgrades handlers =
     fold (\<lambda>upgrade handlers. handlers(UpgradeName upgrade \<mapsto> CreateUpgradeHandler upgrade)) upgrades handlers"

text \<open>
  The store loader that is set, with its height, from the plan that was written to disk. The
  pre-upgrade hook at the height after the last commit has an empty body.
\<close>

definition setupUpgradeStoreLoaders ::
    "('b, 'v) Upgrade list \<Rightarrow> (string \<times> i64) option \<Rightarrow> (i64 \<Rightarrow> bool) \<Rightarrow> (i64 \<times> StoreUpgrades) option res" where
  "setupUpgradeStoreLoaders upgrades upgradeInfo IsSkipHeight =
     (case upgradeInfo of
        None \<Rightarrow> Panic
      | Some (name, height) \<Rightarrow>
          (if IsSkipHeight height then Ok None
           else Ok (fold (\<lambda>upgrade loader.
                      if name = UpgradeName upgrade then Some (height, Upgrade_StoreUpgrades upgrade) else loader)
                    upgrades None)))"

end
