(* ===== verification/App_Export.thy ===== *)
theory App_Export
  imports Upgrades
begin

text \<open>
  The application around its modules: the block hooks of \<open>app.go\<close>, the export of the state for a new
  genesis (\<open>export.go\<close>), the address format (\<open>cmd/centaurid/config\<close>) and the command that adds an account to
  a genesis file. The module manager and the SDK keepers are parameters.
\<close>

section \<open>Block hooks\<close>

definition app_BeginBlocker ::
    "'b Fork list \<Rightarrow> (ctx \<Rightarrow> ('b app_state, 'r) op) \<Rightarrow> ctx \<Rightarrow> ('b app_state, 'r) op" where
  "app_BeginBlocker forks mm_BeginBlock ctx = op_bind (BeginBlockForks forks ctx) (\<lambda>_. mm_BeginBlock ctx)"

definition app_EndBlocker :: "(ctx \<Rightarrow> ('w, 'r) op) \<Rightarrow> ctx \<Rightarrow> ('w, 'r) op" where
  "app_EndBlocker mm_EndBlock ctx = mm_EndBlock ctx"

definition app_InitChainer ::
    "(bytes \<Rightarrow> 'g option) \<Rightarrow> ('w \<Rightarrow> 'w) \<Rightarrow> ('g \<Rightarrow> ('w, 'r) op) \<Rightarrow> bytes \<Rightarrow> ('w, 'r) op" where
  "app_InitChainer Unmarshal SetModuleVersionMap mm_InitGenesis AppStateBytes w =
     (case Unmarshal AppStateBytes of
        None \<Rightarrow> (Panic, w)
      | Some genesisState \<Rightarrow> mm_InitGenesis genesisState (SetModuleVersionMap w))"

text \<open>The module accounts as a map from addresses; \<open>addr_text\<close> is the text of the address of a module.\<close>

definition ModuleAccountAddrs :: "(string \<Rightarrow> string) \<Rightarrow> string list \<Rightarrow> (string \<rightharpoonup> bool)" where
  "ModuleAccountAddrs addr_text maccPerms = fold (\<lambda>acc m. m(addr_text acc \<mapsto> True)) maccPerms Map.empty"

definition BlacklistedModuleAccountAddrs :: "(string \<Rightarrow> string) \<Rightarrow> string list \<Rightarrow> (string \<rightharpoonup> bool)" where
  "BlacklistedModuleAccountAddrs addr_text maccPerms = fold (\<lambda>acc m. m(addr_text acc \<mapsto> True)) maccPerms Map.empty"

section \<open>Addresses\<close>

definition Bech32Prefix :: string where
  "Bech32Prefix = ''centauri''"

definition Bech32PrefixAccAddr :: string where
  "Bech32PrefixAccAddr = Bech32Prefix"

definition Bech32PrefixValAddr :: "bech32_lib \<Rightarrow> string" where
  "Bech32PrefixValAddr B = Bech32Prefix @ PrefixValidator B @ PrefixOperator B"

definition Bech32PrefixConsAddr :: "bech32_lib \<Rightarrow> string" where
  "Bech32PrefixConsAddr B = Bech32Prefix @ PrefixValidator B @ PrefixConsensus B"

text \<open>The verifier \<open>SetAddressPrefixes\<close> installs; the maximal length is the library's.\<close>

definition address_verifier :: "nat \<Rightarrow> bytes \<Rightarrow> unit res" where
  "address_verifier MaxAddrLen bz =
     (if length bz = 0 then Err (ErrLib ''unknown address'')
      else if MaxAddrLen < length bz then Err (ErrLib ''unknown address'')
      else if length bz \<noteq> 20 \<and> length bz \<noteq> 32 then Err (ErrLib ''unknown address'')
      else Ok ())"

section \<open>Export\<close>

record 'x ex_Validator =
  Xv_Operator :: bytes
  Jailed :: bool
  UnbondingHeight :: i64
  Xv_rest :: 'x

text \<open>Redelegations and unbonding delegations, by the creation heights of their entries.\<close>

record 'x ex_Entries =
  CreationHeights :: "i64 list"
  Xe_rest :: 'x

record 'x ex_SigningInfo =
  StartHeight :: i64
  Xs_rest :: 'x

text \<open>
  The keepers the export uses. A list-valued field is the order in which the iterator of that name visits the
  store; \<open>validators_reverse\<close> are the addresses in the keys under \<open>ValidatorsKey\<close>, from the last.
\<close>

record ('b, 'x, 'c) export_keepers =
  xk_AssertInvariants :: "ctx \<Rightarrow> ('b, unit) op"
  xk_IterateValidators :: "'b \<Rightarrow> 'x ex_Validator list"
  xk_CommissionIsZero :: "'b \<Rightarrow> bytes \<Rightarrow> bool"
  xk_WithdrawValidatorCommission :: "ctx \<Rightarrow> bytes \<Rightarrow> ('b, unit) op"
  xk_GetAllDelegations :: "'b \<Rightarrow> 'x Delegation list"
  xk_WithdrawDelegationRewards :: "ctx \<Rightarrow> bytes \<Rightarrow> bytes \<Rightarrow> ('b, unit) op"
  xk_DeleteAllValidatorSlashEvents :: "'b \<Rightarrow> 'b"
  xk_DeleteAllValidatorHistoricalRewards :: "'b \<Rightarrow> 'b"
  xk_OutstandingRewardsCoins :: "'b \<Rightarrow> bytes \<Rightarrow> 'c"
  xk_CommunityPool :: "'b \<Rightarrow> 'c"
  xk_SetCommunityPool :: "'c \<Rightarrow> 'b \<Rightarrow> 'b"
  xk_AddCoins :: "'c \<Rightarrow> 'c \<Rightarrow> 'c res"
  xk_AfterValidatorCreated :: "ctx \<Rightarrow> bytes \<Rightarrow> ('b, unit) op"
  xk_BeforeDelegationCreated :: "ctx \<Rightarrow> bytes \<Rightarrow> bytes \<Rightarrow> ('b, unit) op"
  xk_AfterDelegationModified :: "ctx \<Rightarrow> bytes \<Rightarrow> bytes \<Rightarrow> ('b, unit) op"
  xk_IterateRedelegations :: "'b \<Rightarrow> 'x ex_Entries list"
  xk_SetRedelegation :: "'x ex_Entries \<Rightarrow> 'b \<Rightarrow> 'b"
  xk_IterateUnbondingDelegations :: "'b \<Rightarrow> 'x ex_Entries list"
  xk_SetUnbondingDelegation :: "'x ex_Entries \<Rightarrow> 'b \<Rightarrow> 'b"
  xk_validators_reverse :: "'b \<Rightarrow> bytes list"
  xk_GetValidator :: "'b \<Rightarrow> bytes \<Rightarrow> 'x ex_Validator option"
  xk_SetValidator :: "'x ex_Validator \<Rightarrow> 'b \<Rightarrow> 'b"
  xk_ApplyAndReturnValidatorSetUpdates :: "ctx \<Rightarrow> ('b, unit) op"
  xk_IterateValidatorSigningInfos :: "'b \<Rightarrow> (bytes \<times> 'x ex_SigningInfo) list"
  xk_SetValidatorSigningInfo :: "bytes \<Rightarrow> 'x ex_SigningInfo \<Rightarrow> 'b \<Rightarrow> 'b"
  xk_ValAddressFromBech32 :: "string \<Rightarrow> bytes option"
  xk_AccAddressFromBech32 :: "string \<Rightarrow> bytes option"
  xk_ValAddress_String :: "bytes \<Rightarrow> string"

text \<open>\<open>log.Fatal\<close> ends the program and is a panic here.\<close>

definition withdraw_commissions :: "('b, 'x, 'c) export_keepers \<Rightarrow> ctx \<Rightarrow> ('b, unit) op" where
  "withdraw_commissions K ctx b =
     op_each (\<lambda>val b.
         if xk_CommissionIsZero K b (Xv_Operator val) then (Ok (), b)
         else op_must (xk_WithdrawValidatorCommission K ctx (Xv_Operator val)) b)
       (xk_IterateValidators K b) b"

text \<open>Both addresses of a delegation, or a panic.\<close>

definition delegation_addrs :: "('b, 'x, 'c) export_keepers \<Rightarrow> 'x Delegation \<Rightarrow> (bytes \<times> bytes) res" where
  "delegation_addrs K del =
     (case xk_ValAddressFromBech32 K (Del_ValidatorAddress del) of
        None \<Rightarrow> Panic
      | Some valAddr \<Rightarrow>
          (case xk_AccAddressFromBech32 K (Del_DelegatorAddress del) of
             None \<Rightarrow> Panic
           | Some delAddr \<Rightarrow> Ok (delAddr, valAddr)))"

definition withdraw_rewards :: "('b, 'x, 'c) export_keepers \<Rightarrow> ctx \<Rightarrow> 'x Delegation list \<Rightarrow> ('b, unit) op" where
  "withdraw_rewards K ctx =
     op_each (\<lambda>delegation. op_bind (op_lift (delegation_addrs K delegation)) (\<lambda>(delAddr, valAddr).
       ignore_err (xk_WithdrawDelegationRewards K ctx delAddr valAddr)))"

definition reinit_validators :: "('b, 'x, 'c) export_keepers \<Rightarrow> ctx \<Rightarrow> ('b, unit) op" where
  "reinit_validators K ctx b =
     op_each (\<lambda>val b.
         let scraps = xk_OutstandingRewardsCoins K b (Xv_Operator val)
         in op_bind (op_lift (xk_AddCoins K (xk_CommunityPool K b) scraps)) (\<lambda>pool b.
              op_must (xk_AfterValidatorCreated K ctx (Xv_Operator val)) (xk_SetCommunityPool K pool b)) b)
       (xk_IterateValidators K b) b"

definition reinit_delegations :: "('b, 'x, 'c) export_keepers \<Rightarrow> ctx \<Rightarrow> 'x Delegation list \<Rightarrow> ('b, unit) op" where
  "reinit_delegations K ctx =
     op_each (\<lambda>del. op_bind (op_lift (delegation_addrs K del)) (\<lambda>(delAddr, valAddr).
       op_bind (op_must (xk_BeforeDelegationCreated K ctx delAddr valAddr)) (\<lambda>_.
         op_must (xk_AfterDelegationModified K ctx delAddr valAddr))))"

definition zero_heights :: "'x ex_Entries \<Rightarrow> 'x ex_Entries" where
  "zero_heights e = e\<lparr>CreationHeights := map (\<lambda>_. 0) (CreationHeights e)\<rparr>"

definition reset_creation_heights :: "('b, 'x, 'c) export_keepers \<Rightarrow> 'b \<Rightarrow> 'b" where
  "reset_creation_heights K b =
     (let b = fold (\<lambda>red. xk_SetRedelegation K (zero_heights red)) (xk_IterateRedelegations K b) b
      in fold (\<lambda>ubd. xk_SetUnbondingDelegation K (zero_heights ubd)) (xk_IterateUnbondingDelegations K b) b)"

text \<open>The validators that are not on a given list of allowed addresses are jailed.\<close>

definition reset_one :: "('b, 'x, 'c) export_keepers \<Rightarrow> bool \<Rightarrow> string list \<Rightarrow> bytes \<Rightarrow> ('b, unit) op" where
  "reset_one K applyAllowedAddrs allowedAddrs addr b =
     (case xk_GetValidator K b addr of
        None \<Rightarrow> (Panic, b)
      | Some validator \<Rightarrow>
          (let validator = validator\<lparr>UnbondingHeight := 0\<rparr>;
               validator = (if applyAllowedAddrs \<and> xk_ValAddress_String K addr \<notin> set allowedAddrs
                            then validator\<lparr>Jailed := True\<rparr> else validator)
           in (Ok (), xk_SetValidator K validator b)))"

definition reset_validators :: "('b, 'x, 'c) export_keepers \<Rightarrow> bool \<Rightarrow> string list \<Rightarrow> ('b, unit) op" where
  "reset_validators K applyAllowedAddrs allowedAddrs b =
     op_each (reset_one K applyAllowedAddrs allowedAddrs) (xk_validators_reverse K b) b"

definition reset_signing_infos :: "('b, 'x, 'c) export_keepers \<Rightarrow> 'b \<Rightarrow> 'b" where
  "reset_signing_infos K b =
     fold (\<lambda>(addr, info). xk_SetValidatorSigningInfo K addr (info\<lparr>StartHeight := 0\<rparr>))
       (xk_IterateValidatorSigningInfos K b) b"

definition prepForZeroHeightGenesis ::
    "('b, 'x, 'c) export_keepers \<Rightarrow> ctx \<Rightarrow> string list \<Rightarrow> ('b, unit) op" where
  "prepForZeroHeightGenesis K ctx jailAllowedAddrs =
     (let applyAllowedAddrs = 0 < length jailAllowedAddrs
      in op_bind (op_lift (if list_all (\<lambda>a. xk_ValAddressFromBech32 K a \<noteq> None) jailAllowedAddrs then Ok () else Panic)) (\<lambda>_.
         op_bind (xk_AssertInvariants K ctx) (\<lambda>_.
         op_bind (withdraw_commissions K ctx) (\<lambda>_ b.
           let dels = xk_GetAllDelegations K b
           in op_bind (withdraw_rewards K ctx dels) (\<lambda>_ b.
              let b = xk_DeleteAllValidatorHistoricalRewards K (xk_DeleteAllValidatorSlashEvents K b);
                  ctx0 = ctx\<lparr>BlockHeight := 0\<rparr>
              in op_bind (reinit_validators K ctx0) (\<lambda>_.
                 op_bind (reinit_delegations K ctx0 dels) (\<lambda>_ b.
                   op_bind (reset_validators K applyAllowedAddrs jailAllowedAddrs) (\<lambda>_.
                   op_bind (op_must (xk_ApplyAndReturnValidatorSetUpdates K ctx)) (\<lambda>_ b.
                     (Ok (), reset_signing_infos K b))) (reset_creation_heights K b))) b) b))))"

record ('v, 'p) ExportedApp =
  Xa_AppState :: bytes
  Xa_Validators :: 'v
  Xa_Height :: i64
  Xa_ConsensusParams :: 'p

definition ExportAppStateAndValidators ::
    "('b, 'x, 'c) export_keepers \<Rightarrow> (ctx \<Rightarrow> 'b \<Rightarrow> 'g res) \<Rightarrow> ('g \<Rightarrow> bytes res) \<Rightarrow> (ctx \<Rightarrow> 'b \<Rightarrow> 'v res) \<Rightarrow>
     (ctx \<Rightarrow> 'b \<Rightarrow> 'p) \<Rightarrow> ctx \<Rightarrow> bool \<Rightarrow> string list \<Rightarrow> ('b, ('v, 'p) ExportedApp) op" where
  "ExportAppStateAndValidators K mm_ExportGenesis MarshalIndent WriteValidators GetConsensusParams ctx forZeroHeight jailAllowedAddrs =
     op_bind (if forZeroHeight then prepForZeroHeightGenesis K ctx jailAllowedAddrs else op_lift (Ok ())) (\<lambda>_ b.
       op_bind (op_lift (res_bind (mm_ExportGenesis ctx b) MarshalIndent)) (\<lambda>appState b.
       op_bind (op_lift (WriteValidators ctx b)) (\<lambda>validators b.
         (Ok \<lparr>Xa_AppState = appState, Xa_Validators = validators,
              Xa_Height = (if forZeroHeight then 0 else BlockHeight ctx + 1),
              Xa_ConsensusParams = GetConsensusParams ctx b\<rparr>, b)) b) b)"

section \<open>What the export resets\<close>

text \<open>Documented behaviour of the validator store: what was set is read back under its operator address.\<close>

definition validator_store_laws :: "('b, 'x, 'c) export_keepers \<Rightarrow> bool" where
  "validator_store_laws K \<longleftrightarrow>
     (\<forall>b v a. xk_GetValidator K (xk_SetValidator K v b) a = (if a = Xv_Operator v then Some v else xk_GetValidator K b a)) \<and>
     (\<forall>b a v. xk_GetValidator K b a = Some v \<longrightarrow> Xv_Operator v = a)"

definition reset_validator :: "('b, 'x, 'c) export_keepers \<Rightarrow> bool \<Rightarrow> string list \<Rightarrow> 'x ex_Validator \<Rightarrow> 'x ex_Validator" where
  "reset_validator K apply_list allowed v =
     (if apply_list \<and> xk_ValAddress_String K (Xv_Operator v) \<notin> set allowed
      then v\<lparr>UnbondingHeight := 0, Jailed := True\<rparr> else v\<lparr>UnbondingHeight := 0\<rparr>)"

lemma reset_one_Some:
  "validator_store_laws K \<Longrightarrow> xk_GetValidator K b a = Some v \<Longrightarrow>
     reset_one K ap al a b = (Ok (), xk_SetValidator K (reset_validator K ap al v) b) \<and> Xv_Operator v = a"
proof -
  assume laws: "validator_store_laws K" and v: "xk_GetValidator K b a = Some v"
  then have op: "Xv_Operator v = a" by (simp add: validator_store_laws_def)
  show ?thesis using v op by (simp add: reset_one_def reset_validator_def Let_def)
qed

lemma reset_validators_loop:
  assumes laws: "validator_store_laws K"
  shows "\<forall>a \<in> set as. xk_GetValidator K b a \<noteq> None \<Longrightarrow> distinct as \<Longrightarrow>
    \<exists>b'. op_each (reset_one K ap al) as b = (Ok (), b') \<and>
      (\<forall>a. xk_GetValidator K b' a =
         (if a \<in> set as then map_option (reset_validator K ap al) (xk_GetValidator K b a) else xk_GetValidator K b a))"
proof (induction as arbitrary: b)
  case (Cons a as)
  then obtain v where v: "xk_GetValidator K b a = Some v" by auto
  let ?v = "reset_validator K ap al v"
  let ?b = "xk_SetValidator K ?v b"
  note one = reset_one_Some [OF laws v, of ap al]
  have get: "xk_GetValidator K ?b x = (if x = a then Some ?v else xk_GetValidator K b x)" for x
    using laws one by (simp add: validator_store_laws_def reset_validator_def)
  have "\<forall>x \<in> set as. xk_GetValidator K ?b x \<noteq> None" using Cons.prems get by auto
  from Cons.IH [OF this] Cons.prems(2) one show ?case by (auto simp: v get)
qed simp

text \<open>
  The validators whose keys are iterated get the unbonding height zero, and those off a non-empty list of allowed
  addresses are jailed; the others are as before.
\<close>

lemma reset_validators_spec:
  assumes "validator_store_laws K" "distinct (xk_validators_reverse K b)"
    and "\<forall>a \<in> set (xk_validators_reverse K b). xk_GetValidator K b a \<noteq> None"
  shows "\<exists>b'. reset_validators K ap al b = (Ok (), b') \<and>
      (\<forall>a. xk_GetValidator K b' a =
         (if a \<in> set (xk_validators_reverse K b) then map_option (reset_validator K ap al) (xk_GetValidator K b a)
          else xk_GetValidator K b a))"
  unfolding reset_validators_def by (rule reset_validators_loop [OF assms(1,3,2)])

lemma bad_allow_list_stops_export:
  "a \<in> set al \<Longrightarrow> xk_ValAddressFromBech32 K a = None \<Longrightarrow> prepForZeroHeightGenesis K ctx al b = (Panic, b)"
  by (auto simp: prepForZeroHeightGenesis_def Let_def list_all_iff)

text \<open>The old prefix of the address migration is the prefix the chain is configured with.\<close>

lemma old_prefix_is_configured_prefix:
  "OldBech32PrefixAccAddr = Bech32PrefixAccAddr" "OldBech32PrefixValAddr B = Bech32PrefixValAddr B"
  "OldBech32PrefixConsAddr B = Bech32PrefixConsAddr B"
  by (simp_all add: OldBech32PrefixAccAddr_def OldBech32PrefixValAddr_def OldBech32PrefixConsAddr_def
      OldBech32Prefix_def Bech32PrefixAccAddr_def Bech32PrefixValAddr_def Bech32PrefixConsAddr_def Bech32Prefix_def)

lemma address_verifier_Ok: "32 \<le> MaxAddrLen \<Longrightarrow> address_verifier MaxAddrLen bz = Ok () \<longleftrightarrow> length bz \<in> {20, 32}"
  by (auto simp: address_verifier_def)

lemma module_accounts_same: "ModuleAccountAddrs t ms = BlacklistedModuleAccountAddrs t ms"
  by (simp add: ModuleAccountAddrs_def BlacklistedModuleAccountAddrs_def)

section \<open>Adding an account to a genesis file\<close>

text \<open>
  The command \<open>add-genesis-account\<close> on the decoded accounts and balances of the file. Reading, decoding,
  encoding and writing it are left out: when one of them fails the command stops and the file is as it was.
\<close>

record base_vesting =
  Bv_Address :: bytes
  OriginalVesting :: Coins
  EndTime :: i64

datatype gen_account =
    Gen_Base bytes
  | Gen_ContinuousVesting base_vesting i64
  | Gen_DelayedVesting base_vesting

record gen_Balance =
  Gb_Address :: string
  Gb_Coins :: Coins

record genesis_file =
  Gf_Accounts :: "gen_account list"
  Gf_Balances :: "gen_Balance list"

record genesis_lib =
  gl_ParseCoinsNormalized :: "string \<Rightarrow> Coins option"
  gl_AccAddressFromBech32 :: "string \<Rightarrow> bytes option"
  gl_Keybase :: "string \<Rightarrow> bytes option"
  gl_AccAddress_String :: "bytes \<Rightarrow> string"
  gl_Sort :: "Coins \<Rightarrow> Coins"
  gl_IsZero :: "Coins \<Rightarrow> bool"
  gl_IsAnyGT :: "Coins \<Rightarrow> Coins \<Rightarrow> bool"
  gl_Validate :: "gen_account \<Rightarrow> unit res"
  gl_Contains :: "gen_account list \<Rightarrow> bytes \<Rightarrow> bool"
  gl_SanitizeAccounts :: "gen_account list \<Rightarrow> gen_account list"
  gl_SanitizeBalances :: "gen_Balance list \<Rightarrow> gen_Balance list"

definition new_gen_account ::
    "genesis_lib \<Rightarrow> bytes \<Rightarrow> Coins \<Rightarrow> Coins \<Rightarrow> i64 \<Rightarrow> i64 \<Rightarrow> gen_account res" where
  "new_gen_account G addr coins vestingAmt vestingStart vestingEnd =
     (if \<not> gl_IsZero G vestingAmt
      then
        (let baseVestingAccount = \<lparr>Bv_Address = addr, OriginalVesting = gl_Sort G vestingAmt, EndTime = vestingEnd\<rparr>
         in if gl_IsZero G coins \<and> \<not> gl_IsZero G (OriginalVesting baseVestingAccount) \<or>
               gl_IsAnyGT G (OriginalVesting baseVestingAccount) coins
            then Err (ErrPlain ''vesting amount cannot be greater than total amount'')
            else if vestingStart \<noteq> 0 \<and> vestingEnd \<noteq> 0
            then Ok (Gen_ContinuousVesting baseVestingAccount vestingStart)
            else if vestingEnd \<noteq> 0 then Ok (Gen_DelayedVesting baseVestingAccount)
            else Err (ErrPlain ''invalid vesting parameters; must supply start and end time or end time''))
      else Ok (Gen_Base addr))"

definition AddGenesisAccount ::
    "genesis_lib \<Rightarrow> string \<Rightarrow> string \<Rightarrow> i64 \<Rightarrow> i64 \<Rightarrow> string \<Rightarrow> (genesis_file, unit) op" where
  "AddGenesisAccount G arg0 arg1 vestingStart vestingEnd vestingAmtStr f =
     (case gl_ParseCoinsNormalized G arg1 of
        None \<Rightarrow> (Err (ErrPlain ''failed to parse coins''), f)
      | Some coins \<Rightarrow>
          (case (case gl_AccAddressFromBech32 G arg0 of Some addr \<Rightarrow> Some addr | None \<Rightarrow> gl_Keybase G arg0) of
             None \<Rightarrow> (Err (ErrPlain ''failed to get address from Keybase''), f)
           | Some addr \<Rightarrow>
               (case gl_ParseCoinsNormalized G vestingAmtStr of
                  None \<Rightarrow> (Err (ErrPlain ''failed to parse vesting amount''), f)
                | Some vestingAmt \<Rightarrow>
                    (let balances = \<lparr>Gb_Address = gl_AccAddress_String G addr, Gb_Coins = gl_Sort G coins\<rparr>
                     in op_bind (op_lift (res_bind
                            (new_gen_account G addr (Gb_Coins balances) vestingAmt vestingStart vestingEnd)
                            (\<lambda>genAccount. res_bind (gl_Validate G genAccount) (\<lambda>_. Ok genAccount))))
                          (\<lambda>genAccount f.
                             if gl_Contains G (Gf_Accounts f) addr
                             then (Err (ErrPlain ''cannot add account at existing address''), f)
                             else (Ok (), f\<lparr>Gf_Accounts := gl_SanitizeAccounts G (Gf_Accounts f @ [genAccount]),
                                            Gf_Balances := gl_SanitizeBalances G (Gf_Balances f @ [balances])\<rparr>)) f))))"

lemma AddGenesisAccount_Err: "AddGenesisAccount G a c st e v f = (Err x, f') \<Longrightarrow> f' = f"
  by (auto simp: AddGenesisAccount_def Let_def op_bind_def op_lift_def split: option.splits res.splits if_splits)

text \<open>A vesting account is only added with an end time and within the coins of the account.\<close>

lemma new_gen_account_vesting:
  "new_gen_account G addr coins va st en = Ok a \<Longrightarrow> \<not> gl_IsZero G va \<Longrightarrow>
     en \<noteq> 0 \<and> \<not> gl_IsAnyGT G (gl_Sort G va) coins \<and> (gl_IsZero G (gl_Sort G va) \<or> \<not> gl_IsZero G coins)"
  by (auto simp: new_gen_account_def Let_def split: if_splits)

text \<open>The command that encodes an address under another prefix; the flag's default is not the chain's prefix.\<close>

definition flagBech32Prefix_default :: string where
  "flagBech32Prefix_default = ''composable''"

definition bech32_convert ::
    "(string \<Rightarrow> (string \<times> bytes) res) \<Rightarrow> (string \<Rightarrow> bytes \<Rightarrow> string res) \<Rightarrow> string \<Rightarrow> string \<Rightarrow> string res" where
  "bech32_convert DecodeAndConvert ConvertAndEncode bech32prefix arg =
     res_bind (DecodeAndConvert arg) (\<lambda>(_, bz).
       case ConvertAndEncode bech32prefix bz of Err _ \<Rightarrow> Panic | r \<Rightarrow> r)"

definition CovertPrefixAddr :: "bech32_lib \<Rightarrow> string \<Rightarrow> string" where
  "CovertPrefixAddr B arg = ConvertAccAddr B arg"

lemma default_prefix_differs: "flagBech32Prefix_default \<noteq> Bech32Prefix"
  by (simp add: flagBech32Prefix_default_def Bech32Prefix_def)

end
