(* ===== verification/Tx_Boundary.thy ===== *)
theory Tx_Boundary
  imports Reference_Lib
begin

text \<open>
  \<open>x/tx-boundary\<close>: how many delegations and redelegations an address may have accepted. The keeper has
  one store with the two boundaries under one-byte keys and the counters under the address itself; the
  ante decorator checks every staking message of a transaction, also inside authz messages.
\<close>

section \<open>State\<close>

record Boundary =
  TxLimit :: u64
  BlocksPerGeneration :: u64

record LimitPerAddr =
  DelegateCount :: u64
  ReledegateCount :: u64
  LatestUpdateBlock :: i64

datatype txb_val = V_Boundary Boundary | V_Limit LimitPerAddr

type_synonym txb_state = "txb_val kv"

text \<open>
  Both structs are encoded with their first two numbers as fields one and two, so the bytes of one can
  be read as the other: the missing third field is zero, an unknown one is skipped.
\<close>

definition as_boundary :: "txb_val \<Rightarrow> Boundary" where
  "as_boundary v =
     (case v of
        V_Boundary b \<Rightarrow> b
      | V_Limit l \<Rightarrow> \<lparr>TxLimit = DelegateCount l, BlocksPerGeneration = ReledegateCount l\<rparr>)"

definition as_limit :: "txb_val \<Rightarrow> LimitPerAddr" where
  "as_limit v =
     (case v of
        V_Limit l \<Rightarrow> l
      | V_Boundary b \<Rightarrow> \<lparr>DelegateCount = TxLimit b, ReledegateCount = BlocksPerGeneration b, LatestUpdateBlock = 0\<rparr>)"

definition DelegateBoundaryKey :: bytes where
  "DelegateBoundaryKey = [CHR 0x00]"

definition RedelegateBoundaryKey :: bytes where
  "RedelegateBoundaryKey = [CHR 0x01]"

section \<open>Keeper\<close>

definition SetDelegateBoundary :: "Boundary \<Rightarrow> (txb_state, unit) op" where
  "SetDelegateBoundary boundary s =
     (if BlocksPerGeneration boundary = 0 then (Err (ErrPlain ''BlocksPerGeneration must not be zero''), s)
      else (Ok (), kv_set DelegateBoundaryKey (V_Boundary boundary) s))"

definition GetDelegateBoundary :: "txb_state \<Rightarrow> Boundary res" where
  "GetDelegateBoundary s =
     (case kv_get s DelegateBoundaryKey of None \<Rightarrow> Panic | Some v \<Rightarrow> Ok (as_boundary v))"

definition SetRedelegateBoundary :: "Boundary \<Rightarrow> (txb_state, unit) op" where
  "SetRedelegateBoundary boundary s =
     (if BlocksPerGeneration boundary = 0 then (Err (ErrPlain ''BlocksPerGeneration must not be zero''), s)
      else (Ok (), kv_set RedelegateBoundaryKey (V_Boundary boundary) s))"

definition GetRedelegateBoundary :: "txb_state \<Rightarrow> Boundary res" where
  "GetRedelegateBoundary s =
     (case kv_get s RedelegateBoundaryKey of None \<Rightarrow> Panic | Some v \<Rightarrow> Ok (as_boundary v))"

definition SetLimitPerAddr :: "bytes \<Rightarrow> LimitPerAddr \<Rightarrow> txb_state \<Rightarrow> txb_state" where
  "SetLimitPerAddr addr limitPerAddr s = kv_set addr (V_Limit limitPerAddr) s"

definition IncrementDelegateCount :: "ctx \<Rightarrow> bytes \<Rightarrow> txb_state \<Rightarrow> txb_state" where
  "IncrementDelegateCount ctx addr s =
     (case kv_get s addr of
        None \<Rightarrow> SetLimitPerAddr addr
                  \<lparr>DelegateCount = 1, ReledegateCount = 0, LatestUpdateBlock = BlockHeight ctx\<rparr> s
      | Some v \<Rightarrow>
          (let limitPerAddr = as_limit v
           in SetLimitPerAddr addr (limitPerAddr\<lparr>DelegateCount := DelegateCount limitPerAddr + 1\<rparr>) s))"

definition IncrementRedelegateCount :: "ctx \<Rightarrow> bytes \<Rightarrow> txb_state \<Rightarrow> txb_state" where
  "IncrementRedelegateCount ctx addr s =
     (case kv_get s addr of
        None \<Rightarrow> SetLimitPerAddr addr
                  \<lparr>DelegateCount = 0, ReledegateCount = 1, LatestUpdateBlock = BlockHeight ctx\<rparr> s
      | Some v \<Rightarrow>
          (let limitPerAddr = as_limit v
           in SetLimitPerAddr addr (limitPerAddr\<lparr>ReledegateCount := ReledegateCount limitPerAddr + 1\<rparr>) s))"

definition GetLimitPerAddr :: "txb_state \<Rightarrow> bytes \<Rightarrow> LimitPerAddr" where
  "GetLimitPerAddr s addr =
     (case kv_get s addr of
        None \<Rightarrow> \<lparr>DelegateCount = 0, ReledegateCount = 0, LatestUpdateBlock = 0\<rparr>
      | Some v \<Rightarrow> as_limit v)"

text \<open>The number of transactions generated since the last update, at most five.\<close>

definition generated :: "u64 \<Rightarrow> u64 \<Rightarrow> u64" where
  "generated duration blocksPerGeneration =
     (if 5 < duration div blocksPerGeneration then 5 else duration div blocksPerGeneration)"

definition minus_generated :: "u64 \<Rightarrow> u64 \<Rightarrow> u64" where
  "minus_generated generatedTx count = (if count < generatedTx then 0 else count - generatedTx)"

text \<open>
  \<open>int64\<close> sums wrap and are compared as signed numbers; the duration is a difference of \<open>uint64\<close>.
  Dividing by zero generations panics.
\<close>

definition UpdateLimitPerAddr :: "ctx \<Rightarrow> bytes \<Rightarrow> (txb_state, unit) op" where
  "UpdateLimitPerAddr ctx addr s =
     (let limitPerAddr = GetLimitPerAddr s addr
      in if LatestUpdateBlock limitPerAddr = 0 then (Ok (), s)
         else
           op_bind (op_lift (GetDelegateBoundary s)) (\<lambda>boundary s.
             if LatestUpdateBlock limitPerAddr + BlocksPerGeneration boundary \<le>s BlockHeight ctx
             then
               (let duration = BlockHeight ctx - LatestUpdateBlock limitPerAddr
                in if BlocksPerGeneration boundary = 0 then (Panic, s)
                   else
                     (let generatedTx = generated duration (BlocksPerGeneration boundary);
                          limitPerAddr = limitPerAddr\<lparr>DelegateCount := minus_generated generatedTx (DelegateCount limitPerAddr)\<rparr>;
                          limitPerAddr = limitPerAddr\<lparr>ReledegateCount := minus_generated generatedTx (ReledegateCount limitPerAddr)\<rparr>;
                          limitPerAddr = limitPerAddr\<lparr>LatestUpdateBlock := BlockHeight ctx\<rparr>
                      in (Ok (), SetLimitPerAddr addr limitPerAddr s)))
             else (Ok (), s)) s)"

section \<open>Ante decorator\<close>

text \<open>
  The messages the decorators of the ante handler look at. The messages inside \<open>MsgExec\<close> are packed;
  \<open>None\<close> is one that does not unpack. \<open>MsgUpdateClient\<close> has the type URL of its client message, \<open>None\<close>
  when that is absent, and its signer.
\<close>

datatype sdk_msg =
    MsgDelegate string
  | MsgBeginRedelegate string
  | MsgExec "sdk_msg option list"
  | MsgUpdateClient "string option" string
  | OtherMsg

definition validDelegateMsg :: "lib \<Rightarrow> ctx \<Rightarrow> string \<Rightarrow> (txb_state, unit) op" where
  "validDelegateMsg L ctx delegatorAddress s =
     op_bind (op_lift (GetDelegateBoundary s)) (\<lambda>boundary.
     op_bind (op_lift (AccAddressFromBech32 L delegatorAddress)) (\<lambda>delegator.
     op_bind (UpdateLimitPerAddr ctx delegator) (\<lambda>_ s.
       if TxLimit boundary = 0 then (Ok (), s)
       else if TxLimit boundary \<le> DelegateCount (GetLimitPerAddr s delegator)
       then (Err (ErrPlain ''delegate tx denied, excess tx limit''), s)
       else (Ok (), IncrementDelegateCount ctx delegator s)))) s"

definition validRedelegateMsg :: "lib \<Rightarrow> ctx \<Rightarrow> string \<Rightarrow> (txb_state, unit) op" where
  "validRedelegateMsg L ctx delegatorAddress s =
     op_bind (op_lift (GetRedelegateBoundary s)) (\<lambda>boundary.
     op_bind (op_lift (AccAddressFromBech32 L delegatorAddress)) (\<lambda>delegator.
     op_bind (UpdateLimitPerAddr ctx delegator) (\<lambda>_ s.
       if TxLimit boundary = 0 then (Ok (), s)
       else if TxLimit boundary \<le> ReledegateCount (GetLimitPerAddr s delegator)
       then (Err (ErrPlain ''redelegate tx denied, excess tx limit''), s)
       else (Ok (), IncrementRedelegateCount ctx delegator s)))) s"

fun ValidateStakingMsg :: "lib \<Rightarrow> ctx \<Rightarrow> sdk_msg \<Rightarrow> (txb_state, unit) op"
  and validAuthz :: "lib \<Rightarrow> ctx \<Rightarrow> sdk_msg option list \<Rightarrow> (txb_state, unit) op" where
  "ValidateStakingMsg L ctx (MsgDelegate d) s = validDelegateMsg L ctx d s"
| "ValidateStakingMsg L ctx (MsgBeginRedelegate d) s = validRedelegateMsg L ctx d s"
| "ValidateStakingMsg L ctx (MsgExec ms) s = validAuthz L ctx ms s"
| "ValidateStakingMsg L ctx (MsgUpdateClient url signer) s = (Ok (), s)"
| "ValidateStakingMsg L ctx OtherMsg s = (Ok (), s)"
| "validAuthz L ctx [] s = (Ok (), s)"
| "validAuthz L ctx (None # vs) s = (Err (ErrLib ''cannot unmarshal authz exec msgs''), s)"
| "validAuthz L ctx (Some innerMsg # vs) s =
     (case ValidateStakingMsg L ctx innerMsg s of
        (Ok _, s') \<Rightarrow> validAuthz L ctx vs s'
      | (Err e, s') \<Rightarrow> (Err e, s')
      | (Panic, s') \<Rightarrow> (Panic, s'))"

definition ValidateStakingMsgs :: "lib \<Rightarrow> ctx \<Rightarrow> sdk_msg list \<Rightarrow> (txb_state, unit) op" where
  "ValidateStakingMsgs L ctx msgs = op_each (ValidateStakingMsg L ctx) msgs"

definition StakingPermission_AnteHandle ::
    "lib \<Rightarrow> ctx \<Rightarrow> bool \<Rightarrow> sdk_msg list \<Rightarrow> (txb_state, unit) op \<Rightarrow> (txb_state, unit) op" where
  "StakingPermission_AnteHandle L ctx simulate msgs nxt =
     (if simulate then nxt else op_bind (ValidateStakingMsgs L ctx msgs) (\<lambda>_. nxt))"

section \<open>Messages, genesis and queries\<close>

record MsgUpdateDelegateBoundary =
  Mub_Boundary :: Boundary
  Mub_Authority :: string

type_synonym MsgUpdateRedelegateBoundary = MsgUpdateDelegateBoundary

definition NewMsgUpdateDelegateBoundary :: "Boundary \<Rightarrow> string \<Rightarrow> MsgUpdateDelegateBoundary" where
  "NewMsgUpdateDelegateBoundary boundary authority = \<lparr>Mub_Boundary = boundary, Mub_Authority = authority\<rparr>"

definition NewMsgUpdateRedelegateBoundary :: "Boundary \<Rightarrow> string \<Rightarrow> MsgUpdateRedelegateBoundary" where
  "NewMsgUpdateRedelegateBoundary boundary authority = \<lparr>Mub_Boundary = boundary, Mub_Authority = authority\<rparr>"

definition MsgUpdateDelegateBoundary_GetSigners :: "lib \<Rightarrow> MsgUpdateDelegateBoundary \<Rightarrow> bytes list res" where
  "MsgUpdateDelegateBoundary_GetSigners L m =
     (case AccAddressFromBech32 L (Mub_Authority m) of Ok a \<Rightarrow> Ok [a] | _ \<Rightarrow> Panic)"

definition MsgUpdateRedelegateBoundary_GetSigners :: "lib \<Rightarrow> MsgUpdateRedelegateBoundary \<Rightarrow> bytes list res" where
  "MsgUpdateRedelegateBoundary_GetSigners L m =
     (case AccAddressFromBech32 L (Mub_Authority m) of Ok a \<Rightarrow> Ok [a] | _ \<Rightarrow> Panic)"

definition MsgUpdateDelegateBoundary_ValidateBasic :: "lib \<Rightarrow> MsgUpdateDelegateBoundary \<Rightarrow> unit res" where
  "MsgUpdateDelegateBoundary_ValidateBasic L m =
     res_bind (AccAddressFromBech32 L (Mub_Authority m)) (\<lambda>_. Ok ())"

definition MsgUpdateRedelegateBoundary_ValidateBasic :: "lib \<Rightarrow> MsgUpdateRedelegateBoundary \<Rightarrow> unit res" where
  "MsgUpdateRedelegateBoundary_ValidateBasic L m =
     res_bind (AccAddressFromBech32 L (Mub_Authority m)) (\<lambda>_. Ok ())"

record txb_GenesisState =
  Xg_DelegateBoundary :: Boundary
  Xg_RedelegateBoundary :: Boundary

definition DefaultDelegateBoundary :: Boundary where
  "DefaultDelegateBoundary = \<lparr>TxLimit = 5, BlocksPerGeneration = 5\<rparr>"

definition DefaultRedelegateBoundary :: Boundary where
  "DefaultRedelegateBoundary = \<lparr>TxLimit = 5, BlocksPerGeneration = 5\<rparr>"

definition txb_DefaultGenesisState :: txb_GenesisState where
  "txb_DefaultGenesisState =
     \<lparr>Xg_DelegateBoundary = DefaultDelegateBoundary, Xg_RedelegateBoundary = DefaultRedelegateBoundary\<rparr>"

definition txb_ValidateGenesis :: "txb_GenesisState \<Rightarrow> unit res" where
  "txb_ValidateGenesis data =
     (if BlocksPerGeneration (Xg_DelegateBoundary data) \<le> 0 \<or> BlocksPerGeneration (Xg_RedelegateBoundary data) \<le> 0
      then Err (ErrPlain ''BlocksPerGeneration must greater than 0'') else Ok ())"

definition txb_InitGenesis :: "txb_GenesisState \<Rightarrow> (txb_state, unit) op" where
  "txb_InitGenesis genState =
     op_bind (op_must (SetDelegateBoundary (Xg_DelegateBoundary genState)))
       (\<lambda>_. op_must (SetRedelegateBoundary (Xg_RedelegateBoundary genState)))"

definition txb_ExportGenesis :: "txb_state \<Rightarrow> txb_GenesisState res" where
  "txb_ExportGenesis s =
     (let genesis = txb_DefaultGenesisState
      in res_bind (GetDelegateBoundary s) (\<lambda>d.
         res_bind (GetRedelegateBoundary s) (\<lambda>r.
           Ok (genesis\<lparr>Xg_DelegateBoundary := d, Xg_RedelegateBoundary := r\<rparr>))))"

definition query_DelegateBoundary :: "txb_state \<Rightarrow> Boundary res" where
  "query_DelegateBoundary s = GetDelegateBoundary s"

definition query_RedelegateBoundary :: "txb_state \<Rightarrow> Boundary res" where
  "query_RedelegateBoundary s = GetRedelegateBoundary s"

end
