(* ===== verification/Tfmw_Props.thy ===== *)
theory Tfmw_Props
  imports Tfmw_Module
begin

text \<open>
  The reachable states of \<open>x/transfermiddleware\<close> and the properties of its registry: consistency of
  the indices, adding and removing as operations on a set of tokens, the removal list, the relayer
  allow list and genesis.
\<close>

section \<open>Reachable states\<close>

text \<open>
  A step is a delivered message or a begin block. A failing message may leave any state it reached,
  which is more than the rollback of the SDK allows.
\<close>

inductive tfmw_step :: "string \<Rightarrow> tfmw_state \<Rightarrow> tfmw_state \<Rightarrow> bool" for authority where
  step_add: "AddParachainIBCTokenInfo authority req s = (r, t) \<Longrightarrow> tfmw_step authority s t"
| step_remove: "RemoveParachainIBCTokenInfo authority ctx rm s = (r, t) \<Longrightarrow> tfmw_step authority s t"
| step_rly: "AddRlyAddress authority rly s = (r, t) \<Longrightarrow> tfmw_step authority s t"
| step_begin: "tfmw_BeginBlocker ctx s = t \<Longrightarrow> tfmw_step authority s t"

inductive_cases tfmw_stepE: "tfmw_step authority s t"

inductive tfmw_reachable :: "string \<Rightarrow> tfmw_state \<Rightarrow> bool" for authority where
  reach_genesis: "tfmw_InitGenesis g tfmw_empty = (Ok (), s) \<Longrightarrow> tfmw_reachable authority s"
| reach_step: "tfmw_reachable authority s \<Longrightarrow> tfmw_step authority s t \<Longrightarrow> tfmw_reachable authority t"

lemma registry_ok_AddMsg:
  "registry_ok s \<Longrightarrow> AddParachainIBCTokenInfo au req s = (r, t) \<Longrightarrow> registry_ok t"
  using registry_ok_AddParachainIBCInfo
    [of s "Mai_IbcDenom req" "Mai_ChannelID req" "Mai_NativeDenom req" "Mai_AssetId req"]
  by (auto simp: AddParachainIBCTokenInfo_def same_indices_registry_ok [OF same_indices_frames(1) [THEN eqTrueE]]
      split: if_splits prod.splits res.splits)

lemma registry_ok_step: "tfmw_step au s t \<Longrightarrow> registry_ok s \<Longrightarrow> registry_ok t"
  by (auto elim!: tfmw_stepE intro: registry_ok_AddMsg registry_ok_BeginBlocker
      simp: same_indices_registry_ok [OF same_indices_RemoveMsg] same_indices_registry_ok [OF same_indices_AddRly])

lemma registry_ok_genesis: "tfmw_InitGenesis g tfmw_empty = (r, s) \<Longrightarrow> registry_ok s"
  using registry_ok_InitGenesis [of tfmw_empty g] by simp

lemma reachable_registry_ok: "tfmw_reachable au s \<Longrightarrow> registry_ok s"
  by (induction rule: tfmw_reachable.induct) (auto intro: registry_ok_step registry_ok_genesis)

section \<open>The allow list can never start\<close>

lemma prefix_rly_iff: "prefix KeyRlyAddress k \<longleftrightarrow> (\<exists>a. k = GetKeyByRlyAddress a)"
  by (auto simp: GetKeyByRlyAddress_def elim: prefixE)

lemma prefix_asset_iff: "prefix KeyParachainIBCTokenInfoByAssetID k \<longleftrightarrow> (\<exists>a. k = GetKeyParachainIBCTokenInfoByAssetID a)"
  by (auto simp: GetKeyParachainIBCTokenInfoByAssetID_def elim: prefixE)

lemma prefix_remove_iff:
  "prefix KeyParachainIBCTokenRemoveListByNativeDenom k \<longleftrightarrow> (\<exists>n. k = GetKeyParachainIBCTokenRemoveListByNativeDenom n)"
  by (auto simp: GetKeyParachainIBCTokenRemoveListByNativeDenom_def elim: prefixE)

definition no_rly :: "tfmw_state \<Rightarrow> bool" where
  "no_rly s \<longleftrightarrow> (\<forall>a. kv_get (tfmw_store s) (GetKeyByRlyAddress a) = None)"

lemma no_rly_iff: "no_rly s \<longleftrightarrow> kv_prefix KeyRlyAddress (tfmw_store s) = []"
proof
  assume n: "no_rly s"
  show "kv_prefix KeyRlyAddress (tfmw_store s) = []"
  proof (rule ccontr)
    assume "kv_prefix KeyRlyAddress (tfmw_store s) \<noteq> []"
    then obtain k v where "(k, v) \<in> set (kv_prefix KeyRlyAddress (tfmw_store s))"
      by (metis list.set_intros(1) neq_Nil_conv surj_pair)
    with n show False by (auto simp: kv_prefix_iff prefix_rly_iff no_rly_def)
  qed
next
  assume e: "kv_prefix KeyRlyAddress (tfmw_store s) = []"
  show "no_rly s"
    unfolding no_rly_def
  proof
    fix a
    show "kv_get (tfmw_store s) (GetKeyByRlyAddress a) = None"
      using e kv_prefix_iff [of "GetKeyByRlyAddress a" _ KeyRlyAddress "tfmw_store s"]
      by (cases "kv_get (tfmw_store s) (GetKeyByRlyAddress a)") (auto simp: prefix_rly_iff)
  qed
qed

lemma no_rly_has: "no_rly s \<Longrightarrow> HasAllowRlyAddress s a"
  using no_rly_iff [of s] by (simp add: HasAllowRlyAddress_def)

lemma no_rly_emit [simp]: "no_rly (emit_tfmw e s) = no_rly s"
  by (simp add: no_rly_def emit_tfmw_def)

lemma no_rly_AddInfo: "no_rly s \<Longrightarrow> no_rly (snd (AddParachainIBCInfo d c n a s))"
  by (auto simp: AddParachainIBCInfo_def no_rly_def Let_def)

lemma no_rly_Remove: "no_rly s \<Longrightarrow> no_rly (snd (RemoveParachainIBCInfo n s))"
  by (auto simp: RemoveParachainIBCInfo_def no_rly_def Let_def)

lemma no_rly_step: "tfmw_step au s t \<Longrightarrow> no_rly s \<Longrightarrow> no_rly t"
proof (elim tfmw_stepE)
  fix req r
  assume "no_rly s" "AddParachainIBCTokenInfo au req s = (r, t)"
  then show "no_rly t"
    using no_rly_AddInfo [of s "Mai_IbcDenom req" "Mai_ChannelID req" "Mai_NativeDenom req" "Mai_AssetId req"]
    by (auto simp: AddParachainIBCTokenInfo_def split: if_splits prod.splits res.splits)
next
  fix ctx rm r
  assume "no_rly s" "RemoveParachainIBCTokenInfo au ctx rm s = (r, t)"
  then show "no_rly t"
    by (auto simp: RemoveParachainIBCTokenInfo_def AddParachainIBCInfoToRemoveList_def Let_def no_rly_def
        emit_tfmw_def split: if_splits prod.splits res.splits)
next
  fix rly r
  assume "no_rly s" "AddRlyAddress au rly s = (r, t)"
  then show "no_rly t"
    by (auto simp: AddRlyAddress_def no_rly_has split: if_splits)
next
  fix ctx
  assume "no_rly s" "tfmw_BeginBlocker ctx s = t"
  moreover have "no_rly (snd (remove_callback ctx r u))" if "no_rly u" for r u
    using that no_rly_Remove [of u "Rm_NativeDenom r"]
    by (auto simp: remove_callback_def split: prod.splits res.splits)
  ultimately show "no_rly t"
    unfolding tfmw_BeginBlocker_def IterateRemoveListInfo_def by (auto intro: iterate_until_inv)
qed

lemma no_rly_genesis: "tfmw_InitGenesis g tfmw_empty = (Ok (), s) \<Longrightarrow> no_rly s"
proof -
  assume g: "tfmw_InitGenesis g tfmw_empty = (Ok (), s)"
  have "no_rly (snd (op_each (\<lambda>i. op_must (add_info i)) (Tg_TokenInfos g) tfmw_empty))"
  proof (rule op_each_inv)
    fix x t
    assume "no_rly t"
    then show "no_rly (snd (op_must (add_info x) t))"
      using no_rly_AddInfo [of t "IbcDenom x" "ChannelID x" "NativeDenom x" "AssetId x"]
      by (auto simp: add_info_def op_must_def split: prod.splits res.splits)
  qed (simp add: no_rly_def tfmw_empty_def)
  with g show ?thesis
    by (auto simp: tfmw_InitGenesis_def op_bind_def no_rly_def tfmw_SetParams_def split: prod.splits res.splits)
qed

lemma reachable_no_rly: "tfmw_reachable au s \<Longrightarrow> no_rly s"
  by (induction rule: tfmw_reachable.induct) (auto intro: no_rly_step no_rly_genesis)

section \<open>The removal list\<close>

definition due :: "ctx \<Rightarrow> RemoveParachainIBCTokenInfo_t \<Rightarrow> bool" where
  "due ctx r \<longleftrightarrow> Rm_RemoveTime r < BlockTime ctx"

text \<open>The entries of the removal list are kept under the denomination they name.\<close>

definition remove_ok :: "tfmw_state \<Rightarrow> bool" where
  "remove_ok s \<longleftrightarrow>
     (\<forall>n v. kv_get (tfmw_store s) (GetKeyParachainIBCTokenRemoveListByNativeDenom n) = Some v \<longrightarrow>
        (\<exists>t. v = V_Remove \<lparr>Rm_NativeDenom = n, Rm_RemoveTime = t\<rparr>))"

lemma remove_list_iff:
  "r \<in> set (remove_list s) \<longleftrightarrow>
   (\<exists>n. kv_get (tfmw_store s) (GetKeyParachainIBCTokenRemoveListByNativeDenom n) = Some (V_Remove r))"
proof -
  have dec: "(case v of V_Remove r \<Rightarrow> Some r | _ \<Rightarrow> None) = Some r \<longleftrightarrow> v = V_Remove r" for v
    by (cases v) auto
  show ?thesis
    unfolding remove_list_def set_map_filter dec
    by (auto simp: Bex_def kv_prefix_iff prefix_remove_iff)
qed

lemma remove_entry:
  assumes "remove_ok s" "(k, v) \<in> set (kv_prefix KeyParachainIBCTokenRemoveListByNativeDenom (tfmw_store s))"
  shows "k = GetKeyParachainIBCTokenRemoveListByNativeDenom (tl k)"
    and "\<exists>t. v = V_Remove \<lparr>Rm_NativeDenom = tl k, Rm_RemoveTime = t\<rparr>"
proof -
  from assms(2) obtain n where k: "k = GetKeyParachainIBCTokenRemoveListByNativeDenom n"
    and v: "kv_get (tfmw_store s) k = Some v"
    by (auto simp: kv_prefix_iff prefix_remove_iff)
  then show "k = GetKeyParachainIBCTokenRemoveListByNativeDenom (tl k)"
    and "\<exists>t. v = V_Remove \<lparr>Rm_NativeDenom = tl k, Rm_RemoveTime = t\<rparr>"
    using assms(1) unfolding remove_ok_def
    by (simp_all add: GetKeyParachainIBCTokenRemoveListByNativeDenom_def
        KeyParachainIBCTokenRemoveListByNativeDenom_def)
qed

lemma remove_list_distinct:
  assumes "remove_ok s"
  shows "distinct (map Rm_NativeDenom (remove_list s))"
proof -
  let ?es = "kv_prefix KeyParachainIBCTokenRemoveListByNativeDenom (tfmw_store s)"
  have "map Rm_NativeDenom (remove_list s) = map (\<lambda>e. tl (fst e)) ?es"
    unfolding remove_list_def
  proof (rule map_filter_keys)
    fix e
    assume "e \<in> set ?es"
    with remove_entry(2) [OF assms, of "fst e" "snd e"]
    show "\<exists>x. (case snd e of V_Remove r \<Rightarrow> Some r | _ \<Rightarrow> None) = Some x \<and> Rm_NativeDenom x = tl (fst e)"
      by auto
  qed
  moreover have "map fst ?es = map GetKeyParachainIBCTokenRemoveListByNativeDenom (map (\<lambda>e. tl (fst e)) ?es)"
    using remove_entry(1) [OF assms] by force
  ultimately show ?thesis
    using kv_prefix_distinct [of KeyParachainIBCTokenRemoveListByNativeDenom "tfmw_store s"]
    by (metis distinct_map)
qed

text \<open>What the loop of the begin blocker does to the set of tokens.\<close>

lemma remove_loop_subset:
  assumes "registry_ok s"
  shows "registered (iterate_until (remove_callback ctx) rs s) \<subseteq> registered s \<and>
         (\<forall>i \<in> registered s - registered (iterate_until (remove_callback ctx) rs s).
            \<exists>r \<in> set rs. due ctx r \<and> Rm_NativeDenom r = NativeDenom i)"
  using assms
proof (induction rs arbitrary: s)
  case (Cons r rs)
  show ?case
  proof (cases "due ctx r")
    case False
    with Cons show ?thesis by (auto simp: remove_callback_def due_def)
  next
    case True
    show ?thesis
    proof (cases "RemoveParachainIBCInfo (Rm_NativeDenom r) s")
      case (Pair res t)
      show ?thesis
      proof (cases "res = Ok ()")
        case ok: True
        note t = RemoveParachainIBCInfo_registered [OF Cons.prems Pair [unfolded ok]]
        have "iterate_until (remove_callback ctx) (r # rs) s = iterate_until (remove_callback ctx) rs t"
          using True Pair ok by (simp add: remove_callback_def due_def)
        with Cons.IH [OF t(2)] t(1) True show ?thesis by auto
      next
        case False
        with Pair have "t = s" by (auto simp: RemoveParachainIBCInfo_def Let_def split: if_splits)
        with False True Pair show ?thesis
          by (cases res) (auto simp: remove_callback_def due_def)
      qed
    qed
  qed
qed simp

lemma remove_loop_exact:
  assumes "registry_ok s" "distinct (map Rm_NativeDenom rs)"
    and "\<forall>r \<in> set rs. due ctx r \<longrightarrow> (\<exists>i \<in> registered s. NativeDenom i = Rm_NativeDenom r)"
  shows "registered (iterate_until (remove_callback ctx) rs s) =
         {i \<in> registered s. \<forall>r \<in> set rs. due ctx r \<longrightarrow> Rm_NativeDenom r \<noteq> NativeDenom i}"
  using assms
proof (induction rs arbitrary: s)
  case (Cons r rs)
  show ?case
  proof (cases "due ctx r")
    case False
    with Cons show ?thesis by (auto simp: remove_callback_def due_def)
  next
    case True
    with Cons.prems(3) obtain i where i: "i \<in> registered s" "NativeDenom i = Rm_NativeDenom r" by auto
    obtain t where t: "RemoveParachainIBCInfo (Rm_NativeDenom r) s = (Ok (), t)"
      using RemoveParachainIBCInfo_result(1) [OF Cons.prems(1) i] by auto
    note reg = RemoveParachainIBCInfo_registered [OF Cons.prems(1) t]
    have "\<forall>q \<in> set rs. due ctx q \<longrightarrow> (\<exists>i \<in> registered t. NativeDenom i = Rm_NativeDenom q)"
    proof (intro ballI impI)
      fix q
      assume q: "q \<in> set rs" "due ctx q"
      with Cons.prems(2,3) obtain j where "j \<in> registered s" "NativeDenom j = Rm_NativeDenom q"
        "Rm_NativeDenom q \<noteq> Rm_NativeDenom r" by force
      then show "\<exists>i \<in> registered t. NativeDenom i = Rm_NativeDenom q" unfolding reg(1) by auto
    qed
    with Cons.IH [OF reg(2)] Cons.prems(2)
    have "registered (iterate_until (remove_callback ctx) rs t) =
         {i \<in> registered t. \<forall>r \<in> set rs. due ctx r \<longrightarrow> Rm_NativeDenom r \<noteq> NativeDenom i}" by simp
    moreover have "iterate_until (remove_callback ctx) (r # rs) s = iterate_until (remove_callback ctx) rs t"
      using True t by (simp add: remove_callback_def due_def)
    ultimately show ?thesis using True unfolding reg(1) by auto
  qed
qed simp

lemma remove_ok_emit [simp]: "remove_ok (emit_tfmw e s) = remove_ok s"
  by (simp add: remove_ok_def emit_tfmw_def)

lemma remove_ok_AddInfo: "remove_ok s \<Longrightarrow> remove_ok (snd (AddParachainIBCInfo d c n a s))"
  by (auto simp: AddParachainIBCInfo_def remove_ok_def Let_def)

lemma remove_ok_Remove: "remove_ok s \<Longrightarrow> remove_ok (snd (RemoveParachainIBCInfo n s))"
  by (auto simp: RemoveParachainIBCInfo_def remove_ok_def Let_def)

lemma remove_ok_step: "tfmw_step au s t \<Longrightarrow> remove_ok s \<Longrightarrow> remove_ok t"
proof (elim tfmw_stepE)
  fix req r
  assume "remove_ok s" "AddParachainIBCTokenInfo au req s = (r, t)"
  then show "remove_ok t"
    using remove_ok_AddInfo [of s "Mai_IbcDenom req" "Mai_ChannelID req" "Mai_NativeDenom req" "Mai_AssetId req"]
    by (auto simp: AddParachainIBCTokenInfo_def split: if_splits prod.splits res.splits)
next
  fix ctx rm r
  assume "remove_ok s" "RemoveParachainIBCTokenInfo au ctx rm s = (r, t)"
  then show "remove_ok t"
    by (auto simp: RemoveParachainIBCTokenInfo_def AddParachainIBCInfoToRemoveList_def Let_def remove_ok_def
        emit_tfmw_def split: if_splits prod.splits res.splits)
next
  fix rly r
  assume "remove_ok s" "AddRlyAddress au rly s = (r, t)"
  then show "remove_ok t"
    by (auto simp: AddRlyAddress_def SetAllowRlyAddress_def remove_ok_def emit_tfmw_def split: if_splits)
next
  fix ctx
  assume "remove_ok s" "tfmw_BeginBlocker ctx s = t"
  moreover have "remove_ok (snd (remove_callback ctx r u))" if "remove_ok u" for r u
    using that remove_ok_Remove [of u "Rm_NativeDenom r"]
    by (auto simp: remove_callback_def split: prod.splits res.splits)
  ultimately show "remove_ok t"
    unfolding tfmw_BeginBlocker_def IterateRemoveListInfo_def by (auto intro: iterate_until_inv)
qed

lemma remove_ok_genesis: "tfmw_InitGenesis g tfmw_empty = (Ok (), s) \<Longrightarrow> remove_ok s"
proof -
  assume g: "tfmw_InitGenesis g tfmw_empty = (Ok (), s)"
  have "remove_ok (snd (op_each (\<lambda>i. op_must (add_info i)) (Tg_TokenInfos g) tfmw_empty))"
  proof (rule op_each_inv)
    fix x t
    assume "remove_ok t"
    then show "remove_ok (snd (op_must (add_info x) t))"
      using remove_ok_AddInfo [of t "IbcDenom x" "ChannelID x" "NativeDenom x" "AssetId x"]
      by (auto simp: add_info_def op_must_def split: prod.splits res.splits)
  qed (simp add: remove_ok_def tfmw_empty_def)
  with g show ?thesis
    by (auto simp: tfmw_InitGenesis_def op_bind_def remove_ok_def tfmw_SetParams_def split: prod.splits res.splits)
qed

lemma reachable_remove_ok: "tfmw_reachable au s \<Longrightarrow> remove_ok s"
  by (induction rule: tfmw_reachable.induct) (auto intro: remove_ok_step remove_ok_genesis)

section \<open>Genesis\<close>

lemma IterateParaTokenInfos_collect:
  "IterateParaTokenInfos s (\<lambda>_ info acc. (False, acc @ f info)) acc =
   acc @ concat (map f (infos_under KeyParachainIBCTokenInfoByAssetID s))"
proof -
  have "iterate_until (\<lambda>(i, info) acc. (False, acc @ f info)) (enumerate n xs) acc = acc @ concat (map f xs)"
    for n xs
    by (induction xs arbitrary: n acc) simp_all
  then show ?thesis by (simp add: IterateParaTokenInfos_def)
qed

lemma infos_under_set:
  assumes "registry_ok s"
  shows "set (infos_under KeyParachainIBCTokenInfoByAssetID s) = registered s"
proof -
  have dec: "(case v of V_Info i \<Rightarrow> Some i | _ \<Rightarrow> None) = Some i \<longleftrightarrow> v = V_Info i" for v i
    by (cases v) auto
  have "i \<in> set (infos_under KeyParachainIBCTokenInfoByAssetID s) \<longleftrightarrow>
        (\<exists>a. kv_get (tfmw_store s) (GetKeyParachainIBCTokenInfoByAssetID a) = Some (V_Info i))" for i
    unfolding infos_under_def set_map_filter dec by (auto simp: Bex_def kv_prefix_iff prefix_asset_iff)
  moreover have "(\<exists>a. kv_get (tfmw_store s) (GetKeyParachainIBCTokenInfoByAssetID a) = Some (V_Info i)) \<longleftrightarrow>
        i \<in> registered s" for i
    by (metis registered_asset [OF assms] registry_asset [OF assms] tfmw_val.inject(1))
  ultimately show ?thesis by blast
qed

lemma infos_under_distinct:
  assumes ok: "registry_ok s"
  shows "distinct (map AssetId (infos_under KeyParachainIBCTokenInfoByAssetID s))"
proof -
  let ?es = "kv_prefix KeyParachainIBCTokenInfoByAssetID (tfmw_store s)"
  have es: "fst e = GetKeyParachainIBCTokenInfoByAssetID (tl (fst e)) \<and>
            (\<exists>i. snd e = V_Info i \<and> AssetId i = tl (fst e))" if "e \<in> set ?es" for e
  proof -
    from that obtain a where a: "fst e = GetKeyParachainIBCTokenInfoByAssetID a"
      "kv_get (tfmw_store s) (GetKeyParachainIBCTokenInfoByAssetID a) = Some (snd e)"
      by (auto simp: kv_prefix_mem prefix_asset_iff)
    then have "tl (fst e) = a"
      by (simp add: GetKeyParachainIBCTokenInfoByAssetID_def KeyParachainIBCTokenInfoByAssetID_def)
    with a registry_asset [OF ok a(2)] show ?thesis by metis
  qed
  have "map AssetId (infos_under KeyParachainIBCTokenInfoByAssetID s) = map (\<lambda>e. tl (fst e)) ?es"
    unfolding infos_under_def
  proof (rule map_filter_keys)
    fix e
    assume "e \<in> set ?es"
    from es [OF this] obtain i where "snd e = V_Info i" "AssetId i = tl (fst e)" by blast
    then show "\<exists>x. (case snd e of V_Info i \<Rightarrow> Some i | _ \<Rightarrow> None) = Some x \<and> AssetId x = tl (fst e)"
      by simp
  qed
  moreover have "map fst ?es = map GetKeyParachainIBCTokenInfoByAssetID (map (\<lambda>e. tl (fst e)) ?es)"
    using es by force
  ultimately show ?thesis
    using kv_prefix_distinct [of KeyParachainIBCTokenInfoByAssetID "tfmw_store s"]
    by (metis distinct_map)
qed

text \<open>Adding a list of tokens that share no key with each other or with the registry.\<close>

definition apart :: "ParachainIBCTokenInfo \<Rightarrow> ParachainIBCTokenInfo \<Rightarrow> bool" where
  "apart i j \<longleftrightarrow> AssetId i \<noteq> AssetId j \<and> IbcDenom i \<noteq> IbcDenom j \<and> NativeDenom i \<noteq> NativeDenom j"

lemma no_clash_apart: "no_clash i s \<longleftrightarrow> (\<forall>j \<in> registered s. apart j i)"
  by (auto simp: no_clash_def apart_def)

lemma info_eta:
  "i = \<lparr>IbcDenom = IbcDenom i, ChannelID = ChannelID i, NativeDenom = NativeDenom i, AssetId = AssetId i\<rparr>"
  by simp

lemma add_all_infos:
  assumes "registry_ok s" "sorted_wrt apart is" "\<forall>i \<in> set is. no_clash i s"
  shows "\<exists>t. op_each (\<lambda>i. op_must (add_info i)) is s = (Ok (), t) \<and> registry_ok t \<and>
             registered t = registered s \<union> set is"
  using assms
proof (induction "is" arbitrary: s)
  case (Cons i "is")
  have "no_clash i s" using Cons.prems(3) by simp
  with AddParachainIBCInfo_result [OF Cons.prems(1) info_eta]
  obtain t where t: "add_info i s = (Ok (), t)" by (simp add: add_info_def)
  have r: "registered t = insert i (registered s)" "registry_ok t"
    using AddParachainIBCInfo_registered [OF Cons.prems(1) t [unfolded add_info_def]]
    by (simp_all only: info_eta [symmetric])
  have "\<forall>j \<in> set is. no_clash j t"
    using Cons.prems(2,3) by (simp add: no_clash_apart r(1))
  with Cons.IH [OF r(2)] Cons.prems(2)
  obtain u where "op_each (\<lambda>i. op_must (add_info i)) is t = (Ok (), u)" "registry_ok u"
    "registered u = registered t \<union> set is" by (auto simp del: op_each.simps)
  moreover have "op_each (\<lambda>i. op_must (add_info i)) (i # is) s = op_each (\<lambda>i. op_must (add_info i)) is t"
    by (simp add: op_must_def t)
  ultimately show ?case using r(1) by (simp del: op_each.simps)
qed simp

lemma registry_infos_apart:
  assumes ok: "registry_ok s"
  shows "sorted_wrt apart (infos_under KeyParachainIBCTokenInfoByAssetID s)"
proof -
  have "sorted_wrt apart is" if "distinct (map AssetId is)" "set is \<subseteq> registered s" for "is"
    using that
  proof (induction "is")
    case (Cons i "is")
    have "apart i j" if "j \<in> set is" for j
      using that Cons.prems registered_inj [OF ok, of i j] by (auto simp: apart_def)
    with Cons show ?case by auto
  qed simp
  with infos_under_distinct [OF ok] infos_under_set [OF ok] show ?thesis by simp
qed

section \<open>A small chain\<close>

text \<open>One token, a removal delay of five nanoseconds; the states the witnesses use.\<close>

definition ex_token :: ParachainIBCTokenInfo where
  "ex_token = \<lparr>IbcDenom = ''ibc/A'', ChannelID = ''channel-0'', NativeDenom = ''ppica'', AssetId = ''1''\<rparr>"

definition ex_add :: MsgAddParachainIBCTokenInfo where
  "ex_add = NewMsgAddParachainIBCTokenInfo ''gov'' ''ibc/A'' ''ppica'' ''1'' ''channel-0''"

definition ex_start :: tfmw_state where
  "ex_start = snd (tfmw_InitGenesis \<lparr>Tg_TokenInfos = [ex_token], Tg_Params = 5\<rparr> tfmw_empty)"

definition ex_removing :: tfmw_state where
  "ex_removing = snd (RemoveParachainIBCTokenInfo ''gov'' \<lparr>BlockTime = 10, BlockHeight = 1\<rparr>
     \<lparr>Mri_Authority = ''gov'', Mri_NativeDenom = ''ppica''\<rparr> ex_start)"

definition ex_removed :: tfmw_state where
  "ex_removed = tfmw_BeginBlocker \<lparr>BlockTime = 16, BlockHeight = 2\<rparr> ex_removing"

lemma ex_start_eq:
  "tfmw_InitGenesis \<lparr>Tg_TokenInfos = [ex_token], Tg_Params = 5\<rparr> tfmw_empty = (Ok (), ex_start)"
  by (simp add: ex_start_def tfmw_InitGenesis_def op_bind_def op_must_def add_info_def AddParachainIBCInfo_def
      tfmw_empty_def Let_def)

lemma ex_start_reachable: "tfmw_reachable ''gov'' ex_start"
  by (rule reach_genesis [OF ex_start_eq])

lemma ex_start_store:
  "tfmw_store ex_start =
     kv_set (GetKeyNativeDenomAndIbcSecondaryIndex ''ibc/A'') (V_Denom ''ppica'')
      (kv_set (GetKeyParachainIBCTokenInfoByAssetID ''1'') (V_Info ex_token)
       (kv_set (GetKeyParachainIBCTokenInfoByNativeDenom ''ppica'') (V_Info ex_token) kv_empty))"
  "tfmw_params ex_start = Some 5"
  by (simp_all add: ex_start_def tfmw_InitGenesis_def op_bind_def op_must_def add_info_def
      AddParachainIBCInfo_def tfmw_empty_def Let_def ex_token_def tfmw_SetParams_def)

lemma ex_start_registered: "registered ex_start = {ex_token}"
  by (auto simp: registered_def ex_start_store ex_token_def)

lemma ex_removing_store:
  "tfmw_store ex_removing =
     kv_set (GetKeyParachainIBCTokenRemoveListByNativeDenom ''ppica'')
       (V_Remove \<lparr>Rm_NativeDenom = ''ppica'', Rm_RemoveTime = 15\<rparr>) (tfmw_store ex_start)"
  by (simp add: ex_removing_def RemoveParachainIBCTokenInfo_def AddParachainIBCInfoToRemoveList_def
      tfmw_GetParams_def ex_start_store Let_def emit_tfmw_def)

lemma ex_removing_reachable: "tfmw_reachable ''gov'' ex_removing"
  unfolding ex_removing_def
  by (rule reach_step [OF ex_start_reachable step_remove]) (rule prod.collapse [symmetric])

lemma ex_removed_reachable: "tfmw_reachable ''gov'' ex_removed"
  unfolding ex_removed_def by (rule reach_step [OF ex_removing_reachable step_begin]) (rule refl)

lemma ex_removing_registered: "registered ex_removing = {ex_token}"
  by (auto simp: registered_def ex_removing_store ex_start_store ex_token_def)

lemma ex_removing_list: "set (remove_list ex_removing) = {\<lparr>Rm_NativeDenom = ''ppica'', Rm_RemoveTime = 15\<rparr>}"
  by (auto simp: remove_list_iff ex_removing_store ex_start_store split: if_splits)

lemma ex_removing_list_eq: "remove_list ex_removing = [\<lparr>Rm_NativeDenom = ''ppica'', Rm_RemoveTime = 15\<rparr>]"
proof -
  have "distinct (remove_list ex_removing)"
    using remove_list_distinct [OF reachable_remove_ok [OF ex_removing_reachable]] by (simp add: distinct_map)
  then show ?thesis using ex_removing_list
    by (rule singleton_list)
qed

lemma ex_removed_store:
  "tfmw_store ex_removed =
     kv_delete (GetKeyNativeDenomAndIbcSecondaryIndex ''ibc/A'')
       (kv_delete (GetKeyParachainIBCTokenInfoByAssetID ''1'')
         (kv_delete (GetKeyParachainIBCTokenInfoByNativeDenom ''ppica'') (tfmw_store ex_removing)))"
  by (simp add: ex_removed_def tfmw_BeginBlocker_def IterateRemoveListInfo_def ex_removing_list_eq
      remove_callback_def RemoveParachainIBCInfo_def hasParachainIBCTokenInfo_def
      GetParachainIBCTokenInfoByNativeDenom_def ex_removing_store ex_start_store ex_token_def Let_def)

lemma ex_removed_empty: "no_clash i ex_removed"
  by (auto simp: no_clash_def registered_def ex_removed_store ex_removing_store ex_start_store ex_token_def
      split: if_splits)


lemma ex_readd:
  "AddParachainIBCTokenInfo ''gov'' ex_add ex_removed =
     (Ok (), snd (AddParachainIBCTokenInfo ''gov'' ex_add ex_removed))"
  using AddParachainIBCInfo_result [OF reachable_registry_ok [OF ex_removed_reachable] refl] ex_removed_empty
  by (simp add: AddParachainIBCTokenInfo_def ex_add_def NewMsgAddParachainIBCTokenInfo_def)

lemma ex_removed_registered: "registered ex_removed = {}"
  using ex_removed_empty by (auto simp: no_clash_def)

section \<open>Executing the removal list\<close>

definition token_of :: "MsgAddParachainIBCTokenInfo \<Rightarrow> ParachainIBCTokenInfo" where
  "token_of req = \<lparr>IbcDenom = Mai_IbcDenom req, ChannelID = Mai_ChannelID req,
                   NativeDenom = Mai_NativeDenom req, AssetId = Mai_AssetId req\<rparr>"

lemmas emit_frames =
  same_indices_registered [OF same_indices_frames(1) [THEN eqTrueE]]
  same_indices_registry_ok [OF same_indices_frames(1) [THEN eqTrueE]]

lemma begin_block_removes:
  assumes "tfmw_reachable authority s"
    and "\<forall>r \<in> set (remove_list s). Rm_RemoveTime r < BlockTime ctx \<longrightarrow>
           HasParachainIBCTokenInfoByNativeDenom s (Rm_NativeDenom r)"
  shows "registered (tfmw_BeginBlocker ctx s) =
    {i \<in> registered s. \<forall>r \<in> set (remove_list s).
       Rm_NativeDenom r = NativeDenom i \<longrightarrow> \<not> Rm_RemoveTime r < BlockTime ctx}"
proof -
  have ok: "registry_ok s" by (rule reachable_registry_ok [OF assms(1)])
  have "\<forall>r \<in> set (remove_list s). due ctx r \<longrightarrow> (\<exists>i \<in> registered s. NativeDenom i = Rm_NativeDenom r)"
    using assms(2) tfmw.has_native_iff [OF ok] by (simp add: due_def)
  from remove_loop_exact [OF ok remove_list_distinct [OF reachable_remove_ok [OF assms(1)]] this]
  show ?thesis
    unfolding tfmw_BeginBlocker_def IterateRemoveListInfo_def due_def by blast
qed



section \<open>Properties\<close>

text \<open>
  C2: In every state the module reaches from genesis by messages and begin blocks, the three indices
  of the store describe one set of tokens: each lookup returns the registered token it is asked for,
  the existence test is membership, and no two tokens share a native denomination, an asset id or an
  IBC denomination.
\<close>

theorem registry_consistent:
  assumes "tfmw_reachable authority s"
  shows "registry_ok s \<and>
    (\<forall>i \<in> registered s. GetParachainIBCTokenInfoByNativeDenom s (NativeDenom i) = i \<and>
       GetParachainIBCTokenInfoByAssetID s (AssetId i) = i \<and>
       GetNativeDenomByIBCDenomSecondaryIndex s (IbcDenom i) = NativeDenom i) \<and>
    (\<forall>n. HasParachainIBCTokenInfoByNativeDenom s n \<longleftrightarrow> (\<exists>i \<in> registered s. NativeDenom i = n)) \<and>
    inj_on NativeDenom (registered s) \<and> inj_on AssetId (registered s) \<and> inj_on IbcDenom (registered s)"
proof (intro conjI ballI allI)
  show ok: "registry_ok s" by (rule reachable_registry_ok [OF assms])
  show "GetParachainIBCTokenInfoByNativeDenom s (NativeDenom i) = i" if "i \<in> registered s" for i
    by (rule tfmw.by_native_in [OF ok that])
  show "GetParachainIBCTokenInfoByAssetID s (AssetId i) = i" if "i \<in> registered s" for i
    by (rule tfmw.by_asset_in [OF ok that])
  show "GetNativeDenomByIBCDenomSecondaryIndex s (IbcDenom i) = NativeDenom i" if "i \<in> registered s" for i
    by (rule tfmw.ibc_in [OF ok that])
  show "HasParachainIBCTokenInfoByNativeDenom s n \<longleftrightarrow> (\<exists>i \<in> registered s. NativeDenom i = n)" for n
    by (rule tfmw.has_native_iff [OF ok])
qed (rule registered_inj_on [OF reachable_registry_ok [OF assms]])+

lemma registry_consistent_witness:
  "registry_ok ex_removing \<and> registered ex_removing = {ex_token} \<and>
   GetParachainIBCTokenInfoByAssetID ex_removing ''1'' = ex_token"
  using registry_consistent [OF ex_removing_reachable]
  by (simp add: ex_removing_registered) (simp add: ex_token_def)

text \<open>
  C13: On a consistent registry the message that adds a token succeeds exactly when the signer is the
  module's authority and the token shares no key with a registered one; it then adds that token to the
  set, and otherwise it returns the error of the failed check and leaves the state as it was.
\<close>

theorem AddParachainIBCTokenInfo_spec:
  assumes "registry_ok s"
  shows "case AddParachainIBCTokenInfo authority req s of
      (Ok _, t) \<Rightarrow> Mai_Authority req = authority \<and> no_clash (token_of req) s \<and>
                   registered t = insert (token_of req) (registered s) \<and> registry_ok t
    | (Err e, t) \<Rightarrow> t = s \<and>
                   (if Mai_Authority req = authority then e = ErrMultipleMapping \<and> \<not> no_clash (token_of req) s
                    else e = ErrInvalidSigner)
    | (Panic, t) \<Rightarrow> False"
proof (cases "Mai_Authority req = authority \<and> no_clash (token_of req) s")
  case True
  then obtain u where u: "AddParachainIBCInfo (Mai_IbcDenom req) (Mai_ChannelID req) (Mai_NativeDenom req)
      (Mai_AssetId req) s = (Ok (), u)"
    using AddParachainIBCInfo_result [OF assms token_of_def] by simp
  from AddParachainIBCInfo_registered [OF assms u]
  have "registered u = insert (token_of req) (registered s)" "registry_ok u" by (simp_all only: token_of_def)
  with u True show ?thesis by (simp add: AddParachainIBCTokenInfo_def emit_frames)
next
  case False
  with AddParachainIBCInfo_result [OF assms token_of_def] show ?thesis
    by (auto simp: AddParachainIBCTokenInfo_def)
qed

lemma AddParachainIBCTokenInfo_spec_witness:
  "registered (snd (AddParachainIBCTokenInfo ''gov'' ex_add ex_removed)) = {ex_token} \<and>
   AddParachainIBCTokenInfo ''gov'' ex_add ex_start = (Err ErrMultipleMapping, ex_start)"
proof
  have e: "token_of ex_add = ex_token"
    by (simp add: token_of_def ex_add_def NewMsgAddParachainIBCTokenInfo_def ex_token_def)
  show "registered (snd (AddParachainIBCTokenInfo ''gov'' ex_add ex_removed)) = {ex_token}"
    using AddParachainIBCTokenInfo_spec [OF reachable_registry_ok [OF ex_removed_reachable], of ex_add "''gov''"]
      ex_readd e ex_removed_registered
    by (simp split: prod.splits)
  have "\<not> no_clash ex_token ex_start" by (simp add: no_clash_def ex_start_registered)
  moreover have "Mai_Authority ex_add = ''gov''" by (simp add: ex_add_def NewMsgAddParachainIBCTokenInfo_def)
  ultimately show "AddParachainIBCTokenInfo ''gov'' ex_add ex_start = (Err ErrMultipleMapping, ex_start)"
    using AddParachainIBCTokenInfo_spec [OF reachable_registry_ok [OF ex_start_reachable], of ex_add "''gov''"] e
    by (auto split: prod.splits res.splits)
qed

text \<open>
  C14: When every token due for removal is still registered, the begin blocker removes from the
  registry exactly the tokens whose removal time has passed.
\<close>

theorem BeginBlocker_removes_due:
  assumes "tfmw_reachable authority s"
    and "\<forall>r \<in> set (remove_list s). Rm_RemoveTime r < BlockTime ctx \<longrightarrow>
           HasParachainIBCTokenInfoByNativeDenom s (Rm_NativeDenom r)"
  shows "registered (tfmw_BeginBlocker ctx s) =
    {i \<in> registered s. \<forall>r \<in> set (remove_list s).
       Rm_NativeDenom r = NativeDenom i \<longrightarrow> \<not> Rm_RemoveTime r < BlockTime ctx}"
  by (rule begin_block_removes [OF assms])

lemma BeginBlocker_removes_due_witness:
  "registered (tfmw_BeginBlocker \<lparr>BlockTime = 15, BlockHeight = 2\<rparr> ex_removing) = {ex_token} \<and>
   registered (tfmw_BeginBlocker \<lparr>BlockTime = 16, BlockHeight = 2\<rparr> ex_removing) = {}"
proof -
  have h: "HasParachainIBCTokenInfoByNativeDenom ex_removing ''ppica''"
    by (simp add: HasParachainIBCTokenInfoByNativeDenom_def ex_removing_store ex_start_store)
  show ?thesis
    using BeginBlocker_removes_due [OF ex_removing_reachable] h
    by (simp add: ex_removing_registered ex_removing_list) (auto simp: ex_token_def)
qed



text \<open>
  The relayer allow list is empty in every state reached from genesis: an empty list counts as
  containing every address, so the only message that could add a relayer always refuses.
\<close>

lemma relayer_list_never_starts:
  assumes "tfmw_reachable authority s"
  shows "HasAllowRlyAddress s a \<and> allowed_rly s = [] \<and> (\<exists>e. AddRlyAddress authority req s = (Err e, s))"
  using no_rly_has [OF reachable_no_rly [OF assms]] no_rly_iff [of s] reachable_no_rly [OF assms]
  by (auto simp: AddRlyAddress_def allowed_rly_def)

lemma relayer_list_never_starts_witness:
  "AddRlyAddress ''gov'' (NewMsgAddRlyAddress ''gov'' ''relayer'') ex_start =
     (Err (ErrPlain ''address already registry in allow list''), ex_start)"
  using relayer_list_never_starts [OF ex_start_reachable, of "''relayer''" "NewMsgAddRlyAddress ''gov'' ''relayer''"]
  by (auto simp: AddRlyAddress_def NewMsgAddRlyAddress_def)

text \<open>
  C36: Exporting the genesis of a reachable state and initialising an empty store with it succeeds and
  restores the registered tokens, every lookup of them and the parameters.
\<close>

theorem genesis_round_trip:
  assumes "tfmw_reachable authority s" and "tfmw_ExportGenesis s = Ok g"
  shows "\<exists>t. tfmw_InitGenesis g tfmw_empty = (Ok (), t) \<and> registry_ok t \<and>
             registered t = registered s \<and> tfmw_params t = tfmw_params s"
proof -
  have ok: "registry_ok s" by (rule reachable_registry_ok [OF assms(1)])
  from assms(2) have g: "Tg_TokenInfos g = infos_under KeyParachainIBCTokenInfoByAssetID s"
    "tfmw_params s = Some (Tg_Params g)"
    by (auto simp: tfmw_ExportGenesis_def IterateParaTokenInfos_collect tfmw_GetParams_def Let_def
        split: option.splits)
  from add_all_infos [OF registry_ok_empty(1) registry_infos_apart [OF ok]]
  obtain t where t: "op_each (\<lambda>i. op_must (add_info i)) (Tg_TokenInfos g) tfmw_empty = (Ok (), t)"
    "registry_ok t" "registered t = registered s"
    by (auto simp: g(1) no_clash_apart infos_under_set [OF ok])
  let ?u = "tfmw_SetParams (Tg_Params g) t"
  have "tfmw_InitGenesis g tfmw_empty = (Ok (), ?u)"
    by (simp add: tfmw_InitGenesis_def op_bind_def t(1))
  moreover have "same_indices t ?u" by simp
  moreover have "tfmw_params ?u = tfmw_params s" by (simp add: tfmw_SetParams_def g(2))
  ultimately show ?thesis
    using t by (metis same_indices_registered same_indices_registry_ok)
qed

lemma genesis_round_trip_witness:
  "\<exists>t. tfmw_InitGenesis \<lparr>Tg_TokenInfos = [ex_token], Tg_Params = 5\<rparr> tfmw_empty = (Ok (), t) \<and>
       registered t = {ex_token}"
proof -
  have "infos_under KeyParachainIBCTokenInfoByAssetID ex_start = [ex_token]"
    using infos_under_set [OF reachable_registry_ok [OF ex_start_reachable]]
      infos_under_distinct [OF reachable_registry_ok [OF ex_start_reachable]] ex_start_registered
    by (metis singleton_list distinct_map)
  then have "tfmw_ExportGenesis ex_start = Ok \<lparr>Tg_TokenInfos = [ex_token], Tg_Params = 5\<rparr>"
    by (simp add: tfmw_ExportGenesis_def IterateParaTokenInfos_collect tfmw_GetParams_def ex_start_store)
  from genesis_round_trip [OF ex_start_reachable this] show ?thesis
    by (auto simp: ex_start_registered)
qed

end
