(* ===== verification/Mint_Props.thy ===== *)
theory Mint_Props
  imports Mint
begin

text \<open>
  Correctness of \<open>x/mint\<close>: the payout of a block against the yearly bounds, the pool it comes from, and
  where the module departs from what it promises.
\<close>

section \<open>Decimal arithmetic\<close>

lemma dec_unit_pos [simp]: "0 < dec_unit" "dec_unit \<noteq> 0" "0 \<le> dec_unit"
  by (simp_all add: dec_unit_def)

lemma dec_lawsD:
  assumes "dec_laws A"
  shows "NewDecFromInt A i = Ok r \<Longrightarrow> r = i * dec_unit"
    and "dec_Quo A a b = Ok r \<Longrightarrow> b \<noteq> 0 \<and> \<bar>r * b - a * dec_unit\<bar> \<le> \<bar>b\<bar>"
    and "dec_Quo A a c = Ok r \<Longrightarrow> dec_Quo A b c = Ok q \<Longrightarrow> 0 < c \<Longrightarrow> a \<le> b \<Longrightarrow> r \<le> q"
    and "dec_MulInt A a i = Ok r \<Longrightarrow> r = a * i"
    and "dec_QuoInt A a i = Ok r \<Longrightarrow> i \<noteq> 0 \<and> r = a sdiv i"
    and "TruncateInt A a = Ok q \<Longrightarrow> q = a sdiv dec_unit"
  using assms unfolding dec_laws_def by blast+

lemma clamp_between: "mn \<le> mx \<Longrightarrow> mn \<le> clamp_inflation mx mn i \<and> clamp_inflation mx mn i \<le> mx"
  by (auto simp: clamp_inflation_def)

text \<open>A token amount per year divided by the supply and multiplied back is off by at most the supply.\<close>

lemma rate_times_supply:
  assumes "dec_laws A" "dec_Quo A (t * dec_unit) (S * dec_unit) = Ok q" "0 < S"
  shows "t * dec_unit - S \<le> q * S \<and> q * S \<le> t * dec_unit + S"
proof -
  have "\<bar>q * (S * dec_unit) - t * dec_unit * dec_unit\<bar> \<le> \<bar>S * dec_unit\<bar>"
    using dec_lawsD(2) [OF assms(1,2)] by simp
  moreover have "q * (S * dec_unit) - t * dec_unit * dec_unit = (q * S - t * dec_unit) * dec_unit"
    by (simp add: algebra_simps)
  moreover have "\<bar>S * dec_unit\<bar> = S * dec_unit" using assms(3) by simp
  ultimately have "\<bar>q * S - t * dec_unit\<bar> * dec_unit \<le> S * dec_unit" by (simp add: abs_mult)
  then have "\<bar>q * S - t * dec_unit\<bar> \<le> S" by (simp only: mult_le_cancel_right_pos dec_unit_pos)
  then show ?thesis by (simp add: abs_le_iff)
qed

lemma Params_Validate_bounds:
  "mint_Params_Validate L p = Ok () \<Longrightarrow> MinTokenPerYear p \<le> MaxTokenPerYear p \<and> 0 < GoalBonded p \<and> BlocksPerYear p \<noteq> 0"
  by (auto simp: mint_Params_Validate_def validateGoalBonded_def validateBlocksPerYear_def split: if_splits)

lemma annual_provisions_bounds:
  assumes laws: "dec_laws A" and valid: "mint_Params_Validate L p = Ok ()" and S: "0 < S"
    and r: "NextInflationRate A m p ratio S = Ok r"
    and ap: "NextAnnualProvisions A (m\<lparr>Inflation := r\<rparr>) p S = Ok ap"
  shows "MinTokenPerYear p * dec_unit - S \<le> ap \<and> ap \<le> MaxTokenPerYear p * dec_unit + S"
proof -
  note d = dec_lawsD [OF laws]
  obtain s mx mn i qx qn where q: "NewDecFromInt A S = Ok s" "NewDecFromInt A (MaxTokenPerYear p) = Ok mx"
      "NewDecFromInt A (MinTokenPerYear p) = Ok mn" "dec_Quo A mx s = Ok qx" "dec_Quo A mn s = Ok qn"
      "s < 1 \<or> r = clamp_inflation qx qn i"
  proof -
    from r obtain s where s: "NewDecFromInt A S = Ok s" by (auto simp: NextInflationRate_def)
    have "\<not> s < 1" using d(1) [OF s] S by (simp add: mult_pos_pos not_less int_one_le_iff_zero_less)
    with r s that show thesis by (auto simp: NextInflationRate_def)
  qed
  have s: "s = S * dec_unit" "mx = MaxTokenPerYear p * dec_unit" "mn = MinTokenPerYear p * dec_unit"
    using d(1) q(1-3) by blast+
  have "\<not> s < 1" using s(1) S by (simp add: mult_pos_pos not_less int_one_le_iff_zero_less)
  then have rc: "r = clamp_inflation qx qn i" using q(6) by simp
  have "qn \<le> qx"
    using d(3) [OF q(5,4)] Params_Validate_bounds [OF valid] S by (simp add: s mult_right_mono)
  then have "qn \<le> r" "r \<le> qx" using clamp_between rc by simp_all
  then have "qn * S \<le> r * S" "r * S \<le> qx * S" using S by (simp_all add: mult_right_mono)
  moreover have "ap = r * S" using ap d(4) by (simp add: NextAnnualProvisions_def)
  ultimately show ?thesis
    using rate_times_supply [OF laws q(4) [unfolded s] S] rate_times_supply [OF laws q(5) [unfolded s] S] by linarith
qed

lemma sdiv_nonpos: "a \<le> 0 \<Longrightarrow> 0 < b \<Longrightarrow> a sdiv b \<le> (0 :: int)"
  by (cases "a = 0") (simp_all add: signed_divide_int_def pos_imp_zdiv_nonneg_iff)

lemma div_bounds:
  assumes "0 < n"
  shows "(a div n) * n \<le> a \<and> a < (a div n + 1) * (n :: int)"
  unfolding distrib_right
  using div_mult_mod_eq [of a n] pos_mod_sign [OF assms, of a] pos_mod_bound [OF assms, of a] by linarith

lemma block_amount_bounds:
  assumes laws: "dec_laws A" "coin_laws L" and c: "BlockProvision L A m p = Ok c" and B: "0 < sint (BlocksPerYear p)"
  shows "Coin_Denom c = MintDenom p \<and> 0 \<le> Coin_Amount c \<and>
    Coin_Amount c * sint (BlocksPerYear p) * dec_unit \<le> max 0 (AnnualProvisions m) \<and>
    AnnualProvisions m < (Coin_Amount c + 1) * sint (BlocksPerYear p) * dec_unit"
proof -
  let ?B = "sint (BlocksPerYear p)" and ?ap = "AnnualProvisions m" and ?a = "Coin_Amount c"
  from c obtain x y where q: "dec_QuoInt A ?ap ?B = Ok x" "TruncateInt A x = Ok y" "NewCoin L (MintDenom p) y = Ok c"
    by (auto simp: BlockProvision_def int64_of_def)
  have a: "?a = (?ap sdiv ?B) sdiv dec_unit" "0 \<le> ?a" "Coin_Denom c = MintDenom p"
    using coin_laws_NewCoin [OF laws(2) q(3)] dec_lawsD(5) [OF laws(1) q(1)] dec_lawsD(6) [OF laws(1) q(2)] by auto
  show ?thesis
  proof (cases "0 \<le> ?ap")
    case True
    have "?a = ?ap div (?B * dec_unit)"
      using True B by (simp add: a(1) sdiv_pos_div pos_imp_zdiv_nonneg_iff zdiv_zmult2_eq)
    moreover have "0 < ?B * dec_unit" using B by simp
    ultimately have "?a * (?B * dec_unit) \<le> ?ap" "?ap < (?a + 1) * (?B * dec_unit)"
      using div_bounds [of "?B * dec_unit" ?ap] by auto
    with a True show ?thesis by (simp add: mult.assoc)
  next
    case False
    then have "?a \<le> 0" using B by (simp add: a(1) sdiv_nonpos)
    then have "?a = 0" using a(2) by simp
    moreover have "0 < ?B * dec_unit" using B by simp
    ultimately show ?thesis using a False by simp
  qed
qed

section \<open>The payout of a block\<close>

text \<open>A bank transfer that fails leaves the balances as they were.\<close>

definition transfers_atomic :: "'b bank \<Rightarrow> bool" where
  "transfers_atomic B \<longleftrightarrow>
     (\<forall>m n cs b e b'. SendCoinsFromModuleToModule B m n cs b = (Err e, b') \<longrightarrow> b' = b)"

definition keeper_laws :: "'b mint_Keeper \<Rightarrow> (string \<Rightarrow> bytes) \<Rightarrow> bool" where
  "keeper_laws k mac \<longleftrightarrow> bank_laws (mk_bankKeeper k) mac \<and> transfers_atomic (mk_bankKeeper k)"

lemma settle_eq:
  "(case on_mint_ext f w of (Panic, w') \<Rightarrow> (Panic, w') | (_, w') \<Rightarrow> (Ok (), w')) = (Ok (), t) \<longleftrightarrow>
   (\<exists>u. f (mw_ext w) = (u, mw_ext t) \<and> u \<noteq> Panic) \<and> mw_store t = mw_store w"
proof -
  obtain u b where f: "f (mw_ext w) = (u, b)" by (cases "f (mw_ext w)")
  have t: "w\<lparr>mw_ext := b\<rparr> = t \<longleftrightarrow> b = mw_ext t \<and> mw_store t = mw_store w"
    by (cases w; cases t) auto
  show ?thesis using f t by (cases u) (auto simp: on_mint_ext_def op_on_def)
qed

lemma BeginBlocker_steps:
  assumes "mint_BeginBlocker L A k ic w = (Ok (), w')"
  obtains m S ratio r ap c cs u where
    "GetMinter (mw_store w) = Ok m" "mk_StakingTokenSupply k (mw_ext w) = Ok S"
    "ic m (mint_GetParams (mw_store w)) ratio S = Ok r"
    "NextAnnualProvisions A (m\<lparr>Inflation := r\<rparr>) (mint_GetParams (mw_store w)) S = Ok ap"
    "BlockProvision L A (m\<lparr>Inflation := r, AnnualProvisions := ap\<rparr>) (mint_GetParams (mw_store w)) = Ok c"
    "NewCoins L [c] = Ok cs"
    "mw_store w' = SetMinter (m\<lparr>Inflation := r, AnnualProvisions := ap\<rparr>) (mw_store w)"
    "AddCollectedFees k cs (mw_ext w) = (u, mw_ext w')" "u \<noteq> Panic"
proof -
  from assms obtain m S ratio r ap cs u where h:
    "Ok m = GetMinter (mw_store w)" "Ok S = mk_StakingTokenSupply k (mw_ext w)"
    "Ok r = ic m (mint_GetParams (mw_store w)) ratio S"
    "Ok ap = NextAnnualProvisions A (m\<lparr>Inflation := r\<rparr>) (mint_GetParams (mw_store w)) S"
    "Ok cs = res_bind (BlockProvision L A (m\<lparr>Inflation := r, AnnualProvisions := ap\<rparr>) (mint_GetParams (mw_store w)))
       (\<lambda>c. NewCoins L [c])"
    "mw_store w' = SetMinter (m\<lparr>Inflation := r, AnnualProvisions := ap\<rparr>) (mw_store w)"
    "AddCollectedFees k cs (mw_ext w) = (u, mw_ext w')" "u \<noteq> Panic"
    by (clarsimp simp: mint_BeginBlocker_def op_bind_eq_Ok Let_def settle_eq)
  from h(5) [symmetric] obtain c where
    "BlockProvision L A (m\<lparr>Inflation := r, AnnualProvisions := ap\<rparr>) (mint_GetParams (mw_store w)) = Ok c"
    "NewCoins L [c] = Ok cs" by auto
  from that [OF h(1) [symmetric] h(2) [symmetric] h(3) [symmetric] h(4) [symmetric] this h(6-8)] show thesis .
qed

lemma AddCollectedFees_effect:
  assumes "keeper_laws k mac" "AddCollectedFees k cs b = (u, b')" "u \<noteq> Panic"
  shows "moved (mk_bankKeeper k) (mac mint_ModuleName) (mac (mk_feeCollectorName k)) cs b b' \<or> b' = b"
  using assms bank_laws_dests(4) [of "mk_bankKeeper k" mac]
  by (cases u) (auto simp: AddCollectedFees_def keeper_laws_def transfers_atomic_def)

text \<open>
  C18: With valid parameters and a positive supply, a begin block that ends normally either pays nothing
  or moves one amount of the mint denomination from the mint pool to the fee collector, with the supply
  unchanged; the amount, over all the blocks of a year, stays within the yearly minimum and maximum up
  to the rounding of decimals (the supply in units of \<open>10 ^ -18\<close>) and of the amount to whole tokens.
\<close>

theorem block_payout_bounded:
  assumes laws: "dec_laws A" "coin_laws L" "keeper_laws k mac"
    and valid: "mint_Params_Validate L p = Ok ()" "0 \<le> MinTokenPerYear p" "0 < sint (BlocksPerYear p)"
    and w: "mint_GetParams (mw_store w) = p" "mk_StakingTokenSupply k (mw_ext w) = Ok S" "0 < S"
    and run: "mint_BeginBlocker L A k (DefaultInflationCalculationFn A) w = (Ok (), w')"
  shows "\<exists>amt cs. (\<forall>d. AmountOf cs d = (if d = MintDenom p then amt else 0)) \<and>
     (moved (mk_bankKeeper k) (mac mint_ModuleName) (mac (mk_feeCollectorName k)) cs (mw_ext w) (mw_ext w')
        \<or> mw_ext w' = mw_ext w) \<and>
     0 \<le> amt \<and>
     amt * sint (BlocksPerYear p) * dec_unit \<le> MaxTokenPerYear p * dec_unit + S \<and>
     MinTokenPerYear p * dec_unit - S < (amt + 1) * sint (BlocksPerYear p) * dec_unit"
proof -
  from run obtain m ratio r ap c cs u where b:
    "DefaultInflationCalculationFn A m p ratio S = Ok r"
    "NextAnnualProvisions A (m\<lparr>Inflation := r\<rparr>) p S = Ok ap"
    "BlockProvision L A (m\<lparr>Inflation := r, AnnualProvisions := ap\<rparr>) p = Ok c" "NewCoins L [c] = Ok cs"
    "AddCollectedFees k cs (mw_ext w) = (u, mw_ext w')" "u \<noteq> Panic"
    by (rule BeginBlocker_steps) (use w in auto)
  have yearly: "MinTokenPerYear p * dec_unit - S \<le> ap" "ap \<le> MaxTokenPerYear p * dec_unit + S"
    using annual_provisions_bounds [OF laws(1) valid(1) w(3) b(1) [unfolded DefaultInflationCalculationFn_def] b(2)] by auto
  have blk: "Coin_Denom c = MintDenom p" "0 \<le> Coin_Amount c"
    "Coin_Amount c * sint (BlocksPerYear p) * dec_unit \<le> max 0 ap"
    "ap < (Coin_Amount c + 1) * sint (BlocksPerYear p) * dec_unit"
    using block_amount_bounds [OF laws(1,2) b(3) valid(3)] by auto
  have "0 \<le> MaxTokenPerYear p * dec_unit + S"
    using Params_Validate_bounds [OF valid(1)] valid(2) w(3) by (simp add: add_nonneg_nonneg)
  moreover obtain y where y: "NewCoin L (MintDenom p) y = Ok c" using b(3) by (auto simp: BlockProvision_def)
  have "AmountOf cs d = (if d = MintDenom p then Coin_Amount c else 0)" for d
    using coin_laws_NewCoins_amount [OF laws(2) y b(4)] coin_laws_NewCoin [OF laws(2) y] by simp
  ultimately show ?thesis
    using AddCollectedFees_effect [OF laws(3) b(5,6)] yearly blk
    by (intro exI [of _ "Coin_Amount c"] exI [of _ cs]) auto
qed

section \<open>A small chain\<close>

definition ref_dec :: dec_ops where
  "ref_dec =
     \<lparr>NewDecFromInt = (\<lambda>i. Ok (i * dec_unit)),
      dec_Add = (\<lambda>a b. Ok (a + b)),
      dec_Sub = (\<lambda>a b. Ok (a - b)),
      dec_Mul = (\<lambda>a b. Ok ((a * b) div dec_unit)),
      dec_Quo = (\<lambda>a b. if b = 0 then Panic else Ok ((a * dec_unit) div b)),
      dec_MulInt = (\<lambda>a i. Ok (a * i)),
      dec_QuoInt = (\<lambda>a i. if i = 0 then Panic else Ok (a sdiv i)),
      TruncateInt = (\<lambda>a. Ok (a sdiv dec_unit))\<rparr>"

lemma div_within: "b \<noteq> 0 \<Longrightarrow> \<bar>(a div b) * b - a\<bar> \<le> \<bar>b :: int\<bar>"
  using div_mult_mod_eq [of a b] abs_mod_less [of b a] by linarith

lemma dec_laws_ref: "dec_laws ref_dec"
  using div_within by (auto simp: dec_laws_def ref_dec_def zdiv_mono1 mult_right_mono split: if_splits)

definition ex_mint_params :: mint_Params where
  "ex_mint_params =
     \<lparr>MintDenom = ''ppica'', InflationRateChange = hundredths 13, GoalBonded = hundredths 67,
      BlocksPerYear = 10, MaxTokenPerYear = 1000, MinTokenPerYear = 800\<rparr>"

definition ex_mint_keeper :: "ledger mint_Keeper" where
  "ex_mint_keeper =
     \<lparr>mk_accountKeeper = None, mk_StakingTokenSupply = (\<lambda>_. Ok 10000), mk_BondedRatio = (\<lambda>_. Ok (hundredths 67)),
      mk_bankKeeper = ref_bank, mk_feeCollectorName = ''fees'', mk_authority = ''gov''\<rparr>"

definition ex_mint_world :: "ledger mint_world" where
  "ex_mint_world =
     \<lparr>mw_store = kv_set mint_ParamsKey (V_MintParams ex_mint_params)
                   (SetMinter \<lparr>Inflation = hundredths 9, AnnualProvisions = 0\<rparr> kv_empty),
      mw_ext = \<lparr>lg_balance = (\<lambda>a d. if a = mod_addr ''mint'' \<and> d = ''ppica'' then 5000 else 0),
                lg_supply = (\<lambda>d. if d = ''ppica'' then 10000 else 0)\<rparr>\<rparr>"

lemma transfers_atomic_ref: "transfers_atomic ref_bank"
  by (auto simp: transfers_atomic_def ref_bank_def lg_send_def split: if_splits)

lemma keeper_laws_ref: "keeper_laws ex_mint_keeper mod_addr"
  using bank_laws_ref transfers_atomic_ref by (simp add: keeper_laws_def ex_mint_keeper_def)

lemma ex_mint_valid: "mint_Params_Validate ref_lib ex_mint_params = Ok ()"
  by (simp add: mint_Params_Validate_def ex_mint_params_def validateMintDenom_def blank_def ascii_space_def
      validateInflationRateChange_def validateGoalBonded_def validateBlocksPerYear_def hundredths_def dec_unit_def)

lemma ex_mint_store:
  "GetMinter (mw_store ex_mint_world) = Ok \<lparr>Inflation = hundredths 9, AnnualProvisions = 0\<rparr>"
  "mint_GetParams (mw_store ex_mint_world) = ex_mint_params"
  by (simp_all add: GetMinter_def mint_GetParams_def ex_mint_world_def SetMinter_def MinterKey_def mint_ParamsKey_def)

lemma ex_mint_inflation:
  "DefaultInflationCalculationFn ref_dec \<lparr>Inflation = hundredths 9, AnnualProvisions = 0\<rparr> ex_mint_params (hundredths 67) 10000
     = Ok (hundredths 9)"
  by (simp add: DefaultInflationCalculationFn_def NextInflationRate_def ref_dec_def ex_mint_params_def hundredths_def
      dec_unit_def int64_of_def clamp_inflation_def)

definition ex_mint_after :: "ledger mint_world" where
  "ex_mint_after = snd (mint_BeginBlocker ref_lib ref_dec ex_mint_keeper (DefaultInflationCalculationFn ref_dec) ex_mint_world)"

lemma ex_mint_runs:
  "mint_BeginBlocker ref_lib ref_dec ex_mint_keeper (DefaultInflationCalculationFn ref_dec) ex_mint_world = (Ok (), ex_mint_after)"
proof -
  have "fst (mint_BeginBlocker ref_lib ref_dec ex_mint_keeper (DefaultInflationCalculationFn ref_dec) ex_mint_world) = Ok ()"
    by (simp add: mint_BeginBlocker_def ex_mint_store ex_mint_keeper_def ex_mint_inflation NextAnnualProvisions_def
        BlockProvision_def)
      (simp add: ref_dec_def ref_coin_def ref_coins_def op_bind_def op_lift_def ex_mint_params_def hundredths_def dec_unit_def
        int64_of_def signed_divide_int_def on_mint_ext_def op_on_def AddCollectedFees_def ref_bank_def lg_send_def split: prod.splits if_splits)
  then show ?thesis by (simp add: ex_mint_after_def prod_eq_iff)
qed

theorem block_payout_bounded_witness:
  "\<exists>amt. 0 \<le> amt \<and> amt * 10 * dec_unit \<le> 1000 * dec_unit + 10000 \<and> 800 * dec_unit - 10000 < (amt + 1) * 10 * dec_unit"
proof -
  have "mk_StakingTokenSupply ex_mint_keeper (mw_ext ex_mint_world) = Ok 10000" by (simp add: ex_mint_keeper_def)
  from block_payout_bounded [OF dec_laws_ref coin_laws_ref keeper_laws_ref ex_mint_valid _ _ ex_mint_store(2) this _ ex_mint_runs]
  show ?thesis by (auto simp: ex_mint_params_def)
qed

section \<open>The chain over many blocks\<close>

text \<open>
  Blocks and messages after genesis. A message that fails leaves no trace; a block that panics has no
  successor. The keeper is one that \<open>NewKeeper\<close> built.
\<close>

inductive mint_step ::
    "lib \<Rightarrow> dec_ops \<Rightarrow> 'b mint_Keeper \<Rightarrow> 'b mint_world \<Rightarrow> 'b mint_world \<Rightarrow> bool" for L A k where
  block: "mint_BeginBlocker L A k (DefaultInflationCalculationFn A) w = (Ok (), w') \<Longrightarrow> mint_step L A k w w'"
| params: "UpdateParams L k req w = (Ok (), w') \<Longrightarrow> mint_step L A k w w'"
| fund: "FundModuleAccount L k req w = (Ok (), w') \<Longrightarrow> mint_step L A k w w'"
| allow: "AddAccountToFundModuleSet k req w = (Ok (), w') \<Longrightarrow> mint_step L A k w w'"

inductive_cases mint_stepE: "mint_step L A k w w'"

definition mint_store_ok :: "lib \<Rightarrow> mint_state \<Rightarrow> bool" where
  "mint_store_ok L s \<longleftrightarrow>
     (\<exists>m. kv_get s MinterKey = Some (V_Minter m)) \<and>
     (\<exists>p. kv_get s mint_ParamsKey = Some (V_MintParams p) \<and> mint_Params_Validate L p = Ok ())"

lemma mint_keys [simp]:
  "MinterKey \<noteq> mint_ParamsKey" "mint_ParamsKey \<noteq> MinterKey"
  "GetAllowedAddressStoreKey a \<noteq> MinterKey" "GetAllowedAddressStoreKey a \<noteq> mint_ParamsKey"
  "MinterKey \<noteq> GetAllowedAddressStoreKey a" "mint_ParamsKey \<noteq> GetAllowedAddressStoreKey a"
  by (auto simp: MinterKey_def mint_ParamsKey_def GetAllowedAddressStoreKey_def AllowedAddressKey_def)

lemma mint_store_ok_set:
  assumes "mint_store_ok L s"
  shows "mint_store_ok L (SetMinter m s)" "mint_store_ok L (SetAllowedAddress a s)"
    "mint_Params_Validate L p = Ok () \<Longrightarrow> mint_store_ok L (kv_set mint_ParamsKey (V_MintParams p) s)"
  using assms by (auto simp: mint_store_ok_def SetMinter_def SetAllowedAddress_def)

lemma mint_SetParams_Ok:
  "mint_SetParams L p s = (Ok (), s') \<longleftrightarrow>
     mint_Params_Validate L p = Ok () \<and> s' = kv_set mint_ParamsKey (V_MintParams p) s"
  by (auto simp: mint_SetParams_def split: res.splits)

lemma NewKeeper_no_account: "mint_NewKeeper tokens ratio addr bk fc auth = Ok k \<Longrightarrow> mk_accountKeeper k = None"
  by (auto simp: mint_NewKeeper_def split: option.splits)

lemma FundModuleAccount_fails:
  assumes "mk_accountKeeper k = None"
  shows "fst (FundModuleAccount L k req w) \<noteq> Ok () \<and> snd (FundModuleAccount L k req w) = w"
  using assms
  by (cases "AccAddressFromBech32 L (Mfm_FromAddress req)")
    (auto simp: FundModuleAccount_def GetModuleAccountAccAddress_def Let_def split: list.split)

text \<open>
  C40: Nobody can fund the mint pool: with a keeper from \<open>NewKeeper\<close>, which never stores the account
  keeper, the fund message never succeeds and changes nothing, whatever the sender and the amount. For a sender with a
  valid address that is allowed to fund, it panics exactly for an empty amount and for one coin of the mint
  denomination, which is what the handler means to accept; every other amount is refused as invalid. A sender that is
  not allowed is refused.
\<close>

theorem fund_never_succeeds:
  assumes "mint_NewKeeper tokens ratio GetModuleAddress bk feeCollectorName authority = Ok k"
  shows "fst (FundModuleAccount L k req w) \<noteq> Ok () \<and> snd (FundModuleAccount L k req w) = w \<and>
    (\<forall>a. AccAddressFromBech32 L (Mfm_FromAddress req) = Ok a \<longrightarrow>
       fst (FundModuleAccount L k req w) =
         (if \<not> IsAllowedAddress (mw_store w) (Mfm_FromAddress req) then Err ErrInvalidAddress
          else if Mfm_Amount req = [] \<or>
            (\<exists>c. Mfm_Amount req = [c] \<and> Coin_Denom c = MintDenom (mint_GetParams (mw_store w))) then Panic
          else Err ErrInvalidCoin))"
  using FundModuleAccount_fails [OF NewKeeper_no_account [OF assms], of L req w] NewKeeper_no_account [OF assms]
  by (auto simp: FundModuleAccount_def GetModuleAccountAccAddress_def Let_def split: list.split)

theorem fund_never_succeeds_witness:
  "\<exists>k. mint_NewKeeper (\<lambda>_. Ok 10000) (\<lambda>_. Ok (hundredths 67)) (\<lambda>m. Some (mod_addr m)) ref_bank ''fees'' ''gov'' = Ok k \<and>
     fst (FundModuleAccount ref_lib k \<lparr>Mfm_FromAddress = ''alice'', Mfm_Amount = []\<rparr>
       (ex_mint_world\<lparr>mw_store := SetAllowedAddress ''alice'' (mw_store ex_mint_world)\<rparr>)) = Panic"
proof -
  obtain k where "mint_NewKeeper (\<lambda>_. Ok 10000) (\<lambda>_. Ok (hundredths 67)) (\<lambda>m. Some (mod_addr m)) ref_bank ''fees'' ''gov'' = Ok k"
    by (simp add: mint_NewKeeper_def)
  moreover have "IsAllowedAddress (SetAllowedAddress a s) a" for a s
    by (simp add: IsAllowedAddress_def SetAllowedAddress_def)
  ultimately show ?thesis
    using fund_never_succeeds [of _ _ _ ref_bank _ _ k ref_lib "\<lparr>Mfm_FromAddress = ''alice'', Mfm_Amount = []\<rparr>"
        "ex_mint_world\<lparr>mw_store := SetAllowedAddress ''alice'' (mw_store ex_mint_world)\<rparr>"] by fastforce
qed

lemma mint_step_store:
  assumes "mint_step L A k w w'" "mint_store_ok L (mw_store w)"
  shows "mint_store_ok L (mw_store w')"
  using assms(1)
proof cases
  case block
  then show ?thesis
    by (rule BeginBlocker_steps) (simp add: mint_store_ok_set(1) [OF assms(2)])
next
  case (params req)
  then show ?thesis
    using mint_store_ok_set(3) [OF assms(2)]
    by (auto simp: UpdateParams_def on_mint_def op_on_Ok mint_SetParams_Ok split: if_splits)
next
  case (fund req)
  then show ?thesis
    using assms(2)
    by (auto simp: FundModuleAccount_def op_bind_eq_Ok on_mint_ext_def op_on_Ok Let_def split: if_splits list.splits)
next
  case (allow req)
  then show ?thesis
    using mint_store_ok_set(2) [OF assms(2)] by (auto simp: AddAccountToFundModuleSet_def split: if_splits)
qed

text \<open>What a step may do to the bank: nothing, or move coins from the mint pool to the fee collector.\<close>

lemma mint_step_bank:
  assumes "mint_step L A k w w'" "keeper_laws k mac" "mk_accountKeeper k = None"
  shows "(\<exists>cs. moved (mk_bankKeeper k) (mac mint_ModuleName) (mac (mk_feeCollectorName k)) cs (mw_ext w) (mw_ext w') \<and>
              (\<exists>d a c. NewCoin L d a = Ok c \<and> NewCoins L [c] = Ok cs)) \<or> mw_ext w' = mw_ext w"
  using assms(1)
proof cases
  case block
  then show ?thesis
  proof (rule BeginBlocker_steps)
    fix m :: Minter and r ap c cs u
    assume h: "BlockProvision L A (m\<lparr>Inflation := r, AnnualProvisions := ap\<rparr>) (mint_GetParams (mw_store w)) = Ok c"
      "NewCoins L [c] = Ok cs" "AddCollectedFees k cs (mw_ext w) = (u, mw_ext w')" "u \<noteq> Panic"
    then obtain a where "NewCoin L (MintDenom (mint_GetParams (mw_store w))) a = Ok c"
      by (auto simp: BlockProvision_def)
    with AddCollectedFees_effect [OF assms(2) h(3,4)] h(2) show ?thesis by blast
  qed
next
  case (params req)
  then show ?thesis by (auto simp: UpdateParams_def on_mint_def op_on_Ok split: if_splits)
next
  case (fund req)
  then show ?thesis using FundModuleAccount_fails [OF assms(3), of L req w] by simp
next
  case (allow req)
  then show ?thesis by (auto simp: AddAccountToFundModuleSet_def split: if_splits)
qed

lemma moved_drains:
  assumes "moved B f t cs b b'" "coin_laws L" "NewCoin L d a = Ok c" "NewCoins L [c] = Ok cs"
  shows "GetSupply B b' = GetSupply B b \<and> (f \<noteq> t \<longrightarrow> GetBalance B b' f e \<le> GetBalance B b f e)"
proof -
  have "0 \<le> AmountOf cs e"
    using coin_laws_NewCoins_amount [OF assms(2-4)] coin_laws_NewCoin [OF assms(2,3)] by simp
  with assms(1) show ?thesis by (simp add: moved_def fun_eq_iff)
qed

text \<open>
  C26: After genesis the module mints nothing: along any sequence of blocks and messages the supply of
  every denomination is that of the start, the mint pool only shrinks, and the stored parameters stay
  valid, provided the fee collector is another account.
\<close>

theorem mint_never_mints:
  assumes run: "(mint_step L A k)\<^sup>*\<^sup>* w w'"
    and k: "mint_NewKeeper tokens ratio GetModuleAddress bk feeCollectorName authority = Ok k"
    and laws: "coin_laws L" "keeper_laws k mac" "mac mint_ModuleName \<noteq> mac (mk_feeCollectorName k)"
    and ok: "mint_store_ok L (mw_store w)"
  shows "GetSupply bk (mw_ext w') = GetSupply bk (mw_ext w) \<and>
     GetBalance bk (mw_ext w') (mac mint_ModuleName) d \<le> GetBalance bk (mw_ext w) (mac mint_ModuleName) d \<and>
     mint_store_ok L (mw_store w')"
  using run
proof (induction rule: rtranclp_induct)
  case base
  then show ?case using ok by simp
next
  case (step x y)
  have bk: "mk_bankKeeper k = bk" and none: "mk_accountKeeper k = None"
    using k by (auto simp: mint_NewKeeper_def split: option.splits)
  have "GetSupply bk (mw_ext y) = GetSupply bk (mw_ext x) \<and>
        GetBalance bk (mw_ext y) (mac mint_ModuleName) d \<le> GetBalance bk (mw_ext x) (mac mint_ModuleName) d"
    using mint_step_bank [OF step(2) laws(2) none] moved_drains [OF _ laws(1)] laws(3) unfolding bk by fastforce
  with step.IH mint_step_store [OF step(2)] show ?case by auto
qed

lemma ex_mint_NewKeeper:
  "mint_NewKeeper (\<lambda>_. Ok 10000) (\<lambda>_. Ok (hundredths 67)) (\<lambda>m. Some (mod_addr m)) ref_bank ''fees'' ''gov''
     = Ok ex_mint_keeper"
  by (simp add: mint_NewKeeper_def ex_mint_keeper_def)

lemma ex_mint_store_ok: "mint_store_ok ref_lib (mw_store ex_mint_world)"
  using ex_mint_valid by (simp add: mint_store_ok_def ex_mint_world_def SetMinter_def)

theorem mint_never_mints_witness:
  "GetSupply ref_bank (mw_ext ex_mint_after) = GetSupply ref_bank (mw_ext ex_mint_world)"
proof -
  have "mod_addr mint_ModuleName \<noteq> mod_addr (mk_feeCollectorName ex_mint_keeper)"
    by (simp add: mod_addr_def mint_ModuleName_def ex_mint_keeper_def)
  from mint_never_mints [OF r_into_rtranclp [of "mint_step ref_lib ref_dec ex_mint_keeper"],
      OF mint_step.block [OF ex_mint_runs] ex_mint_NewKeeper coin_laws_ref keeper_laws_ref this ex_mint_store_ok]
  show ?thesis by simp
qed

section \<open>Departures\<close>

text \<open>
  \<open>BlocksPerYear\<close> is validated as an unsigned number and used as a signed one: with the largest value,
  which passes validation next to any valid parameters, a block provision is never computed once a year's
  provision is at least one token, so the begin blocker cannot end normally.
\<close>

theorem blocks_per_year_overflow_halts:
  assumes laws: "dec_laws A" "coin_laws L" and valid: "mint_Params_Validate L p = Ok ()"
    and q: "q = p\<lparr>BlocksPerYear := 18446744073709551615\<rparr>" and ap: "dec_unit \<le> AnnualProvisions m"
  shows "mint_Params_Validate L q = Ok () \<and> (\<forall>c. BlockProvision L A m q \<noteq> Ok c)"
proof
  show "mint_Params_Validate L q = Ok ()"
    using valid by (simp add: q mint_Params_Validate_def validateBlocksPerYear_def)
  show "\<forall>c. BlockProvision L A m q \<noteq> Ok c"
  proof (intro allI notI)
    fix c assume "BlockProvision L A m q = Ok c"
    moreover have "int64_of (BlocksPerYear q) = -1" by (simp add: q int64_of_def)
    ultimately obtain x y where h: "dec_QuoInt A (AnnualProvisions m) (-1) = Ok x" "TruncateInt A x = Ok y"
      "NewCoin L (MintDenom q) y = Ok c" by (auto simp: BlockProvision_def)
    have "y = (AnnualProvisions m sdiv -1) sdiv dec_unit"
      using dec_lawsD(5) [OF laws(1) h(1)] dec_lawsD(6) [OF laws(1) h(2)] by simp
    also have "\<dots> = - (AnnualProvisions m div dec_unit)"
      using ap by (simp add: signed_divide_int_def dec_unit_def)
    also have "\<dots> < 0" using ap by (simp add: pos_imp_zdiv_pos_iff)
    finally show False using coin_laws_NewCoin [OF laws(2) h(3)] by simp
  qed
qed

theorem blocks_per_year_overflow_halts_witness:
  "\<forall>c. BlockProvision ref_lib ref_dec \<lparr>Inflation = 0, AnnualProvisions = 900 * dec_unit\<rparr>
     (ex_mint_params\<lparr>BlocksPerYear := 18446744073709551615\<rparr>) \<noteq> Ok c"
  using blocks_per_year_overflow_halts [OF dec_laws_ref coin_laws_ref ex_mint_valid refl,
      of "\<lparr>Inflation = 0, AnnualProvisions = 900 * dec_unit\<rparr>"] by simp

text \<open>
  C39: An exported genesis does not restart the module as it was: bank genesis already holds the balance
  of the mint pool, and importing the mint genesis mints that amount again, doubling the pool and raising
  the supply by it. The minter and the parameters come back as exported.
\<close>

theorem genesis_import_doubles_pool:
  assumes laws: "coin_laws L" "keeper_laws k mac"
    and ok: "mint_store_ok L (mw_store w)"
    and export: "mint_ExportGenesis k (mac mint_ModuleName) w = Ok g"
    and run: "mint_InitGenesis L k g \<lparr>mw_store = kv_empty, mw_ext = mw_ext w\<rparr> = (Ok (), w')"
    and coin: "NewCoin L (Coin_Denom (Mg_IncentivesSupply g)) (Coin_Amount (Mg_IncentivesSupply g)) = Ok (Mg_IncentivesSupply g)"
  shows "GetBalance (mk_bankKeeper k) (mw_ext w') (mac mint_ModuleName) (MintDenom (mint_GetParams (mw_store w)))
           = 2 * GetBalance (mk_bankKeeper k) (mw_ext w) (mac mint_ModuleName) (MintDenom (mint_GetParams (mw_store w))) \<and>
         GetSupply (mk_bankKeeper k) (mw_ext w') (MintDenom (mint_GetParams (mw_store w)))
           = GetSupply (mk_bankKeeper k) (mw_ext w) (MintDenom (mint_GetParams (mw_store w)))
             + GetBalance (mk_bankKeeper k) (mw_ext w) (mac mint_ModuleName) (MintDenom (mint_GetParams (mw_store w))) \<and>
         GetMinter (mw_store w') = GetMinter (mw_store w) \<and> mint_GetParams (mw_store w') = mint_GetParams (mw_store w)"
proof -
  let ?d = "MintDenom (mint_GetParams (mw_store w))" and ?B = "mk_bankKeeper k"
  let ?a = "GetBalance ?B (mw_ext w) (mac mint_ModuleName) ?d"
  obtain m where m: "GetMinter (mw_store w) = Ok m" "g = mint_NewGenesisState m (mint_GetParams (mw_store w)) \<lparr>Coin_Denom = ?d, Coin_Amount = ?a\<rparr>"
    using export by (auto simp: mint_ExportGenesis_def Let_def)
  from run m obtain cs where cs: "NewCoins L [\<lparr>Coin_Denom = ?d, Coin_Amount = ?a\<rparr>] = Ok cs"
    "mint_MintCoins k cs (mw_ext w) = (Ok (), mw_ext w')" and w':
    "mw_store w' = kv_set mint_ParamsKey (V_MintParams (mint_GetParams (mw_store w))) (SetMinter m kv_empty)"
    by (auto simp: mint_InitGenesis_def mint_NewGenesisState_def op_bind_eq_Ok on_mint_def on_mint_ext_def op_on_Ok mint_SetParams_Ok) metis
  have amt: "AmountOf cs e = (if e = ?d then ?a else 0)" for e
    using coin_laws_NewCoins_amount [OF laws(1) _ cs(1), of ?d ?a] coin m(2) by (simp add: mint_NewGenesisState_def)
  have "issued ?B (mac mint_ModuleName) (AmountOf cs) (mw_ext w) (mw_ext w')"
  proof (cases "cs = []")
    case True
    then show ?thesis using cs(2) amt by (simp add: mint_MintCoins_def issued_def)
  next
    case False
    then show ?thesis
      using cs(2) laws(2) bank_laws_dests(5) [of ?B mac] by (auto simp: mint_MintCoins_def keeper_laws_def)
  qed
  moreover have "GetMinter (mw_store w') = Ok m" "mint_GetParams (mw_store w') = mint_GetParams (mw_store w)"
    by (simp_all add: w' GetMinter_def mint_GetParams_def SetMinter_def)
  ultimately show ?thesis using m(1) amt by (simp add: issued_def)
qed

text \<open>The small chain, exported and imported.\<close>

definition ex_mint_genesis :: mint_GenesisState where
  "ex_mint_genesis =
     \<lparr>Mg_Minter = \<lparr>Inflation = hundredths 9, AnnualProvisions = 0\<rparr>, Mg_Params = ex_mint_params,
      Mg_IncentivesSupply = \<lparr>Coin_Denom = ''ppica'', Coin_Amount = 5000\<rparr>\<rparr>"

lemma ex_mint_export: "mint_ExportGenesis ex_mint_keeper (mod_addr mint_ModuleName) ex_mint_world = Ok ex_mint_genesis"
  by (simp add: mint_ExportGenesis_def ex_mint_store Let_def mint_NewGenesisState_def ex_mint_genesis_def)
    (simp add: ex_mint_params_def ex_mint_keeper_def ref_bank_def ex_mint_world_def mint_ModuleName_def)

definition ex_mint_imported :: "ledger mint_world" where
  "ex_mint_imported = snd (mint_InitGenesis ref_lib ex_mint_keeper ex_mint_genesis \<lparr>mw_store = kv_empty, mw_ext = mw_ext ex_mint_world\<rparr>)"

lemma ex_mint_import:
  "mint_InitGenesis ref_lib ex_mint_keeper ex_mint_genesis \<lparr>mw_store = kv_empty, mw_ext = mw_ext ex_mint_world\<rparr>
     = (Ok (), ex_mint_imported)"
proof -
  have "fst (mint_InitGenesis ref_lib ex_mint_keeper ex_mint_genesis \<lparr>mw_store = kv_empty, mw_ext = mw_ext ex_mint_world\<rparr>) = Ok ()"
    by (simp add: mint_InitGenesis_def ex_mint_genesis_def op_bind_def op_must_def on_mint_def on_mint_ext_def op_on_def
        mint_SetParams_def ex_mint_valid op_lift_def ref_coins_def mint_MintCoins_def ex_mint_keeper_def ref_bank_def)
  then show ?thesis by (simp add: ex_mint_imported_def prod_eq_iff)
qed

theorem genesis_import_doubles_pool_witness:
  "GetBalance ref_bank (mw_ext ex_mint_imported) (mod_addr mint_ModuleName) ''ppica'' = 10000"
proof -
  have "NewCoin ref_lib (Coin_Denom (Mg_IncentivesSupply ex_mint_genesis)) (Coin_Amount (Mg_IncentivesSupply ex_mint_genesis))
      = Ok (Mg_IncentivesSupply ex_mint_genesis)"
    by (simp add: ex_mint_genesis_def ref_coin_def)
  from genesis_import_doubles_pool [OF coin_laws_ref keeper_laws_ref ex_mint_store_ok ex_mint_export ex_mint_import this]
  show ?thesis
    by (simp add: ex_mint_store(2)) (simp add: ex_mint_params_def ex_mint_keeper_def ref_bank_def ex_mint_world_def mint_ModuleName_def)
qed

end
