(* ===== verification/Upgrades_Props.thy ===== *)
theory Upgrades_Props
  imports Upgrades Tfmw_Props Mint_Props
begin

text \<open>
  What the upgrades do to the state of the chain's own modules: the minimum amounts of the rate limits, the
  relayer allow list with the parameters of the mint module, and the forks.
\<close>

section \<open>Minimum amounts\<close>

definition min_amounts :: "(string \<times> int) list" where
  "min_amounts = [(uatom, 1282000000), (dot, 22670000000000), (ksm, 510000000000000), (usdt, 10000000000)]"

definition fresh_limit :: "string \<Rightarrow> int \<Rightarrow> int \<Rightarrow> RateLimit" where
  "fresh_limit denom channelValue amount =
     \<lparr>Rl_Path = \<lparr>Path_Denom = denom, Path_ChannelID = ''channel-2''\<rparr>,
      Rl_Quota = \<lparr>MaxPercentSend = 30, MaxPercentRecv = 30, DurationHours = 24\<rparr>,
      Rl_Flow = \<lparr>Inflow = 0, Outflow = 0, ChannelValue = channelValue\<rparr>, MinRateLimitAmount = amount\<rparr>"

definition with_min :: "'b rl_reads \<Rightarrow> 'b app_state \<Rightarrow> string \<Rightarrow> int \<Rightarrow> RateLimit" where
  "with_min R s denom amount =
     (case GetRateLimit (as_rl s) denom ''channel-2'' of
        None \<Rightarrow> fresh_limit denom (rd_supply R (as_ext s) denom) amount
      | Some r \<Rightarrow> r\<lparr>MinRateLimitAmount := amount\<rparr>)"

definition c2_key :: "string \<Rightarrow> bytes" where
  "c2_key denom = GetRateLimitItemKey denom ''channel-2''"

interpretation c2_keys: keyed_store c2_key "\<lambda>_. True"
  by unfold_locales (simp add: c2_key_def GetRateLimitItemKey_def KeyPrefix_def)

lemmas c2_key_eq [simp] = c2_keys.enc_eq [OF TrueI TrueI]

lemma set_min_amount_eq: "set_min_amount R denom amount s = s\<lparr>as_rl := SetRateLimit (with_min R s denom amount) (as_rl s)\<rparr>"
  by (simp add: set_min_amount_def with_min_def fresh_limit_def app_rl_env_def GetChannelValue_def Let_def
      split: option.split)

lemma set_min_amount_frame [simp]:
  "as_tfmw (set_min_amount R d a s) = as_tfmw s"
  "as_ext (set_min_amount R d a s) = as_ext s"
  "as_mint (set_min_amount R d a s) = as_mint s"
  by (simp_all add: set_min_amount_eq)

lemma with_min_key:
  "limits_ok (as_rl s) \<Longrightarrow>
     GetRateLimitItemKey (Path_Denom (Rl_Path (with_min R s d a))) (Path_ChannelID (Rl_Path (with_min R s d a))) = c2_key d"
  by (auto simp: with_min_def fresh_limit_def c2_key_def limits_ok_key split: option.split)

lemma set_min_amount_limits:
  assumes "limits_ok (as_rl s)"
  shows "rl_limits (as_rl (set_min_amount R d a s)) = kv_set (c2_key d) (with_min R s d a) (rl_limits (as_rl s))"
  using with_min_key [OF assms] by (simp add: set_min_amount_eq SetRateLimit_def)

lemma set_min_amount_ok: "limits_ok (as_rl s) \<Longrightarrow> limits_ok (as_rl (set_min_amount R d a s))"
  by (simp add: set_min_amount_eq)

lemma with_min_other:
  "limits_ok (as_rl s) \<Longrightarrow> d' \<noteq> d \<Longrightarrow> with_min R (set_min_amount R d a s) d' a' = with_min R s d' a'"
  by (simp add: with_min_def GetRateLimit_def set_min_amount_limits flip: c2_key_def split: option.split)

lemma with_min_safe:
  assumes "limits_safe (as_rl s)" "0 \<le> a"
    and "\<And>r. GetRateLimit (as_rl s) d ''channel-2'' = Some r \<Longrightarrow> MinRateLimitAmount r \<le> a"
  shows "limit_ok (with_min R s d a)"
proof (cases "GetRateLimit (as_rl s) d ''channel-2''")
  case None
  then show ?thesis using assms(2)
    by (simp add: with_min_def fresh_limit_def limit_ok_def net_outflow_def send_allowance_nonneg)
next
  case (Some r)
  then have "limit_ok r" "MinRateLimitAmount r \<le> a" using limits_safe_get [OF assms(1)] assms(3) by auto
  with Some assms(2) show ?thesis
    by (auto simp: with_min_def limit_ok_def net_outflow_def send_allowance_def allowance_def)
qed

text \<open>The four blocks of the handler as one pass over the list of amounts.\<close>

definition set_min_amounts :: "'b rl_reads \<Rightarrow> (string \<times> int) list \<Rightarrow> 'b app_state \<Rightarrow> 'b app_state" where
  "set_min_amounts R as s = fold (\<lambda>(d, a). set_min_amount R d a) as s"

lemma set_min_amounts_simps [simp]:
  "set_min_amounts R [] s = s"
  "set_min_amounts R (da # as) s = set_min_amounts R as (set_min_amount R (fst da) (snd da) s)"
  by (simp_all add: set_min_amounts_def case_prod_beta)

lemma v5_eq: "v5_UpgradeHandler RunMigrations R vm s = RunMigrations vm (set_min_amounts R min_amounts s)"
  by (simp add: v5_UpgradeHandler_def min_amounts_def Let_def)

lemma set_min_amounts_frame:
  "\<exists>l. set_min_amounts R as s = s\<lparr>as_rl := (as_rl s)\<lparr>rl_limits := l\<rparr>\<rparr>"
proof (induction as arbitrary: s)
  case Nil
  show ?case by (rule exI [of _ "rl_limits (as_rl s)"]) simp
next
  case (Cons da as)
  have "\<exists>l. set_min_amount R (fst da) (snd da) s = s\<lparr>as_rl := (as_rl s)\<lparr>rl_limits := l\<rparr>\<rparr>"
    by (auto simp: set_min_amount_eq SetRateLimit_def)
  then obtain l where l: "set_min_amount R (fst da) (snd da) s = s\<lparr>as_rl := (as_rl s)\<lparr>rl_limits := l\<rparr>\<rparr>" ..
  show ?case using Cons.IH [of "s\<lparr>as_rl := (as_rl s)\<lparr>rl_limits := l\<rparr>\<rparr>"] by (simp add: l)
qed

lemma set_min_amounts_limits:
  "limits_ok (as_rl s) \<Longrightarrow> distinct (map fst as) \<Longrightarrow>
     limits_ok (as_rl (set_min_amounts R as s)) \<and>
     (\<forall>(d, a) \<in> set as. kv_get (rl_limits (as_rl (set_min_amounts R as s))) (c2_key d) = Some (with_min R s d a)) \<and>
     (\<forall>k. k \<notin> c2_key ` fst ` set as \<longrightarrow>
        kv_get (rl_limits (as_rl (set_min_amounts R as s))) k = kv_get (rl_limits (as_rl s)) k)"
proof (induction as arbitrary: s)
  case (Cons da as)
  let ?t = "set_min_amount R (fst da) (snd da) s"
  have ne: "fst e \<noteq> fst da" if "e \<in> set as" for e
    using that Cons.prems(2) by (metis distinct.simps(2) image_eqI list.set_map list.simps(9))
  have IH: "limits_ok (as_rl (set_min_amounts R as ?t)) \<and>
     (\<forall>(d, a) \<in> set as. kv_get (rl_limits (as_rl (set_min_amounts R as ?t))) (c2_key d) = Some (with_min R ?t d a)) \<and>
     (\<forall>k. k \<notin> c2_key ` fst ` set as \<longrightarrow>
        kv_get (rl_limits (as_rl (set_min_amounts R as ?t))) k = kv_get (rl_limits (as_rl ?t)) k)"
    by (rule Cons.IH) (use Cons.prems set_min_amount_ok in auto)
  have "with_min R ?t d a = with_min R s d a" if "(d, a) \<in> set as" for d a
    using with_min_other [OF Cons.prems(1)] ne [OF that] by simp
  moreover have "c2_key (fst da) \<notin> c2_key ` fst ` set as" using ne by (metis c2_key_eq imageE)
  ultimately show ?case
    using IH by (auto simp: set_min_amount_limits [OF Cons.prems(1)])
qed simp

lemma set_min_amounts_safe:
  "limits_safe (as_rl s) \<Longrightarrow> distinct (map fst as) \<Longrightarrow>
   (\<And>d a r. (d, a) \<in> set as \<Longrightarrow> 0 \<le> a \<and> (GetRateLimit (as_rl s) d ''channel-2'' = Some r \<longrightarrow> MinRateLimitAmount r \<le> a)) \<Longrightarrow>
     limits_safe (as_rl (set_min_amounts R as s))"
proof (induction as arbitrary: s)
  case (Cons da as)
  let ?t = "set_min_amount R (fst da) (snd da) s"
  have ok: "limits_ok (as_rl s)" using Cons.prems(1) by (simp add: limits_safe_def)
  have safe: "limits_safe (as_rl ?t)"
    using with_min_safe [OF Cons.prems(1)] Cons.prems(3) [of "fst da" "snd da"]
    by (auto simp: set_min_amount_eq intro!: limits_safe_SetRateLimit Cons.prems(1))
  have same: "GetRateLimit (as_rl ?t) d ''channel-2'' = GetRateLimit (as_rl s) d ''channel-2''" if "(d, a) \<in> set as" for d a
  proof -
    have "d \<noteq> fst da" using that Cons.prems(2) by (metis distinct.simps(2) fst_conv image_eqI list.set_map list.simps(9))
    then show ?thesis by (simp add: GetRateLimit_def set_min_amount_limits [OF ok] flip: c2_key_def)
  qed
  have "limits_safe (as_rl (set_min_amounts R as ?t))"
    by (rule Cons.IH [OF safe]) (use Cons.prems(2,3) same in auto)
  then show ?case by simp
qed simp

lemma min_amounts_distinct: "distinct (map fst min_amounts)"
  by (simp add: min_amounts_def uatom_def dot_def ksm_def usdt_def)

text \<open>
  C29: The v5 upgrade gives each of the four denominations its minimum amount. On a store whose limits are kept
  under their own keys the handler runs the module migrations on a state where each of the four limits on
  channel-2 has the amount of the table and otherwise the quota and flow it had, or the default quota with an
  empty flow over the current supply when it was absent; every other limit and every other part of the state
  is as before. When no minimum is lowered, the upgrade keeps the flows within their allowances.
\<close>

theorem v5_sets_minimums:
  assumes "limits_ok (as_rl s)"
  shows "\<exists>l. v5_UpgradeHandler RunMigrations R vm s = RunMigrations vm (s\<lparr>as_rl := (as_rl s)\<lparr>rl_limits := l\<rparr>\<rparr>) \<and>
     (\<forall>(denom, amount) \<in> set min_amounts.
        kv_get l (GetRateLimitItemKey denom ''channel-2'') =
          (case GetRateLimit (as_rl s) denom ''channel-2'' of
             None \<Rightarrow> Some (fresh_limit denom (rd_supply R (as_ext s) denom) amount)
           | Some r \<Rightarrow> Some (r\<lparr>MinRateLimitAmount := amount\<rparr>))) \<and>
     (\<forall>k. (\<forall>denom \<in> fst ` set min_amounts. k \<noteq> GetRateLimitItemKey denom ''channel-2'') \<longrightarrow>
        kv_get l k = kv_get (rl_limits (as_rl s)) k) \<and>
     (limits_safe (as_rl s) \<longrightarrow>
      (\<forall>(denom, amount) \<in> set min_amounts. \<forall>r. GetRateLimit (as_rl s) denom ''channel-2'' = Some r \<longrightarrow>
         MinRateLimitAmount r \<le> amount) \<longrightarrow>
      limits_safe ((as_rl s)\<lparr>rl_limits := l\<rparr>))"
proof -
  obtain l where l: "set_min_amounts R min_amounts s = s\<lparr>as_rl := (as_rl s)\<lparr>rl_limits := l\<rparr>\<rparr>"
    using set_min_amounts_frame by blast
  note lim = set_min_amounts_limits [OF assms min_amounts_distinct, of R, unfolded l]
  have 1: "\<forall>(denom, amount) \<in> set min_amounts. kv_get l (GetRateLimitItemKey denom ''channel-2'') =
      (case GetRateLimit (as_rl s) denom ''channel-2'' of
         None \<Rightarrow> Some (fresh_limit denom (rd_supply R (as_ext s) denom) amount)
       | Some r \<Rightarrow> Some (r\<lparr>MinRateLimitAmount := amount\<rparr>))"
    using lim by (fastforce simp: with_min_def c2_key_def split: option.split)
  have 2: "\<forall>k. (\<forall>denom \<in> fst ` set min_amounts. k \<noteq> GetRateLimitItemKey denom ''channel-2'') \<longrightarrow>
      kv_get l k = kv_get (rl_limits (as_rl s)) k"
    using lim by (fastforce simp: c2_key_def)
  have nonneg: "\<forall>(d, a) \<in> set min_amounts. 0 \<le> a" by (simp add: min_amounts_def)
  have 3: "limits_safe ((as_rl s)\<lparr>rl_limits := l\<rparr>)"
    if "limits_safe (as_rl s)" "\<forall>(d, a) \<in> set min_amounts. \<forall>r. GetRateLimit (as_rl s) d ''channel-2'' = Some r \<longrightarrow>
         MinRateLimitAmount r \<le> a"
    using set_min_amounts_safe [OF that(1) min_amounts_distinct, of R] that(2) nonneg by (fastforce simp: l)
  show ?thesis using v5_eq [of RunMigrations R vm s] 1 2 3 by (intro exI [of _ l]) (simp add: l)
qed

text \<open>At a state with one of the four limits, whose flow is under way, the amount alone changes.\<close>

definition demo_atom_limit :: RateLimit where
  "demo_atom_limit =
     \<lparr>Rl_Path = \<lparr>Path_Denom = uatom, Path_ChannelID = ''channel-2''\<rparr>,
      Rl_Quota = \<lparr>MaxPercentSend = 10, MaxPercentRecv = 10, DurationHours = 1\<rparr>,
      Rl_Flow = \<lparr>Inflow = 3, Outflow = 5, ChannelValue = 100\<rparr>, MinRateLimitAmount = 0\<rparr>"

definition demo_app :: "unit app_state" where
  "demo_app = \<lparr>as_tfmw = tfmw_empty, as_rl = SetRateLimit demo_atom_limit rl_empty, as_mint = kv_empty,
     as_staking = kv_empty, as_slashing = kv_empty, as_gov = kv_empty, as_auth = kv_empty, as_ext = ()\<rparr>"

lemma v5_sets_minimums_witness:
  "\<exists>l. v5_UpgradeHandler (\<lambda>vm s. (Ok vm, s)) \<lparr>rd_supply = (\<lambda>_ _. 7)\<rparr> () demo_app =
       (Ok (), demo_app\<lparr>as_rl := (as_rl demo_app)\<lparr>rl_limits := l\<rparr>\<rparr>) \<and>
     kv_get l (GetRateLimitItemKey uatom ''channel-2'') = Some (demo_atom_limit\<lparr>MinRateLimitAmount := 1282000000\<rparr>) \<and>
     kv_get l (GetRateLimitItemKey dot ''channel-2'') = Some (fresh_limit dot 7 22670000000000)"
proof -
  have ok: "limits_ok (as_rl demo_app)" by (simp add: demo_app_def)
  have get: "GetRateLimit (as_rl demo_app) uatom ''channel-2'' = Some demo_atom_limit"
    "GetRateLimit (as_rl demo_app) dot ''channel-2'' = None"
    by (simp_all add: demo_app_def demo_atom_limit_def GetRateLimit_SetRateLimit GetRateLimit_def rl_empty_def
        SetRateLimit_def GetRateLimitItemKey_def KeyPrefix_def uatom_def dot_def)
  have mem: "(uatom, 1282000000) \<in> set min_amounts" "(dot, 22670000000000) \<in> set min_amounts"
    by (simp_all add: min_amounts_def)
  from v5_sets_minimums [OF ok, of "\<lambda>vm s. (Ok vm, s)" "\<lparr>rd_supply = (\<lambda>_ _. 7)\<rparr>" "()"] obtain l where
    run: "v5_UpgradeHandler (\<lambda>vm s. (Ok vm, s)) \<lparr>rd_supply = (\<lambda>_ _. 7)\<rparr> () demo_app =
       (Ok (), demo_app\<lparr>as_rl := (as_rl demo_app)\<lparr>rl_limits := l\<rparr>\<rparr>)" and
    table: "\<forall>(denom, amount) \<in> set min_amounts. kv_get l (GetRateLimitItemKey denom ''channel-2'') =
       (case GetRateLimit (as_rl demo_app) denom ''channel-2'' of
          None \<Rightarrow> Some (fresh_limit denom (rd_supply \<lparr>rd_supply = (\<lambda>_ _. 7)\<rparr> (as_ext demo_app) denom) amount)
        | Some r \<Rightarrow> Some (r\<lparr>MinRateLimitAmount := amount\<rparr>))"
    by (elim exE conjE) (rule that)
  show ?thesis
    using run table [rule_format, OF mem(1)] table [rule_format, OF mem(2)] by (intro exI [of _ l]) (simp add: get)
qed

section \<open>The reward upgrade\<close>

lemma has_rly_listed:
  assumes "no_rly s" "xs \<noteq> []"
  shows "HasAllowRlyAddress (fold SetAllowRlyAddress xs s) a \<longleftrightarrow> a \<in> set xs"
proof -
  have get: "kv_get (tfmw_store (fold SetAllowRlyAddress xs s)) (GetKeyByRlyAddress a) =
      (if a \<in> set xs then Some V_One else kv_get (tfmw_store s) (GetKeyByRlyAddress a))" for a s
    by (induction xs arbitrary: s) (auto simp: SetAllowRlyAddress_def)
  have "\<not> no_rly (fold SetAllowRlyAddress xs s)"
    using assms(2) get [where s = s] by (cases xs) (auto simp: no_rly_def)
  with get [where s = s and a = a] assms(1) show ?thesis
    by (auto simp: HasAllowRlyAddress_def kv_has_def no_rly_iff [symmetric] no_rly_def)
qed

text \<open>
  The reward upgrade starts the relayer allow list. Run on a reachable state of the middleware with valid
  mint parameters, the handler runs the module migrations on a state where exactly the four listed relayers are
  allowed, so the message that adds a relayer, refused in every state before, is accepted for any other
  address; the yearly provision of the mint module is pinned to one amount, and the stored parameters stay valid.
\<close>

lemma reward_starts_allow_list:
  assumes "tfmw_reachable authority (as_tfmw s)" "mint_Params_Validate L (mint_GetParams (as_mint s)) = Ok ()"
  shows "\<exists>t m. reward_UpgradeHandler L RunMigrations vm s = RunMigrations vm (s\<lparr>as_tfmw := t, as_mint := m\<rparr>) \<and>
     (\<forall>a. HasAllowRlyAddress t a \<longleftrightarrow> a \<in> set listAllowedRelayAddress) \<and>
     (\<forall>req. Mar_Authority req = authority \<and> Mar_RlyAddress req \<notin> set listAllowedRelayAddress \<longrightarrow>
        fst (AddRlyAddress authority req t) = Ok ()) \<and>
     MaxTokenPerYear (mint_GetParams m) = 99999999000000000000 \<and>
     MinTokenPerYear (mint_GetParams m) = 99999999000000000000 \<and>
     mint_Params_Validate L (mint_GetParams m) = Ok ()"
proof -
  let ?p = "(mint_GetParams (as_mint s))\<lparr>MaxTokenPerYear := 99999999000000000000, MinTokenPerYear := 99999999000000000000\<rparr>"
  let ?t = "fold SetAllowRlyAddress listAllowedRelayAddress (as_tfmw s)"
  let ?m = "kv_set mint_ParamsKey (V_MintParams ?p) (as_mint s)"
  have valid: "mint_Params_Validate L ?p = Ok ()" using assms(2) by (simp add: mint_Params_Validate_def)
  have rly: "HasAllowRlyAddress ?t a \<longleftrightarrow> a \<in> set listAllowedRelayAddress" for a
    by (rule has_rly_listed [OF reachable_no_rly [OF assms(1)]]) (simp add: listAllowedRelayAddress_def)
  have "reward_UpgradeHandler L RunMigrations vm s = RunMigrations vm (s\<lparr>as_tfmw := ?t, as_mint := ?m\<rparr>)"
    by (simp add: reward_UpgradeHandler_def Let_def op_on_def mint_SetParams_def valid op_bind_def)
  moreover have "mint_GetParams ?m = ?p" by (simp add: mint_GetParams_def)
  ultimately show ?thesis using rly valid
    by (intro exI [of _ ?t] exI [of _ ?m]) (simp add: AddRlyAddress_def)
qed

definition demo_before_reward :: "unit app_state" where
  "demo_before_reward =
     demo_app\<lparr>as_tfmw := ex_start, as_mint := kv_set mint_ParamsKey (V_MintParams ex_mint_params) kv_empty\<rparr>"

lemma reward_starts_allow_list_witness:
  "\<exists>t m. reward_UpgradeHandler ref_lib (\<lambda>vm s. (Ok vm, s)) () demo_before_reward =
       (Ok (), demo_before_reward\<lparr>as_tfmw := t, as_mint := m\<rparr>) \<and>
     fst (AddRlyAddress ''gov'' (NewMsgAddRlyAddress ''gov'' ''relayer'') t) = Ok () \<and>
     MaxTokenPerYear (mint_GetParams m) = 99999999000000000000"
proof -
  have r: "tfmw_reachable ''gov'' (as_tfmw demo_before_reward)"
    by (simp add: demo_before_reward_def ex_start_reachable)
  have v: "mint_Params_Validate ref_lib (mint_GetParams (as_mint demo_before_reward)) = Ok ()"
    by (simp add: demo_before_reward_def mint_GetParams_def ex_mint_valid)
  from reward_starts_allow_list [OF r v, of "\<lambda>vm s. (Ok vm, s)" "()"] obtain t m where
    run: "reward_UpgradeHandler ref_lib (\<lambda>vm s. (Ok vm, s)) () demo_before_reward =
       (Ok (), demo_before_reward\<lparr>as_tfmw := t, as_mint := m\<rparr>)" and
    add: "\<forall>req. Mar_Authority req = ''gov'' \<and> Mar_RlyAddress req \<notin> set listAllowedRelayAddress \<longrightarrow>
        fst (AddRlyAddress ''gov'' req t) = Ok ()" and
    pin: "MaxTokenPerYear (mint_GetParams m) = 99999999000000000000"
    by (elim exE conjE) (rule that)
  have "fst (AddRlyAddress ''gov'' (NewMsgAddRlyAddress ''gov'' ''relayer'') t) = Ok ()"
    using add by (simp add: NewMsgAddRlyAddress_def listAllowedRelayAddress_def)
  with run pin show ?thesis by (intro exI conjI)
qed

section \<open>The forks\<close>

text \<open>
  The rate limits are gone after the v4.5.1 fork, unless one of them cannot be removed under its own key; then
  the fork panics and the block with it.
\<close>

lemma BeginBlockForks_none [simp]: "BeginBlockForks app_Forks ctx s = (Ok (), s)"
  by (simp add: app_Forks_def)

lemma BeginBlockForks_first:
  "\<forall>f \<in> set forks. BlockHeight ctx \<noteq> UpgradeHeight f \<Longrightarrow> UpgradeHeight fork = BlockHeight ctx \<Longrightarrow>
     BeginBlockForks (forks @ fork # later) ctx s = BeginForkLogic fork s"
  by (induction forks) auto

lemma v4_5_1_stranded:
  assumes "GetAllRateLimits (as_rl s) = r # rs"
    and "GetRateLimit (as_rl s) (resolve_denom (app_rl_env R s) (Path_Denom (Rl_Path r)) (Path_ChannelID (Rl_Path r)))
           (Path_ChannelID (Rl_Path r)) = None"
  shows "fst (v4_5_1_RunForkLogic R s) = Panic"
  using assms
  by (simp add: v4_5_1_RunForkLogic_def v4_5_1_RemoveRateLimit_def RemoveRateLimit_def op_must_def on_as_rl_def op_on_def)

text \<open>The handlers that are registered are those of the four upgrades, each under its own name.\<close>

lemma setupUpgradeHandlers_names:
  "setupUpgradeHandlers (app_Upgrades RM R W mt M) Map.empty =
     [''v4'' \<mapsto> v4_UpgradeHandler RM W, ''v5'' \<mapsto> v5_UpgradeHandler RM R,
      ''v6'' \<mapsto> v6_UpgradeHandler RM, ''v7'' \<mapsto> v7_UpgradeHandler RM M mt W]"
  by (simp add: setupUpgradeHandlers_def app_Upgrades_def)

lemma setupUpgradeStoreLoaders_skip:
  "IsSkipHeight h \<Longrightarrow> setupUpgradeStoreLoaders us (Some (n, h)) IsSkipHeight = Ok None"
  by (simp add: setupUpgradeStoreLoaders_def)

end
