(* ===== verification/Ratelimit_Props.thy ===== *)
theory Ratelimit_Props
  imports Ratelimit_Safety Reference_Lib
begin

text \<open>
  Properties of \<open>x/ratelimit\<close>: safety of the outflow in every reachable state, the branches of the
  packet handlers, undoing a send, resets, pending packets, the administration messages and genesis.
\<close>

section \<open>Reachable states\<close>

text \<open>
  A step is a packet handler, a message or a begin block, whatever it returns; the environment of the
  bank and of the token registry may be different at each step.
\<close>

inductive rl_step :: "lib \<Rightarrow> string \<Rightarrow> rl_state \<Rightarrow> rl_state \<Rightarrow> bool" for L authority where
  rl_send: "amount_ok L p PACKET_SEND \<Longrightarrow> rl_step L authority s (snd (SendRateLimitedPacket L p s))"
| rl_receive: "amount_ok L p PACKET_RECV \<Longrightarrow> rl_step L authority s (snd (ReceiveRateLimitedPacket L p s))"
| rl_ack: "amount_ok L p PACKET_SEND \<Longrightarrow> rl_step L authority s (snd (AcknowledgeRateLimitedPacket L p ack s))"
| rl_timeout: "amount_ok L p PACKET_SEND \<Longrightarrow> rl_step L authority s (snd (TimeoutRateLimitedPacket L p s))"
| rl_add: "rl_step L authority s (snd (AddTransferRateLimit L env authority m s))"
| rl_update: "rl_step L authority s (snd (UpdateTransferRateLimit L env authority m s))"
| rl_remove: "rl_step L authority s (snd (RemoveTransferRateLimit env authority pm s))"
| rl_reset: "rl_step L authority s (snd (ResetTransferRateLimit env authority pm s))"
| rl_begin: "rl_step L authority s (snd (rl_BeginBlocker env ctx s))"

text \<open>
  An epoch on schedule: once counting has started, epoch number \<open>k + 1\<close> started \<open>k\<close> durations after
  the start time. The number is kept in an \<open>int64\<close>, and the schedule holds even if it wraps.
\<close>

definition epoch_ok :: "EpochInfo \<Rightarrow> bool" where
  "epoch_ok e \<longleftrightarrow>
     (EpochCountingStarted e \<longrightarrow>
        (\<exists>k. CurrentEpoch e = word_of_nat (k + 1) \<and> CurrentEpochStartTime e = StartTime e + int k * Duration e))"

text \<open>Genesis gives a missing start time the block time, so a counted epoch must bring its own.\<close>

definition genesis_epoch_ok :: "EpochInfo \<Rightarrow> bool" where
  "genesis_epoch_ok e \<longleftrightarrow> epoch_ok e \<and> (EpochCountingStarted e \<longrightarrow> StartTime e \<noteq> zero_time)"

inductive rl_reachable :: "lib \<Rightarrow> string \<Rightarrow> rl_state \<Rightarrow> bool" for L authority where
  rl_from_genesis: "\<forall>r \<in> set (Rg_RateLimits g). limit_ok r \<Longrightarrow> \<forall>e \<in> set (Rg_Epochs g). genesis_epoch_ok e \<Longrightarrow>
     rl_InitGenesis ctx g rl_empty = (Ok (), s) \<Longrightarrow>
     rl_reachable L authority s"
| rl_then: "rl_reachable L authority s \<Longrightarrow> rl_step L authority s t \<Longrightarrow> rl_reachable L authority t"

lemma limits_safe_step: "rl_step L au s t \<Longrightarrow> limits_safe s \<Longrightarrow> limits_safe t"
  by (induction rule: rl_step.induct)
     (auto intro: limits_safe_send limits_safe_receive limits_safe_ack limits_safe_timeout limits_safe_AddMsg
        limits_safe_UpdateMsg limits_safe_RemoveMsg limits_safe_ResetMsg limits_safe_BeginBlocker)

lemma limits_safe_fold_set:
  "limits_safe s \<Longrightarrow> \<forall>r \<in> set rs. limit_ok r \<Longrightarrow> limits_safe (fold SetRateLimit rs s)"
  by (induction rs arbitrary: s) (auto intro: limits_safe_SetRateLimit)

lemma rl_limits_fold_whitelist [simp]: "rl_limits (fold SetWhitelistedAddressPair ws s) = rl_limits s"
  by (induction ws arbitrary: s) simp_all

lemma rl_limits_init_pending: "rl_limits (snd (init_pending p s)) = rl_limits s"
  by (auto simp: init_pending_def split: list.splits option.splits)

lemma rl_limits_AddEpochInfo: "rl_limits (snd (op_must (AddEpochInfo ctx e) s)) = rl_limits s"
  by (auto simp: op_must_def AddEpochInfo_def setEpochInfo_def Let_def split: res.splits prod.splits if_splits)

lemma rl_limits_InitGenesis:
  "rl_limits (snd (rl_InitGenesis ctx g s)) = rl_limits (fold SetRateLimit (Rg_RateLimits g) s)"
proof -
  let ?s = "fold SetWhitelistedAddressPair (Rg_WhitelistedAddressPairs g) (fold SetRateLimit (Rg_RateLimits g) s)"
  let ?P = "\<lambda>t. rl_limits t = rl_limits ?s"
  have p: "?P (snd (op_each init_pending ps ?s))" for ps
    by (rule op_each_inv [where P = ?P]) (simp_all add: rl_limits_init_pending)
  have e: "?P (snd (op_each (\<lambda>epoch. op_must (AddEpochInfo ctx epoch)) es t))" if "?P t" for es t
    by (rule op_each_inv [where P = ?P]) (simp_all add: rl_limits_AddEpochInfo that)
  have "?P (snd (rl_InitGenesis ctx g s))"
    using p [of "Rg_PendingSendPacketSequenceNumbers g"] e
    by (auto simp: rl_InitGenesis_def op_bind_def Let_def split: prod.splits res.splits)
  then show ?thesis by simp
qed

lemma limits_safe_empty [simp]: "limits_safe rl_empty"
  by (simp add: limits_safe_def) (simp add: rl_empty_def)

lemma reachable_limits_safe: "rl_reachable L au s \<Longrightarrow> limits_safe s"
proof (induction rule: rl_reachable.induct)
  case (rl_from_genesis g ctx s)
  have "limits_safe (fold SetRateLimit (Rg_RateLimits g) rl_empty)"
    by (rule limits_safe_fold_set) (use rl_from_genesis(1) in simp_all)
  then show ?case
    using rl_limits_InitGenesis [of ctx g rl_empty] rl_from_genesis(3)
    by (simp add: limits_safe_cong [of s "fold SetRateLimit (Rg_RateLimits g) rl_empty"])
qed (rule limits_safe_step)

section \<open>Pending packets\<close>

lemma pending_after_set:
  "CheckPacketSentDuringCurrentQuota (SetPendingSendPacket c n s) c n"
  by (simp add: CheckPacketSentDuringCurrentQuota_def SetPendingSendPacket_def)

lemma pending_after_remove_all:
  "CheckPacketSentDuringCurrentQuota (RemoveAllChannelPendingSendPackets c s) c' n \<longleftrightarrow>
     CheckPacketSentDuringCurrentQuota s c' n \<and> \<not> prefix c (GetPendingSendPacketKey c' n)"
  by (auto simp: CheckPacketSentDuringCurrentQuota_def RemoveAllChannelPendingSendPackets_def KeyPrefix_def
      kv_has_def kv_get_delete_all kv_prefix_keys)

lemma prefix_pending_key:
  assumes "length c \<le> 16" "length c' \<le> 16"
  shows "prefix c (GetPendingSendPacketKey c' n) \<longleftrightarrow> prefix c (c' @ replicate (16 - length c') CHR 0x00)"
proof -
  have k: "GetPendingSendPacketKey c' n = (c' @ replicate (16 - length c') CHR 0x00) @ PutUint64 n"
    using assms(2) by (simp add: GetPendingSendPacketKey_def PendingSendPacketChannelLength_def)
  show ?thesis
  proof
    assume "prefix c (GetPendingSendPacketKey c' n)"
    then show "prefix c (c' @ replicate (16 - length c') CHR 0x00)"
      unfolding k by (rule prefix_length_prefix) (use assms in simp_all)
  next
    assume "prefix c (c' @ replicate (16 - length c') CHR 0x00)"
    then show "prefix c (GetPendingSendPacketKey c' n)" unfolding k by (rule prefix_prefix)
  qed
qed

text \<open>For channel identifiers without NUL bytes the test is a plain prefix test.\<close>

lemma prefix_pending_channel:
  assumes "pending_channel c" "pending_channel c'"
  shows "prefix c (GetPendingSendPacketKey c' n) \<longleftrightarrow> prefix c c'"
proof
  assume "prefix c (GetPendingSendPacketKey c' n)"
  then have p: "prefix c (c' @ replicate (16 - length c') CHR 0x00)"
    using assms prefix_pending_key by (simp add: pending_channel_def)
  show "prefix c c'"
  proof (rule ccontr)
    assume "\<not> prefix c c'"
    with p obtain zs where "c = c' @ zs" "prefix zs (replicate (16 - length c') CHR 0x00)" "zs \<noteq> []"
      by (auto simp: prefix_append)
    then have "CHR 0x00 \<in> set c"
      by (metis UnCI in_set_replicate last_in_set prefixE Un_iff set_append)
    with assms(1) show False by (simp add: pending_channel_def)
  qed
next
  assume "prefix c c'"
  with assms show "prefix c (GetPendingSendPacketKey c' n)"
    by (simp add: prefix_pending_key pending_channel_def prefix_prefix)
qed

section \<open>Sending\<close>

definition add_outflow :: "int \<Rightarrow> RateLimit \<Rightarrow> RateLimit" where
  "add_outflow a r = r\<lparr>Rl_Flow := (Rl_Flow r)\<lparr>Outflow := Outflow (Rl_Flow r) + a\<rparr>\<rparr>"

lemma add_outflow_simps [simp]:
  "Rl_Path (add_outflow a r) = Rl_Path r"
  "Outflow (Rl_Flow (add_outflow a r)) = Outflow (Rl_Flow r) + a"
  by (simp_all add: add_outflow_def)

lemma add_outflow_undo:
  "(add_outflow a r)\<lparr>Rl_Flow := (Rl_Flow (add_outflow a r))\<lparr>Outflow := Outflow (Rl_Flow r)\<rparr>\<rparr> = r"
  by (cases r, cases "Rl_Flow r") (simp add: add_outflow_def)

lemma send_unfold:
  assumes "ParsePacketInfo L p PACKET_SEND = Ok i"
  shows "SendRateLimitedPacket L p s =
    (case limiting s i of
       None \<Rightarrow> (Ok (), s)
     | Some r \<Rightarrow>
         (case UpdateFlow (int_fits L) r PACKET_SEND (Pi_Amount i) of
            Ok r' \<Rightarrow> (Ok (), SetPendingSendPacket (Pi_ChannelID i) (Pkt_Sequence p) (SetRateLimit r' s))
          | Err e \<Rightarrow> (Err e, emit_rl (TransferDenied ''rate_limit_exceeded'' PACKET_SEND (Pi_Denom i)
                                   (Pi_ChannelID i) (Pi_Amount i) e) s)
          | Panic \<Rightarrow> (Panic, s)))"
  by (simp add: SendRateLimitedPacket_def op_bind_def op_lift_def CheckRateLimit_cases assms
      split: option.split res.split)

lemma UpdateFlow_send_Ok:
  "UpdateFlow fits r PACKET_SEND a = Ok r' \<Longrightarrow> r' = add_outflow a r"
  by (auto simp: UpdateFlow_def AddOutflow_eq_Ok add_outflow_def)

lemma send_ok_cases:
  assumes "SendRateLimitedPacket L p s = (Ok (), t)"
  obtains (free) i where "ParsePacketInfo L p PACKET_SEND = Ok i" "limiting s i = None" "t = s"
  | (counted) i r where "ParsePacketInfo L p PACKET_SEND = Ok i" "limiting s i = Some r"
      "t = SetPendingSendPacket (Pi_ChannelID i) (Pkt_Sequence p) (SetRateLimit (add_outflow (Pi_Amount i) r) s)"
proof (cases "ParsePacketInfo L p PACKET_SEND")
  case (Ok i)
  note u = assms [unfolded send_unfold [OF Ok]]
  show ?thesis
  proof (cases "limiting s i")
    case None
    with u have "t = s" by simp
    with Ok None show ?thesis by (rule free)
  next
    case (Some r)
    with u obtain r' where r': "UpdateFlow (int_fits L) r PACKET_SEND (Pi_Amount i) = Ok r'"
      "t = SetPendingSendPacket (Pi_ChannelID i) (Pkt_Sequence p) (SetRateLimit r' s)"
      by (auto split: res.splits)
    from r'(2) have "t = SetPendingSendPacket (Pi_ChannelID i) (Pkt_Sequence p)
        (SetRateLimit (add_outflow (Pi_Amount i) r) s)"
      by (simp only: UpdateFlow_send_Ok [OF r'(1)])
    with Ok Some show ?thesis by (rule counted)
  qed
qed (use assms in \<open>simp_all add: SendRateLimitedPacket_def op_bind_def op_lift_def\<close>)

section \<open>Small states\<close>

definition ex_limit :: RateLimit where
  "ex_limit = \<lparr>Rl_Path = \<lparr>Path_Denom = ''ppica'', Path_ChannelID = ''channel-1''\<rparr>,
     Rl_Quota = \<lparr>MaxPercentSend = 10, MaxPercentRecv = 10, DurationHours = 2\<rparr>,
     Rl_Flow = \<lparr>Inflow = 0, Outflow = 0, ChannelValue = 500\<rparr>,
     MinRateLimitAmount = 1\<rparr>"

definition ex_genesis :: rl_GenesisState where
  "ex_genesis = \<lparr>Rg_RateLimits = [ex_limit], Rg_WhitelistedAddressPairs = [],
     Rg_PendingSendPacketSequenceNumbers = [], Rg_Epochs = []\<rparr>"

definition ex_rl :: rl_state where
  "ex_rl = SetRateLimit ex_limit rl_empty"

definition ex_packet :: "u64 \<Rightarrow> string \<Rightarrow> Packet" where
  "ex_packet n c = \<lparr>Pkt_Sequence = n, Pkt_SourcePort = ''transfer'', Pkt_SourceChannel = c,
     Pkt_DestPort = ''transfer'', Pkt_DestChannel = ''channel-9'', Pkt_Data = ''pica'',
     Pkt_TimeoutHeight = \<lparr>RevisionNumber = 0, RevisionHeight = 0\<rparr>, Pkt_TimeoutTimestamp = 0\<rparr>"

definition ex_info :: "string \<Rightarrow> RateLimitedPacketInfo" where
  "ex_info c = \<lparr>Pi_ChannelID = c, Pi_Denom = ''ppica'', Pi_Amount = 40, Pi_Sender = ''alice'', Pi_Receiver = ''bob''\<rparr>"

lemma ex_rl_genesis: "rl_InitGenesis ctx ex_genesis rl_empty = (Ok (), ex_rl)"
  by (simp add: rl_InitGenesis_def ex_genesis_def ex_rl_def op_bind_def Let_def)

lemma ex_rl_reachable: "rl_reachable L au ex_rl"
  by (rule rl_from_genesis [OF _ _ ex_rl_genesis])
     (simp_all add: ex_genesis_def ex_limit_def limit_ok_def net_outflow_def send_allowance_nonneg)

lemma ex_parse: "ParsePacketInfo ref_lib (ex_packet n c) PACKET_SEND = Ok (ex_info c)"
  by (simp add: ParsePacketInfo_def ParseDenomFromSendPacket_def ex_packet_def ref_packet_def ref_trace_def
      ref_int_def ex_info_def char_digit_def)

lemma ex_get: "GetRateLimit ex_rl ''ppica'' ''channel-1'' = Some ex_limit"
  by (simp add: GetRateLimit_def ex_rl_def SetRateLimit_def ex_limit_def)

lemma ex_limiting: "limiting ex_rl (ex_info ''channel-1'') = Some ex_limit"
  by (simp add: limiting_def ex_info_def ex_get IsAddressPairWhitelisted_def)
     (simp add: ex_rl_def SetRateLimit_def rl_empty_def)

lemma ex_send:
  "SendRateLimitedPacket ref_lib (ex_packet n ''channel-1'') ex_rl =
     (Ok (), SetPendingSendPacket ''channel-1'' n (SetRateLimit (add_outflow 40 ex_limit) ex_rl))"
proof -
  have "UpdateFlow (int_fits ref_lib) ex_limit PACKET_SEND 40 = Ok (add_outflow 40 ex_limit)"
    by (auto simp: UpdateFlow_def AddOutflow_eq_Ok ex_limit_def add_outflow_def allowance_def sdiv_pos_div)
  then show ?thesis
    using send_unfold [OF ex_parse, of n "''channel-1''" ex_rl] ex_limiting
    by (simp add: ex_info_def ex_packet_def)
qed

section \<open>Properties\<close>

text \<open>
  C3: In every reachable state the net outflow of each rate limit with a channel value is at most its
  allowance: the configured percentage of the channel value, or the minimum amount when that is larger.
\<close>

theorem outflow_within_allowance:
  assumes "rl_reachable L authority s" and "GetRateLimit s denom channelID = Some r"
    and "ChannelValue (Rl_Flow r) \<noteq> 0"
  shows "Outflow (Rl_Flow r) - Inflow (Rl_Flow r) \<le>
           max (MinRateLimitAmount r) ((ChannelValue (Rl_Flow r) * MaxPercentSend (Rl_Quota r)) sdiv 100)"
  using limits_safe_get [OF reachable_limits_safe [OF assms(1)] assms(2)] assms(3)
  by (simp add: limit_ok_def net_outflow_def send_allowance_def allowance_def)

lemma outflow_within_allowance_witness:
  "Outflow (Rl_Flow ex_limit) - Inflow (Rl_Flow ex_limit) \<le> max 1 (5000 sdiv 100)"
  using outflow_within_allowance [OF ex_rl_reachable ex_get] by (simp add: ex_limit_def)

text \<open>
  C12: A packet whose denomination and channel have a rate limit, and whose address pair is not
  whitelisted, is counted and remembered as pending exactly when the net outflow stays within the
  allowance; otherwise the send fails, the limits and the pending packets are unchanged, and an event
  records the denial. A packet without a limit, or of a whitelisted pair, changes nothing.
\<close>

theorem SendRateLimitedPacket_spec:
  assumes "ParsePacketInfo L p PACKET_SEND = Ok i"
    and "\<forall>r. limiting s i = Some r \<longrightarrow>
           (let f = Rl_Flow r in
            int_fits L (Outflow f - Inflow f) \<and> int_fits L (Outflow f - Inflow f + Pi_Amount i) \<and>
            int_fits L (Outflow f + Pi_Amount i) \<and> int_fits L (ChannelValue f * MaxPercentSend (Rl_Quota r)))"
  shows "SendRateLimitedPacket L p s =
    (case limiting s i of
       None \<Rightarrow> (Ok (), s)
     | Some r \<Rightarrow>
         if ChannelValue (Rl_Flow r) = 0 \<or> net_outflow r + Pi_Amount i \<le> send_allowance r
         then (Ok (), SetPendingSendPacket (Pkt_SourceChannel p) (Pkt_Sequence p)
                        (SetRateLimit (add_outflow (Pi_Amount i) r) s))
         else (Err ErrQuotaExceeded,
               s\<lparr>rl_events := rl_events s @ [TransferDenied ''rate_limit_exceeded'' PACKET_SEND (Pi_Denom i)
                                (Pkt_SourceChannel p) (Pi_Amount i) ErrQuotaExceeded]\<rparr>))"
proof (cases "limiting s i")
  case None
  with assms(1) show ?thesis by (simp add: send_unfold)
next
  case (Some r)
  note fits = assms(2) [rule_format, OF Some, unfolded Let_def]
  note ch = ParsePacketInfo_send [OF assms(1)]
  show ?thesis
  proof (cases "ChannelValue (Rl_Flow r) = 0 \<or> net_outflow r + Pi_Amount i \<le> send_allowance r")
    case True
    with fits have "UpdateFlow (int_fits L) r PACKET_SEND (Pi_Amount i) = Ok (add_outflow (Pi_Amount i) r)"
      by (auto simp: UpdateFlow_def AddOutflow_eq_Ok net_outflow_def send_allowance_def add_outflow_def)
    with True Some assms(1) ch show ?thesis by (simp add: send_unfold)
  next
    case False
    with fits have "AddOutflow (int_fits L) (Rl_Flow r) (Pi_Amount i) (Rl_Quota r) (MinRateLimitAmount r) =
        Err ErrQuotaExceeded"
      by (simp add: AddOutflow_eq_Err net_outflow_def send_allowance_def)
    with False Some assms(1) ch show ?thesis
      by (simp add: send_unfold UpdateFlow_def emit_rl_def)
  qed
qed

lemma SendRateLimitedPacket_spec_witness:
  "SendRateLimitedPacket ref_lib (ex_packet 7 ''channel-1'') ex_rl =
     (Ok (), SetPendingSendPacket ''channel-1'' 7 (SetRateLimit (add_outflow 40 ex_limit) ex_rl))"
proof -
  have "\<forall>r. limiting ex_rl (ex_info ''channel-1'') = Some r \<longrightarrow> (let f = Rl_Flow r in
      int_fits ref_lib (Outflow f - Inflow f) \<and> int_fits ref_lib (Outflow f - Inflow f + Pi_Amount (ex_info ''channel-1'')) \<and>
      int_fits ref_lib (Outflow f + Pi_Amount (ex_info ''channel-1'')) \<and>
      int_fits ref_lib (ChannelValue f * MaxPercentSend (Rl_Quota r)))"
    by (simp add: ex_limiting) (simp add: ex_limit_def ex_info_def Let_def)
  from SendRateLimitedPacket_spec [OF ex_parse [of 7 "''channel-1''"] this]
  show ?thesis
    by (simp add: ex_limiting)
       (simp add: ex_limit_def ex_info_def ex_packet_def net_outflow_def send_allowance_def allowance_def sdiv_pos_div)
qed

text \<open>
  C34: A packet that was sent and then timed out within the same quota period leaves the module exactly
  as it was before the send: the outflow and the pending entry are both undone.
\<close>

theorem send_then_timeout_restores:
  assumes "limits_ok s"
    and "\<forall>k r. kv_get (rl_limits s) k = Some r \<longrightarrow> int_fits L (Outflow (Rl_Flow r))"
    and "\<not> CheckPacketSentDuringCurrentQuota s (Pkt_SourceChannel p) (Pkt_Sequence p)"
    and "SendRateLimitedPacket L p s = (Ok (), t)"
  shows "TimeoutRateLimitedPacket L p t = (Ok (), s)"
  using assms(4)
proof (cases rule: send_ok_cases)
  case (free i)
  then show ?thesis
    using assms(3) ParsePacketInfo_send [OF free(1)]
    by (auto simp: TimeoutRateLimitedPacket_def op_bind_def op_lift_def UndoSendPacket_def split: option.splits)
next
  case (counted i r)
  let ?k = "GetRateLimitItemKey (Pi_Denom i) (Pi_ChannelID i)"
  have get: "GetRateLimit s (Pi_Denom i) (Pi_ChannelID i) = Some r"
    using counted(2) by (simp add: limiting_def split: if_splits)
  have k: "GetRateLimitItemKey (Path_Denom (Rl_Path r)) (Path_ChannelID (Rl_Path r)) = ?k"
    by (rule limits_ok_key [OF assms(1) get])
  have "int_fits L (Outflow (Rl_Flow r))" using assms(2) get by (simp add: GetRateLimit_def)
  moreover have "kv_set ?k r (rl_limits s) = rl_limits s"
    by (rule kv_set_get_same) (use get in \<open>simp add: GetRateLimit_def\<close>)
  moreover have "kv_delete (GetPendingSendPacketKey (Pi_ChannelID i) (Pkt_Sequence p)) (rl_pending s) = rl_pending s"
    using assms(3) ParsePacketInfo_send [OF counted(1)]
    by (intro kv_delete_absent) (auto simp only: CheckPacketSentDuringCurrentQuota_def kv_has_def)
  moreover have "CheckPacketSentDuringCurrentQuota t (Pi_ChannelID i) (Pkt_Sequence p)"
    by (simp add: counted(3) pending_after_set)
  moreover have "GetRateLimit t (Pi_Denom i) (Pi_ChannelID i) = Some (add_outflow (Pi_Amount i) r)"
    by (simp add: counted(3) GetRateLimit_SetRateLimit k)
  ultimately show ?thesis
    by (simp add: TimeoutRateLimitedPacket_def op_bind_def op_lift_def UndoSendPacket_def counted(1) Let_def
        Int_Sub_def Int_chk_def)
       (simp add: counted(3) SetRateLimit_def SetPendingSendPacket_def RemovePendingSendPacket_def k
          add_outflow_undo)
qed

lemma send_then_timeout_restores_witness:
  "TimeoutRateLimitedPacket ref_lib (ex_packet 7 ''channel-1'')
     (SetPendingSendPacket ''channel-1'' 7 (SetRateLimit (add_outflow 40 ex_limit) ex_rl)) = (Ok (), ex_rl)"
proof (rule send_then_timeout_restores [OF _ _ _ ex_send])
  show "limits_ok ex_rl" by (simp add: ex_rl_def)
  show "\<forall>k r. kv_get (rl_limits ex_rl) k = Some r \<longrightarrow> int_fits ref_lib (Outflow (Rl_Flow r))"
    by (auto simp: ex_rl_def SetRateLimit_def rl_empty_def ex_limit_def split: if_splits)
  show "\<not> CheckPacketSentDuringCurrentQuota ex_rl (Pkt_SourceChannel (ex_packet 7 ''channel-1''))
          (Pkt_Sequence (ex_packet 7 ''channel-1''))"
    by (simp add: CheckPacketSentDuringCurrentQuota_def ex_rl_def) (simp add: rl_empty_def)
qed

end
