(* ===== verification/App_Modules.thy ===== *)
theory App_Modules
  imports App_Export Tx_Boundary Upgrades_Props Ratelimit_Props
begin

text \<open>
  How \<open>app.go\<close> puts its modules together: the modules of the manager, the orders in which they begin a block,
  end a block and are initialised, the permissions of the module accounts, and the begin of a block through the
  modules of this repository.
\<close>

section \<open>Modules\<close>

text \<open>The modules by the packages that name them.\<close>

datatype app_module =
    genutil | auth | vesting | bank | capability | feegrant | group_m | crisis | gov | mint | slashing | distr
  | staking | authz | upgrade | evidence | ibchost | params | ibctransfer | icq | consensusparam | wasm08 | wasm
  | router | transfermiddleware | txboundary | ica | ratelimit | alliance | ibchooks

definition ModuleManager :: "app_module list" where
  "ModuleManager =
     [genutil, auth, vesting, bank, capability, feegrant, group_m, crisis, gov, mint, slashing, distr, staking, authz,
      upgrade, evidence, ibchost, params, ibctransfer, icq, consensusparam, wasm08, wasm, router, transfermiddleware,
      txboundary, ica, ratelimit, alliance]"

definition OrderBeginBlockers :: "app_module list" where
  "OrderBeginBlockers =
     [upgrade, capability, mint, distr, slashing, evidence, staking, vesting, ibchost, ibctransfer, router,
      transfermiddleware, txboundary, ratelimit, ibchooks, icq, auth, bank, gov, crisis, genutil, authz, feegrant,
      group_m, params, consensusparam, wasm08, ica, wasm, alliance]"

definition OrderEndBlockers :: "app_module list" where
  "OrderEndBlockers =
     [crisis, gov, staking, capability, mint, auth, bank, distr, slashing, vesting, genutil, evidence, authz, feegrant,
      group_m, params, upgrade, ibchost, router, transfermiddleware, txboundary, ratelimit, ibchooks, ibctransfer, icq,
      consensusparam, wasm08, ica, wasm, alliance]"

definition OrderInitGenesis :: "app_module list" where
  "OrderInitGenesis =
     [capability, auth, bank, distr, staking, vesting, slashing, gov, mint, crisis, ibchost, genutil, evidence, authz,
      params, upgrade, ibctransfer, icq, router, transfermiddleware, txboundary, ratelimit, ibchooks, feegrant, group_m,
      consensusparam, wasm08, ica, wasm, alliance]"

section \<open>Module accounts\<close>

datatype module_account =
    FeeCollector | Acc app_module | BondedPool | NotBondedPool | AllianceRewardsPool

datatype permission = Minter_p | Burner_p | Staking_p

definition maccPerms :: "(module_account \<times> permission list) list" where
  "maccPerms =
     [(FeeCollector, []),
      (Acc distr, []),
      (Acc mint, [Minter_p]),
      (BondedPool, [Burner_p, Staking_p]),
      (NotBondedPool, [Burner_p, Staking_p]),
      (Acc gov, [Burner_p]),
      (Acc transfermiddleware, [Minter_p, Burner_p]),
      (Acc ibctransfer, [Minter_p, Burner_p]),
      (Acc alliance, [Minter_p, Burner_p]),
      (AllianceRewardsPool, []),
      (Acc ica, []),
      (Acc wasm, [])]"

definition has_permission :: "module_account \<Rightarrow> permission \<Rightarrow> bool" where
  "has_permission a p = (case map_of maccPerms a of None \<Rightarrow> False | Some ps \<Rightarrow> p \<in> set ps)"

section \<open>The begin of a block\<close>

text \<open>
  \<open>BeginBlock\<close> of a module: those of this repository run their begin blocker, \<open>x/tx-boundary\<close> does nothing,
  \<open>ibchooks\<close> is not in the manager, and the others are parameters. The mint module is built without an inflation
  function and uses the default.
\<close>

definition mint_inflationCalculator ::
    "dec_ops \<Rightarrow> (Minter \<Rightarrow> mint_Params \<Rightarrow> Dec \<Rightarrow> int \<Rightarrow> Dec res) option \<Rightarrow> Minter \<Rightarrow> mint_Params \<Rightarrow> Dec \<Rightarrow> int \<Rightarrow> Dec res" where
  "mint_inflationCalculator A ic = (case ic of None \<Rightarrow> DefaultInflationCalculationFn A | Some f \<Rightarrow> f)"

record 'b begin_env =
  be_lib :: lib
  be_dec :: dec_ops
  be_mint :: "'b mint_Keeper"
  be_reads :: "'b rl_reads"
  be_other :: "app_module \<Rightarrow> ctx \<Rightarrow> ('b app_state, unit) op"

definition mint_BeginBlock :: "'b begin_env \<Rightarrow> ('b app_state, unit) op" where
  "mint_BeginBlock E =
     op_on (\<lambda>s. \<lparr>mw_store = as_mint s, mw_ext = as_ext s\<rparr>) (\<lambda>w s. s\<lparr>as_mint := mw_store w, as_ext := mw_ext w\<rparr>)
       (mint_BeginBlocker (be_lib E) (be_dec E) (be_mint E) (mint_inflationCalculator (be_dec E) None))"

definition tfmw_BeginBlock :: "ctx \<Rightarrow> ('b app_state, unit) op" where
  "tfmw_BeginBlock ctx s = (Ok (), s\<lparr>as_tfmw := tfmw_BeginBlocker ctx (as_tfmw s)\<rparr>)"

definition txb_BeginBlock :: "('b app_state, unit) op" where
  "txb_BeginBlock s = (Ok (), s)"

definition ratelimit_BeginBlock :: "'b begin_env \<Rightarrow> ctx \<Rightarrow> ('b app_state, unit) op" where
  "ratelimit_BeginBlock E ctx s = on_as_rl (rl_BeginBlocker (app_rl_env (be_reads E) s) ctx) s"

definition module_BeginBlock :: "'b begin_env \<Rightarrow> ctx \<Rightarrow> app_module \<Rightarrow> ('b app_state, unit) op" where
  "module_BeginBlock E ctx m =
     (case m of
        mint \<Rightarrow> mint_BeginBlock E
      | transfermiddleware \<Rightarrow> tfmw_BeginBlock ctx
      | txboundary \<Rightarrow> txb_BeginBlock
      | ratelimit \<Rightarrow> ratelimit_BeginBlock E ctx
      | ibchooks \<Rightarrow> op_lift (Ok ())
      | _ \<Rightarrow> be_other E m ctx)"

definition app_BeginBlock :: "'b begin_env \<Rightarrow> ctx \<Rightarrow> ('b app_state, unit) op" where
  "app_BeginBlock E =
     app_BeginBlocker app_Forks (\<lambda>ctx. op_each (module_BeginBlock E ctx) OrderBeginBlockers)"

section \<open>What the orders promise\<close>

lemmas order_defs = ModuleManager_def OrderBeginBlockers_def OrderEndBlockers_def OrderInitGenesis_def

text \<open>Every module of the manager has one place in each order; only \<open>ibchooks\<close> is named without being in it.\<close>

lemma orders_complete:
  "distinct OrderBeginBlockers \<and> set OrderBeginBlockers = insert ibchooks (set ModuleManager)"
  "distinct OrderEndBlockers \<and> set OrderEndBlockers = insert ibchooks (set ModuleManager)"
  "distinct OrderInitGenesis \<and> set OrderInitGenesis = insert ibchooks (set ModuleManager)"
  "distinct ModuleManager \<and> ibchooks \<notin> set ModuleManager"
  by (simp_all add: order_defs, blast+)

definition earlier :: "'m list \<Rightarrow> 'm \<Rightarrow> 'm \<Rightarrow> bool" where
  "earlier ms a b \<longleftrightarrow> b \<in> set ms \<and> a \<in> set (takeWhile (\<lambda>m. m \<noteq> b) ms)"

text \<open>The comments beside the orders.\<close>

lemma documented_orders:
  "earlier OrderBeginBlockers distr slashing"
  "staking \<in> set OrderBeginBlockers"
  "earlier OrderInitGenesis staking genutil"
  "hd OrderInitGenesis = capability"
  "earlier OrderBeginBlockers mint distr"
  by (simp_all add: earlier_def order_defs)

text \<open>The module accounts that this repository mints to or burns from may do so; that of mint may not burn.\<close>

lemma permissions_suffice:
  "has_permission (Acc transfermiddleware) Minter_p"
  "has_permission (Acc ibctransfer) Burner_p"
  "has_permission (Acc mint) Minter_p"
  "\<not> has_permission (Acc mint) Burner_p"
  by (simp_all add: has_permission_def maccPerms_def)

section \<open>The invariants over the begin of a block\<close>

text \<open>The modules of the SDK and of ibc-go do not write the stores of the transfer middleware and the rate limiter.\<close>

definition others_keep_stores :: "'b begin_env \<Rightarrow> bool" where
  "others_keep_stores E \<longleftrightarrow>
     (\<forall>m ctx s. as_tfmw (snd (be_other E m ctx s)) = as_tfmw s \<and> as_rl (snd (be_other E m ctx s)) = as_rl s)"

definition app_inv :: "'b app_state \<Rightarrow> bool" where
  "app_inv s \<longleftrightarrow> registry_ok (as_tfmw s) \<and> limits_safe (as_rl s)"

lemma app_inv_frame: "as_tfmw t = as_tfmw s \<Longrightarrow> as_rl t = as_rl s \<Longrightarrow> app_inv s \<Longrightarrow> app_inv t"
  by (simp add: app_inv_def)

lemma app_inv_custom:
  assumes "app_inv s"
  shows "app_inv (snd (mint_BeginBlock E s))"
    and "app_inv (snd (tfmw_BeginBlock ctx s))"
    and "app_inv (snd (txb_BeginBlock s))"
    and "app_inv (snd (ratelimit_BeginBlock E ctx s))"
proof -
  show "app_inv (snd (mint_BeginBlock E s))"
    by (rule app_inv_frame [OF _ _ assms]) (simp_all add: mint_BeginBlock_def op_on_def split: prod.split)
  show "app_inv (snd (tfmw_BeginBlock ctx s))"
    using assms by (simp add: app_inv_def tfmw_BeginBlock_def registry_ok_BeginBlocker)
  show "app_inv (snd (txb_BeginBlock s))"
    using assms by (simp add: txb_BeginBlock_def)
  show "app_inv (snd (ratelimit_BeginBlock E ctx s))"
    using assms limits_safe_BeginBlocker [of "as_rl s" "app_rl_env (be_reads E) s" ctx]
    by (cases "rl_BeginBlocker (app_rl_env (be_reads E) s) ctx (as_rl s)")
      (simp add: app_inv_def ratelimit_BeginBlock_def on_as_rl_def op_on_def)
qed

lemma app_inv_module:
  assumes "others_keep_stores E" "app_inv s"
  shows "app_inv (snd (module_BeginBlock E ctx m s))"
proof -
  have "app_inv (snd (be_other E m ctx s))" for m
    by (rule app_inv_frame [OF _ _ assms(2)]) (use assms(1) in \<open>simp_all add: others_keep_stores_def\<close>)
  then show ?thesis
    using app_inv_custom [OF assms(2)] assms(2)
    by (simp add: module_BeginBlock_def op_lift_def split: app_module.split)
qed

text \<open>
  The begin of a block keeps the invariants of the chain's own modules, whatever the other modules do in
  their own stores and wherever the block stops: after the begin blockers of all modules have run in the order of
  the application, or up to the one that fails, the token registry is consistent and the net outflow of every
  rate limit is within its allowance.
\<close>

lemma begin_block_keeps_invariants:
  assumes "others_keep_stores E" "registry_ok (as_tfmw s)" "limits_safe (as_rl s)"
  shows "registry_ok (as_tfmw (snd (app_BeginBlock E ctx s))) \<and> limits_safe (as_rl (snd (app_BeginBlock E ctx s)))"
proof -
  have "app_inv (snd (op_each (module_BeginBlock E ctx) OrderBeginBlockers s))"
    by (rule op_each_inv [where P = app_inv])
      (use assms app_inv_module in \<open>auto simp: app_inv_def [of s]\<close>)
  then show ?thesis
    by (simp add: app_BeginBlock_def app_BeginBlocker_def app_Forks_def op_bind_def app_inv_def)
qed

definition demo_begin :: "ledger begin_env" where
  "demo_begin =
     \<lparr>be_lib = ref_lib, be_dec = ref_dec, be_mint = ex_mint_keeper, be_reads = \<lparr>rd_supply = (\<lambda>_ _. 1000)\<rparr>,
      be_other = (\<lambda>_ _ s. (Ok (), s))\<rparr>"

definition demo_chain :: "ledger app_state" where
  "demo_chain =
     \<lparr>as_tfmw = ex_removing, as_rl = ex_rl, as_mint = mw_store ex_mint_world, as_staking = kv_empty,
      as_slashing = kv_empty, as_gov = kv_empty, as_auth = kv_empty, as_ext = mw_ext ex_mint_world\<rparr>"

lemma begin_block_keeps_invariants_witness:
  "registry_ok ex_removing \<and> limits_safe ex_rl \<and>
   registry_ok (as_tfmw (snd (app_BeginBlock demo_begin \<lparr>BlockTime = 20, BlockHeight = 7\<rparr> demo_chain))) \<and>
   limits_safe (as_rl (snd (app_BeginBlock demo_begin \<lparr>BlockTime = 20, BlockHeight = 7\<rparr> demo_chain)))"
proof -
  have "others_keep_stores demo_begin" by (simp add: others_keep_stores_def demo_begin_def)
  moreover have "registry_ok (as_tfmw demo_chain)"
    using reachable_registry_ok [OF ex_removing_reachable] by (simp add: demo_chain_def)
  moreover have "limits_safe (as_rl demo_chain)"
    using reachable_limits_safe [OF ex_rl_reachable] by (simp add: demo_chain_def)
  ultimately show ?thesis
    using begin_block_keeps_invariants [of demo_begin demo_chain "\<lparr>BlockTime = 20, BlockHeight = 7\<rparr>"]
    by (simp add: demo_chain_def)
qed

end
