(* ===== verification/Keeper_Names.thy ===== *)
theory Keeper_Names
  imports Main
begin

text \<open>
  The names of the keepers of the application (\<open>app/keepers/keepers.go\<close>): the fields of \<open>AppKeepers\<close> and the local
  variables of the function that builds them.
\<close>

text \<open>The fields of \<open>AppKeepers\<close>, then the local variables of \<open>InitNormalKeepers\<close>.\<close>

datatype keeper =
    AccountKeeper | BankKeeper | CapabilityKeeper | StakingKeeper | SlashingKeeper | MintKeeper | DistrKeeper | GovKeeper
  | CrisisKeeper | UpgradeKeeper | ParamsKeeper | IBCKeeper | EvidenceKeeper | TransferKeeper | ICQKeeper | ICAHostKeeper
  | FeeGrantKeeper | AuthzKeeper | GroupKeeper | Wasm08Keeper | WasmKeeper | IBCHooksKeeper | Ics20WasmHooks
  | HooksICS4Wrapper | ScopedIBCKeeper | ScopedTransferKeeper | ScopedWasmKeeper | ScopedICAHostKeeper
  | ScopedRateLimitKeeper | ConsensusParamsKeeper | TransferMiddlewareKeeper | TxBoundaryKeepper | RouterKeeper
  | RatelimitKeeper | AllianceKeeper
  | icaHostStack | hooksKeeper | wasmKeeper | wasmHooks | hooksICS4Wrapper | transferIBCModule | scopedICQKeeper
  | icqIBCModule | transfermiddlewareStack | ibcMiddlewareStack | ratelimitMiddlewareStack | hooksTransferMiddleware
  | evidenceKeeper | govRouter | govKeeper | ibcRouter | ParamStore

definition AppKeepers :: "keeper list" where
  "AppKeepers =
     [AccountKeeper, BankKeeper, CapabilityKeeper, StakingKeeper, SlashingKeeper, MintKeeper, DistrKeeper, GovKeeper,
      CrisisKeeper, UpgradeKeeper, ParamsKeeper, IBCKeeper, EvidenceKeeper, TransferKeeper, ICQKeeper, ICAHostKeeper,
      FeeGrantKeeper, AuthzKeeper, GroupKeeper, Wasm08Keeper, WasmKeeper, IBCHooksKeeper, Ics20WasmHooks,
      HooksICS4Wrapper, ScopedIBCKeeper, ScopedTransferKeeper, ScopedWasmKeeper, ScopedICAHostKeeper,
      ScopedRateLimitKeeper, ConsensusParamsKeeper, TransferMiddlewareKeeper, TxBoundaryKeepper, RouterKeeper,
      RatelimitKeeper, AllianceKeeper]"

text \<open>The fields and variables that are pointers: giving one of them away gives a reference.\<close>

definition is_pointer :: "keeper \<Rightarrow> bool" where
  "is_pointer k \<longleftrightarrow>
     k \<in> set [CapabilityKeeper, StakingKeeper, CrisisKeeper, UpgradeKeeper, IBCKeeper, IBCHooksKeeper, Ics20WasmHooks,
       RouterKeeper, evidenceKeeper]"

end
