(* ===== verification/Keepers.thy ===== *)
theory Keepers
  imports App_Modules Keeper_Names "HOL-Library.AList"
begin

text \<open>
  The construction of the keepers (\<open>app/keepers/keepers.go\<close>, \<open>keys.go\<close>): in which order they are built, what each of
  them is given, and whether it is given a copy or a reference. A keeper that is copied before it is built, or before
  it is changed, stays as it was in the copy; a reference sees the keeper the application ends up with.
\<close>

section \<open>Store keys\<close>

text \<open>The keys by the modules that own them.\<close>

definition kv_store_keys :: "app_module list" where
  "kv_store_keys =
     [auth, bank, staking, distr, slashing, gov, params, ibchost, upgrade, feegrant, evidence, ibctransfer, icq,
      capability, consensusparam, wasm08, crisis, router, transfermiddleware, group_m, mint, alliance, wasm, ibchooks,
      ica, ratelimit, txboundary, authz]"

definition transient_store_keys :: "app_module list" where
  "transient_store_keys = [params]"

definition memory_store_keys :: "app_module list" where
  "memory_store_keys = [capability]"

record store_keys =
  sk_keys :: "app_module list"
  sk_tkeys :: "app_module list"
  sk_memKeys :: "app_module list"

definition GenerateKeys :: store_keys where
  "GenerateKeys = \<lparr>sk_keys = kv_store_keys, sk_tkeys = transient_store_keys, sk_memKeys = memory_store_keys\<rparr>"

definition GetKey :: "store_keys \<Rightarrow> app_module \<Rightarrow> app_module option" where
  "GetKey K m = (if m \<in> set (sk_keys K) then Some m else None)"

definition GetTKey :: "store_keys \<Rightarrow> app_module \<Rightarrow> app_module option" where
  "GetTKey K m = (if m \<in> set (sk_tkeys K) then Some m else None)"

definition GetMemKey :: "store_keys \<Rightarrow> app_module \<Rightarrow> app_module option" where
  "GetMemKey K m = (if m \<in> set (sk_memKeys K) then Some m else None)"

section \<open>Parameter subspaces\<close>

text \<open>The subspaces, and whether they get a key table at once.\<close>

definition initParamsKeeper :: "(app_module \<times> bool) list" where
  "initParamsKeeper =
     [(auth, False), (bank, False), (staking, False), (distr, False), (slashing, False), (router, True), (gov, True),
      (mint, True), (crisis, False), (ibctransfer, False), (ratelimit, False), (icq, True), (ibchost, False),
      (ica, True), (alliance, False), (wasm, False), (transfermiddleware, False)]"

text \<open>A subspace that is not there is the zero value; the error is dropped.\<close>

definition GetSubspace :: "app_module \<Rightarrow> app_module option" where
  "GetSubspace moduleName = (if moduleName \<in> fst ` set initParamsKeeper then Some moduleName else None)"

section \<open>Keepers\<close>

text \<open>
  An argument is a field or variable, or its address. A keeper is built with a store key, a parameter subspace, an
  authority, the wrapper or module it passes calls on to, and other keepers, each named once; codecs, routers of the
  base application, blocked addresses and options are left out. \<open>Change\<close> is a method that alters a keeper in place.
\<close>

datatype argument = Use keeper | Addr keeper

datatype authority = NoAuthority | GovModule | AuthorityAddress | GovOrDevnet

datatype wire =
    Build keeper "app_module option" "app_module option" authority "argument option" "argument list"
  | Change keeper "argument list"

definition plain :: "keeper \<Rightarrow> argument list \<Rightarrow> wire" where
  "plain k args = Build k None None NoAuthority None args"

definition onto :: "keeper \<Rightarrow> argument \<Rightarrow> argument list \<Rightarrow> wire" where
  "onto k below args = Build k None None NoAuthority (Some below) args"

definition AccountAddressPrefix :: string where
  "AccountAddressPrefix = ''composable''"

definition authorityAddress :: string where
  "authorityAddress = ''centauri10556m38z4x6pqalr9rl5ytf3cff8q46nk85k9m''"

definition InitSpecialKeepers :: "wire list" where
  "InitSpecialKeepers =
     [Build ParamsKeeper (Some params) None NoAuthority None [],
      Build CapabilityKeeper (Some capability) None NoAuthority None [],
      Build ConsensusParamsKeeper (Some consensusparam) None GovModule None [],
      plain ParamStore [Addr ConsensusParamsKeeper],
      plain ScopedIBCKeeper [Use CapabilityKeeper],
      plain ScopedTransferKeeper [Use CapabilityKeeper],
      plain ScopedWasmKeeper [Use CapabilityKeeper],
      plain ScopedICAHostKeeper [Use CapabilityKeeper],
      plain ScopedRateLimitKeeper [Use CapabilityKeeper],
      Build UpgradeKeeper (Some upgrade) None GovModule None []]"

definition base_keepers :: "wire list" where
  "base_keepers =
     [Build AccountKeeper (Some auth) None GovModule None [],
      Build BankKeeper (Some bank) None GovModule None [Use AccountKeeper, Addr TransferMiddlewareKeeper],
      Build AuthzKeeper (Some authz) None NoAuthority None [Use AccountKeeper],
      Build StakingKeeper (Some staking) None GovModule None [Use AccountKeeper, Use BankKeeper],
      Build MintKeeper (Some mint) None GovModule None [Use StakingKeeper, Use AccountKeeper, Use BankKeeper],
      Build DistrKeeper (Some distr) None GovModule None [Use AccountKeeper, Use BankKeeper, Use StakingKeeper],
      Build SlashingKeeper (Some slashing) None GovModule None [Use StakingKeeper],
      Build CrisisKeeper (Some crisis) None GovModule None [Use BankKeeper],
      Build GroupKeeper (Some group_m) None NoAuthority None [Use AccountKeeper],
      Build FeeGrantKeeper (Some feegrant) None NoAuthority None [Use AccountKeeper],
      Build UpgradeKeeper (Some upgrade) None GovModule None [],
      Build AllianceKeeper (Some alliance) (Some alliance) NoAuthority None
        [Use AccountKeeper, Use BankKeeper, Use StakingKeeper, Use DistrKeeper],
      Change BankKeeper [Use AllianceKeeper, Use StakingKeeper],
      Change StakingKeeper [Use DistrKeeper, Use SlashingKeeper, Use AllianceKeeper]]"

definition ibc_keepers :: "wire list" where
  "ibc_keepers =
     [Build IBCKeeper (Some ibchost) (Some ibchost) NoAuthority None
        [Use StakingKeeper, Use UpgradeKeeper, Use ScopedIBCKeeper],
      Build Wasm08Keeper (Some wasm08) None GovOrDevnet None [Use IBCKeeper],
      Build ICAHostKeeper (Some ica) (Some ica) NoAuthority (Some (Use IBCKeeper))
        [Use IBCKeeper, Use AccountKeeper, Use ScopedICAHostKeeper],
      plain icaHostStack [Use ICAHostKeeper],
      Build hooksKeeper (Some ibchooks) None NoAuthority None [],
      plain IBCHooksKeeper [Addr hooksKeeper],
      Build TransferMiddlewareKeeper (Some transfermiddleware) (Some transfermiddleware) AuthorityAddress
        (Some (Addr RatelimitKeeper)) [Addr TransferKeeper, Use BankKeeper],
      Build TxBoundaryKeepper (Some txboundary) None AuthorityAddress None [],
      Build TransferKeeper (Some ibctransfer) (Some ibctransfer) NoAuthority (Some (Addr TransferMiddlewareKeeper))
        [Use IBCKeeper, Use AccountKeeper, Use BankKeeper, Use ScopedTransferKeeper],
      Build RouterKeeper (Some router) (Some router) NoAuthority None
        [Use TransferKeeper, Use IBCKeeper, Addr DistrKeeper, Use BankKeeper, Use TransferMiddlewareKeeper]]"

definition wasm_keepers :: "wire list" where
  "wasm_keepers =
     [Build wasmKeeper (Some wasm) None GovOrDevnet (Some (Use IBCKeeper))
        [Use AccountKeeper, Use BankKeeper, Use StakingKeeper, Use DistrKeeper, Use IBCKeeper, Use ScopedWasmKeeper,
         Use TransferKeeper],
      plain wasmHooks [Addr hooksKeeper, Addr wasmKeeper],
      onto hooksICS4Wrapper (Use IBCKeeper) [Use wasmHooks],
      plain Ics20WasmHooks [Addr wasmHooks],
      plain HooksICS4Wrapper [Use hooksICS4Wrapper],
      plain WasmKeeper [Use wasmKeeper],
      Build RatelimitKeeper (Some ratelimit) (Some ratelimit) GovModule (Some (Addr hooksICS4Wrapper))
        [Use BankKeeper, Use IBCKeeper, Use TransferMiddlewareKeeper]]"

definition stack_keepers :: "wire list" where
  "stack_keepers =
     [plain transferIBCModule [Use TransferKeeper],
      plain scopedICQKeeper [Use CapabilityKeeper],
      Build ICQKeeper (Some icq) None GovModule (Some (Use IBCKeeper)) [Use IBCKeeper, Use scopedICQKeeper],
      plain icqIBCModule [Use ICQKeeper],
      onto transfermiddlewareStack (Use transferIBCModule) [Use TransferMiddlewareKeeper],
      onto ibcMiddlewareStack (Use transfermiddlewareStack) [Use RouterKeeper],
      onto ratelimitMiddlewareStack (Use ibcMiddlewareStack) [Use RatelimitKeeper],
      onto hooksTransferMiddleware (Use ratelimitMiddlewareStack) [Addr hooksICS4Wrapper]]"

definition gov_keepers :: "wire list" where
  "gov_keepers =
     [Build evidenceKeeper (Some evidence) None NoAuthority None [Use StakingKeeper, Use SlashingKeeper],
      plain EvidenceKeeper [Use evidenceKeeper],
      plain govRouter [Use ParamsKeeper, Use UpgradeKeeper, Use IBCKeeper, Use AllianceKeeper],
      Build govKeeper (Some gov) None GovModule None [Use AccountKeeper, Use BankKeeper, Use StakingKeeper],
      Change govKeeper [Use govRouter],
      plain GovKeeper [Use govKeeper],
      plain ibcRouter [Use hooksTransferMiddleware, Use icqIBCModule, Use WasmKeeper, Use IBCKeeper, Use icaHostStack],
      Change IBCKeeper [Use ibcRouter]]"

definition InitNormalKeepers :: "wire list" where
  "InitNormalKeepers = base_keepers @ ibc_keepers @ wasm_keepers @ stack_keepers @ gov_keepers"

section \<open>Running the construction\<close>

text \<open>
  The state counts how often a keeper was built and changed, and records what was handed out: a copy with the counts
  of that moment, a reference with the count of builds, and the address of a field. A part of the IBC keeper, such as
  its channel keeper, is written as the IBC keeper.
\<close>

record wiring =
  wi_built :: "(keeper \<times> nat \<times> nat) list"
  wi_copies :: "(keeper \<times> keeper \<times> nat \<times> nat) list"
  wi_refs :: "(keeper \<times> keeper \<times> nat) list"
  wi_addrs :: "(keeper \<times> keeper) list"
  wi_missing :: "(keeper \<times> keeper) list"

definition wiring_start :: wiring where
  "wiring_start = \<lparr>wi_built = [], wi_copies = [], wi_refs = [], wi_addrs = [], wi_missing = []\<rparr>"

fun hand_out :: "keeper \<Rightarrow> wiring \<Rightarrow> argument \<Rightarrow> wiring" where
  "hand_out target w (Addr k) = w\<lparr>wi_addrs := (target, k) # wi_addrs w\<rparr>"
| "hand_out target w (Use k) =
     (case map_of (wi_built w) k of
        None \<Rightarrow> w\<lparr>wi_missing := (target, k) # wi_missing w\<rparr>
      | Some (b, c) \<Rightarrow>
          if is_pointer k then w\<lparr>wi_refs := (target, k, b) # wi_refs w\<rparr>
          else w\<lparr>wi_copies := (target, k, b, c) # wi_copies w\<rparr>)"

fun wire_args :: "wire \<Rightarrow> argument list" where
  "wire_args (Build k store subspace au below args) =
     (case subspace of None \<Rightarrow> [] | Some _ \<Rightarrow> [Use ParamsKeeper]) @
     (case below of None \<Rightarrow> [] | Some a \<Rightarrow> [a]) @ args"
| "wire_args (Change k args) = args"

definition count_build :: "keeper \<Rightarrow> wiring \<Rightarrow> wiring" where
  "count_build k w =
     w\<lparr>wi_built :=
         AList.update k (case map_of (wi_built w) k of None \<Rightarrow> (0, 0) | Some (b, c) \<Rightarrow> (Suc b, 0)) (wi_built w)\<rparr>"

definition count_change :: "keeper \<Rightarrow> wiring \<Rightarrow> wiring" where
  "count_change k w =
     (case map_of (wi_built w) k of
        None \<Rightarrow> w\<lparr>wi_missing := (k, k) # wi_missing w\<rparr>
      | Some (b, c) \<Rightarrow> w\<lparr>wi_built := AList.update k (b, Suc c) (wi_built w)\<rparr>)"

fun wire_step :: "wiring \<Rightarrow> wire \<Rightarrow> wiring" where
  "wire_step w (Build k store subspace au below args) =
     count_build k (foldl (hand_out k) w (wire_args (Build k store subspace au below args)))"
| "wire_step w (Change k args) = count_change k (foldl (hand_out k) w args)"

definition wired :: wiring where
  "wired = foldl wire_step wiring_start (InitSpecialKeepers @ InitNormalKeepers)"

text \<open>What was handed out and is not the keeper the application ends up with.\<close>

definition stale_copies :: "wiring \<Rightarrow> (keeper \<times> keeper) list" where
  "stale_copies w = [(t, k). (t, k, b, c) \<leftarrow> wi_copies w, map_of (wi_built w) k \<noteq> Some (b, c)]"

definition stale_refs :: "wiring \<Rightarrow> (keeper \<times> keeper) list" where
  "stale_refs w = [(t, k). (t, k, b) \<leftarrow> wi_refs w, map_option fst (map_of (wi_built w) k) \<noteq> Some b]"

definition unresolved :: "wiring \<Rightarrow> (keeper \<times> keeper) list" where
  "unresolved w = filter (\<lambda>(t, k). map_of (wi_built w) k = None) (wi_addrs w)"

definition unbuilt :: "wiring \<Rightarrow> keeper list" where
  "unbuilt w = filter (\<lambda>k. map_of (wi_built w) k = None) AppKeepers"

text \<open>
  The keepers a call is passed on to, from the one that is given. \<open>fuel\<close> bounds the length of the chain; no chain is
  longer than the number of keepers.
\<close>

definition below_of :: "keeper \<Rightarrow> keeper option" where
  "below_of t =
     (case [a. Build k store subspace au (Some a) args \<leftarrow> InitNormalKeepers, k = t] of
        [] \<Rightarrow> None
      | Use k # _ \<Rightarrow> Some k
      | Addr k # _ \<Rightarrow> Some k)"

fun passes_to :: "nat \<Rightarrow> keeper \<Rightarrow> keeper list" where
  "passes_to 0 t = []"
| "passes_to (Suc fuel) t = (case below_of t of None \<Rightarrow> [] | Some k \<Rightarrow> k # passes_to fuel k)"

section \<open>What the construction promises\<close>

definition stores_of :: "wire list \<Rightarrow> app_module list" where
  "stores_of ws = [m. Build k (Some m) subspace au below args \<leftarrow> ws]"

definition subspaces_of :: "wire list \<Rightarrow> app_module list" where
  "subspaces_of ws = [m. Build k store (Some m) au below args \<leftarrow> ws]"

lemma stores_generated:
  "set (stores_of (InitSpecialKeepers @ InitNormalKeepers)) = set (sk_keys GenerateKeys)"
  by code_simp

lemma subspaces_registered: "list_all (\<lambda>m. GetSubspace m = Some m) (subspaces_of InitNormalKeepers)"
  by code_simp

lemma store_keys_distinct: "distinct (sk_keys GenerateKeys)"
  by (simp add: GenerateKeys_def kv_store_keys_def)

lemma wiring_faults:
  "(wi_missing wired, unresolved wired, stale_refs wired, unbuilt wired, stale_copies wired) =
     ([], [], [], [],
      [(AllianceKeeper, BankKeeper), (CrisisKeeper, BankKeeper), (DistrKeeper, BankKeeper), (MintKeeper, BankKeeper),
       (StakingKeeper, BankKeeper)])"
  by code_simp

lemma send_chain:
  "passes_to 10 TransferKeeper = [TransferMiddlewareKeeper, RatelimitKeeper, hooksICS4Wrapper, IBCKeeper]"
  by code_simp

lemma receive_chain:
  "passes_to 10 hooksTransferMiddleware =
     [ratelimitMiddlewareStack, ibcMiddlewareStack, transfermiddlewareStack, transferIBCModule]"
  by code_simp

text \<open>
  Two keepers answer to a fixed address and not to governance; the scope of the rate limiter is made and given to
  nobody; the account keeper is built with a prefix that is not the prefix of the chain.
\<close>

definition answers_to :: "authority \<Rightarrow> keeper list" where
  "answers_to who = [k. Build k store subspace au below args \<leftarrow> InitSpecialKeepers @ InitNormalKeepers, au = who]"

lemma fixed_authority: "answers_to AuthorityAddress = [TransferMiddlewareKeeper, TxBoundaryKeepper]"
  by code_simp

lemma rate_limit_scope_unused:
  "list_all (\<lambda>x. Use ScopedRateLimitKeeper \<notin> set (wire_args x) \<and> Addr ScopedRateLimitKeeper \<notin> set (wire_args x))
     (InitSpecialKeepers @ InitNormalKeepers)"
  by code_simp

lemma account_prefix_differs: "AccountAddressPrefix \<noteq> Bech32PrefixAccAddr"
  by code_simp

text \<open>
  The keepers are put together in a sound order. Nothing is handed out before it is built, every field of the
  application's keepers is built and every address that is handed out leads to a built keeper, and every reference
  leads to the keeper the application ends up with. The only copies that fall behind are those of the bank keeper in
  the staking, mint, distribution, crisis and alliance keepers, which are made before the bank keeper learns of the
  alliance and staking keepers. The stores the keepers use are those whose keys are generated, and calls of the
  transfer application pass the keepers and modules in the order the comments give.
\<close>

lemma keepers_wired:
  "wi_missing wired = [] \<and> unbuilt wired = [] \<and> unresolved wired = [] \<and> stale_refs wired = [] \<and>
   set (stale_copies wired) =
     {StakingKeeper, MintKeeper, DistrKeeper, CrisisKeeper, AllianceKeeper} \<times> {BankKeeper} \<and>
   set (stores_of (InitSpecialKeepers @ InitNormalKeepers)) = set (sk_keys GenerateKeys) \<and>
   passes_to 10 TransferKeeper = [TransferMiddlewareKeeper, RatelimitKeeper, hooksICS4Wrapper, IBCKeeper] \<and>
   passes_to 10 hooksTransferMiddleware =
     [ratelimitMiddlewareStack, ibcMiddlewareStack, transfermiddlewareStack, transferIBCModule]"
  using wiring_faults stores_generated send_chain receive_chain by auto

end
