(* ===== verification/App_Services.thy ===== *)
theory App_Services
  imports Keepers
begin

text \<open>
  The messages of this repository's modules and the way they reach their handlers: the types each module registers
  with the codecs (\<open>x/*/types/codec.go\<close>, \<open>app/encoding.go\<close>), the services it registers with the message router
  (\<open>RegisterServices\<close> in \<open>x/*/module.go\<close>), and the modules both are collected from (\<open>app.go\<close>).
\<close>

section \<open>Messages\<close>

datatype chain_msg =
    Add_Parachain MsgAddParachainIBCTokenInfo
  | Remove_Parachain MsgRemoveParachainIBCTokenInfo
  | Add_Relayer MsgAddRlyAddress
  | Add_Limit MsgAddRateLimit
  | Update_Limit MsgUpdateRateLimit
  | Remove_Limit MsgRemoveRateLimit
  | Reset_Limit MsgResetRateLimit
  | Update_Mint_Params MsgUpdateParams
  | Fund_Mint MsgFundModuleAccount
  | Allow_Funder MsgAddAccountToFundModuleSet
  | Update_Delegate_Boundary MsgUpdateDelegateBoundary
  | Update_Redelegate_Boundary MsgUpdateRedelegateBoundary

text \<open>The type URL a message is packed under.\<close>

definition tfmw_url :: "string \<Rightarrow> string" where
  "tfmw_url n = ''/composable.transfermiddleware.v1beta1.'' @ n"

definition rl_url :: "string \<Rightarrow> string" where
  "rl_url n = ''/composable.ratelimit.v1beta1.'' @ n"

definition mint_url :: "string \<Rightarrow> string" where
  "mint_url n = ''/composable.mint.v1beta1.'' @ n"

definition txb_url :: "string \<Rightarrow> string" where
  "txb_url n = ''/composable.txboundary.v1beta1.'' @ n"

fun type_url :: "chain_msg \<Rightarrow> string" where
  "type_url (Add_Parachain _) = tfmw_url ''MsgAddParachainIBCTokenInfo''"
| "type_url (Remove_Parachain _) = tfmw_url ''MsgRemoveParachainIBCTokenInfo''"
| "type_url (Add_Relayer _) = tfmw_url ''MsgAddRlyAddress''"
| "type_url (Add_Limit _) = rl_url ''MsgAddRateLimit''"
| "type_url (Update_Limit _) = rl_url ''MsgUpdateRateLimit''"
| "type_url (Remove_Limit _) = rl_url ''MsgRemoveRateLimit''"
| "type_url (Reset_Limit _) = rl_url ''MsgResetRateLimit''"
| "type_url (Update_Mint_Params _) = mint_url ''MsgUpdateParams''"
| "type_url (Fund_Mint _) = mint_url ''MsgFundModuleAccount''"
| "type_url (Allow_Funder _) = mint_url ''MsgAddAccountToFundModuleSet''"
| "type_url (Update_Delegate_Boundary _) = txb_url ''MsgUpdateDelegateBoundary''"
| "type_url (Update_Redelegate_Boundary _) = txb_url ''MsgUpdateRedelegateBoundary''"

section \<open>Codecs\<close>

text \<open>The names of the legacy Amino codec, by the type they are registered for.\<close>

definition tfmw_RegisterLegacyAminoCodec :: "(string \<times> string) list" where
  "tfmw_RegisterLegacyAminoCodec =
     [(tfmw_url ''MsgAddParachainIBCTokenInfo'', ''composable/MsgAddParachainInfo''),
      (tfmw_url ''MsgRemoveParachainIBCTokenInfo'', ''composable/MsgRemoveParachainInfo''),
      (tfmw_url ''MsgAddRlyAddress'', ''composable/MsgAddRlyAddress'')]"

definition rl_RegisterLegacyAminoCodec :: "(string \<times> string) list" where
  "rl_RegisterLegacyAminoCodec =
     [(rl_url ''MsgAddRateLimit'', ''composable/MsgAddRateLimit''),
      (rl_url ''MsgUpdateRateLimit'', ''composable/MsgUpdateRateLimit''),
      (rl_url ''MsgRemoveRateLimit'', ''composable/MsgRemoveRateLimit''),
      (rl_url ''MsgResetRateLimit'', ''composable/MsgResetRateLimit'')]"

definition mint_RegisterLegacyAminoCodec :: "(string \<times> string) list" where
  "mint_RegisterLegacyAminoCodec =
     [(mint_url ''Params'', ''composable/x/mintParams''),
      (mint_url ''MsgUpdateParams'', ''composable/MsgUpdateParams''),
      (mint_url ''MsgFundModuleAccount'', ''composable/FundModuleAccount''),
      (mint_url ''MsgAddAccountToFundModuleSet'', ''composable/MsgAddAccountToFundModuleSet'')]"

definition txb_RegisterLegacyAminoCodec :: "(string \<times> string) list" where
  "txb_RegisterLegacyAminoCodec = []"

text \<open>
  The message types of the interface registry: those named, and the requests of the message service, which
  \<open>RegisterMsgServiceDesc\<close> adds.
\<close>

definition tfmw_RegisterInterfaces :: "string list" where
  "tfmw_RegisterInterfaces =
     map tfmw_url [''MsgAddParachainIBCTokenInfo'', ''MsgRemoveParachainIBCTokenInfo'', ''MsgAddRlyAddress''] @
     map tfmw_url [''MsgAddParachainIBCTokenInfo'', ''MsgRemoveParachainIBCTokenInfo'', ''MsgAddRlyAddress'']"

definition rl_RegisterInterfaces :: "string list" where
  "rl_RegisterInterfaces =
     map rl_url [''MsgAddRateLimit'', ''MsgUpdateRateLimit'', ''MsgRemoveRateLimit'', ''MsgResetRateLimit''] @
     map rl_url [''MsgAddRateLimit'', ''MsgUpdateRateLimit'', ''MsgRemoveRateLimit'', ''MsgResetRateLimit'']"

definition mint_RegisterInterfaces :: "string list" where
  "mint_RegisterInterfaces =
     map mint_url [''MsgUpdateParams''] @
     map mint_url [''MsgUpdateParams'', ''MsgFundModuleAccount'', ''MsgAddAccountToFundModuleSet'']"

definition txb_RegisterInterfaces :: "string list" where
  "txb_RegisterInterfaces = []"

text \<open>
  The basic modules, in their order; that of the Tendermint light client, which has no module in the manager, is left
  out.
\<close>

definition ModuleBasics :: "app_module list" where
  "ModuleBasics =
     [auth, genutil, bank, capability, staking, distr, gov, params, crisis, slashing, authz, feegrant, group_m, ibchost,
      upgrade, evidence, ibctransfer, icq, vesting, mint, wasm08, wasm, router, ica, ibchooks, transfermiddleware,
      txboundary, ratelimit, consensusparam, alliance]"

text \<open>
  \<open>EncodingConfig\<close> by the types its registries hold; the modules of the libraries, and \<open>std\<close>, are parameters.
\<close>

record EncodingConfig =
  ec_InterfaceRegistry :: "string list"
  ec_Amino :: "(string \<times> string) list"

record codec_env =
  co_std :: EncodingConfig
  co_other :: "app_module \<Rightarrow> EncodingConfig"

definition module_interfaces :: "codec_env \<Rightarrow> app_module \<Rightarrow> string list" where
  "module_interfaces C m =
     (case m of
        transfermiddleware \<Rightarrow> tfmw_RegisterInterfaces
      | ratelimit \<Rightarrow> rl_RegisterInterfaces
      | mint \<Rightarrow> mint_RegisterInterfaces
      | txboundary \<Rightarrow> txb_RegisterInterfaces
      | _ \<Rightarrow> ec_InterfaceRegistry (co_other C m))"

definition module_amino :: "codec_env \<Rightarrow> app_module \<Rightarrow> (string \<times> string) list" where
  "module_amino C m =
     (case m of
        transfermiddleware \<Rightarrow> tfmw_RegisterLegacyAminoCodec
      | ratelimit \<Rightarrow> rl_RegisterLegacyAminoCodec
      | mint \<Rightarrow> mint_RegisterLegacyAminoCodec
      | txboundary \<Rightarrow> txb_RegisterLegacyAminoCodec
      | _ \<Rightarrow> ec_Amino (co_other C m))"

definition MakeEncodingConfig :: "codec_env \<Rightarrow> EncodingConfig" where
  "MakeEncodingConfig C =
     \<lparr>ec_InterfaceRegistry = ec_InterfaceRegistry (co_std C) @ concat (map (module_interfaces C) ModuleBasics),
      ec_Amino = ec_Amino (co_std C) @ concat (map (module_amino C) ModuleBasics)\<rparr>"

section \<open>Services\<close>

text \<open>
  A handler runs one type of message on the state of the application. The keepers of the transfer middleware answer to
  the fixed address, those of the rate limiter and of mint to governance.
\<close>

type_synonym 'b msg_handler = "ctx \<Rightarrow> chain_msg \<Rightarrow> ('b app_state, unit) op"

definition on_as_tfmw :: "(tfmw_state, 'a) op \<Rightarrow> ('b app_state, 'a) op" where
  "on_as_tfmw = op_on as_tfmw (\<lambda>t s. s\<lparr>as_tfmw := t\<rparr>)"

definition on_as_mint :: "('b mint_world, 'a) op \<Rightarrow> ('b app_state, 'a) op" where
  "on_as_mint =
     op_on (\<lambda>s. \<lparr>mw_store = as_mint s, mw_ext = as_ext s\<rparr>) (\<lambda>w s. s\<lparr>as_mint := mw_store w, as_ext := mw_ext w\<rparr>)"

definition govAuthority :: "'b begin_env \<Rightarrow> string" where
  "govAuthority E = mk_authority (be_mint E)"

definition wrong_type :: "('b app_state, unit) op" where
  "wrong_type = op_lift Panic"

definition tfmw_RegisterServices :: "(string \<times> 'b msg_handler) list" where
  "tfmw_RegisterServices =
     [(tfmw_url ''MsgAddParachainIBCTokenInfo'', \<lambda>ctx m.
         case m of Add_Parachain req \<Rightarrow> on_as_tfmw (AddParachainIBCTokenInfo authorityAddress req) | _ \<Rightarrow> wrong_type),
      (tfmw_url ''MsgRemoveParachainIBCTokenInfo'', \<lambda>ctx m.
         case m of Remove_Parachain req \<Rightarrow> on_as_tfmw (RemoveParachainIBCTokenInfo authorityAddress ctx req) | _ \<Rightarrow> wrong_type),
      (tfmw_url ''MsgAddRlyAddress'', \<lambda>ctx m.
         case m of Add_Relayer req \<Rightarrow> on_as_tfmw (AddRlyAddress authorityAddress req) | _ \<Rightarrow> wrong_type)]"

definition rl_RegisterServices :: "'b begin_env \<Rightarrow> (string \<times> 'b msg_handler) list" where
  "rl_RegisterServices E =
     [(rl_url ''MsgAddRateLimit'', \<lambda>ctx m s.
         (case m of Add_Limit msg \<Rightarrow>
            on_as_rl (AddTransferRateLimit (be_lib E) (app_rl_env (be_reads E) s) (govAuthority E) msg) | _ \<Rightarrow> wrong_type) s),
      (rl_url ''MsgUpdateRateLimit'', \<lambda>ctx m s.
         (case m of Update_Limit msg \<Rightarrow>
            on_as_rl (UpdateTransferRateLimit (be_lib E) (app_rl_env (be_reads E) s) (govAuthority E) msg) | _ \<Rightarrow> wrong_type) s),
      (rl_url ''MsgRemoveRateLimit'', \<lambda>ctx m s.
         (case m of Remove_Limit msg \<Rightarrow>
            on_as_rl (RemoveTransferRateLimit (app_rl_env (be_reads E) s) (govAuthority E) msg) | _ \<Rightarrow> wrong_type) s),
      (rl_url ''MsgResetRateLimit'', \<lambda>ctx m s.
         (case m of Reset_Limit msg \<Rightarrow>
            on_as_rl (ResetTransferRateLimit (app_rl_env (be_reads E) s) (govAuthority E) msg) | _ \<Rightarrow> wrong_type) s)]"

definition mint_RegisterServices :: "'b begin_env \<Rightarrow> (string \<times> 'b msg_handler) list" where
  "mint_RegisterServices E =
     [(mint_url ''MsgUpdateParams'', \<lambda>ctx m.
         case m of Update_Mint_Params req \<Rightarrow> on_as_mint (UpdateParams (be_lib E) (be_mint E) req) | _ \<Rightarrow> wrong_type),
      (mint_url ''MsgFundModuleAccount'', \<lambda>ctx m.
         case m of Fund_Mint req \<Rightarrow> on_as_mint (FundModuleAccount (be_lib E) (be_mint E) req) | _ \<Rightarrow> wrong_type),
      (mint_url ''MsgAddAccountToFundModuleSet'', \<lambda>ctx m.
         case m of Allow_Funder req \<Rightarrow> on_as_mint (AddAccountToFundModuleSet (be_mint E) req) | _ \<Rightarrow> wrong_type)]"

definition txb_RegisterServices :: "(string \<times> 'b msg_handler) list" where
  "txb_RegisterServices = []"

text \<open>The modules of the libraries register services for messages of their own only.\<close>

definition module_RegisterServices :: "'b begin_env \<Rightarrow> app_module \<Rightarrow> (string \<times> 'b msg_handler) list" where
  "module_RegisterServices E m =
     (case m of
        transfermiddleware \<Rightarrow> tfmw_RegisterServices
      | ratelimit \<Rightarrow> rl_RegisterServices E
      | mint \<Rightarrow> mint_RegisterServices E
      | txboundary \<Rightarrow> txb_RegisterServices
      | _ \<Rightarrow> [])"

definition MsgServiceRouter :: "'b begin_env \<Rightarrow> (string \<times> 'b msg_handler) list" where
  "MsgServiceRouter E = concat (map (module_RegisterServices E) ModuleManager)"

definition run_msg :: "'b begin_env \<Rightarrow> 'b msg_handler" where
  "run_msg E ctx m =
     (case map_of (MsgServiceRouter E) (type_url m) of
        None \<Rightarrow> op_lift (Err (ErrLib ''unknown request''))
      | Some handler \<Rightarrow> handler ctx m)"

text \<open>The messages of a transaction; if one of them fails, none of them has happened.\<close>

definition run_msgs :: "'b begin_env \<Rightarrow> ctx \<Rightarrow> chain_msg list \<Rightarrow> 'b app_state \<Rightarrow> 'b app_state" where
  "run_msgs E ctx ms s = (case op_each (run_msg E ctx) ms s of (Ok _, t) \<Rightarrow> t | _ \<Rightarrow> s)"

section \<open>Registration\<close>

lemmas url_defs = tfmw_url_def rl_url_def mint_url_def txb_url_def

lemma MsgServiceRouter_eq:
  "MsgServiceRouter E = mint_RegisterServices E @ tfmw_RegisterServices @ rl_RegisterServices E"
  by (simp add: MsgServiceRouter_def ModuleManager_def module_RegisterServices_def txb_RegisterServices_def)

text \<open>No type is registered twice, and every service is for types the interface registry knows.\<close>

lemma services_distinct: "distinct (map fst (MsgServiceRouter E))"
  by (simp add: MsgServiceRouter_eq mint_RegisterServices_def tfmw_RegisterServices_def rl_RegisterServices_def url_defs)

lemma services_known:
  "set (map fst (MsgServiceRouter E)) \<subseteq> set (ec_InterfaceRegistry (MakeEncodingConfig C))"
  by (simp add: MsgServiceRouter_eq mint_RegisterServices_def tfmw_RegisterServices_def rl_RegisterServices_def
      MakeEncodingConfig_def ModuleBasics_def module_interfaces_def tfmw_RegisterInterfaces_def
      rl_RegisterInterfaces_def mint_RegisterInterfaces_def)

lemma basics_complete: "distinct ModuleBasics \<and> set ModuleBasics = insert ibchooks (set ModuleManager)"
  by (simp add: ModuleBasics_def ModuleManager_def) blast

text \<open>The Amino names are distinct and no longer than a ledger device shows.\<close>

lemma amino_names:
  "distinct (map snd (tfmw_RegisterLegacyAminoCodec @ rl_RegisterLegacyAminoCodec @ mint_RegisterLegacyAminoCodec))"
  "list_all (\<lambda>(_, n). length n \<le> 39)
     (tfmw_RegisterLegacyAminoCodec @ rl_RegisterLegacyAminoCodec @ mint_RegisterLegacyAminoCodec)"
  by (simp_all add: tfmw_RegisterLegacyAminoCodec_def rl_RegisterLegacyAminoCodec_def
      mint_RegisterLegacyAminoCodec_def)

section \<open>Running messages\<close>

lemma run_msg_simps:
  "run_msg E ctx (Add_Parachain a) = on_as_tfmw (AddParachainIBCTokenInfo authorityAddress a)"
  "run_msg E ctx (Remove_Parachain r) = on_as_tfmw (RemoveParachainIBCTokenInfo authorityAddress ctx r)"
  "run_msg E ctx (Add_Relayer y) = on_as_tfmw (AddRlyAddress authorityAddress y)"
  "run_msg E ctx (Add_Limit l) s =
     on_as_rl (AddTransferRateLimit (be_lib E) (app_rl_env (be_reads E) s) (govAuthority E) l) s"
  "run_msg E ctx (Update_Limit l) s =
     on_as_rl (UpdateTransferRateLimit (be_lib E) (app_rl_env (be_reads E) s) (govAuthority E) l) s"
  "run_msg E ctx (Remove_Limit p) s =
     on_as_rl (RemoveTransferRateLimit (app_rl_env (be_reads E) s) (govAuthority E) p) s"
  "run_msg E ctx (Reset_Limit p) s =
     on_as_rl (ResetTransferRateLimit (app_rl_env (be_reads E) s) (govAuthority E) p) s"
  "run_msg E ctx (Update_Mint_Params u) = on_as_mint (UpdateParams (be_lib E) (be_mint E) u)"
  "run_msg E ctx (Fund_Mint f) = on_as_mint (FundModuleAccount (be_lib E) (be_mint E) f)"
  "run_msg E ctx (Allow_Funder w) = on_as_mint (AddAccountToFundModuleSet (be_mint E) w)"
  "run_msg E ctx (Update_Delegate_Boundary b) = op_lift (Err (ErrLib ''unknown request''))"
  "run_msg E ctx (Update_Redelegate_Boundary b) = op_lift (Err (ErrLib ''unknown request''))"
  by (simp_all add: run_msg_def MsgServiceRouter_eq mint_RegisterServices_def tfmw_RegisterServices_def
      rl_RegisterServices_def url_defs)

text \<open>The authority a message names, and the one its handler asks for.\<close>

fun named_authority :: "chain_msg \<Rightarrow> string option" where
  "named_authority (Add_Parachain m) = Some (Mai_Authority m)"
| "named_authority (Remove_Parachain m) = Some (Mri_Authority m)"
| "named_authority (Add_Relayer m) = Some (Mar_Authority m)"
| "named_authority (Add_Limit m) = Some (Mrl_Authority m)"
| "named_authority (Update_Limit m) = Some (Mrl_Authority m)"
| "named_authority (Remove_Limit m) = Some (Mrp_Authority m)"
| "named_authority (Reset_Limit m) = Some (Mrp_Authority m)"
| "named_authority (Update_Mint_Params m) = Some (Mup_Authority m)"
| "named_authority (Fund_Mint m) = None"
| "named_authority (Allow_Funder m) = Some (Maa_Authority m)"
| "named_authority (Update_Delegate_Boundary m) = Some (Mub_Authority m)"
| "named_authority (Update_Redelegate_Boundary m) = Some (Mub_Authority m)"

fun tfmw_msg :: "chain_msg \<Rightarrow> bool" where
  "tfmw_msg (Add_Parachain _) = True"
| "tfmw_msg (Remove_Parachain _) = True"
| "tfmw_msg (Add_Relayer _) = True"
| "tfmw_msg _ = False"

definition asked_authority :: "'b begin_env \<Rightarrow> chain_msg \<Rightarrow> string" where
  "asked_authority E m = (if tfmw_msg m then authorityAddress else govAuthority E)"

text \<open>What the messages of the chain govern: the stores of the transfer middleware, the rate limiter and mint.\<close>

definition governed :: "'b app_state \<Rightarrow> tfmw_state \<times> rl_state \<times> mint_state" where
  "governed s = (as_tfmw s, as_rl s, as_mint s)"

lemma fund_keeps_mint_store: "FundModuleAccount L k req w = (r, w') \<Longrightarrow> mw_store w' = mw_store w"
  by (auto simp: FundModuleAccount_def op_bind_def op_lift_def on_mint_ext_def op_on_def Let_def
      split: res.splits prod.splits list.splits if_splits)

lemma refused_unchanged:
  assumes "named_authority m \<noteq> Some (asked_authority E m)" and "run_msg E ctx m s = (r, t)"
  shows "governed t = governed s \<and> (r \<noteq> Ok () \<or> (\<exists>f. m = Fund_Mint f))"
  using assms
  by (cases m)
    (auto simp: run_msg_simps asked_authority_def govAuthority_def governed_def on_as_tfmw_def on_as_rl_def
      on_as_mint_def op_on_def op_lift_def op_bind_def guard_def AddParachainIBCTokenInfo_def
      RemoveParachainIBCTokenInfo_def AddRlyAddress_def AddTransferRateLimit_def UpdateTransferRateLimit_def
      RemoveTransferRateLimit_def ResetTransferRateLimit_def UpdateParams_def AddAccountToFundModuleSet_def
      dest: fund_keeps_mint_store split: prod.splits)

lemma op_each_all_Ok:
  assumes "op_each f xs s = (Ok u, t)" "x \<in> set xs"
  shows "\<exists>s' v t'. f x s' = (Ok v, t')"
  using assms by (induction xs arbitrary: s) (auto split: prod.splits res.splits)

lemma boundary_updates_unrouted:
  assumes "m \<in> set ms" "m = Update_Delegate_Boundary b \<or> m = Update_Redelegate_Boundary b"
  shows "run_msgs E ctx ms s = s"
proof -
  have "run_msg E ctx m s' \<noteq> (Ok v, t')" for s' v t'
    using assms(2) by (elim disjE) (simp_all add: run_msg_simps op_lift_def)
  then have "op_each (run_msg E ctx) ms s \<noteq> (Ok v, t)" for v t
    using op_each_all_Ok [of "run_msg E ctx" ms s v t m] assms(1) by blast
  then show ?thesis by (auto simp: run_msgs_def split: prod.split res.split)
qed

text \<open>
  C9: The registry, the rate limits, the parameters of mint and its list of funders change only by messages that
  name the authority their keeper was built with: a transaction whose messages all name somebody else leaves them as
  they were, and changes nothing at all unless it only moves funds. The authority of the registry is the fixed
  address, that of the others governance.
\<close>

theorem changes_need_authority:
  assumes "list_all (\<lambda>m. named_authority m \<noteq> Some (asked_authority E m)) ms"
  shows "governed (run_msgs E ctx ms s) = governed s \<and>
         (run_msgs E ctx ms s = s \<or> (\<forall>m \<in> set ms. \<exists>f. m = Fund_Mint f))"
proof -
  have "governed (snd (run_msg E ctx m t)) = governed t" if "m \<in> set ms" for m t
    using refused_unchanged [of m E ctx t, OF _ prod.collapse [symmetric]] assms that by (simp add: list_all_iff)
  then have "governed (snd (op_each (run_msg E ctx) ms s)) = governed s"
    by (intro op_each_inv [where P = "\<lambda>t. governed t = governed s"]) simp_all
  moreover have "\<forall>m \<in> set ms. \<exists>f. m = Fund_Mint f" if ok: "op_each (run_msg E ctx) ms s = (Ok (), t)" for t
  proof
    fix m
    assume m: "m \<in> set ms"
    obtain s' v t' where "run_msg E ctx m s' = (Ok v, t')" using op_each_all_Ok [OF ok m] by blast
    then show "\<exists>f. m = Fund_Mint f"
      using refused_unchanged [of m E ctx s' "Ok v" t'] assms m by (auto simp: list_all_iff)
  qed
  ultimately show ?thesis
    by (auto simp: run_msgs_def split: prod.splits res.splits)
qed

definition stolen_limit :: chain_msg where
  "stolen_limit = Remove_Limit (NewMsgRemoveRateLimit ''eve'' ''ppica'' ''channel-1'')"

lemma changes_need_authority_witness:
  "governed (run_msgs demo_begin \<lparr>BlockTime = 20, BlockHeight = 7\<rparr> [stolen_limit] demo_chain) = governed demo_chain \<and>
   run_msgs demo_begin \<lparr>BlockTime = 20, BlockHeight = 7\<rparr> [stolen_limit] demo_chain = demo_chain"
  using changes_need_authority [of demo_begin "[stolen_limit]" "\<lparr>BlockTime = 20, BlockHeight = 7\<rparr>" demo_chain]
  by (simp add: stolen_limit_def NewMsgRemoveRateLimit_def asked_authority_def govAuthority_def demo_begin_def
      ex_mint_keeper_def)

end
