(* ===== verification/Tfmw_Relay.thy ===== *)
theory Tfmw_Relay
  imports Tfmw_Registry
begin

text \<open>
  The token swap of \<open>x/transfermiddleware\<close>: what the keeper does when a packet is sent, received,
  acknowledged or timed out. The state \<open>'w\<close> is that of the whole chain; the module reads its registry
  from it and changes it through the bank, the transfer keeper and the channel below.
\<close>

section \<open>Interfaces\<close>

type_synonym Capability = nat

text \<open>The interface \<open>porttypes.ICS4Wrapper\<close>, that each layer of the stack offers to the one above.\<close>

record 'w ICS4Wrapper =
  ics_SendPacket :: "Capability \<Rightarrow> string \<Rightarrow> string \<Rightarrow> Height \<Rightarrow> u64 \<Rightarrow> bytes \<Rightarrow> ('w, u64) op"
  ics_WriteAcknowledgement :: "Capability \<Rightarrow> Packet \<Rightarrow> bytes \<Rightarrow> ('w, unit) op"
  ics_GetAppVersion :: "'w \<Rightarrow> string \<Rightarrow> string \<Rightarrow> string \<times> bool"

text \<open>What the keeper is built with (\<open>NewKeeper\<close>).\<close>

record 'w tfmw_deps =
  td_bank :: "'w bank"
  td_tfmw :: "'w \<Rightarrow> tfmw_state"
  td_HasDenomTrace :: "'w \<Rightarrow> bytes \<Rightarrow> bool"
  td_SetDenomTrace :: "DenomTrace \<Rightarrow> 'w \<Rightarrow> 'w"
  td_Transfer :: "MsgTransfer \<Rightarrow> ('w, u64) op"
  td_ICS4Wrapper :: "'w ICS4Wrapper"

definition tfmw_ModuleName :: string where
  "tfmw_ModuleName = ''transmiddleware''"

text \<open>Coins are built before the bank is called; a bad amount or denomination panics there.\<close>

definition with_coin :: "lib \<Rightarrow> Coin \<Rightarrow> (Coins \<Rightarrow> ('w, unit) op) \<Rightarrow> ('w, unit) op" where
  "with_coin L c f = op_bind (op_lift (NewCoins L [c])) f"

section \<open>Receiving\<close>

definition escrow_and_mint ::
    "lib \<Rightarrow> 'w tfmw_deps \<Rightarrow> bytes \<Rightarrow> bytes \<Rightarrow> Coin \<Rightarrow> string \<Rightarrow> int \<Rightarrow> ('w, unit) op" where
  "escrow_and_mint L D receiver escrowAddress voucher denom transferAmount =
     op_bind (with_coin L voucher (SendCoins (td_bank D) receiver escrowAddress)) (\<lambda>_.
     op_bind (op_lift (NewCoin L denom transferAmount)) (\<lambda>nativeCoin.
     op_bind (with_coin L nativeCoin (MintCoins (td_bank D) tfmw_ModuleName)) (\<lambda>_.
     with_coin L nativeCoin (SendCoinsFromModuleToAccount (td_bank D) tfmw_ModuleName receiver))))"

definition tfmw_OnRecvPacket ::
    "lib \<Rightarrow> 'w tfmw_deps \<Rightarrow> Packet \<Rightarrow> FungibleTokenPacketData \<Rightarrow> ('w, unit) op" where
  "tfmw_OnRecvPacket L D packet data =
     op_bind (op_lift (AccAddressFromBech32 L (Ftd_Receiver data))) (\<lambda>receiver s.
       case NewIntFromString L (Ftd_Amount data) of
         None \<Rightarrow> (Err ErrInvalidAmount, s)
       | Some transferAmount \<Rightarrow>
           (if ReceiverChainIsSource L (Pkt_SourcePort packet) (Pkt_SourceChannel packet) (Ftd_Denom data)
            then (Ok (), s)
            else
              (let sourcePrefix = GetDenomPrefix L (Pkt_DestPort packet) (Pkt_DestChannel packet);
                   prefixedDenom = sourcePrefix @ Ftd_Denom data;
                   denomTrace = ParseDenomTrace L prefixedDenom;
                   traceHash = Dt_Hash L denomTrace;
                   s = (if \<not> td_HasDenomTrace D s traceHash then td_SetDenomTrace D denomTrace s else s);
                   voucherDenom = IBCDenom L denomTrace
               in op_bind (op_lift (NewCoin L voucherDenom transferAmount)) (\<lambda>voucher s.
                    let paraTokenInfo = GetParachainIBCTokenInfoByAssetID (td_tfmw D s) (Ftd_Denom data)
                    in if GetNativeDenomByIBCDenomSecondaryIndex (td_tfmw D s) (IBCDenom L denomTrace)
                          \<noteq> NativeDenom paraTokenInfo
                       then (Ok (), s)
                       else if Pkt_DestChannel packet = ChannelID paraTokenInfo
                       then escrow_and_mint L D receiver
                              (GetEscrowAddress L (Pkt_DestPort packet) (Pkt_DestChannel packet))
                              voucher (NativeDenom paraTokenInfo) transferAmount s
                       else (Ok (), s)) s)))"

section \<open>Sending\<close>

definition executeTransferMsg :: "lib \<Rightarrow> 'w tfmw_deps \<Rightarrow> MsgTransfer \<Rightarrow> ('w, u64) op" where
  "executeTransferMsg L D transferMsg s =
     (case MsgTransfer_ValidateBasic L transferMsg of
        Err _ \<Rightarrow> (Err (ErrPlain ''bad msg''), s)
      | Panic \<Rightarrow> (Panic, s)
      | Ok _ \<Rightarrow> td_Transfer D transferMsg s)"

definition burn_and_release ::
    "lib \<Rightarrow> 'w tfmw_deps \<Rightarrow> bytes \<Rightarrow> bytes \<Rightarrow> Coin \<Rightarrow> Coin \<Rightarrow> ('w, unit) op" where
  "burn_and_release L D escrowAddress sender nativeTransferToken ibcTransferToken =
     op_bind (with_coin L nativeTransferToken
                (SendCoinsFromAccountToModule (td_bank D) escrowAddress (TransferModuleName L))) (\<lambda>_.
     op_bind (with_coin L nativeTransferToken (BurnCoins (td_bank D) (TransferModuleName L))) (\<lambda>_.
     with_coin L ibcTransferToken (SendCoins (td_bank D) escrowAddress sender)))"

definition handleOverrideSendPacketTransferLogic ::
    "lib \<Rightarrow> 'w tfmw_deps \<Rightarrow> string \<Rightarrow> string \<Rightarrow> Height \<Rightarrow> u64 \<Rightarrow> bytes \<Rightarrow> ('w, u64) op" where
  "handleOverrideSendPacketTransferLogic L D sourcePort sourceChannel timeoutHeight timeoutTimestamp data =
     op_bind (op_lift (UnmarshalJSON_packet L data)) (\<lambda>ftpd.
     op_bind (op_lift (AccAddressFromBech32 L (Ftd_Sender ftpd))) (\<lambda>sender s.
       let parachainInfo = GetParachainIBCTokenInfoByNativeDenom (td_tfmw D s) (Ftd_Denom ftpd)
       in case NewIntFromString L (Ftd_Amount ftpd) of
            None \<Rightarrow> (Panic, s)
          | Some transferAmount \<Rightarrow>
              op_bind (op_lift (NewCoin L (Ftd_Denom ftpd) transferAmount)) (\<lambda>nativeTransferToken.
              op_bind (op_lift (NewCoin L (IbcDenom parachainInfo) transferAmount)) (\<lambda>ibcTransferToken.
                let escrowAddress = GetEscrowAddress L sourcePort sourceChannel
                in op_bind (burn_and_release L D escrowAddress sender nativeTransferToken ibcTransferToken) (\<lambda>_.
                   executeTransferMsg L D
                     \<lparr>Mt_SourcePort = TransferPortID L, Mt_SourceChannel = sourceChannel,
                      Mt_Token = ibcTransferToken, Mt_Sender = Ftd_Sender ftpd, Mt_Receiver = Ftd_Receiver ftpd,
                      Mt_TimeoutHeight = timeoutHeight, Mt_TimeoutTimestamp = timeoutTimestamp,
                      Mt_Memo = Ftd_Memo ftpd\<rparr>))) s))"

definition tfmw_SendPacket ::
    "lib \<Rightarrow> 'w tfmw_deps \<Rightarrow> Capability \<Rightarrow> string \<Rightarrow> string \<Rightarrow> Height \<Rightarrow> u64 \<Rightarrow> bytes \<Rightarrow> ('w, u64) op" where
  "tfmw_SendPacket L D chanCap sourcePort sourceChannel timeoutHeight timeoutTimestamp data =
     op_bind (op_lift (UnmarshalJSON_packet L data)) (\<lambda>ftpd s.
       let parachainInfo = GetParachainIBCTokenInfoByNativeDenom (td_tfmw D s) (Ftd_Denom ftpd)
       in if ChannelID parachainInfo \<noteq> sourceChannel \<or> NativeDenom parachainInfo \<noteq> Ftd_Denom ftpd
          then ics_SendPacket (td_ICS4Wrapper D) chanCap sourcePort sourceChannel timeoutHeight timeoutTimestamp data s
          else handleOverrideSendPacketTransferLogic L D sourcePort sourceChannel timeoutHeight timeoutTimestamp data s)"

definition tfmw_WriteAcknowledgement ::
    "'w tfmw_deps \<Rightarrow> Capability \<Rightarrow> Packet \<Rightarrow> bytes \<Rightarrow> ('w, unit) op" where
  "tfmw_WriteAcknowledgement D chanCap packet acknowledgement =
     ics_WriteAcknowledgement (td_ICS4Wrapper D) chanCap packet acknowledgement"

definition tfmw_GetAppVersion :: "'w tfmw_deps \<Rightarrow> 'w \<Rightarrow> string \<Rightarrow> string \<Rightarrow> string \<times> bool" where
  "tfmw_GetAppVersion D s portID channelID = ics_GetAppVersion (td_ICS4Wrapper D) s portID channelID"

section \<open>Acknowledgements and timeouts\<close>

definition refundToken ::
    "lib \<Rightarrow> 'w tfmw_deps \<Rightarrow> Packet \<Rightarrow> FungibleTokenPacketData \<Rightarrow> ('w, unit) op" where
  "refundToken L D packet data s =
     (let trace = ParseDenomTrace L (Ftd_Denom data)
      in case NewIntFromString L (Ftd_Amount data) of
           None \<Rightarrow> (Err ErrInvalidAmount, s)
         | Some transferAmount \<Rightarrow>
             op_bind (op_lift (NewCoin L (IBCDenom L trace) transferAmount)) (\<lambda>token.
             op_bind (op_lift (AccAddressFromBech32 L (Ftd_Sender data))) (\<lambda>sender s.
               if SenderChainIsSource L (Pkt_SourcePort packet) (Pkt_SourceChannel packet) (Ftd_Denom data)
               then (Ok (), s)
               else
                 (let nativeDenom = GetNativeDenomByIBCDenomSecondaryIndex (td_tfmw D s) (IBCDenom L trace);
                      paraTokenInfo = GetParachainIBCTokenInfoByNativeDenom (td_tfmw D s) nativeDenom
                  in if \<not> hasParachainIBCTokenInfo (td_tfmw D s) nativeDenom then (Ok (), s)
                     else if Pkt_SourceChannel packet = ChannelID paraTokenInfo
                     then op_bind (op_lift (NewCoin L (NativeDenom paraTokenInfo) transferAmount)) (\<lambda>nativeToken.
                          let escrowAddress = GetEscrowAddress L (TransferPortID L) (ChannelID paraTokenInfo)
                          in op_bind (op_must (with_coin L token (SendCoins (td_bank D) sender escrowAddress))) (\<lambda>_.
                             op_bind (with_coin L nativeToken (MintCoins (td_bank D) tfmw_ModuleName)) (\<lambda>_.
                             op_must (with_coin L nativeToken
                               (SendCoinsFromModuleToAccount (td_bank D) tfmw_ModuleName sender))))) s
                     else (Ok (), s)))) s)"

definition tfmw_OnAcknowledgementPacket ::
    "lib \<Rightarrow> 'w tfmw_deps \<Rightarrow> Packet \<Rightarrow> bytes \<Rightarrow> ('w, unit) op" where
  "tfmw_OnAcknowledgementPacket L D packet acknowledgement s =
     (case UnmarshalJSON_ack L acknowledgement of
        Err _ \<Rightarrow> (Err ErrUnknownRequest, s)
      | Panic \<Rightarrow> (Panic, s)
      | Ok ack \<Rightarrow>
          (case UnmarshalJSON_packet L (Pkt_Data packet) of
             Err _ \<Rightarrow> (Err ErrUnknownRequest, s)
           | Panic \<Rightarrow> (Panic, s)
           | Ok data \<Rightarrow>
               (case ack of
                  Ack_Error _ \<Rightarrow> refundToken L D packet data s
                | _ \<Rightarrow> (Ok (), s))))"

definition tfmw_OnTimeoutPacket ::
    "lib \<Rightarrow> 'w tfmw_deps \<Rightarrow> Packet \<Rightarrow> FungibleTokenPacketData \<Rightarrow> ('w, unit) op" where
  "tfmw_OnTimeoutPacket L D packet data = refundToken L D packet data"

end
