(* ===== verification/World.thy ===== *)
theory World
  imports Ratelimit_Packet Ratelimit_Module Tfmw_Relay
begin

text \<open>
  The state of the chain as the two IBC modules see it: their own states and the rest of the chain
  (bank, transfer application, channels), of a type \<open>'b\<close> that stays a parameter.
\<close>

record 'b world =
  w_tfmw :: tfmw_state
  w_rl :: rl_state
  w_ext :: 'b

definition on_rl :: "(rl_state, 'a) op \<Rightarrow> ('b world, 'a) op" where
  "on_rl = op_on w_rl (\<lambda>r w. w\<lparr>w_rl := r\<rparr>)"

definition on_ext :: "('b, 'a) op \<Rightarrow> ('b world, 'a) op" where
  "on_ext = op_on w_ext (\<lambda>b w. w\<lparr>w_ext := b\<rparr>)"

definition ext_bank :: "'b bank \<Rightarrow> 'b world bank" where
  "ext_bank = bank_on w_ext (\<lambda>b w. w\<lparr>w_ext := b\<rparr>)"

lemma bank_laws_ext: "bank_laws B mac \<Longrightarrow> bank_laws (ext_bank B) mac"
  unfolding ext_bank_def by (rule bank_laws_on) simp_all

lemma ext_bank_simps [simp]:
  "GetBalance (ext_bank B) w = GetBalance B (w_ext w)"
  "GetSupply (ext_bank B) w = GetSupply B (w_ext w)"
  by (simp_all add: ext_bank_def bank_on_def)

lemma on_rl_eq: "on_rl m w = (r, w') \<longleftrightarrow> (\<exists>s. m (w_rl w) = (r, s) \<and> w' = w\<lparr>w_rl := s\<rparr>)"
  by (auto simp: on_rl_def op_on_Ok)

lemma on_ext_eq: "on_ext m w = (r, w') \<longleftrightarrow> (\<exists>b. m (w_ext w) = (r, b) \<and> w' = w\<lparr>w_ext := b\<rparr>)"
  by (auto simp: on_ext_def op_on_Ok)

end
