(* ===== verification/IBC_Stack.thy ===== *)
theory IBC_Stack
  imports World
begin

text \<open>
  The two IBC middlewares: each is an IBC module built from a keeper and the module below it. Packets to
  send pass the transfer middleware and then the rate limiter on their way to the channel; packets that
  arrive pass the rate limiter first.
\<close>

section \<open>The module interface\<close>

record Counterparty =
  Cp_PortId :: string
  Cp_ChannelId :: string

text \<open>
  \<open>porttypes.IBCModule\<close>. \<open>OnRecvPacket\<close> answers with an acknowledgement, or with none when it is
  written later; asking an absent one for its success panics.
\<close>

record 'w IBCModule =
  OnChanOpenInit :: "int \<Rightarrow> string list \<Rightarrow> string \<Rightarrow> string \<Rightarrow> Capability \<Rightarrow> Counterparty \<Rightarrow> string \<Rightarrow> ('w, string) op"
  OnChanOpenTry :: "int \<Rightarrow> string list \<Rightarrow> string \<Rightarrow> string \<Rightarrow> Capability \<Rightarrow> Counterparty \<Rightarrow> string \<Rightarrow> ('w, string) op"
  OnChanOpenAck :: "string \<Rightarrow> string \<Rightarrow> string \<Rightarrow> string \<Rightarrow> ('w, unit) op"
  OnChanOpenConfirm :: "string \<Rightarrow> string \<Rightarrow> ('w, unit) op"
  OnChanCloseInit :: "string \<Rightarrow> string \<Rightarrow> ('w, unit) op"
  OnChanCloseConfirm :: "string \<Rightarrow> string \<Rightarrow> ('w, unit) op"
  OnRecvPacket :: "Packet \<Rightarrow> bytes \<Rightarrow> ('w, AckResponse option) op"
  OnAcknowledgementPacket :: "Packet \<Rightarrow> bytes \<Rightarrow> bytes \<Rightarrow> ('w, unit) op"
  OnTimeoutPacket :: "Packet \<Rightarrow> bytes \<Rightarrow> ('w, unit) op"

text \<open>The text of an error acknowledgement is that of the library.\<close>

type_synonym ack_text = "err \<Rightarrow> string"

definition NewErrorAcknowledgement :: "ack_text \<Rightarrow> err \<Rightarrow> AckResponse" where
  "NewErrorAcknowledgement txt e = Ack_Error (txt e)"

definition ack_Success :: "AckResponse option \<Rightarrow> bool res" where
  "ack_Success ack =
     (case ack of None \<Rightarrow> Panic | Some (Ack_Result _) \<Rightarrow> Ok True | Some _ \<Rightarrow> Ok False)"

section \<open>Rate limiter\<close>

definition rl_SendPacket ::
    "lib \<Rightarrow> 'b world ICS4Wrapper \<Rightarrow> Capability \<Rightarrow> string \<Rightarrow> string \<Rightarrow> Height \<Rightarrow> u64 \<Rightarrow> bytes \<Rightarrow> ('b world, u64) op" where
  "rl_SendPacket L ics4 channelCap sourcePort sourceChannel timeoutHeight timeoutTimestamp data =
     op_bind (ics_SendPacket ics4 channelCap sourcePort sourceChannel timeoutHeight timeoutTimestamp data)
       (\<lambda>sequence.
          op_bind (on_rl (SendRateLimitedPacket L
             \<lparr>Pkt_Sequence = sequence, Pkt_SourcePort = sourcePort, Pkt_SourceChannel = sourceChannel,
              Pkt_DestPort = [], Pkt_DestChannel = [], Pkt_Data = data,
              Pkt_TimeoutHeight = timeoutHeight, Pkt_TimeoutTimestamp = timeoutTimestamp\<rparr>))
            (\<lambda>_. op_lift (Ok sequence)))"

definition rl_WriteAcknowledgement ::
    "'b world ICS4Wrapper \<Rightarrow> Capability \<Rightarrow> Packet \<Rightarrow> bytes \<Rightarrow> ('b world, unit) op" where
  "rl_WriteAcknowledgement ics4 chanCap packet acknowledgement =
     ics_WriteAcknowledgement ics4 chanCap packet acknowledgement"

definition rl_GetAppVersion :: "'b world ICS4Wrapper \<Rightarrow> 'b world \<Rightarrow> string \<Rightarrow> string \<Rightarrow> string \<times> bool" where
  "rl_GetAppVersion ics4 w portID channelID = ics_GetAppVersion ics4 w portID channelID"

text \<open>The keeper as the ICS4 wrapper of the layer above.\<close>

definition rl_ICS4 :: "lib \<Rightarrow> 'b world ICS4Wrapper \<Rightarrow> 'b world ICS4Wrapper" where
  "rl_ICS4 L ics4 =
     \<lparr>ics_SendPacket = rl_SendPacket L ics4,
      ics_WriteAcknowledgement = rl_WriteAcknowledgement ics4,
      ics_GetAppVersion = rl_GetAppVersion ics4\<rparr>"

definition rl_OnRecvPacket ::
    "lib \<Rightarrow> ack_text \<Rightarrow> 'b world IBCModule \<Rightarrow> Packet \<Rightarrow> bytes \<Rightarrow> ('b world, AckResponse option) op" where
  "rl_OnRecvPacket L txt app packet relayer w =
     (case on_rl (ReceiveRateLimitedPacket L packet) w of
        (Err e, w') \<Rightarrow> (Ok (Some (NewErrorAcknowledgement txt e)), w')
      | (Panic, w') \<Rightarrow> (Panic, w')
      | (Ok _, w') \<Rightarrow> OnRecvPacket app packet relayer w')"

definition rl_OnAcknowledgementPacket ::
    "lib \<Rightarrow> 'b world IBCModule \<Rightarrow> Packet \<Rightarrow> bytes \<Rightarrow> bytes \<Rightarrow> ('b world, unit) op" where
  "rl_OnAcknowledgementPacket L app packet acknowledgement relayer =
     op_bind (on_rl (AcknowledgeRateLimitedPacket L packet acknowledgement))
       (\<lambda>_. OnAcknowledgementPacket app packet acknowledgement relayer)"

definition rl_OnTimeoutPacket ::
    "lib \<Rightarrow> 'b world IBCModule \<Rightarrow> Packet \<Rightarrow> bytes \<Rightarrow> ('b world, unit) op" where
  "rl_OnTimeoutPacket L app packet relayer =
     op_bind (on_rl (TimeoutRateLimitedPacket L packet)) (\<lambda>_. OnTimeoutPacket app packet relayer)"

definition rl_IBCMiddleware :: "lib \<Rightarrow> ack_text \<Rightarrow> 'b world IBCModule \<Rightarrow> 'b world IBCModule" where
  "rl_IBCMiddleware L txt app =
     \<lparr>OnChanOpenInit = OnChanOpenInit app,
      OnChanOpenTry = OnChanOpenTry app,
      OnChanOpenAck = OnChanOpenAck app,
      OnChanOpenConfirm = OnChanOpenConfirm app,
      OnChanCloseInit = OnChanCloseInit app,
      OnChanCloseConfirm = OnChanCloseConfirm app,
      OnRecvPacket = rl_OnRecvPacket L txt app,
      OnAcknowledgementPacket = rl_OnAcknowledgementPacket L app,
      OnTimeoutPacket = rl_OnTimeoutPacket L app\<rparr>"

section \<open>Transfer middleware\<close>

definition tfmw_mw_OnRecvPacket ::
    "lib \<Rightarrow> ack_text \<Rightarrow> 'w tfmw_deps \<Rightarrow> 'w IBCModule \<Rightarrow> Packet \<Rightarrow> bytes \<Rightarrow> ('w, AckResponse option) op" where
  "tfmw_mw_OnRecvPacket L txt D app packet relayer =
     op_bind (OnRecvPacket app packet relayer) (\<lambda>ack w.
       case UnmarshalJSON_packet L (Pkt_Data packet) of
         Err e \<Rightarrow> (Ok (Some (NewErrorAcknowledgement txt e)), w)
       | Panic \<Rightarrow> (Panic, w)
       | Ok data \<Rightarrow>
           (case ack_Success ack of
              Ok True \<Rightarrow>
                (case tfmw_OnRecvPacket L D packet data w of
                   (Err e, w') \<Rightarrow> (Ok (Some (NewErrorAcknowledgement txt e)), w')
                 | (Panic, w') \<Rightarrow> (Panic, w')
                 | (Ok _, w') \<Rightarrow> (Ok ack, w'))
            | Ok False \<Rightarrow> (Ok ack, w)
            | Err e \<Rightarrow> (Err e, w)
            | Panic \<Rightarrow> (Panic, w)))"

definition tfmw_mw_OnTimeoutPacket ::
    "lib \<Rightarrow> 'w tfmw_deps \<Rightarrow> 'w IBCModule \<Rightarrow> Packet \<Rightarrow> bytes \<Rightarrow> ('w, unit) op" where
  "tfmw_mw_OnTimeoutPacket L D app packet relayer w =
     (case UnmarshalJSON_packet L (Pkt_Data packet) of
        Err _ \<Rightarrow> (Err ErrUnknownRequest, w)
      | Panic \<Rightarrow> (Panic, w)
      | Ok data \<Rightarrow>
          op_bind (OnTimeoutPacket app packet relayer) (\<lambda>_. tfmw_OnTimeoutPacket L D packet data) w)"

definition tfmw_mw_OnAcknowledgementPacket ::
    "lib \<Rightarrow> 'w tfmw_deps \<Rightarrow> 'w IBCModule \<Rightarrow> Packet \<Rightarrow> bytes \<Rightarrow> bytes \<Rightarrow> ('w, unit) op" where
  "tfmw_mw_OnAcknowledgementPacket L D app packet acknowledgement relayer =
     op_bind (OnAcknowledgementPacket app packet acknowledgement relayer)
       (\<lambda>_. tfmw_OnAcknowledgementPacket L D packet acknowledgement)"

definition tfmw_IBCMiddleware ::
    "lib \<Rightarrow> ack_text \<Rightarrow> 'w IBCModule \<Rightarrow> 'w tfmw_deps \<Rightarrow> 'w IBCModule" where
  "tfmw_IBCMiddleware L txt app D =
     \<lparr>OnChanOpenInit = OnChanOpenInit app,
      OnChanOpenTry = OnChanOpenTry app,
      OnChanOpenAck = OnChanOpenAck app,
      OnChanOpenConfirm = OnChanOpenConfirm app,
      OnChanCloseInit = OnChanCloseInit app,
      OnChanCloseConfirm = OnChanCloseConfirm app,
      OnRecvPacket = tfmw_mw_OnRecvPacket L txt D app,
      OnAcknowledgementPacket = tfmw_mw_OnAcknowledgementPacket L D app,
      OnTimeoutPacket = tfmw_mw_OnTimeoutPacket L D app\<rparr>"

text \<open>The middleware as an ICS4 wrapper hands every call to its keeper.\<close>

definition tfmw_ICS4 :: "lib \<Rightarrow> 'w tfmw_deps \<Rightarrow> 'w ICS4Wrapper" where
  "tfmw_ICS4 L D =
     \<lparr>ics_SendPacket = tfmw_SendPacket L D,
      ics_WriteAcknowledgement = tfmw_WriteAcknowledgement D,
      ics_GetAppVersion = tfmw_GetAppVersion D\<rparr>"

section \<open>Wiring\<close>

text \<open>
  The transfer middleware keeper sends through the rate limiter, which sends through the layers below
  (IBC hooks and the channel). \<open>transfer\<close> is the transfer application, \<open>forward\<close> the packet-forward
  middleware between the two.
\<close>

definition wired_deps ::
    "lib \<Rightarrow> 'b bank \<Rightarrow> ('b \<Rightarrow> bytes \<Rightarrow> bool) \<Rightarrow> (DenomTrace \<Rightarrow> 'b \<Rightarrow> 'b) \<Rightarrow> (MsgTransfer \<Rightarrow> ('b world, u64) op) \<Rightarrow>
     'b world ICS4Wrapper \<Rightarrow> 'b world tfmw_deps" where
  "wired_deps L B has_trace set_trace transfer channel =
     \<lparr>td_bank = ext_bank B, td_tfmw = w_tfmw, td_HasDenomTrace = (\<lambda>w. has_trace (w_ext w)),
      td_SetDenomTrace = (\<lambda>tr w. w\<lparr>w_ext := set_trace tr (w_ext w)\<rparr>),
      td_Transfer = transfer, td_ICS4Wrapper = rl_ICS4 L channel\<rparr>"

definition wired_stack ::
    "lib \<Rightarrow> ack_text \<Rightarrow> 'b world tfmw_deps \<Rightarrow> ('b world IBCModule \<Rightarrow> 'b world IBCModule) \<Rightarrow> 'b world IBCModule \<Rightarrow>
     'b world IBCModule" where
  "wired_stack L txt D forward transfer =
     rl_IBCMiddleware L txt (forward (tfmw_IBCMiddleware L txt transfer D))"

end
