(* ===== verification/IBC_Layers.thy ===== *)
theory IBC_Layers
  imports IBC_Stack Ratelimit_Safety
begin

text \<open>
  Invariants of the chain through the layers of the IBC stack. A layer wraps the module below it, or the
  channel it sends through; the two locales state what a layer owes to the stack it is put into, and the two
  middlewares of this repository meet it for the safety of the rate limits and for the token registry.
\<close>

section \<open>Operations that keep an invariant\<close>

text \<open>A module keeps \<open>I\<close> when each packet callback does, for packets without a negative amount.\<close>

definition keeps :: "('w \<Rightarrow> bool) \<Rightarrow> ('w, 'a) op \<Rightarrow> bool" where
  "keeps I m \<longleftrightarrow> (\<forall>w. I w \<longrightarrow> I (snd (m w)))"

definition packet_ok :: "lib \<Rightarrow> Packet \<Rightarrow> bool" where
  "packet_ok L p \<longleftrightarrow> amount_ok L p PACKET_SEND \<and> amount_ok L p PACKET_RECV"

definition module_keeps :: "lib \<Rightarrow> ('w \<Rightarrow> bool) \<Rightarrow> 'w IBCModule \<Rightarrow> bool" where
  "module_keeps L I M \<longleftrightarrow>
     (\<forall>p ack rel. packet_ok L p \<longrightarrow>
        keeps I (OnRecvPacket M p rel) \<and> keeps I (OnAcknowledgementPacket M p ack rel) \<and> keeps I (OnTimeoutPacket M p rel))"

lemma keeps_bind: "keeps I m \<Longrightarrow> (\<And>a. keeps I (f a)) \<Longrightarrow> keeps I (op_bind m f)"
  unfolding keeps_def op_bind_def by (auto split: prod.splits res.splits)

lemma keeps_lift [simp]: "keeps I (op_lift r)"
  by (simp add: keeps_def op_lift_def)

lemma keeps_must: "keeps I m \<Longrightarrow> keeps I (op_must m)"
  unfolding keeps_def op_must_def by (auto split: prod.splits res.splits)

lemma keeps_Ok [simp]: "keeps I (\<lambda>w. (r w, w))"
  by (simp add: keeps_def)

lemma keeps_if: "keeps I m \<Longrightarrow> keeps I n \<Longrightarrow> keeps I (\<lambda>w. if b w then m w else n w)"
  by (simp add: keeps_def)

text \<open>What the transfer middleware may call without touching \<open>I\<close>.\<close>

definition bank_keeps :: "('w \<Rightarrow> bool) \<Rightarrow> 'w bank \<Rightarrow> bool" where
  "bank_keeps I B \<longleftrightarrow>
     (\<forall>f t cs. keeps I (SendCoins B f t cs)) \<and> (\<forall>m cs. keeps I (MintCoins B m cs)) \<and>
     (\<forall>m t cs. keeps I (SendCoinsFromModuleToAccount B m t cs)) \<and>
     (\<forall>f m cs. keeps I (SendCoinsFromAccountToModule B f m cs)) \<and> (\<forall>m cs. keeps I (BurnCoins B m cs))"

lemma keeps_with_coin: "(\<And>cs. keeps I (f cs)) \<Longrightarrow> keeps I (with_coin L c f)"
  unfolding with_coin_def by (rule keeps_bind) simp_all

lemma keeps_escrow_and_mint: "bank_keeps I (td_bank D) \<Longrightarrow> keeps I (escrow_and_mint L D r e v d a)"
  unfolding escrow_and_mint_def bank_keeps_def
  by (intro keeps_bind keeps_with_coin keeps_lift) simp_all

lemma keeps_tfmw_OnRecvPacket:
  assumes "bank_keeps I (td_bank D)" "\<And>tr w. I w \<Longrightarrow> I (td_SetDenomTrace D tr w)"
  shows "keeps I (tfmw_OnRecvPacket L D p data)"
  unfolding tfmw_OnRecvPacket_def
proof (intro keeps_bind keeps_lift)
  fix receiver
  show "keeps I (\<lambda>s. case NewIntFromString L (Ftd_Amount data) of
      None \<Rightarrow> (Err ErrInvalidAmount, s)
    | Some transferAmount \<Rightarrow>
        if ReceiverChainIsSource L (Pkt_SourcePort p) (Pkt_SourceChannel p) (Ftd_Denom data) then (Ok (), s)
        else let sourcePrefix = GetDenomPrefix L (Pkt_DestPort p) (Pkt_DestChannel p);
                 prefixedDenom = sourcePrefix @ Ftd_Denom data;
                 denomTrace = ParseDenomTrace L prefixedDenom;
                 traceHash = Dt_Hash L denomTrace;
                 s = if \<not> td_HasDenomTrace D s traceHash then td_SetDenomTrace D denomTrace s else s;
                 voucherDenom = IBCDenom L denomTrace
             in op_bind (op_lift (NewCoin L voucherDenom transferAmount)) (\<lambda>voucher s.
                  let paraTokenInfo = GetParachainIBCTokenInfoByAssetID (td_tfmw D s) (Ftd_Denom data)
                  in if GetNativeDenomByIBCDenomSecondaryIndex (td_tfmw D s) (IBCDenom L denomTrace) \<noteq> NativeDenom paraTokenInfo
                     then (Ok (), s)
                     else if Pkt_DestChannel p = ChannelID paraTokenInfo
                     then escrow_and_mint L D receiver (GetEscrowAddress L (Pkt_DestPort p) (Pkt_DestChannel p))
                            voucher (NativeDenom paraTokenInfo) transferAmount s
                     else (Ok (), s)) s)"
    using assms(2) keeps_escrow_and_mint [OF assms(1), of L]
    by (auto simp: keeps_def Let_def op_bind_def op_lift_def split: option.split res.split)
qed

lemma keeps_refundToken:
  assumes "bank_keeps I (td_bank D)"
  shows "keeps I (refundToken L D p data)"
proof -
  have "keeps I (op_bind (op_must (with_coin L token (SendCoins (td_bank D) snd esc))) (\<lambda>_.
           op_bind (with_coin L nativeToken (MintCoins (td_bank D) tfmw_ModuleName)) (\<lambda>_.
           op_must (with_coin L nativeToken (SendCoinsFromModuleToAccount (td_bank D) tfmw_ModuleName snd)))))"
    for token snd esc nativeToken
    using assms unfolding bank_keeps_def
    by (intro keeps_bind keeps_must keeps_with_coin) simp_all
  then show ?thesis
    unfolding refundToken_def keeps_def Let_def
    by (auto simp: op_bind_def [of "op_lift _"] op_lift_def split: option.split res.split)
qed

lemma keeps_tfmw_mw:
  assumes bank: "bank_keeps I (td_bank D)" "\<And>tr w. I w \<Longrightarrow> I (td_SetDenomTrace D tr w)"
    and app: "module_keeps L I app"
  shows "module_keeps L I (tfmw_IBCMiddleware L txt app D)"
  unfolding module_keeps_def
proof (intro allI impI conjI)
  fix p ack rel
  assume p: "packet_ok L p"
  note app' = app [unfolded module_keeps_def, rule_format, OF p]
  note recv = keeps_tfmw_OnRecvPacket [OF bank, of L p]
  note refund = keeps_refundToken [OF bank(1), of L p]
  show "keeps I (OnRecvPacket (tfmw_IBCMiddleware L txt app D) p rel)"
    unfolding tfmw_IBCMiddleware_def tfmw_mw_OnRecvPacket_def IBCModule.select_convs
  proof (rule keeps_bind)
    show "keeps I (OnRecvPacket app p rel)" using app' by blast
    fix a
    show "keeps I (\<lambda>w. case UnmarshalJSON_packet L (Pkt_Data p) of
         Err e \<Rightarrow> (Ok (Some (NewErrorAcknowledgement txt e)), w)
       | Panic \<Rightarrow> (Panic, w)
       | Ok data \<Rightarrow>
           (case ack_Success a of
              Ok True \<Rightarrow>
                (case tfmw_OnRecvPacket L D p data w of
                   (Err e, w') \<Rightarrow> (Ok (Some (NewErrorAcknowledgement txt e)), w')
                 | (Panic, w') \<Rightarrow> (Panic, w')
                 | (Ok _, w') \<Rightarrow> (Ok a, w'))
            | Ok False \<Rightarrow> (Ok a, w)
            | Err e \<Rightarrow> (Err e, w)
            | Panic \<Rightarrow> (Panic, w)))"
      using recv unfolding keeps_def
      by (auto split: res.split prod.split bool.split) (metis snd_conv)+
  qed
  show "keeps I (OnAcknowledgementPacket (tfmw_IBCMiddleware L txt app D) p ack rel)"
    unfolding tfmw_IBCMiddleware_def tfmw_mw_OnAcknowledgementPacket_def IBCModule.select_convs
  proof (rule keeps_bind)
    show "keeps I (OnAcknowledgementPacket app p ack rel)" using app' by blast
    show "keeps I (tfmw_OnAcknowledgementPacket L D p ack)"
      using refund unfolding keeps_def tfmw_OnAcknowledgementPacket_def
      by (auto split: res.split AckResponse.split)
  qed
  show "keeps I (OnTimeoutPacket (tfmw_IBCMiddleware L txt app D) p rel)"
  proof (cases "UnmarshalJSON_packet L (Pkt_Data p)")
    case (Ok data)
    have "keeps I (op_bind (OnTimeoutPacket app p rel) (\<lambda>_. tfmw_OnTimeoutPacket L D p data))"
      by (rule keeps_bind) (use app' refund in \<open>auto simp: tfmw_OnTimeoutPacket_def\<close>)
    with Ok show ?thesis
      by (simp add: keeps_def tfmw_IBCMiddleware_def tfmw_mw_OnTimeoutPacket_def)
  qed (simp_all add: keeps_def tfmw_IBCMiddleware_def tfmw_mw_OnTimeoutPacket_def)
qed

text \<open>The packet that a send stands for, and an ICS4 wrapper that keeps \<open>I\<close>.\<close>

definition sent_packet :: "u64 \<Rightarrow> string \<Rightarrow> string \<Rightarrow> Height \<Rightarrow> u64 \<Rightarrow> bytes \<Rightarrow> Packet" where
  "sent_packet sequence sourcePort sourceChannel timeoutHeight timeoutTimestamp data =
     \<lparr>Pkt_Sequence = sequence, Pkt_SourcePort = sourcePort, Pkt_SourceChannel = sourceChannel,
      Pkt_DestPort = [], Pkt_DestChannel = [], Pkt_Data = data,
      Pkt_TimeoutHeight = timeoutHeight, Pkt_TimeoutTimestamp = timeoutTimestamp\<rparr>"

definition ics_keeps :: "lib \<Rightarrow> ('w \<Rightarrow> bool) \<Rightarrow> 'w ICS4Wrapper \<Rightarrow> bool" where
  "ics_keeps L I W \<longleftrightarrow>
     (\<forall>cap port chan th tt data.
        (\<forall>n. amount_ok L (sent_packet n port chan th tt data) PACKET_SEND) \<longrightarrow>
        keeps I (ics_SendPacket W cap port chan th tt data)) \<and>
     (\<forall>cap p ack. keeps I (ics_WriteAcknowledgement W cap p ack))"

lemma keeps_burn_and_release: "bank_keeps I (td_bank D) \<Longrightarrow> keeps I (burn_and_release L D e s n v)"
  unfolding burn_and_release_def bank_keeps_def
  by (intro keeps_bind keeps_with_coin) simp_all

lemma keeps_override:
  assumes "bank_keeps I (td_bank D)" "\<And>m. keeps I (td_Transfer D m)"
  shows "keeps I (handleOverrideSendPacketTransferLogic L D port chan th tt data)"
proof -
  have exec: "keeps I (executeTransferMsg L D m)" for m
    using assms(2) [of m] by (simp add: keeps_def executeTransferMsg_def split: res.split)
  have "keeps I (op_bind (burn_and_release L D e s n v) (\<lambda>_. executeTransferMsg L D m))" for e s n v m
    by (intro keeps_bind keeps_burn_and_release exec assms(1))
  then show ?thesis
    unfolding handleOverrideSendPacketTransferLogic_def keeps_def Let_def
    by (auto simp: op_bind_def [of "op_lift _"] op_lift_def split: option.split res.split)
qed

lemma keeps_tfmw_ICS4:
  assumes "bank_keeps I (td_bank D)" "\<And>m. keeps I (td_Transfer D m)" "ics_keeps L I (td_ICS4Wrapper D)"
  shows "ics_keeps L I (tfmw_ICS4 L D)"
proof -
  have "keeps I (tfmw_SendPacket L D cap port chan th tt data)"
    if "\<forall>n. amount_ok L (sent_packet n port chan th tt data) PACKET_SEND" for cap port chan th tt data
    using that assms(3) keeps_override [OF assms(1,2), of L]
    unfolding tfmw_SendPacket_def keeps_def ics_keeps_def Let_def
    by (auto simp: op_bind_def op_lift_def split: res.split)
  then show ?thesis
    using assms(3) by (simp add: ics_keeps_def tfmw_ICS4_def tfmw_WriteAcknowledgement_def)
qed

section \<open>Layers\<close>

text \<open>What a layer owes to the stack: it keeps an invariant when what is below it does.\<close>

locale ibc_layer =
  fixes L :: lib
    and I :: "'w \<Rightarrow> bool"
    and wrap :: "'w IBCModule \<Rightarrow> 'w IBCModule"
  assumes wrap_keeps: "module_keeps L I app \<Longrightarrow> module_keeps L I (wrap app)"

text \<open>
  The same for what is sent. A layer may hand a packet to the transfer application, which is a parameter
  \<open>transfer\<close> of the layer.
\<close>

locale ics4_layer =
  fixes L :: lib
    and I :: "'w \<Rightarrow> bool"
    and send_through :: "(MsgTransfer \<Rightarrow> ('w, u64) op) \<Rightarrow> 'w ICS4Wrapper \<Rightarrow> 'w ICS4Wrapper"
  assumes send_through_keeps:
    "(\<And>m. keeps I (transfer m)) \<Longrightarrow> ics_keeps L I W \<Longrightarrow> ics_keeps L I (send_through transfer W)"

text \<open>
  The stack of the application: an outer and an inner middleware with another between them, where the inner one
  sends through the outer one.
\<close>

locale ibc_stack =
  outer: ibc_layer L I outer + inner: ibc_layer L I inner +
  below: ics4_layer L I outer_send + above: ics4_layer L I inner_send
  for L :: lib and I :: "'w \<Rightarrow> bool" and outer inner outer_send inner_send
begin

lemma receives:
  assumes "module_keeps L I app" "\<And>M. module_keeps L I M \<Longrightarrow> module_keeps L I (between M)"
  shows "module_keeps L I (outer (between (inner app)))"
  by (intro outer.wrap_keeps assms(2) inner.wrap_keeps assms(1))

lemma sends:
  assumes "\<And>m. keeps I (transfer m)" "ics_keeps L I channel"
  shows "ics_keeps L I (inner_send transfer (outer_send transfer channel))"
  by (intro above.send_through_keeps below.send_through_keeps assms)

end

text \<open>The transfer middleware as a layer, over the dependencies of the application.\<close>

definition tfmw_layer ::
    "lib \<Rightarrow> ack_text \<Rightarrow> 'b world tfmw_deps \<Rightarrow> 'b world IBCModule \<Rightarrow> 'b world IBCModule" where
  "tfmw_layer L txt D app = tfmw_IBCMiddleware L txt app D"

definition tfmw_send_layer ::
    "lib \<Rightarrow> 'b world tfmw_deps \<Rightarrow> (MsgTransfer \<Rightarrow> ('b world, u64) op) \<Rightarrow> 'b world ICS4Wrapper \<Rightarrow> 'b world ICS4Wrapper" where
  "tfmw_send_layer L D transfer W = tfmw_ICS4 L (D\<lparr>td_Transfer := transfer, td_ICS4Wrapper := W\<rparr>)"

lemma wired_stack_layers:
  "wired_stack L txt D forward transfer = rl_IBCMiddleware L txt (forward (tfmw_layer L txt D transfer))"
  by (simp add: wired_stack_def tfmw_layer_def)

lemma wired_send_layers:
  "tfmw_ICS4 L (wired_deps L B ht st tr channel) =
     tfmw_send_layer L (wired_deps L B ht st tr channel) tr (rl_ICS4 L channel)"
  by (simp add: tfmw_send_layer_def wired_deps_def)

text \<open>An invariant over the stores of the two modules: the rest of the chain does not matter for it.\<close>

lemma ext_bank_keeps:
  assumes "\<And>w b. I (w\<lparr>w_ext := b\<rparr>) = I w"
  shows "bank_keeps I (ext_bank B)"
  using assms by (auto simp: bank_keeps_def keeps_def ext_bank_def bank_on_def op_on_def split: prod.splits)

lemma tfmw_layers:
  assumes "\<And>w b. I (w\<lparr>w_ext := b\<rparr>) = I w"
  shows "ibc_layer L I (tfmw_layer L txt (wired_deps L B ht st tr W))"
    and "ics4_layer L I (tfmw_send_layer L (wired_deps L B ht st tr W))"
proof -
  have bank: "bank_keeps I (td_bank (wired_deps L B ht st tr W))"
    using ext_bank_keeps [OF assms] by (simp add: wired_deps_def)
  show "ibc_layer L I (tfmw_layer L txt (wired_deps L B ht st tr W))"
    by unfold_locales
       (use bank in \<open>auto simp: tfmw_layer_def wired_deps_def assms intro!: keeps_tfmw_mw\<close>)
  show "ics4_layer L I (tfmw_send_layer L (wired_deps L B ht st tr W))"
    by unfold_locales (use bank in \<open>auto simp: tfmw_send_layer_def intro!: keeps_tfmw_ICS4\<close>)
qed

section \<open>The safety of the rate limits\<close>

definition rl_safe :: "'b world \<Rightarrow> bool" where
  "rl_safe w \<longleftrightarrow> limits_safe (w_rl w)"

lemma keeps_on_rl: "(\<And>s. limits_safe s \<Longrightarrow> limits_safe (snd (m s))) \<Longrightarrow> keeps rl_safe (on_rl m)"
  unfolding keeps_def rl_safe_def on_rl_def op_on_def by (auto split: prod.split) (metis snd_conv)

lemma keeps_rl_mw:
  fixes app :: "'b world IBCModule"
  assumes app: "module_keeps L rl_safe app"
  shows "module_keeps L rl_safe (rl_IBCMiddleware L txt app)"
  unfolding module_keeps_def
proof (intro allI impI conjI)
  fix p ack rel
  assume p: "packet_ok L p"
  then have ok: "amount_ok L p PACKET_SEND" "amount_ok L p PACKET_RECV" by (simp_all add: packet_ok_def)
  note app' = app [unfolded module_keeps_def, rule_format, OF p]
  have recv: "keeps rl_safe (on_rl (ReceiveRateLimitedPacket L p) :: ('b world, unit) op)"
    by (intro keeps_on_rl limits_safe_receive ok)
  show "keeps rl_safe (OnRecvPacket (rl_IBCMiddleware L txt app) p rel)"
    unfolding keeps_def
  proof (intro allI impI)
    fix w :: "'b world"
    assume w: "rl_safe w"
    obtain r w' where m: "on_rl (ReceiveRateLimitedPacket L p) w = (r, w')" by (cases "on_rl (ReceiveRateLimitedPacket L p) w")
    then have "rl_safe w'" using recv w unfolding keeps_def by (metis snd_conv)
    with m app' show "rl_safe (snd (OnRecvPacket (rl_IBCMiddleware L txt app) p rel w))"
      by (cases r) (simp_all add: rl_IBCMiddleware_def rl_OnRecvPacket_def keeps_def)
  qed
  show "keeps rl_safe (OnAcknowledgementPacket (rl_IBCMiddleware L txt app) p ack rel)"
    unfolding rl_IBCMiddleware_def rl_OnAcknowledgementPacket_def IBCModule.select_convs
    by (rule keeps_bind) (use app' in \<open>auto intro!: keeps_on_rl limits_safe_ack ok\<close>)
  show "keeps rl_safe (OnTimeoutPacket (rl_IBCMiddleware L txt app) p rel)"
    unfolding rl_IBCMiddleware_def rl_OnTimeoutPacket_def IBCModule.select_convs
    by (rule keeps_bind) (use app' in \<open>auto intro!: keeps_on_rl limits_safe_timeout ok\<close>)
qed

lemma keeps_rl_ICS4:
  fixes W :: "'b world ICS4Wrapper"
  assumes "ics_keeps L rl_safe W"
  shows "ics_keeps L rl_safe (rl_ICS4 L W)"
proof -
  have "keeps rl_safe (rl_SendPacket L W cap port chan th tt data)"
    if ok: "\<forall>n. amount_ok L (sent_packet n port chan th tt data) PACKET_SEND" for cap port chan th tt data
    unfolding rl_SendPacket_def
  proof (intro keeps_bind keeps_lift)
    show "keeps rl_safe (ics_SendPacket W cap port chan th tt data)"
      using assms ok by (simp add: ics_keeps_def)
    show "keeps rl_safe (on_rl (SendRateLimitedPacket L
        \<lparr>Pkt_Sequence = n, Pkt_SourcePort = port, Pkt_SourceChannel = chan, Pkt_DestPort = [], Pkt_DestChannel = [],
         Pkt_Data = data, Pkt_TimeoutHeight = th, Pkt_TimeoutTimestamp = tt\<rparr>) :: ('b world, unit) op)" for n
      using ok by (intro keeps_on_rl limits_safe_send) (simp_all add: sent_packet_def)
  qed
  then show ?thesis
    using assms by (simp add: ics_keeps_def rl_ICS4_def rl_WriteAcknowledgement_def)
qed

interpretation limits: ibc_stack L rl_safe "rl_IBCMiddleware L at" "tfmw_layer L at (wired_deps L B ht st tr W)"
  "\<lambda>_. rl_ICS4 L" "tfmw_send_layer L (wired_deps L B ht st tr W)" for L at B ht st tr W
  unfolding ibc_stack_def
  by (intro conjI tfmw_layers; (unfold_locales; intro keeps_rl_mw keeps_rl_ICS4)?) (simp_all add: rl_safe_def)

section \<open>The token registry\<close>

text \<open>No packet changes the registry: that the store of the transfer middleware is \<open>R\<close> is an invariant too.\<close>

lemma keeps_on_rl_registry: "keeps (\<lambda>w. w_tfmw w = R) (on_rl m)"
  by (auto simp: keeps_def on_rl_def op_on_def split: prod.split)

lemma registry_rl_mw:
  assumes "module_keeps L (\<lambda>w. w_tfmw w = R) app"
  shows "module_keeps L (\<lambda>w. w_tfmw w = R) (rl_IBCMiddleware L txt app)"
proof -
  let ?I = "\<lambda>w. w_tfmw w = R"
  note kept = keeps_on_rl_registry [where R = R]
  have "keeps ?I (rl_OnRecvPacket L txt app p rel)" if "packet_ok L p" for p rel
    using assms that kept [of "ReceiveRateLimitedPacket L p"]
    unfolding rl_OnRecvPacket_def keeps_def module_keeps_def
    by (auto split: prod.split res.split)
  moreover have "keeps ?I (rl_OnAcknowledgementPacket L app p ack rel)" if "packet_ok L p" for p ack rel
    unfolding rl_OnAcknowledgementPacket_def
    by (rule keeps_bind [OF kept]) (use assms that in \<open>auto simp: module_keeps_def\<close>)
  moreover have "keeps ?I (rl_OnTimeoutPacket L app p rel)" if "packet_ok L p" for p rel
    unfolding rl_OnTimeoutPacket_def
    by (rule keeps_bind [OF kept]) (use assms that in \<open>auto simp: module_keeps_def\<close>)
  ultimately show ?thesis by (simp add: module_keeps_def rl_IBCMiddleware_def)
qed

lemma registry_rl_ICS4:
  assumes "ics_keeps L (\<lambda>w. w_tfmw w = R) W"
  shows "ics_keeps L (\<lambda>w. w_tfmw w = R) (rl_ICS4 L W)"
  using assms
  by (auto simp: ics_keeps_def rl_ICS4_def rl_WriteAcknowledgement_def rl_SendPacket_def
      intro!: keeps_bind keeps_on_rl_registry)

interpretation registry: ibc_stack L "\<lambda>w. w_tfmw w = R" "rl_IBCMiddleware L at"
  "tfmw_layer L at (wired_deps L B ht st tr W)" "\<lambda>_. rl_ICS4 L" "tfmw_send_layer L (wired_deps L B ht st tr W)"
  for L R at B ht st tr W
  unfolding ibc_stack_def
  by (intro conjI tfmw_layers; (unfold_locales; intro registry_rl_mw registry_rl_ICS4)?) simp_all

text \<open>So the wired stack reads the registry only.\<close>

lemma stack_reads_registry:
  assumes "module_keeps L (\<lambda>w. w_tfmw w = R) app"
    and "\<And>M. module_keeps L (\<lambda>w. w_tfmw w = R) M \<Longrightarrow> module_keeps L (\<lambda>w. w_tfmw w = R) (forward M)"
  shows "module_keeps L (\<lambda>w. w_tfmw w = R) (wired_stack L txt (wired_deps L B ht st tr W) forward app)"
  unfolding wired_stack_layers by (rule registry.receives [OF assms])

end
