(* ===== verification/Tfmw_Peg.thy ===== *)
theory Tfmw_Peg
  imports World Tfmw_Props Reference_Lib
begin

text \<open>
  The token swap keeps the peg: native tokens of the chain are minted exactly when the same amount of
  the IBC voucher is locked in the escrow account, and burned exactly when it is released.
\<close>

section \<open>Single-coin bank calls\<close>

definition moves :: "'w bank \<Rightarrow> bytes \<Rightarrow> bytes \<Rightarrow> string \<Rightarrow> int \<Rightarrow> 'w \<Rightarrow> 'w \<Rightarrow> bool" where
  "moves B f t d amt s s' \<longleftrightarrow>
     (\<forall>a d'. GetBalance B s' a d' =
        GetBalance B s a d' - (if a = f \<and> d' = d then amt else 0) + (if a = t \<and> d' = d then amt else 0)) \<and>
     (\<forall>d'. GetSupply B s' d' = GetSupply B s d')"

definition issues :: "'w bank \<Rightarrow> bytes \<Rightarrow> string \<Rightarrow> int \<Rightarrow> 'w \<Rightarrow> 'w \<Rightarrow> bool" where
  "issues B m d amt s s' \<longleftrightarrow>
     (\<forall>a d'. GetBalance B s' a d' = GetBalance B s a d' + (if a = m \<and> d' = d then amt else 0)) \<and>
     (\<forall>d'. GetSupply B s' d' = GetSupply B s d' + (if d' = d then amt else 0))"

lemma with_coin_Ok:
  assumes "with_coin L c f s = (Ok u, s')"
  obtains cs where "NewCoins L [c] = Ok cs" "f cs s = (Ok u, s')"
  using assms by (auto simp: with_coin_def op_bind_def op_lift_def split: res.splits)

lemma coin_moves:
  assumes "coin_laws L" "NewCoin L d a = Ok c" "with_coin L c f s = (Ok u, s')"
    and "\<And>cs. f cs s = (Ok u, s') \<Longrightarrow> moved B x y cs s s'"
  shows "moves B x y d a s s'"
proof -
  obtain cs where cs: "NewCoins L [c] = Ok cs" "f cs s = (Ok u, s')" by (rule with_coin_Ok [OF assms(3)])
  from assms(4) [OF cs(2)] coin_laws_NewCoins_amount [OF assms(1,2) cs(1)] show ?thesis
    by (auto simp: moves_def moved_def)
qed

lemma coin_issues:
  assumes "coin_laws L" "NewCoin L d a = Ok c" "with_coin L c f s = (Ok u, s')"
    and "\<And>cs. f cs s = (Ok u, s') \<Longrightarrow> issued B m (\<lambda>d. k * AmountOf cs d) s s'"
  shows "issues B m d (k * a) s s'"
proof -
  obtain cs where cs: "NewCoins L [c] = Ok cs" "f cs s = (Ok u, s')" by (rule with_coin_Ok [OF assms(3)])
  from assms(4) [OF cs(2)] coin_laws_NewCoins_amount [OF assms(1,2) cs(1)] show ?thesis
    by (auto simp: issues_def issued_def)
qed

section \<open>Swapping in and out\<close>

text \<open>
  \<open>swap_in B user escrow ibc native a s t\<close>: the user gave \<open>a\<close> vouchers to the escrow account and got
  \<open>a\<close> new native tokens.
\<close>

definition swap_in :: "'w bank \<Rightarrow> bytes \<Rightarrow> bytes \<Rightarrow> string \<Rightarrow> string \<Rightarrow> int \<Rightarrow> 'w \<Rightarrow> 'w \<Rightarrow> bool" where
  "swap_in B user escrow ibc native amt s t \<longleftrightarrow>
     (\<forall>a d. GetBalance B t a d = GetBalance B s a d
        - (if a = user \<and> d = ibc then amt else 0) + (if a = escrow \<and> d = ibc then amt else 0)
        + (if a = user \<and> d = native then amt else 0)) \<and>
     (\<forall>d. GetSupply B t d = GetSupply B s d + (if d = native then amt else 0))"

text \<open>\<open>swap_out\<close>: the escrow account's native tokens were burned and its vouchers given to the user.\<close>

definition swap_out :: "'w bank \<Rightarrow> bytes \<Rightarrow> bytes \<Rightarrow> string \<Rightarrow> string \<Rightarrow> int \<Rightarrow> 'w \<Rightarrow> 'w \<Rightarrow> bool" where
  "swap_out B user escrow ibc native amt s t \<longleftrightarrow>
     (\<forall>a d. GetBalance B t a d = GetBalance B s a d
        + (if a = user \<and> d = ibc then amt else 0) - (if a = escrow \<and> d = ibc then amt else 0)
        - (if a = escrow \<and> d = native then amt else 0)) \<and>
     (\<forall>d. GetSupply B t d = GetSupply B s d - (if d = native then amt else 0))"

lemma swap_in_steps:
  assumes "moves B user escrow ibc amt s s1" "issues B m native amt s1 s2" "moves B m user native amt s2 t"
  shows "swap_in B user escrow ibc native amt s t"
  using assms unfolding moves_def issues_def swap_in_def by auto

lemma swap_out_steps:
  assumes "moves B escrow m native amt s s1" "issues B m native (- amt) s1 s2" "moves B escrow user ibc amt s2 t"
  shows "swap_out B user escrow ibc native amt s t"
  using assms unfolding moves_def issues_def swap_out_def by auto

text \<open>
  The peg of a token: the vouchers in escrow minus the native supply. It is what the swaps keep, as
  long as the user is not the escrow account itself.
\<close>

definition peg :: "'w bank \<Rightarrow> bytes \<Rightarrow> string \<Rightarrow> string \<Rightarrow> 'w \<Rightarrow> int" where
  "peg B escrow ibc native s = GetBalance B s escrow ibc - GetSupply B s native"

lemma swap_keeps_peg:
  assumes "user \<noteq> escrow" "ibc \<noteq> native"
  shows "swap_in B user escrow ibc native amt s t \<Longrightarrow> peg B escrow ibc native t = peg B escrow ibc native s"
    and "swap_out B user escrow ibc native amt s t \<Longrightarrow> peg B escrow ibc native t = peg B escrow ibc native s"
  using assms by (auto simp: swap_in_def swap_out_def peg_def)

lemma op_bind_OkE:
  assumes "op_bind m f s = (Ok b, t)"
  obtains a s' where "m s = (Ok a, s')" "f a s' = (Ok b, t)"
  using assms by (auto simp: op_bind_eq_Ok)

lemma escrow_and_mint_swap:
  assumes laws: "coin_laws L" "bank_laws (td_bank D) mac"
    and v: "NewCoin L ibc amt = Ok voucher"
    and run: "escrow_and_mint L D user escrow voucher native amt s = (Ok u, t)"
  shows "swap_in (td_bank D) user escrow ibc native amt s t"
proof -
  note dest = bank_laws_dests [OF laws(2)]
  from run [unfolded escrow_and_mint_def] obtain u1 s1 c s2 u2 where
    1: "with_coin L voucher (SendCoins (td_bank D) user escrow) s = (Ok u1, s1)" and
    c: "NewCoin L native amt = Ok c" and
    2: "with_coin L c (MintCoins (td_bank D) tfmw_ModuleName) s1 = (Ok u2, s2)" and
    3: "with_coin L c (SendCoinsFromModuleToAccount (td_bank D) tfmw_ModuleName user) s2 = (Ok u, t)"
    by (elim op_bind_OkE) (metis op_lift_eq)
  have "issues (td_bank D) (mac tfmw_ModuleName) native (1 * amt) s1 s2"
    by (rule coin_issues [OF laws(1) c 2]) (use dest(5) in simp)
  with coin_moves [OF laws(1) v 1 dest(1)] coin_moves [OF laws(1) c 3 dest(2)] show ?thesis
    by (intro swap_in_steps) simp_all
qed

lemma burn_and_release_swap:
  assumes laws: "coin_laws L" "bank_laws (td_bank D) mac"
    and n: "NewCoin L native amt = Ok nc" and i: "NewCoin L ibc amt = Ok ic"
    and run: "burn_and_release L D escrow user nc ic s = (Ok u, t)"
  shows "swap_out (td_bank D) user escrow ibc native amt s t"
proof -
  note dest = bank_laws_dests [OF laws(2)]
  from run [unfolded burn_and_release_def] obtain u1 s1 s2 u2 where
    1: "with_coin L nc (SendCoinsFromAccountToModule (td_bank D) escrow (TransferModuleName L)) s = (Ok u1, s1)" and
    2: "with_coin L nc (BurnCoins (td_bank D) (TransferModuleName L)) s1 = (Ok u2, s2)" and
    3: "with_coin L ic (SendCoins (td_bank D) escrow user) s2 = (Ok u, t)"
    by (auto simp: op_bind_eq_Ok)
  have "issues (td_bank D) (mac (TransferModuleName L)) native (-1 * amt) s1 s2"
    by (rule coin_issues [OF laws(1) n 2]) (use dest(6) in simp)
  with coin_moves [OF laws(1) n 1 dest(3)] coin_moves [OF laws(1) i 3 dest(1)] show ?thesis
    by (intro swap_out_steps) simp_all
qed

section \<open>A small chain\<close>

text \<open>
  A world over the reference ledger. The transfer keeper burns a voucher that came through the channel it is sent on and
  locks any other token in the escrow account of that channel; the channel below returns the sequence number one. The full
  path of a voucher stands in its denomination.
\<close>

definition ref_path_of :: "string \<Rightarrow> string" where
  "ref_path_of d = (if prefix ''ibc/'' d then drop 4 d else d)"

definition ref_transfer :: "MsgTransfer \<Rightarrow> (ledger world, u64) op" where
  "ref_transfer m =
     on_ext (\<lambda>b.
       if \<not> covered (lg_balance b (Mt_Sender m)) [Mt_Token m] then (Err (ErrLib ''insufficient funds''), b)
       else
         (let b' = b\<lparr>lg_balance := (\<lambda>a d. lg_balance b a d - (if a = Mt_Sender m then AmountOf [Mt_Token m] d else 0))\<rparr> in
          (Ok 1,
           if SenderChainIsSource ref_lib (Mt_SourcePort m) (Mt_SourceChannel m) (ref_path_of (Coin_Denom (Mt_Token m)))
           then b'\<lparr>lg_balance := (\<lambda>a d. lg_balance b' a d +
                  (if a = GetEscrowAddress ref_lib (Mt_SourcePort m) (Mt_SourceChannel m) then AmountOf [Mt_Token m] d else 0))\<rparr>
           else b'\<lparr>lg_supply := (\<lambda>d. lg_supply b d - AmountOf [Mt_Token m] d)\<rparr>)))"

definition ref_channel :: "'w ICS4Wrapper" where
  "ref_channel = \<lparr>ics_SendPacket = (\<lambda>_ _ _ _ _ _ s. (Ok 1, s)), ics_WriteAcknowledgement = (\<lambda>_ _ _ s. (Ok (), s)),
     ics_GetAppVersion = (\<lambda>_ _ _. (''ics20-1'', True))\<rparr>"

definition ref_deps :: "ledger world tfmw_deps" where
  "ref_deps = \<lparr>td_bank = ext_bank ref_bank, td_tfmw = w_tfmw, td_HasDenomTrace = (\<lambda>_ _. True),
     td_SetDenomTrace = (\<lambda>_ w. w), td_Transfer = ref_transfer, td_ICS4Wrapper = ref_channel\<rparr>"

text \<open>The world in which the token \<open>ex_peg_token\<close> is registered and some of it is in circulation.\<close>

definition ex_peg_token :: ParachainIBCTokenInfo where
  "ex_peg_token = \<lparr>IbcDenom = ''ibc/transfer/channel-0/1'', ChannelID = ''channel-0'',
     NativeDenom = ''ppica'', AssetId = ''1''\<rparr>"

definition ex_peg_tfmw :: tfmw_state where
  "ex_peg_tfmw = snd (add_info ex_peg_token tfmw_empty)"

definition ex_ledger :: ledger where
  "ex_ledger = \<lparr>lg_balance = (\<lambda>a d. if d = ''ibc/transfer/channel-0/1'' then 100
                                     else if d = ''ppica'' then 100 else 0),
     lg_supply = (\<lambda>d. 1000)\<rparr>"

definition ex_world :: "ledger world" where
  "ex_world = \<lparr>w_tfmw = ex_peg_tfmw, w_rl = rl_empty, w_ext = ex_ledger\<rparr>"

lemma ref_deps_simps [simp]:
  "td_bank ref_deps = ext_bank ref_bank" "td_tfmw ref_deps = w_tfmw" "td_SetDenomTrace ref_deps tr w = w"
  "td_HasDenomTrace ref_deps w h" "td_Transfer ref_deps = ref_transfer" "td_ICS4Wrapper ref_deps = ref_channel"
  by (simp_all add: ref_deps_def)

lemma ex_peg_add: "add_info ex_peg_token tfmw_empty = (Ok (), ex_peg_tfmw)"
  by (simp add: ex_peg_tfmw_def add_info_def AddParachainIBCInfo_def tfmw_empty_def Let_def)

lemma ex_peg_registry: "registry_ok ex_peg_tfmw" "registered ex_peg_tfmw = {ex_peg_token}"
  using AddParachainIBCInfo_registered [OF registry_ok_empty(1) ex_peg_add [unfolded add_info_def]]
  by (simp_all only: registry_ok_empty info_eta [symmetric])

section \<open>Receiving, sending and refunding\<close>

text \<open>Storing a denomination trace touches neither the bank nor the registry.\<close>

definition trace_laws :: "'w tfmw_deps \<Rightarrow> bool" where
  "trace_laws D \<longleftrightarrow>
     (\<forall>tr w. td_tfmw D (td_SetDenomTrace D tr w) = td_tfmw D w \<and>
        GetBalance (td_bank D) (td_SetDenomTrace D tr w) = GetBalance (td_bank D) w \<and>
        GetSupply (td_bank D) (td_SetDenomTrace D tr w) = GetSupply (td_bank D) w)"

lemma swap_in_cong:
  "GetBalance B s' = GetBalance B s \<Longrightarrow> GetSupply B s' = GetSupply B s \<Longrightarrow>
   swap_in B u e i n a s' t = swap_in B u e i n a s t"
  by (simp add: swap_in_def)

lemma OnRecvPacket_swap_in:
  assumes laws: "coin_laws L" "bank_laws (td_bank D) mac" "trace_laws D"
    and reg: "registry_ok (td_tfmw D s)" "i \<in> registered (td_tfmw D s)"
    and token: "AssetId i = Ftd_Denom data" "ChannelID i = Pkt_DestChannel packet"
      "IbcDenom i = IBCDenom L (ParseDenomTrace L
         (GetDenomPrefix L (Pkt_DestPort packet) (Pkt_DestChannel packet) @ Ftd_Denom data))"
    and data: "AccAddressFromBech32 L (Ftd_Receiver data) = Ok receiver"
      "NewIntFromString L (Ftd_Amount data) = Some amt"
      "\<not> ReceiverChainIsSource L (Pkt_SourcePort packet) (Pkt_SourceChannel packet) (Ftd_Denom data)"
    and run: "tfmw_OnRecvPacket L D packet data s = (Ok (), t)"
  shows "swap_in (td_bank D) receiver (GetEscrowAddress L (Pkt_DestPort packet) (Pkt_DestChannel packet))
           (IbcDenom i) (NativeDenom i) amt s t"
proof -
  define tr where "tr = ParseDenomTrace L (GetDenomPrefix L (Pkt_DestPort packet) (Pkt_DestChannel packet) @ Ftd_Denom data)"
  define s' where "s' = (if td_HasDenomTrace D s (Dt_Hash L tr) then s else td_SetDenomTrace D tr s)"
  have s': "td_tfmw D s' = td_tfmw D s" "GetBalance (td_bank D) s' = GetBalance (td_bank D) s"
    "GetSupply (td_bank D) s' = GetSupply (td_bank D) s"
    using laws(3) by (auto simp: s'_def trace_laws_def)
  have look: "GetParachainIBCTokenInfoByAssetID (td_tfmw D s) (Ftd_Denom data) = i"
    "GetNativeDenomByIBCDenomSecondaryIndex (td_tfmw D s) (IBCDenom L tr) = NativeDenom i"
    using tfmw.by_asset_in [OF reg] tfmw.ibc_in [OF reg] token by (simp_all add: tr_def)
  obtain v where v: "NewCoin L (IBCDenom L tr) amt = Ok v"
    using run data by (cases "NewCoin L (IBCDenom L tr) amt")
      (simp_all add: tfmw_OnRecvPacket_def Let_def tr_def split: if_splits)
  have "escrow_and_mint L D receiver (GetEscrowAddress L (Pkt_DestPort packet) (Pkt_DestChannel packet))
          v (NativeDenom i) amt s' = (Ok (), t)"
    using run data v look token(2) s'(1)
    by (simp add: tfmw_OnRecvPacket_def Let_def s'_def tr_def [symmetric] split: if_splits)
  from escrow_and_mint_swap [OF laws(1,2) v this] show ?thesis
    by (simp add: swap_in_cong [OF s'(2,3)] token(3) tr_def)
qed

lemma SendPacket_swap_out:
  assumes laws: "coin_laws L" "bank_laws (td_bank D) mac"
    and reg: "registry_ok (td_tfmw D s)" "i \<in> registered (td_tfmw D s)"
    and data: "UnmarshalJSON_packet L data = Ok ftpd" "Ftd_Denom ftpd = NativeDenom i"
      "AccAddressFromBech32 L (Ftd_Sender ftpd) = Ok sender"
      "NewIntFromString L (Ftd_Amount ftpd) = Some amt"
    and run: "tfmw_SendPacket L D chanCap port (ChannelID i) th tt data s = (Ok n, t)"
  obtains s1 msg where
    "swap_out (td_bank D) sender (GetEscrowAddress L port (ChannelID i)) (IbcDenom i) (NativeDenom i) amt s s1"
    "td_Transfer D msg s1 = (Ok n, t)"
    "Mt_Token msg = \<lparr>Coin_Denom = IbcDenom i, Coin_Amount = amt\<rparr>" "Mt_Sender msg = Ftd_Sender ftpd"
    "Mt_Receiver msg = Ftd_Receiver ftpd" "Mt_SourceChannel msg = ChannelID i" "Mt_SourcePort msg = TransferPortID L"
proof -
  have look: "GetParachainIBCTokenInfoByNativeDenom (td_tfmw D s) (Ftd_Denom ftpd) = i"
    using tfmw.by_native_in [OF reg] data(2) by simp
  have "handleOverrideSendPacketTransferLogic L D port (ChannelID i) th tt data s = (Ok n, t)"
    using run look data(1,2) by (simp add: tfmw_SendPacket_def Let_def)
  then have h: "op_bind (op_lift (NewCoin L (NativeDenom i) amt)) (\<lambda>nc.
      op_bind (op_lift (NewCoin L (IbcDenom i) amt)) (\<lambda>ic.
      op_bind (burn_and_release L D (GetEscrowAddress L port (ChannelID i)) sender nc ic) (\<lambda>_.
      executeTransferMsg L D
        \<lparr>Mt_SourcePort = TransferPortID L, Mt_SourceChannel = ChannelID i, Mt_Token = ic,
         Mt_Sender = Ftd_Sender ftpd, Mt_Receiver = Ftd_Receiver ftpd,
         Mt_TimeoutHeight = th, Mt_TimeoutTimestamp = tt, Mt_Memo = Ftd_Memo ftpd\<rparr>))) s = (Ok n, t)"
    using data look by (simp add: handleOverrideSendPacketTransferLogic_def Let_def)
  obtain nc where nc: "NewCoin L (NativeDenom i) amt = Ok nc"
    using h by (cases "NewCoin L (NativeDenom i) amt") simp_all
  obtain ic where ic: "NewCoin L (IbcDenom i) amt = Ok ic"
    using h nc by (cases "NewCoin L (IbcDenom i) amt") simp_all
  let ?msg = "\<lparr>Mt_SourcePort = TransferPortID L, Mt_SourceChannel = ChannelID i, Mt_Token = ic,
     Mt_Sender = Ftd_Sender ftpd, Mt_Receiver = Ftd_Receiver ftpd,
     Mt_TimeoutHeight = th, Mt_TimeoutTimestamp = tt, Mt_Memo = Ftd_Memo ftpd\<rparr>"
  from h nc ic obtain u s1 where
    br: "burn_and_release L D (GetEscrowAddress L port (ChannelID i)) sender nc ic s = (Ok u, s1)"
    and ex: "executeTransferMsg L D ?msg s1 = (Ok n, t)"
    by (simp add: op_bind_eq_Ok) blast
  from ex have tr: "td_Transfer D ?msg s1 = (Ok n, t)" by (simp add: executeTransferMsg_def split: res.splits)
  have "ic = \<lparr>Coin_Denom = IbcDenom i, Coin_Amount = amt\<rparr>" using coin_laws_NewCoin [OF laws(1) ic] by simp
  then show ?thesis by (intro that [OF burn_and_release_swap [OF laws nc ic br] tr]) simp_all
qed

lemma refund_swap_in:
  assumes laws: "coin_laws L" "bank_laws (td_bank D) mac"
    and reg: "registry_ok (td_tfmw D s)" "i \<in> registered (td_tfmw D s)"
    and token: "IbcDenom i = IBCDenom L (ParseDenomTrace L (Ftd_Denom data))" "ChannelID i = Pkt_SourceChannel packet"
    and data: "AccAddressFromBech32 L (Ftd_Sender data) = Ok sender"
      "NewIntFromString L (Ftd_Amount data) = Some amt"
      "\<not> SenderChainIsSource L (Pkt_SourcePort packet) (Pkt_SourceChannel packet) (Ftd_Denom data)"
    and run: "refundToken L D packet data s = (Ok (), t)"
  shows "swap_in (td_bank D) sender (GetEscrowAddress L (TransferPortID L) (ChannelID i))
           (IbcDenom i) (NativeDenom i) amt s t"
proof -
  note dest = bank_laws_dests [OF laws(2)]
  let ?esc = "GetEscrowAddress L (TransferPortID L) (ChannelID i)"
  have look: "GetNativeDenomByIBCDenomSecondaryIndex (td_tfmw D s) (IBCDenom L (ParseDenomTrace L (Ftd_Denom data))) = NativeDenom i"
    "GetParachainIBCTokenInfoByNativeDenom (td_tfmw D s) (NativeDenom i) = i"
    "hasParachainIBCTokenInfo (td_tfmw D s) (NativeDenom i)"
    using tfmw.by_native_in [OF reg] tfmw.ibc_in [OF reg] tfmw.has_native_iff [OF reg(1)] reg(2) token
    by (auto simp: hasParachainIBCTokenInfo_def HasParachainIBCTokenInfoByNativeDenom_def)
  have h: "op_bind (op_lift (NewCoin L (IbcDenom i) amt)) (\<lambda>v.
      op_bind (op_lift (NewCoin L (NativeDenom i) amt)) (\<lambda>nc.
      op_bind (op_must (with_coin L v (SendCoins (td_bank D) sender ?esc))) (\<lambda>_.
      op_bind (with_coin L nc (MintCoins (td_bank D) tfmw_ModuleName)) (\<lambda>_.
      op_must (with_coin L nc (SendCoinsFromModuleToAccount (td_bank D) tfmw_ModuleName sender)))))) s = (Ok (), t)"
    using run data look token
    by (cases "NewCoin L (IbcDenom i) amt") (simp_all add: refundToken_def Let_def)
  obtain v where v: "NewCoin L (IbcDenom i) amt = Ok v"
    using h by (cases "NewCoin L (IbcDenom i) amt") simp_all
  obtain nc where nc: "NewCoin L (NativeDenom i) amt = Ok nc"
    using h v by (cases "NewCoin L (NativeDenom i) amt") simp_all
  from h v nc obtain s1 s2 where
    1: "with_coin L v (SendCoins (td_bank D) sender ?esc) s = (Ok (), s1)" and
    2: "with_coin L nc (MintCoins (td_bank D) tfmw_ModuleName) s1 = (Ok (), s2)" and
    3: "with_coin L nc (SendCoinsFromModuleToAccount (td_bank D) tfmw_ModuleName sender) s2 = (Ok (), t)"
    by (simp add: op_bind_eq_Ok) blast
  have "issues (td_bank D) (mac tfmw_ModuleName) (NativeDenom i) (1 * amt) s1 s2"
    by (rule coin_issues [OF laws(1) nc 2]) (use dest(5) in simp)
  with coin_moves [OF laws(1) v 1 dest(1)] coin_moves [OF laws(1) nc 3 dest(2)] show ?thesis
    by (intro swap_in_steps) simp_all
qed

section \<open>Evaluating the small chain\<close>

lemma ref_laws: "coin_laws ref_lib" "bank_laws (td_bank ref_deps) mod_addr" "trace_laws ref_deps"
  by (simp_all add: coin_laws_ref bank_laws_ext bank_laws_ref trace_laws_def)

definition ex_in_packet :: Packet where
  "ex_in_packet = \<lparr>Pkt_Sequence = 1, Pkt_SourcePort = ''transfer'', Pkt_SourceChannel = ''channel-5'',
     Pkt_DestPort = ''transfer'', Pkt_DestChannel = ''channel-0'', Pkt_Data = ''one'',
     Pkt_TimeoutHeight = \<lparr>RevisionNumber = 0, RevisionHeight = 0\<rparr>, Pkt_TimeoutTimestamp = 0\<rparr>"

definition ex_in_data :: FungibleTokenPacketData where
  "ex_in_data = \<lparr>Ftd_Denom = ''1'', Ftd_Amount = ''40'', Ftd_Sender = ''bob'', Ftd_Receiver = ''alice'', Ftd_Memo = []\<rparr>"

definition ex_out_packet :: Packet where
  "ex_out_packet = \<lparr>Pkt_Sequence = 1, Pkt_SourcePort = ''transfer'', Pkt_SourceChannel = ''channel-0'',
     Pkt_DestPort = ''transfer'', Pkt_DestChannel = ''channel-5'', Pkt_Data = ''voucher'',
     Pkt_TimeoutHeight = \<lparr>RevisionNumber = 0, RevisionHeight = 0\<rparr>, Pkt_TimeoutTimestamp = 0\<rparr>"

definition ex_out_data :: FungibleTokenPacketData where
  "ex_out_data = \<lparr>Ftd_Denom = ''transfer/channel-0/1'', Ftd_Amount = ''40'', Ftd_Sender = ''alice'',
     Ftd_Receiver = ''bob'', Ftd_Memo = []\<rparr>"

lemma ref_values [simp]:
  "ref_int ''40'' = Some 40"
  "ref_ibc_denom (ref_trace ''transfer/channel-0/1'') = ''ibc/transfer/channel-0/1''"
  "ref_prefix ''transfer'' ''channel-0'' = ''transfer/channel-0/''"
  "ref_prefix ''transfer'' ''channel-5'' = ''transfer/channel-5/''"
  by (simp_all add: ref_int_def char_digit_def ref_trace_def ref_ibc_denom_def ref_prefix_def)

lemma ex_lookups [simp]:
  "GetParachainIBCTokenInfoByAssetID ex_peg_tfmw ''1'' = ex_peg_token"
  "GetParachainIBCTokenInfoByNativeDenom ex_peg_tfmw ''ppica'' = ex_peg_token"
  "GetNativeDenomByIBCDenomSecondaryIndex ex_peg_tfmw ''ibc/transfer/channel-0/1'' = ''ppica''"
  "hasParachainIBCTokenInfo ex_peg_tfmw ''ppica''"
  by (simp_all add: ex_peg_tfmw_def add_info_def AddParachainIBCInfo_def tfmw_empty_def Let_def ex_peg_token_def
      GetParachainIBCTokenInfoByAssetID_def GetParachainIBCTokenInfoByNativeDenom_def
      GetNativeDenomByIBCDenomSecondaryIndex_def hasParachainIBCTokenInfo_def)

lemmas ref_eval = op_bind_def op_lift_def op_must_def with_coin_def ref_coin_def ref_coins_def ext_bank_def
  bank_on_def op_on_def ref_bank_def lg_send_def lg_issue_def covered_def ex_world_def ex_ledger_def
  ex_peg_token_def mod_addr_def tfmw_ModuleName_def

definition ex_received :: "ledger world" where
  "ex_received = snd (tfmw_OnRecvPacket ref_lib ref_deps ex_in_packet ex_in_data ex_world)"

lemma ex_receive: "tfmw_OnRecvPacket ref_lib ref_deps ex_in_packet ex_in_data ex_world = (Ok (), ex_received)"
proof -
  have "fst (tfmw_OnRecvPacket ref_lib ref_deps ex_in_packet ex_in_data ex_world) = Ok ()"
    by (simp add: tfmw_OnRecvPacket_def escrow_and_mint_def ex_in_packet_def ex_in_data_def Let_def ref_eval)
  then show ?thesis by (simp add: ex_received_def prod_eq_iff)
qed

definition ex_refunded :: "ledger world" where
  "ex_refunded = snd (refundToken ref_lib ref_deps ex_out_packet ex_out_data ex_world)"

lemma ex_refund: "refundToken ref_lib ref_deps ex_out_packet ex_out_data ex_world = (Ok (), ex_refunded)"
proof -
  have "fst (refundToken ref_lib ref_deps ex_out_packet ex_out_data ex_world) = Ok ()"
    by (simp add: refundToken_def ex_out_packet_def ex_out_data_def Let_def ref_eval)
  then show ?thesis by (simp add: ex_refunded_def prod_eq_iff)
qed

definition ex_sent :: "ledger world" where
  "ex_sent = snd (tfmw_SendPacket ref_lib ref_deps 0 ''transfer'' ''channel-0''
     \<lparr>RevisionNumber = 0, RevisionHeight = 0\<rparr> 9 ''pica'' ex_world)"

lemma ex_send_out:
  "tfmw_SendPacket ref_lib ref_deps 0 ''transfer'' ''channel-0'' \<lparr>RevisionNumber = 0, RevisionHeight = 0\<rparr> 9 ''pica''
     ex_world = (Ok 1, ex_sent)"
proof -
  have "fst (tfmw_SendPacket ref_lib ref_deps 0 ''transfer'' ''channel-0''
     \<lparr>RevisionNumber = 0, RevisionHeight = 0\<rparr> 9 ''pica'' ex_world) = Ok 1"
    by (simp add: tfmw_SendPacket_def handleOverrideSendPacketTransferLogic_def burn_and_release_def
        executeTransferMsg_def ref_packet_def ref_transfer_def ref_path_of_def on_ext_def Let_def ref_eval)
  then show ?thesis by (simp add: ex_sent_def prod_eq_iff)
qed

section \<open>Properties\<close>

text \<open>
  C5: A transfer that arrives for a registered parachain token through its channel, and that the module
  accepts, locks the received vouchers of the receiver in the escrow account of the channel and mints
  the same amount of the native token to the receiver; no other balance and no other supply changes, so
  the vouchers in escrow minus the native supply stay the same.
\<close>

theorem OnRecvPacket_keeps_peg:
  assumes "coin_laws L" "bank_laws (td_bank D) mac" "trace_laws D"
    and "registry_ok (td_tfmw D s)" "i \<in> registered (td_tfmw D s)"
    and "AssetId i = Ftd_Denom data" "ChannelID i = Pkt_DestChannel packet"
    and "IbcDenom i = IBCDenom L (ParseDenomTrace L
         (GetDenomPrefix L (Pkt_DestPort packet) (Pkt_DestChannel packet) @ Ftd_Denom data))"
    and "AccAddressFromBech32 L (Ftd_Receiver data) = Ok receiver"
    and "NewIntFromString L (Ftd_Amount data) = Some amt"
    and "\<not> ReceiverChainIsSource L (Pkt_SourcePort packet) (Pkt_SourceChannel packet) (Ftd_Denom data)"
    and "tfmw_OnRecvPacket L D packet data s = (Ok (), t)"
    and "escrow = GetEscrowAddress L (Pkt_DestPort packet) (Pkt_DestChannel packet)"
    and "receiver \<noteq> escrow" "IbcDenom i \<noteq> NativeDenom i"
  shows "swap_in (td_bank D) receiver escrow (IbcDenom i) (NativeDenom i) amt s t \<and>
         peg (td_bank D) escrow (IbcDenom i) (NativeDenom i) t = peg (td_bank D) escrow (IbcDenom i) (NativeDenom i) s"
proof -
  have sw: "swap_in (td_bank D) receiver escrow (IbcDenom i) (NativeDenom i) amt s t"
    unfolding assms(13) by (rule OnRecvPacket_swap_in [OF assms(1-12)])
  with swap_keeps_peg(1) [OF assms(14,15) sw] show ?thesis by simp
qed

lemma OnRecvPacket_keeps_peg_witness:
  "swap_in (ext_bank ref_bank) ''alice'' ''escrow/transferchannel-0'' ''ibc/transfer/channel-0/1'' ''ppica'' 40
     ex_world ex_received"
  using OnRecvPacket_keeps_peg [OF ref_laws, of ex_world ex_peg_token ex_in_data ex_in_packet "''alice''" 40
      ex_received "''escrow/transferchannel-0''"] ex_receive ex_peg_registry
  by (simp add: ex_world_def ex_peg_token_def ex_in_data_def ex_in_packet_def)

text \<open>
  The documented behaviour of the transfer keeper of ibc-go: a token whose full path does not start with the port and
  channel it is sent on is locked in the escrow account of that channel; a voucher that came through it is burned.
  \<open>path_of\<close> is the full path the keeper resolves a denomination to.
\<close>

definition transfer_laws :: "lib \<Rightarrow> 'w tfmw_deps \<Rightarrow> (string \<Rightarrow> string) \<Rightarrow> bool" where
  "transfer_laws L D path_of \<longleftrightarrow>
     (\<forall>msg s n t a. td_Transfer D msg s = (Ok n, t) \<longrightarrow> AccAddressFromBech32 L (Mt_Sender msg) = Ok a \<longrightarrow>
        (if SenderChainIsSource L (Mt_SourcePort msg) (Mt_SourceChannel msg) (path_of (Coin_Denom (Mt_Token msg)))
         then moves (td_bank D) a (GetEscrowAddress L (Mt_SourcePort msg) (Mt_SourceChannel msg))
                (Coin_Denom (Mt_Token msg)) (Coin_Amount (Mt_Token msg)) s t
         else issues (td_bank D) a (Coin_Denom (Mt_Token msg)) (- Coin_Amount (Mt_Token msg)) s t))"

text \<open>The voucher of a token that is registered with the channel it comes through.\<close>

definition comes_through :: "lib \<Rightarrow> (string \<Rightarrow> string) \<Rightarrow> ParachainIBCTokenInfo \<Rightarrow> bool" where
  "comes_through L path_of i \<longleftrightarrow> \<not> SenderChainIsSource L (TransferPortID L) (ChannelID i) (path_of (IbcDenom i))"

lemma transfer_burns:
  assumes "transfer_laws L D path_of" "comes_through L path_of i" "td_Transfer D msg s = (Ok n, t)"
    and "AccAddressFromBech32 L (Mt_Sender msg) = Ok a" "Mt_Token msg = \<lparr>Coin_Denom = IbcDenom i, Coin_Amount = amt\<rparr>"
    and "Mt_SourcePort msg = TransferPortID L" "Mt_SourceChannel msg = ChannelID i"
  shows "issues (td_bank D) a (IbcDenom i) (- amt) s t"
  using assms(1) [unfolded transfer_laws_def, rule_format, OF assms(3,4)] assms(2,5-7) by (simp add: comes_through_def)

text \<open>
  C6: Sending a registered native token back to its parachain first burns the native tokens held in escrow and releases as
  many vouchers from escrow to the sender; in the state so reached the transfer keeper is asked to send exactly those
  vouchers on, from the sender, to the receiver and on the channel of the packet, and it is its result that is returned.
  If the voucher came through that channel, over the whole call the escrow account loses the amount in both denominations,
  both supplies shrink by it, and every other account is as before. The vouchers in escrow minus the native supply stay the
  same.
\<close>

theorem SendPacket_keeps_peg:
  assumes "coin_laws L" "bank_laws (td_bank D) mac" "transfer_laws L D path_of" "comes_through L path_of i"
    and "registry_ok (td_tfmw D s)" "i \<in> registered (td_tfmw D s)"
    and "UnmarshalJSON_packet L data = Ok ftpd" "Ftd_Denom ftpd = NativeDenom i"
    and "AccAddressFromBech32 L (Ftd_Sender ftpd) = Ok sender"
    and "NewIntFromString L (Ftd_Amount ftpd) = Some amt"
    and "tfmw_SendPacket L D chanCap port (ChannelID i) th tt data s = (Ok n, t)"
    and "escrow = GetEscrowAddress L port (ChannelID i)" "sender \<noteq> escrow" "IbcDenom i \<noteq> NativeDenom i"
  shows "(\<exists>s1 msg. swap_out (td_bank D) sender escrow (IbcDenom i) (NativeDenom i) amt s s1 \<and>
            td_Transfer D msg s1 = (Ok n, t) \<and> Mt_Token msg = \<lparr>Coin_Denom = IbcDenom i, Coin_Amount = amt\<rparr> \<and>
            Mt_Sender msg = Ftd_Sender ftpd \<and> Mt_Receiver msg = Ftd_Receiver ftpd \<and>
            Mt_SourcePort msg = TransferPortID L \<and> Mt_SourceChannel msg = ChannelID i) \<and>
         (\<forall>a d. GetBalance (td_bank D) t a d = GetBalance (td_bank D) s a d
            - (if a = escrow \<and> d \<in> {IbcDenom i, NativeDenom i} then amt else 0)) \<and>
         (\<forall>d. GetSupply (td_bank D) t d = GetSupply (td_bank D) s d
            - (if d \<in> {IbcDenom i, NativeDenom i} then amt else 0)) \<and>
         peg (td_bank D) escrow (IbcDenom i) (NativeDenom i) t = peg (td_bank D) escrow (IbcDenom i) (NativeDenom i) s"
proof -
  obtain s1 msg where out: "swap_out (td_bank D) sender escrow (IbcDenom i) (NativeDenom i) amt s s1"
    and tr: "td_Transfer D msg s1 = (Ok n, t)" "Mt_Token msg = \<lparr>Coin_Denom = IbcDenom i, Coin_Amount = amt\<rparr>"
      "Mt_Sender msg = Ftd_Sender ftpd" "Mt_Receiver msg = Ftd_Receiver ftpd"
      "Mt_SourceChannel msg = ChannelID i" "Mt_SourcePort msg = TransferPortID L"
    using SendPacket_swap_out [OF assms(1,2,5-11)] assms(12) by metis
  have burn: "issues (td_bank D) sender (IbcDenom i) (- amt) s1 t"
    by (rule transfer_burns [OF assms(3,4) tr(1)]) (simp_all add: tr assms(9))
  have "(\<forall>a d. GetBalance (td_bank D) t a d = GetBalance (td_bank D) s a d
            - (if a = escrow \<and> d \<in> {IbcDenom i, NativeDenom i} then amt else 0)) \<and>
         (\<forall>d. GetSupply (td_bank D) t d = GetSupply (td_bank D) s d
            - (if d \<in> {IbcDenom i, NativeDenom i} then amt else 0)) \<and>
         peg (td_bank D) escrow (IbcDenom i) (NativeDenom i) t = peg (td_bank D) escrow (IbcDenom i) (NativeDenom i) s"
    using out burn assms(13,14) unfolding swap_out_def issues_def peg_def by auto
  with out tr show ?thesis by blast
qed

lemma ref_transfer_laws: "transfer_laws ref_lib ref_deps ref_path_of"
  by (auto simp: transfer_laws_def ref_transfer_def on_ext_eq ref_bank_def moves_def issues_def Let_def split: if_splits)

lemma ex_comes_through: "comes_through ref_lib ref_path_of ex_peg_token"
  by (simp add: comes_through_def ref_path_of_def ex_peg_token_def)

lemma SendPacket_keeps_peg_witness:
  "lg_supply (w_ext ex_sent) ''ppica'' = 960 \<and>
   lg_balance (w_ext ex_sent) ''escrow/transferchannel-0'' ''ibc/transfer/channel-0/1'' = 60"
proof -
  have "GetSupply (td_bank ref_deps) ex_sent d = GetSupply (td_bank ref_deps) ex_world d
            - (if d \<in> {IbcDenom ex_peg_token, NativeDenom ex_peg_token} then 40 else 0) \<and>
        GetBalance (td_bank ref_deps) ex_sent a d = GetBalance (td_bank ref_deps) ex_world a d
            - (if a = ''escrow/transferchannel-0'' \<and> d \<in> {IbcDenom ex_peg_token, NativeDenom ex_peg_token} then 40 else 0)"
    for a d
    using SendPacket_keeps_peg [OF ref_laws(1,2) ref_transfer_laws ex_comes_through, where data = "''pica''"
          and port = "''transfer''" and s = ex_world and t = ex_sent and amt = 40 and escrow = "''escrow/transferchannel-0''"
          and n = 1 and chanCap = 0 and th = "\<lparr>RevisionNumber = 0, RevisionHeight = 0\<rparr>" and tt = 9 and sender = "''alice''"
          and ftpd = "\<lparr>Ftd_Denom = ''ppica'', Ftd_Amount = ''40'', Ftd_Sender = ''alice'', Ftd_Receiver = ''bob'', Ftd_Memo = []\<rparr>"]
      ex_send_out ex_peg_registry by (simp add: ref_packet_def ex_world_def ex_peg_token_def)
  then show ?thesis
    by (simp add: ex_world_def ex_ledger_def ex_peg_token_def ref_bank_def)
qed

text \<open>
  C15: When a transfer of a registered voucher fails or times out, the refund swaps the returned vouchers
  of the sender back into native tokens: the vouchers go to the escrow account and the same amount of
  the native token is minted to the sender, and the vouchers in escrow minus the native supply stay the
  same.
\<close>

theorem refundToken_keeps_peg:
  assumes "coin_laws L" "bank_laws (td_bank D) mac"
    and "registry_ok (td_tfmw D s)" "i \<in> registered (td_tfmw D s)"
    and "IbcDenom i = IBCDenom L (ParseDenomTrace L (Ftd_Denom data))" "ChannelID i = Pkt_SourceChannel packet"
    and "AccAddressFromBech32 L (Ftd_Sender data) = Ok sender"
    and "NewIntFromString L (Ftd_Amount data) = Some amt"
    and "\<not> SenderChainIsSource L (Pkt_SourcePort packet) (Pkt_SourceChannel packet) (Ftd_Denom data)"
    and "refundToken L D packet data s = (Ok (), t)"
    and "escrow = GetEscrowAddress L (TransferPortID L) (ChannelID i)" "sender \<noteq> escrow" "IbcDenom i \<noteq> NativeDenom i"
  shows "swap_in (td_bank D) sender escrow (IbcDenom i) (NativeDenom i) amt s t \<and>
         peg (td_bank D) escrow (IbcDenom i) (NativeDenom i) t = peg (td_bank D) escrow (IbcDenom i) (NativeDenom i) s"
proof -
  have sw: "swap_in (td_bank D) sender escrow (IbcDenom i) (NativeDenom i) amt s t"
    unfolding assms(11) by (rule refund_swap_in [OF assms(1-10)])
  with swap_keeps_peg(1) [OF assms(12,13) sw] show ?thesis by simp
qed

lemma refundToken_keeps_peg_witness:
  "swap_in (ext_bank ref_bank) ''alice'' ''escrow/transferchannel-0'' ''ibc/transfer/channel-0/1'' ''ppica'' 40
     ex_world ex_refunded"
  using refundToken_keeps_peg [OF ref_laws(1,2), of ex_world ex_peg_token ex_out_data ex_out_packet "''alice''" 40
      ex_refunded "''escrow/transferchannel-0''"] ex_refund ex_peg_registry
  by (simp add: ex_world_def ex_peg_token_def ex_out_data_def ex_out_packet_def)

end
