(* ===== verification/Ratelimit_Admin_Props.thy ===== *)
theory Ratelimit_Admin_Props
  imports Ratelimit_Props
begin

text \<open>
  Properties of the administration of \<open>x/ratelimit\<close>: resets, the messages, the interplay with the
  token registry, genesis and epochs.
\<close>

section \<open>Resets\<close>

lemma Reset_Ok:
  assumes "ResetRateLimit env d c s = (Ok (), t)"
  obtains r where "GetRateLimit s (resolve_denom env d c) c = Some r"
    "t = RemoveAllChannelPendingSendPackets c
           (SetRateLimit (r\<lparr>Rl_Flow := NewFlow (env_supply env (resolve_denom env d c))\<rparr>) s)"
  using assms
  by (auto simp: ResetRateLimit_def Let_def NewFlow_def GetChannelValue_def split: option.splits)

lemma pending_SetRateLimit [simp]:
  "CheckPacketSentDuringCurrentQuota (SetRateLimit r s) c n = CheckPacketSentDuringCurrentQuota s c n"
  by (simp add: CheckPacketSentDuringCurrentQuota_def)

lemma pending_after_Reset:
  assumes "ResetRateLimit env d c s = (Ok (), t)" "pending_channel c" "pending_channel c'"
  shows "CheckPacketSentDuringCurrentQuota t c' n \<longleftrightarrow> CheckPacketSentDuringCurrentQuota s c' n \<and> \<not> prefix c c'"
  using assms(1)
  by (rule Reset_Ok) (simp add: pending_after_remove_all prefix_pending_channel assms(2,3))

text \<open>
  A reset that succeeds zeroes both flows of the rate limit, takes the current supply as its
  channel value, and forgets the pending packets of the channel. What it forgets are the packets of
  every channel whose identifier starts with the one given.
\<close>

lemma ResetRateLimit_spec:
  assumes "limits_ok s" and "pending_channel channelID"
    and "ResetRateLimit env denom channelID s = (Ok (), t)"
  shows "(\<exists>r. GetRateLimit s (resolve_denom env denom channelID) channelID = Some r \<and>
              GetRateLimit t (resolve_denom env denom channelID) channelID =
                Some (r\<lparr>Rl_Flow := NewFlow (env_supply env (resolve_denom env denom channelID))\<rparr>)) \<and>
         (\<forall>c n. pending_channel c \<longrightarrow>
            (CheckPacketSentDuringCurrentQuota t c n \<longleftrightarrow>
             CheckPacketSentDuringCurrentQuota s c n \<and> \<not> prefix channelID c))"
proof
  obtain r where r: "GetRateLimit s (resolve_denom env denom channelID) channelID = Some r"
    "t = RemoveAllChannelPendingSendPackets channelID
           (SetRateLimit (r\<lparr>Rl_Flow := NewFlow (env_supply env (resolve_denom env denom channelID))\<rparr>) s)"
    by (rule Reset_Ok [OF assms(3)])
  with limits_ok_key [OF assms(1) r(1)]
  show "\<exists>r. GetRateLimit s (resolve_denom env denom channelID) channelID = Some r \<and>
              GetRateLimit t (resolve_denom env denom channelID) channelID =
                Some (r\<lparr>Rl_Flow := NewFlow (env_supply env (resolve_denom env denom channelID))\<rparr>)"
    by (auto simp: GetRateLimit_SetRateLimit)
qed (use pending_after_Reset [OF assms(3,2)] in blast)

definition ex_env :: rl_env where
  "ex_env = \<lparr>env_supply = (\<lambda>_. 900), env_tfmw = tfmw_empty\<rparr>"

lemma resolve_denom_empty [simp]: "resolve_denom ex_env d c = d"
  by (simp add: resolve_denom_def ex_env_def HasParachainIBCTokenInfoByNativeDenom_def tfmw_empty_def)

text \<open>A limit on the first channel, with one packet pending on it and one on another channel.\<close>

definition ex_two :: rl_state where
  "ex_two = SetPendingSendPacket ''channel-10'' 3 (SetPendingSendPacket ''channel-1'' 7 ex_rl)"

definition ex_two_reset :: rl_state where
  "ex_two_reset = snd (ResetRateLimit ex_env ''ppica'' ''channel-1'' ex_two)"

lemma ex_two_reset: "ResetRateLimit ex_env ''ppica'' ''channel-1'' ex_two = (Ok (), ex_two_reset)"
  by (simp add: ex_two_reset_def ResetRateLimit_def Let_def ex_two_def ex_get)

lemma ex_channels [simp]: "pending_channel ''channel-1''" "pending_channel ''channel-10''"
  by (simp_all add: pending_channel_def)

lemma ex_two_pending [simp]:
  "CheckPacketSentDuringCurrentQuota ex_two ''channel-1'' 7"
  "CheckPacketSentDuringCurrentQuota ex_two ''channel-10'' 3"
  by (simp_all add: ex_two_def CheckPacketSentDuringCurrentQuota_def SetPendingSendPacket_def)

lemma ex_two_ok: "limits_ok ex_two"
  using ex_rl_reachable [THEN reachable_limits_safe]
  by (simp add: ex_two_def limits_safe_def limits_ok_def)

lemma ex_two_get: "GetRateLimit ex_two ''ppica'' ''channel-1'' = Some ex_limit"
  by (simp add: ex_two_def ex_get)

lemma ex_env_supply [simp]: "env_supply ex_env d = 900"
  by (simp add: ex_env_def)

lemma ResetRateLimit_spec_witness:
  "\<not> CheckPacketSentDuringCurrentQuota ex_two_reset ''channel-1'' 7 \<and>
   CheckPacketSentDuringCurrentQuota ex_two ''channel-1'' 7 \<and>
   GetRateLimit ex_two_reset ''ppica'' ''channel-1'' = Some (ex_limit\<lparr>Rl_Flow := NewFlow 900\<rparr>)"
  using ResetRateLimit_spec [OF ex_two_ok ex_channels(1) ex_two_reset]
  by (simp add: ex_two_get)

text \<open>
  After a reset of \<open>channel-1\<close> the packets sent through \<open>channel-10\<close> in the same quota period are
  no longer pending, so when one of them times out its outflow stays counted.
\<close>

lemma reset_forgets_longer_channels:
  assumes "ResetRateLimit env denom ''channel-1'' s = (Ok (), t)"
  shows "\<not> CheckPacketSentDuringCurrentQuota t ''channel-10'' n \<and>
         UndoSendPacket fits ''channel-10'' n denom' amount t = (Ok (), t)"
  using pending_after_Reset [OF assms ex_channels, of n]
  by (simp add: UndoSendPacket_def split: option.split)

lemma reset_forgets_longer_channels_witness:
  "CheckPacketSentDuringCurrentQuota ex_two ''channel-10'' 3 \<and>
   \<not> CheckPacketSentDuringCurrentQuota ex_two_reset ''channel-10'' 3"
  using reset_forgets_longer_channels [OF ex_two_reset, of 3] by simp

section \<open>Messages\<close>

text \<open>What a validated message makes of a rate limit.\<close>

definition well_formed_limit :: "RateLimit \<Rightarrow> bool" where
  "well_formed_limit r \<longleftrightarrow>
     MaxPercentSend (Rl_Quota r) \<in> {0..100} \<and> MaxPercentRecv (Rl_Quota r) \<in> {0..100} \<and>
     0 < MaxPercentSend (Rl_Quota r) + MaxPercentRecv (Rl_Quota r) \<and>
     0 < MinRateLimitAmount r \<and> DurationHours (Rl_Quota r) \<noteq> 0"

lemma validated_limit:
  "MsgAddRateLimit_ValidateBasic L msg = Ok u \<Longrightarrow> well_formed_limit (limit_of_msg env d msg v)"
  "MsgUpdateRateLimit_ValidateBasic L msg = Ok u \<Longrightarrow> well_formed_limit (limit_of_msg env d msg v)"
  by (auto simp: MsgAddRateLimit_ValidateBasic_def MsgUpdateRateLimit_ValidateBasic_def well_formed_limit_def
      limit_of_msg_def stored_Int_def)

lemma limit_of_msg_simps [simp]:
  "Rl_Path (limit_of_msg env d msg v) = \<lparr>Path_Denom = d, Path_ChannelID = Mrl_ChannelID msg\<rparr>"
  "Rl_Flow (limit_of_msg env d msg v) = NewFlow v"
  by (simp_all add: limit_of_msg_def NewFlow_def)

text \<open>
  C25: The message that adds a rate limit changes the store only when it comes from the authority and
  passes every check; what it then stores is a well-formed limit, with no flow and the current non-zero
  supply as channel value, for a denomination and channel that had none.
\<close>

theorem AddTransferRateLimit_spec:
  shows "case AddTransferRateLimit L env authority msg s of
      (Ok _, t) \<Rightarrow>
        (let denom = resolve_denom env (Mrl_Denom msg) (Mrl_ChannelID msg) in
         Mrl_Authority msg = authority \<and> GetRateLimit s denom (Mrl_ChannelID msg) = None \<and>
         env_supply env denom \<noteq> 0 \<and>
         (\<exists>r. t = SetRateLimit r s \<and> GetRateLimit t denom (Mrl_ChannelID msg) = Some r \<and>
              well_formed_limit r \<and> Rl_Flow r = NewFlow (env_supply env denom)))
    | (_, t) \<Rightarrow> t = s"
proof -
  let ?d = "resolve_denom env (Mrl_Denom msg) (Mrl_ChannelID msg)"
  show ?thesis
  proof (cases "Mrl_Authority msg = authority")
    case auth: True
    show ?thesis
    proof (cases "MsgAddRateLimit_ValidateBasic L msg")
      case (Ok u)
      have "GetRateLimit (SetRateLimit (limit_of_msg env ?d msg v) s) ?d (Mrl_ChannelID msg) =
            Some (limit_of_msg env ?d msg v)" for v
        by (simp add: GetRateLimit_SetRateLimit)
      with Ok auth validated_limit(1) [OF Ok] show ?thesis
        by (auto simp: AddTransferRateLimit_def AddRateLimit_def GetChannelValue_def Let_def)
    qed (simp_all add: AddTransferRateLimit_def auth)
  qed (auto simp: AddTransferRateLimit_def guard_def)
qed

text \<open>
  A message whose signer is not the authority is refused by every handler of the module, and the
  state stays as it was.
\<close>

lemma rate_limit_messages_need_authority:
  assumes "Mrl_Authority m \<noteq> authority" and "Mrp_Authority pm \<noteq> authority"
  shows "AddTransferRateLimit L env authority m s = (Err ErrInvalidSigner, s) \<and>
         UpdateTransferRateLimit L env authority m s = (Err ErrInvalidSigner, s) \<and>
         RemoveTransferRateLimit env authority pm s = (Err ErrInvalidSigner, s) \<and>
         ResetTransferRateLimit env authority pm s = (Err ErrInvalidSigner, s)"
  using assms
  by (auto simp: AddTransferRateLimit_def UpdateTransferRateLimit_def RemoveTransferRateLimit_def
      ResetTransferRateLimit_def guard_def)

lemma rate_limit_messages_need_authority_witness:
  "RemoveTransferRateLimit ex_env ''gov'' (NewMsgRemoveRateLimit ''eve'' ''ppica'' ''channel-1'') ex_rl =
     (Err ErrInvalidSigner, ex_rl)"
  using rate_limit_messages_need_authority
    [of "NewMsgAddRateLimit ''eve'' ''ppica'' ''channel-1'' 1 1 1" "''gov''"
        "NewMsgRemoveRateLimit ''eve'' ''ppica'' ''channel-1''" ref_lib ex_env ex_rl]
  by (simp add: NewMsgAddRateLimit_def NewMsgRemoveRateLimit_def)

section \<open>Rate limits and the token registry\<close>

lemma resolve_denom_registered:
  assumes "registry_ok (env_tfmw env)" "i \<in> registered (env_tfmw env)"
  shows "resolve_denom env (NativeDenom i) (ChannelID i) = IbcDenom i"
  using assms tfmw.has_native_iff [OF assms(1)] tfmw.by_native_in [OF assms]
  by (auto simp: resolve_denom_def Let_def)

text \<open>
  A rate limit added under a native denomination before that denomination is registered as a
  parachain token can no longer be updated, removed or reset afterwards: every such message looks for
  the limit of the IBC denomination, although packets in the native denomination are still counted
  against the old limit.
\<close>

lemma registration_strands_limit:
  assumes "registry_ok (env_tfmw env)" and "i \<in> registered (env_tfmw env)"
    and "GetRateLimit s (NativeDenom i) (ChannelID i) = Some r"
    and "GetRateLimit s (IbcDenom i) (ChannelID i) = None"
    and "Mrl_Denom m = NativeDenom i" and "Mrl_ChannelID m = ChannelID i"
  shows "UpdateRateLimit env m s = (Err ErrRateLimitNotFound, s) \<and>
         RemoveRateLimit env (NativeDenom i) (ChannelID i) s = (Err ErrRateLimitNotFound, s) \<and>
         ResetRateLimit env (NativeDenom i) (ChannelID i) s = (Err ErrRateLimitNotFound, s)"
  using assms(4-6) resolve_denom_registered [OF assms(1,2)]
  by (simp add: UpdateRateLimit_def RemoveRateLimit_def ResetRateLimit_def Let_def)

definition ex_strand_env :: rl_env where
  "ex_strand_env = \<lparr>env_supply = (\<lambda>_. 900),
     env_tfmw = snd (AddParachainIBCInfo ''ibc/A'' ''channel-1'' ''ppica'' ''1'' tfmw_empty)\<rparr>"

lemma ex_strand:
  "AddParachainIBCInfo ''ibc/A'' ''channel-1'' ''ppica'' ''1'' tfmw_empty =
     (Ok (), env_tfmw ex_strand_env)"
  by (simp add: ex_strand_env_def AddParachainIBCInfo_def tfmw_empty_def Let_def)

lemma ex_no_ibc_limit: "GetRateLimit ex_rl ''ibc/A'' ''channel-1'' = None"
  by (simp add: GetRateLimit_def ex_rl_def SetRateLimit_def ex_limit_def rl_empty_def GetRateLimitItemKey_def
      KeyPrefix_def)

lemma registration_strands_limit_witness:
  "ResetRateLimit ex_strand_env ''ppica'' ''channel-1'' ex_rl = (Err ErrRateLimitNotFound, ex_rl) \<and>
   GetRateLimit ex_rl ''ppica'' ''channel-1'' = Some ex_limit"
  using registration_strands_limit
    [OF AddParachainIBCInfo_registered(2) [OF registry_ok_empty(1) ex_strand], of _ ex_rl ex_limit
        "NewMsgUpdateRateLimit ''gov'' ''ppica'' ''channel-1'' 1 1 1"]
    AddParachainIBCInfo_registered(1) [OF registry_ok_empty(1) ex_strand] ex_get ex_no_ibc_limit
  by (auto simp: NewMsgUpdateRateLimit_def)

end
