(* ===== verification/IBC_Props.thy ===== *)
theory IBC_Props
  imports IBC_Layers Tfmw_Peg Ratelimit_Admin_Props
begin

text \<open>
  Properties of the wired stack: what the rate limiter denies is not delivered, the transfers of a
  registered token count against the limit set for it, and the whole stack keeps the rate limits safe.
\<close>

section \<open>Denials\<close>

lemma receive_unfold:
  assumes "ParsePacketInfo L p PACKET_RECV = Ok i"
  shows "ReceiveRateLimitedPacket L p s =
    (case limiting s i of
       None \<Rightarrow> (Ok (), s)
     | Some r \<Rightarrow>
         (case UpdateFlow (int_fits L) r PACKET_RECV (Pi_Amount i) of
            Ok r' \<Rightarrow> (Ok (), SetRateLimit r' s)
          | Err e \<Rightarrow> (Err e, emit_rl (TransferDenied ''rate_limit_exceeded'' PACKET_RECV (Pi_Denom i)
                                   (Pi_ChannelID i) (Pi_Amount i) e) s)
          | Panic \<Rightarrow> (Panic, s)))"
  by (simp add: ReceiveRateLimitedPacket_def op_bind_def op_lift_def CheckRateLimit_cases assms
      split: option.split res.split)

lemma receive_Err_keeps:
  assumes "ReceiveRateLimitedPacket L p s = (Err e, t)"
  shows "rl_limits t = rl_limits s \<and> rl_pending t = rl_pending s"
proof (cases "ParsePacketInfo L p PACKET_RECV")
  case (Ok i)
  with assms show ?thesis by (auto simp: receive_unfold split: option.splits res.splits)
qed (use assms in \<open>simp_all add: ReceiveRateLimitedPacket_def op_bind_def op_lift_def\<close>)

section \<open>The packets of a registered token\<close>

text \<open>
  A transfer packet that moves the vouchers of a token through its channel: received, it brings the asset of the
  counterparty chain in; sent, it names the full path of the voucher.
\<close>

definition moves_token :: "lib \<Rightarrow> ParachainIBCTokenInfo \<Rightarrow> PacketDirection \<Rightarrow> Packet \<Rightarrow> FungibleTokenPacketData \<Rightarrow> bool" where
  "moves_token L i dir p data \<longleftrightarrow>
     Unmarshal_json L (Pkt_Data p) = Ok data \<and>
     (case dir of
        PACKET_RECV \<Rightarrow>
          Pkt_DestChannel p = ChannelID i \<and>
          \<not> ReceiverChainIsSource L (Pkt_SourcePort p) (Pkt_SourceChannel p) (Ftd_Denom data) \<and>
          IbcDenom i = IBCDenom L (ParseDenomTrace L
            (GetDenomPrefix L (Pkt_DestPort p) (Pkt_DestChannel p) @ Ftd_Denom data))
      | PACKET_SEND \<Rightarrow>
          Pkt_SourceChannel p = ChannelID i \<and> Dt_Path (ParseDenomTrace L (Ftd_Denom data)) \<noteq> [] \<and>
          IbcDenom i = IBCDenom L (ParseDenomTrace L (Ftd_Denom data))
      | _ \<Rightarrow> False)"

lemma moves_token_info:
  assumes "moves_token L i dir p data" "ParsePacketInfo L p dir = Ok info"
  shows "Pi_Denom info = IbcDenom i \<and> Pi_ChannelID info = ChannelID i \<and> Pi_Sender info = Ftd_Sender data \<and>
     Pi_Receiver info = Ftd_Receiver data \<and> NewIntFromString L (Ftd_Amount data) = Some (Pi_Amount info)"
  using assms
  by (auto simp: moves_token_def ParsePacketInfo_def ParseDenomFromRecvPacket_def ParseDenomFromSendPacket_def Let_def
      split: option.splits PacketDirection.splits)

definition add_inflow :: "int \<Rightarrow> RateLimit \<Rightarrow> RateLimit" where
  "add_inflow a r = r\<lparr>Rl_Flow := (Rl_Flow r)\<lparr>Inflow := Inflow (Rl_Flow r) + a\<rparr>\<rparr>"

lemma receive_ok_counted:
  assumes "ReceiveRateLimitedPacket L p s = (Ok (), t)" "ParsePacketInfo L p PACKET_RECV = Ok info"
    and "limiting s info = Some r"
  shows "t = SetRateLimit (add_inflow (Pi_Amount info) r) s"
  using assms
  by (auto simp: receive_unfold UpdateFlow_def AddInflow_eq_Ok add_inflow_def split: res.splits)

lemma send_ok_counted:
  assumes "SendRateLimitedPacket L p s = (Ok (), t)" "ParsePacketInfo L p PACKET_SEND = Ok info"
    and "limiting s info = Some r"
  shows "t = SetPendingSendPacket (Pi_ChannelID info) (Pkt_Sequence p) (SetRateLimit (add_outflow (Pi_Amount info) r) s)"
  using assms by (elim send_ok_cases) auto

section \<open>Small packets\<close>

definition ex_voucher_limit :: RateLimit where
  "ex_voucher_limit = \<lparr>Rl_Path = \<lparr>Path_Denom = ''ibc/transfer/channel-0/1'', Path_ChannelID = ''channel-0''\<rparr>,
     Rl_Quota = \<lparr>MaxPercentSend = 10, MaxPercentRecv = 10, DurationHours = 2\<rparr>,
     Rl_Flow = \<lparr>Inflow = 0, Outflow = 0, ChannelValue = 100\<rparr>,
     MinRateLimitAmount = 1\<rparr>"

definition ex_limited :: "ledger world" where
  "ex_limited = ex_world\<lparr>w_rl := SetRateLimit ex_voucher_limit rl_empty\<rparr>"

text \<open>A transfer application that accepts every packet.\<close>

definition ref_app :: "'w IBCModule" where
  "ref_app =
     \<lparr>OnChanOpenInit = (\<lambda>_ _ _ _ _ _ v w. (Ok v, w)), OnChanOpenTry = (\<lambda>_ _ _ _ _ _ v w. (Ok v, w)),
      OnChanOpenAck = (\<lambda>_ _ _ _ w. (Ok (), w)), OnChanOpenConfirm = (\<lambda>_ _ w. (Ok (), w)),
      OnChanCloseInit = (\<lambda>_ _ w. (Ok (), w)), OnChanCloseConfirm = (\<lambda>_ _ w. (Ok (), w)),
      OnRecvPacket = (\<lambda>_ _ w. (Ok (Some (Ack_Result [CHR 0x01])), w)),
      OnAcknowledgementPacket = (\<lambda>_ _ _ w. (Ok (), w)), OnTimeoutPacket = (\<lambda>_ _ w. (Ok (), w))\<rparr>"

lemma ref_app_keeps: "module_keeps L I ref_app"
  by (simp add: module_keeps_def ref_app_def keeps_def)

definition ex_voucher_info :: RateLimitedPacketInfo where
  "ex_voucher_info = \<lparr>Pi_ChannelID = ''channel-0'', Pi_Denom = ''ibc/transfer/channel-0/1'', Pi_Amount = 40,
     Pi_Sender = ''bob'', Pi_Receiver = ''alice''\<rparr>"

lemma ex_parse_in: "ParsePacketInfo ref_lib ex_in_packet PACKET_RECV = Ok ex_voucher_info"
  by (simp add: ParsePacketInfo_def ParseDenomFromRecvPacket_def ex_in_packet_def ref_packet_def Let_def
      ex_voucher_info_def)

lemma ex_limiting_in: "limiting (w_rl ex_limited) ex_voucher_info = Some ex_voucher_limit"
  by (simp add: limiting_def ex_limited_def ex_voucher_info_def IsAddressPairWhitelisted_def GetRateLimit_def
      SetRateLimit_def rl_empty_def ex_voucher_limit_def)

definition ex_denied :: rl_state where
  "ex_denied = snd (ReceiveRateLimitedPacket ref_lib ex_in_packet (w_rl ex_limited))"

lemma ex_denied_eq:
  "ReceiveRateLimitedPacket ref_lib ex_in_packet (w_rl ex_limited) = (Err ErrQuotaExceeded, ex_denied)"
proof -
  have "AddInflow (int_fits ref_lib) (Rl_Flow ex_voucher_limit) (Pi_Amount ex_voucher_info) (Rl_Quota ex_voucher_limit)
          (MinRateLimitAmount ex_voucher_limit) = Err ErrQuotaExceeded"
    by (simp add: AddInflow_eq_Err ex_voucher_limit_def ex_voucher_info_def allowance_def sdiv_pos_div)
  then have "fst (ReceiveRateLimitedPacket ref_lib ex_in_packet (w_rl ex_limited)) = Err ErrQuotaExceeded"
    by (simp add: receive_unfold [OF ex_parse_in] ex_limiting_in UpdateFlow_def)
  then show ?thesis by (simp add: ex_denied_def prod_eq_iff)
qed

section \<open>Properties\<close>

text \<open>
  C10: A packet the rate limiter refuses is answered with an error acknowledgement and never reaches the
  modules below: of the whole chain only the limiter's events change.
\<close>

theorem denied_packet_not_delivered:
  assumes "ReceiveRateLimitedPacket L p (w_rl w) = (Err e, r)"
  shows "OnRecvPacket (wired_stack L txt D forward transfer) p relayer w = (Ok (Some (Ack_Error (txt e))), w\<lparr>w_rl := r\<rparr>) \<and>
         rl_limits r = rl_limits (w_rl w) \<and> rl_pending r = rl_pending (w_rl w)"
  using receive_Err_keeps [OF assms] assms
  by (simp add: wired_stack_def rl_IBCMiddleware_def rl_OnRecvPacket_def on_rl_def op_on_def
      NewErrorAcknowledgement_def)

lemma denied_packet_not_delivered_witness:
  "OnRecvPacket (wired_stack ref_lib (\<lambda>_. ''denied'') ref_deps (\<lambda>m. m) ref_app) ex_in_packet ''rly'' ex_limited =
     (Ok (Some (Ack_Error ''denied'')), ex_limited\<lparr>w_rl := ex_denied\<rparr>)"
  using denied_packet_not_delivered [OF ex_denied_eq] by blast

text \<open>
  C33: A rate limit set by message for a registered native token on its channel is the limit that the
  transfers of that token count against, in both directions: the packets received and sent for it carry the same
  denomination and channel as the stored limit, whose flow starts from the supply of the voucher. Unless sender and
  receiver are whitelisted, a received packet that passes adds its amount to the inflow of this limit and a sent packet
  that passes adds it to the outflow.
\<close>

theorem registered_token_uses_its_limit:
  assumes "registry_ok (env_tfmw env)" and "i \<in> registered (env_tfmw env)"
    and "Mrl_Denom msg = NativeDenom i" and "Mrl_ChannelID msg = ChannelID i"
    and "AddTransferRateLimit L env authority msg s = (Ok (), t)"
  shows "\<exists>r. Rl_Flow r = NewFlow (env_supply env (IbcDenom i)) \<and>
    (\<forall>dir p data info. moves_token L i dir p data \<longrightarrow> ParsePacketInfo L p dir = Ok info \<longrightarrow>
       GetRateLimit t (Pi_Denom info) (Pi_ChannelID info) = Some r \<and>
       (\<not> IsAddressPairWhitelisted t (Ftd_Sender data) (Ftd_Receiver data) \<longrightarrow>
          (\<forall>t'. dir = PACKET_RECV \<longrightarrow> ReceiveRateLimitedPacket L p t = (Ok (), t') \<longrightarrow>
             GetRateLimit t' (IbcDenom i) (ChannelID i) = Some (add_inflow (Pi_Amount info) r)) \<and>
          (\<forall>t'. dir = PACKET_SEND \<longrightarrow> SendRateLimitedPacket L p t = (Ok (), t') \<longrightarrow>
             GetRateLimit t' (IbcDenom i) (ChannelID i) = Some (add_outflow (Pi_Amount info) r))))"
proof -
  define r where "r = limit_of_msg env (IbcDenom i) msg (env_supply env (IbcDenom i))"
  have t: "t = SetRateLimit r s"
    using assms(3-5) resolve_denom_registered [OF assms(1,2)]
    by (auto simp: r_def AddTransferRateLimit_def op_bind_eq_Ok AddRateLimit_def GetChannelValue_def Let_def split: if_splits)
  have path: "Path_Denom (Rl_Path r) = IbcDenom i" "Path_ChannelID (Rl_Path r) = ChannelID i"
    "Rl_Flow r = NewFlow (env_supply env (IbcDenom i))"
    using assms(4) by (simp_all add: r_def limit_of_msg_def NewFlow_def)
  have r: "GetRateLimit t (IbcDenom i) (ChannelID i) = Some r" by (simp add: t path GetRateLimit_SetRateLimit)
  show ?thesis
  proof (intro exI [of _ r] conjI allI impI path(3))
    fix dir p data info
    assume "moves_token L i dir p data" and parse: "ParsePacketInfo L p dir = Ok info"
    note info = moves_token_info [OF this]
    then show "GetRateLimit t (Pi_Denom info) (Pi_ChannelID info) = Some r" by (simp add: r)
    assume "\<not> IsAddressPairWhitelisted t (Ftd_Sender data) (Ftd_Receiver data)"
    with info have l: "limiting t info = Some r" by (simp add: limiting_def r)
    show "GetRateLimit t' (IbcDenom i) (ChannelID i) = Some (add_inflow (Pi_Amount info) r)"
      if "dir = PACKET_RECV" "ReceiveRateLimitedPacket L p t = (Ok (), t')" for t'
      using receive_ok_counted [OF that(2) parse [unfolded that(1)] l]
      by (simp add: GetRateLimit_SetRateLimit add_inflow_def path)
    show "GetRateLimit t' (IbcDenom i) (ChannelID i) = Some (add_outflow (Pi_Amount info) r)"
      if "dir = PACKET_SEND" "SendRateLimitedPacket L p t = (Ok (), t')" for t'
      using send_ok_counted [OF that(2) parse [unfolded that(1)] l] by (simp add: GetRateLimit_SetRateLimit path)
  qed
qed

definition ex_peg_env :: rl_env where
  "ex_peg_env = \<lparr>env_supply = (\<lambda>_. 1000), env_tfmw = ex_peg_tfmw\<rparr>"

definition ex_peg_msg :: MsgRateLimit where
  "ex_peg_msg = \<lparr>Mrl_Authority = ''gov'', Mrl_Denom = ''ppica'', Mrl_ChannelID = ''channel-0'',
     Mrl_MaxPercentSend = Some 10, Mrl_MaxPercentRecv = Some 10, Mrl_MinRateLimitAmount = Some 1,
     Mrl_DurationHours = 2\<rparr>"

lemma ex_peg_resolve: "resolve_denom ex_peg_env ''ppica'' ''channel-0'' = ''ibc/transfer/channel-0/1''"
  using resolve_denom_registered [of ex_peg_env ex_peg_token] ex_peg_registry
  by (simp add: ex_peg_env_def ex_peg_token_def)

lemma ex_peg_limit:
  "AddTransferRateLimit ref_lib ex_peg_env ''gov'' ex_peg_msg rl_empty =
     (Ok (), SetRateLimit (limit_of_msg ex_peg_env ''ibc/transfer/channel-0/1'' ex_peg_msg 1000) rl_empty)"
  using ex_peg_resolve
  by (simp add: AddTransferRateLimit_def MsgAddRateLimit_ValidateBasic_def refuse_def or_else_def and_also_def
      Int_cmp_def ex_peg_msg_def AddRateLimit_def Let_def GetChannelValue_def)
     (simp add: ex_peg_env_def GetRateLimit_def rl_empty_def)

definition ex_set_limit :: rl_state where
  "ex_set_limit = SetRateLimit (limit_of_msg ex_peg_env ''ibc/transfer/channel-0/1'' ex_peg_msg 1000) rl_empty"

definition ex_out_info :: RateLimitedPacketInfo where
  "ex_out_info = ex_voucher_info\<lparr>Pi_Sender := ''alice'', Pi_Receiver := ''bob''\<rparr>"

lemma ex_parse_out: "ParsePacketInfo ref_lib ex_out_packet PACKET_SEND = Ok ex_out_info"
  by (simp add: ParsePacketInfo_def ParseDenomFromSendPacket_def ex_out_packet_def ref_packet_def Let_def
      ex_out_info_def ex_voucher_info_def) (simp add: ref_trace_def)

lemma ex_moves:
  "moves_token ref_lib ex_peg_token PACKET_RECV ex_in_packet ex_in_data"
  "moves_token ref_lib ex_peg_token PACKET_SEND ex_out_packet ex_out_data"
  by (simp_all add: moves_token_def ex_in_packet_def ex_out_packet_def ex_in_data_def ex_out_data_def ref_packet_def ex_peg_token_def)
    (simp add: ref_trace_def)

lemma ex_set_limiting:
  "limiting ex_set_limit ex_voucher_info = Some (limit_of_msg ex_peg_env ''ibc/transfer/channel-0/1'' ex_peg_msg 1000)"
  "limiting ex_set_limit ex_out_info = Some (limit_of_msg ex_peg_env ''ibc/transfer/channel-0/1'' ex_peg_msg 1000)"
  by (simp_all add: limiting_def ex_set_limit_def ex_voucher_info_def ex_out_info_def IsAddressPairWhitelisted_def
      GetRateLimit_def SetRateLimit_def rl_empty_def limit_of_msg_def ex_peg_msg_def)

lemma ex_counted:
  "fst (ReceiveRateLimitedPacket ref_lib ex_in_packet ex_set_limit) = Ok ()"
  "fst (SendRateLimitedPacket ref_lib ex_out_packet ex_set_limit) = Ok ()"
proof -
  let ?r = "limit_of_msg ex_peg_env ''ibc/transfer/channel-0/1'' ex_peg_msg 1000"
  have "UpdateFlow (int_fits ref_lib) ?r PACKET_RECV 40 = Ok (add_inflow 40 ?r)"
    "UpdateFlow (int_fits ref_lib) ?r PACKET_SEND 40 = Ok (add_outflow 40 ?r)"
    by (auto simp: UpdateFlow_def AddInflow_eq_Ok AddOutflow_eq_Ok add_inflow_def add_outflow_def limit_of_msg_def
        ex_peg_msg_def allowance_def sdiv_pos_div stored_Int_def)
  then show "fst (ReceiveRateLimitedPacket ref_lib ex_in_packet ex_set_limit) = Ok ()"
    "fst (SendRateLimitedPacket ref_lib ex_out_packet ex_set_limit) = Ok ()"
    by (simp_all add: receive_unfold [OF ex_parse_in] send_unfold [OF ex_parse_out] ex_set_limiting)
      (simp_all add: ex_voucher_info_def ex_out_info_def)
qed

lemma registered_token_uses_its_limit_witness:
  "\<exists>r. Rl_Flow r = NewFlow 1000 \<and>
     GetRateLimit (snd (ReceiveRateLimitedPacket ref_lib ex_in_packet ex_set_limit)) ''ibc/transfer/channel-0/1'' ''channel-0''
       = Some (add_inflow 40 r) \<and>
     GetRateLimit (snd (SendRateLimitedPacket ref_lib ex_out_packet ex_set_limit)) ''ibc/transfer/channel-0/1'' ''channel-0''
       = Some (add_outflow 40 r)"
proof -
  have "registry_ok (env_tfmw ex_peg_env)" "ex_peg_token \<in> registered (env_tfmw ex_peg_env)"
    "Mrl_Denom ex_peg_msg = NativeDenom ex_peg_token" "Mrl_ChannelID ex_peg_msg = ChannelID ex_peg_token"
    by (simp_all add: ex_peg_env_def ex_peg_registry ex_peg_msg_def ex_peg_token_def)
  note limit = registered_token_uses_its_limit [OF this ex_peg_limit [folded ex_set_limit_def]]
  have free: "\<not> IsAddressPairWhitelisted ex_set_limit a b" for a b
    by (simp add: ex_set_limit_def IsAddressPairWhitelisted_def SetRateLimit_def rl_empty_def)
  have names: "IbcDenom ex_peg_token = ''ibc/transfer/channel-0/1''" "ChannelID ex_peg_token = ''channel-0''"
    "Pi_Amount ex_voucher_info = 40" "Pi_Amount ex_out_info = 40"
    by (simp_all add: ex_peg_token_def ex_voucher_info_def ex_out_info_def)
  have run: "ReceiveRateLimitedPacket ref_lib ex_in_packet ex_set_limit =
      (Ok (), snd (ReceiveRateLimitedPacket ref_lib ex_in_packet ex_set_limit))"
    "SendRateLimitedPacket ref_lib ex_out_packet ex_set_limit =
      (Ok (), snd (SendRateLimitedPacket ref_lib ex_out_packet ex_set_limit))"
    using ex_counted by (simp_all add: prod_eq_iff)
  show ?thesis
  proof (rule exE [OF limit], erule conjE, goal_cases)
    case (1 r)
    from 1(2) [rule_format, OF ex_moves(1) ex_parse_in] free run(1)
    have "GetRateLimit (snd (ReceiveRateLimitedPacket ref_lib ex_in_packet ex_set_limit)) ''ibc/transfer/channel-0/1''
        ''channel-0'' = Some (add_inflow 40 r)" by (simp add: names)
    moreover from 1(2) [rule_format, OF ex_moves(2) ex_parse_out] free run(2)
    have "GetRateLimit (snd (SendRateLimitedPacket ref_lib ex_out_packet ex_set_limit)) ''ibc/transfer/channel-0/1''
        ''channel-0'' = Some (add_outflow 40 r)" by (simp add: names)
    ultimately show ?case using 1(1) by (auto simp: ex_peg_env_def)
  qed
qed

text \<open>
  C7: The wired stack of rate limiter, packet-forward middleware, transfer middleware and transfer
  application keeps every rate limit within its allowance through each packet callback and through each packet
  that is sent, whatever the outcome, if the transfer application, the forward middleware and the channel below do.
\<close>

theorem stack_keeps_rate_limits:
  assumes "module_keeps L rl_safe transfer"
    and "\<And>M. module_keeps L rl_safe M \<Longrightarrow> module_keeps L rl_safe (forward M)"
    and "\<And>m. keeps rl_safe (send_transfer m)" and "ics_keeps L rl_safe channel"
    and "D = wired_deps L B has_trace set_trace send_transfer channel"
  shows "module_keeps L rl_safe (wired_stack L txt D forward transfer) \<and> ics_keeps L rl_safe (tfmw_ICS4 L D)"
  unfolding assms(5) wired_stack_layers wired_send_layers
  by (intro conjI limits.receives limits.sends assms(1-4))

lemma stack_keeps_rate_limits_witness:
  "module_keeps ref_lib rl_safe (wired_stack ref_lib (\<lambda>_. ''denied'')
     (wired_deps ref_lib ref_bank (\<lambda>_ _. True) (\<lambda>_ b. b) ref_transfer ref_channel) (\<lambda>m. m) ref_app) \<and>
   ics_keeps ref_lib rl_safe
     (tfmw_ICS4 ref_lib (wired_deps ref_lib ref_bank (\<lambda>_ _. True) (\<lambda>_ b. b) ref_transfer ref_channel))"
proof -
  have "keeps rl_safe (ref_transfer m)" for m
    by (auto simp: keeps_def rl_safe_def ref_transfer_def on_ext_def op_on_def split: prod.split)
  moreover have "ics_keeps ref_lib rl_safe ref_channel"
    by (simp add: ics_keeps_def ref_channel_def)
  ultimately show ?thesis
    by (intro stack_keeps_rate_limits [OF ref_app_keeps _ _ _ refl])
qed

end
