(* ===== verification/Tx_Boundary_Props.thy ===== *)
theory Tx_Boundary_Props
  imports Tx_Boundary
begin

text \<open>
  Correctness of \<open>x/tx-boundary\<close>: the counters stay within the limits, the number of accepted
  messages grows no faster than the boundary allows, a blocked address can go on after a generation,
  and messages nested in authz are counted like the others.
\<close>

section \<open>Flattening nested messages\<close>

text \<open>The messages the decorator reaches, in its order; \<open>None\<close> is one that does not unpack.\<close>

fun flat :: "sdk_msg \<Rightarrow> sdk_msg option list"
  and flats :: "sdk_msg option list \<Rightarrow> sdk_msg option list" where
  "flat (MsgExec ms) = flats ms"
| "flat (MsgDelegate d) = [Some (MsgDelegate d)]"
| "flat (MsgBeginRedelegate d) = [Some (MsgBeginRedelegate d)]"
| "flat (MsgUpdateClient url signer) = [Some (MsgUpdateClient url signer)]"
| "flat OtherMsg = [Some OtherMsg]"
| "flats [] = []"
| "flats (None # ms) = None # flats ms"
| "flats (Some m # ms) = flat m @ flats ms"

definition validate_leaf :: "lib \<Rightarrow> ctx \<Rightarrow> sdk_msg option \<Rightarrow> (txb_state, unit) op" where
  "validate_leaf L ctx m =
     (case m of
        None \<Rightarrow> op_lift (Err (ErrLib ''cannot unmarshal authz exec msgs''))
      | Some (MsgDelegate d) \<Rightarrow> validDelegateMsg L ctx d
      | Some (MsgBeginRedelegate d) \<Rightarrow> validRedelegateMsg L ctx d
      | Some _ \<Rightarrow> op_lift (Ok ()))"

lemma op_each_single: "op_each f [x] s = (f x s :: unit res \<times> 's)"
  by (auto split: prod.splits res.splits)

lemma validate_flat:
  "ValidateStakingMsg L ctx m s = op_each (validate_leaf L ctx) (flat m) s"
  "validAuthz L ctx ms s = op_each (validate_leaf L ctx) (flats ms) s"
proof (induction m and ms arbitrary: s and s rule: flat_flats.induct)
  case (8 m ms)
  then show ?case
    by (auto simp: op_each_append op_bind_def split: prod.splits res.splits)
qed (auto simp: validate_leaf_def op_lift_def split: prod.splits res.splits)

lemma ValidateStakingMsgs_eq:
  "ValidateStakingMsgs L ctx msgs s = op_each (validate_leaf L ctx) (concat (map flat msgs)) s"
  unfolding ValidateStakingMsgs_def
proof (induction msgs arbitrary: s)
  case (Cons m msgs)
  then show ?case
    by (auto simp: op_each_append validate_flat op_bind_def split: prod.splits res.splits)
qed simp

lemma ante_eq:
  "StakingPermission_AnteHandle L ctx False msgs (op_lift (Ok ())) s =
   op_each (validate_leaf L ctx) (concat (map flat msgs)) s"
  by (auto simp: StakingPermission_AnteHandle_def ValidateStakingMsgs_eq op_bind_def op_lift_def
      split: prod.splits res.splits)

text \<open>
  C35: Checking the messages of a transaction is checking the list of staking messages reached by
  unfolding every authz message, in order and up to the first failure, so nesting does not hide a
  message from the limits; a packed message that cannot be read rejects the transaction.
\<close>

theorem ValidateStakingMsgs_flat:
  "ValidateStakingMsgs L ctx msgs s = op_each (validate_leaf L ctx) (concat (map flat msgs)) s"
  by (rule ValidateStakingMsgs_eq)

section \<open>Well-formed stores\<close>

text \<open>
  Addresses are never one byte long, so the counters cannot meet the two boundary keys.
\<close>

definition addr_laws :: "lib \<Rightarrow> bool" where
  "addr_laws L \<longleftrightarrow> (\<forall>x a. AccAddressFromBech32 L x = Ok a \<longrightarrow> length a \<noteq> 1)"

definition limit_ok :: "txb_GenesisState \<Rightarrow> LimitPerAddr \<Rightarrow> bool" where
  "limit_ok g l \<longleftrightarrow>
     DelegateCount l \<le> TxLimit (Xg_DelegateBoundary g) \<and> ReledegateCount l \<le> TxLimit (Xg_RedelegateBoundary g)"

definition txb_ok :: "txb_GenesisState \<Rightarrow> txb_state \<Rightarrow> bool" where
  "txb_ok g s \<longleftrightarrow>
     kv_get s DelegateBoundaryKey = Some (V_Boundary (Xg_DelegateBoundary g)) \<and>
     kv_get s RedelegateBoundaryKey = Some (V_Boundary (Xg_RedelegateBoundary g)) \<and>
     BlocksPerGeneration (Xg_DelegateBoundary g) \<noteq> 0 \<and> BlocksPerGeneration (Xg_RedelegateBoundary g) \<noteq> 0 \<and>
     (\<forall>a v. length a \<noteq> 1 \<longrightarrow> kv_get s a = Some v \<longrightarrow> (\<exists>l. v = V_Limit l \<and> limit_ok g l))"

lemma addr_not_key:
  assumes "length a \<noteq> 1"
  shows "a \<noteq> DelegateBoundaryKey" "a \<noteq> RedelegateBoundaryKey"
    "DelegateBoundaryKey \<noteq> a" "RedelegateBoundaryKey \<noteq> a"
  using assms by (auto simp: DelegateBoundaryKey_def RedelegateBoundaryKey_def)

lemma boundary_keys [simp]:
  "DelegateBoundaryKey \<noteq> RedelegateBoundaryKey"
  "length DelegateBoundaryKey = 1" "length RedelegateBoundaryKey = 1"
  by (auto simp: DelegateBoundaryKey_def RedelegateBoundaryKey_def)

lemma txb_ok_boundaries:
  assumes "txb_ok g s"
  shows "GetDelegateBoundary s = Ok (Xg_DelegateBoundary g)"
    and "GetRedelegateBoundary s = Ok (Xg_RedelegateBoundary g)"
    and "BlocksPerGeneration (Xg_DelegateBoundary g) \<noteq> 0"
  using assms by (auto simp: txb_ok_def GetDelegateBoundary_def GetRedelegateBoundary_def as_boundary_def)

lemma txb_ok_limit:
  assumes "txb_ok g s" "length a \<noteq> 1"
  shows "limit_ok g (GetLimitPerAddr s a)"
  using assms by (auto simp: txb_ok_def GetLimitPerAddr_def limit_ok_def as_limit_def split: option.splits)
    (metis (no_types, lifting) txb_val.simps(6))+

lemma txb_ok_set:
  assumes "txb_ok g s" "length a \<noteq> 1" "limit_ok g l"
  shows "txb_ok g (SetLimitPerAddr a l s)"
  using assms addr_not_key [of a] by (auto simp: txb_ok_def SetLimitPerAddr_def)

lemma get_limit_set [simp]:
  "GetLimitPerAddr (SetLimitPerAddr a l s) b = (if b = a then l else GetLimitPerAddr s b)"
  by (simp add: GetLimitPerAddr_def SetLimitPerAddr_def as_limit_def)

text \<open>The counters after the regeneration of \<open>UpdateLimitPerAddr\<close>.\<close>

definition refreshed :: "ctx \<Rightarrow> Boundary \<Rightarrow> LimitPerAddr \<Rightarrow> LimitPerAddr" where
  "refreshed ctx d l =
     (if LatestUpdateBlock l \<noteq> 0 \<and> LatestUpdateBlock l + BlocksPerGeneration d \<le>s BlockHeight ctx
      then
        (let n = generated (BlockHeight ctx - LatestUpdateBlock l) (BlocksPerGeneration d)
         in \<lparr>DelegateCount = minus_generated n (DelegateCount l),
             ReledegateCount = minus_generated n (ReledegateCount l),
             LatestUpdateBlock = BlockHeight ctx\<rparr>)
      else l)"

lemma minus_generated_le: "minus_generated n c \<le> c"
  by (simp add: minus_generated_def word_sub_le not_less)

lemma limit_ok_refreshed: "limit_ok g l \<Longrightarrow> limit_ok g (refreshed ctx d l)"
  using minus_generated_le order_trans by (fastforce simp: limit_ok_def refreshed_def Let_def)

lemma UpdateLimitPerAddr_eq:
  assumes "txb_ok g s" "length a \<noteq> 1"
  shows "\<exists>s'. UpdateLimitPerAddr ctx a s = (Ok (), s') \<and> txb_ok g s' \<and>
    kv_has s' = kv_has s \<and>
    (\<forall>b. length b \<noteq> 1 \<longrightarrow> GetLimitPerAddr s' b =
       (if b = a then refreshed ctx (Xg_DelegateBoundary g) (GetLimitPerAddr s a) else GetLimitPerAddr s b))"
proof (cases "LatestUpdateBlock (GetLimitPerAddr s a) \<noteq> 0 \<and>
    LatestUpdateBlock (GetLimitPerAddr s a) + BlocksPerGeneration (Xg_DelegateBoundary g) \<le>s BlockHeight ctx")
  case False
  then show ?thesis
    using assms txb_ok_boundaries [OF assms(1)]
    by (auto simp: UpdateLimitPerAddr_def refreshed_def Let_def)
next
  case True
  let ?l = "GetLimitPerAddr s a"
  have "kv_has s a"
    using True by (cases "kv_get s a") (auto simp: kv_has_def GetLimitPerAddr_def)
  have "UpdateLimitPerAddr ctx a s =
      (Ok (), SetLimitPerAddr a (refreshed ctx (Xg_DelegateBoundary g) ?l) s)"
    using True txb_ok_boundaries [OF assms(1)]
    by (cases ?l) (simp add: UpdateLimitPerAddr_def refreshed_def Let_def)
  with \<open>kv_has s a\<close> txb_ok_set [OF assms(1,2) limit_ok_refreshed [OF txb_ok_limit [OF assms]]] show ?thesis
    by (auto simp: SetLimitPerAddr_def GetLimitPerAddr_def as_limit_def fun_eq_iff)
qed

section \<open>One staking message\<close>

text \<open>Both kinds of message behave alike, on the first (delegate) or the second counter.\<close>

definition count_of :: "bool \<Rightarrow> LimitPerAddr \<Rightarrow> u64" where
  "count_of redel l = (if redel then ReledegateCount l else DelegateCount l)"

definition boundary_of :: "bool \<Rightarrow> txb_GenesisState \<Rightarrow> Boundary" where
  "boundary_of redel g = (if redel then Xg_RedelegateBoundary g else Xg_DelegateBoundary g)"

definition valid_msg :: "bool \<Rightarrow> lib \<Rightarrow> ctx \<Rightarrow> string \<Rightarrow> (txb_state, unit) op" where
  "valid_msg redel = (if redel then validRedelegateMsg else validDelegateMsg)"

definition increment :: "bool \<Rightarrow> ctx \<Rightarrow> bytes \<Rightarrow> txb_state \<Rightarrow> txb_state" where
  "increment redel = (if redel then IncrementRedelegateCount else IncrementDelegateCount)"

definition bumped :: "bool \<Rightarrow> LimitPerAddr \<Rightarrow> LimitPerAddr" where
  "bumped redel l =
     (if redel then l\<lparr>ReledegateCount := ReledegateCount l + 1\<rparr> else l\<lparr>DelegateCount := DelegateCount l + 1\<rparr>)"

definition started :: "ctx \<Rightarrow> bool \<Rightarrow> LimitPerAddr \<Rightarrow> LimitPerAddr" where
  "started ctx known l = (if known then l else l\<lparr>LatestUpdateBlock := BlockHeight ctx\<rparr>)"

lemma bumped_simps [simp]:
  "LatestUpdateBlock (bumped r l) = LatestUpdateBlock l"
  "count_of r (bumped q l) = (if r = q then count_of r l + 1 else count_of r l)"
  "count_of r (started ctx k l) = count_of r l"
  "LatestUpdateBlock (started ctx k l) = (if k then LatestUpdateBlock l else BlockHeight ctx)"
  by (auto simp: bumped_def count_of_def started_def)

lemma limit_ok_iff:
  "limit_ok g l \<longleftrightarrow> (\<forall>r. count_of r l \<le> TxLimit (boundary_of r g))"
  by (auto simp: limit_ok_def count_of_def boundary_of_def all_bool_eq)

lemma increment_eq:
  "increment r ctx a s = SetLimitPerAddr a (bumped r (started ctx (kv_has s a) (GetLimitPerAddr s a))) s"
  by (auto simp: increment_def IncrementDelegateCount_def IncrementRedelegateCount_def bumped_def
      started_def GetLimitPerAddr_def kv_has_def Let_def split: option.splits)

lemma word_less_inc:
  assumes "c < (b :: u64)"
  shows "c + 1 \<le> b \<and> unat (c + 1) = unat c + 1"
proof -
  have "unat c + 1 < 2 ^ 64"
    using assms unsigned_less [where 'a = nat and w = b] by (simp add: word_less_nat_alt)
  then have "unat (c + 1) = unat c + 1" by (simp add: unat_word_ariths(1))
  with assms show ?thesis by (simp add: word_less_nat_alt word_le_nat_alt)
qed

lemma valid_msg_eq:
  assumes ok: "txb_ok g s" and a: "AccAddressFromBech32 L x = Ok a" "length a \<noteq> 1"
    and l: "l = refreshed ctx (Xg_DelegateBoundary g) (GetLimitPerAddr s a)"
  shows "\<exists>t. txb_ok g t \<and> kv_has t = kv_has s \<and>
     (\<forall>b. length b \<noteq> 1 \<longrightarrow> GetLimitPerAddr t b = (if b = a then l else GetLimitPerAddr s b)) \<and>
     valid_msg r L ctx x s =
       (if TxLimit (boundary_of r g) = 0 then (Ok (), t)
        else if count_of r l < TxLimit (boundary_of r g) then (Ok (), increment r ctx a t)
        else (Err (ErrPlain ((if r then ''redelegate'' else ''delegate'') @ '' tx denied, excess tx limit'')), t))"
proof -
  obtain t where t: "UpdateLimitPerAddr ctx a s = (Ok (), t)" "txb_ok g t" "kv_has t = kv_has s"
    "\<forall>b. length b \<noteq> 1 \<longrightarrow> GetLimitPerAddr t b = (if b = a then l else GetLimitPerAddr s b)"
    using UpdateLimitPerAddr_eq [OF ok a(2)] l by blast
  have "GetLimitPerAddr t a = l" using t(4) a(2) by simp
  then have "valid_msg r L ctx x s =
       (if TxLimit (boundary_of r g) = 0 then (Ok (), t)
        else if count_of r l < TxLimit (boundary_of r g) then (Ok (), increment r ctx a t)
        else (Err (ErrPlain ((if r then ''redelegate'' else ''delegate'') @ '' tx denied, excess tx limit'')), t))"
    using txb_ok_boundaries [OF ok] a(1) t(1)
    by (auto simp: valid_msg_def validDelegateMsg_def validRedelegateMsg_def increment_def op_bind_Ok
        boundary_of_def count_of_def not_less)
  with t show ?thesis by blast
qed

lemma increment_ok:
  assumes "txb_ok g t" "length a \<noteq> 1" "count_of r (GetLimitPerAddr t a) < TxLimit (boundary_of r g)"
  shows "txb_ok g (increment r ctx a t)"
proof -
  have "limit_ok g (bumped r (started ctx (kv_has t a) (GetLimitPerAddr t a)))"
    using txb_ok_limit [OF assms(1,2)] word_less_inc [OF assms(3)] by (auto simp: limit_ok_iff)
  then show ?thesis unfolding increment_eq by (rule txb_ok_set [OF assms(1,2)])
qed

lemma valid_msg_keeps:
  assumes "txb_ok g s" "addr_laws L"
  shows "txb_ok g (snd (valid_msg r L ctx x s))"
proof (cases "AccAddressFromBech32 L x")
  case (Ok a)
  then have a: "length a \<noteq> 1" using assms(2) by (auto simp: addr_laws_def)
  from valid_msg_eq [OF assms(1) Ok a refl, of ctx r] increment_ok [OF _ a, of g _ r ctx] a show ?thesis
    by force
qed (use txb_ok_boundaries [OF assms(1)] assms(1) in
  \<open>auto simp: valid_msg_def validDelegateMsg_def validRedelegateMsg_def\<close>)

section \<open>Reachable states\<close>

text \<open>
  Delivering a transaction keeps what the ante handler wrote when it accepts and drops it otherwise. The
  boundaries are set at genesis only: the module registers no message service.
\<close>

definition txb_deliver :: "lib \<Rightarrow> ctx \<Rightarrow> sdk_msg list \<Rightarrow> txb_state \<Rightarrow> txb_state" where
  "txb_deliver L ctx msgs s =
     (case StakingPermission_AnteHandle L ctx False msgs (op_lift (Ok ())) s of
        (Ok _, s') \<Rightarrow> s' | _ \<Rightarrow> s)"

inductive txb_reachable :: "lib \<Rightarrow> txb_GenesisState \<Rightarrow> txb_state \<Rightarrow> bool" for L g where
  start: "txb_InitGenesis g kv_empty = (Ok (), s) \<Longrightarrow> txb_reachable L g s"
| tx: "txb_reachable L g s \<Longrightarrow> txb_reachable L g (txb_deliver L ctx msgs s)"

inductive_cases txb_reachableE: "txb_reachable L g s"

lemma validate_leaf_keeps:
  "txb_ok g s \<Longrightarrow> addr_laws L \<Longrightarrow> txb_ok g (snd (validate_leaf L ctx m s))"
  using valid_msg_keeps [of g s L False ctx] valid_msg_keeps [of g s L True ctx]
  by (auto simp: validate_leaf_def valid_msg_def op_lift_def split: option.split sdk_msg.split)

lemma txb_deliver_eq:
  "txb_deliver L ctx msgs s =
     (case op_each (validate_leaf L ctx) (concat (map flat msgs)) s of (Ok _, s') \<Rightarrow> s' | _ \<Rightarrow> s)"
  by (simp add: txb_deliver_def ante_eq)

lemma txb_deliver_keeps:
  assumes "txb_ok g s" "addr_laws L"
  shows "txb_ok g (txb_deliver L ctx msgs s)"
proof -
  have "txb_ok g (snd (op_each (validate_leaf L ctx) (concat (map flat msgs)) s))"
    by (rule op_each_inv [where P = "txb_ok g"]) (use validate_leaf_keeps assms in auto)
  with assms show ?thesis
    by (auto simp: txb_deliver_eq split: prod.splits res.splits)
qed

lemma txb_init:
  "txb_InitGenesis g kv_empty = (r, s) \<Longrightarrow>
     (if txb_ValidateGenesis g = Ok () then r = Ok () \<and> txb_ok g s else r = Panic)"
  by (auto simp: txb_InitGenesis_def SetDelegateBoundary_def SetRedelegateBoundary_def op_must_def op_bind_def
      txb_ValidateGenesis_def txb_ok_def addr_not_key split: if_splits)

lemma txb_reachable_ok: "txb_reachable L g s \<Longrightarrow> addr_laws L \<Longrightarrow> txb_ok g s"
proof (induction rule: txb_reachable.induct)
  case (start s)
  then show ?case using txb_init [of g "Ok ()" s] by (auto split: if_splits)
qed (rule txb_deliver_keeps)

text \<open>
  C16: In every reachable state the two counters of every address are within the limits set at genesis,
  whatever transactions were delivered, at whatever heights.
\<close>

theorem counters_within_limits:
  assumes "txb_reachable L g s" "addr_laws L" "length a \<noteq> 1"
  shows "DelegateCount (GetLimitPerAddr s a) \<le> TxLimit (Xg_DelegateBoundary g) \<and>
         ReledegateCount (GetLimitPerAddr s a) \<le> TxLimit (Xg_RedelegateBoundary g)"
  using txb_ok_limit [OF txb_reachable_ok [OF assms(1,2)] assms(3)] by (simp add: limit_ok_def)

definition txb_lib :: lib where
  "txb_lib = ref_lib\<lparr>AccAddressFromBech32 := (\<lambda>a. if length a \<le> 1 then Err ErrInvalidAddress else Ok a)\<rparr>"

lemma addr_laws_ref: "addr_laws txb_lib"
  by (auto simp: addr_laws_def txb_lib_def)

definition ex_txb_state :: txb_state where
  "ex_txb_state = snd (txb_InitGenesis txb_DefaultGenesisState kv_empty)"

definition ex_txb_ctx :: "u64 \<Rightarrow> ctx" where
  "ex_txb_ctx h = \<lparr>BlockTime = 0, BlockHeight = h\<rparr>"

lemma ex_txb_reachable: "txb_reachable txb_lib txb_DefaultGenesisState ex_txb_state"
  by (rule txb_reachable.start)
    (simp add: ex_txb_state_def txb_InitGenesis_def SetDelegateBoundary_def SetRedelegateBoundary_def op_must_def
      op_bind_def txb_DefaultGenesisState_def DefaultDelegateBoundary_def DefaultRedelegateBoundary_def)

theorem counters_within_limits_witness:
  "DelegateCount (GetLimitPerAddr (txb_deliver txb_lib (ex_txb_ctx 7) [MsgDelegate ''alice''] ex_txb_state) ''alice'') \<le> 5"
  using counters_within_limits [OF txb_reachable.tx [OF ex_txb_reachable] addr_laws_ref,
      where a = "''alice''" and ctx1 = "ex_txb_ctx 7" and msgs1 = "[MsgDelegate ''alice'']"]
  by (simp add: txb_DefaultGenesisState_def DefaultDelegateBoundary_def)

text \<open>
  Genesis is accepted exactly when it validates, and exporting any later state gives back the same
  boundaries, so a chain restarted from the export starts with the state of the first genesis, the
  counters forgotten.
\<close>

lemma txb_genesis_round_trip:
  assumes "addr_laws L"
  shows "(fst (txb_InitGenesis g kv_empty) = (if txb_ValidateGenesis g = Ok () then Ok () else Panic)) \<and>
         (\<forall>s. txb_reachable L g s \<longrightarrow> txb_ExportGenesis s = Ok g)"
proof
  show "fst (txb_InitGenesis g kv_empty) = (if txb_ValidateGenesis g = Ok () then Ok () else Panic)"
    using txb_init [of g] by (cases "txb_InitGenesis g kv_empty") (auto split: if_splits)
  show "\<forall>s. txb_reachable L g s \<longrightarrow> txb_ExportGenesis s = Ok g"
    using txb_ok_boundaries(1,2) [OF txb_reachable_ok [OF _ assms]]
    by (cases g) (auto simp: txb_ExportGenesis_def)
qed

theorem txb_genesis_round_trip_witness:
  "txb_ExportGenesis ex_txb_state = Ok txb_DefaultGenesisState"
  using txb_genesis_round_trip [OF addr_laws_ref] ex_txb_reachable by blast

section \<open>How fast the counters allow messages\<close>

definition by_addr :: "lib \<Rightarrow> bool \<Rightarrow> bytes \<Rightarrow> sdk_msg option \<Rightarrow> bool" where
  "by_addr L r a m =
     (case m of
        Some (MsgDelegate x) \<Rightarrow> \<not> r \<and> AccAddressFromBech32 L x = Ok a
      | Some (MsgBeginRedelegate x) \<Rightarrow> r \<and> AccAddressFromBech32 L x = Ok a
      | _ \<Rightarrow> False)"

fun txb_run :: "lib \<Rightarrow> (ctx \<times> sdk_msg list) list \<Rightarrow> txb_state \<Rightarrow> txb_state" where
  "txb_run L [] s = s"
| "txb_run L ((ctx, msgs) # txs) s = txb_run L txs (txb_deliver L ctx msgs s)"

text \<open>
  How many delegations (\<open>r\<close> false) or redelegations (\<open>r\<close> true) of an address the accepted transactions
  of a history carry, those inside authz messages included.
\<close>

fun accepted :: "lib \<Rightarrow> bool \<Rightarrow> bytes \<Rightarrow> (ctx \<times> sdk_msg list) list \<Rightarrow> txb_state \<Rightarrow> nat" where
  "accepted L r a [] s = 0"
| "accepted L r a ((ctx, msgs) # txs) s =
     (case StakingPermission_AnteHandle L ctx False msgs (op_lift (Ok ())) s of
        (Ok _, s') \<Rightarrow> length (filter (by_addr L r a) (concat (map flat msgs)))
      | _ \<Rightarrow> 0) + accepted L r a txs (txb_deliver L ctx msgs s)"

text \<open>The account of accepted messages against the counter and the blocks since \<open>h1\<close>.\<close>

definition rate_ok :: "txb_GenesisState \<Rightarrow> bool \<Rightarrow> bytes \<Rightarrow> int \<Rightarrow> int \<Rightarrow> nat \<Rightarrow> txb_state \<Rightarrow> bool" where
  "rate_ok g r a h1 h acc s \<longleftrightarrow>
     (let l = GetLimitPerAddr s a; n = uint (BlocksPerGeneration (Xg_DelegateBoundary g)) in
      if kv_has s a
      then int acc * n \<le> uint (count_of r l) * n + uint (LatestUpdateBlock l) - h1 \<and>
           h1 \<le> uint (LatestUpdateBlock l) \<and> uint (LatestUpdateBlock l) \<le> h
      else acc = 0)"

lemma generated_bound:
  assumes "uint u \<le> uint h"
  shows "uint (generated (h - u) n) * uint n \<le> uint h - uint u"
proof -
  have d: "uint (h - u) = uint h - uint u" using assms by (rule uint_minus_simple_alt [THEN iffD1, unfolded word_le_def])
  have "uint (generated (h - u) n) \<le> uint ((h - u) div n)"
    by (auto simp: generated_def word_le_def [symmetric])
  then have "uint (generated (h - u) n) * uint n \<le> uint ((h - u) div n) * uint n"
    by (simp add: mult_right_mono)
  also have "\<dots> \<le> uint (h - u)"
  proof -
    have "0 \<le> uint (h - u) mod uint n" by (simp add: zmod_int [symmetric] flip: uint_mod)
    then show ?thesis
      using minus_mod_eq_div_mult [of "uint (h - u)" "uint n"] by (simp add: uint_div)
  qed
  finally show ?thesis using d by simp
qed

lemma refreshed_rate:
  assumes "uint (LatestUpdateBlock l) \<le> uint (BlockHeight ctx)" and l': "l' = refreshed ctx d l"
  shows "uint (count_of r l) * uint (BlocksPerGeneration d) + uint (LatestUpdateBlock l)
           \<le> uint (count_of r l') * uint (BlocksPerGeneration d) + uint (LatestUpdateBlock l') \<and>
         uint (LatestUpdateBlock l) \<le> uint (LatestUpdateBlock l') \<and>
         uint (LatestUpdateBlock l') \<le> uint (BlockHeight ctx)"
proof (cases "l' = l")
  case False
  let ?n = "generated (BlockHeight ctx - LatestUpdateBlock l) (BlocksPerGeneration d)"
  let ?b = "uint (BlocksPerGeneration d)"
  have e: "count_of r l' = minus_generated ?n (count_of r l)" "LatestUpdateBlock l' = BlockHeight ctx"
    using False by (auto simp: l' refreshed_def Let_def count_of_def split: if_splits)
  have "uint (count_of r l) - uint ?n \<le> uint (minus_generated ?n (count_of r l))"
    by (auto simp: minus_generated_def not_less word_le_def word_less_def uint_minus_simple_alt [THEN iffD1, unfolded word_le_def])
  then have "(uint (count_of r l) - uint ?n) * ?b \<le> uint (count_of r l') * ?b"
    by (simp add: e mult_right_mono)
  with generated_bound [OF assms(1), of "BlocksPerGeneration d"] assms(1) show ?thesis
    by (simp add: e left_diff_distrib)
qed (use assms in simp)

lemma rate_ok_mono: "rate_ok g r a h1 h acc s \<Longrightarrow> h \<le> h' \<Longrightarrow> rate_ok g r a h1 h' acc s"
  by (auto simp: rate_ok_def Let_def split: if_splits)

lemma get_limit_absent: "\<not> kv_has s a \<Longrightarrow> GetLimitPerAddr s a = \<lparr>DelegateCount = 0, ReledegateCount = 0, LatestUpdateBlock = 0\<rparr>"
  by (simp add: GetLimitPerAddr_def kv_has_def)

lemma increment_rate:
  assumes rate: "rate_ok g r a h1 (uint (BlockHeight ctx)) acc t" and h1: "h1 \<le> uint (BlockHeight ctx)"
    and free: "count_of q (GetLimitPerAddr t b) < TxLimit (boundary_of q g)"
  shows "rate_ok g r a h1 (uint (BlockHeight ctx)) (acc + (if q = r \<and> b = a then 1 else 0)) (increment q ctx b t)"
proof (cases "b = a")
  case False
  then show ?thesis
    using rate by (auto simp: rate_ok_def increment_eq SetLimitPerAddr_def GetLimitPerAddr_def Let_def)
next
  case True
  let ?l = "GetLimitPerAddr t a"
  have has: "kv_has (increment q ctx b t) a" "GetLimitPerAddr (increment q ctx b t) a = bumped q (started ctx (kv_has t a) ?l)"
    using True by (auto simp: increment_eq) (simp add: SetLimitPerAddr_def)
  have inc: "uint (count_of q ?l + 1) = uint (count_of q ?l) + 1"
    using word_less_inc [OF free] True by (metis of_nat_1 of_nat_add uint_nat)
  have zero: "count_of r ?l = 0 \<and> acc = 0" if "\<not> kv_has t a"
    using that rate by (simp add: rate_ok_def get_limit_absent count_of_def)
  show ?thesis
    using rate h1 inc zero has True
    by (cases "q = r"; cases "kv_has t a") (auto simp: rate_ok_def Let_def distrib_right)
qed

lemma valid_msg_rate:
  assumes ok: "txb_ok g s" and laws: "addr_laws L" and lim: "TxLimit (boundary_of r g) \<noteq> 0"
    and rate: "rate_ok g r a h1 h acc s" and h: "h \<le> uint (BlockHeight ctx)" "h1 \<le> uint (BlockHeight ctx)"
    and len: "length a \<noteq> 1" and run: "valid_msg q L ctx x s = (Ok (), s')"
  shows "rate_ok g r a h1 (uint (BlockHeight ctx)) (acc + (if q = r \<and> AccAddressFromBech32 L x = Ok a then 1 else 0)) s'"
proof -
  obtain b where b: "AccAddressFromBech32 L x = Ok b" "length b \<noteq> 1"
    using run laws txb_ok_boundaries [OF ok]
    by (cases "AccAddressFromBech32 L x")
      (auto simp: valid_msg_def validDelegateMsg_def validRedelegateMsg_def addr_laws_def split: if_splits)
  let ?l = "refreshed ctx (Xg_DelegateBoundary g) (GetLimitPerAddr s b)"
  obtain t where t: "txb_ok g t" "kv_has t = kv_has s"
    "\<forall>c. length c \<noteq> 1 \<longrightarrow> GetLimitPerAddr t c = (if c = b then ?l else GetLimitPerAddr s c)"
    "valid_msg q L ctx x s =
       (if TxLimit (boundary_of q g) = 0 then (Ok (), t)
        else if count_of q ?l < TxLimit (boundary_of q g) then (Ok (), increment q ctx b t)
        else (Err (ErrPlain ((if q then ''redelegate'' else ''delegate'') @ '' tx denied, excess tx limit'')), t))"
    using valid_msg_eq [OF ok b refl, of ctx q] by blast
  have rate_t: "rate_ok g r a h1 (uint (BlockHeight ctx)) acc t"
  proof (cases "a = b")
    case True
    have "uint (LatestUpdateBlock (GetLimitPerAddr s a)) \<le> uint (BlockHeight ctx)" if "kv_has s a"
      using rate h that by (auto simp: rate_ok_def Let_def)
    then show ?thesis
      using rate refreshed_rate [of "GetLimitPerAddr s a" ctx ?l "Xg_DelegateBoundary g" r] t(2,3) True b(2)
      by (auto simp: rate_ok_def Let_def)
  next
    case False
    then show ?thesis using rate_ok_mono [OF rate h(1)] t(2,3) len by (simp add: rate_ok_def)
  qed
  show ?thesis
  proof (cases "TxLimit (boundary_of q g) = 0")
    case True
    then show ?thesis using rate_t run t(4) lim by auto
  next
    case False
    then have free: "count_of q (GetLimitPerAddr t b) < TxLimit (boundary_of q g)" and s': "s' = increment q ctx b t"
      using run t(3,4) b(2) by (auto split: if_splits)
    show ?thesis using increment_rate [OF rate_t h(2) free] b(1) by (simp add: s')
  qed
qed

lemma validate_leaf_rate:
  assumes "txb_ok g s" "addr_laws L" "TxLimit (boundary_of r g) \<noteq> 0" "rate_ok g r a h1 h acc s"
    and "h \<le> uint (BlockHeight ctx)" "h1 \<le> uint (BlockHeight ctx)" "length a \<noteq> 1"
    and run: "validate_leaf L ctx m s = (Ok (), s')"
  shows "rate_ok g r a h1 (uint (BlockHeight ctx)) (acc + (if by_addr L r a m then 1 else 0)) s'"
proof -
  note step = valid_msg_rate [OF assms(1-7)]
  consider x where "m = Some (MsgDelegate x)" | x where "m = Some (MsgBeginRedelegate x)"
    | "s' = s" "\<not> by_addr L r a m"
    using run by (auto simp: validate_leaf_def by_addr_def split: option.splits sdk_msg.splits)
  then show ?thesis
  proof cases
    case 1
    with step [of False] run show ?thesis by (simp add: validate_leaf_def by_addr_def valid_msg_def)
  next
    case 2
    with step [of True] run show ?thesis by (simp add: validate_leaf_def by_addr_def valid_msg_def)
  next
    case 3
    with rate_ok_mono assms(4,5) show ?thesis by simp
  qed
qed

lemma leaves_rate:
  assumes "addr_laws L" "TxLimit (boundary_of r g) \<noteq> 0" "h1 \<le> uint (BlockHeight ctx)" "length a \<noteq> 1"
  shows "txb_ok g s \<Longrightarrow> rate_ok g r a h1 h acc s \<Longrightarrow> h \<le> uint (BlockHeight ctx) \<Longrightarrow>
    op_each (validate_leaf L ctx) ms s = (Ok (), s') \<Longrightarrow>
    rate_ok g r a h1 (uint (BlockHeight ctx)) (acc + length (filter (by_addr L r a) ms)) s'"
proof (induction ms arbitrary: s acc h)
  case Nil
  then show ?case using rate_ok_mono by simp
next
  case (Cons m ms)
  obtain u s1 where 1: "validate_leaf L ctx m s = (Ok u, s1)" "op_each (validate_leaf L ctx) ms s1 = (Ok (), s')"
    using Cons.prems(4) by (auto split: prod.splits res.splits)
  have "rate_ok g r a h1 (uint (BlockHeight ctx)) (acc + (if by_addr L r a m then 1 else 0)) s1"
    using validate_leaf_rate [OF Cons.prems(1) assms(1,2) Cons.prems(2,3) assms(3,4)] 1(1) by simp
  moreover have "txb_ok g s1" using validate_leaf_keeps [OF Cons.prems(1) assms(1), of ctx m] 1(1) by simp
  ultimately show ?case
    using Cons.IH [OF _ _ order_refl 1(2)] by (fastforce split: if_splits)
qed

definition heights :: "(ctx \<times> sdk_msg list) list \<Rightarrow> int list" where
  "heights txs = map (\<lambda>(ctx, _). uint (BlockHeight ctx)) txs"

lemma history_rate:
  assumes "addr_laws L" "TxLimit (boundary_of r g) \<noteq> 0" "length a \<noteq> 1"
  shows "txb_ok g s \<Longrightarrow> rate_ok g r a h1 h acc s \<Longrightarrow> h1 \<le> h \<Longrightarrow> sorted (h # heights txs) \<Longrightarrow>
    rate_ok g r a h1 (last (h # heights txs)) (acc + accepted L r a txs s) (txb_run L txs s) \<and>
    txb_ok g (txb_run L txs s)"
proof (induction txs arbitrary: s acc h)
  case (Cons tx txs)
  obtain ctx msgs where tx: "tx = (ctx, msgs)" by (cases tx)
  let ?H = "uint (BlockHeight ctx)"
  let ?ms = "concat (map flat msgs)"
  have le: "h \<le> ?H" "h1 \<le> ?H" "sorted (?H # heights txs)" and last: "last (h # heights (tx # txs)) = last (?H # heights txs)"
    using Cons.prems(3,4) by (simp_all add: tx heights_def)
  let ?s = "txb_deliver L ctx msgs s"
  let ?n = "case op_each (validate_leaf L ctx) ?ms s of (Ok _, s') \<Rightarrow> length (filter (by_addr L r a) ?ms) | _ \<Rightarrow> 0"
  have "rate_ok g r a h1 ?H (acc + ?n) ?s"
    using leaves_rate [OF assms(1,2) le(2) assms(3) Cons.prems(1,2) le(1), of ?ms] rate_ok_mono [OF Cons.prems(2) le(1)]
    by (auto simp: txb_deliver_eq split: prod.splits res.splits)
  from Cons.IH [OF txb_deliver_keeps [OF Cons.prems(1) assms(1)] this le(2,3)] show ?case
    by (simp add: tx last ante_eq add.assoc heights_def)
qed (simp add: heights_def)

text \<open>
  C11: Over any history of transactions from genesis, at heights that never decrease, the delegations of
  one address that were accepted are at most its limit plus one for every generation of blocks since
  the first height: \<open>n\<close> accepted messages satisfy \<open>n * B <= TxLimit * B + (last - first)\<close>. The same
  bound holds for redelegations with their own limit, and both with the blocks per generation \<open>B\<close> of
  the delegate boundary.
\<close>

theorem accepted_messages_bounded:
  assumes laws: "addr_laws L" and genesis: "txb_InitGenesis g kv_empty = (Ok (), s)"
    and lim: "TxLimit (boundary_of r g) \<noteq> 0" and len: "length a \<noteq> 1"
    and hs: "sorted (heights txs)" "txs \<noteq> []"
  shows "int (accepted L r a txs s) * uint (BlocksPerGeneration (Xg_DelegateBoundary g))
           \<le> uint (TxLimit (boundary_of r g)) * uint (BlocksPerGeneration (Xg_DelegateBoundary g))
             + (last (heights txs) - hd (heights txs))"
proof -
  let ?B = "uint (BlocksPerGeneration (Xg_DelegateBoundary g))"
  let ?t = "txb_run L txs s" and ?h1 = "hd (heights txs)"
  have ne: "heights txs \<noteq> []" using hs by (simp add: heights_def)
  have ok: "txb_ok g s" using txb_init [OF genesis] by (simp split: if_splits)
  have "\<not> kv_has s a"
    using genesis addr_not_key [OF len]
    by (auto simp: txb_InitGenesis_def SetDelegateBoundary_def SetRedelegateBoundary_def op_must_def op_bind_def split: if_splits)
  then have "rate_ok g r a ?h1 ?h1 0 s" by (simp add: rate_ok_def)
  moreover have "sorted (?h1 # heights txs)" using hs ne by (cases "heights txs") auto
  moreover have "last (?h1 # heights txs) = last (heights txs)" using ne by simp
  ultimately have rate: "rate_ok g r a ?h1 (last (heights txs)) (accepted L r a txs s) ?t" and okt: "txb_ok g ?t"
    using history_rate [OF laws lim len ok, of ?h1 ?h1 0 txs] by simp_all
  have le: "uint (count_of r (GetLimitPerAddr ?t a)) * ?B \<le> uint (TxLimit (boundary_of r g)) * ?B"
    using txb_ok_limit [OF okt len] by (intro mult_right_mono) (simp_all add: limit_ok_iff word_le_def)
  have "?h1 \<le> last (heights txs)" using hs(1) ne by (cases "heights txs") auto
  then show ?thesis
    using rate le by (cases "kv_has ?t a") (auto simp: rate_ok_def Let_def)
qed

definition ex_history :: "(ctx \<times> sdk_msg list) list" where
  "ex_history =
     [(ex_txb_ctx 10, [MsgDelegate ''alice'', MsgExec [Some (MsgDelegate ''alice'')]]),
      (ex_txb_ctx 30, [MsgDelegate ''alice''])]"

theorem accepted_messages_bounded_witness:
  "int (accepted txb_lib False ''alice'' ex_history ex_txb_state) * 5 \<le> 5 * 5 + (30 - 10)"
proof -
  have "txb_InitGenesis txb_DefaultGenesisState kv_empty = (Ok (), ex_txb_state)"
    by (simp add: ex_txb_state_def txb_InitGenesis_def SetDelegateBoundary_def SetRedelegateBoundary_def
        op_must_def op_bind_def txb_DefaultGenesisState_def DefaultDelegateBoundary_def DefaultRedelegateBoundary_def)
  from accepted_messages_bounded [OF addr_laws_ref this, of False "''alice''" ex_history] show ?thesis
    by (simp add: ex_history_def heights_def ex_txb_ctx_def boundary_of_def txb_DefaultGenesisState_def
        DefaultDelegateBoundary_def)
qed

section \<open>Going on after a generation\<close>

lemma refreshed_below:
  assumes "LatestUpdateBlock l \<noteq> 0" "limit_ok g l" "TxLimit (boundary_of r g) \<noteq> 0"
    and B: "BlocksPerGeneration d \<noteq> 0" "uint (LatestUpdateBlock l) + uint (BlocksPerGeneration d) \<le> uint (BlockHeight ctx)"
    and h: "uint (BlockHeight ctx) < 2 ^ 63"
  shows "count_of r (refreshed ctx d l) < TxLimit (boundary_of r g)"
proof -
  let ?u = "LatestUpdateBlock l" and ?b = "BlocksPerGeneration d" and ?h = "BlockHeight ctx"
  have sum: "uint (?u + ?b) = uint ?u + uint ?b"
    using B(2) h by (simp add: uint_word_ariths(1))
  have s: "sint w = uint w" if "uint w < 2 ^ 63" for w :: u64
    using sint_of_small [of "uint w"] that by simp
  have "?u + ?b \<le>s ?h"
    using B(2) h sum by (simp add: word_sle_eq s)
  then have e: "count_of r (refreshed ctx d l) = minus_generated (generated (?h - ?u) ?b) (count_of r l)"
    using assms(1) by (simp add: refreshed_def Let_def count_of_def)
  have d: "uint (?h - ?u) = uint ?h - uint ?u"
    by (rule uint_minus_simple_alt [THEN iffD1, unfolded word_le_def]) (use B(2) uint_ge_0 [of ?b] in linarith)
  have "1 \<le> uint (?h - ?u) div uint ?b"
    using B d by (simp add: pos_imp_zdiv_pos_iff word_neq_0_conv word_less_def int_one_le_iff_zero_less)
  then have "1 \<le> (?h - ?u) div ?b" by (simp add: word_le_def uint_div)
  then have n: "1 \<le> generated (?h - ?u) ?b" by (simp add: generated_def)
  have c: "count_of r l \<le> TxLimit (boundary_of r g)" using assms(2) by (simp add: limit_ok_iff)
  show ?thesis
  proof (cases "count_of r l < generated (?h - ?u) ?b")
    case True
    then show ?thesis using assms(3) e by (simp add: minus_generated_def word_neq_0_conv)
  next
    case False
    then have "count_of r l - generated (?h - ?u) ?b < count_of r l"
      using n by (simp add: word_less_def word_le_def not_less
        uint_minus_simple_alt [THEN iffD1, unfolded word_le_def])
    with False c e show ?thesis by (simp add: minus_generated_def)
  qed
qed

text \<open>
  C20: In every reachable state, an address that used up its limit can go on one generation after its last update: at a
  height at least \<open>BlocksPerGeneration\<close> of the delegate boundary later, the next delegation and the next
  redelegation are accepted, whatever the \<open>BlocksPerGeneration\<close> of the redelegate boundary is.
\<close>

theorem generation_unblocks:
  assumes "txb_reachable L g s" "addr_laws L" "AccAddressFromBech32 L x = Ok a"
    and "LatestUpdateBlock (GetLimitPerAddr s a) \<noteq> 0"
    and "uint (LatestUpdateBlock (GetLimitPerAddr s a)) + uint (BlocksPerGeneration (Xg_DelegateBoundary g))
           \<le> uint (BlockHeight ctx)"
    and "uint (BlockHeight ctx) < 2 ^ 63"
  shows "fst (validDelegateMsg L ctx x s) = Ok () \<and> fst (validRedelegateMsg L ctx x s) = Ok ()"
proof -
  have ok: "txb_ok g s" by (rule txb_reachable_ok [OF assms(1,2)])
  have a: "length a \<noteq> 1" using assms(2,3) by (auto simp: addr_laws_def)
  have "fst (valid_msg r L ctx x s) = Ok ()" for r
    using valid_msg_eq [OF ok assms(3) a refl, of ctx r]
      refreshed_below [OF assms(4) txb_ok_limit [OF ok a], of r "Xg_DelegateBoundary g" ctx]
      txb_ok_boundaries(3) [OF ok] assms(5,6)
    by (cases "TxLimit (boundary_of r g) = 0") auto
  from this [of False] this [of True] show ?thesis by (simp add: valid_msg_def)
qed

text \<open>One message per address, five blocks for a delegation and a hundred for a redelegation.\<close>

definition ex_tight :: txb_GenesisState where
  "ex_tight =
     \<lparr>Xg_DelegateBoundary = \<lparr>TxLimit = 1, BlocksPerGeneration = 5\<rparr>,
      Xg_RedelegateBoundary = \<lparr>TxLimit = 1, BlocksPerGeneration = 100\<rparr>\<rparr>"

definition ex_tight_state :: txb_state where
  "ex_tight_state = snd (txb_InitGenesis ex_tight kv_empty)"

lemmas ex_tight_eval =
  ex_tight_state_def txb_InitGenesis_def SetDelegateBoundary_def SetRedelegateBoundary_def op_must_def op_bind_def
  ex_tight_def

lemma ex_tight_entries:
  "kv_get ex_tight_state DelegateBoundaryKey = Some (V_Boundary \<lparr>TxLimit = 1, BlocksPerGeneration = 5\<rparr>)"
  "kv_get ex_tight_state RedelegateBoundaryKey = Some (V_Boundary \<lparr>TxLimit = 1, BlocksPerGeneration = 100\<rparr>)"
  "kv_get ex_tight_state ''alice'' = None"
  by (simp_all add: ex_tight_eval) (simp_all add: DelegateBoundaryKey_def RedelegateBoundaryKey_def)

definition ex_full_state :: txb_state where
  "ex_full_state = txb_deliver txb_lib (ex_txb_ctx 10) [MsgBeginRedelegate ''alice''] ex_tight_state"

lemma ex_full_reachable: "txb_reachable txb_lib ex_tight ex_full_state"
  unfolding ex_full_state_def
  by (rule txb_reachable.tx, rule txb_reachable.start) (simp add: ex_tight_eval)

lemma ex_full_limit:
  "GetLimitPerAddr ex_full_state ''alice'' = \<lparr>DelegateCount = 0, ReledegateCount = 1, LatestUpdateBlock = 10\<rparr>"
proof -
  have "GetLimitPerAddr ex_tight_state ''alice'' = \<lparr>DelegateCount = 0, ReledegateCount = 0, LatestUpdateBlock = 0\<rparr>"
    by (simp add: GetLimitPerAddr_def ex_tight_entries)
  then show ?thesis
    by (simp add: ex_full_state_def txb_deliver_eq validate_leaf_def validRedelegateMsg_def GetRedelegateBoundary_def
        ex_tight_entries as_boundary_def txb_lib_def op_bind_def op_lift_def UpdateLimitPerAddr_def
        IncrementRedelegateCount_def ex_txb_ctx_def)
qed

lemma generation_unblocks_witness:
  "fst (validDelegateMsg txb_lib (ex_txb_ctx 15) ''alice'' ex_full_state) = Ok () \<and>
   fst (validRedelegateMsg txb_lib (ex_txb_ctx 15) ''alice'' ex_full_state) = Ok ()"
  by (rule generation_unblocks [OF ex_full_reachable addr_laws_ref, where a = "''alice''"])
    (simp_all add: ex_full_limit txb_lib_def ex_txb_ctx_def ex_tight_def)

end
