(* ===== verification/Chain.thy ===== *)
theory Chain
  imports App_Services IBC_Props Tx_Boundary_Props
begin

text \<open>
  The chain as one state machine: blocks begin, the ante handler counts staking messages, messages reach their
  handlers, and packets arrive, are acknowledged, time out and are sent through the IBC stack, in any order. The
  invariants of the four modules hold together in every state that is reached from genesis.
\<close>

section \<open>State and steps\<close>

record 'b chain =
  ch_app :: "'b app_state"
  ch_txb :: txb_state

text \<open>What the IBC stack is put together from: the bank and the parts of ibc-go and of the forward middleware.\<close>

record 'b ibc_env =
  ib_bank :: "'b bank"
  ib_has_trace :: "'b \<Rightarrow> bytes \<Rightarrow> bool"
  ib_set_trace :: "DenomTrace \<Rightarrow> 'b \<Rightarrow> 'b"
  ib_transfer :: "MsgTransfer \<Rightarrow> ('b world, u64) op"
  ib_channel :: "'b world ICS4Wrapper"
  ib_forward :: "'b world IBCModule \<Rightarrow> 'b world IBCModule"
  ib_app :: "'b world IBCModule"
  ib_text :: ack_text

definition chain_deps :: "lib \<Rightarrow> 'b ibc_env \<Rightarrow> 'b world tfmw_deps" where
  "chain_deps L P = wired_deps L (ib_bank P) (ib_has_trace P) (ib_set_trace P) (ib_transfer P) (ib_channel P)"

definition chain_stack :: "lib \<Rightarrow> 'b ibc_env \<Rightarrow> 'b world IBCModule" where
  "chain_stack L P = wired_stack L (ib_text P) (chain_deps L P) (ib_forward P) (ib_app P)"

definition chain_ICS4 :: "lib \<Rightarrow> 'b ibc_env \<Rightarrow> 'b world ICS4Wrapper" where
  "chain_ICS4 L P = tfmw_ICS4 L (chain_deps L P)"

definition world_of :: "'b app_state \<Rightarrow> 'b world" where
  "world_of s = \<lparr>w_tfmw = as_tfmw s, w_rl = as_rl s, w_ext = as_ext s\<rparr>"

definition on_world :: "('b world, 'a) op \<Rightarrow> ('b app_state, 'a) op" where
  "on_world = op_on world_of (\<lambda>w s. s\<lparr>as_tfmw := w_tfmw w, as_rl := w_rl w, as_ext := w_ext w\<rparr>)"

definition after_packet :: "('b world, 'a) op \<Rightarrow> 'b chain \<Rightarrow> 'b chain" where
  "after_packet m c = c\<lparr>ch_app := snd (on_world m (ch_app c))\<rparr>"

text \<open>
  A packet step keeps what the callback wrote, also when the callback fails, and the messages of a transaction may
  run without its ante handler, as those of a proposal do: the steps are more than the chain takes. \<open>step_elsewhere\<close> is
  anything that happens in other modules.
\<close>

inductive chain_step :: "'b begin_env \<Rightarrow> 'b ibc_env \<Rightarrow> 'b chain \<Rightarrow> 'b chain \<Rightarrow> bool" for E P where
  step_block: "chain_step E P c (c\<lparr>ch_app := snd (app_BeginBlock E ctx (ch_app c))\<rparr>)"
| step_ante: "chain_step E P c (c\<lparr>ch_txb := txb_deliver (be_lib E) ctx msgs (ch_txb c)\<rparr>)"
| step_messages: "chain_step E P c (c\<lparr>ch_app := run_msgs E ctx ms (ch_app c)\<rparr>)"
| step_receive: "packet_ok (be_lib E) p \<Longrightarrow>
     chain_step E P c (after_packet (OnRecvPacket (chain_stack (be_lib E) P) p rel) c)"
| step_acknowledge: "packet_ok (be_lib E) p \<Longrightarrow>
     chain_step E P c (after_packet (OnAcknowledgementPacket (chain_stack (be_lib E) P) p ack rel) c)"
| step_timeout: "packet_ok (be_lib E) p \<Longrightarrow>
     chain_step E P c (after_packet (OnTimeoutPacket (chain_stack (be_lib E) P) p rel) c)"
| step_send: "\<forall>n. amount_ok (be_lib E) (sent_packet n port chan th tt data) PACKET_SEND \<Longrightarrow>
     chain_step E P c (after_packet (ics_SendPacket (chain_ICS4 (be_lib E) P) cap port chan th tt data) c)"
| step_elsewhere: "as_tfmw a = as_tfmw (ch_app c) \<Longrightarrow> as_rl a = as_rl (ch_app c) \<Longrightarrow>
     chain_step E P c (c\<lparr>ch_app := a\<rparr>)"

inductive_cases chain_stepE: "chain_step E P c d"

text \<open>Genesis, by the states the modules are initialised with.\<close>

record chain_genesis =
  cg_tfmw :: tfmw_GenesisState
  cg_rl :: rl_GenesisState
  cg_txb :: txb_GenesisState

definition chain_init :: "chain_genesis \<Rightarrow> ctx \<Rightarrow> 'b chain \<Rightarrow> bool" where
  "chain_init g ctx c \<longleftrightarrow>
     tfmw_InitGenesis (cg_tfmw g) tfmw_empty = (Ok (), as_tfmw (ch_app c)) \<and>
     rl_InitGenesis ctx (cg_rl g) rl_empty = (Ok (), as_rl (ch_app c)) \<and>
     txb_InitGenesis (cg_txb g) kv_empty = (Ok (), ch_txb c)"

inductive chain_reachable :: "'b begin_env \<Rightarrow> 'b ibc_env \<Rightarrow> chain_genesis \<Rightarrow> 'b chain \<Rightarrow> bool" for E P g where
  chain_genesis: "chain_init g ctx c \<Longrightarrow> chain_reachable E P g c"
| chain_next: "chain_reachable E P g c \<Longrightarrow> chain_step E P c d \<Longrightarrow> chain_reachable E P g d"

section \<open>Each step keeps the invariants\<close>

text \<open>
  The parts of the libraries keep the safety of the limits and do not write the registry; they may call the layers
  above them.
\<close>

definition ibc_keeps :: "lib \<Rightarrow> ('b world \<Rightarrow> bool) \<Rightarrow> 'b ibc_env \<Rightarrow> bool" where
  "ibc_keeps L I P \<longleftrightarrow>
     module_keeps L I (ib_app P) \<and> (\<forall>M. module_keeps L I M \<longrightarrow> module_keeps L I (ib_forward P M)) \<and>
     (\<forall>m. keeps I (ib_transfer P m)) \<and> ics_keeps L I (ib_channel P)"

definition ibc_laws :: "lib \<Rightarrow> 'b ibc_env \<Rightarrow> bool" where
  "ibc_laws L P \<longleftrightarrow> ibc_keeps L rl_safe P \<and> (\<forall>R. ibc_keeps L (\<lambda>w. w_tfmw w = R) P)"

definition world_safe :: "'b world \<Rightarrow> bool" where
  "world_safe w \<longleftrightarrow> registry_ok (w_tfmw w) \<and> rl_safe w"

lemma keeps_world_safe:
  assumes "keeps rl_safe m" "\<And>R. keeps (\<lambda>w. w_tfmw w = R) m"
  shows "keeps world_safe m"
  using assms by (simp add: keeps_def world_safe_def)

lemma stack_keeps_world_safe:
  assumes "ibc_laws L P"
  shows "module_keeps L world_safe (chain_stack L P)" and "ics_keeps L world_safe (chain_ICS4 L P)"
proof -
  have limits: "module_keeps L rl_safe (chain_stack L P)" "ics_keeps L rl_safe (chain_ICS4 L P)"
    using assms unfolding ibc_laws_def ibc_keeps_def chain_stack_def chain_ICS4_def chain_deps_def
      wired_stack_layers wired_send_layers
    by (blast intro: limits.receives limits.sends)+
  have registry: "module_keeps L (\<lambda>w. w_tfmw w = R) (chain_stack L P)" "ics_keeps L (\<lambda>w. w_tfmw w = R) (chain_ICS4 L P)"
    for R
    using assms unfolding ibc_laws_def ibc_keeps_def chain_stack_def chain_ICS4_def chain_deps_def
      wired_stack_layers wired_send_layers
    by (blast intro: registry.receives registry.sends)+
  show "module_keeps L world_safe (chain_stack L P)"
    using limits(1) registry(1) by (simp add: module_keeps_def keeps_world_safe)
  show "ics_keeps L world_safe (chain_ICS4 L P)"
    using limits(2) registry(2) by (simp add: ics_keeps_def keeps_world_safe)
qed

lemma app_inv_world: "app_inv s \<longleftrightarrow> world_safe (world_of s)"
  by (simp add: app_inv_def world_safe_def rl_safe_def world_of_def)

lemma world_of_put [simp]: "world_of (s\<lparr>as_tfmw := w_tfmw w, as_rl := w_rl w, as_ext := w_ext w\<rparr>) = w"
  by (cases w) (simp add: world_of_def)

lemma after_packet_inv: "keeps world_safe m \<Longrightarrow> app_inv (ch_app c) \<Longrightarrow> app_inv (ch_app (after_packet m c))"
  by (simp add: app_inv_world after_packet_def on_world_def op_on_def keeps_def split: prod.split) (metis snd_conv)

lemma app_inv_block: "others_keep_stores E \<Longrightarrow> app_inv s \<Longrightarrow> app_inv (snd (app_BeginBlock E ctx s))"
  using begin_block_keeps_invariants [of E s ctx] by (simp add: app_inv_def)

lemma app_inv_msg:
  assumes "app_inv s"
  shows "app_inv (snd (run_msg E ctx m s))"
proof -
  have registry: "app_inv (snd (on_as_tfmw n s))" if "\<And>r t. n (as_tfmw s) = (r, t) \<Longrightarrow> tfmw_step au (as_tfmw s) t"
    for n :: "(tfmw_state, unit) op" and au
    using that assms registry_ok_step [of au "as_tfmw s"]
    by (auto simp: on_as_tfmw_def op_on_def app_inv_def split: prod.split)
  have limits: "app_inv (snd (on_as_rl n s))" if "limits_safe (as_rl s) \<Longrightarrow> limits_safe (snd (n (as_rl s)))"
    for n :: "(rl_state, unit) op"
    using that assms by (auto simp: on_as_rl_def op_on_def app_inv_def split: prod.split)
  have mint: "app_inv (snd (on_as_mint n s))" for n :: "('a mint_world, unit) op"
    using assms by (auto simp: on_as_mint_def op_on_def app_inv_def split: prod.split)
  show ?thesis
  proof (cases m)
    case (Add_Parachain a)
    then show ?thesis by (simp only: run_msg_simps) (rule registry, rule step_add)
  next
    case (Remove_Parachain a)
    then show ?thesis by (simp only: run_msg_simps) (rule registry, rule step_remove)
  next
    case (Add_Relayer a)
    then show ?thesis by (simp only: run_msg_simps) (rule registry, rule step_rly)
  qed (simp_all add: run_msg_simps limits mint assms op_lift_def limits_safe_AddMsg limits_safe_UpdateMsg
      limits_safe_RemoveMsg limits_safe_ResetMsg)
qed

lemma app_inv_msgs:
  assumes "app_inv s"
  shows "app_inv (run_msgs E ctx ms s)"
proof -
  have "app_inv (snd (op_each (run_msg E ctx) ms s))"
    by (rule op_each_inv [where P = app_inv]) (simp_all add: assms app_inv_msg)
  then show ?thesis using assms by (auto simp: run_msgs_def split: prod.split res.split)
qed

section \<open>The chain\<close>

definition chain_inv :: "chain_genesis \<Rightarrow> 'b chain \<Rightarrow> bool" where
  "chain_inv g c \<longleftrightarrow> app_inv (ch_app c) \<and> txb_ok (cg_txb g) (ch_txb c)"

lemma chain_inv_init:
  assumes "chain_init g ctx c" "\<forall>r \<in> set (Rg_RateLimits (cg_rl g)). Ratelimit_Safety.limit_ok r"
  shows "chain_inv g c"
proof -
  have "limits_safe (snd (rl_InitGenesis ctx (cg_rl g) rl_empty))"
    using limits_safe_cong [OF rl_limits_InitGenesis] limits_safe_fold_set [OF limits_safe_empty assms(2)] by simp
  moreover have "registry_ok (as_tfmw (ch_app c))"
    using assms(1) registry_ok_genesis by (auto simp: chain_init_def)
  moreover have "txb_ok (cg_txb g) (ch_txb c)"
    using assms(1) txb_init [of "cg_txb g" "Ok ()" "ch_txb c"] by (simp add: chain_init_def split: if_splits)
  ultimately show ?thesis
    using assms(1) by (simp add: chain_init_def chain_inv_def app_inv_def)
qed

lemma chain_inv_packet: "keeps world_safe m \<Longrightarrow> chain_inv g c \<Longrightarrow> chain_inv g (after_packet m c)"
  using after_packet_inv [of m c] by (simp add: chain_inv_def) (simp add: after_packet_def)

lemma chain_inv_step:
  assumes "chain_step E P c d" "chain_inv g c"
    and "others_keep_stores E" "ibc_laws (be_lib E) P" "addr_laws (be_lib E)"
  shows "chain_inv g d"
proof -
  have packet: "chain_inv g (after_packet (OnRecvPacket (chain_stack (be_lib E) P) p rel) c)"
    "chain_inv g (after_packet (OnAcknowledgementPacket (chain_stack (be_lib E) P) p ack rel) c)"
    "chain_inv g (after_packet (OnTimeoutPacket (chain_stack (be_lib E) P) p rel) c)"
    if "packet_ok (be_lib E) p" for p ack rel
    using stack_keeps_world_safe(1) [OF assms(4), unfolded module_keeps_def, rule_format, OF that] assms(2)
    by (blast intro: chain_inv_packet)+
  show ?thesis
    using assms(1)
  proof (cases rule: chain_step.cases)
    case (step_ante ctx msgs)
    then show ?thesis using assms(2,5) by (simp add: chain_inv_def txb_deliver_keeps)
  next
    case (step_elsewhere a)
    then show ?thesis using assms(2) by (auto simp: chain_inv_def intro: app_inv_frame)
  next
    case (step_send port chan th tt data cap)
    then show ?thesis
      using stack_keeps_world_safe(2) [OF assms(4)] assms(2) by (auto simp: ics_keeps_def intro: chain_inv_packet)
  qed (use packet assms(2,3) in \<open>auto simp: chain_inv_def app_inv_block app_inv_msgs\<close>)
qed

lemma chain_inv_reachable:
  assumes "chain_reachable E P g c" "\<forall>r \<in> set (Rg_RateLimits (cg_rl g)). Ratelimit_Safety.limit_ok r"
    and "others_keep_stores E" "ibc_laws (be_lib E) P" "addr_laws (be_lib E)"
  shows "chain_inv g c"
  using assms(1)
proof induction
  case (chain_genesis ctx c)
  then show ?case using assms(2) by (rule chain_inv_init)
next
  case (chain_next c d)
  then show ?case using chain_inv_step assms(3-5) by blast
qed

text \<open>
  C1: The invariants of the modules hold together in every state the chain reaches from genesis, through any
  interleaving of blocks, transactions, packets received, acknowledged, timed out and sent, and of activity of other
  modules: the token registry is consistent, the net outflow of every rate limit is within its allowance, the two
  boundaries of \<open>x/tx-boundary\<close> are those of genesis, as no message that is routed can change them, and the counters
  of every address are within them.
\<close>

theorem chain_keeps_invariants:
  assumes "chain_reachable E P g c" "\<forall>r \<in> set (Rg_RateLimits (cg_rl g)). Ratelimit_Safety.limit_ok r"
    and "others_keep_stores E" "ibc_laws (be_lib E) P" "addr_laws (be_lib E)"
  shows "registry_ok (as_tfmw (ch_app c)) \<and> limits_safe (as_rl (ch_app c)) \<and>
         GetDelegateBoundary (ch_txb c) = Ok (Xg_DelegateBoundary (cg_txb g)) \<and>
         GetRedelegateBoundary (ch_txb c) = Ok (Xg_RedelegateBoundary (cg_txb g)) \<and>
         (\<forall>a. length a \<noteq> 1 \<longrightarrow>
            DelegateCount (GetLimitPerAddr (ch_txb c) a) \<le> TxLimit (Xg_DelegateBoundary (cg_txb g)) \<and>
            ReledegateCount (GetLimitPerAddr (ch_txb c) a) \<le> TxLimit (Xg_RedelegateBoundary (cg_txb g)))"
  using chain_inv_reachable [OF assms] txb_ok_boundaries txb_ok_limit
  by (auto simp: chain_inv_def app_inv_def Tx_Boundary_Props.limit_ok_def)

definition demo_parts :: "ledger ibc_env" where
  "demo_parts =
     \<lparr>ib_bank = ref_bank, ib_has_trace = (\<lambda>_ _. True), ib_set_trace = (\<lambda>_ b. b), ib_transfer = ref_transfer,
      ib_channel = ref_channel, ib_forward = (\<lambda>M. M), ib_app = ref_app, ib_text = (\<lambda>_. ''denied'')\<rparr>"

definition demo_env :: "ledger begin_env" where
  "demo_env = demo_begin\<lparr>be_lib := txb_lib\<rparr>"

definition demo_genesis :: chain_genesis where
  "demo_genesis =
     \<lparr>cg_tfmw = \<lparr>Tg_TokenInfos = [ex_token], Tg_Params = 5\<rparr>, cg_rl = Ratelimit_Props.ex_genesis,
      cg_txb = txb_DefaultGenesisState\<rparr>"

definition demo_init :: "ledger chain" where
  "demo_init = \<lparr>ch_app = demo_chain\<lparr>as_tfmw := ex_start, as_rl := ex_rl\<rparr>, ch_txb = ex_txb_state\<rparr>"

text \<open>A delegation is counted, a rate limit is removed by governance, a packet arrives, and a block begins.\<close>

definition demo_counted :: "ledger chain" where
  "demo_counted = demo_init\<lparr>ch_txb := txb_deliver txb_lib (ex_txb_ctx 7) [MsgDelegate ''alice''] (ch_txb demo_init)\<rparr>"

definition demo_received :: "ledger chain" where
  "demo_received = after_packet (OnRecvPacket (chain_stack txb_lib demo_parts) ex_in_packet ''rly'') demo_counted"

definition demo_later :: "ledger chain" where
  "demo_later =
     demo_received\<lparr>ch_app := snd (app_BeginBlock demo_env \<lparr>BlockTime = 20, BlockHeight = 7\<rparr> (ch_app demo_received))\<rparr>"

lemma demo_laws:
  "others_keep_stores demo_env" "ibc_laws (be_lib demo_env) demo_parts" "addr_laws (be_lib demo_env)"
proof -
  show "others_keep_stores demo_env" by (simp add: others_keep_stores_def demo_env_def demo_begin_def)
  show "addr_laws (be_lib demo_env)" by (simp add: demo_env_def addr_laws_ref)
  have "keeps I (ref_transfer m)" if "\<And>w b. I (w\<lparr>w_ext := b\<rparr>) = I w" for I m
    using that by (auto simp: keeps_def ref_transfer_def on_ext_def op_on_def split: prod.split)
  then show "ibc_laws (be_lib demo_env) demo_parts"
    by (simp add: ibc_laws_def ibc_keeps_def demo_parts_def ref_app_keeps ics_keeps_def ref_channel_def rl_safe_def)
qed

lemma demo_reachable: "chain_reachable demo_env demo_parts demo_genesis demo_later"
proof -
  have L: "be_lib demo_env = txb_lib" by (simp add: demo_env_def)
  have "chain_init demo_genesis \<lparr>BlockTime = 0, BlockHeight = 1\<rparr> demo_init"
    using ex_start_eq ex_rl_genesis ex_txb_reachable
    by (simp add: chain_init_def demo_genesis_def demo_init_def ex_txb_state_def txb_InitGenesis_def
        txb_DefaultGenesisState_def DefaultDelegateBoundary_def DefaultRedelegateBoundary_def SetDelegateBoundary_def
        SetRedelegateBoundary_def op_must_def op_bind_def)
  then have "chain_reachable demo_env demo_parts demo_genesis demo_init" by (rule chain_genesis)
  then have "chain_reachable demo_env demo_parts demo_genesis demo_counted"
    unfolding demo_counted_def L [symmetric] by (rule chain_next) (rule step_ante)
  moreover have "packet_ok txb_lib ex_in_packet"
    by (simp add: packet_ok_def amount_ok_def txb_lib_def ParsePacketInfo_def ParseDenomFromSendPacket_def
        ParseDenomFromRecvPacket_def ex_in_packet_def ref_packet_def ref_trace_def Let_def ref_int_def char_digit_def)
  ultimately have "chain_reachable demo_env demo_parts demo_genesis demo_received"
    unfolding demo_received_def L [symmetric] by (rule chain_next [OF _ step_receive])
  then show ?thesis
    unfolding demo_later_def by (rule chain_next) (rule step_block)
qed

lemma chain_keeps_invariants_witness:
  "registry_ok (as_tfmw (ch_app demo_later)) \<and> limits_safe (as_rl (ch_app demo_later)) \<and>
   DelegateCount (GetLimitPerAddr (ch_txb demo_later) ''alice'') \<le> 5"
proof -
  have "\<forall>r \<in> set (Rg_RateLimits (cg_rl demo_genesis)). Ratelimit_Safety.limit_ok r"
    by (simp add: demo_genesis_def Ratelimit_Props.ex_genesis_def ex_limit_def Ratelimit_Safety.limit_ok_def
        net_outflow_def send_allowance_nonneg)
  from chain_keeps_invariants [OF demo_reachable this demo_laws] show ?thesis
    by (simp add: demo_genesis_def txb_DefaultGenesisState_def DefaultDelegateBoundary_def)
qed

end
