(* ===== verification/Transfer_Loop.thy ===== *)
theory Transfer_Loop
  imports IBC_Layers Tfmw_Peg
begin

text \<open>
  The transfer application and the transfer middleware call each other: the application sends its packets through
  the middleware, and the middleware asks the application to send a voucher in place of a registered native token.
  The keepers are built with references to each other (\<open>app/keepers/keepers.go\<close>), so that sending a packet is a
  recursion. Here it is tied with fuel, and shown to end at its second round.
\<close>

section \<open>The mutual calls\<close>

text \<open>
  \<open>transfer W\<close> is the transfer application of ibc-go with \<open>W\<close> as the wrapper it sends through. \<open>send_path\<close> is the
  wrapper it is built with: after \<open>n\<close> rounds through the middleware stands \<open>base\<close>, whatever that does.
\<close>

type_synonym 'w transfer_app = "'w ICS4Wrapper \<Rightarrow> MsgTransfer \<Rightarrow> ('w, u64) op"

fun send_path :: "'w ICS4Wrapper \<Rightarrow> nat \<Rightarrow> lib \<Rightarrow> 'w tfmw_deps \<Rightarrow> 'w transfer_app \<Rightarrow> 'w ICS4Wrapper" where
  "send_path base 0 L D transfer = base"
| "send_path base (Suc n) L D transfer =
     tfmw_ICS4 L (D\<lparr>td_Transfer := transfer (send_path base n L D transfer)\<rparr>)"

text \<open>
  The documented behaviour of the transfer application: it sends on the channel of the message a packet whose
  denomination is the full path of the token, and it does not change the registry before.
\<close>

definition carries :: "lib \<Rightarrow> string \<Rightarrow> bytes \<Rightarrow> bool" where
  "carries L denom data \<longleftrightarrow>
     (\<exists>ftpd. UnmarshalJSON_packet L data = Ok ftpd \<and> IBCDenom L (ParseDenomTrace L (Ftd_Denom ftpd)) = denom)"

definition sends_token :: "lib \<Rightarrow> ('w \<Rightarrow> tfmw_state) \<Rightarrow> 'w transfer_app \<Rightarrow> bool" where
  "sends_token L reg transfer \<longleftrightarrow>
     (\<forall>W W' m s.
        (\<forall>cap port th tt data s'.
           reg s' = reg s \<longrightarrow> carries L (Coin_Denom (Mt_Token m)) data \<longrightarrow>
           ics_SendPacket W cap port (Mt_SourceChannel m) th tt data s' =
           ics_SendPacket W' cap port (Mt_SourceChannel m) th tt data s') \<longrightarrow>
        transfer W m s = transfer W' m s)"

text \<open>No registered native denomination is the path of a registered voucher.\<close>

definition natives_no_vouchers :: "lib \<Rightarrow> tfmw_state \<Rightarrow> bool" where
  "natives_no_vouchers L s \<longleftrightarrow>
     (\<forall>i \<in> registered s. \<forall>j \<in> registered s. IBCDenom L (ParseDenomTrace L (NativeDenom j)) \<noteq> IbcDenom i)"

section \<open>When the middleware steps in\<close>

lemma by_native_channel:
  assumes "registry_ok s" "ChannelID (GetParachainIBCTokenInfoByNativeDenom s d) = chan" "chan \<noteq> []"
  shows "GetParachainIBCTokenInfoByNativeDenom s d \<in> registered s"
    and "NativeDenom (GetParachainIBCTokenInfoByNativeDenom s d) = d"
proof -
  have "GetParachainIBCTokenInfoByNativeDenom s d \<noteq> no_info"
    using assms(2,3) by (auto simp: no_info_def)
  then have "HasParachainIBCTokenInfoByNativeDenom s d"
    using tfmw.by_native_out [OF assms(1), of d] tfmw.has_native_iff [OF assms(1), of d] by blast
  then show "GetParachainIBCTokenInfoByNativeDenom s d \<in> registered s"
    "NativeDenom (GetParachainIBCTokenInfoByNativeDenom s d) = d"
    using tfmw.by_native_has [OF assms(1)] by auto
qed

lemma voucher_passes:
  assumes "registry_ok (td_tfmw D s)" "natives_no_vouchers L (td_tfmw D s)" "i \<in> registered (td_tfmw D s)"
    and "chan \<noteq> []" "carries L (IbcDenom i) data"
  shows "tfmw_SendPacket L D cap port chan th tt data s = ics_SendPacket (td_ICS4Wrapper D) cap port chan th tt data s"
proof -
  obtain ftpd where ftpd: "UnmarshalJSON_packet L data = Ok ftpd"
    "IBCDenom L (ParseDenomTrace L (Ftd_Denom ftpd)) = IbcDenom i"
    using assms(5) by (auto simp: carries_def)
  have "ChannelID (GetParachainIBCTokenInfoByNativeDenom (td_tfmw D s) (Ftd_Denom ftpd)) \<noteq> chan"
  proof
    assume "ChannelID (GetParachainIBCTokenInfoByNativeDenom (td_tfmw D s) (Ftd_Denom ftpd)) = chan"
    from by_native_channel [OF assms(1) this assms(4)]
    obtain j where "j \<in> registered (td_tfmw D s)" "NativeDenom j = Ftd_Denom ftpd" by blast
    with assms(2,3) ftpd(2) show False unfolding natives_no_vouchers_def by metis
  qed
  then show ?thesis by (simp add: tfmw_SendPacket_def ftpd Let_def)
qed

lemma burn_keeps_registry:
  "keeps (\<lambda>w. w_tfmw w = R) (burn_and_release L (wired_deps L B ht st tr channel) e u n v)"
  by (rule keeps_burn_and_release) (simp add: wired_deps_def ext_bank_keeps)

text \<open>
  Two wrappers that treat vouchers alike make no difference to a send through the middleware: the one it hands to
  the application is only used for a voucher.
\<close>

lemma send_agrees:
  fixes D :: "'b world tfmw_deps"
  assumes D: "D = wired_deps L B ht st tr channel" and app: "sends_token L w_tfmw transfer"
    and laws: "coin_laws L" and reg: "registry_ok (w_tfmw s)" and chan: "chan \<noteq> []"
    and agree: "\<And>i cap port th tt data s'. i \<in> registered (w_tfmw s) \<Longrightarrow> w_tfmw s' = w_tfmw s \<Longrightarrow>
        carries L (IbcDenom i) data \<Longrightarrow>
        ics_SendPacket W cap port chan th tt data s' = ics_SendPacket W' cap port chan th tt data s'"
  shows "tfmw_SendPacket L (D\<lparr>td_Transfer := transfer W\<rparr>) cap port chan th tt data s =
         tfmw_SendPacket L (D\<lparr>td_Transfer := transfer W'\<rparr>) cap port chan th tt data s"
proof (cases "UnmarshalJSON_packet L data")
  case ftpd: (Ok ftpd)
  have reg_D: "td_tfmw D = w_tfmw" by (simp add: D wired_deps_def)
  define info where "info = GetParachainIBCTokenInfoByNativeDenom (w_tfmw s) (Ftd_Denom ftpd)"
  show ?thesis
  proof (cases "ChannelID info = chan \<and> NativeDenom info = Ftd_Denom ftpd")
    case True
    then have info: "info \<in> registered (w_tfmw s)" "ChannelID info = chan"
      using by_native_channel(1) [OF reg _ chan] by (auto simp: info_def)
    have exec: "executeTransferMsg L (D\<lparr>td_Transfer := transfer W\<rparr>) m s1 =
                executeTransferMsg L (D\<lparr>td_Transfer := transfer W'\<rparr>) m s1"
      if "Coin_Denom (Mt_Token m) = IbcDenom info" "Mt_SourceChannel m = chan" "w_tfmw s1 = w_tfmw s" for m s1
    proof -
      have "transfer W m s1 = transfer W' m s1"
        using app [unfolded sends_token_def, rule_format, of s1 m W W'] agree [OF info(1)] that by simp
      then show ?thesis by (simp add: executeTransferMsg_def split: res.split)
    qed
    have after: "w_tfmw s1 = w_tfmw s"
      if "burn_and_release L D e u n v s = (r, s1)" for e u n v r s1
      using burn_keeps_registry [of "w_tfmw s" L B ht st tr channel e u n v] that
      by (auto simp: keeps_def D)
    have burn: "burn_and_release L (D\<lparr>td_Transfer := f\<rparr>) e u n v = burn_and_release L D e u n v" for f e u n v
      by (simp add: burn_and_release_def)
    have "handleOverrideSendPacketTransferLogic L (D\<lparr>td_Transfer := transfer W\<rparr>) port chan th tt data s =
          handleOverrideSendPacketTransferLogic L (D\<lparr>td_Transfer := transfer W'\<rparr>) port chan th tt data s"
    proof (cases "\<exists>u a nc ic. AccAddressFromBech32 L (Ftd_Sender ftpd) = Ok u \<and>
        NewIntFromString L (Ftd_Amount ftpd) = Some a \<and> NewCoin L (Ftd_Denom ftpd) a = Ok nc \<and>
        NewCoin L (IbcDenom info) a = Ok ic")
      case True
      then obtain u a nc ic where v: "AccAddressFromBech32 L (Ftd_Sender ftpd) = Ok u"
        "NewIntFromString L (Ftd_Amount ftpd) = Some a" "NewCoin L (Ftd_Denom ftpd) a = Ok nc"
        "NewCoin L (IbcDenom info) a = Ok ic" by blast
      have "Coin_Denom ic = IbcDenom info" using coin_laws_NewCoin [OF laws v(4)] by simp
      then show ?thesis
        using exec after
        by (simp add: handleOverrideSendPacketTransferLogic_def ftpd v reg_D burn flip: info_def)
           (simp add: op_bind_def split: prod.split res.split)
    next
      case False
      then show ?thesis
        by (cases "AccAddressFromBech32 L (Ftd_Sender ftpd)"; cases "NewIntFromString L (Ftd_Amount ftpd)";
            cases "NewCoin L (Ftd_Denom ftpd) (the (NewIntFromString L (Ftd_Amount ftpd)))";
            cases "NewCoin L (IbcDenom info) (the (NewIntFromString L (Ftd_Amount ftpd)))")
           (auto simp: handleOverrideSendPacketTransferLogic_def ftpd reg_D Let_def simp flip: info_def)
    qed
    with True show ?thesis by (simp add: tfmw_SendPacket_def ftpd reg_D Let_def flip: info_def)
  qed (simp add: tfmw_SendPacket_def ftpd reg_D Let_def flip: info_def)
qed (simp_all add: tfmw_SendPacket_def)

section \<open>The loop ends\<close>

text \<open>
  C8: Sending a packet ends although the transfer application and the transfer middleware call each other: from the
  second round on, the result no longer depends on the number of rounds or on what stands after them, and it is that
  of a middleware whose transfer application sends straight through the rate limiter. So a swapped packet passes the
  middleware exactly once more, and its voucher is counted against the limits.
\<close>

theorem transfer_loop_returns:
  fixes s :: "'b world"
  assumes "coin_laws L" "sends_token L w_tfmw transfer"
    and "registry_ok (w_tfmw s)" "natives_no_vouchers L (w_tfmw s)" "chan \<noteq> []" "2 \<le> n"
  shows "ics_SendPacket (send_path base n L (wired_deps L B ht st tr channel) transfer) cap port chan th tt data s =
         ics_SendPacket (tfmw_ICS4 L (wired_deps L B ht st (transfer (rl_ICS4 L channel)) channel))
           cap port chan th tt data s"
proof -
  let ?D = "wired_deps L B ht st tr channel"
  obtain m where n: "n = Suc (Suc m)" using assms(6) by (metis Suc_le_D numeral_2_eq_2 Suc_le_mono)
  have D: "?D\<lparr>td_Transfer := f\<rparr> = wired_deps L B ht st f channel" for f by (simp add: wired_deps_def)
  have "tfmw_SendPacket L (?D\<lparr>td_Transfer := transfer (send_path base (Suc m) L ?D transfer)\<rparr>) cap port chan th tt data s =
        tfmw_SendPacket L (?D\<lparr>td_Transfer := transfer (rl_ICS4 L channel)\<rparr>) cap port chan th tt data s"
  proof (rule send_agrees [OF refl assms(2,1,3,5)])
    fix i cap port th tt data and s' :: "'b world"
    assume i: "i \<in> registered (w_tfmw s)" and s': "w_tfmw s' = w_tfmw s" and c: "carries L (IbcDenom i) data"
    show "ics_SendPacket (send_path base (Suc m) L ?D transfer) cap port chan th tt data s' =
          ics_SendPacket (rl_ICS4 L channel) cap port chan th tt data s'"
      using voucher_passes [of "?D\<lparr>td_Transfer := f\<rparr>" s' for f, OF _ _ _ assms(5) c] assms(3,4) i s'
      by (simp add: tfmw_ICS4_def wired_deps_def)
  qed
  then show ?thesis by (simp add: n tfmw_ICS4_def D)
qed

text \<open>A transfer application that burns the voucher and sends the packet for it, and a wrapper that never answers.\<close>

definition loop_app :: "ledger world transfer_app" where
  "loop_app W m =
     (if Coin_Denom (Mt_Token m) = ''ibc/transfer/channel-0/1''
      then op_bind (ref_transfer m) (\<lambda>_.
        ics_SendPacket W 0 ''transfer'' (Mt_SourceChannel m) (Mt_TimeoutHeight m) (Mt_TimeoutTimestamp m) ''voucher'')
      else op_lift (Err ErrInvalidCoin))"

definition stuck :: "'w ICS4Wrapper" where
  "stuck = ref_channel\<lparr>ics_SendPacket := (\<lambda>_ _ _ _ _ _ w. (Panic, w))\<rparr>"

lemma loop_app_sends: "sends_token ref_lib w_tfmw loop_app"
proof -
  have "carries ref_lib ''ibc/transfer/channel-0/1'' ''voucher''"
    by (simp add: carries_def ref_packet_def)
  moreover have "w_tfmw t = w_tfmw w" if "ref_transfer m w = (r, t)" for m w r t
    using that by (auto simp: ref_transfer_def on_ext_def op_on_def split: prod.splits)
  ultimately show ?thesis
    by (auto simp: sends_token_def loop_app_def op_bind_def split: prod.split res.split)
qed

lemma ex_natives_no_vouchers: "natives_no_vouchers ref_lib ex_peg_tfmw"
  by (simp add: natives_no_vouchers_def ex_peg_registry ex_peg_token_def ref_trace_def ref_ibc_denom_def)

lemma transfer_loop_returns_witness:
  "ics_SendPacket (send_path stuck 2 ref_lib (wired_deps ref_lib ref_bank (\<lambda>_ _. True) (\<lambda>_ b. b) ref_transfer ref_channel)
     loop_app) 0 ''transfer'' ''channel-0'' \<lparr>RevisionNumber = 0, RevisionHeight = 0\<rparr> 9 ''pica'' ex_world =
   ics_SendPacket (tfmw_ICS4 ref_lib (wired_deps ref_lib ref_bank (\<lambda>_ _. True) (\<lambda>_ b. b)
     (loop_app (rl_ICS4 ref_lib ref_channel)) ref_channel)) 0 ''transfer'' ''channel-0''
     \<lparr>RevisionNumber = 0, RevisionHeight = 0\<rparr> 9 ''pica'' ex_world"
proof -
  have "w_tfmw ex_world = ex_peg_tfmw" by (simp add: ex_world_def)
  then show ?thesis
    using transfer_loop_returns [OF ref_laws(1) loop_app_sends, of ex_world "''channel-0''" 2]
      ex_peg_registry(1) ex_natives_no_vouchers by simp
qed

end
