(* ===== verification/Bridge.thy ===== *)
theory Bridge
  imports Transfer_Loop
begin

text \<open>
  The contract of the token bridge over whole histories. Abstractly, a bridge keeps for every token how many vouchers
  are locked and how many native tokens are minted, and moves both together. The transfer middleware refines it: every
  packet it accepts, for whatever token, is one move of the abstract bridge.
\<close>

section \<open>The abstract bridge\<close>






section \<open>The middleware as a bridge\<close>








section \<open>What one call does, for any token\<close>











text \<open>
  Why the escrow accounts are left out as users: a packet addressed to the escrow account itself locks nothing that
  was not there before, but mints, so the native supply grows beyond the locked vouchers.
\<close>

lemma receive_to_escrow_unbacked:
  assumes "swap_in B escrow escrow ibc native a s t" "ibc \<noteq> native"
  shows "peg B escrow ibc native t = peg B escrow ibc native s - a"
  using assms by (simp add: swap_in_def peg_def)

section \<open>Whole histories\<close>







end
