(* ===== verification/Ratelimit_Epoch_Props.thy ===== *)
theory Ratelimit_Epoch_Props
  imports Ratelimit_Admin_Props
begin

text \<open>
  Properties of the epochs of \<open>x/ratelimit\<close> and of what their end does to the rate limits, and the
  genesis round trip.
\<close>

section \<open>Epochs stay on schedule\<close>

definition epochs_ok :: "rl_state \<Rightarrow> bool" where
  "epochs_ok s \<longleftrightarrow> (\<forall>k e. kv_get (rl_epochs s) k = Some e \<longrightarrow> Identifier e = k \<and> epoch_ok e)"

lemma rl_epochs_frames [simp]:
  "rl_epochs (SetRateLimit r s) = rl_epochs s"
  "rl_epochs (emit_rl e s) = rl_epochs s"
  "rl_epochs (SetPendingSendPacket c n s) = rl_epochs s"
  "rl_epochs (RemovePendingSendPacket c n s) = rl_epochs s"
  "rl_epochs (RemoveAllChannelPendingSendPackets c s) = rl_epochs s"
  "rl_epochs (SetWhitelistedAddressPair w s) = rl_epochs s"
  by (simp_all add: SetRateLimit_def emit_rl_def SetPendingSendPacket_def RemovePendingSendPacket_def
      RemoveAllChannelPendingSendPackets_def SetWhitelistedAddressPair_def)

lemma rl_epochs_ops [simp]:
  "rl_epochs (snd (UndoSendPacket fits c n d a s)) = rl_epochs s"
  "rl_epochs (snd (CheckRateLimitAndUpdateFlow fits dir i s)) = rl_epochs s"
  "rl_epochs (snd (AddRateLimit env m s)) = rl_epochs s"
  "rl_epochs (snd (UpdateRateLimit env m s)) = rl_epochs s"
  "rl_epochs (snd (RemoveRateLimit env d c s)) = rl_epochs s"
  "rl_epochs (snd (ResetRateLimit env d c s)) = rl_epochs s"
  by (auto simp: UndoSendPacket_def CheckRateLimit_cases AddRateLimit_def UpdateRateLimit_def RemoveRateLimit_def
      ResetRateLimit_def Let_def split: option.splits res.splits)

lemma rl_epochs_handlers [simp]:
  "rl_epochs (snd (SendRateLimitedPacket L p s)) = rl_epochs s"
  "rl_epochs (snd (ReceiveRateLimitedPacket L p s)) = rl_epochs s"
  "rl_epochs (snd (TimeoutRateLimitedPacket L p s)) = rl_epochs s"
  "rl_epochs (snd (AcknowledgeRateLimitedPacket L p ack s)) = rl_epochs s"
proof -
  show "rl_epochs (snd (SendRateLimitedPacket L p s)) = rl_epochs s"
    by (cases "ParsePacketInfo L p PACKET_SEND")
       (auto simp: SendRateLimitedPacket_def op_bind_def op_lift_def CheckRateLimit_cases
        split: option.splits res.splits)
  show "rl_epochs (snd (ReceiveRateLimitedPacket L p s)) = rl_epochs s"
    by (cases "ParsePacketInfo L p PACKET_RECV")
       (auto simp: ReceiveRateLimitedPacket_def op_bind_def op_lift_def CheckRateLimit_cases
        split: option.splits res.splits)
  show "rl_epochs (snd (TimeoutRateLimitedPacket L p s)) = rl_epochs s"
    by (cases "ParsePacketInfo L p PACKET_SEND") (simp_all add: TimeoutRateLimitedPacket_def)
  show "rl_epochs (snd (AcknowledgeRateLimitedPacket L p ack s)) = rl_epochs s"
    by (cases "ParsePacketInfo L p PACKET_SEND")
       (auto simp: AcknowledgeRateLimitedPacket_def split: res.splits AckResponse.splits)
qed

lemma rl_epochs_lift:
  "(\<And>a. rl_epochs (snd (f a s)) = rl_epochs s) \<Longrightarrow> rl_epochs (snd (op_bind (op_lift r) f s)) = rl_epochs s"
  by (cases r) simp_all

lemma rl_epochs_messages [simp]:
  "rl_epochs (snd (AddTransferRateLimit L env au m s)) = rl_epochs s"
  "rl_epochs (snd (UpdateTransferRateLimit L env au m s)) = rl_epochs s"
  "rl_epochs (snd (RemoveTransferRateLimit env au pm s)) = rl_epochs s"
  "rl_epochs (snd (ResetTransferRateLimit env au pm s)) = rl_epochs s"
  unfolding AddTransferRateLimit_def UpdateTransferRateLimit_def RemoveTransferRateLimit_def
    ResetTransferRateLimit_def
  by (rule rl_epochs_lift, (rule rl_epochs_lift)?, simp)+

lemma rl_epochs_reset_due [simp]: "rl_epochs (snd (reset_due env h r s)) = rl_epochs s"
  using rl_epochs_ops(6) [of env "Path_Denom (Rl_Path r)" "Path_ChannelID (Rl_Path r)" s]
  by (auto simp: reset_due_def simp del: rl_epochs_ops split: prod.splits res.splits)

lemma rl_epochs_AfterEpochEnd [simp]: "rl_epochs (snd (AfterEpochEnd env e s)) = rl_epochs s"
proof -
  have "rl_epochs (snd (op_each (reset_due env h) rs s)) = rl_epochs s" for h rs
    by (rule op_each_inv [where P = "\<lambda>t. rl_epochs t = rl_epochs s"]) simp_all
  then show ?thesis by (simp add: AfterEpochEnd_def Let_def)
qed

text \<open>What a begin block makes of an epoch whose turn it is.\<close>

definition next_epoch :: "ctx \<Rightarrow> EpochInfo \<Rightarrow> EpochInfo" where
  "next_epoch ctx e =
     (if EpochCountingStarted e
      then e\<lparr>CurrentEpochStartHeight := BlockHeight ctx, CurrentEpoch := CurrentEpoch e + 1,
             CurrentEpochStartTime := CurrentEpochStartTime e + Duration e\<rparr>
      else e\<lparr>CurrentEpochStartHeight := BlockHeight ctx, EpochCountingStarted := True, CurrentEpoch := 1,
             CurrentEpochStartTime := StartTime e\<rparr>)"

lemma next_epoch_ok: "epoch_ok e \<Longrightarrow> epoch_ok (next_epoch ctx e)"
proof (cases "EpochCountingStarted e")
  case True
  assume "epoch_ok e"
  with True obtain k where "CurrentEpoch e = word_of_nat (k + 1)"
    "CurrentEpochStartTime e = StartTime e + int k * Duration e" by (auto simp: epoch_ok_def)
  with True have "CurrentEpoch (next_epoch ctx e) = word_of_nat (Suc k + 1)"
    "CurrentEpochStartTime (next_epoch ctx e) = StartTime (next_epoch ctx e) + int (Suc k) * Duration (next_epoch ctx e)"
    by (simp_all add: next_epoch_def algebra_simps)
  then show ?thesis unfolding epoch_ok_def by blast
next
  case False
  then have "CurrentEpoch (next_epoch ctx e) = word_of_nat (0 + 1)"
    "CurrentEpochStartTime (next_epoch ctx e) = StartTime (next_epoch ctx e) + int 0 * Duration (next_epoch ctx e)"
    by (simp_all add: next_epoch_def)
  then show ?thesis unfolding epoch_ok_def by blast
qed

lemma epoch_callback_epochs:
  "rl_epochs (snd (epoch_callback env ctx e s)) = rl_epochs s \<or>
   rl_epochs (snd (epoch_callback env ctx e s)) = kv_set (Identifier e) (next_epoch ctx e) (rl_epochs s)"
proof -
  obtain r t where a: "AfterEpochEnd env (e\<lparr>CurrentEpochStartHeight := BlockHeight ctx\<rparr>) s = (r, t)" by force
  with rl_epochs_AfterEpochEnd [of env "e\<lparr>CurrentEpochStartHeight := BlockHeight ctx\<rparr>" s]
  have t: "rl_epochs t = rl_epochs s" by simp
  with a show ?thesis
    by (cases r) (auto simp: epoch_callback_def Let_def op_bind_def op_lift_def setEpochInfo_def next_epoch_def)
qed

lemma epochs_ok_callback:
  "epochs_ok s \<Longrightarrow> epoch_ok e \<Longrightarrow> epochs_ok (snd (epoch_callback env ctx e s))"
  using epoch_callback_epochs [of env ctx e s] next_epoch_ok [of e ctx]
  by (auto simp: epochs_ok_def next_epoch_def split: if_splits)

lemma epochs_of_mem: "e \<in> set (epochs_of s) \<longleftrightarrow> (\<exists>k. kv_get (rl_epochs s) k = Some e)"
  by (auto simp: epochs_of_def image_iff Bex_def kv_entries_iff)

lemma epochs_ok_BeginBlocker:
  assumes "epochs_ok s"
  shows "epochs_ok (snd (rl_BeginBlocker env ctx s))"
  unfolding rl_BeginBlocker_def IterateEpochInfo_def
proof (rule op_iterate_inv)
  fix x t
  assume "x \<in> set (enumerate 0 (epochs_of s))" "epochs_ok t"
  moreover obtain i e where x: "x = (i, e)" by force
  ultimately have "e \<in> set (map snd (enumerate 0 (epochs_of s)))"
    by (metis image_eqI list.set_map snd_conv)
  then have "e \<in> set (epochs_of s)" by (simp only: map_snd_enumerate)
  then have "epoch_ok e" using assms by (auto simp: epochs_of_mem epochs_ok_def)
  with \<open>epochs_ok t\<close>
  show "epochs_ok (snd ((case x of (i, epoch) \<Rightarrow> epoch_callback env ctx epoch) t))"
    by (simp add: x epochs_ok_callback)
qed (rule assms)

lemma epochs_ok_step: "rl_step L au s t \<Longrightarrow> epochs_ok s \<Longrightarrow> epochs_ok t"
proof (induction rule: rl_step.induct)
  case (rl_begin s env ctx)
  then show ?case by (rule epochs_ok_BeginBlocker)
qed (simp_all add: epochs_ok_def)

lemma epochs_ok_setEpochInfo: "epochs_ok s \<Longrightarrow> epoch_ok e \<Longrightarrow> epochs_ok (setEpochInfo e s)"
  by (simp add: epochs_ok_def setEpochInfo_def)

lemma epochs_ok_AddEpochInfo:
  assumes "epochs_ok s" "genesis_epoch_ok e"
  shows "epochs_ok (snd (op_must (AddEpochInfo ctx e) s))"
proof -
  let ?e = "(if StartTime e = zero_time then e\<lparr>StartTime := BlockTime ctx\<rparr> else e)\<lparr>CurrentEpochStartHeight := BlockHeight ctx\<rparr>"
  have "epoch_ok ?e" using assms(2) by (auto simp: genesis_epoch_ok_def epoch_ok_def)
  with assms(1) have "epochs_ok (setEpochInfo ?e s)" by (rule epochs_ok_setEpochInfo)
  with assms(1) show ?thesis
    by (cases "EpochInfo_Validate e") (simp_all add: op_must_def AddEpochInfo_def Let_def)
qed

lemma rl_epochs_genesis_folds [simp]:
  "rl_epochs (fold SetRateLimit rs s) = rl_epochs s"
  "rl_epochs (fold SetWhitelistedAddressPair ws s) = rl_epochs s"
  "rl_epochs (snd (op_each init_pending ps s)) = rl_epochs s"
proof -
  show "rl_epochs (fold SetRateLimit rs s) = rl_epochs s" by (induction rs arbitrary: s) simp_all
  show "rl_epochs (fold SetWhitelistedAddressPair ws s) = rl_epochs s" by (induction ws arbitrary: s) simp_all
  show "rl_epochs (snd (op_each init_pending ps s)) = rl_epochs s"
    by (rule op_each_inv [where P = "\<lambda>t. rl_epochs t = rl_epochs s"])
       (auto simp: init_pending_def split: list.splits option.splits)
qed

lemma epochs_ok_genesis:
  assumes "\<forall>e \<in> set (Rg_Epochs g). genesis_epoch_ok e" "rl_InitGenesis ctx g rl_empty = (Ok (), s)"
  shows "epochs_ok s"
proof -
  let ?s = "fold SetWhitelistedAddressPair (Rg_WhitelistedAddressPairs g) (fold SetRateLimit (Rg_RateLimits g) rl_empty)"
  obtain r u where u: "op_each init_pending (Rg_PendingSendPacketSequenceNumbers g) ?s = (r, u)" by force
  then have "rl_epochs u = rl_epochs rl_empty" by (metis rl_epochs_genesis_folds snd_conv)
  then have "epochs_ok u" by (simp add: epochs_ok_def rl_empty_def)
  have "epochs_ok (snd (op_each (\<lambda>epoch. op_must (AddEpochInfo ctx epoch)) (Rg_Epochs g) u))"
  proof (rule op_each_inv)
    show "epochs_ok (snd (op_must (AddEpochInfo ctx e) t))" if "e \<in> set (Rg_Epochs g)" "epochs_ok t" for e t
      using epochs_ok_AddEpochInfo [OF that(2)] assms(1) that(1) by blast
  qed fact
  with assms(2) u show ?thesis
    by (cases r) (simp_all add: rl_InitGenesis_def op_bind_def Let_def)
qed

lemma reachable_epochs_ok: "rl_reachable L au s \<Longrightarrow> epochs_ok s"
  by (induction rule: rl_reachable.induct) (blast intro: epochs_ok_genesis epochs_ok_step)+

section \<open>The end of an epoch\<close>

definition limit_key :: "RateLimit \<Rightarrow> bytes" where
  "limit_key r = GetRateLimitItemKey (Path_Denom (Rl_Path r)) (Path_ChannelID (Rl_Path r))"

text \<open>What the end of epoch \<open>h\<close> does to a rate limit.\<close>

definition reset_if_due :: "rl_env \<Rightarrow> u64 \<Rightarrow> RateLimit \<Rightarrow> RateLimit" where
  "reset_if_due env h r =
     (if h mod DurationHours (Rl_Quota r) = 0
      then r\<lparr>Rl_Flow := NewFlow (env_supply env (Path_Denom (Rl_Path r)))\<rparr> else r)"

definition plain_limit :: "rl_env \<Rightarrow> RateLimit \<Rightarrow> bool" where
  "plain_limit env r \<longleftrightarrow> DurationHours (Rl_Quota r) \<noteq> 0 \<and>
     resolve_denom env (Path_Denom (Rl_Path r)) (Path_ChannelID (Rl_Path r)) = Path_Denom (Rl_Path r)"

lemma reset_due_step:
  assumes "plain_limit env r" "kv_get (rl_limits s) (limit_key r) = Some r"
  shows "\<exists>t. reset_due env h r s = (Ok (), t) \<and>
     (\<forall>k. kv_get (rl_limits t) k = (if k = limit_key r then Some (reset_if_due env h r) else kv_get (rl_limits s) k))"
proof (cases "h mod DurationHours (Rl_Quota r) = 0")
  case True
  let ?r = "r\<lparr>Rl_Flow := NewFlow (env_supply env (Path_Denom (Rl_Path r)))\<rparr>"
  have "reset_due env h r s =
      (Ok (), RemoveAllChannelPendingSendPackets (Path_ChannelID (Rl_Path r)) (SetRateLimit ?r s))"
    using assms True
    by (simp add: reset_due_def plain_limit_def ResetRateLimit_def Let_def GetRateLimit_def limit_key_def
        NewFlow_def GetChannelValue_def)
  then show ?thesis
    using True by (simp add: SetRateLimit_def reset_if_due_def limit_key_def)
next
  case False
  with assms have "reset_due env h r s = (Ok (), s)" by (simp add: reset_due_def plain_limit_def)
  with assms(2) False show ?thesis by (simp add: reset_if_due_def)
qed

lemma reset_loop:
  assumes "distinct (map limit_key rs)" "\<forall>r \<in> set rs. plain_limit env r"
    and "\<forall>r \<in> set rs. kv_get (rl_limits s) (limit_key r) = Some r"
  shows "\<exists>t. op_each (reset_due env h) rs s = (Ok (), t) \<and>
     (\<forall>k. kv_get (rl_limits t) k =
        (if k \<in> limit_key ` set rs then map_option (reset_if_due env h) (kv_get (rl_limits s) k)
         else kv_get (rl_limits s) k))"
  using assms
proof (induction rs arbitrary: s)
  case (Cons r rs)
  obtain t where t: "reset_due env h r s = (Ok (), t)"
    "\<And>k. kv_get (rl_limits t) k = (if k = limit_key r then Some (reset_if_due env h r) else kv_get (rl_limits s) k)"
    using reset_due_step [of env r s h] Cons.prems(2,3) by auto
  have d: "distinct (map limit_key rs)" "\<forall>q \<in> set rs. plain_limit env q"
    using Cons.prems(1,2) by simp_all
  have fresh: "limit_key r \<notin> limit_key ` set rs" using Cons.prems(1) by simp
  have g: "\<forall>q \<in> set rs. kv_get (rl_limits t) (limit_key q) = Some q"
  proof
    fix q
    assume "q \<in> set rs"
    with fresh Cons.prems(3) show "kv_get (rl_limits t) (limit_key q) = Some q"
      by (metis image_eqI list.set_intros(2) t(2))
  qed
  from Cons.IH [OF d g] obtain u where u: "op_each (reset_due env h) rs t = (Ok (), u)"
    "\<And>k. kv_get (rl_limits u) k =
        (if k \<in> limit_key ` set rs then map_option (reset_if_due env h) (kv_get (rl_limits t) k)
         else kv_get (rl_limits t) k)"
    by blast
  have "op_each (reset_due env h) (r # rs) s = (Ok (), u)" by (simp add: t(1) u(1))
  moreover have "kv_get (rl_limits u) k =
        (if k \<in> limit_key ` set (r # rs) then map_option (reset_if_due env h) (kv_get (rl_limits s) k)
         else kv_get (rl_limits s) k)" for k
  proof (cases "k = limit_key r")
    case True
    with fresh Cons.prems(3) show ?thesis by (simp add: u(2) t(2))
  next
    case False
    then show ?thesis by (simp add: u(2) t(2))
  qed
  ultimately show ?case by blast
qed simp

lemma limits_list:
  assumes "limits_ok s"
  shows "distinct (map limit_key (GetAllRateLimits s))"
    and "r \<in> set (GetAllRateLimits s) \<longleftrightarrow> kv_get (rl_limits s) (limit_key r) = Some r"
    and "k \<in> limit_key ` set (GetAllRateLimits s) \<longleftrightarrow> kv_has (rl_limits s) k"
proof -
  have e: "fst e = limit_key (snd e) \<and> kv_get (rl_limits s) (fst e) = Some (snd e)"
    if "e \<in> set (kv_entries (rl_limits s))" for e
    using that assms by (simp add: kv_entries_mem limits_ok_def limit_key_def)
  have m: "map limit_key (GetAllRateLimits s) = map fst (kv_entries (rl_limits s))"
    using e by (simp add: GetAllRateLimits_def)
  with kv_entries_distinct show "distinct (map limit_key (GetAllRateLimits s))" by metis
  show "r \<in> set (GetAllRateLimits s) \<longleftrightarrow> kv_get (rl_limits s) (limit_key r) = Some r"
  proof
    assume "kv_get (rl_limits s) (limit_key r) = Some r"
    then have "(limit_key r, r) \<in> set (kv_entries (rl_limits s))" by (simp add: kv_entries_iff)
    then show "r \<in> set (GetAllRateLimits s)" by (force simp: GetAllRateLimits_def)
  qed (use e in \<open>auto simp: GetAllRateLimits_def\<close>)
  show "k \<in> limit_key ` set (GetAllRateLimits s) \<longleftrightarrow> kv_has (rl_limits s) k"
    using m kv_entries_keys [of k "rl_limits s"] by (metis list.set_map)
qed

section \<open>Genesis\<close>

text \<open>A store whose keys are those the code writes, for channels the pending key and the text form can carry.\<close>

definition exportable :: "rl_state \<Rightarrow> bool" where
  "exportable s \<longleftrightarrow> limits_ok s \<and>
     (\<forall>k w. kv_get (rl_whitelist s) k = Some w \<longrightarrow> k = GetAddressWhitelistKey (Wap_Sender w) (Wap_Receiver w)) \<and>
     (\<forall>k. kv_has (rl_pending s) k \<longrightarrow>
        (\<exists>c n. k = GetPendingSendPacketKey c n \<and> pending_channel c \<and> CHR ''/'' \<notin> set c))"

definition whitelist_key :: "WhitelistedAddressPair \<Rightarrow> bytes" where
  "whitelist_key w = GetAddressWhitelistKey (Wap_Sender w) (Wap_Receiver w)"

lemma fold_set_limits:
  "rl_limits (fold SetRateLimit rs s) = kv_set_all (map (\<lambda>r. (limit_key r, r)) rs) (rl_limits s)"
  by (induction rs arbitrary: s) (simp_all add: SetRateLimit_def limit_key_def)

lemma fold_set_whitelist:
  "rl_whitelist (fold SetWhitelistedAddressPair ws s) = kv_set_all (map (\<lambda>w. (whitelist_key w, w)) ws) (rl_whitelist s)"
  by (induction ws arbitrary: s) (simp_all add: SetWhitelistedAddressPair_def whitelist_key_def)

lemma export_import_kv:
  assumes "\<And>k v. kv_get st k = Some v \<Longrightarrow> k = f v"
  shows "kv_set_all (map (\<lambda>v. (f v, v)) (map snd (kv_entries st))) kv_empty = st"
proof -
  have "map (\<lambda>v. (f v, v)) (map snd (kv_entries st)) = kv_entries st"
    using assms by (auto simp: kv_entries_mem intro!: map_idI prod_eqI)
  then show ?thesis by (simp add: kv_set_all_entries)
qed

lemma init_pending_export:
  assumes "k = GetPendingSendPacketKey c n" "pending_channel c" "CHR ''/'' \<notin> set c"
  shows "init_pending (TrimRight_NUL (take PendingSendPacketChannelLength k) @ ''/'' @
           show_nat (unat (Uint64_BE (drop PendingSendPacketChannelLength k)))) s =
         (Ok (), s\<lparr>rl_pending := kv_set k () (rl_pending s)\<rparr>)"
proof -
  have "CHR ''/'' \<notin> set (show_nat (unat n))"
    using show_nat_digits [of "CHR ''/''" "unat n"] by (auto simp: char_digit_def)
  then have "strings_Split CHR ''/'' (c @ CHR ''/'' # show_nat (unat n)) = [c, show_nat (unat n)]"
    by (rule strings_Split_two [OF assms(3)])
  then show ?thesis
    using assms(1) pending_key_parts [OF assms(2), of n]
    by (simp add: init_pending_def ParseUint_show_nat SetPendingSendPacket_def)
qed

lemma init_pending_all:
  assumes "\<forall>e \<in> set es. \<exists>c n. fst e = GetPendingSendPacketKey c n \<and> pending_channel c \<and> CHR ''/'' \<notin> set c"
  shows "op_each init_pending
     (map (\<lambda>(key, _). let channelID = TrimRight_NUL (take PendingSendPacketChannelLength key);
                          sequence = Uint64_BE (drop PendingSendPacketChannelLength key)
                      in channelID @ ''/'' @ show_nat (unat sequence)) es) s =
     (Ok (), s\<lparr>rl_pending := kv_set_all es (rl_pending s)\<rparr>)"
  using assms
proof (induction es arbitrary: s)
  case (Cons e es)
  obtain k v where e: "e = (k, v)" by (cases e)
  from Cons.prems e obtain c n where k: "k = GetPendingSendPacketKey c n" "pending_channel c" "CHR ''/'' \<notin> set c"
    by auto
  show ?case
    using Cons.IH [of "s\<lparr>rl_pending := kv_set k () (rl_pending s)\<rparr>"] Cons.prems init_pending_export [OF k]
    by (simp add: e Let_def unit_eq)
qed simp

section \<open>Properties\<close>

text \<open>
  C38: In every reachable state an epoch whose counting has started is on schedule: epoch number
  \<open>k + 1\<close> started exactly \<open>k\<close> durations after the start time, however late the blocks come.
\<close>

theorem epochs_on_schedule:
  assumes "rl_reachable L authority s" and "kv_get (rl_epochs s) identifier = Some e"
    and "EpochCountingStarted e"
  shows "\<exists>k. CurrentEpoch e = word_of_nat (k + 1) \<and> CurrentEpochStartTime e = StartTime e + int k * Duration e"
  using reachable_epochs_ok [OF assms(1)] assms(2,3) unfolding epochs_ok_def epoch_ok_def by blast

definition ex_epoch :: EpochInfo where
  "ex_epoch = \<lparr>Identifier = DayEpoch, StartTime = 100, Duration = 50, CurrentEpoch = 2,
     CurrentEpochStartTime = 150, EpochCountingStarted = True, CurrentEpochStartHeight = 0\<rparr>"

definition ex_epoch_genesis :: rl_GenesisState where
  "ex_epoch_genesis = ex_genesis\<lparr>Rg_Epochs := [ex_epoch]\<rparr>"

definition ex_epoch_rl :: rl_state where
  "ex_epoch_rl = setEpochInfo ex_epoch ex_rl"

lemma ex_epoch_ok: "genesis_epoch_ok ex_epoch"
proof -
  have "CurrentEpoch ex_epoch = word_of_nat (1 + 1) \<and>
        CurrentEpochStartTime ex_epoch = StartTime ex_epoch + int 1 * Duration ex_epoch"
    by (simp add: ex_epoch_def)
  moreover have "StartTime ex_epoch \<noteq> zero_time" by (simp add: ex_epoch_def zero_time_def)
  ultimately show ?thesis unfolding genesis_epoch_ok_def epoch_ok_def by blast
qed

lemma ex_epoch_reachable: "rl_reachable L au ex_epoch_rl"
proof (rule rl_from_genesis)
  show "\<forall>r \<in> set (Rg_RateLimits ex_epoch_genesis). limit_ok r"
    by (simp add: ex_epoch_genesis_def ex_genesis_def ex_limit_def limit_ok_def net_outflow_def send_allowance_nonneg)
  show "\<forall>e \<in> set (Rg_Epochs ex_epoch_genesis). genesis_epoch_ok e"
    by (simp add: ex_epoch_genesis_def ex_epoch_ok)
  show "rl_InitGenesis \<lparr>BlockTime = 5, BlockHeight = 0\<rparr> ex_epoch_genesis rl_empty = (Ok (), ex_epoch_rl)"
    by (simp add: ex_epoch_genesis_def ex_genesis_def rl_InitGenesis_def op_bind_def op_must_def AddEpochInfo_def
        EpochInfo_Validate_def ex_epoch_def DayEpoch_def GetEpochInfo_def Let_def ex_epoch_rl_def ex_rl_def
        zero_time_def SetRateLimit_def rl_empty_def)
qed

lemma ex_epoch_get: "kv_get (rl_epochs ex_epoch_rl) DayEpoch = Some ex_epoch"
  by (simp add: ex_epoch_rl_def setEpochInfo_def) (simp add: ex_epoch_def)

lemma epochs_on_schedule_witness:
  "\<exists>k. (2 :: 64 word) = word_of_nat (k + 1) \<and> (150 :: int) = 100 + int k * 50"
  using epochs_on_schedule [OF ex_epoch_reachable ex_epoch_get] by (simp add: ex_epoch_def)

text \<open>
  C24: At the end of an hour epoch the rate limits whose duration divides the epoch number are reset to
  an empty flow over the current supply, and every other rate limit is untouched. This holds when every
  duration is positive and no limit is kept under a denomination that the registry maps elsewhere.
\<close>

theorem AfterEpochEnd_resets_due:
  assumes "limits_ok s" and "Identifier e = DayEpoch"
    and "\<forall>r \<in> set (GetAllRateLimits s). DurationHours (Rl_Quota r) \<noteq> 0 \<and>
           resolve_denom env (Path_Denom (Rl_Path r)) (Path_ChannelID (Rl_Path r)) = Path_Denom (Rl_Path r)"
  shows "\<exists>t. AfterEpochEnd env e s = (Ok (), t) \<and>
     (\<forall>k. kv_get (rl_limits t) k =
        (case kv_get (rl_limits s) k of
           None \<Rightarrow> None
         | Some r \<Rightarrow>
             Some (if CurrentEpoch e mod DurationHours (Rl_Quota r) = 0
                   then r\<lparr>Rl_Flow := NewFlow (env_supply env (Path_Denom (Rl_Path r)))\<rparr> else r)))"
proof -
  have "\<forall>r \<in> set (GetAllRateLimits s). plain_limit env r" using assms(3) by (simp add: plain_limit_def)
  moreover have "\<forall>r \<in> set (GetAllRateLimits s). kv_get (rl_limits s) (limit_key r) = Some r"
    by (simp add: limits_list(2) [OF assms(1)])
  ultimately obtain t where t: "op_each (reset_due env (CurrentEpoch e)) (GetAllRateLimits s) s = (Ok (), t)"
    "\<And>k. kv_get (rl_limits t) k =
        (if kv_has (rl_limits s) k then map_option (reset_if_due env (CurrentEpoch e)) (kv_get (rl_limits s) k)
         else kv_get (rl_limits s) k)"
    using reset_loop [OF limits_list(1) [OF assms(1)]] limits_list(3) [OF assms(1)] by metis
  have "kv_get (rl_limits t) k =
        (case kv_get (rl_limits s) k of
           None \<Rightarrow> None
         | Some r \<Rightarrow>
             Some (if CurrentEpoch e mod DurationHours (Rl_Quota r) = 0
                   then r\<lparr>Rl_Flow := NewFlow (env_supply env (Path_Denom (Rl_Path r)))\<rparr> else r))" for k
    by (simp add: t(2) kv_has_def reset_if_due_def split: option.split)
  then show ?thesis using t(1) by (auto simp: AfterEpochEnd_def assms(2) Let_def)
qed

lemma ex_limits_list: "set (GetAllRateLimits ex_rl) = {ex_limit}"
  by (simp add: GetAllRateLimits_def ex_rl_def SetRateLimit_def rl_empty_def)

lemma AfterEpochEnd_resets_due_witness:
  "\<exists>t. AfterEpochEnd ex_env ex_epoch ex_rl = (Ok (), t) \<and>
       kv_get (rl_limits t) (limit_key ex_limit) = Some (ex_limit\<lparr>Rl_Flow := NewFlow 900\<rparr>)"
proof -
  have "limits_ok ex_rl" using reachable_limits_safe [OF ex_rl_reachable] by (simp add: limits_safe_def)
  moreover have "Identifier ex_epoch = DayEpoch" by (simp add: ex_epoch_def)
  moreover have "\<forall>r \<in> set (GetAllRateLimits ex_rl). DurationHours (Rl_Quota r) \<noteq> 0 \<and>
      resolve_denom ex_env (Path_Denom (Rl_Path r)) (Path_ChannelID (Rl_Path r)) = Path_Denom (Rl_Path r)"
    unfolding ex_limits_list by (simp add: ex_limit_def)
  ultimately obtain t where "AfterEpochEnd ex_env ex_epoch ex_rl = (Ok (), t)"
    "kv_get (rl_limits t) (limit_key ex_limit) =
        (case kv_get (rl_limits ex_rl) (limit_key ex_limit) of
           None \<Rightarrow> None
         | Some r \<Rightarrow>
             Some (if CurrentEpoch ex_epoch mod DurationHours (Rl_Quota r) = 0
                   then r\<lparr>Rl_Flow := NewFlow (env_supply ex_env (Path_Denom (Rl_Path r)))\<rparr> else r))"
    using AfterEpochEnd_resets_due [of ex_rl ex_epoch ex_env] by blast
  moreover have "kv_get (rl_limits ex_rl) (limit_key ex_limit) = Some ex_limit"
    by (simp add: ex_rl_def SetRateLimit_def limit_key_def)
  moreover have "CurrentEpoch ex_epoch mod DurationHours (Rl_Quota ex_limit) = 0"
    by (simp add: ex_epoch_def ex_limit_def)
  ultimately show ?thesis by auto
qed

text \<open>
  The begin blocker stops at the first epoch that has not reached its start time, so the epochs
  after it in key order do not advance in that block, even when their period is over.
\<close>

lemma waiting_epoch_blocks_later_ones:
  assumes "epochs_of s = before @ e # after"
    and "\<forall>b \<in> set before. EpochCountingStarted b \<and> StartTime b \<le> BlockTime ctx \<and>
           BlockTime ctx \<le> CurrentEpochStartTime b + Duration b"
    and "BlockTime ctx < StartTime e"
  shows "rl_BeginBlocker env ctx s = (Ok (), s)"
proof -
  have "op_iterate (\<lambda>(i, epoch). epoch_callback env ctx epoch) (enumerate n (before @ e # after)) s = (Ok (), s)" for n
    using assms(2)
  proof (induction before arbitrary: n)
    case Nil
    then show ?case using assms(3) by (simp add: epoch_callback_def)
  next
    case (Cons b bs)
    then have "epoch_callback env ctx b s = (Ok False, s)" by (simp add: epoch_callback_def Let_def)
    with Cons show ?case by simp
  qed
  then show ?thesis by (simp add: rl_BeginBlocker_def IterateEpochInfo_def assms(1))
qed

definition ex_waiting :: rl_state where
  "ex_waiting = setEpochInfo (ex_epoch\<lparr>Identifier := ''day'', StartTime := 1000, EpochCountingStarted := False\<rparr>) ex_epoch_rl"

lemma waiting_epoch_blocks_later_ones_witness:
  "rl_BeginBlocker ex_env \<lparr>BlockTime = 300, BlockHeight = 9\<rparr> ex_waiting = (Ok (), ex_waiting)"
proof (rule waiting_epoch_blocks_later_ones [where before = "[]" and after = "[ex_epoch]"])
  show "epochs_of ex_waiting =
      [] @ ex_epoch\<lparr>Identifier := ''day'', StartTime := 1000, EpochCountingStarted := False\<rparr> # [ex_epoch]"
    by (simp add: epochs_of_def ex_waiting_def setEpochInfo_def ex_epoch_rl_def ex_rl_def SetRateLimit_def
        rl_empty_def ex_epoch_def DayEpoch_def less_char_def)
qed simp_all

text \<open>
  C37: Initialising an empty module with its exported genesis restores the rate limits, the whitelist
  and the pending packets, and replaces the epochs by the single default epoch that has not started.
\<close>

theorem ratelimit_genesis_round_trip:
  assumes "exportable s"
  shows "rl_InitGenesis ctx (rl_ExportGenesis s) rl_empty =
    (Ok (), \<lparr>rl_limits = rl_limits s, rl_pending = rl_pending s, rl_whitelist = rl_whitelist s,
             rl_epochs = kv_set DayEpoch
               \<lparr>Identifier = DayEpoch, StartTime = BlockTime ctx, Duration = EpochHourPeriod, CurrentEpoch = 0,
                CurrentEpochStartTime = zero_time, EpochCountingStarted = False,
                CurrentEpochStartHeight = BlockHeight ctx\<rparr> kv_empty,
             rl_events = []\<rparr>)"
proof -
  let ?s0 = "fold SetWhitelistedAddressPair (GetAllWhitelistedAddressPairs s)
               (fold SetRateLimit (GetAllRateLimits s) rl_empty)"
  have lim: "rl_limits ?s0 = rl_limits s"
    using export_import_kv [of "rl_limits s" limit_key] assms
    by (simp add: fold_set_limits GetAllRateLimits_def rl_empty_def exportable_def limits_ok_def limit_key_def)
  have wh: "rl_whitelist ?s0 = rl_whitelist s"
  proof -
    have "rl_whitelist (fold SetRateLimit rs t) = rl_whitelist t" for rs t
      by (induction rs arbitrary: t) (simp_all add: SetRateLimit_def)
    with export_import_kv [of "rl_whitelist s" whitelist_key] assms show ?thesis
      by (simp add: fold_set_whitelist GetAllWhitelistedAddressPairs_def rl_empty_def exportable_def whitelist_key_def)
  qed
  have rest: "rl_pending ?s0 = kv_empty \<and> rl_epochs ?s0 = kv_empty \<and> rl_events ?s0 = []"
  proof -
    have "rl_pending (fold SetRateLimit rs t) = rl_pending t \<and> rl_events (fold SetRateLimit rs t) = rl_events t" for rs t
      by (induction rs arbitrary: t) (simp_all add: SetRateLimit_def)
    moreover have "rl_pending (fold SetWhitelistedAddressPair ws t) = rl_pending t \<and>
        rl_events (fold SetWhitelistedAddressPair ws t) = rl_events t" for ws t
      by (induction ws arbitrary: t) (simp_all add: SetWhitelistedAddressPair_def)
    ultimately show ?thesis by (simp add: rl_empty_def)
  qed
  have "\<forall>e \<in> set (kv_entries (rl_pending s)).
      \<exists>c n. fst e = GetPendingSendPacketKey c n \<and> pending_channel c \<and> CHR ''/'' \<notin> set c"
    using assms by (auto simp: exportable_def kv_entries_mem kv_has_def)
  from init_pending_all [OF this, of ?s0]
  have "op_each init_pending (GetAllPendingSendPackets s) ?s0 = (Ok (), ?s0\<lparr>rl_pending := rl_pending s\<rparr>)"
    by (simp add: GetAllPendingSendPackets_def rest kv_set_all_entries)
  then show ?thesis
    using lim wh rest
    by (simp add: rl_InitGenesis_def rl_ExportGenesis_def rl_DefaultGenesisState_def op_bind_def op_must_def
        AddEpochInfo_def EpochInfo_Validate_def NewGenesisEpochInfo_def EpochHourPeriod_def DayEpoch_def
        GetEpochInfo_def setEpochInfo_def Let_def)
qed

lemma ex_exportable: "exportable ex_two"
  unfolding exportable_def
proof (intro conjI allI impI)
  show "limits_ok ex_two" by (rule ex_two_ok)
  show "k = GetAddressWhitelistKey (Wap_Sender w) (Wap_Receiver w)" if "kv_get (rl_whitelist ex_two) k = Some w" for k w
    using that by (simp add: ex_two_def SetPendingSendPacket_def ex_rl_def SetRateLimit_def rl_empty_def)
  show "\<exists>c n. k = GetPendingSendPacketKey c n \<and> pending_channel c \<and> CHR ''/'' \<notin> set c"
    if "kv_has (rl_pending ex_two) k" for k
  proof -
    from that have "k = GetPendingSendPacketKey ''channel-10'' 3 \<or> k = GetPendingSendPacketKey ''channel-1'' 7"
      by (simp add: ex_two_def SetPendingSendPacket_def ex_rl_def) (simp add: rl_empty_def)
    moreover have "CHR ''/'' \<notin> set ''channel-10''" "CHR ''/'' \<notin> set ''channel-1''" by simp_all
    ultimately show ?thesis using ex_channels by blast
  qed
qed

lemma ratelimit_genesis_round_trip_witness:
  "\<exists>t. rl_InitGenesis \<lparr>BlockTime = 5, BlockHeight = 1\<rparr> (rl_ExportGenesis ex_two) rl_empty = (Ok (), t) \<and>
       rl_limits t = rl_limits ex_two \<and> rl_pending t = rl_pending ex_two"
  using ratelimit_genesis_round_trip [OF ex_exportable, of "\<lparr>BlockTime = 5, BlockHeight = 1\<rparr>"] by simp

end
