(* ===== verification/Module_Genesis.thy ===== *)
theory Module_Genesis
  imports Tfmw_Props Ratelimit_Epoch_Props Tx_Boundary_Props Mint
begin

text \<open>
  The genesis of the modules as the module manager handles it (\<open>x/*/module.go\<close>): JSON text that is
  written, checked, read into the keeper and exported again. The JSON codec is a parameter; every module
  goes through it the same way, which the locale \<open>genesis_module\<close> states once.
\<close>

section \<open>The codec\<close>

record 'g json_codec =
  MarshalJSON :: "'g \<Rightarrow> bytes res"
  UnmarshalJSON :: "bytes \<Rightarrow> 'g res"

text \<open>\<open>MustMarshalJSON\<close> and \<open>MustUnmarshalJSON\<close> panic on an error.\<close>

fun res_must :: "'a res \<Rightarrow> 'a res" where
  "res_must (Err _) = Panic"
| "res_must (Ok a) = Ok a"
| "res_must Panic = Panic"

definition json_codec_laws :: "'g json_codec \<Rightarrow> bool" where
  "json_codec_laws C \<longleftrightarrow> (\<forall>g. \<exists>bz. MarshalJSON C g = Ok bz \<and> UnmarshalJSON C bz = Ok g)"

definition json_default :: "'g json_codec \<Rightarrow> 'g res \<Rightarrow> bytes res" where
  "json_default C dflt = res_bind dflt (\<lambda>g. res_must (MarshalJSON C g))"

definition json_validate :: "'g json_codec \<Rightarrow> ('g \<Rightarrow> unit res) \<Rightarrow> bytes \<Rightarrow> unit res" where
  "json_validate C validate bz = res_bind (UnmarshalJSON C bz) validate"

definition json_init :: "'g json_codec \<Rightarrow> ('g \<Rightarrow> ('s, unit) op) \<Rightarrow> bytes \<Rightarrow> ('s, unit) op" where
  "json_init C init data = op_bind (op_lift (res_must (UnmarshalJSON C data))) init"

definition json_export :: "'g json_codec \<Rightarrow> ('s \<Rightarrow> 'g res) \<Rightarrow> 's \<Rightarrow> bytes res" where
  "json_export C export s = res_bind (export s) (\<lambda>gs. res_must (MarshalJSON C gs))"

lemmas json_defs = json_default_def json_validate_def json_init_def json_export_def

section \<open>The modules\<close>

definition tfmw_module_DefaultGenesis :: "tfmw_GenesisState json_codec \<Rightarrow> bytes res" where
  "tfmw_module_DefaultGenesis C = json_default C (Ok tfmw_DefaultGenesisState)"

definition tfmw_module_ValidateGenesis :: "tfmw_GenesisState json_codec \<Rightarrow> bytes \<Rightarrow> unit res" where
  "tfmw_module_ValidateGenesis C = json_validate C tfmw_ValidateGenesis"

definition tfmw_module_InitGenesis :: "tfmw_GenesisState json_codec \<Rightarrow> bytes \<Rightarrow> (tfmw_state, unit) op" where
  "tfmw_module_InitGenesis C = json_init C tfmw_InitGenesis"

definition tfmw_module_ExportGenesis :: "tfmw_GenesisState json_codec \<Rightarrow> tfmw_state \<Rightarrow> bytes res" where
  "tfmw_module_ExportGenesis C = json_export C tfmw_ExportGenesis"

definition rl_module_DefaultGenesis :: "rl_GenesisState json_codec \<Rightarrow> bytes res" where
  "rl_module_DefaultGenesis C = json_default C (Ok rl_DefaultGenesisState)"

definition rl_module_ValidateGenesis :: "rl_GenesisState json_codec \<Rightarrow> bytes \<Rightarrow> unit res" where
  "rl_module_ValidateGenesis C = json_validate C rl_ValidateGenesis"

definition rl_module_InitGenesis :: "rl_GenesisState json_codec \<Rightarrow> ctx \<Rightarrow> bytes \<Rightarrow> (rl_state, unit) op" where
  "rl_module_InitGenesis C ctx = json_init C (rl_InitGenesis ctx)"

definition rl_module_ExportGenesis :: "rl_GenesisState json_codec \<Rightarrow> rl_state \<Rightarrow> bytes res" where
  "rl_module_ExportGenesis C = json_export C (\<lambda>s. Ok (rl_ExportGenesis s))"

definition txb_module_DefaultGenesis :: "txb_GenesisState json_codec \<Rightarrow> bytes res" where
  "txb_module_DefaultGenesis C = json_default C (Ok txb_DefaultGenesisState)"

definition txb_module_ValidateGenesis :: "txb_GenesisState json_codec \<Rightarrow> bytes \<Rightarrow> unit res" where
  "txb_module_ValidateGenesis C = json_validate C txb_ValidateGenesis"

definition txb_module_InitGenesis :: "txb_GenesisState json_codec \<Rightarrow> bytes \<Rightarrow> (txb_state, unit) op" where
  "txb_module_InitGenesis C = json_init C txb_InitGenesis"

definition txb_module_ExportGenesis :: "txb_GenesisState json_codec \<Rightarrow> txb_state \<Rightarrow> bytes res" where
  "txb_module_ExportGenesis C = json_export C txb_ExportGenesis"

definition mint_module_DefaultGenesis :: "mint_GenesisState json_codec \<Rightarrow> lib \<Rightarrow> string \<Rightarrow> bytes res" where
  "mint_module_DefaultGenesis C L bondDenom = json_default C (mint_DefaultGenesisState L bondDenom)"

definition mint_module_ValidateGenesis :: "mint_GenesisState json_codec \<Rightarrow> lib \<Rightarrow> bytes \<Rightarrow> unit res" where
  "mint_module_ValidateGenesis C L = json_validate C (mint_ValidateGenesis L)"

definition mint_module_InitGenesis ::
    "mint_GenesisState json_codec \<Rightarrow> lib \<Rightarrow> 'b mint_Keeper \<Rightarrow> bytes \<Rightarrow> ('b mint_world, unit) op" where
  "mint_module_InitGenesis C L k = json_init C (mint_InitGenesis L k)"

definition mint_module_ExportGenesis ::
    "mint_GenesisState json_codec \<Rightarrow> 'b mint_Keeper \<Rightarrow> bytes \<Rightarrow> 'b mint_world \<Rightarrow> bytes res" where
  "mint_module_ExportGenesis C k moduleAddress = json_export C (mint_ExportGenesis k moduleAddress)"

section \<open>The contract of a genesis\<close>

text \<open>The default genesis is valid, starts the module from an empty store and is what an export then gives.\<close>

locale genesis_module =
  fixes dflt :: "'g res"
    and validate :: "'g \<Rightarrow> unit res"
    and init :: "'g \<Rightarrow> ('s, unit) op"
    and export :: "'s \<Rightarrow> 'g res"
    and empty :: 's
  assumes default_ok: "\<exists>g s. dflt = Ok g \<and> validate g = Ok () \<and> init g empty = (Ok (), s) \<and> export s = Ok g"
begin

lemma default_starts:
  assumes "json_codec_laws C"
  shows "\<exists>bz s. json_default C dflt = Ok bz \<and> json_validate C validate bz = Ok () \<and>
                json_init C init bz empty = (Ok (), s) \<and> json_export C export s = Ok bz"
proof -
  obtain g s where g: "dflt = Ok g" "validate g = Ok ()" "init g empty = (Ok (), s)" "export s = Ok g"
    using default_ok by blast
  obtain bz where "MarshalJSON C g = Ok bz" "UnmarshalJSON C bz = Ok g"
    using assms unfolding json_codec_laws_def by blast
  with g show ?thesis by (simp add: json_defs op_lift_def)
qed

text \<open>Text that does not decode is refused before the keeper sees it, and stops the start of a chain.\<close>

lemma undecodable:
  assumes "UnmarshalJSON C bz = Err e"
  shows "json_validate C validate bz = Err e" and "json_init C init bz s = (Panic, s)"
  using assms by (simp_all add: json_defs)

end

interpretation tfmw_genesis: genesis_module "Ok tfmw_DefaultGenesisState" tfmw_ValidateGenesis tfmw_InitGenesis
  tfmw_ExportGenesis tfmw_empty
  by unfold_locales
     (simp add: tfmw_DefaultGenesisState_def tfmw_ValidateGenesis_def validateTokenInfos_def tfmw_InitGenesis_def
       tfmw_ExportGenesis_def op_bind_def IterateParaTokenInfos_collect tfmw_GetParams_def tfmw_SetParams_def
       tfmw_empty_def infos_under_def kv_prefix_def)

interpretation txb_genesis: genesis_module "Ok txb_DefaultGenesisState" txb_ValidateGenesis txb_InitGenesis
  txb_ExportGenesis kv_empty
proof unfold_locales
  have v: "txb_ValidateGenesis txb_DefaultGenesisState = Ok ()"
    by (simp add: txb_ValidateGenesis_def txb_DefaultGenesisState_def DefaultDelegateBoundary_def
        DefaultRedelegateBoundary_def)
  moreover obtain s where s: "txb_InitGenesis txb_DefaultGenesisState kv_empty = (Ok (), s)"
    using txb_init [of txb_DefaultGenesisState] v by (cases "txb_InitGenesis txb_DefaultGenesisState kv_empty") auto
  moreover have "txb_ExportGenesis s = Ok txb_DefaultGenesisState"
    using txb_ok_boundaries(1,2) [OF txb_reachable_ok [OF txb_reachable.start [OF s] addr_laws_ref]]
    by (simp add: txb_ExportGenesis_def)
  ultimately show "\<exists>g s. Ok txb_DefaultGenesisState = Ok g \<and> txb_ValidateGenesis g = Ok () \<and>
      txb_InitGenesis g kv_empty = (Ok (), s) \<and> txb_ExportGenesis s = Ok g"
    by blast
qed

interpretation rl_genesis: genesis_module "Ok rl_DefaultGenesisState" rl_ValidateGenesis "rl_InitGenesis ctx"
  "\<lambda>s. Ok (rl_ExportGenesis s)" rl_empty for ctx
proof unfold_locales
  have "EpochInfo_Validate (NewGenesisEpochInfo DayEpoch EpochHourPeriod) = Ok ()"
    by (simp add: EpochInfo_Validate_def NewGenesisEpochInfo_def EpochHourPeriod_def DayEpoch_def)
  then obtain e where "rl_InitGenesis ctx rl_DefaultGenesisState rl_empty = (Ok (), setEpochInfo e rl_empty)"
    by (auto simp: rl_InitGenesis_def rl_DefaultGenesisState_def op_bind_def op_must_def AddEpochInfo_def Let_def
        GetEpochInfo_def rl_empty_def)
  moreover have "rl_ExportGenesis (setEpochInfo e rl_empty) = rl_DefaultGenesisState"
    by (simp add: rl_ExportGenesis_def rl_DefaultGenesisState_def setEpochInfo_def rl_empty_def GetAllRateLimits_def
        GetAllWhitelistedAddressPairs_def GetAllPendingSendPackets_def Let_def)
  ultimately show "\<exists>g s. Ok rl_DefaultGenesisState = Ok g \<and> rl_ValidateGenesis g = Ok () \<and>
      rl_InitGenesis ctx g rl_empty = (Ok (), s) \<and> Ok (rl_ExportGenesis s) = Ok g"
    by (auto simp: rl_ValidateGenesis_def)
qed

text \<open>The default genesis of the chain's own modules, through their entry points.\<close>

lemma default_genesis_starts:
  "json_codec_laws C \<Longrightarrow>
     \<exists>bz s. tfmw_module_DefaultGenesis C = Ok bz \<and> tfmw_module_ValidateGenesis C bz = Ok () \<and>
            tfmw_module_InitGenesis C bz tfmw_empty = (Ok (), s) \<and> tfmw_module_ExportGenesis C s = Ok bz"
  "json_codec_laws C' \<Longrightarrow>
     \<exists>bz s. rl_module_DefaultGenesis C' = Ok bz \<and> rl_module_ValidateGenesis C' bz = Ok () \<and>
            rl_module_InitGenesis C' ctx bz rl_empty = (Ok (), s) \<and> rl_module_ExportGenesis C' s = Ok bz"
  "json_codec_laws C'' \<Longrightarrow>
     \<exists>bz s. txb_module_DefaultGenesis C'' = Ok bz \<and> txb_module_ValidateGenesis C'' bz = Ok () \<and>
            txb_module_InitGenesis C'' bz kv_empty = (Ok (), s) \<and> txb_module_ExportGenesis C'' s = Ok bz"
  by (simp_all only: tfmw_module_DefaultGenesis_def tfmw_module_ValidateGenesis_def tfmw_module_InitGenesis_def
      tfmw_module_ExportGenesis_def rl_module_DefaultGenesis_def rl_module_ValidateGenesis_def
      rl_module_InitGenesis_def rl_module_ExportGenesis_def txb_module_DefaultGenesis_def
      txb_module_ValidateGenesis_def txb_module_InitGenesis_def txb_module_ExportGenesis_def
      tfmw_genesis.default_starts rl_genesis.default_starts txb_genesis.default_starts)

end
