(* ===== verification/Node.thy ===== *)
theory Node
  imports App_Services Module_Genesis
begin

text \<open>
  From the options of a node to its application (\<open>NewComposableApp\<close> of \<open>app/app.go\<close>, \<open>cmd/centaurid/cmd/root.go\<close>): the
  configuration files the node starts from, its commands, and the applications that are built to run it and to
  export its state.
\<close>

section \<open>Building the application\<close>

text \<open>
  \<open>na_\<close> are the parts of the application that depend on the arguments or on the disk. The keepers are those of
  \<open>wired\<close>. \<open>nv_upgrade_info\<close> is the plan read from disk, \<open>None\<close> when that fails; \<open>nv_wasm_config\<close> is
  \<open>wasm.ReadWasmConfig\<close>; \<open>nv_extensions\<close> is the result of registering the snapshot extensions, if there is a snapshot
  manager; \<open>nv_load\<close> loads a version, or the latest one. An exit of the process is a \<open>Panic\<close>.
\<close>

record app_args =
  aa_loadLatest :: bool
  aa_skipUpgradeHeights :: "i64 set"
  aa_homePath :: string
  aa_invCheckPeriod :: nat
  aa_devnetGov :: "string option"

record ('b, 'v, 'f) node_env =
  nv_upgrades :: "('b, 'v) Upgrade list"
  nv_upgrade_info :: "(string \<times> i64) option"
  nv_wasm_config :: "unit res"
  nv_extensions :: "unit res option"
  nv_load :: "i64 option \<Rightarrow> ('f, unit) op"
  nv_gov :: string

record ('b, 'v) node_app =
  na_args :: app_args
  na_store_loader :: "(i64 \<times> StoreUpgrades) option"
  na_upgrade_handlers :: "string \<rightharpoonup> ('b, 'v) upgrade_handler"
  na_stores :: store_keys
  na_authority :: "authority \<Rightarrow> string option"

text \<open>The address a keeper answers to; a development key takes the place of governance for two keepers.\<close>

definition authority_of :: "string \<Rightarrow> string option \<Rightarrow> authority \<Rightarrow> string option" where
  "authority_of govAddr devnetGov au =
     (case au of
        NoAuthority \<Rightarrow> None
      | GovModule \<Rightarrow> Some govAddr
      | AuthorityAddress \<Rightarrow> Some authorityAddress
      | GovOrDevnet \<Rightarrow> Some (case devnetGov of None \<Rightarrow> govAddr | Some key \<Rightarrow> key))"

definition NewComposableApp :: "('b, 'v, 'f) node_env \<Rightarrow> app_args \<Rightarrow> ('f, ('b, 'v) node_app) op" where
  "NewComposableApp N A =
     op_bind (op_lift (setupUpgradeStoreLoaders (nv_upgrades N) (nv_upgrade_info N)
                         (\<lambda>h. h \<in> aa_skipUpgradeHeights A))) (\<lambda>loader.
     op_bind (op_lift (res_must (nv_wasm_config N))) (\<lambda>_.
       let app = \<lparr>na_args = A, na_store_loader = loader,
                  na_upgrade_handlers = setupUpgradeHandlers (nv_upgrades N) Map.empty,
                  na_stores = GenerateKeys, na_authority = authority_of (nv_gov N) (aa_devnetGov A)\<rparr>
       in op_bind (op_lift (case nv_extensions N of None \<Rightarrow> Ok () | Some r \<Rightarrow> res_must r)) (\<lambda>_.
          op_bind (if aa_loadLatest A then op_must (nv_load N None) else op_lift (Ok ())) (\<lambda>_.
            op_lift (Ok app)))))"

text \<open>\<open>LoadHeight\<close> loads a particular version.\<close>

definition LoadHeight :: "('b, 'v, 'f) node_env \<Rightarrow> i64 \<Rightarrow> ('f, unit) op" where
  "LoadHeight N height = nv_load N (Some height)"

section \<open>Running and exporting\<close>

text \<open>
  The options of the start command: the heights to skip, the development key (empty when it is not a string), the
  home, which \<open>newApp\<close> converts and \<open>appExport\<close> only accepts as a string, and the period of the invariant checks.
\<close>

record app_options =
  ao_unsafe_skip_upgrades :: "i64 list"
  ao_devnet_gov :: "string option"
  ao_home :: "string option"
  ao_inv_check_period :: nat

definition newApp :: "('b, 'v, 'f) node_env \<Rightarrow> app_options \<Rightarrow> ('f, ('b, 'v) node_app) op" where
  "newApp N opts =
     (let skipUpgradeHeights = foldl (\<lambda>hs h. insert h hs) {} (ao_unsafe_skip_upgrades opts);
          devnetGovOption = (case ao_devnet_gov opts of None \<Rightarrow> [] | Some key \<Rightarrow> key);
          devnetGov = (if devnetGovOption \<noteq> [] then Some devnetGovOption else None)
      in NewComposableApp N
           \<lparr>aa_loadLatest = True, aa_skipUpgradeHeights = skipUpgradeHeights,
            aa_homePath = (case ao_home opts of None \<Rightarrow> [] | Some home \<Rightarrow> home),
            aa_invCheckPeriod = ao_inv_check_period opts, aa_devnetGov = devnetGov\<rparr>)"

definition export_args :: "bool \<Rightarrow> string \<Rightarrow> app_args" where
  "export_args loadLatest homePath =
     \<lparr>aa_loadLatest = loadLatest, aa_skipUpgradeHeights = {}, aa_homePath = homePath, aa_invCheckPeriod = 1,
      aa_devnetGov = None\<rparr>"

text \<open>\<open>export\<close> is \<open>ExportAppStateAndValidators\<close> of the application that was built.\<close>

definition appExport ::
    "('b, 'v, 'f) node_env \<Rightarrow> (('b, 'v) node_app \<Rightarrow> bool \<Rightarrow> string list \<Rightarrow> ('f, 'e) op) \<Rightarrow> i64 \<Rightarrow> bool \<Rightarrow> string list \<Rightarrow>
     app_options \<Rightarrow> ('f, 'e) op" where
  "appExport N export height forZeroHeight jailAllowedAddrs opts =
     (case ao_home opts of
        None \<Rightarrow> op_lift (Err (ErrPlain ''application home not set''))
      | Some homePath \<Rightarrow>
          (if homePath = [] then op_lift (Err (ErrPlain ''application home not set''))
           else if height \<noteq> - 1
           then op_bind (NewComposableApp N (export_args False homePath)) (\<lambda>anApp.
                op_bind (LoadHeight N height) (\<lambda>_. export anApp forZeroHeight jailAllowedAddrs))
           else op_bind (NewComposableApp N (export_args True homePath)) (\<lambda>anApp.
                export anApp forZeroHeight jailAllowedAddrs)))"

section \<open>Configuration\<close>

record p2p_config =
  MaxNumInboundPeers :: nat
  MaxNumOutboundPeers :: nat

text \<open>\<open>DefaultConfig\<close> of CometBFT and of the server is a parameter, of which the fields below are set.\<close>

definition initTendermintConfig :: "p2p_config \<Rightarrow> p2p_config" where
  "initTendermintConfig cfg = cfg\<lparr>MaxNumInboundPeers := 400, MaxNumOutboundPeers := 50\<rparr>"

record server_config =
  MinGasPrices :: string
  API_Enable :: bool
  API_EnableUnsafeCORS :: bool
  GRPCWeb_EnableUnsafeCORS :: bool
  IAVLDisableFastNode :: bool
  Telemetry_Enabled :: bool
  Telemetry_PrometheusRetentionTime :: nat
  Telemetry_EnableHostnameLabel :: bool
  Telemetry_GlobalLabels :: "string list list"

record WASMConfig =
  QueryGasLimit :: nat
  LruSize :: nat

definition wasm_template :: string where
  "wasm_template =
     CHR 0x0A # ''[wasm]'' @ CHR 0x0A #
     ''# This is the maximum sdk gas (wasm and storage) that we allow for any x/wasm \"smart\" queries'' @ CHR 0x0A #
     ''query_gas_limit = 300000'' @ CHR 0x0A #
     ''# This is the number of wasm vm instances we keep cached in memory for speed-up'' @ CHR 0x0A #
     ''# Warning: this is currently unstable and may lead to crashes, best to keep for 0 unless testing locally'' @ CHR 0x0A #
     ''lru_size = 0''"

definition initAppConfig :: "server_config \<Rightarrow> string \<Rightarrow> string \<times> server_config \<times> WASMConfig" where
  "initAppConfig srvCfg DefaultConfigTemplate =
     (let srvCfg = srvCfg\<lparr>MinGasPrices := []\<rparr>;
          srvCfg = srvCfg\<lparr>API_Enable := True\<rparr>;
          srvCfg = srvCfg\<lparr>API_EnableUnsafeCORS := True\<rparr>;
          srvCfg = srvCfg\<lparr>GRPCWeb_EnableUnsafeCORS := True\<rparr>;
          srvCfg = srvCfg\<lparr>MinGasPrices := ''0stake''\<rparr>;
          srvCfg = srvCfg\<lparr>IAVLDisableFastNode := False\<rparr>
      in (DefaultConfigTemplate @ wasm_template, srvCfg, \<lparr>QueryGasLimit = 300000, LruSize = 1\<rparr>))"

section \<open>Commands\<close>

text \<open>The commands by the functions that make them, in the order they are added.\<close>

datatype command =
    InitCmd | CollectGenTxsCmd | MigrateGenesisCmd | GenTxCmd | ValidateGenesisCmd | AddGenesisAccountCmd
  | NewCompletionCmd | DebugCmd | NewTestnetCmd | ConfigCmd | ConvertPrefixAddrCmd | ServerCommands | StatusCommand
  | KeysCommands | GetAccountCmd | ValidatorCommand | BlockCommand | QueryTxsByEventsCmd | QueryTxCmd | GetSignCommand
  | GetSignBatchCommand | GetMultiSignCommand | GetValidateSignaturesCommand | LineBreak | GetBroadcastCommand
  | GetEncodeCommand | GetDecodeCommand | VestingTxCmd | AddBech32ConvertCommand | ModuleCmd app_module
  | Group string "command list"

definition addDebugCommands :: "command list \<Rightarrow> command list" where
  "addDebugCommands cmds = cmds @ [AddBech32ConvertCommand]"

text \<open>\<open>module_queries\<close> and \<open>module_txs\<close> are the commands of the basic modules that have some.\<close>

definition queryCommand :: "app_module list \<Rightarrow> command" where
  "queryCommand module_queries =
     Group ''query''
       ([GetAccountCmd, ValidatorCommand, BlockCommand, QueryTxsByEventsCmd, QueryTxCmd] @ map ModuleCmd module_queries)"

definition txCommand :: "app_module list \<Rightarrow> command" where
  "txCommand module_txs =
     Group ''tx''
       ([GetSignCommand, GetSignBatchCommand, GetMultiSignCommand, GetValidateSignaturesCommand, LineBreak,
         GetBroadcastCommand, GetEncodeCommand, GetDecodeCommand, LineBreak, VestingTxCmd] @ map ModuleCmd module_txs)"

definition initRootCmd :: "app_module list \<Rightarrow> app_module list \<Rightarrow> command list \<Rightarrow> command list" where
  "initRootCmd module_queries module_txs debug =
     [InitCmd, CollectGenTxsCmd, MigrateGenesisCmd, GenTxCmd, ValidateGenesisCmd, AddGenesisAccountCmd, NewCompletionCmd,
      Group ''debug'' (addDebugCommands debug), NewTestnetCmd, Group ''debug'' debug, ConfigCmd, ConvertPrefixAddrCmd,
      ServerCommands,
      StatusCommand, queryCommand module_queries, txCommand module_txs, KeysCommands]"

text \<open>The commands of a module, by the functions that make them; \<open>None\<close> where a module has no command group.\<close>

definition tfmw_GetTxCmd :: "string list" where
  "tfmw_GetTxCmd = [''RegistryDotSamaChain'', ''RemoveDotSamaChain'', ''AddRlyAddress'']"

definition tfmw_GetQueryCmd :: "string list" where
  "tfmw_GetQueryCmd = [''GetCmdParaTokenInfo'', ''GetEscowAddress'', ''GetRelayerAccount'']"

definition rl_GetTxCmd :: "string list" where
  "rl_GetTxCmd = []"

definition rl_GetQueryCmd :: "string list" where
  "rl_GetQueryCmd = [''GetCmdQueryAllRateLimits'']"

definition txb_GetTxCmd :: "string list" where
  "txb_GetTxCmd = [''GetCmdUpdateDelegateBoundary'', ''GetCmdQueryRedelegateBoundary'']"

definition txb_GetQueryCmd :: "string list" where
  "txb_GetQueryCmd = [''GetCmdQueryDelegateBoundary'', ''GetCmdQueryRedelegateBoundary'']"

definition mint_GetTxCmd :: "string list" where
  "mint_GetTxCmd = [''GetCmdFundModuleAccount'']"

definition mint_GetQueryCmd :: "string list" where
  "mint_GetQueryCmd = [''GetCmdQueryParams'', ''GetCmdQueryInflation'', ''GetCmdQueryAnnualProvisions'']"

text \<open>The module of the rate limiter answers nil and leaves its group of transaction commands out.\<close>

definition module_GetTxCmd :: "app_module \<Rightarrow> string list option" where
  "module_GetTxCmd m =
     (case m of
        transfermiddleware \<Rightarrow> Some tfmw_GetTxCmd
      | ratelimit \<Rightarrow> None
      | txboundary \<Rightarrow> Some txb_GetTxCmd
      | mint \<Rightarrow> Some mint_GetTxCmd
      | _ \<Rightarrow> None)"

definition module_GetQueryCmd :: "app_module \<Rightarrow> string list option" where
  "module_GetQueryCmd m =
     (case m of
        transfermiddleware \<Rightarrow> Some tfmw_GetQueryCmd
      | ratelimit \<Rightarrow> Some rl_GetQueryCmd
      | txboundary \<Rightarrow> Some txb_GetQueryCmd
      | mint \<Rightarrow> Some mint_GetQueryCmd
      | _ \<Rightarrow> None)"

section \<open>Services of the custom bank module\<close>

text \<open>
  The module registers the services of the bank, with the queries of the custom keeper, and the migrations of its
  store from versions 1, 2 and 3; a migration that cannot be registered panics.
\<close>

definition bank_RegisterServices :: "('c \<Rightarrow> 'c) \<Rightarrow> ('c \<Rightarrow> 'c) \<Rightarrow> (nat \<Rightarrow> ('c, unit) op) \<Rightarrow> ('c, unit) op" where
  "bank_RegisterServices RegisterMsgServer RegisterQueryServer RegisterMigration cfg =
     (let cfg = RegisterMsgServer cfg;
          cfg = RegisterQueryServer cfg
      in op_each (\<lambda>version. op_must (RegisterMigration version)) [1, 2, 3] cfg)"

section \<open>Start of the process\<close>

text \<open>
  The configuration of the SDK: its prefixes for accounts, validators and consensus nodes, each for addresses and
  public keys. Once it is sealed, setting it panics.
\<close>

record sdk_config =
  sc_account :: "string \<times> string"
  sc_validator :: "string \<times> string"
  sc_consensus :: "string \<times> string"
  sc_coin :: "nat \<times> nat"
  sc_verifier :: "(bytes \<Rightarrow> unit res) option"
  sc_sealed :: bool

definition set_config :: "(sdk_config \<Rightarrow> sdk_config) \<Rightarrow> (sdk_config, unit) op" where
  "set_config u c = (if sc_sealed c then (Panic, c) else (Ok (), u c))"

text \<open>The constants of the SDK.\<close>

record sdk_consts =
  sk_bech32 :: bech32_lib
  sk_PrefixPublic :: string
  sk_MaxAddrLen :: nat
  sk_CoinType :: nat
  sk_Purpose :: nat

definition Bech32PrefixAccPub :: "sdk_consts \<Rightarrow> string" where
  "Bech32PrefixAccPub K = Bech32Prefix @ sk_PrefixPublic K"

definition Bech32PrefixValPub :: "sdk_consts \<Rightarrow> string" where
  "Bech32PrefixValPub K =
     Bech32Prefix @ PrefixValidator (sk_bech32 K) @ PrefixOperator (sk_bech32 K) @ sk_PrefixPublic K"

definition Bech32PrefixConsPub :: "sdk_consts \<Rightarrow> string" where
  "Bech32PrefixConsPub K =
     Bech32Prefix @ PrefixValidator (sk_bech32 K) @ PrefixConsensus (sk_bech32 K) @ sk_PrefixPublic K"

definition SetBech32Prefixes :: "sdk_consts \<Rightarrow> (sdk_config, unit) op" where
  "SetBech32Prefixes K =
     op_bind (set_config (\<lambda>c. c\<lparr>sc_account := (Bech32PrefixAccAddr, Bech32PrefixAccPub K)\<rparr>)) (\<lambda>_.
     op_bind (set_config (\<lambda>c. c\<lparr>sc_validator := (Bech32PrefixValAddr (sk_bech32 K), Bech32PrefixValPub K)\<rparr>)) (\<lambda>_.
     set_config (\<lambda>c. c\<lparr>sc_consensus := (Bech32PrefixConsAddr (sk_bech32 K), Bech32PrefixConsPub K)\<rparr>)))"

definition SetBip44CoinType :: "sdk_consts \<Rightarrow> (sdk_config, unit) op" where
  "SetBip44CoinType K =
     op_bind (set_config (\<lambda>c. c\<lparr>sc_coin := (sk_CoinType K, snd (sc_coin c))\<rparr>)) (\<lambda>_.
     set_config (\<lambda>c. c\<lparr>sc_coin := (fst (sc_coin c), sk_Purpose K)\<rparr>))"

definition SetAddressPrefixes :: "sdk_consts \<Rightarrow> (sdk_config, unit) op" where
  "SetAddressPrefixes K = set_config (\<lambda>c. c\<lparr>sc_verifier := Some (address_verifier (sk_MaxAddrLen K))\<rparr>)"

definition Seal :: "(sdk_config, unit) op" where
  "Seal c = (Ok (), c\<lparr>sc_sealed := True\<rparr>)"

definition SetupConfig :: "sdk_consts \<Rightarrow> (sdk_config, unit) op" where
  "SetupConfig K =
     op_bind (SetBech32Prefixes K) (\<lambda>_. op_bind (SetBip44CoinType K) (\<lambda>_.
     op_bind (SetAddressPrefixes K) (\<lambda>_. Seal)))"

definition HumanReadableCoinUnit :: string where
  "HumanReadableCoinUnit = ''PICA''"

definition BaseCoinUnit :: string where
  "BaseCoinUnit = ''upica''"

text \<open>\<open>register\<close> is \<open>sdk.RegisterDenom\<close>, with the unit as a decimal.\<close>

definition RegisterDenoms :: "(string \<Rightarrow> Dec \<Rightarrow> ('d, unit) op) \<Rightarrow> ('d, unit) op" where
  "RegisterDenoms register =
     op_bind (op_must (register HumanReadableCoinUnit dec_unit)) (\<lambda>_.
     op_must (register BaseCoinUnit (10 ^ 12)))"

definition BaseDenomUnit :: nat where
  "BaseDenomUnit = 12"

definition AllCapabilities :: "string list" where
  "AllCapabilities =
     [''iterator'', ''staking'', ''stargate'', ''cosmwasm_1_1'', ''cosmwasm_1_2'', ''cosmwasm_1_3'', ''cosmwasm_1_4'']"

section \<open>What the nodes promise\<close>

text \<open>A development key replaces governance for the two wasm keepers and for no other.\<close>

lemma devnet_key_scope:
  "au \<noteq> GovOrDevnet \<Longrightarrow> authority_of govAddr (Some key) au = authority_of govAddr None au"
  by (cases au) (simp_all add: authority_of_def)

lemma devnet_keepers: "answers_to GovOrDevnet = [Wasm08Keeper, wasmKeeper]"
  by code_simp

text \<open>A height on the skip list sets no store loader; an exported application never skips.\<close>

lemma skipped_height_sets_no_loader:
  assumes "nv_upgrade_info N = Some (name, h)" "h \<in> set (ao_unsafe_skip_upgrades opts)"
    and "newApp N opts f = (Ok a, f')"
  shows "na_store_loader a = None"
proof -
  have "foldl (\<lambda>hs x. insert x hs) H hs = H \<union> set hs" for H :: "i64 set" and hs
    by (induction hs arbitrary: H) auto
  with assms show ?thesis
    by (auto simp: newApp_def NewComposableApp_def setupUpgradeStoreLoaders_def op_bind_eq_Ok op_lift_def Let_def)
qed

lemma export_at_height_loads_it:
  assumes "appExport N export height zero jailed opts f = (Ok e, f')" "height \<noteq> - 1"
  shows "\<exists>a f1 f2. nv_load N (Some height) f1 = (Ok (), f2) \<and> export a zero jailed f2 = (Ok e, f') \<and>
    na_args a = export_args False (the (ao_home opts))"
  using assms
  by (auto simp: appExport_def NewComposableApp_def LoadHeight_def op_bind_eq_Ok op_lift_def export_args_def Let_def
      split: option.splits if_splits) (metis (no_types, lifting) node_app.select_convs(1))+

text \<open>The configuration file says that no instance is kept in memory, the configuration keeps one.\<close>

lemma template_differs_from_config:
  "LruSize (snd (snd (initAppConfig c t))) = 1"
  "\<exists>u. fst (initAppConfig c t) = u @ ''lru_size = 0''"
proof -
  show "LruSize (snd (snd (initAppConfig c t))) = 1" by (simp add: initAppConfig_def Let_def)
  have "\<exists>u. wasm_template = u @ ''lru_size = 0''"
    by (rule exI [where x = "take (length wasm_template - 12) wasm_template"]) code_simp
  then show "\<exists>u. fst (initAppConfig c t) = u @ ''lru_size = 0''"
    by (auto simp: initAppConfig_def Let_def) (metis append.assoc)
qed

text \<open>The set-up succeeds on a fresh configuration and seals it: a second one panics.\<close>

lemma setup_seals:
  assumes "\<not> sc_sealed c"
  obtains c' where "SetupConfig K c = (Ok (), c')" "sc_sealed c'" "sc_account c' = (Bech32PrefixAccAddr, Bech32PrefixAccPub K)"
    "sc_verifier c' = Some (address_verifier (sk_MaxAddrLen K))" "SetupConfig K c' = (Panic, c')"
proof -
  define c' where "c' = snd (SetupConfig K c)"
  have "SetupConfig K c = (Ok (), c')" "sc_sealed c'" "sc_account c' = (Bech32PrefixAccAddr, Bech32PrefixAccPub K)"
    "sc_verifier c' = Some (address_verifier (sk_MaxAddrLen K))"
    using assms by (simp_all add: c'_def SetupConfig_def SetBech32Prefixes_def SetBip44CoinType_def
        SetAddressPrefixes_def Seal_def set_config_def op_bind_def)
  moreover from this(2) have "SetupConfig K c' = (Panic, c')"
    by (simp add: SetupConfig_def SetBech32Prefixes_def set_config_def op_bind_def)
  ultimately show ?thesis using that by blast
qed

text \<open>
  The base unit that is registered is a millionth of the display unit; the tokens of the chain, and the power
  reduction of staking, count in units of \<open>10 ^ -12\<close>.
\<close>

lemma registered_unit_differs:
  assumes "\<And>n u d. register n u d = (Ok (), (n, u) # d)"
  shows "RegisterDenoms register [] = (Ok (), [(''upica'', 10 ^ 12), (''PICA'', dec_unit)])"
    and "dec_unit \<noteq> 10 ^ 12 * 10 ^ BaseDenomUnit"
  using assms
  by (simp_all add: RegisterDenoms_def op_bind_def op_must_def HumanReadableCoinUnit_def BaseCoinUnit_def
      BaseDenomUnit_def dec_unit_def)

text \<open>No command sends a message that changes a rate limit, and none updates the redelegation boundary.\<close>

lemma missing_commands:
  "module_GetTxCmd ratelimit = None"
  "''GetCmdUpdateRedelegateBoundary'' \<notin> set (the (module_GetTxCmd txboundary))"
  by (simp_all add: module_GetTxCmd_def txb_GetTxCmd_def)

end
