(* ===== verification/Testnet.thy ===== *)
theory Testnet
  imports Module_Genesis
begin

text \<open>
  The files of a local test network (\<open>cmd/centaurid/cmd/testnet.go\<close>): the addresses of its nodes, the
  genesis state with the accounts of its validators, and the collection of one genesis for all nodes. The
  file system, of type \<open>'f\<close>, and the functions of the SDK over it are parameters.
\<close>

section \<open>Addresses of the nodes\<close>

text \<open>
  An IPv4 address is its three leading bytes and the last one, which the loop increments as a byte.
  \<open>parse\<close> is \<open>net.ParseIP(ip).To4()\<close>, \<open>show_ip\<close> prints an address, \<open>external\<close> asks the machine for its own.
\<close>

type_synonym ipv4 = "8 word list \<times> 8 word"

fun inc_last :: "nat \<Rightarrow> ipv4 \<Rightarrow> ipv4" where
  "inc_last 0 ip = ip"
| "inc_last (Suc i) (net, b) = inc_last i (net, b + 1)"

definition calculateIP :: "(string \<Rightarrow> ipv4 option) \<Rightarrow> (ipv4 \<Rightarrow> string) \<Rightarrow> string \<Rightarrow> nat \<Rightarrow> string res" where
  "calculateIP parse show_ip ip i =
     (case parse ip of
        None \<Rightarrow> Err (ErrPlain ''non ipv4 address'')
      | Some ipv4 \<Rightarrow> Ok (show_ip (inc_last i ipv4)))"

definition getIP ::
    "(string \<Rightarrow> ipv4 option) \<Rightarrow> (ipv4 \<Rightarrow> string) \<Rightarrow> string res \<Rightarrow> nat \<Rightarrow> string \<Rightarrow> string res" where
  "getIP parse show_ip external i startingIPAddr =
     (if startingIPAddr = [] then external else calculateIP parse show_ip startingIPAddr i)"

section \<open>The genesis of the network\<close>

record Balance =
  Bal_Address :: string
  Bal_Coins :: Coins

text \<open>The genesis states of auth and bank, of which the other fields are one component.\<close>

record ('a, 'x) auth_genesis =
  Ag_Accounts :: "'a list"
  Ag_rest :: 'x

record 'y bank_genesis =
  Bg_Balances :: "Balance list"
  Bg_Supply :: Coins
  Bg_rest :: 'y

text \<open>
  \<open>te_sanitize\<close> is \<open>SanitizeGenesisBalances\<close>, \<open>te_add\<close> is \<open>Coins.Add\<close>, \<open>te_pack\<close> packs the accounts and
  \<open>te_app_json\<close> renders the states of all modules.
\<close>

record ('g, 'a, 'x, 'y, 'f) testnet_env =
  te_auth :: "('a, 'x) auth_genesis json_codec"
  te_bank :: "'y bank_genesis json_codec"
  te_pack :: "'g list \<Rightarrow> 'a list res"
  te_sanitize :: "Balance list \<Rightarrow> Balance list"
  te_add :: "Coins \<Rightarrow> Coins \<Rightarrow> Coins res"
  te_app_json :: "(string \<Rightarrow> bytes) \<Rightarrow> bytes res"
  te_save :: "string \<Rightarrow> string \<Rightarrow> bytes \<Rightarrow> ('f, unit) op"

fun sum_supply :: "(Coins \<Rightarrow> Coins \<Rightarrow> Coins res) \<Rightarrow> Coins \<Rightarrow> Balance list \<Rightarrow> Coins res" where
  "sum_supply add supply [] = Ok supply"
| "sum_supply add supply (bal # bals) = res_bind (add supply (Bal_Coins bal)) (\<lambda>s. sum_supply add s bals)"

definition network_state ::
    "('g, 'a, 'x, 'y, 'f) testnet_env \<Rightarrow> (string \<Rightarrow> bytes) \<Rightarrow> 'g list \<Rightarrow> Balance list \<Rightarrow> (string \<Rightarrow> bytes) res" where
  "network_state E appGenState genAccounts genBalances =
     res_bind (res_must (UnmarshalJSON (te_auth E) (appGenState ''auth''))) (\<lambda>authGenState.
     res_bind (te_pack E genAccounts) (\<lambda>accounts.
     res_bind (res_must (MarshalJSON (te_auth E) (authGenState\<lparr>Ag_Accounts := accounts\<rparr>))) (\<lambda>auth_json.
     let appGenState = appGenState(''auth'' := auth_json) in
     res_bind (res_must (UnmarshalJSON (te_bank E) (appGenState ''bank''))) (\<lambda>bankGenState.
     let balances = te_sanitize E genBalances in
     res_bind (sum_supply (te_add E) (Bg_Supply bankGenState) balances) (\<lambda>supply.
     res_bind (res_must (MarshalJSON (te_bank E)
                 (bankGenState\<lparr>Bg_Balances := balances, Bg_Supply := supply\<rparr>))) (\<lambda>bank_json.
       Ok (appGenState(''bank'' := bank_json))))))))"

text \<open>The same genesis is saved in the file of every node; \<open>genFiles[i]\<close> panics beyond the list.\<close>

definition initGenFiles ::
    "('g, 'a, 'x, 'y, 'f) testnet_env \<Rightarrow> (string \<Rightarrow> bytes) \<Rightarrow> string \<Rightarrow> 'g list \<Rightarrow> Balance list \<Rightarrow> string list \<Rightarrow> nat \<Rightarrow>
     ('f, unit) op" where
  "initGenFiles E default_states chainID genAccounts genBalances genFiles numValidators =
     op_bind (op_lift (res_bind (network_state E default_states genAccounts genBalances) (te_app_json E)))
       (\<lambda>appGenStateJSON.
          op_each (\<lambda>i. if i < length genFiles then te_save E (genFiles ! i) chainID appGenStateJSON else op_lift Panic)
            [0..<numValidators])"

section \<open>Collecting the genesis\<close>

text \<open>
  \<open>gf_read\<close> is \<open>GenesisDocFromFile\<close>, \<open>gf_app_state\<close> is \<open>GenAppStateFromConfig\<close> for a node (its directory, name,
  id and key) and \<open>gf_export\<close> is \<open>ExportGenesisFileWithTime\<close>; \<open>gf_dir\<close> and \<open>gf_genesis\<close> build the paths.
\<close>

record ('d, 'k, 'f) genfile_env =
  gf_dir :: "string \<Rightarrow> string"
  gf_genesis :: "string \<Rightarrow> string"
  gf_read :: "string \<Rightarrow> 'f \<Rightarrow> 'd res"
  gf_app_state :: "string \<Rightarrow> string \<Rightarrow> string \<Rightarrow> string \<Rightarrow> 'k \<Rightarrow> 'd \<Rightarrow> ('f, bytes) op"
  gf_export :: "string \<Rightarrow> string \<Rightarrow> bytes \<Rightarrow> gotime \<Rightarrow> ('f, unit) op"

text \<open>A node is its name with its id and key. The first application state is kept for all of them.\<close>

fun collectGenFiles ::
    "('d, 'k, 'f) genfile_env \<Rightarrow> string \<Rightarrow> gotime \<Rightarrow> bytes option \<Rightarrow> (string \<times> string \<times> 'k) list \<Rightarrow> ('f, unit) op" where
  "collectGenFiles E chainID genTime appState [] f = (Ok (), f)"
| "collectGenFiles E chainID genTime appState ((nodeDirName, nodeID, valPubKey) # nodes) f =
     (let nodeDir = gf_dir E nodeDirName;
          genFile = gf_genesis E nodeDir
      in op_bind (op_lift (gf_read E genFile f)) (\<lambda>genDoc.
         op_bind (gf_app_state E chainID nodeDir nodeDirName nodeID valPubKey genDoc) (\<lambda>nodeAppState.
           let appState = (case appState of None \<Rightarrow> nodeAppState | Some a \<Rightarrow> a)
           in op_bind (gf_export E genFile chainID appState genTime) (\<lambda>_.
              collectGenFiles E chainID genTime (Some appState) nodes))) f)"

section \<open>What the files say\<close>

lemma inc_last_eq: "inc_last i (net, b) = (net, b + of_nat i)"
  by (induction i arbitrary: b) (simp_all add: algebra_simps)

text \<open>Up to 256 nodes have different addresses; then the last byte wraps and the first address comes back.\<close>

lemma node_addresses_differ:
  assumes "parse ip = Some a" "inj show_ip" "i < 256" "j < 256" "i \<noteq> j"
  shows "calculateIP parse show_ip ip i \<noteq> calculateIP parse show_ip ip j"
proof -
  obtain net b where a: "a = (net, b)" by (cases a)
  have "(of_nat i :: 8 word) \<noteq> of_nat j"
    using assms(3-5) by (simp add: word_of_nat_eq_iff take_bit_nat_eq_self)
  then show ?thesis
    using assms(1,2) a by (simp add: calculateIP_def inc_last_eq inj_eq)
qed

lemma node_addresses_wrap: "calculateIP parse show_ip ip (i + 256) = calculateIP parse show_ip ip i"
proof -
  have "(of_nat (i + 256) :: 8 word) = of_nat i" by (simp add: word_of_nat_eq_iff take_bit_eq_mod)
  then have "inc_last (i + 256) a = inc_last i a" for a
    by (cases a) (simp only: inc_last_eq)
  then show ?thesis by (simp add: calculateIP_def split: option.split)
qed

text \<open>The supply of the genesis is the supply it started with and the balances of all accounts.\<close>

definition adds_amounts :: "(Coins \<Rightarrow> Coins \<Rightarrow> Coins res) \<Rightarrow> bool" where
  "adds_amounts add \<longleftrightarrow> (\<forall>a b c d. add a b = Ok c \<longrightarrow> AmountOf c d = AmountOf a d + AmountOf b d)"

lemma sum_supply_amount:
  assumes "adds_amounts add" "sum_supply add s bals = Ok t"
  shows "AmountOf t d = AmountOf s d + (\<Sum>b \<leftarrow> bals. AmountOf (Bal_Coins b) d)"
  using assms(2)
proof (induction bals arbitrary: s)
  case (Cons b bals)
  then obtain s' where "add s (Bal_Coins b) = Ok s'" "sum_supply add s' bals = Ok t" by auto
  with Cons.IH [of s'] assms(1) show ?case unfolding adds_amounts_def by simp
qed simp

lemma genesis_supply_covers_balances:
  assumes "json_codec_laws (te_bank E)" "adds_amounts (te_add E)"
    and "network_state E st accs bals = Ok st'" "''bank'' \<noteq> ''auth''"
    and "UnmarshalJSON (te_bank E) (st ''bank'') = Ok bank"
  shows "\<exists>bank'. UnmarshalJSON (te_bank E) (st' ''bank'') = Ok bank' \<and> Bg_Balances bank' = te_sanitize E bals \<and>
           (\<forall>d. AmountOf (Bg_Supply bank') d =
              AmountOf (Bg_Supply bank) d + (\<Sum>b \<leftarrow> te_sanitize E bals. AmountOf (Bal_Coins b) d))"
proof -
  from assms(3,5) obtain total bz where
    sum: "sum_supply (te_add E) (Bg_Supply bank) (te_sanitize E bals) = Ok total" and
    enc: "res_must (MarshalJSON (te_bank E) (bank\<lparr>Bg_Balances := te_sanitize E bals, Bg_Supply := total\<rparr>)) = Ok bz" and
    st': "st' ''bank'' = bz"
    by (auto simp: network_state_def Let_def)
  let ?g = "bank\<lparr>Bg_Balances := te_sanitize E bals, Bg_Supply := total\<rparr>"
  obtain bz' where bz': "MarshalJSON (te_bank E) ?g = Ok bz'" "UnmarshalJSON (te_bank E) bz' = Ok ?g"
    using assms(1) unfolding json_codec_laws_def by blast
  with enc st' have "UnmarshalJSON (te_bank E) (st' ''bank'') = Ok ?g" by simp
  then show ?thesis using sum_supply_amount [OF assms(2) sum] by simp
qed

text \<open>
  Every node gets one and the same application state, that of the first node: in the file system below, which
  records the exports, the states are all equal.
\<close>

definition only_exports :: "bytes \<Rightarrow> (string \<times> bytes) list \<Rightarrow> (string \<times> bytes) list \<Rightarrow> bool" where
  "only_exports a f f' \<longleftrightarrow> (\<exists>es. f' = es @ f \<and> (\<forall>e \<in> set es. snd e = a))"

lemma only_exports_refl [simp]: "only_exports a f f"
  by (simp add: only_exports_def)

lemma only_exports_step: "only_exports a ((p, a) # f) f' \<Longrightarrow> only_exports a f f'"
  unfolding only_exports_def by (elim exE) (rule_tac x = "es @ [(p, a)]" in exI, simp)

lemma collect_canonical:
  assumes "\<And>p c a t f. snd (gf_export E p c a t f) = (p, a) # f"
    and "\<And>c d n i k g f. snd (gf_app_state E c d n i k g f) = f"
  shows "only_exports a f (snd (collectGenFiles E chainID genTime (Some a) nodes f))"
proof (induction nodes arbitrary: f)
  case (Cons n nodes)
  obtain name i k where n: "n = (name, i, k)" by (cases n)
  let ?p = "gf_genesis E (gf_dir E name)"
  show ?case
  proof (cases "gf_read E ?p f")
    case (Ok doc)
    obtain r where s: "gf_app_state E chainID (gf_dir E name) name i k doc f = (r, f)"
      using assms(2) by (metis prod.collapse)
    obtain u where e: "gf_export E ?p chainID a genTime f = (u, (?p, a) # f)"
      using assms(1) by (metis prod.collapse)
    have "only_exports a f ((?p, a) # f)"
      using only_exports_step [OF only_exports_refl] .
    then show ?thesis
      using n Ok s e only_exports_step [OF Cons.IH]
      by (cases r; cases u) (auto simp: op_bind_def op_lift_def Let_def)
  qed (use n in \<open>simp_all add: op_bind_def op_lift_def\<close>)
qed simp

end
