(* ===== verification/Testnet_Init.thy ===== *)
theory Testnet_Init
  imports Testnet Node
begin

text \<open>
  The set-up of a local test network (\<open>cmd/centaurid/cmd/testnet.go\<close>), over the parts of theory \<open>Testnet\<close>: the flags of the
  two commands, the files, keys and first transaction of each node, the order in which all of it is written and what
  is cleaned up when a step fails, and the start of a network in one process.
\<close>

section \<open>Flags\<close>

text \<open>The flags with their default texts; \<open>bondDenom\<close> is the staking denomination of the SDK.\<close>

definition addTestnetFlagsToCmd :: "string \<Rightarrow> (string \<times> string) list" where
  "addTestnetFlagsToCmd bondDenom =
     [(''v'', ''4''), (''output-dir'', ''./.testnets''), (''chain-id'', []),
      (''minimum-gas-prices'', ''0.000006'' @ bondDenom), (''algo'', ''secp256k1'')]"

definition testnetInitFilesCmd_flags :: "string \<Rightarrow> (string \<times> string) list" where
  "testnetInitFilesCmd_flags bondDenom =
     addTestnetFlagsToCmd bondDenom @
     [(''node-dir-prefix'', ''node''), (''node-daemon-home'', ''simd''), (''starting-ip-address'', ''192.168.0.1''),
      (''keyring-backend'', ''os'')]"

definition testnetStartCmd_flags :: "string \<Rightarrow> (string \<times> string) list" where
  "testnetStartCmd_flags bondDenom =
     addTestnetFlagsToCmd bondDenom @
     [(''enable-logging'', ''false''), (''rpc.address'', ''tcp://0.0.0.0:26657''), (''api.address'', ''tcp://0.0.0.0:1317''),
      (''grpc.address'', ''0.0.0.0:9090''), (''print-mnemonic'', ''true'')]"

record initArgs =
  ia_algo :: string
  ia_chainID :: string
  ia_keyringBackend :: string
  ia_minGasPrices :: string
  ia_nodeDaemonHome :: string
  ia_nodeDirPrefix :: string
  ia_numValidators :: int
  ia_outputDir :: string
  ia_startingIPAddress :: string

record startArgs =
  sa_algo :: string
  sa_apiAddress :: string
  sa_chainID :: string
  sa_enableLogging :: bool
  sa_grpcAddress :: string
  sa_minGasPrices :: string
  sa_numValidators :: int
  sa_outputDir :: string
  sa_printMnemonic :: bool
  sa_rpcAddress :: string

text \<open>The text of a flag, with its default; \<open>read_int\<close> and \<open>read_bool\<close> parse it. An error is dropped, as in the code.\<close>

definition flag :: "(string \<rightharpoonup> string) \<Rightarrow> (string \<times> string) list \<Rightarrow> string \<Rightarrow> string" where
  "flag given defaults n =
     (case given n of Some v \<Rightarrow> v | None \<Rightarrow> (case map_of defaults n of Some v \<Rightarrow> v | None \<Rightarrow> []))"

definition testnetInitFilesCmd :: "(string \<Rightarrow> int) \<Rightarrow> string \<Rightarrow> (string \<rightharpoonup> string) \<Rightarrow> initArgs" where
  "testnetInitFilesCmd read_int bondDenom given =
     (let get = flag given (testnetInitFilesCmd_flags bondDenom)
      in \<lparr>ia_algo = get ''algo'', ia_chainID = get ''chain-id'', ia_keyringBackend = get ''keyring-backend'',
          ia_minGasPrices = get ''minimum-gas-prices'', ia_nodeDaemonHome = get ''node-daemon-home'',
          ia_nodeDirPrefix = get ''node-dir-prefix'', ia_numValidators = read_int (get ''v''),
          ia_outputDir = get ''output-dir'', ia_startingIPAddress = get ''starting-ip-address''\<rparr>)"

definition testnetStartCmd ::
    "(string \<Rightarrow> int) \<Rightarrow> (string \<Rightarrow> bool) \<Rightarrow> string \<Rightarrow> (string \<rightharpoonup> string) \<Rightarrow> startArgs" where
  "testnetStartCmd read_int read_bool bondDenom given =
     (let get = flag given (testnetStartCmd_flags bondDenom)
      in \<lparr>sa_algo = get ''algo'', sa_apiAddress = get ''api.address'', sa_chainID = get ''chain-id'',
          sa_enableLogging = read_bool (get ''enable-logging''), sa_grpcAddress = get ''grpc.address'',
          sa_minGasPrices = get ''minimum-gas-prices'', sa_numValidators = read_int (get ''v''),
          sa_outputDir = get ''output-dir'', sa_printMnemonic = read_bool (get ''print-mnemonic''),
          sa_rpcAddress = get ''rpc.address''\<rparr>)"

section \<open>Files\<close>

text \<open>\<open>join\<close> is \<open>filepath.Join\<close>; \<open>ensure_dir\<close> and \<open>write\<close> are those of the libraries.\<close>

definition writeFile ::
    "(string list \<Rightarrow> string) \<Rightarrow> (string \<Rightarrow> ('f, unit) op) \<Rightarrow> (string \<Rightarrow> bytes \<Rightarrow> ('f, unit) op) \<Rightarrow>
     string \<Rightarrow> string \<Rightarrow> bytes \<Rightarrow> ('f, unit) op" where
  "writeFile join ensure_dir write n dir contents =
     (let writePath = join [dir];
          file = join [writePath, n]
      in op_bind (ensure_dir writePath) (\<lambda>_. write file contents))"

definition PowerReduction :: int where
  "PowerReduction = 10 ^ 12"

text \<open>\<open>TokensFromConsensusPower\<close> of the SDK multiplies by the power reduction, which \<open>init\<close> of \<open>app.go\<close> sets.\<close>

definition TokensFromConsensusPower :: "int \<Rightarrow> int" where
  "TokensFromConsensusPower n = n * PowerReduction"

section \<open>The nodes\<close>

text \<open>
  The libraries: directories and configuration files, the network address of a node (\<open>getIP\<close>), its keys
  (\<open>'k\<close>), the keyring (\<open>'q\<close>) with its algorithms (\<open>'l\<close>), and the first transaction of a validator
  (\<open>'m\<close>), which is signed and encoded with its memo.
\<close>

record ('k, 'q, 'l, 'm, 'f) node_files =
  ne_join :: "string list \<Rightarrow> string"
  ne_MkdirAll :: "string \<Rightarrow> ('f, unit) op"
  ne_RemoveAll :: "string \<Rightarrow> 'f \<Rightarrow> 'f"
  ne_EnsureDir :: "string \<Rightarrow> ('f, unit) op"
  ne_WriteFile :: "string \<Rightarrow> bytes \<Rightarrow> ('f, unit) op"
  ne_getIP :: "nat \<Rightarrow> string \<Rightarrow> string res"
  ne_InitializeNodeValidatorFiles :: "string \<Rightarrow> string \<Rightarrow> ('f, string \<times> 'k) op"
  ne_GenesisFile :: "string \<Rightarrow> string"
  ne_keyring :: "string \<Rightarrow> string \<Rightarrow> ('f, 'q) op"
  ne_algo :: "'q \<Rightarrow> string \<Rightarrow> 'l res"
  ne_GenerateSaveCoinKey :: "'q \<Rightarrow> string \<Rightarrow> 'l \<Rightarrow> ('f, bytes \<times> string) op"
  ne_secret_json :: "string \<Rightarrow> bytes res"
  ne_addr :: "bytes \<Rightarrow> string"
  ne_bondDenom :: string
  ne_NewCoin :: "string \<Rightarrow> int \<Rightarrow> Coin res"
  ne_Sort :: "Coins \<Rightarrow> Coins"
  ne_NewMsgCreateValidator :: "bytes \<Rightarrow> 'k \<Rightarrow> Coin \<Rightarrow> string \<Rightarrow> 'm res"
  ne_SignAndEncode :: "'q \<Rightarrow> string \<Rightarrow> string \<Rightarrow> string \<Rightarrow> 'm \<Rightarrow> bytes res"
  ne_WriteConfigFile :: "string \<Rightarrow> server_config \<Rightarrow> ('f, unit) op"

definition node_config :: "server_config \<Rightarrow> string \<Rightarrow> string \<Rightarrow> server_config" where
  "node_config defaults minGasPrices chainID =
     defaults\<lparr>MinGasPrices := minGasPrices, API_Enable := True, Telemetry_Enabled := True,
       Telemetry_PrometheusRetentionTime := 60, Telemetry_EnableHostnameLabel := False,
       Telemetry_GlobalLabels := [[''chain_id'', chainID]]\<rparr>"

text \<open>Some failing steps remove the output directory before they return.\<close>

definition or_clean :: "('f \<Rightarrow> 'f) \<Rightarrow> ('f, 'a) op \<Rightarrow> ('f, 'a) op" where
  "or_clean clean m f = (case m f of (Err e, f') \<Rightarrow> (Err e, clean f') | x \<Rightarrow> x)"

text \<open>What a node adds to the lists of the loop: its id and key, its genesis file, its account and its balance.\<close>

record 'k node_entry =
  en_nodeID :: string
  en_valPubKey :: 'k
  en_genFile :: string
  en_genAccount :: bytes
  en_genBalance :: Balance

definition node_coins :: "('k, 'q, 'l, 'm, 'f) node_files \<Rightarrow> Coins res" where
  "node_coins N =
     (let accTokens = TokensFromConsensusPower 1000;
          accStakingTokens = TokensFromConsensusPower 500
      in res_bind (ne_NewCoin N ''testtoken'' accTokens) (\<lambda>a.
         res_bind (ne_NewCoin N (ne_bondDenom N) accStakingTokens) (\<lambda>b.
           Ok (ne_Sort N [a, b]))))"

definition node_gentx ::
    "('k, 'q, 'l, 'm, 'f) node_files \<Rightarrow> 'q \<Rightarrow> string \<Rightarrow> string \<Rightarrow> string \<Rightarrow> bytes \<Rightarrow> 'k \<Rightarrow> bytes res" where
  "node_gentx N kb chainID memo nodeDirName addr valPubKey =
     (let valTokens = TokensFromConsensusPower 100
      in res_bind (ne_NewCoin N (ne_bondDenom N) valTokens) (\<lambda>stake.
         res_bind (ne_NewMsgCreateValidator N addr valPubKey stake nodeDirName) (\<lambda>createValMsg.
           ne_SignAndEncode N kb chainID memo nodeDirName createValMsg)))"

definition init_node ::
    "('k, 'q, 'l, 'm, 'f) node_files \<Rightarrow> server_config \<Rightarrow> initArgs \<Rightarrow> nat \<Rightarrow> ('f, 'k node_entry) op" where
  "init_node N config args i =
     (let nodeDirName = ia_nodeDirPrefix args @ show_nat i;
          nodeDir = ne_join N [ia_outputDir args, nodeDirName, ia_nodeDaemonHome args];
          gentxsDir = ne_join N [ia_outputDir args, ''gentxs''];
          save = writeFile (ne_join N) (ne_EnsureDir N) (ne_WriteFile N)
      in op_bind (or_clean (ne_RemoveAll N (ia_outputDir args)) (ne_MkdirAll N (ne_join N [nodeDir, ''config'']))) (\<lambda>_.
         op_bind (or_clean (ne_RemoveAll N (ia_outputDir args)) (op_lift (ne_getIP N i (ia_startingIPAddress args)))) (\<lambda>ip.
         op_bind (or_clean (ne_RemoveAll N (ia_outputDir args))
                    (ne_InitializeNodeValidatorFiles N nodeDir nodeDirName)) (\<lambda>(nodeID, valPubKey).
         let memo = nodeID @ ''@'' @ ip @ '':26656''
         in op_bind (ne_keyring N (ia_keyringBackend args) nodeDir) (\<lambda>kb.
         op_bind (op_lift (ne_algo N kb (ia_algo args))) (\<lambda>algo.
         op_bind (or_clean (ne_RemoveAll N (ia_outputDir args))
                    (ne_GenerateSaveCoinKey N kb nodeDirName algo)) (\<lambda>(addr, secret).
         op_bind (op_lift (ne_secret_json N secret)) (\<lambda>cliPrint.
         op_bind (save ''key_seed.json'' nodeDir cliPrint) (\<lambda>_.
         op_bind (op_lift (node_coins N)) (\<lambda>coins.
         op_bind (op_lift (node_gentx N kb (ia_chainID args) memo nodeDirName addr valPubKey)) (\<lambda>txBz.
         op_bind (save (nodeDirName @ ''.json'') gentxsDir txBz) (\<lambda>_.
         op_bind (ne_WriteConfigFile N (ne_join N [nodeDir, ''config'', ''app.toml'']) config) (\<lambda>_.
           op_lift (Ok \<lparr>en_nodeID = nodeID, en_valPubKey = valPubKey, en_genFile = ne_GenesisFile N nodeDir,
                        en_genAccount = addr,
                        en_genBalance = \<lparr>Bal_Address = ne_addr N addr, Bal_Coins = coins\<rparr>\<rparr>))))))))))))))"

fun init_nodes :: "(nat \<Rightarrow> ('f, 'e) op) \<Rightarrow> nat list \<Rightarrow> ('f, 'e list) op" where
  "init_nodes node [] = op_lift (Ok [])"
| "init_nodes node (i # is) =
     op_bind (node i) (\<lambda>e. op_bind (init_nodes node is) (\<lambda>es. op_lift (Ok (e # es))))"

text \<open>
  \<open>random\<close> is the random part of a chain identifier that is not given. A negative number of validators panics when the
  lists are made.
\<close>

definition initTestnetFiles ::
    "('k, 'q, 'l, 'm, 'f) node_files \<Rightarrow> (bytes, 'a, 'x, 'y, 'f) testnet_env \<Rightarrow> ('d, 'k, 'f) genfile_env \<Rightarrow>
     (string \<Rightarrow> bytes) \<Rightarrow> server_config \<Rightarrow> string \<Rightarrow> gotime \<Rightarrow> initArgs \<Rightarrow> ('f, unit) op" where
  "initTestnetFiles N T G default_states defaults random now args =
     (let args = (if ia_chainID args = [] then args\<lparr>ia_chainID := ''chain-'' @ random\<rparr> else args);
          chainID = ia_chainID args;
          config = node_config defaults (ia_minGasPrices args) chainID;
          n = nat (ia_numValidators args)
      in if ia_numValidators args < 0 then op_lift Panic
         else
           op_bind (init_nodes (init_node N config args) [0..<n]) (\<lambda>es.
           op_bind (initGenFiles T default_states chainID (map en_genAccount es) (map en_genBalance es)
                      (map en_genFile es) n) (\<lambda>_.
             collectGenFiles G chainID now None
               (map (\<lambda>(i, e). (ia_nodeDirPrefix args @ show_nat i, en_nodeID e, en_valPubKey e)) (enumerate 0 es)))))"

section \<open>A network in one process\<close>

record net_config =
  nc_ChainID :: string
  nc_SigningAlgo :: string
  nc_MinGasPrices :: string
  nc_NumValidators :: int
  nc_EnableTMLogging :: bool
  nc_RPCAddress :: string
  nc_APIAddress :: string
  nc_GRPCAddress :: string
  nc_PrintMnemonic :: bool

definition override_config :: "startArgs \<Rightarrow> net_config \<Rightarrow> net_config" where
  "override_config args c =
     (let c = (if sa_chainID args \<noteq> [] then c\<lparr>nc_ChainID := sa_chainID args\<rparr> else c)
      in c\<lparr>nc_SigningAlgo := sa_algo args, nc_MinGasPrices := sa_minGasPrices args,
          nc_NumValidators := sa_numValidators args, nc_EnableTMLogging := sa_enableLogging args,
          nc_RPCAddress := sa_rpcAddress args, nc_APIAddress := sa_apiAddress args,
          nc_GRPCAddress := sa_grpcAddress args, nc_PrintMnemonic := sa_printMnemonic args\<rparr>)"

text \<open>The network and the terminal: \<open>st_not_exist\<close> is whether looking for a path says that there is nothing.\<close>

record ('t, 'f) start_env =
  st_not_exist :: "string \<Rightarrow> 'f \<Rightarrow> bool"
  st_New :: "string \<Rightarrow> net_config \<Rightarrow> ('f, 't) op"
  st_WaitForHeight :: "'t \<Rightarrow> i64 \<Rightarrow> ('f, unit) op"
  st_Scanln :: "('f, unit) op"
  st_Cleanup :: "'t \<Rightarrow> ('f, unit) op"

definition startTestnet :: "('t, 'f) start_env \<Rightarrow> net_config \<Rightarrow> startArgs \<Rightarrow> ('f, unit) op" where
  "startTestnet S defaults args f =
     (let networkConfig = override_config args defaults;
          baseDir = sa_outputDir args @ ''/'' @ nc_ChainID networkConfig
      in if \<not> st_not_exist S baseDir f then (Err (ErrPlain ''testnests directory already exists''), f)
         else
           op_bind (st_New S baseDir networkConfig) (\<lambda>testnet.
           op_bind (st_WaitForHeight S testnet 1) (\<lambda>_.
           op_bind (st_Scanln S) (\<lambda>_. st_Cleanup S testnet))) f)"

section \<open>What the set-up promises\<close>

lemma init_nodes_length: "init_nodes node is f = (Ok es, f') \<Longrightarrow> length es = length is"
  by (induction "is" arbitrary: es f f') (auto simp: op_bind_eq_Ok op_lift_def)

text \<open>The genesis of every node has a file to go to: no index is out of range after the nodes are set up.\<close>

lemma genesis_files_suffice:
  assumes "init_nodes (init_node N config args) [0..<n] f = (Ok es, f')" "i < n"
  shows "i < length (map en_genFile es)"
  using assms init_nodes_length by fastforce

text \<open>Each validator stakes less than it is given, in the denomination it holds.\<close>

lemma gentx_stake_covered:
  "TokensFromConsensusPower 100 < TokensFromConsensusPower 500"
  by (simp add: TokensFromConsensusPower_def PowerReduction_def)

text \<open>A running network is stopped only after the terminal has sent a line; an error before that leaves it running.\<close>

lemma scan_error_keeps_network:
  assumes "st_not_exist S (sa_outputDir args @ ''/'' @ nc_ChainID (override_config args c)) f"
    and "st_New S (sa_outputDir args @ ''/'' @ nc_ChainID (override_config args c)) (override_config args c) f = (Ok t, f1)"
    and "st_WaitForHeight S t 1 f1 = (Ok (), f2)" "st_Scanln S f2 = (Err e, f3)"
  shows "startTestnet S c args f = (Err e, f3)"
  using assms by (simp add: startTestnet_def op_bind_def Let_def)

text \<open>Two nodes in one directory tree never share a name.\<close>

lemma node_names_differ: "i \<noteq> j \<Longrightarrow> pre @ show_nat i \<noteq> pre @ show_nat j"
  using digits_val_show_nat [of i] digits_val_show_nat [of j] by auto

end
