(* ===== verification/Ante.thy ===== *)
theory Ante
  imports Tx_Boundary_Props Tfmw_Registry
begin

text \<open>
  The ante handler of the application (\<open>app/ante\<close>): the decorator that lets only allowed relayers update
  wasm light clients, and the chain it stands in together with the decorator of \<open>x/tx-boundary\<close>. The other
  decorators are those of the SDK and of ibc-go and are parameters.
\<close>

section \<open>The relayer check\<close>

definition wasm_header_url :: string where
  "wasm_header_url = ''/ibc.lightclients.wasm.v1.Header''"

definition validMsg :: "tfmw_state \<Rightarrow> sdk_msg \<Rightarrow> unit res" where
  "validMsg s m =
     (case m of
        MsgUpdateClient None signer \<Rightarrow> Panic
      | MsgUpdateClient (Some url) signer \<Rightarrow>
          (if url = wasm_header_url \<and> \<not> HasAllowRlyAddress s signer
           then Err (ErrPlain ''permission denied'') else Ok ())
      | _ \<Rightarrow> Ok ())"

fun ibc_validAuthz :: "tfmw_state \<Rightarrow> sdk_msg option list \<Rightarrow> unit res" where
  "ibc_validAuthz s [] = Ok ()"
| "ibc_validAuthz s (None # vs) = Err (ErrLib ''cannot unmarshal authz exec msgs'')"
| "ibc_validAuthz s (Some innerMsg # vs) = res_bind (validMsg s innerMsg) (\<lambda>_. ibc_validAuthz s vs)"

fun ValidateIBCUpdateClientMsg :: "tfmw_state \<Rightarrow> sdk_msg list \<Rightarrow> unit res" where
  "ValidateIBCUpdateClientMsg s [] = Ok ()"
| "ValidateIBCUpdateClientMsg s (m # msgs) =
     res_bind (case m of MsgExec ms \<Rightarrow> ibc_validAuthz s ms | _ \<Rightarrow> validMsg s m)
       (\<lambda>_. ValidateIBCUpdateClientMsg s msgs)"

section \<open>Decorators\<close>

text \<open>
  A handler takes the context, the transaction and whether it is simulated, and returns the new context;
  a decorator builds one from the handler that follows it. \<open>msgs\<close> reads the messages of a transaction.
\<close>

type_synonym ('w, 't) ante_handler = "ctx \<Rightarrow> 't \<Rightarrow> bool \<Rightarrow> ('w, ctx) op"
type_synonym ('w, 't) ante_decorator = "('w, 't) ante_handler \<Rightarrow> ('w, 't) ante_handler"

definition IBCPermission_AnteHandle ::
    "('w \<Rightarrow> tfmw_state) \<Rightarrow> ('t \<Rightarrow> sdk_msg list) \<Rightarrow> ('w, 't) ante_decorator" where
  "IBCPermission_AnteHandle tfmw msgs nxt ctx tx simulate w =
     (if simulate then nxt ctx tx simulate w
      else op_bind (op_lift (ValidateIBCUpdateClientMsg (tfmw w) (msgs tx))) (\<lambda>_. nxt ctx tx simulate) w)"

text \<open>The decorator of \<open>x/tx-boundary\<close> over the state of the chain.\<close>

definition Staking_decorator ::
    "lib \<Rightarrow> ('w \<Rightarrow> txb_state) \<Rightarrow> (txb_state \<Rightarrow> 'w \<Rightarrow> 'w) \<Rightarrow> ('t \<Rightarrow> sdk_msg list) \<Rightarrow> ('w, 't) ante_decorator" where
  "Staking_decorator L get put msgs nxt ctx tx simulate w =
     (if simulate then nxt ctx tx simulate w
      else op_bind (op_on get put (ValidateStakingMsgs L ctx (msgs tx))) (\<lambda>_. nxt ctx tx simulate) w)"

record ('w, 't) sdk_decorators =
  SetUpContextDecorator :: "('w, 't) ante_decorator"
  ValidateBasicDecorator :: "('w, 't) ante_decorator"
  ConsumeGasForTxSizeDecorator :: "('w, 't) ante_decorator"
  DeductFeeDecorator :: "('w, 't) ante_decorator"
  TxTimeoutHeightDecorator :: "('w, 't) ante_decorator"
  ValidateMemoDecorator :: "('w, 't) ante_decorator"
  SetPubKeyDecorator :: "('w, 't) ante_decorator"
  ValidateSigCountDecorator :: "('w, 't) ante_decorator"
  SigGasConsumeDecorator :: "('w, 't) ante_decorator"
  SigVerificationDecorator :: "('w, 't) ante_decorator"
  IncrementSequenceDecorator :: "('w, 't) ante_decorator"
  RedundantRelayDecorator :: "('w, 't) ante_decorator"

text \<open>\<open>ChainAnteDecorators\<close> is \<open>sdk.ChainAnteDecorators\<close>.\<close>

definition NewAnteHandler ::
    "(('w, 't) ante_decorator list \<Rightarrow> ('w, 't) ante_handler) \<Rightarrow> ('w, 't) sdk_decorators \<Rightarrow> lib \<Rightarrow>
     ('w \<Rightarrow> tfmw_state) \<Rightarrow> ('w \<Rightarrow> txb_state) \<Rightarrow> (txb_state \<Rightarrow> 'w \<Rightarrow> 'w) \<Rightarrow> ('t \<Rightarrow> sdk_msg list) \<Rightarrow>
     ('w, 't) ante_handler" where
  "NewAnteHandler ChainAnteDecorators D L tfmw get put msgs =
     ChainAnteDecorators
       [SetUpContextDecorator D,
        ValidateBasicDecorator D,
        ConsumeGasForTxSizeDecorator D,
        DeductFeeDecorator D,
        TxTimeoutHeightDecorator D,
        ValidateMemoDecorator D,
        ConsumeGasForTxSizeDecorator D,
        IBCPermission_AnteHandle tfmw msgs,
        Staking_decorator L get put msgs,
        SetPubKeyDecorator D,
        ValidateSigCountDecorator D,
        SigGasConsumeDecorator D,
        SigVerificationDecorator D,
        IncrementSequenceDecorator D,
        RedundantRelayDecorator D]"

section \<open>What the check accepts\<close>

text \<open>The messages the check looks at: those of the transaction and those directly inside an authz message.\<close>

fun reached :: "sdk_msg \<Rightarrow> sdk_msg option list" where
  "reached (MsgExec ms) = ms"
| "reached m = [Some m]"

definition permitted :: "tfmw_state \<Rightarrow> sdk_msg option \<Rightarrow> bool" where
  "permitted s m \<longleftrightarrow>
     (case m of
        None \<Rightarrow> False
      | Some (MsgUpdateClient url signer) \<Rightarrow>
          url \<noteq> None \<and> (url = Some wasm_header_url \<longrightarrow> HasAllowRlyAddress s signer)
      | Some _ \<Rightarrow> True)"

lemma validMsg_Ok: "validMsg s m = Ok u \<longleftrightarrow> permitted s (Some m)"
  by (auto simp: validMsg_def permitted_def split: sdk_msg.splits option.splits)

lemma ibc_validAuthz_Ok: "ibc_validAuthz s ms = Ok u \<longleftrightarrow> list_all (permitted s) ms"
  by (induction s ms rule: ibc_validAuthz.induct) (auto simp: validMsg_Ok permitted_def)

lemma ValidateIBCUpdateClientMsg_Ok:
  "ValidateIBCUpdateClientMsg s msgs = Ok u \<longleftrightarrow> list_all (permitted s) (concat (map reached msgs))"
proof (induction msgs)
  case (Cons m msgs)
  then show ?case by (cases m) (auto simp: validMsg_Ok ibc_validAuthz_Ok)
qed simp

lemma nested_exec_unchecked:
  "ValidateIBCUpdateClientMsg s [MsgExec [Some (MsgExec [Some (MsgUpdateClient (Some wasm_header_url) signer)])]] = Ok ()"
  by (simp add: validMsg_def)

text \<open>
  The documented behaviour the acceptance theorem relies on: a chain runs its first decorator around the
  rest, and the decorators of the libraries accept only what the rest accepts, on the same transaction and
  without touching the two stores read here.
\<close>

definition chain_laws :: "(('w, 't) ante_decorator list \<Rightarrow> ('w, 't) ante_handler) \<Rightarrow> bool" where
  "chain_laws chain \<longleftrightarrow> (\<forall>d ds. chain (d # ds) = d (chain ds))"

definition passes_on :: "('w \<Rightarrow> 'a) \<Rightarrow> ('w, 't) ante_decorator \<Rightarrow> bool" where
  "passes_on view d \<longleftrightarrow>
     (\<forall>nxt ctx tx sim w c w'. d nxt ctx tx sim w = (Ok c, w') \<longrightarrow>
        (\<exists>ctx1 w1 c1 w2. view w1 = view w \<and> BlockHeight ctx1 = BlockHeight ctx \<and> nxt ctx1 tx sim w1 = (Ok c1, w2)))"

definition sdk_decorators_pass_on :: "('w \<Rightarrow> 'a) \<Rightarrow> ('w, 't) sdk_decorators \<Rightarrow> bool" where
  "sdk_decorators_pass_on view D \<longleftrightarrow>
     list_all (passes_on view)
       [SetUpContextDecorator D, ValidateBasicDecorator D, ConsumeGasForTxSizeDecorator D, DeductFeeDecorator D,
        TxTimeoutHeightDecorator D, ValidateMemoDecorator D]"

lemma chain_passes_on:
  assumes "chain_laws chain" "list_all (passes_on view) ds" "chain (ds @ es) ctx tx sim w = (Ok c, w')"
  shows "\<exists>ctx1 w1 c1 w2. view w1 = view w \<and> BlockHeight ctx1 = BlockHeight ctx \<and> chain es ctx1 tx sim w1 = (Ok c1, w2)"
  using assms(2,3)
proof (induction ds arbitrary: ctx w c w')
  case (Cons d ds)
  have "d (chain (ds @ es)) ctx tx sim w = (Ok c, w')"
    using Cons.prems(2) assms(1) by (simp add: chain_laws_def)
  with Cons.prems(1) obtain ctx1 w1 c1 w2 where
    "view w1 = view w" "BlockHeight ctx1 = BlockHeight ctx" "chain (ds @ es) ctx1 tx sim w1 = (Ok c1, w2)"
    by (auto simp: passes_on_def) blast
  with Cons.IH [of ctx1 w1 c1 w2] Cons.prems(1) show ?case by auto
qed auto

text \<open>
  C17: A transaction the ante handler accepts when it is not simulated has only permitted client updates, at
  the top level and directly inside authz messages: each update with a wasm header is signed by a relayer of
  the allow list (or the list is empty), and no packed message is unreadable. Its staking messages were
  counted against the limits of \<open>x/tx-boundary\<close> at the height of the block and none was over them.
\<close>

theorem accepted_tx_is_permitted:
  assumes chain: "chain_laws chain"
    and D: "sdk_decorators_pass_on (\<lambda>w. (tfmw w, get w)) D"
    and run: "NewAnteHandler chain D L tfmw get put msgs ctx tx False w = (Ok c, w')"
  shows "list_all (permitted (tfmw w)) (concat (map reached (msgs tx))) \<and>
    (\<exists>ctx1. BlockHeight ctx1 = BlockHeight ctx \<and>
       fst (op_each (validate_leaf L ctx1) (concat (map flat (msgs tx))) (get w)) = Ok ())"
proof -
  let ?rest = "[SetPubKeyDecorator D, ValidateSigCountDecorator D, SigGasConsumeDecorator D, SigVerificationDecorator D,
    IncrementSequenceDecorator D, RedundantRelayDecorator D]"
  let ?mid = "[IBCPermission_AnteHandle tfmw msgs, Staking_decorator L get put msgs]"
  let ?pre = "[SetUpContextDecorator D, ValidateBasicDecorator D, ConsumeGasForTxSizeDecorator D, DeductFeeDecorator D,
    TxTimeoutHeightDecorator D, ValidateMemoDecorator D, ConsumeGasForTxSizeDecorator D]"
  define before where "before = ?pre"
  define after where "after = ?mid @ ?rest"
  have pre: "list_all (passes_on (\<lambda>w. (tfmw w, get w))) before"
    using D by (simp add: sdk_decorators_pass_on_def before_def)
  have run0: "chain (before @ after) ctx tx False w = (Ok c, w')"
    using run by (simp add: NewAnteHandler_def before_def after_def)
  obtain ctx1 w1 c1 w2 where
    w1: "tfmw w1 = tfmw w" "get w1 = get w" "BlockHeight ctx1 = BlockHeight ctx" and
    "chain after ctx1 tx False w1 = (Ok c1, w2)"
    using chain_passes_on [OF chain pre run0] by auto
  then have run1: "IBCPermission_AnteHandle tfmw msgs (Staking_decorator L get put msgs (chain ?rest)) ctx1 tx False w1 = (Ok c1, w2)"
    using chain by (simp add: chain_laws_def after_def)
  then have "ValidateIBCUpdateClientMsg (tfmw w) (msgs tx) = Ok ()"
    using w1(1) by (auto simp: IBCPermission_AnteHandle_def op_bind_eq_Ok)
  moreover obtain b where "ValidateStakingMsgs L ctx1 (msgs tx) (get w) = (Ok (), b)"
    using run1 w1(2) by (auto simp: IBCPermission_AnteHandle_def Staking_decorator_def op_bind_eq_Ok op_on_Ok)
  ultimately show ?thesis
    using w1(3) by (auto simp: ValidateIBCUpdateClientMsg_Ok ValidateStakingMsgs_eq)
qed

text \<open>A chain whose other decorators do nothing.\<close>

definition pass :: "('w, 't) ante_decorator" where
  "pass nxt = nxt"

definition ref_chain :: "('w, 't) ante_decorator list \<Rightarrow> ('w, 't) ante_handler" where
  "ref_chain ds = foldr (\<lambda>d n. d n) ds (\<lambda>ctx tx sim. op_lift (Ok ctx))"

definition ref_decorators :: "('w, 't) sdk_decorators" where
  "ref_decorators =
     \<lparr>SetUpContextDecorator = pass, ValidateBasicDecorator = pass, ConsumeGasForTxSizeDecorator = pass,
      DeductFeeDecorator = pass, TxTimeoutHeightDecorator = pass, ValidateMemoDecorator = pass,
      SetPubKeyDecorator = pass, ValidateSigCountDecorator = pass, SigGasConsumeDecorator = pass,
      SigVerificationDecorator = pass, IncrementSequenceDecorator = pass, RedundantRelayDecorator = pass\<rparr>"

lemma ref_chain_laws: "chain_laws ref_chain"
  by (simp add: chain_laws_def ref_chain_def)

lemma ref_decorators_pass_on: "sdk_decorators_pass_on view ref_decorators"
  unfolding sdk_decorators_pass_on_def passes_on_def ref_decorators_def pass_def by simp blast

definition ex_relayer_state :: tfmw_state where
  "ex_relayer_state = SetAllowRlyAddress ''relayer'' tfmw_empty"

definition ex_ante_tx :: "sdk_msg list" where
  "ex_ante_tx = [MsgUpdateClient (Some wasm_header_url) ''relayer'', OtherMsg]"

theorem accepted_tx_is_permitted_witness:
  "list_all (permitted ex_relayer_state) [Some (MsgUpdateClient (Some wasm_header_url) ''relayer''), Some OtherMsg]"
proof -
  have "NewAnteHandler ref_chain ref_decorators txb_lib fst snd (\<lambda>b w. (fst w, b)) (\<lambda>t. t) (ex_txb_ctx 7) ex_ante_tx False
      (ex_relayer_state, ex_txb_state) = (Ok (ex_txb_ctx 7), (ex_relayer_state, ex_txb_state))"
    by (simp add: NewAnteHandler_def ref_chain_def ref_decorators_def pass_def IBCPermission_AnteHandle_def
        Staking_decorator_def ex_ante_tx_def validMsg_def ex_relayer_state_def HasAllowRlyAddress_def SetAllowRlyAddress_def
        op_bind_def op_lift_def op_on_def ValidateStakingMsgs_def)
  from accepted_tx_is_permitted [OF ref_chain_laws ref_decorators_pass_on this] show ?thesis
    by (simp add: ex_ante_tx_def)
qed

end
