(* ===== verification/Custom_Bank.thy ===== *)
theory Custom_Bank
  imports Mint_Props Tfmw_Peg
begin

text \<open>
  \<open>custom/bank\<close>: the bank keeper that corrects the two supply queries for coins that exist twice. Tokens
  in the escrow accounts of the transfer middleware are counted as a voucher and as a native token, and the
  alliance module mints bonded tokens of its own. The SDK's bank, staking and alliance keepers are parameters.
\<close>

section \<open>Keeper\<close>

text \<open>
  The alliance and the staking keeper are empty until \<open>RegisterKeepers\<close> sets them; an empty one (\<open>None\<close>)
  panics when it is used.
\<close>

record 'b alliance_keeper =
  al_AllAssets :: "'b \<Rightarrow> Dec list"
  al_BondedAmount :: "'b \<Rightarrow> bytes \<Rightarrow> int"

record ('b, 'p, 'q) bank_Keeper =
  bk_Supply :: "'b \<Rightarrow> string \<Rightarrow> int"
  bk_Balance :: "'b \<Rightarrow> bytes \<Rightarrow> string \<Rightarrow> int"
  bk_PaginatedTotalSupply :: "'b \<Rightarrow> 'p \<Rightarrow> (Coins \<times> 'q) res"
  bk_tfmk :: "'b \<Rightarrow> tfmw_state"
  bk_ModuleAddress :: "string \<Rightarrow> bytes"
  bk_ak :: "'b alliance_keeper option"
  bk_BondDenom :: "('b \<Rightarrow> string) option"

definition NewBaseKeeper ::
    "('b \<Rightarrow> string \<Rightarrow> int) \<Rightarrow> ('b \<Rightarrow> bytes \<Rightarrow> string \<Rightarrow> int) \<Rightarrow> ('b \<Rightarrow> 'p \<Rightarrow> (Coins \<times> 'q) res) \<Rightarrow>
     (string \<Rightarrow> bytes) \<Rightarrow> ('b \<Rightarrow> tfmw_state) \<Rightarrow> ('b, 'p, 'q) bank_Keeper" where
  "NewBaseKeeper supply balance paginated ak tfmk =
     \<lparr>bk_Supply = supply, bk_Balance = balance, bk_PaginatedTotalSupply = paginated, bk_tfmk = tfmk,
      bk_ModuleAddress = ak, bk_ak = None, bk_BondDenom = None\<rparr>"

definition RegisterKeepers ::
    "'b alliance_keeper \<Rightarrow> ('b \<Rightarrow> string) \<Rightarrow> ('b, 'p, 'q) bank_Keeper \<Rightarrow> ('b, 'p, 'q) bank_Keeper" where
  "RegisterKeepers ak sk k = k\<lparr>bk_ak := Some ak, bk_BondDenom := Some sk\<rparr>"

definition need :: "'a option \<Rightarrow> 'a res" where
  "need x = (case x of None \<Rightarrow> Panic | Some a \<Rightarrow> Ok a)"

lemma need_Ok [simp]: "need x = Ok a \<longleftrightarrow> x = Some a"
  by (auto simp: need_def split: option.splits)

definition alliance_ModuleName :: string where
  "alliance_ModuleName = ''alliance''"

section \<open>Queries\<close>

text \<open>The reward weights are added up and the sum is not used; the addition may panic.\<close>

fun sum_weights :: "dec_ops \<Rightarrow> Dec \<Rightarrow> Dec list \<Rightarrow> Dec res" where
  "sum_weights A acc [] = Ok acc"
| "sum_weights A acc (w # ws) = res_bind (dec_Add A acc w) (\<lambda>t. sum_weights A t ws)"

definition query_SupplyOf ::
    "lib \<Rightarrow> dec_ops \<Rightarrow> ('b, 'p, 'q) bank_Keeper \<Rightarrow> 'b \<Rightarrow> string option \<Rightarrow> Coin res" where
  "query_SupplyOf L A k b req =
     (case req of
        None \<Rightarrow> Err (ErrPlain ''empty request'')
      | Some denom \<Rightarrow>
          (if denom = [] then Err (ErrPlain ''invalid denom'')
           else
             (let supply = bk_Supply k b denom
              in res_bind (need (bk_BondDenom k)) (\<lambda>bond.
                   if denom = bond b
                   then
                     res_bind (need (bk_ak k)) (\<lambda>ak.
                     res_bind (sum_weights A 0 (al_AllAssets ak b)) (\<lambda>_.
                     res_bind (Int_Sub (int_fits L) supply (al_BondedAmount ak b (bk_ModuleAddress k alliance_ModuleName)))
                       (\<lambda>amount. NewCoin L denom amount)))
                   else NewCoin L denom supply))))"

text \<open>\<open>Coins_Sub\<close> is \<open>Coins.Sub\<close>.\<close>

definition query_TotalSupply ::
    "lib \<Rightarrow> (Coins \<Rightarrow> Coins \<Rightarrow> Coins res) \<Rightarrow> ('b, 'p, 'q) bank_Keeper \<Rightarrow> 'b \<Rightarrow> 'p \<Rightarrow> (Coins \<times> 'q) res" where
  "query_TotalSupply L Coins_Sub k b pagination =
     (case bk_PaginatedTotalSupply k b pagination of
        Panic \<Rightarrow> Panic
      | Err e \<Rightarrow> Err e
      | Ok (totalSupply, pageRes) \<Rightarrow>
          (let duplicateCoins = GetTotalEscrowedToken L (bk_Balance k b) (bk_tfmk k b)
           in res_bind (Coins_Sub totalSupply duplicateCoins) (\<lambda>totalSupply.
              res_bind (need (bk_ak k)) (\<lambda>ak.
              res_bind (need (bk_BondDenom k)) (\<lambda>bond.
                let allianceBonded = al_BondedAmount ak b (bk_ModuleAddress k alliance_ModuleName);
                    bondDenom = bond b
                in if 0 < AmountOf totalSupply bondDenom
                   then
                     res_bind (NewCoin L bondDenom allianceBonded) (\<lambda>c.
                     res_bind (Coins_Sub totalSupply [c]) (\<lambda>totalSupply. Ok (totalSupply, pageRes)))
                   else Ok (totalSupply, pageRes))))))"

section \<open>What the queries report\<close>

text \<open>\<open>Coins.Sub\<close> subtracts denomination by denomination and panics when an amount would be negative.\<close>

definition coins_sub_laws :: "(Coins \<Rightarrow> Coins \<Rightarrow> Coins res) \<Rightarrow> bool" where
  "coins_sub_laws sub \<longleftrightarrow>
     (\<forall>a b c. sub a b = Ok c \<longrightarrow> (\<forall>d. AmountOf c d = AmountOf a d - AmountOf b d \<and> 0 \<le> AmountOf c d))"

text \<open>What the escrow accounts hold of a denomination, over the registered tokens.\<close>

definition escrowed :: "lib \<Rightarrow> ('b, 'p, 'q) bank_Keeper \<Rightarrow> 'b \<Rightarrow> string \<Rightarrow> int" where
  "escrowed L k b d =
     (\<Sum>info\<leftarrow>infos_under KeyParachainIBCTokenInfoByAssetID (bk_tfmk k b).
        let held = bk_Balance k b (GetEscrowAddress L (TransferPortID L) (ChannelID info)) d
        in (if IbcDenom info = d then held else 0) + (if NativeDenom info = d then held else 0))"

lemma AmountOf_append: "AmountOf (xs @ ys) d = AmountOf xs d + AmountOf ys d"
  by (simp add: AmountOf_def)

lemma AmountOf_Cons: "AmountOf (c # cs) d = (if Coin_Denom c = d then Coin_Amount c else 0) + AmountOf cs d"
  by (simp add: AmountOf_def)

lemma escrowed_total: "AmountOf (GetTotalEscrowedToken L (bk_Balance k b) (bk_tfmk k b)) d = escrowed L k b d"
proof -
  have "AmountOf (concat (map f is)) d = (\<Sum>i\<leftarrow>is. AmountOf (f i) d)" for f and "is" :: "ParachainIBCTokenInfo list"
    by (induction "is") (simp_all add: AmountOf_append)
  then show ?thesis
    by (auto simp: GetTotalEscrowedToken_def IterateParaTokenInfos_collect Let_def escrowed_def AmountOf_Cons
        intro!: arg_cong [where f = sum_list] map_cong)
qed

definition alliance_bonded :: "('b, 'p, 'q) bank_Keeper \<Rightarrow> 'b alliance_keeper \<Rightarrow> 'b \<Rightarrow> int" where
  "alliance_bonded k ak b = al_BondedAmount ak b (bk_ModuleAddress k alliance_ModuleName)"

lemma SupplyOf_Ok:
  assumes "coin_laws L" "query_SupplyOf L A k b (Some d) = Ok c"
    and "bk_ak k = Some ak" "bk_BondDenom k = Some bond"
  shows "c = \<lparr>Coin_Denom = d, Coin_Amount = bk_Supply k b d - (if d = bond b then alliance_bonded k ak b else 0)\<rparr>"
  using assms(2-4) coin_laws_NewCoin [OF assms(1)]
  by (auto simp: query_SupplyOf_def Let_def alliance_bonded_def split: if_splits)

lemma TotalSupply_Ok:
  assumes laws: "coin_laws L" "coins_sub_laws sub"
    and run: "query_TotalSupply L sub k b pg = Ok (cs, res)"
    and keepers: "bk_ak k = Some ak" "bk_BondDenom k = Some bond"
  obtains raw where "bk_PaginatedTotalSupply k b pg = Ok (raw, res)"
    "\<And>d. escrowed L k b d \<le> AmountOf raw d" "\<And>d. 0 \<le> AmountOf cs d"
    "\<And>d. AmountOf cs d = AmountOf raw d - escrowed L k b d -
       (if d = bond b \<and> escrowed L k b d < AmountOf raw d then alliance_bonded k ak b else 0)"
proof -
  let ?dup = "GetTotalEscrowedToken L (bk_Balance k b) (bk_tfmk k b)"
  from run obtain raw t where raw: "bk_PaginatedTotalSupply k b pg = Ok (raw, res)" and t: "sub raw ?dup = Ok t"
    and rest: "if 0 < AmountOf t (bond b)
       then (\<exists>c. NewCoin L (bond b) (alliance_bonded k ak b) = Ok c \<and> sub t [c] = Ok cs) else cs = t"
    using keepers by (auto simp: query_TotalSupply_def Let_def alliance_bonded_def split: res.splits if_splits)
  have td: "AmountOf t d = AmountOf raw d - escrowed L k b d" "0 \<le> AmountOf t d" for d
    using laws(2) t unfolding coins_sub_laws_def escrowed_total [symmetric] by blast+
  have "AmountOf cs d = AmountOf raw d - escrowed L k b d -
       (if d = bond b \<and> escrowed L k b d < AmountOf raw d then alliance_bonded k ak b else 0) \<and> 0 \<le> AmountOf cs d" for d
  proof (cases "0 < AmountOf t (bond b)")
    case True
    with rest obtain c where c: "NewCoin L (bond b) (alliance_bonded k ak b) = Ok c" "sub t [c] = Ok cs" by auto
    have "AmountOf cs d = AmountOf t d - AmountOf [c] d \<and> 0 \<le> AmountOf cs d"
      using laws(2) c(2) unfolding coins_sub_laws_def by blast
    with coin_laws_NewCoin [OF laws(1) c(1)] td True show ?thesis by auto
  next
    case False
    with rest td show ?thesis by auto
  qed
  with raw td that show thesis by (metis diff_ge_0_iff_ge)
qed

text \<open>
  C30: A total supply that is reported is, for every denomination, the supply of the page less what the
  escrow accounts of the registered tokens hold of it, less the tokens bonded by the alliance module for the
  bond denomination when any is left; it is never negative. It is only reported when no escrowed amount exceeds the
  amount on the page, so a page without an escrowed denomination cannot be queried. The query for one denomination
  subtracts the alliance's tokens but not the escrow: where the page has the full supply of the denomination, and it is
  not the bond denomination or more of it exists than is escrowed, the two answers differ by exactly the escrowed amount.
\<close>

theorem supply_queries:
  assumes laws: "coin_laws L" "coins_sub_laws sub"
    and keepers: "bk_ak k = Some ak" "bk_BondDenom k = Some bond"
    and page: "bk_PaginatedTotalSupply k b pg = Ok (raw, res)"
    and run: "query_TotalSupply L sub k b pg = Ok (cs, res')"
  shows "escrowed L k b d \<le> AmountOf raw d \<and> 0 \<le> AmountOf cs d \<and>
     AmountOf cs d = AmountOf raw d - escrowed L k b d -
       (if d = bond b \<and> escrowed L k b d < AmountOf raw d then alliance_bonded k ak b else 0) \<and>
     (\<forall>c. query_SupplyOf L A k b (Some d) = Ok c \<longrightarrow> AmountOf raw d = bk_Supply k b d \<longrightarrow>
        d \<noteq> bond b \<or> escrowed L k b d < AmountOf raw d \<longrightarrow>
        Coin_Amount c - AmountOf cs d = escrowed L k b d)"
proof -
  obtain raw' where "bk_PaginatedTotalSupply k b pg = Ok (raw', res')" and
    le: "\<And>d. escrowed L k b d \<le> AmountOf raw' d" and nonneg: "\<And>d. 0 \<le> AmountOf cs d" and
    amt: "\<And>d. AmountOf cs d = AmountOf raw' d - escrowed L k b d -
       (if d = bond b \<and> escrowed L k b d < AmountOf raw' d then alliance_bonded k ak b else 0)"
    using TotalSupply_Ok [OF laws run keepers] by metis
  with page have "raw' = raw" by simp
  with le nonneg amt show ?thesis by (auto dest!: SupplyOf_Ok [OF laws(1) _ keepers])
qed

text \<open>A small chain: the token of the peg examples with forty vouchers in escrow.\<close>

definition ref_sub :: "Coins \<Rightarrow> Coins \<Rightarrow> Coins res" where
  "ref_sub a b =
     (if list_all (\<lambda>d. AmountOf b d \<le> AmountOf a d) (map Coin_Denom (a @ b))
      then Ok (map (\<lambda>d. \<lparr>Coin_Denom = d, Coin_Amount = AmountOf a d - AmountOf b d\<rparr>)
                 (remdups (map Coin_Denom (a @ b))))
      else Panic)"

lemma AmountOf_absent: "d \<notin> Coin_Denom ` set cs \<Longrightarrow> AmountOf cs d = 0"
  by (induction cs) (auto simp: AmountOf_Cons)

lemma AmountOf_map: "distinct ds \<Longrightarrow> AmountOf (map (\<lambda>d. \<lparr>Coin_Denom = d, Coin_Amount = f d\<rparr>) ds) d = (if d \<in> set ds then f d else 0)"
  by (induction ds) (auto simp: AmountOf_Cons)

lemma coins_sub_laws_ref: "coins_sub_laws ref_sub"
proof -
  have "AmountOf c d = AmountOf a d - AmountOf b d \<and> 0 \<le> AmountOf c d" if "ref_sub a b = Ok c" for a b c d
  proof (cases "d \<in> Coin_Denom ` (set a \<union> set b)")
    case True
    with that show ?thesis by (auto simp: ref_sub_def AmountOf_map list_all_iff image_Un split: if_splits)
  next
    case False
    with that show ?thesis
      by (auto simp: ref_sub_def AmountOf_map image_Un AmountOf_absent split: if_splits)
  qed
  then show ?thesis unfolding coins_sub_laws_def by blast
qed

definition ex_bank_keeper :: "(ledger world, unit, unit) bank_Keeper" where
  "ex_bank_keeper =
     RegisterKeepers \<lparr>al_AllAssets = (\<lambda>_. []), al_BondedAmount = (\<lambda>_ _. 7)\<rparr> (\<lambda>_. ''ppica'')
       (NewBaseKeeper (\<lambda>w. lg_supply (w_ext w)) (\<lambda>w. lg_balance (w_ext w))
          (\<lambda>_ _. Ok ([\<lparr>Coin_Denom = ''ibc/transfer/channel-0/1'', Coin_Amount = 100\<rparr>, \<lparr>Coin_Denom = ''ppica'', Coin_Amount = 60\<rparr>], ()))
          mod_addr w_tfmw)"

definition ex_bank_world :: "ledger world" where
  "ex_bank_world =
     \<lparr>w_tfmw = ex_peg_tfmw, w_rl = rl_empty,
      w_ext = \<lparr>lg_balance = (\<lambda>a d. if d = ''ibc/transfer/channel-0/1'' then 40 else 0),
               lg_supply = (\<lambda>d. if d = ''ppica'' then 60 else 100)\<rparr>\<rparr>"

lemma ex_bank_infos: "infos_under KeyParachainIBCTokenInfoByAssetID ex_peg_tfmw = [ex_peg_token]"
  by (simp add: infos_under_def ex_peg_tfmw_def add_info_def AddParachainIBCInfo_def tfmw_empty_def Let_def ex_peg_token_def
      kv_prefix_def GetKeyParachainIBCTokenInfoByNativeDenom_def GetKeyParachainIBCTokenInfoByAssetID_def
      GetKeyNativeDenomAndIbcSecondaryIndex_def KeyParachainIBCTokenInfoByNativeDenom_def
      KeyParachainIBCTokenInfoByAssetID_def KeyIBCDenomAndNativeIndex_def map_filter_def)

lemmas ex_bank_eval = ex_bank_keeper_def RegisterKeepers_def NewBaseKeeper_def ex_bank_world_def

definition ex_page :: Coins where
  "ex_page = [\<lparr>Coin_Denom = ''ibc/transfer/channel-0/1'', Coin_Amount = 100\<rparr>, \<lparr>Coin_Denom = ''ppica'', Coin_Amount = 60\<rparr>]"

definition ex_total :: Coins where
  "ex_total = [\<lparr>Coin_Denom = ''ibc/transfer/channel-0/1'', Coin_Amount = 60\<rparr>, \<lparr>Coin_Denom = ''ppica'', Coin_Amount = 53\<rparr>]"

lemma ex_dup:
  "GetTotalEscrowedToken ref_lib (bk_Balance ex_bank_keeper ex_bank_world) (bk_tfmk ex_bank_keeper ex_bank_world)
     = [\<lparr>Coin_Denom = ''ibc/transfer/channel-0/1'', Coin_Amount = 40\<rparr>, \<lparr>Coin_Denom = ''ppica'', Coin_Amount = 0\<rparr>]"
  by (simp add: GetTotalEscrowedToken_def IterateParaTokenInfos_collect Let_def ex_bank_eval ex_bank_infos)
    (simp add: ex_peg_token_def)

lemma ex_total_run: "query_TotalSupply ref_lib ref_sub ex_bank_keeper ex_bank_world () = Ok (ex_total, ())"
  using ex_dup
  by (simp add: query_TotalSupply_def Let_def)
    (simp add: ex_bank_eval ref_sub_def AmountOf_Cons ref_coin_def ex_total_def need_def Let_def)

theorem supply_queries_witness:
  "AmountOf ex_total ''ibc/transfer/channel-0/1'' = 100 - 40 \<and>
   (\<exists>c. query_SupplyOf ref_lib ref_dec ex_bank_keeper ex_bank_world (Some ''ibc/transfer/channel-0/1'') = Ok c \<and>
      Coin_Amount c - AmountOf ex_total ''ibc/transfer/channel-0/1'' = 40)"
proof -
  have of: "query_SupplyOf ref_lib ref_dec ex_bank_keeper ex_bank_world (Some ''ibc/transfer/channel-0/1'') =
      Ok \<lparr>Coin_Denom = ''ibc/transfer/channel-0/1'', Coin_Amount = 100\<rparr>"
    by (simp add: query_SupplyOf_def ex_bank_eval need_def Let_def ref_coin_def)
  have k: "bk_ak ex_bank_keeper = Some \<lparr>al_AllAssets = (\<lambda>_. []), al_BondedAmount = (\<lambda>_ _. 7)\<rparr>"
    "bk_BondDenom ex_bank_keeper = Some (\<lambda>_. ''ppica'')"
    "bk_PaginatedTotalSupply ex_bank_keeper ex_bank_world () = Ok (ex_page, ())"
    by (simp_all add: ex_bank_eval ex_page_def)
  have "escrowed ref_lib ex_bank_keeper ex_bank_world ''ibc/transfer/channel-0/1'' = 40"
    unfolding escrowed_total [symmetric] ex_dup by (simp add: AmountOf_Cons)
  moreover have "bk_Supply ex_bank_keeper ex_bank_world ''ibc/transfer/channel-0/1'' = 100"
    by (simp add: ex_bank_eval)
  ultimately show ?thesis
    using supply_queries [OF coin_laws_ref coins_sub_laws_ref k ex_total_run,
        of "''ibc/transfer/channel-0/1''" ref_dec] of
    by (auto simp: ex_page_def AmountOf_Cons)
qed

end
