(* ===== verification/Bech32_Props.thy ===== *)
theory Bech32_Props
  imports Bech32_Migration
begin

text \<open>
  Correctness of the address migration: a store whose entries decode is migrated without a panic, every entry
  keeps its key and decodes to the same value with its addresses converted, and migrating again changes nothing.
\<close>

section \<open>Rewriting one section\<close>

definition rewrite_entry :: "(bytes \<Rightarrow> bytes res) \<Rightarrow> bytes \<times> bytes \<Rightarrow> (bytes kv, unit) op" where
  "rewrite_entry fn e s = op_bind (op_lift (fn (snd e))) (\<lambda>v s. (Ok (), kv_set (fst e) v s)) s"

lemma IterateStoreByPrefix_eq: "IterateStoreByPrefix p fn s = op_each (rewrite_entry fn) (kv_prefix p s) s"
proof -
  have "(\<lambda>(k, v) s. op_bind (op_lift (fn v)) (\<lambda>newValue s. (Ok (), kv_set k newValue s)) s) = rewrite_entry fn"
    by (auto simp: fun_eq_iff rewrite_entry_def)
  then show ?thesis by (simp add: IterateStoreByPrefix_def)
qed

lemma rewrite_entry_Ok: "rewrite_entry fn e s = (Ok u, s') \<longleftrightarrow> (\<exists>v. fn (snd e) = Ok v \<and> s' = kv_set (fst e) v s)"
  by (auto simp: rewrite_entry_def op_bind_eq_Ok) (metis op_lift_eq)

lemma rewrite_entries_run:
  "op_each (rewrite_entry fn) es s = (Ok u, s') \<Longrightarrow> distinct (map fst es) \<Longrightarrow>
     (\<forall>e \<in> set es. \<exists>v. fn (snd e) = Ok v \<and> kv_get s' (fst e) = Some v) \<and>
     (\<forall>k. k \<notin> fst ` set es \<longrightarrow> kv_get s' k = kv_get s k)"
proof (induction es arbitrary: s)
  case (Cons e es)
  obtain u1 s1 where 1: "rewrite_entry fn e s = (Ok u1, s1)" "op_each (rewrite_entry fn) es s1 = (Ok u, s')"
    using Cons.prems(1) by (auto split: prod.splits res.splits)
  from 1(1) obtain v where v: "fn (snd e) = Ok v" "s1 = kv_set (fst e) v s" by (auto simp: rewrite_entry_Ok)
  have "fst e \<notin> fst ` set es" using Cons.prems(2) by simp
  with Cons.IH [OF 1(2)] Cons.prems(2) v show ?case by simp
qed simp

lemma rewrite_entries_total:
  "\<forall>e \<in> set es. \<exists>v. fn (snd e) = Ok v \<Longrightarrow> \<exists>s'. op_each (rewrite_entry fn) es s = (Ok (), s')"
proof (induction es arbitrary: s)
  case (Cons e es)
  then obtain v where "fn (snd e) = Ok v" by auto
  then have "rewrite_entry fn e s = (Ok (), kv_set (fst e) v s)" by (simp add: rewrite_entry_Ok)
  with Cons show ?case by simp
qed simp

lemma Iterate_run:
  assumes "IterateStoreByPrefix p fn s = (Ok u, s')"
  shows "kv_get s k = Some v \<Longrightarrow> prefix p k \<Longrightarrow> \<exists>v'. fn v = Ok v' \<and> kv_get s' k = Some v'"
    and "\<not> prefix p k \<Longrightarrow> kv_get s' k = kv_get s k"
    and "kv_get s k = None \<Longrightarrow> kv_get s' k = None"
proof -
  note run = rewrite_entries_run [OF assms [unfolded IterateStoreByPrefix_eq] kv_prefix_distinct]
  show "\<exists>v'. fn v = Ok v' \<and> kv_get s' k = Some v'" if "kv_get s k = Some v" "prefix p k"
    using run that by (metis fst_conv kv_prefix_iff snd_conv)
  show "kv_get s' k = kv_get s k" if "\<not> prefix p k"
    using run that kv_prefix_keys by blast
  show "kv_get s' k = None" if "kv_get s k = None"
    using run that kv_prefix_keys [of k p s] by (simp add: kv_has_def)
qed

lemma Iterate_total:
  assumes "\<And>k v. prefix p k \<Longrightarrow> kv_get s k = Some v \<Longrightarrow> \<exists>v'. fn v = Ok v'"
  shows "\<exists>s'. IterateStoreByPrefix p fn s = (Ok (), s')"
  unfolding IterateStoreByPrefix_eq
  by (rule rewrite_entries_total) (use assms kv_prefix_mem in blast)

section \<open>Rewriting several sections\<close>

type_synonym store_section = "bytes \<times> (bytes \<Rightarrow> bytes res)"

definition run_sections :: "store_section list \<Rightarrow> (bytes kv, unit) op" where
  "run_sections secs = op_each (\<lambda>sec. IterateStoreByPrefix (fst sec) (snd sec)) secs"

definition apart :: "store_section list \<Rightarrow> bool" where
  "apart secs \<longleftrightarrow> sorted_wrt (\<lambda>x y. \<not> prefix (fst x) (fst y) \<and> \<not> prefix (fst y) (fst x)) secs"

text \<open>Every entry of a section decodes.\<close>

definition typed :: "store_section list \<Rightarrow> bytes kv \<Rightarrow> bool" where
  "typed secs s \<longleftrightarrow>
     (\<forall>sec \<in> set secs. \<forall>k v. prefix (fst sec) k \<longrightarrow> kv_get s k = Some v \<longrightarrow> (\<exists>v'. snd sec v = Ok v'))"

text \<open>Each entry of a section is rewritten in place, the other entries are kept, and no key appears.\<close>

definition migrated :: "store_section list \<Rightarrow> bytes kv \<Rightarrow> bytes kv \<Rightarrow> bool" where
  "migrated secs s s' \<longleftrightarrow>
     (\<forall>k. kv_get s k = None \<longrightarrow> kv_get s' k = None) \<and>
     (\<forall>k. (\<forall>sec \<in> set secs. \<not> prefix (fst sec) k) \<longrightarrow> kv_get s' k = kv_get s k) \<and>
     (\<forall>sec \<in> set secs. \<forall>k v. prefix (fst sec) k \<longrightarrow> kv_get s k = Some v \<longrightarrow>
        (\<exists>v'. snd sec v = Ok v' \<and> kv_get s' k = Some v'))"

lemma run_sections_simps [simp]:
  "run_sections [] s = (Ok (), s)"
  "run_sections [sec] s = IterateStoreByPrefix (fst sec) (snd sec) s"
  "run_sections (sec # secs) s =
     op_bind (IterateStoreByPrefix (fst sec) (snd sec)) (\<lambda>_. run_sections secs) s"
  by (auto simp: run_sections_def op_bind_def split: prod.splits res.splits)

lemma apart_other:
  assumes "apart (sec # secs)" "sec' \<in> set secs" "prefix (fst sec') k"
  shows "\<not> prefix (fst sec) k"
  using assms prefix_same_cases unfolding apart_def by fastforce

lemma run_sections_migrated:
  "run_sections secs s = (Ok u, s') \<Longrightarrow> apart secs \<Longrightarrow> migrated secs s s'"
proof (induction secs arbitrary: s u)
  case Nil
  then show ?case by (simp add: migrated_def)
next
  case (Cons sec secs)
  obtain u1 s1 where 1: "IterateStoreByPrefix (fst sec) (snd sec) s = (Ok u1, s1)" and
    2: "run_sections secs s1 = (Ok u, s')"
    using Cons.prems(1) by (auto simp: op_bind_eq_Ok run_sections_simps(3) simp del: run_sections_simps(2))
  note it = Iterate_run [OF 1]
  have ap: "apart secs" using Cons.prems(2) by (simp add: apart_def)
  note m = Cons.IH [OF 2 ap, unfolded migrated_def]
  have "\<exists>v'. snd x v = Ok v' \<and> kv_get s' k = Some v'"
    if "x \<in> set (sec # secs)" "prefix (fst x) k" "kv_get s k = Some v" for x k v
  proof (cases "x \<in> set secs")
    case True
    then have "kv_get s1 k = Some v" using it(2) apart_other [OF Cons.prems(2) True that(2)] that(3) by simp
    with m True that(2) show ?thesis by blast
  next
    case False
    then have x: "x = sec" using that(1) by simp
    then have "\<forall>y \<in> set secs. \<not> prefix (fst y) k" using apart_other [OF Cons.prems(2)] that(2) by blast
    then have "kv_get s' k = kv_get s1 k" using m by blast
    with it(1) [OF that(3)] that(2) x show ?thesis by simp
  qed
  then show ?case using m it(2,3) unfolding migrated_def by simp
qed

lemma run_sections_total:
  "typed secs s \<Longrightarrow> apart secs \<Longrightarrow> \<exists>s'. run_sections secs s = (Ok (), s')"
proof (induction secs arbitrary: s)
  case (Cons sec secs)
  obtain s1 where 1: "IterateStoreByPrefix (fst sec) (snd sec) s = (Ok (), s1)"
    using Iterate_total [of "fst sec" s "snd sec"] Cons.prems(1) unfolding typed_def by auto
  have ap: "apart secs" using Cons.prems(2) by (simp add: apart_def)
  have "typed secs s1"
    using Cons.prems(1) Iterate_run(2) [OF 1] apart_other [OF Cons.prems(2)] unfolding typed_def by simp
  from Cons.IH [OF this ap] 1 show ?case
    by (auto simp: run_sections_simps(3) op_bind_def simp del: run_sections_simps(2))
qed simp

text \<open>A rewriting that settles: its results are rewritten to themselves.\<close>

definition settles :: "(bytes \<Rightarrow> bytes res) \<Rightarrow> bool" where
  "settles fn \<longleftrightarrow> (\<forall>v v'. fn v = Ok v' \<longrightarrow> fn v' = Ok v')"

lemma migrated_typed:
  assumes "migrated secs s s'" "list_all (\<lambda>sec. settles (snd sec)) secs"
  shows "typed secs s' \<and> (\<forall>sec \<in> set secs. \<forall>k v. prefix (fst sec) k \<longrightarrow> kv_get s' k = Some v \<longrightarrow> snd sec v = Ok v)"
proof -
  have "snd sec v = Ok v" if h: "sec \<in> set secs" "prefix (fst sec) k" "kv_get s' k = Some v" for sec k v
  proof -
    obtain w where w: "kv_get s k = Some w" using assms(1) h(3) unfolding migrated_def by fastforce
    then have "snd sec w = Ok v" using assms(1) h unfolding migrated_def by fastforce
    then show ?thesis using assms(2) h(1) unfolding list_all_iff settles_def by blast
  qed
  then show ?thesis unfolding typed_def by blast
qed

lemma run_sections_twice:
  assumes "run_sections secs s = (Ok u, s')" "apart secs" "list_all (\<lambda>sec. settles (snd sec)) secs"
  shows "run_sections secs s' = (Ok (), s')"
proof -
  have m: "migrated secs s s'" by (rule run_sections_migrated [OF assms(1,2)])
  note t = migrated_typed [OF m assms(3)]
  obtain s'' where 2: "run_sections secs s' = (Ok (), s'')"
    using run_sections_total [OF _ assms(2)] t by blast
  have m2: "migrated secs s' s''" by (rule run_sections_migrated [OF 2 assms(2)])
  have "s'' = s'"
  proof (rule kv_eqI)
    fix k
    show "kv_get s'' k = kv_get s' k"
      using m2 t unfolding migrated_def by (cases "kv_get s' k") (auto, metis res.inject(1))
  qed
  with 2 show ?thesis by simp
qed

section \<open>The migrations as sections\<close>

definition codec_law :: "'v codec \<Rightarrow> bool" where
  "codec_law c \<longleftrightarrow> (\<forall>v. unmarshal c (marshal c v) = Ok v)"

text \<open>
  A converted address either has another prefix than the old one, and then it does not decode under the old
  prefix, or the prefixes are the same, and then it decodes to the bytes it shows.
\<close>

definition bech32_laws :: "bech32_lib \<Rightarrow> bool" where
  "bech32_laws B \<longleftrightarrow>
     (\<forall>bz. GetFromBech32 B (AccAddress_String B bz) OldBech32PrefixAccAddr \<in> {None, Some bz} \<and>
           GetFromBech32 B (ValAddress_String B bz) (OldBech32PrefixValAddr B) \<in> {None, Some bz} \<and>
           GetFromBech32 B (ConsAddress_String B bz) (OldBech32PrefixConsAddr B) \<in> {None, Some bz})"

lemma bech32_lawsD:
  assumes "bech32_laws B"
  shows "GetFromBech32 B (AccAddress_String B bz) OldBech32PrefixAccAddr = Some x \<Longrightarrow> x = bz"
    and "GetFromBech32 B (ValAddress_String B bz) (OldBech32PrefixValAddr B) = Some x \<Longrightarrow> x = bz"
    and "GetFromBech32 B (ConsAddress_String B bz) (OldBech32PrefixConsAddr B) = Some x \<Longrightarrow> x = bz"
  using assms [unfolded bech32_laws_def, rule_format, of bz] by auto

lemma convert_twice:
  assumes "bech32_laws B"
  shows "ConvertAccAddr B (ConvertAccAddr B a) = ConvertAccAddr B a"
    and "ConvertValAddr B (ConvertValAddr B a) = ConvertValAddr B a"
    and "ConvertConsAddr B (ConvertConsAddr B a) = ConvertConsAddr B a"
proof -
  note laws = bech32_lawsD [OF assms]
  show "ConvertAccAddr B (ConvertAccAddr B a) = ConvertAccAddr B a"
    by (auto simp: ConvertAccAddr_def AccAddressFromOldBech32_def split: option.split dest!: laws(1))
  show "ConvertValAddr B (ConvertValAddr B a) = ConvertValAddr B a"
    by (auto simp: ConvertValAddr_def ValAddressFromOldBech32_def split: option.split dest!: laws(2))
  show "ConvertConsAddr B (ConvertConsAddr B a) = ConvertConsAddr B a"
    by (auto simp: ConvertConsAddr_def ConsAddressFromOldBech32_def split: option.split dest!: laws(3))
qed

lemma rewrite_settles:
  assumes "codec_law c" "\<And>v. f (f v) = f v"
  shows "settles (rewrite c f)"
  using assms by (auto simp: settles_def rewrite_def codec_law_def split: res.splits)

lemma rewrite_Ok: "rewrite c f bz = Ok bz' \<longleftrightarrow> (\<exists>v. unmarshal c bz = Ok v \<and> bz' = marshal c (f v))"
  by (auto simp: rewrite_def split: res.splits)

definition staking_sections :: "bech32_lib \<Rightarrow> 'x staking_codec \<Rightarrow> store_section list" where
  "staking_sections B C =
     [(ValidatorsKey C, rewrite (c_Validator C) (conv_validator B)),
      (DelegationKey C, rewrite (c_Delegation C) (conv_delegation B)),
      (RedelegationKey C, rewrite (c_Redelegation C) (conv_redelegation B)),
      (UnbondingDelegationKey C, rewrite (c_UnbondingDelegation C) (conv_unbonding B)),
      (HistoricalInfoKey C, rewrite (c_HistoricalInfo C) (conv_historical B))]"

definition queue_sections :: "bech32_lib \<Rightarrow> 'x staking_codec \<Rightarrow> store_section list" where
  "queue_sections B C =
     [(UnbondingQueueKey C, rewrite (c_DVPairs C) (map (conv_pair B))),
      (RedelegationQueueKey C, rewrite (c_DVVTriplets C) (map (conv_triplet B))),
      (ValidatorQueueKey C, rewrite (c_ValAddresses C) (map (ConvertValAddr B)))]"

definition gov_sections :: "bech32_lib \<Rightarrow> 'x gov_codec \<Rightarrow> store_section list" where
  "gov_sections B C = [(VotesKeyPrefix C, migrate_vote B C), (DepositsKeyPrefix C, migrate_deposit B C)]"

lemma run_sections_single: "run_sections [sec] = IterateStoreByPrefix (fst sec) (snd sec)"
  by (rule ext) (rule run_sections_simps(2))

lemma run_sections_bind:
  "run_sections (sec # sec' # secs) =
     op_bind (IterateStoreByPrefix (fst sec) (snd sec)) (\<lambda>_. run_sections (sec' # secs))"
  by (rule ext) (rule run_sections_simps(3))

lemma migrations_are_sections:
  "staking_MigrateAddressBech32 B C = run_sections (staking_sections B C)"
  "MigrateUnbonding B C = run_sections (queue_sections B C)"
  "slashing_MigrateAddressBech32 B c p = run_sections [(p, rewrite c (conv_signing_info B))]"
  "gov_MigrateAddressBech32 B G = run_sections (gov_sections B G)"
  "auth_MigrateAddressBech32 B K = run_sections [(AddressStoreKeyPrefix K, migrate_account B K)]"
  unfolding staking_MigrateAddressBech32_def staking_sections_def MigrateUnbonding_def queue_sections_def
    slashing_MigrateAddressBech32_def gov_MigrateAddressBech32_def gov_sections_def auth_MigrateAddressBech32_def
    run_sections_bind run_sections_single fst_conv snd_conv
  by (rule refl)+

definition staking_laws :: "'x staking_codec \<Rightarrow> bool" where
  "staking_laws C \<longleftrightarrow>
     codec_law (c_Validator C) \<and> codec_law (c_Delegation C) \<and> codec_law (c_Redelegation C) \<and>
     codec_law (c_UnbondingDelegation C) \<and> codec_law (c_HistoricalInfo C) \<and>
     codec_law (c_DVPairs C) \<and> codec_law (c_DVVTriplets C) \<and> codec_law (c_ValAddresses C) \<and>
     sorted_wrt (\<lambda>p q. \<not> prefix p q \<and> \<not> prefix q p)
       [ValidatorsKey C, DelegationKey C, RedelegationKey C, UnbondingDelegationKey C, HistoricalInfoKey C] \<and>
     sorted_wrt (\<lambda>p q. \<not> prefix p q \<and> \<not> prefix q p) [UnbondingQueueKey C, RedelegationQueueKey C, ValidatorQueueKey C]"

text \<open>
  The last law of governance: the old decoder rejects a new vote for its weights, not for its voter.
\<close>

definition gov_laws :: "'x gov_codec \<Rightarrow> bool" where
  "gov_laws C \<longleftrightarrow>
     codec_law (c_Vote_v1beta1 C) \<and> codec_law (c_Vote_v1 C) \<and> codec_law (c_Deposit_v1beta1 C) \<and>
     \<not> prefix (VotesKeyPrefix C) (DepositsKeyPrefix C) \<and> \<not> prefix (DepositsKeyPrefix C) (VotesKeyPrefix C) \<and>
     (\<forall>bz e v v'. unmarshal (c_Vote_v1beta1 C) bz = Err e \<longrightarrow> unmarshal (c_Vote_v1 C) bz = Ok v \<longrightarrow>
        Vote_rest v' = Vote_rest v \<longrightarrow> (\<exists>e'. unmarshal (c_Vote_v1beta1 C) (marshal (c_Vote_v1 C) v') = Err e'))"

definition account_law :: "'x account_codec \<Rightarrow> bool" where
  "account_law K \<longleftrightarrow> (\<forall>a bz. marshal_account K a = Ok bz \<longrightarrow> unmarshal_account K bz = Ok a)"

lemma map_conv_twice: "(\<And>x. f (f x) = f x) \<Longrightarrow> map f \<circ> map f = map f"
  by (auto simp: fun_eq_iff)

lemma conv_twice:
  assumes "bech32_laws B"
  shows "conv_validator B (conv_validator B v) = conv_validator B v"
    "conv_delegation B (conv_delegation B d) = conv_delegation B d"
    "conv_redelegation B (conv_redelegation B r) = conv_redelegation B r"
    "conv_unbonding B (conv_unbonding B u) = conv_unbonding B u"
    "conv_pair B (conv_pair B p) = conv_pair B p"
    "conv_triplet B (conv_triplet B t) = conv_triplet B t"
    "conv_signing_info B (conv_signing_info B i) = conv_signing_info B i"
    "conv_vote B (conv_vote B w) = conv_vote B w"
    "conv_deposit B (conv_deposit B e) = conv_deposit B e"
  using convert_twice [OF assms]
  by (simp_all add: conv_validator_def conv_delegation_def conv_redelegation_def conv_unbonding_def conv_pair_def
      conv_triplet_def conv_signing_info_def conv_vote_def conv_deposit_def)

lemma conv_historical_twice: "bech32_laws B \<Longrightarrow> conv_historical B (conv_historical B h) = conv_historical B h"
  by (simp add: conv_historical_def comp_def conv_twice(1))

lemma account_twice: "bech32_laws B \<Longrightarrow> conv_account B a = Some b \<Longrightarrow> conv_account B b = Some b"
  by (cases a) (auto simp: convert_twice)

section \<open>Every rewriting settles\<close>

lemma migrate_vote_settles:
  assumes "bech32_laws B" "gov_laws C"
  shows "settles (migrate_vote B C)"
  unfolding settles_def
proof (intro allI impI)
  fix v v' assume h: "migrate_vote B C v = Ok v'"
  have codecs: "unmarshal (c_Vote_v1beta1 C) (marshal (c_Vote_v1beta1 C) x) = Ok x"
    "unmarshal (c_Vote_v1 C) (marshal (c_Vote_v1 C) x) = Ok x" for x
    using assms(2) by (simp_all add: gov_laws_def codec_law_def)
  show "migrate_vote B C v' = Ok v'"
  proof (cases "unmarshal (c_Vote_v1beta1 C) v")
    case (Ok x)
    with h codecs show ?thesis by (auto simp: migrate_vote_def conv_twice [OF assms(1)])
  next
    case (Err e)
    with h obtain w where w: "unmarshal (c_Vote_v1 C) v = Ok w" "v' = marshal (c_Vote_v1 C) (conv_vote B w)"
      by (auto simp: migrate_vote_def rewrite_Ok)
    have "Vote_rest (conv_vote B w) = Vote_rest w" by (simp add: conv_vote_def)
    with assms(2) Err w(1) obtain e' where "unmarshal (c_Vote_v1beta1 C) v' = Err e'"
      unfolding gov_laws_def w(2) by blast
    then show ?thesis by (simp add: migrate_vote_def rewrite_def w(2) codecs conv_twice [OF assms(1)])
  qed (use h in \<open>simp add: migrate_vote_def\<close>)
qed

lemma migrate_deposit_settles:
  assumes "bech32_laws B" "gov_laws C"
  shows "settles (migrate_deposit B C)"
  using assms
  by (auto simp: settles_def migrate_deposit_def gov_laws_def codec_law_def conv_twice split: res.splits)

lemma migrate_account_settles:
  assumes "bech32_laws B" "account_law K"
  shows "settles (migrate_account B K)"
  using assms
  by (auto simp: settles_def migrate_account_def account_law_def account_twice split: res.splits option.splits)

lemma sections_settle:
  assumes "bech32_laws B"
  shows "staking_laws C \<Longrightarrow> list_all (\<lambda>sec. settles (snd sec)) (staking_sections B C)"
    and "staking_laws C \<Longrightarrow> list_all (\<lambda>sec. settles (snd sec)) (queue_sections B C)"
    and "gov_laws G \<Longrightarrow> list_all (\<lambda>sec. settles (snd sec)) (gov_sections B G)"
  using assms
  by (auto simp: staking_sections_def queue_sections_def gov_sections_def staking_laws_def conv_twice
      conv_historical_twice convert_twice map_conv_twice comp_def migrate_vote_settles migrate_deposit_settles
      intro!: rewrite_settles)

lemma sections_apart:
  "staking_laws C \<Longrightarrow> apart (staking_sections B C)"
  "staking_laws C \<Longrightarrow> apart (queue_sections B C)"
  "gov_laws G \<Longrightarrow> apart (gov_sections B G)"
  "apart [sec]"
  by (auto simp: apart_def staking_sections_def queue_sections_def gov_sections_def staking_laws_def gov_laws_def)

text \<open>
  A deposit in the new encoding loses its contents: whatever it holds, its entry becomes what the failed old
  decoding left behind.
\<close>

lemma new_deposit_is_lost:
  assumes "unmarshal (c_Deposit_v1beta1 C) bz = Err e" "unmarshal (c_Deposit_v1 C) bz = Ok d"
  shows "migrate_deposit B C bz = Ok (marshal (c_Deposit_v1beta1 C) (conv_deposit B (partial_Deposit C bz)))"
  using assms by (simp add: migrate_deposit_def)

section \<open>Properties\<close>

text \<open>
  C27: The staking migration keeps the types of the store. If every entry under the five key prefixes decodes
  as the type of its section, the migration succeeds without a panic, every such entry keeps its key and now
  decodes to the same value with its addresses converted, no key appears or disappears elsewhere, the entries
  outside the five sections are untouched, and the migrated store is again well typed.
\<close>

theorem staking_migration_types:
  assumes "staking_laws C" "bech32_laws B" "typed (staking_sections B C) s"
  shows "\<exists>s'. staking_MigrateAddressBech32 B C s = (Ok (), s') \<and>
     typed (staking_sections B C) s' \<and>
     (\<forall>k. kv_get s k = None \<longrightarrow> kv_get s' k = None) \<and>
     (\<forall>k. \<not> prefix (ValidatorsKey C) k \<longrightarrow> \<not> prefix (DelegationKey C) k \<longrightarrow> \<not> prefix (RedelegationKey C) k \<longrightarrow>
        \<not> prefix (UnbondingDelegationKey C) k \<longrightarrow> \<not> prefix (HistoricalInfoKey C) k \<longrightarrow> kv_get s' k = kv_get s k) \<and>
     (\<forall>k v x. prefix (ValidatorsKey C) k \<longrightarrow> kv_get s k = Some v \<longrightarrow> unmarshal (c_Validator C) v = Ok x \<longrightarrow>
        kv_get s' k = Some (marshal (c_Validator C) (conv_validator B x))) \<and>
     (\<forall>k v x. prefix (DelegationKey C) k \<longrightarrow> kv_get s k = Some v \<longrightarrow> unmarshal (c_Delegation C) v = Ok x \<longrightarrow>
        kv_get s' k = Some (marshal (c_Delegation C) (conv_delegation B x))) \<and>
     (\<forall>k v x. prefix (RedelegationKey C) k \<longrightarrow> kv_get s k = Some v \<longrightarrow> unmarshal (c_Redelegation C) v = Ok x \<longrightarrow>
        kv_get s' k = Some (marshal (c_Redelegation C) (conv_redelegation B x))) \<and>
     (\<forall>k v x. prefix (UnbondingDelegationKey C) k \<longrightarrow> kv_get s k = Some v \<longrightarrow> unmarshal (c_UnbondingDelegation C) v = Ok x \<longrightarrow>
        kv_get s' k = Some (marshal (c_UnbondingDelegation C) (conv_unbonding B x))) \<and>
     (\<forall>k v x. prefix (HistoricalInfoKey C) k \<longrightarrow> kv_get s k = Some v \<longrightarrow> unmarshal (c_HistoricalInfo C) v = Ok x \<longrightarrow>
        kv_get s' k = Some (marshal (c_HistoricalInfo C) (conv_historical B x)))"
proof -
  note ap = sections_apart(1) [OF assms(1)]
  obtain s' where run: "run_sections (staking_sections B C) s = (Ok (), s')"
    using run_sections_total [OF assms(3) ap] by blast
  have m: "migrated (staking_sections B C) s s'" by (rule run_sections_migrated [OF run ap])
  have t: "typed (staking_sections B C) s'" using migrated_typed [OF m sections_settle(1) [OF assms(2,1)]] by blast
  show ?thesis
    by (rule exI [of _ s'], intro conjI)
      (use run t m in \<open>(simp add: migrations_are_sections; fail) |
        (fastforce simp: migrated_def staking_sections_def rewrite_def)\<close>)+
qed

text \<open>
  C28: Every migration is idempotent. Once one of the migrations of staking, its queues, slashing, governance
  or accounts has succeeded, running it again on the store it left succeeds and changes nothing, so an upgrade
  that repeats it is harmless.
\<close>

theorem migrations_idempotent:
  assumes "bech32_laws B" "staking_laws C" "codec_law c" "gov_laws G" "account_law K"
  shows "(staking_MigrateAddressBech32 B C s = (Ok (), s') \<longrightarrow> staking_MigrateAddressBech32 B C s' = (Ok (), s')) \<and>
     (MigrateUnbonding B C s = (Ok (), s') \<longrightarrow> MigrateUnbonding B C s' = (Ok (), s')) \<and>
     (slashing_MigrateAddressBech32 B c p s = (Ok (), s') \<longrightarrow> slashing_MigrateAddressBech32 B c p s' = (Ok (), s')) \<and>
     (gov_MigrateAddressBech32 B G s = (Ok (), s') \<longrightarrow> gov_MigrateAddressBech32 B G s' = (Ok (), s')) \<and>
     (auth_MigrateAddressBech32 B K s = (Ok (), s') \<longrightarrow> auth_MigrateAddressBech32 B K s' = (Ok (), s'))"
  unfolding migrations_are_sections
  by (intro conjI impI; erule run_sections_twice)
    (simp_all add: sections_apart sections_settle assms rewrite_settles conv_twice migrate_account_settles)

section \<open>The properties at a concrete store\<close>

text \<open>
  A concrete library and encoding: addresses are the prefix followed by the bytes, the chain shows them under
  another prefix, and a stored value is the list of its texts, each character preceded by a mark.
\<close>

definition demo_bech32 :: bech32_lib where
  "demo_bech32 = \<lparr>GetFromBech32 = (\<lambda>a p. if take (length p) a = p then Some (drop (length p) a) else None),
     VerifyAddressFormat = (\<lambda>bz. bz \<noteq> []), AccAddress_String = (\<lambda>bz. ''pica'' @ bz),
     ValAddress_String = (\<lambda>bz. ''picavaloper'' @ bz), ConsAddress_String = (\<lambda>bz. ''picavalcons'' @ bz),
     PrefixValidator = ''val'', PrefixOperator = ''oper'', PrefixConsensus = ''cons''\<rparr>"

definition enc_texts :: "string list \<Rightarrow> bytes" where
  "enc_texts ts = concat (map (\<lambda>t. concat (map (\<lambda>c. [CHR 0x01, c]) t) @ [CHR 0x00]) ts)"

fun dec_texts :: "string \<Rightarrow> bytes \<Rightarrow> string list option" where
  "dec_texts acc [] = (if acc = [] then Some [] else None)"
| "dec_texts acc [m] = (if m = CHR 0x00 then Some [acc] else None)"
| "dec_texts acc (m # c # cs) =
     (if m = CHR 0x00 then map_option ((#) acc) (dec_texts [] (c # cs)) else dec_texts (acc @ [c]) cs)"

lemma dec_texts_end: "dec_texts acc (CHR 0x00 # cs) = map_option ((#) acc) (dec_texts [] cs)"
  by (cases cs) simp_all

lemma dec_texts_text: "dec_texts acc (concat (map (\<lambda>c. [CHR 0x01, c]) t) @ CHR 0x00 # cs) =
   map_option ((#) (acc @ t)) (dec_texts [] cs)"
  by (induction t arbitrary: acc) (simp_all add: dec_texts_end)

lemma dec_enc_texts [simp]: "dec_texts [] (enc_texts ts) = Some ts"
  by (induction ts) (simp_all add: enc_texts_def dec_texts_text)

definition demo_codec :: "(string list \<Rightarrow> 'v option) \<Rightarrow> ('v \<Rightarrow> string list) \<Rightarrow> 'v codec" where
  "demo_codec of_texts to_texts =
     \<lparr>unmarshal = (\<lambda>bz. case Option.bind (dec_texts [] bz) of_texts of Some v \<Rightarrow> Ok v | None \<Rightarrow> Err (ErrLib ''proto'')),
      marshal = (\<lambda>v. enc_texts (to_texts v))\<rparr>"

lemma demo_codec_law: "(\<And>v. of_texts (to_texts v) = Some v) \<Longrightarrow> codec_law (demo_codec of_texts to_texts)"
  by (simp add: codec_law_def demo_codec_def)

fun demo_pairs :: "string list \<Rightarrow> DVPair list option" where
  "demo_pairs [] = Some []"
| "demo_pairs [a] = None"
| "demo_pairs (a # b # ts) = map_option ((#) \<lparr>Dv_DelegatorAddress = a, Dv_ValidatorAddress = b\<rparr>) (demo_pairs ts)"

fun demo_triplets :: "string list \<Rightarrow> DVVTriplet list option" where
  "demo_triplets (a # b # c # ts) = map_option
     ((#) \<lparr>Dvv_DelegatorAddress = a, Dvv_ValidatorSrcAddress = b, Dvv_ValidatorDstAddress = c\<rparr>) (demo_triplets ts)"
| "demo_triplets ts = (if ts = [] then Some [] else None)"

definition demo_staking :: "unit staking_codec" where
  "demo_staking = \<lparr>
     c_Validator = demo_codec (\<lambda>ts. case ts of [a] \<Rightarrow> Some \<lparr>Val_OperatorAddress = a, Val_rest = ()\<rparr> | _ \<Rightarrow> None)
       (\<lambda>v. [Val_OperatorAddress v]),
     c_Delegation = demo_codec (\<lambda>ts. case ts of [a, b] \<Rightarrow>
         Some \<lparr>Del_DelegatorAddress = a, Del_ValidatorAddress = b, Del_rest = ()\<rparr> | _ \<Rightarrow> None)
       (\<lambda>d. [Del_DelegatorAddress d, Del_ValidatorAddress d]),
     c_Redelegation = demo_codec (\<lambda>ts. case ts of [a, b, c] \<Rightarrow> Some \<lparr>Red_DelegatorAddress = a,
         Red_ValidatorSrcAddress = b, Red_ValidatorDstAddress = c, Red_rest = ()\<rparr> | _ \<Rightarrow> None)
       (\<lambda>r. [Red_DelegatorAddress r, Red_ValidatorSrcAddress r, Red_ValidatorDstAddress r]),
     c_UnbondingDelegation = demo_codec (\<lambda>ts. case ts of [a, b] \<Rightarrow>
         Some \<lparr>Ubd_DelegatorAddress = a, Ubd_ValidatorAddress = b, Ubd_rest = ()\<rparr> | _ \<Rightarrow> None)
       (\<lambda>u. [Ubd_DelegatorAddress u, Ubd_ValidatorAddress u]),
     c_HistoricalInfo = demo_codec
       (\<lambda>ts. Some \<lparr>Hi_Valset = map (\<lambda>a. \<lparr>Val_OperatorAddress = a, Val_rest = ()\<rparr>) ts, Hi_rest = ()\<rparr>)
       (\<lambda>h. map Val_OperatorAddress (Hi_Valset h)),
     c_DVPairs = demo_codec demo_pairs (\<lambda>ps. concat (map (\<lambda>p. [Dv_DelegatorAddress p, Dv_ValidatorAddress p]) ps)),
     c_DVVTriplets = demo_codec demo_triplets (\<lambda>ts. concat
       (map (\<lambda>t. [Dvv_DelegatorAddress t, Dvv_ValidatorSrcAddress t, Dvv_ValidatorDstAddress t]) ts)),
     c_ValAddresses = demo_codec Some (\<lambda>as. as),
     ValidatorsKey = [CHR 0x21], DelegationKey = [CHR 0x31], RedelegationKey = [CHR 0x34],
     UnbondingDelegationKey = [CHR 0x32], HistoricalInfoKey = [CHR 0x50],
     UnbondingQueueKey = [CHR 0x41], RedelegationQueueKey = [CHR 0x42], ValidatorQueueKey = [CHR 0x43]\<rparr>"

lemma demo_bech32_laws: "bech32_laws demo_bech32"
  by (simp add: bech32_laws_def demo_bech32_def OldBech32Prefix_def OldBech32PrefixAccAddr_def
      OldBech32PrefixValAddr_def OldBech32PrefixConsAddr_def)

lemma demo_pairs_texts:
  "demo_pairs (concat (map (\<lambda>p. [Dv_DelegatorAddress p, Dv_ValidatorAddress p]) ps)) = Some ps"
  by (induction ps) simp_all

lemma demo_triplets_texts:
  "demo_triplets (concat (map (\<lambda>t. [Dvv_DelegatorAddress t, Dvv_ValidatorSrcAddress t, Dvv_ValidatorDstAddress t]) ts))
     = Some ts"
  by (induction ts) simp_all

lemma demo_validator_texts [simp]: "\<lparr>Val_OperatorAddress = Val_OperatorAddress v, Val_rest = ()\<rparr> = v"
  by (cases v) simp

lemma demo_staking_laws: "staking_laws demo_staking"
  by (auto simp: staking_laws_def demo_staking_def demo_pairs_texts demo_triplets_texts comp_def intro!: demo_codec_law)

definition demo_tagged :: "char \<Rightarrow> (string \<Rightarrow> 'v) \<Rightarrow> ('v \<Rightarrow> string) \<Rightarrow> 'v codec" where
  "demo_tagged t mk text =
     \<lparr>unmarshal = (\<lambda>bz. case bz of [] \<Rightarrow> Err (ErrLib ''proto'') | c # cs \<Rightarrow>
        if c = t then Ok (mk cs) else Err (ErrLib ''proto'')), marshal = (\<lambda>v. t # text v)\<rparr>"

definition demo_gov :: "unit gov_codec" where
  "demo_gov = \<lparr>
     c_Vote_v1beta1 = demo_tagged (CHR ''b'') (\<lambda>a. \<lparr>Vote_Voter = a, Vote_rest = ()\<rparr>) Vote_Voter,
     c_Vote_v1 = demo_tagged (CHR ''n'') (\<lambda>a. \<lparr>Vote_Voter = a, Vote_rest = ()\<rparr>) Vote_Voter,
     c_Deposit_v1beta1 = demo_tagged (CHR ''b'') (\<lambda>a. \<lparr>Dep_Depositor = a, Dep_rest = ()\<rparr>) Dep_Depositor,
     c_Deposit_v1 = demo_tagged (CHR ''n'') (\<lambda>a. \<lparr>Dep_Depositor = a, Dep_rest = ()\<rparr>) Dep_Depositor,
     partial_Deposit = (\<lambda>bz. \<lparr>Dep_Depositor = [], Dep_rest = ()\<rparr>),
     VotesKeyPrefix = [CHR 0x20], DepositsKeyPrefix = [CHR 0x10]\<rparr>"

definition demo_accounts :: "unit account_codec" where
  "demo_accounts = \<lparr>
     unmarshal_account = (\<lambda>bz. case bz of [] \<Rightarrow> Err (ErrLib ''proto'') | c # cs \<Rightarrow>
       if c = CHR ''m'' then Ok (ModuleAccount cs ()) else Ok (BaseAccount cs ())),
     marshal_account = (\<lambda>a. case a of BaseAccount cs _ \<Rightarrow> Ok (CHR ''b'' # cs) | ModuleAccount cs _ \<Rightarrow> Ok (CHR ''m'' # cs)
       | _ \<Rightarrow> Err (ErrLib ''proto'')), AddressStoreKeyPrefix = [CHR 0x01]\<rparr>"

lemma demo_gov_laws: "gov_laws demo_gov"
  by (auto simp: gov_laws_def demo_gov_def demo_tagged_def codec_law_def)

lemma demo_account_law: "account_law demo_accounts"
  by (auto simp: account_law_def demo_accounts_def split: AccountI.splits)

definition demo_signing :: "unit ValidatorSigningInfo codec" where
  "demo_signing = demo_tagged (CHR ''s'') (\<lambda>a. \<lparr>Si_Address = a, Si_rest = ()\<rparr>) Si_Address"

lemma demo_signing_law: "codec_law demo_signing"
  by (simp add: demo_signing_def demo_tagged_def codec_law_def)

text \<open>A store with a validator and, outside the five sections, an entry that does not decode.\<close>

definition demo_store :: "bytes kv" where
  "demo_store = kv_set ''!k'' (enc_texts [''centaurivaloperabc'']) (kv_set ''zz'' ''raw'' kv_empty)"

lemma demo_store_typed: "typed (staking_sections demo_bech32 demo_staking) demo_store"
  by (auto simp: typed_def staking_sections_def demo_store_def demo_staking_def rewrite_def demo_codec_def
      split: if_splits)

lemma staking_migration_types_witness:
  "\<exists>s'. staking_MigrateAddressBech32 demo_bech32 demo_staking demo_store = (Ok (), s') \<and>
     kv_get s' ''!k'' = Some (enc_texts [''picavaloperabc'']) \<and> kv_get s' ''zz'' = Some ''raw''"
proof -
  have k: "kv_get demo_store ''!k'' = Some (enc_texts [''centaurivaloperabc''])" "kv_get demo_store ''zz'' = Some ''raw''"
    "prefix (ValidatorsKey demo_staking) ''!k''"
    "unmarshal (c_Validator demo_staking) (enc_texts [''centaurivaloperabc'']) =
       Ok \<lparr>Val_OperatorAddress = ''centaurivaloperabc'', Val_rest = ()\<rparr>"
    by (simp_all add: demo_store_def demo_staking_def demo_codec_def)
  have z: "\<not> prefix (ValidatorsKey demo_staking) ''zz''" "\<not> prefix (DelegationKey demo_staking) ''zz''"
    "\<not> prefix (RedelegationKey demo_staking) ''zz''" "\<not> prefix (UnbondingDelegationKey demo_staking) ''zz''"
    "\<not> prefix (HistoricalInfoKey demo_staking) ''zz''"
    by (simp_all add: demo_staking_def)
  have conv: "marshal (c_Validator demo_staking) (conv_validator demo_bech32
       \<lparr>Val_OperatorAddress = ''centaurivaloperabc'', Val_rest = ()\<rparr>) = enc_texts [''picavaloperabc'']"
    by (simp add: demo_staking_def demo_codec_def conv_validator_def ConvertValAddr_def ValAddressFromOldBech32_def
        demo_bech32_def blank_def ascii_space_def OldBech32PrefixValAddr_def OldBech32Prefix_def)
  from staking_migration_types [OF demo_staking_laws demo_bech32_laws demo_store_typed] obtain s' where
    run: "staking_MigrateAddressBech32 demo_bech32 demo_staking demo_store = (Ok (), s')" and
    kept: "\<forall>k. \<not> prefix (ValidatorsKey demo_staking) k \<longrightarrow> \<not> prefix (DelegationKey demo_staking) k \<longrightarrow>
      \<not> prefix (RedelegationKey demo_staking) k \<longrightarrow> \<not> prefix (UnbondingDelegationKey demo_staking) k \<longrightarrow>
      \<not> prefix (HistoricalInfoKey demo_staking) k \<longrightarrow> kv_get s' k = kv_get demo_store k" and
    vals: "\<forall>k v x. prefix (ValidatorsKey demo_staking) k \<longrightarrow> kv_get demo_store k = Some v \<longrightarrow>
      unmarshal (c_Validator demo_staking) v = Ok x \<longrightarrow>
      kv_get s' k = Some (marshal (c_Validator demo_staking) (conv_validator demo_bech32 x))"
    by (elim exE conjE) (rule that)
  have "kv_get s' ''zz'' = Some ''raw''" using kept [rule_format, OF z] k(2) by (rule trans)
  moreover have "kv_get s' ''!k'' = Some (enc_texts [''picavaloperabc''])"
    using vals [rule_format, OF k(3,1,4)] unfolding conv .
  ultimately show ?thesis using run by (intro exI conjI)
qed

lemma migrations_idempotent_witness:
  "\<exists>s'. gov_MigrateAddressBech32 demo_bech32 demo_gov (kv_set [CHR 0x20, CHR ''k''] ''bcentauriabc'' kv_empty) = (Ok (), s') \<and>
     gov_MigrateAddressBech32 demo_bech32 demo_gov s' = (Ok (), s')"
proof -
  let ?s = "kv_set [CHR 0x20, CHR ''k''] ''bcentauriabc'' kv_empty"
  have "typed (gov_sections demo_bech32 demo_gov) ?s"
    by (auto simp: typed_def gov_sections_def migrate_vote_def migrate_deposit_def demo_gov_def demo_tagged_def
        split: if_splits)
  then obtain s' where s': "gov_MigrateAddressBech32 demo_bech32 demo_gov ?s = (Ok (), s')"
    using run_sections_total sections_apart(3) [OF demo_gov_laws] unfolding migrations_are_sections by blast
  then show ?thesis
    using migrations_idempotent [OF demo_bech32_laws demo_staking_laws demo_signing_law demo_gov_laws demo_account_law]
    by blast
qed

end
