(* ===== verification/CLI.thy ===== *)
theory CLI
  imports Mint Tx_Boundary_Props Tfmw_Props Ratelimit_Module
begin

text \<open>
  The command line clients of the modules (\<open>x/*/client/cli\<close>): from the arguments of a command to the message
  that is handed to the broadcast, or to the query that is asked and what is printed. The client context, with
  the sender, is a parameter that may fail; flags, broadcast and printing are left out.
\<close>

section \<open>Arguments\<close>

text \<open>
  The number of arguments a command accepts. No command declares valid arguments, and \<open>OnlyValidArgs\<close> then
  accepts all. Reading an argument that is not there panics.
\<close>

definition ExactArgs :: "nat \<Rightarrow> string list \<Rightarrow> unit res" where
  "ExactArgs n args = guard (length args = n) (ErrLib ''accepts n arg(s)'')"

definition arg :: "string list \<Rightarrow> nat \<Rightarrow> string res" where
  "arg args i = (if i < length args then Ok (args ! i) else Panic)"

definition cobra_RunE :: "nat \<Rightarrow> string list \<Rightarrow> (string list \<Rightarrow> 'r res) \<Rightarrow> 'r res" where
  "cobra_RunE n args RunE = res_bind (ExactArgs n args) (\<lambda>_. RunE args)"

definition parse_uint :: "string \<Rightarrow> u64 res" where
  "parse_uint s = (case ParseUint s of Some n \<Rightarrow> Ok n | None \<Rightarrow> Err (ErrLib ''strconv.ParseUint''))"

section \<open>Transactions of the transfer middleware\<close>

definition RegistryDotSamaChain :: "lib \<Rightarrow> string res \<Rightarrow> string list \<Rightarrow> MsgAddParachainIBCTokenInfo res" where
  "RegistryDotSamaChain L from_address args =
     cobra_RunE 4 args (\<lambda>args.
       res_bind (arg args 0) (\<lambda>ibcDenom.
       res_bind (arg args 1) (\<lambda>nativeDenom.
       res_bind (arg args 2) (\<lambda>assetID.
       res_bind (arg args 3) (\<lambda>channelID.
       res_bind from_address (\<lambda>fromAddress.
         let msg = NewMsgAddParachainIBCTokenInfo fromAddress ibcDenom nativeDenom assetID channelID
         in res_bind (MsgAddParachainIBCTokenInfo_ValidateBasic L msg) (\<lambda>_. Ok msg)))))))"

definition RemoveDotSamaChain :: "lib \<Rightarrow> string res \<Rightarrow> string list \<Rightarrow> MsgRemoveParachainIBCTokenInfo res" where
  "RemoveDotSamaChain L from_address args =
     cobra_RunE 1 args (\<lambda>args.
       res_bind (arg args 0) (\<lambda>nativeDenom.
       res_bind from_address (\<lambda>fromAddress.
         let msg = NewMsgRemoveParachainIBCTokenInfo fromAddress nativeDenom
         in res_bind (MsgRemoveParachainIBCTokenInfo_ValidateBasic L msg) (\<lambda>_. Ok msg))))"

definition cli_AddRlyAddress :: "lib \<Rightarrow> string res \<Rightarrow> string list \<Rightarrow> MsgAddRlyAddress res" where
  "cli_AddRlyAddress L from_address args =
     cobra_RunE 1 args (\<lambda>args.
       res_bind (arg args 0) (\<lambda>allowedAddress.
       res_bind from_address (\<lambda>fromAddress.
         let msg = NewMsgAddRlyAddress fromAddress allowedAddress
         in res_bind (MsgAddRlyAddress_ValidateBasic L msg) (\<lambda>_. Ok msg))))"

section \<open>Transactions of the other modules\<close>

text \<open>Both boundary commands accept one argument and read two.\<close>

definition GetCmdUpdateDelegateBoundary :: "string res \<Rightarrow> string list \<Rightarrow> MsgUpdateDelegateBoundary res" where
  "GetCmdUpdateDelegateBoundary from_address args =
     cobra_RunE 1 args (\<lambda>args.
       res_bind from_address (\<lambda>fromAddress.
       res_bind (arg args 0) (\<lambda>a. res_bind (parse_uint a) (\<lambda>txLimit.
       res_bind (arg args 1) (\<lambda>a. res_bind (parse_uint a) (\<lambda>blockPerGeneration.
         Ok (NewMsgUpdateDelegateBoundary
              \<lparr>TxLimit = txLimit, BlocksPerGeneration = blockPerGeneration\<rparr> fromAddress)))))))"

definition GetCmdUpdateRedelegateBoundary :: "string res \<Rightarrow> string list \<Rightarrow> MsgUpdateRedelegateBoundary res" where
  "GetCmdUpdateRedelegateBoundary from_address args =
     cobra_RunE 1 args (\<lambda>args.
       res_bind from_address (\<lambda>fromAddress.
       res_bind (arg args 0) (\<lambda>a. res_bind (parse_uint a) (\<lambda>txLimit.
       res_bind (arg args 1) (\<lambda>a. res_bind (parse_uint a) (\<lambda>blockPerGeneration.
         Ok (NewMsgUpdateRedelegateBoundary
              \<lparr>TxLimit = txLimit, BlocksPerGeneration = blockPerGeneration\<rparr> fromAddress)))))))"

definition GetCmdFundModuleAccount ::
    "(bytes \<Rightarrow> string) \<Rightarrow> (string \<Rightarrow> Coins res) \<Rightarrow> bytes res \<Rightarrow> string list \<Rightarrow> MsgFundModuleAccount res" where
  "GetCmdFundModuleAccount show_addr ParseCoinsNormalized from_address args =
     cobra_RunE 1 args (\<lambda>args.
       res_bind from_address (\<lambda>fromAddress.
       res_bind (arg args 0) (\<lambda>a. res_bind (ParseCoinsNormalized a) (\<lambda>coins.
         Ok (NewMsgFundModuleAccount show_addr fromAddress coins)))))"

section \<open>Queries\<close>

text \<open>The query is answered from the state; \<open>client\<close> is the client context, which may fail.\<close>

definition GetCmdParaTokenInfo :: "unit res \<Rightarrow> tfmw_state \<Rightarrow> string list \<Rightarrow> ParachainIBCTokenInfo res" where
  "GetCmdParaTokenInfo client s args =
     cobra_RunE 1 args (\<lambda>args. res_bind client (\<lambda>_. res_bind (arg args 0) (ParaTokenInfo s)))"

definition GetEscowAddress :: "lib \<Rightarrow> (bytes \<Rightarrow> string) \<Rightarrow> unit res \<Rightarrow> string list \<Rightarrow> string res" where
  "GetEscowAddress L addr_String client args =
     cobra_RunE 1 args (\<lambda>args. res_bind client (\<lambda>_. res_bind (arg args 0) (EscrowAddress L addr_String)))"

definition GetRelayerAccount ::
    "(string list \<Rightarrow> 'p option \<Rightarrow> (string list \<times> 'r) res) \<Rightarrow> unit res \<Rightarrow> tfmw_state \<Rightarrow> string list \<Rightarrow> (string list \<times> 'r) res" where
  "GetRelayerAccount FilteredPaginate client s args =
     cobra_RunE 0 args (\<lambda>_. res_bind client (\<lambda>_. RelayerAccount FilteredPaginate s None))"

definition GetCmdQueryAllRateLimits :: "rl_state \<Rightarrow> string list \<Rightarrow> RateLimit list res" where
  "GetCmdQueryAllRateLimits s args = cobra_RunE 0 args (\<lambda>_. AllRateLimits s)"

definition GetCmdQueryDelegateBoundary :: "unit res \<Rightarrow> txb_state \<Rightarrow> string list \<Rightarrow> Boundary res" where
  "GetCmdQueryDelegateBoundary client s args =
     cobra_RunE 0 args (\<lambda>_. res_bind client (\<lambda>_. query_DelegateBoundary s))"

definition GetCmdQueryRedelegateBoundary :: "unit res \<Rightarrow> txb_state \<Rightarrow> string list \<Rightarrow> Boundary res" where
  "GetCmdQueryRedelegateBoundary client s args =
     cobra_RunE 0 args (\<lambda>_. res_bind client (\<lambda>_. query_RedelegateBoundary s))"

definition GetCmdQueryParams :: "unit res \<Rightarrow> mint_state \<Rightarrow> string list \<Rightarrow> mint_Params res" where
  "GetCmdQueryParams client s args = cobra_RunE 0 args (\<lambda>_. res_bind client (\<lambda>_. Ok (query_mint_Params s)))"

definition GetCmdQueryInflation :: "unit res \<Rightarrow> mint_state \<Rightarrow> string list \<Rightarrow> Dec res" where
  "GetCmdQueryInflation client s args = cobra_RunE 0 args (\<lambda>_. res_bind client (\<lambda>_. query_Inflation s))"

definition GetCmdQueryAnnualProvisions :: "unit res \<Rightarrow> mint_state \<Rightarrow> string list \<Rightarrow> Dec res" where
  "GetCmdQueryAnnualProvisions client s args = cobra_RunE 0 args (\<lambda>_. res_bind client (\<lambda>_. query_AnnualProvisions s))"

section \<open>What the commands send\<close>

lemma cobra_RunE_Ok: "cobra_RunE n args f = Ok r \<longleftrightarrow> length args = n \<and> f args = Ok r"
  by (auto simp: cobra_RunE_def ExactArgs_def)

lemma arg_Ok: "arg args i = Ok a \<longleftrightarrow> i < length args \<and> a = args ! i"
  by (auto simp: arg_def)

lemmas cli_simps = cobra_RunE_Ok arg_Ok Let_def

lemma boundary_commands_send_nothing:
  "GetCmdUpdateDelegateBoundary from_address args \<noteq> Ok m"
  "GetCmdUpdateRedelegateBoundary from_address args \<noteq> Ok m"
  by (auto simp: GetCmdUpdateDelegateBoundary_def GetCmdUpdateRedelegateBoundary_def cli_simps)

text \<open>With the number of arguments the command accepts and a good first one it panics.\<close>

lemma boundary_commands_panic:
  "ParseUint a = Some n \<Longrightarrow> GetCmdUpdateDelegateBoundary (Ok from_address) [a] = Panic"
  "ParseUint a = Some n \<Longrightarrow> GetCmdUpdateRedelegateBoundary (Ok from_address) [a] = Panic"
  by (simp_all add: GetCmdUpdateDelegateBoundary_def GetCmdUpdateRedelegateBoundary_def cobra_RunE_def ExactArgs_def
      arg_def parse_uint_def)

text \<open>The registration command, executed by the authority, registers the token its arguments name.\<close>

lemma RegistryDotSamaChain_registers:
  assumes "RegistryDotSamaChain L (Ok authority) [ibcDenom, nativeDenom, assetID, channelID] = Ok msg"
    and "registry_ok s" "AddParachainIBCTokenInfo authority msg s = (Ok (), s')"
  shows "registered s' = insert \<lparr>IbcDenom = ibcDenom, ChannelID = channelID, NativeDenom = nativeDenom, AssetId = assetID\<rparr>
           (registered s)"
proof -
  have m: "msg = NewMsgAddParachainIBCTokenInfo authority ibcDenom nativeDenom assetID channelID"
    using assms(1) by (auto simp: RegistryDotSamaChain_def cli_simps numeral_eq_Suc)
  obtain t where t: "AddParachainIBCInfo ibcDenom channelID nativeDenom assetID s = (Ok (), t)"
    and same: "same_indices t s'"
    using assms(3) by (auto simp: m AddParachainIBCTokenInfo_def NewMsgAddParachainIBCTokenInfo_def
        split: prod.splits res.splits)
  show ?thesis
    using AddParachainIBCInfo_registered [OF assms(2) t] same_indices_registered [OF same] by simp
qed

end
