(* ===== verification/Mint_Sim.thy ===== *)
theory Mint_Sim
  imports Module_Genesis
begin

text \<open>
  The simulation of \<open>x/mint\<close>: the random genesis, the random parameter change and the comparison of stores.
  The source of random numbers and the SDK's helpers over it are parameters.
\<close>

section \<open>Random values\<close>

text \<open>
  \<open>Intn n\<close> and \<open>RandIntBetween a b\<close> draw from a half-open range. \<open>GetOrGenerate\<close> takes a value from the
  parameter file of the simulation, or generates it.
\<close>

record 'r sim =
  Intn :: "int \<Rightarrow> 'r \<Rightarrow> int \<times> 'r"
  RandIntBetween :: "int \<Rightarrow> int \<Rightarrow> 'r \<Rightarrow> int \<times> 'r"
  RandStringOfLength :: "nat \<Rightarrow> 'r \<Rightarrow> string \<times> 'r"
  GetOrGenerate :: "string \<Rightarrow> ('r \<Rightarrow> Dec \<times> 'r) \<Rightarrow> 'r \<Rightarrow> Dec \<times> 'r"

definition sim_laws :: "'r sim \<Rightarrow> bool" where
  "sim_laws S \<longleftrightarrow>
     (\<forall>n r. 0 < n \<longrightarrow> 0 \<le> fst (Intn S n r) \<and> fst (Intn S n r) < n) \<and>
     (\<forall>a b r. a < b \<longrightarrow> a \<le> fst (RandIntBetween S a b r) \<and> fst (RandIntBetween S a b r) < b)"

text \<open>A simulation without a parameter file.\<close>

definition no_param_file :: "'r sim \<Rightarrow> bool" where
  "no_param_file S \<longleftrightarrow> (\<forall>key gen r. GetOrGenerate S key gen r = gen r)"

definition GenInflation :: "'r sim \<Rightarrow> 'r \<Rightarrow> Dec \<times> 'r" where
  "GenInflation S r = apfst hundredths (Intn S 99 r)"

definition GenInflationRateChange :: "'r sim \<Rightarrow> 'r \<Rightarrow> Dec \<times> 'r" where
  "GenInflationRateChange S r = apfst hundredths (Intn S 99 r)"

definition GenInflationMax :: "'r sim \<Rightarrow> 'r \<Rightarrow> Dec \<times> 'r" where
  "GenInflationMax S r = apfst hundredths (RandIntBetween S 10 30 r)"

definition GenAnnualProvisions :: "'r sim \<Rightarrow> 'r \<Rightarrow> Dec \<times> 'r" where
  "GenAnnualProvisions S r = apfst hundredths (RandIntBetween S 1 10 r)"

definition GenInflationMin :: "'r sim \<Rightarrow> 'r \<Rightarrow> Dec \<times> 'r" where
  "GenInflationMin S r = apfst hundredths (RandIntBetween S 1 10 r)"

definition GenGoalBonded :: "'r sim \<Rightarrow> 'r \<Rightarrow> Dec \<times> 'r" where
  "GenGoalBonded S r = apfst hundredths (RandIntBetween S 50 100 r)"

section \<open>Random genesis\<close>

definition random_mint_genesis :: "'r sim \<Rightarrow> lib \<Rightarrow> string \<Rightarrow> 'r \<Rightarrow> mint_GenesisState res \<times> 'r" where
  "random_mint_genesis S L bondDenom r =
     (let (inflation, r) = GetOrGenerate S ''inflation'' (GenInflation S) r;
          (inflationRateChange, r) = GetOrGenerate S ''inflation_rate_change'' (GenInflationRateChange S) r;
          (annualProvisions, r) = GetOrGenerate S ''annual_provisions'' (GenAnnualProvisions S) r;
          (goalBonded, r) = GetOrGenerate S ''goal_bonded'' (GenGoalBonded S) r;
          (inflationMax, r) = GetOrGenerate S ''inflation_max'' (GenInflationMax S) r;
          blocksPerYear = 60 * 60 * 8766 div 5
      in (res_bind (NewCoin L bondDenom 100000000000) (\<lambda>supply.
            Ok \<lparr>Mg_Minter = \<lparr>Inflation = inflation, AnnualProvisions = annualProvisions\<rparr>,
                Mg_Params =
                  \<lparr>MintDenom = bondDenom, InflationRateChange = inflationRateChange, GoalBonded = goalBonded,
                   BlocksPerYear = blocksPerYear, MaxTokenPerYear = 1000000000000000,
                   MinTokenPerYear = 800000000000000\<rparr>,
                Mg_IncentivesSupply = supply\<rparr>), r))"

text \<open>The genesis is written under the name of the module; an encoding error panics.\<close>

definition RandomizedGenState ::
    "mint_GenesisState json_codec \<Rightarrow> 'r sim \<Rightarrow> lib \<Rightarrow> string \<Rightarrow> 'r \<Rightarrow> (string \<Rightarrow> bytes option) \<Rightarrow>
     (string \<Rightarrow> bytes option) res \<times> 'r" where
  "RandomizedGenState C S L bondDenom r GenState =
     (let (mintGenesis, r) = random_mint_genesis S L bondDenom r
      in (res_bind (res_bind mintGenesis (\<lambda>g. res_must (MarshalJSON C g)))
            (\<lambda>bz. Ok (GenState(mint_ModuleName \<mapsto> bz))), r))"

section \<open>Random parameter change\<close>

text \<open>\<open>govAddress\<close> is the address of the governance account, as text.\<close>

definition SimulateMsgUpdateParams :: "'r sim \<Rightarrow> string \<Rightarrow> string \<Rightarrow> 'r \<Rightarrow> MsgUpdateParams \<times> 'r" where
  "SimulateMsgUpdateParams S bondDenom govAddress r =
     (let params = mint_DefaultParams bondDenom;
          (n, r) = RandIntBetween S 1 (60 * 60 * 8766) r;
          params = params\<lparr>BlocksPerYear := word_of_int n\<rparr>;
          (n, r) = RandIntBetween S 0 100 r;
          params = params\<lparr>GoalBonded := hundredths n\<rparr>;
          (n, r) = RandIntBetween S 1 20 r;
          params = params\<lparr>InflationRateChange := hundredths n\<rparr>;
          (n, r) = RandIntBetween S 1000000000000000 100000000000000000 r;
          params = params\<lparr>MaxTokenPerYear := n\<rparr>;
          (n, r) = RandIntBetween S 1 1000000000000000 r;
          params = params\<lparr>MinTokenPerYear := n\<rparr>;
          (d, r) = RandStringOfLength S 10 r;
          params = params\<lparr>MintDenom := d\<rparr>
      in (\<lparr>Mup_Authority = govAddress, Mup_Params = params\<rparr>, r))"

section \<open>Comparing stores\<close>

text \<open>
  \<open>NewDecodeStore\<close> prints two values of one key. The decoding of values and the printing of a minter are
  parameters; \<open>Key[:1]\<close> panics on an empty key.
\<close>

definition NewDecodeStore ::
    "(bytes \<Rightarrow> Minter res) \<Rightarrow> (Minter \<Rightarrow> string) \<Rightarrow> bytes \<times> bytes \<Rightarrow> bytes \<times> bytes \<Rightarrow> string res" where
  "NewDecodeStore unmarshal show_minter kvA kvB =
     (if fst kvA = [] then Panic
      else if take 1 (fst kvA) = MinterKey then
        res_bind (res_must (unmarshal (snd kvA))) (\<lambda>minterA.
        res_bind (res_must (unmarshal (snd kvB))) (\<lambda>minterB.
          Ok (show_minter minterA @ [CHR 0x0A] @ show_minter minterB)))
      else Panic)"

section \<open>What the simulation generates\<close>

lemma sim_lawsD:
  assumes "sim_laws S"
  shows "0 < n \<Longrightarrow> Intn S n r = (i, r') \<Longrightarrow> 0 \<le> i \<and> i < n"
    and "a < b \<Longrightarrow> RandIntBetween S a b r = (i, r') \<Longrightarrow> a \<le> i \<and> i < b"
  using assms unfolding sim_laws_def by (metis fst_conv)+

lemma hundredths_mono: "a \<le> b \<Longrightarrow> hundredths a \<le> hundredths b"
  by (simp add: hundredths_def)

lemma hundredths_sign [simp]:
  "hundredths n < 0 \<longleftrightarrow> n < 0" "hundredths n = 0 \<longleftrightarrow> n = 0" "dec_unit < hundredths n \<longleftrightarrow> 100 < n"
  by (auto simp: hundredths_def dec_unit_def)

text \<open>Every random genesis is valid.\<close>

lemma random_genesis_valid:
  assumes S: "sim_laws S" "no_param_file S" and L: "coin_laws L"
    and d: "ValidateDenom L bondDenom = Ok ()" "\<not> blank bondDenom"
  shows "\<exists>g r'. random_mint_genesis S L bondDenom r = (Ok g, r') \<and> mint_ValidateGenesis L g = Ok ()"
proof -
  obtain i1 r1 where 1: "Intn S 99 r = (i1, r1)" by (cases "Intn S 99 r")
  obtain i2 r2 where 2: "Intn S 99 r1 = (i2, r2)" by (cases "Intn S 99 r1")
  obtain i3 r3 where 3: "RandIntBetween S 1 10 r2 = (i3, r3)" by (cases "RandIntBetween S 1 10 r2")
  obtain i4 r4 where 4: "RandIntBetween S 50 100 r3 = (i4, r4)" by (cases "RandIntBetween S 50 100 r3")
  obtain i5 r5 where 5: "RandIntBetween S 10 30 r4 = (i5, r5)" by (cases "RandIntBetween S 10 30 r4")
  note bounds = sim_lawsD(1) [OF S(1) _ 1] sim_lawsD(1) [OF S(1) _ 2] sim_lawsD(2) [OF S(1) _ 4]
  have "NewCoin L bondDenom 100000000000 = Ok \<lparr>Coin_Denom = bondDenom, Coin_Amount = 100000000000\<rparr>"
    using L d(1) by (simp add: coin_laws_def)
  then show ?thesis
    using S(2) bounds 1 2 3 4 5 d
    by (simp add: random_mint_genesis_def no_param_file_def GenInflation_def GenInflationRateChange_def
        GenAnnualProvisions_def GenGoalBonded_def GenInflationMax_def mint_ValidateGenesis_def
        mint_Params_Validate_def validateMintDenom_def validateInflationRateChange_def validateGoalBonded_def
        validateBlocksPerYear_def ValidateMinter_def)
qed

text \<open>
  The random parameter change is valid unless its bonding goal is zero, which the range of the draw allows.
\<close>

lemma simulated_params_valid:
  assumes S: "sim_laws S" and m: "SimulateMsgUpdateParams S bondDenom gov r = (m, r')"
    and d: "ValidateDenom L (MintDenom (Mup_Params m)) = Ok ()" "\<not> blank (MintDenom (Mup_Params m))"
  shows "mint_Params_Validate L (Mup_Params m) = Ok () \<longleftrightarrow> GoalBonded (Mup_Params m) \<noteq> 0"
proof -
  obtain i1 r1 where 1: "RandIntBetween S 1 (60 * 60 * 8766) r = (i1, r1)" by (cases "RandIntBetween S 1 (60 * 60 * 8766) r")
  obtain i2 r2 where 2: "RandIntBetween S 0 100 r1 = (i2, r2)" by (cases "RandIntBetween S 0 100 r1")
  obtain i3 r3 where 3: "RandIntBetween S 1 20 r2 = (i3, r3)" by (cases "RandIntBetween S 1 20 r2")
  obtain i4 r4 where 4: "RandIntBetween S 1000000000000000 100000000000000000 r3 = (i4, r4)"
    by (cases "RandIntBetween S 1000000000000000 100000000000000000 r3")
  obtain i5 r5 where 5: "RandIntBetween S 1 1000000000000000 r4 = (i5, r5)"
    by (cases "RandIntBetween S 1 1000000000000000 r4")
  obtain s6 r6 where 6: "RandStringOfLength S 10 r5 = (s6, r6)" by (cases "RandStringOfLength S 10 r5")
  note bounds = sim_lawsD(2) [OF S _ 1] sim_lawsD(2) [OF S _ 2] sim_lawsD(2) [OF S _ 3]
    sim_lawsD(2) [OF S _ 4] sim_lawsD(2) [OF S _ 5]
  have "(word_of_int i1 :: 64 word) \<noteq> 0"
    using bounds(1) uint_of_small [of i1] by auto
  moreover have "Mup_Params m = \<lparr>MintDenom = s6, InflationRateChange = hundredths i3, GoalBonded = hundredths i2,
      BlocksPerYear = word_of_int i1, MaxTokenPerYear = i4, MinTokenPerYear = i5\<rparr>"
    using m 1 2 3 4 5 6 by (auto simp: SimulateMsgUpdateParams_def mint_DefaultParams_def Let_def)
  ultimately show ?thesis
    using bounds d
    by (simp add: mint_Params_Validate_def validateMintDenom_def validateInflationRateChange_def
        validateGoalBonded_def validateBlocksPerYear_def guard_def)
qed

text \<open>Only the minter can be compared: for the parameters and for an allowed address the decoder panics.\<close>

lemma decoder_knows_only_minter:
  "NewDecodeStore u sh (mint_ParamsKey, x) kvB = Panic"
  "NewDecodeStore u sh (GetAllowedAddressStoreKey a, x) kvB = Panic"
  by (simp_all add: NewDecodeStore_def mint_ParamsKey_def MinterKey_def GetAllowedAddressStoreKey_def
      AllowedAddressKey_def)

end
