(* ===== verification/Packet_Events.thy ===== *)
theory Packet_Events
  imports Lib
begin

text \<open>
  The packets and acknowledgements the test relayer reads back from the events of a transaction
  (\<open>app/ibctesting/event_utils.go\<close>). A packet that an event carries, as the channel keeper of ibc-go
  documents it, is read back as it was, by both parsers of the file.
\<close>

section \<open>Events and their fields\<close>

record Event =
  Evt_Type :: string
  Evt_Attributes :: "(string \<times> string) list"

record PacketAck =
  Pa_Packet :: Packet
  Pa_Ack :: bytes

definition getField :: "Event \<Rightarrow> string \<Rightarrow> string" where
  "getField evt key =
     (case find (\<lambda>attr. fst attr = key) (Evt_Attributes evt) of Some attr \<Rightarrow> snd attr | None \<Rightarrow> [])"

definition toUint64 :: "string \<Rightarrow> u64 res" where
  "toUint64 raw =
     (if raw = [] then Ok 0
      else case ParseUint raw of None \<Rightarrow> Panic | Some i \<Rightarrow> Ok i)"

definition getUintField :: "Event \<Rightarrow> string \<Rightarrow> u64 res" where
  "getUintField evt key = toUint64 (getField evt key)"

text \<open>An index behind the last chunk panics.\<close>

definition parseTimeoutHeight :: "string \<Rightarrow> Height res" where
  "parseTimeoutHeight raw =
     (case strings_Split CHR ''-'' raw of
        c0 # c1 # _ \<Rightarrow>
          res_bind (toUint64 c0) (\<lambda>number.
          res_bind (toUint64 c1) (\<lambda>height.
          Ok \<lparr>RevisionNumber = number, RevisionHeight = height\<rparr>))
      | _ \<Rightarrow> Panic)"

definition parsePacketFromEvent :: "Event \<Rightarrow> Packet res" where
  "parsePacketFromEvent evt =
     res_bind (getUintField evt ''packet_sequence'') (\<lambda>seq.
     res_bind (parseTimeoutHeight (getField evt ''packet_timeout_height'')) (\<lambda>height.
     res_bind (getUintField evt ''packet_timeout_timestamp'') (\<lambda>timestamp.
     Ok \<lparr>Pkt_Sequence = seq,
         Pkt_SourcePort = getField evt ''packet_src_port'',
         Pkt_SourceChannel = getField evt ''packet_src_channel'',
         Pkt_DestPort = getField evt ''packet_dst_port'',
         Pkt_DestChannel = getField evt ''packet_dst_channel'',
         Pkt_Data = getField evt ''packet_data'',
         Pkt_TimeoutHeight = height,
         Pkt_TimeoutTimestamp = timestamp\<rparr>)))"

fun getSendPackets :: "Event list \<Rightarrow> Packet list res" where
  "getSendPackets [] = Ok []"
| "getSendPackets (evt # evts) =
     (if Evt_Type evt = ''send_packet'' then
        res_bind (parsePacketFromEvent evt) (\<lambda>packet.
        res_bind (getSendPackets evts) (\<lambda>res. Ok (packet # res)))
      else getSendPackets evts)"

fun getAckPackets :: "Event list \<Rightarrow> PacketAck list res" where
  "getAckPackets [] = Ok []"
| "getAckPackets (evt # evts) =
     (if Evt_Type evt = ''write_acknowledgement'' then
        res_bind (parsePacketFromEvent evt) (\<lambda>packet.
        res_bind (getAckPackets evts) (\<lambda>res.
        Ok (\<lparr>Pa_Packet = packet, Pa_Ack = getField evt ''packet_ack''\<rparr> # res)))
      else getAckPackets evts)"

section \<open>The parser of one packet\<close>

text \<open>
  \<open>ParsePacketFromEvents\<close> reads the first event of a sent packet, attribute by attribute: a later attribute overwrites
  an earlier one, and text that is no number is an error. \<open>ParseHeight\<close> is that of ibc-go.
\<close>

definition empty_packet :: Packet where
  "empty_packet =
     \<lparr>Pkt_Sequence = 0, Pkt_SourcePort = [], Pkt_SourceChannel = [], Pkt_DestPort = [], Pkt_DestChannel = [],
      Pkt_Data = [], Pkt_TimeoutHeight = \<lparr>RevisionNumber = 0, RevisionHeight = 0\<rparr>, Pkt_TimeoutTimestamp = 0\<rparr>"

definition parse_uint_attr :: "string \<Rightarrow> u64 res" where
  "parse_uint_attr v = (case ParseUint v of None \<Rightarrow> Err (ErrLib ''strconv.ParseUint'') | Some n \<Rightarrow> Ok n)"

definition packet_attr :: "(string \<Rightarrow> Height res) \<Rightarrow> string \<times> string \<Rightarrow> Packet \<Rightarrow> Packet res" where
  "packet_attr ParseHeight attr packet =
     (let k = fst attr; v = snd attr in
      if k = ''packet_data'' then Ok (packet\<lparr>Pkt_Data := v\<rparr>)
      else if k = ''packet_sequence'' then
        res_bind (parse_uint_attr v) (\<lambda>seq. Ok (packet\<lparr>Pkt_Sequence := seq\<rparr>))
      else if k = ''packet_src_port'' then Ok (packet\<lparr>Pkt_SourcePort := v\<rparr>)
      else if k = ''packet_src_channel'' then Ok (packet\<lparr>Pkt_SourceChannel := v\<rparr>)
      else if k = ''packet_dst_port'' then Ok (packet\<lparr>Pkt_DestPort := v\<rparr>)
      else if k = ''packet_dst_channel'' then Ok (packet\<lparr>Pkt_DestChannel := v\<rparr>)
      else if k = ''packet_timeout_height'' then
        res_bind (ParseHeight v) (\<lambda>height. Ok (packet\<lparr>Pkt_TimeoutHeight := height\<rparr>))
      else if k = ''packet_timeout_timestamp'' then
        res_bind (parse_uint_attr v) (\<lambda>timestamp. Ok (packet\<lparr>Pkt_TimeoutTimestamp := timestamp\<rparr>))
      else Ok packet)"

fun packet_attrs :: "(string \<Rightarrow> Height res) \<Rightarrow> (string \<times> string) list \<Rightarrow> Packet \<Rightarrow> Packet res" where
  "packet_attrs PH [] packet = Ok packet"
| "packet_attrs PH (attr # attrs) packet = res_bind (packet_attr PH attr packet) (packet_attrs PH attrs)"

fun ParsePacketFromEvents :: "(string \<Rightarrow> Height res) \<Rightarrow> Event list \<Rightarrow> Packet res" where
  "ParsePacketFromEvents PH [] = Err (ErrPlain ''acknowledgement event attribute not found'')"
| "ParsePacketFromEvents PH (ev # events) =
     (if Evt_Type ev = ''send_packet'' then packet_attrs PH (Evt_Attributes ev) empty_packet
      else ParsePacketFromEvents PH events)"

section \<open>Events that carry packets\<close>

text \<open>
  What the channel keeper of ibc-go documents for the event of a packet: the keys below with the fields of the packet as
  text, numbers in decimal and the height as two numbers with a hyphen. An event carries a packet when the first
  attribute with each of these keys has that text; it may have any other attributes, before, between and after them.
\<close>

definition show_height :: "Height \<Rightarrow> string" where
  "show_height h = show_nat (unat (RevisionNumber h)) @ CHR ''-'' # show_nat (unat (RevisionHeight h))"

definition packet_attributes :: "Packet \<Rightarrow> (string \<times> string) list" where
  "packet_attributes p =
     [(''packet_data'', Pkt_Data p),
      (''packet_timeout_height'', show_height (Pkt_TimeoutHeight p)),
      (''packet_timeout_timestamp'', show_nat (unat (Pkt_TimeoutTimestamp p))),
      (''packet_sequence'', show_nat (unat (Pkt_Sequence p))),
      (''packet_src_port'', Pkt_SourcePort p),
      (''packet_src_channel'', Pkt_SourceChannel p),
      (''packet_dst_port'', Pkt_DestPort p),
      (''packet_dst_channel'', Pkt_DestChannel p)]"

definition packet_keys :: "string list" where
  "packet_keys =
     [''packet_data'', ''packet_timeout_height'', ''packet_timeout_timestamp'', ''packet_sequence'', ''packet_src_port'',
      ''packet_src_channel'', ''packet_dst_port'', ''packet_dst_channel'']"

definition carries :: "Event \<Rightarrow> Packet \<Rightarrow> bool" where
  "carries e p \<longleftrightarrow> (\<forall>(k, v) \<in> set (packet_attributes p). map_of (Evt_Attributes e) k = Some v)"

text \<open>What a transaction emits, as the relayer is interested in it, and the events that tell of it.\<close>

datatype emitted = Sent Packet | Acked Packet bytes | Unrelated

fun tells :: "Event \<Rightarrow> emitted \<Rightarrow> bool" where
  "tells e (Sent p) = (Evt_Type e = ''send_packet'' \<and> carries e p)"
| "tells e (Acked p a) =
     (Evt_Type e = ''write_acknowledgement'' \<and> carries e p \<and> map_of (Evt_Attributes e) ''packet_ack'' = Some a)"
| "tells e Unrelated = (Evt_Type e \<notin> {''send_packet'', ''write_acknowledgement''})"

fun sent_of :: "emitted \<Rightarrow> Packet option" where
  "sent_of (Sent p) = Some p"
| "sent_of _ = None"

fun acked_of :: "emitted \<Rightarrow> PacketAck option" where
  "acked_of (Acked p a) = Some \<lparr>Pa_Packet = p, Pa_Ack = a\<rparr>"
| "acked_of _ = None"

section \<open>Round trip\<close>

lemma hyphen_no_digit: "CHR ''-'' \<notin> set (show_nat n)"
  using show_nat_digits [of "CHR ''-''" n] by (auto simp: char_digit_def)

lemma toUint64_show [simp]: "toUint64 (show_nat (unat w)) = Ok w"
  by (simp add: toUint64_def ParseUint_show_nat)

lemma parse_uint_attr_show [simp]: "parse_uint_attr (show_nat (unat w)) = Ok w"
  by (simp add: parse_uint_attr_def ParseUint_show_nat)

lemma parseTimeoutHeight_show [simp]: "parseTimeoutHeight (show_height h) = Ok h"
  by (simp add: parseTimeoutHeight_def show_height_def strings_Split_two hyphen_no_digit)

lemma getField_map_of: "getField e k = (case map_of (Evt_Attributes e) k of Some v \<Rightarrow> v | None \<Rightarrow> [])"
proof -
  have "(case find (\<lambda>attr. fst attr = k) as of Some attr \<Rightarrow> snd attr | None \<Rightarrow> []) =
      (case map_of as k of Some v \<Rightarrow> v | None \<Rightarrow> [])" for as :: "(string \<times> string) list"
    by (induction as) auto
  then show ?thesis by (simp add: getField_def)
qed

lemma carries_fields:
  assumes "carries e p"
  shows "\<forall>(k, v) \<in> set (packet_attributes p). getField e k = v"
  using assms by (auto simp: carries_def getField_map_of)

lemma parsePacketFromEvent_carries: "carries e p \<Longrightarrow> parsePacketFromEvent e = Ok p"
  by (drule carries_fields) (simp add: packet_attributes_def parsePacketFromEvent_def getUintField_def)

text \<open>The attributes of the packet may stand between others, as long as those before have other keys.\<close>

lemma attributes_carry:
  assumes "\<forall>k \<in> set packet_keys. k \<notin> fst ` set pre"
  shows "carries \<lparr>Evt_Type = t, Evt_Attributes = pre @ packet_attributes p @ post\<rparr> p"
proof -
  have "map_of pre k = None" if "k \<in> set packet_keys" for k
    using assms that by (simp add: map_of_eq_None_iff)
  then show ?thesis
    by (simp add: carries_def packet_attributes_def packet_keys_def map_add_def)
qed

lemma packet_attrs_append: "packet_attrs PH (as @ bs) p = res_bind (packet_attrs PH as p) (packet_attrs PH bs)"
proof (induction as arbitrary: p)
  case (Cons a as)
  then show ?case by (cases "packet_attr PH a p") simp_all
qed simp

lemma packet_attrs_other: "\<forall>k \<in> set packet_keys. k \<notin> fst ` set as \<Longrightarrow> packet_attrs PH as p = Ok p"
proof (induction as)
  case (Cons a as)
  then show ?case by (cases a) (auto simp: packet_attr_def packet_keys_def)
qed simp

text \<open>
  The two parsers of the file agree on the events of packets, where the other attributes have other keys and ibc-go's
  \<open>ParseHeight\<close> reads back the rendering of a height.
\<close>

lemma parsers_agree:
  assumes "\<forall>k \<in> set packet_keys. k \<notin> fst ` set pre \<and> k \<notin> fst ` set post"
    and "\<forall>h. PH (show_height h) = Ok h"
  shows "ParsePacketFromEvents PH (\<lparr>Evt_Type = ''send_packet'', Evt_Attributes = pre @ packet_attributes p @ post\<rparr> # evs) =
         parsePacketFromEvent \<lparr>Evt_Type = ''send_packet'', Evt_Attributes = pre @ packet_attributes p @ post\<rparr>"
proof -
  have "packet_attrs PH (packet_attributes p) empty_packet = Ok p"
    using assms(2) by (simp add: packet_attributes_def packet_attr_def empty_packet_def)
  then show ?thesis
    using assms(1) parsePacketFromEvent_carries [OF attributes_carry]
    by (simp add: packet_attrs_append packet_attrs_other)
qed

text \<open>
  They part on what no channel keeper emits: a malformed number is an error of one and a panic of the other, and a
  missing timeout height makes \<open>parsePacketFromEvent\<close> panic.
\<close>

lemma parsers_differ:
  "parsePacketFromEvent \<lparr>Evt_Type = ''send_packet'', Evt_Attributes = []\<rparr> = Panic"
  "ParsePacketFromEvents PH [\<lparr>Evt_Type = ''send_packet'', Evt_Attributes = []\<rparr>] = Ok empty_packet"
  "ParsePacketFromEvents PH [\<lparr>Evt_Type = ''send_packet'', Evt_Attributes = [(''packet_sequence'', ''x'')]\<rparr>] =
     Err (ErrLib ''strconv.ParseUint'')"
  by (simp_all add: parsePacketFromEvent_def getUintField_def getField_def toUint64_def parseTimeoutHeight_def
      packet_attr_def parse_uint_attr_def ParseUint_def char_digit_def)

lemma read_back:
  assumes "list_all2 tells evs xs"
  shows "getSendPackets evs = Ok (List.map_filter sent_of xs)"
    and "getAckPackets evs = Ok (List.map_filter acked_of xs)"
proof -
  have "getSendPackets evs = Ok (List.map_filter sent_of xs) \<and> getAckPackets evs = Ok (List.map_filter acked_of xs)"
    using assms
  proof (induction rule: list_all2_induct)
    case (Cons e es x xs)
    then show ?case
      by (cases x) (simp_all add: List.map_filter_simps parsePacketFromEvent_carries getField_map_of)
  qed (simp add: List.map_filter_simps)
  then show "getSendPackets evs = Ok (List.map_filter sent_of xs)" "getAckPackets evs = Ok (List.map_filter acked_of xs)"
    by simp_all
qed

text \<open>
  C31: Every packet and every acknowledgement the events of a transaction tell of is read back from them, in the order in
  which they were emitted and with nothing added, whatever events of other types stand between them and whatever other
  attributes the events have.
\<close>

theorem emitted_packets_read_back:
  assumes "list_all2 tells evs xs"
  shows "getSendPackets evs = Ok (List.map_filter sent_of xs) \<and>
         getAckPackets evs = Ok (List.map_filter acked_of xs)"
  using read_back [OF assms] by simp

section \<open>Example events\<close>

definition ex_relayed :: Packet where
  "ex_relayed =
     empty_packet\<lparr>Pkt_Sequence := 17, Pkt_SourcePort := ''transfer'', Pkt_SourceChannel := ''channel-0'',
       Pkt_DestPort := ''transfer'', Pkt_DestChannel := ''channel-1'', Pkt_Data := ''data'',
       Pkt_TimeoutHeight := \<lparr>RevisionNumber = 1, RevisionHeight = 110\<rparr>\<rparr>"

text \<open>The events of a transaction that receives this packet and sends one, with attributes the relayer does not read.\<close>

definition ex_events :: "Event list" where
  "ex_events =
     [\<lparr>Evt_Type = ''message'', Evt_Attributes = [(''action'', ''recv''), (''packet_sequence'', ''1'')]\<rparr>,
      \<lparr>Evt_Type = ''write_acknowledgement'',
       Evt_Attributes =
         [(''packet_data'', ''data''), (''packet_data_hex'', ''64617461''), (''packet_timeout_height'', ''1-110''),
          (''packet_timeout_timestamp'', ''0''), (''packet_sequence'', ''17''), (''packet_src_port'', ''transfer''),
          (''packet_src_channel'', ''channel-0''), (''packet_dst_port'', ''transfer''), (''packet_dst_channel'', ''channel-1''),
          (''packet_ack'', ''ok''), (''packet_ack_hex'', ''6f6b''), (''packet_connection'', ''connection-0'')]\<rparr>,
      \<lparr>Evt_Type = ''send_packet'',
       Evt_Attributes =
         [(''packet_data'', ''data''), (''packet_data_hex'', ''64617461''), (''packet_timeout_height'', ''1-110''),
          (''packet_timeout_timestamp'', ''0''), (''packet_sequence'', ''17''), (''packet_src_port'', ''transfer''),
          (''packet_src_channel'', ''channel-0''), (''packet_dst_port'', ''transfer''), (''packet_dst_channel'', ''channel-1''),
          (''packet_channel_ordering'', ''ORDER_UNORDERED''), (''packet_connection'', ''connection-0'')]\<rparr>]"

lemma emitted_packets_read_back_witness:
  "getSendPackets ex_events = Ok [ex_relayed] \<and>
   getAckPackets ex_events = Ok [\<lparr>Pa_Packet = ex_relayed, Pa_Ack = ''ok''\<rparr>]"
proof -
  have "packet_attributes ex_relayed =
      [(''packet_data'', ''data''), (''packet_timeout_height'', ''1-110''), (''packet_timeout_timestamp'', ''0''),
       (''packet_sequence'', ''17''), (''packet_src_port'', ''transfer''), (''packet_src_channel'', ''channel-0''),
       (''packet_dst_port'', ''transfer''), (''packet_dst_channel'', ''channel-1'')]"
    by code_simp
  then have "list_all2 tells ex_events [Unrelated, Acked ex_relayed ''ok'', Sent ex_relayed]"
    by (simp add: ex_events_def carries_def)
  from emitted_packets_read_back [OF this] show ?thesis by (simp add: List.map_filter_simps)
qed

end
