(* ===== verification/Test_Chain.thy ===== *)
theory Test_Chain
  imports Packet_Events IBC_Layers
begin

text \<open>
  A chain under test (\<open>app/ibctesting/chain.go\<close>, \<open>wasm.go\<close>): an application with the header of its current block, the
  header that clients on other chains are updated with, the account that sends its transactions and the packets and
  acknowledgements it still has to relay. The application, the keys of its stores and the cryptography of Tendermint are
  parameters.
\<close>

section \<open>Headers, validators and messages\<close>

record BlockID =
  Bid_Hash :: bytes
  Bid_PartSetTotal :: "32 word"
  Bid_PartSetHash :: bytes

definition MakeBlockID :: "bytes \<Rightarrow> 32 word \<Rightarrow> bytes \<Rightarrow> BlockID" where
  "MakeBlockID hash partSetSize partSetHash =
     \<lparr>Bid_Hash = hash, Bid_PartSetTotal = partSetSize, Bid_PartSetHash = partSetHash\<rparr>"

record Header =
  Hd_Version :: "u64 \<times> u64"
  Hd_ChainID :: string
  Hd_Height :: i64
  Hd_Time :: gotime
  Hd_LastBlockID :: BlockID
  Hd_LastCommitHash :: bytes
  Hd_DataHash :: bytes
  Hd_ValidatorsHash :: bytes
  Hd_NextValidatorsHash :: bytes
  Hd_ConsensusHash :: bytes
  Hd_AppHash :: bytes
  Hd_LastResultsHash :: bytes
  Hd_EvidenceHash :: bytes
  Hd_ProposerAddress :: bytes

definition empty_header :: Header where
  "empty_header =
     \<lparr>Hd_Version = (0, 0), Hd_ChainID = [], Hd_Height = 0, Hd_Time = zero_time, Hd_LastBlockID = MakeBlockID [] 0 [],
      Hd_LastCommitHash = [], Hd_DataHash = [], Hd_ValidatorsHash = [], Hd_NextValidatorsHash = [], Hd_ConsensusHash = [],
      Hd_AppHash = [], Hd_LastResultsHash = [], Hd_EvidenceHash = [], Hd_ProposerAddress = []\<rparr>"

record TmValidator =
  Val_Address :: bytes
  Val_PubKey :: bytes
  Val_VotingPower :: i64

record TmValidatorSet =
  Vs_Validators :: "TmValidator list"
  Vs_Proposer :: TmValidator

text \<open>The header of a Tendermint client; a commit and a set of validators are kept as their encoding.\<close>

record TmHeader =
  Tmh_Header :: Header
  Tmh_Commit :: bytes
  Tmh_ValidatorSet :: bytes
  Tmh_TrustedHeight :: Height
  Tmh_TrustedValidators :: "bytes option"

definition ZeroHeight :: Height where
  "ZeroHeight = \<lparr>RevisionNumber = 0, RevisionHeight = 0\<rparr>"

record TmClientState =
  Tcs_ChainID :: string
  Tcs_TrustLevel :: "u64 \<times> u64"
  Tcs_TrustingPeriod :: duration
  Tcs_UnbondingPeriod :: duration
  Tcs_MaxClockDrift :: duration
  Tcs_LatestHeight :: Height
  Tcs_ProofSpecs :: bytes
  Tcs_UpgradePath :: "string list"

datatype ClientState =
    Tm_ClientState TmClientState
  | Wasm_ClientState bytes bytes Height

fun GetLatestHeight :: "ClientState \<Rightarrow> Height" where
  "GetLatestHeight (Tm_ClientState cs) = Tcs_LatestHeight cs"
| "GetLatestHeight (Wasm_ClientState _ _ h) = h"

record TmConsensusState =
  Tcn_Timestamp :: u64
  Tcn_Data :: bytes

datatype ConsensusState =
    Tm_ConsensusState TmConsensusState
  | Wasm_ConsensusState bytes u64

datatype ClientMessage =
    Tm_Header TmHeader
  | Wasm_Header bytes Height

datatype Order = ORDERED | UNORDERED | ORDER_NONE

text \<open>The messages the test framework builds, with the arguments of their constructors; the last is the signer.\<close>

datatype Msg =
    MsgCreateClient ClientState ConsensusState string
  | MsgUpdateClient string ClientMessage string
  | MsgConnectionOpenInit string string bytes bytes u64 string
  | MsgConnectionOpenTry string string string ClientState bytes "bytes list" u64 bytes bytes bytes Height Height string
  | MsgConnectionOpenAck string string ClientState bytes bytes bytes Height Height bytes string
  | MsgConnectionOpenConfirm string bytes Height string
  | MsgChannelOpenInit string string Order "string list" string string
  | MsgChannelOpenTry string string Order "string list" string string string bytes Height string
  | MsgChannelOpenAck string string string string bytes Height string
  | MsgChannelOpenConfirm string string bytes Height string
  | MsgChannelCloseInit string string string
  | MsgChannelCloseConfirm string string bytes Height string
  | MsgRecvPacket Packet bytes Height string
  | MsgAcknowledgement Packet bytes bytes Height string
  | MsgTimeout Packet u64 bytes Height string
  | Msg_Other bytes

record Tx =
  Tx_Msgs :: "Msg list"
  Tx_FeeAmt :: "Coin list"
  Tx_Gas :: u64
  Tx_ChainID :: string
  Tx_AccNums :: "u64 list"
  Tx_AccSeqs :: "u64 list"
  Tx_Priv :: "bytes list"

section \<open>The application and the libraries\<close>

text \<open>
  What the code calls of the application under test, of ibc-go and of Tendermint. \<open>te_BeginBlock\<close> and \<open>te_SimDeliver\<close>
  may fail; a query returns the proof, or the error of its conversion, and a height.
\<close>

record 'a test_env =
  te_SetupWithGenesisValSet :: "gotime \<Rightarrow> TmValidatorSet \<Rightarrow> string \<Rightarrow> Coin list \<Rightarrow> 'a"
  te_SetChainID :: "string \<Rightarrow> 'a \<Rightarrow> 'a"
  te_BeginBlock :: "Header \<Rightarrow> ('a, unit) op"
  te_SimDeliver :: "Tx \<Rightarrow> ('a, Event list) op"
  te_EndBlock :: "'a \<Rightarrow> 'a"
  te_Commit :: "'a \<Rightarrow> 'a"
  te_LastBlockHeight :: "'a \<Rightarrow> i64"
  te_LastCommitHash :: "'a \<Rightarrow> bytes"
  te_Query :: "string \<Rightarrow> i64 \<Rightarrow> bytes \<Rightarrow> 'a \<Rightarrow> bytes res \<times> i64"
  te_GetClientState :: "string \<Rightarrow> 'a \<Rightarrow> ClientState option"
  te_GetHistoricalInfo :: "i64 \<Rightarrow> 'a \<Rightarrow> bytes list option"
  te_GetPacketAcknowledgement :: "string \<Rightarrow> string \<Rightarrow> u64 \<Rightarrow> 'a \<Rightarrow> bytes option"
  te_GetNextSequenceRecv :: "string \<Rightarrow> string \<Rightarrow> 'a \<Rightarrow> u64 option"
  te_GetCommitmentPrefix :: "'a \<Rightarrow> bytes"
  te_GetCapability :: "string \<Rightarrow> 'a \<Rightarrow> bytes option"
  te_NewCapability :: "string \<Rightarrow> ('a, bytes) op"
  te_signs :: "Tx \<Rightarrow> bool"
  te_ToTmValidators :: "bytes list \<Rightarrow> TmValidator list res"
  te_NewValidatorSet :: "TmValidator list \<Rightarrow> TmValidatorSet"
  te_ValsHash :: "TmValidatorSet \<Rightarrow> bytes"
  te_ValsToProto :: "TmValidatorSet \<Rightarrow> bytes res"
  te_HeaderHash :: "Header \<Rightarrow> bytes"
  te_MakeCommit :: "BlockID \<Rightarrow> i64 \<Rightarrow> string \<Rightarrow> TmValidatorSet \<Rightarrow> bytes list \<Rightarrow> gotime \<Rightarrow> bytes res"
  te_Sum :: "bytes \<Rightarrow> bytes"
  te_BlockProtocol :: u64
  te_ParseChainID :: "string \<Rightarrow> u64"
  te_GetHeight :: "TmHeader \<Rightarrow> Height"
  te_ConsensusState :: "TmHeader \<Rightarrow> TmConsensusState"
  te_MarshalHeader :: "TmHeader \<Rightarrow> bytes res"
  te_MarshalClientState :: "TmClientState \<Rightarrow> bytes res"
  te_MarshalConsensusState :: "TmConsensusState \<Rightarrow> bytes res"

text \<open>\<open>require\<close> ends the test.\<close>

definition require :: "bool \<Rightarrow> unit res" where
  "require b = (if b then Ok () else Panic)"

fun require_Some :: "'a option \<Rightarrow> 'a res" where
  "require_Some (Some a) = Ok a"
| "require_Some None = Panic"

fun require_NoError :: "'a res \<Rightarrow> 'a res" where
  "require_NoError (Ok a) = Ok a"
| "require_NoError _ = Panic"

lemma require_Some_eq_Ok [simp]: "require_Some m = Ok a \<longleftrightarrow> m = Some a"
  by (cases m) auto

lemma require_NoError_eq_Ok [simp]: "require_NoError r = Ok a \<longleftrightarrow> r = Ok a"
  by (cases r) auto

lemma require_eq_Ok [simp]: "require b = Ok u \<longleftrightarrow> b"
  by (simp add: require_def)

section \<open>The chain\<close>

record Account =
  Acc_Address :: string
  Acc_Number :: u64
  Acc_Sequence :: u64

record 'a TestChain =
  Tc_App :: 'a
  Tc_ChainID :: string
  Tc_LastHeader :: "TmHeader option"
  Tc_CurrentHeader :: Header
  Tc_Vals :: TmValidatorSet
  Tc_Signers :: "bytes list"
  Tc_senderPrivKey :: bytes
  Tc_SenderAccount :: Account
  Tc_PendingSendPackets :: "Packet list"
  Tc_PendingAckPackets :: "PacketAck list"
  Tc_UseWasmClient :: bool

definition SetWasm :: "bool \<Rightarrow> 'a TestChain \<Rightarrow> 'a TestChain" where
  "SetWasm wasm chain = chain\<lparr>Tc_UseWasmClient := wasm\<rparr>"

definition on_App :: "('a, 'r) op \<Rightarrow> ('a TestChain, 'r) op" where
  "on_App m chain = (case m (Tc_App chain) of (r, a) \<Rightarrow> (r, chain\<lparr>Tc_App := a\<rparr>))"

text \<open>\<open>BeginBlock\<close> returns no error; it panics.\<close>

definition run_BeginBlock :: "'a test_env \<Rightarrow> Header \<Rightarrow> ('a, unit) op" where
  "run_BeginBlock E header = op_must (te_BeginBlock E header)"

definition chain_BeginBlock :: "'a test_env \<Rightarrow> ('a TestChain, unit) op" where
  "chain_BeginBlock E chain = on_App (run_BeginBlock E (Tc_CurrentHeader chain)) chain"

definition chain_Commit :: "'a test_env \<Rightarrow> ('a TestChain, unit) op" where
  "chain_Commit E chain = (Ok (), chain\<lparr>Tc_App := te_Commit E (Tc_App chain)\<rparr>)"

subsection \<open>Proofs\<close>

definition query_proof :: "'a test_env \<Rightarrow> string \<Rightarrow> i64 \<Rightarrow> bytes \<Rightarrow> 'a TestChain \<Rightarrow> (bytes \<times> Height) res" where
  "query_proof E path height key chain =
     (let res = te_Query E path height key (Tc_App chain) in
      res_bind (require_NoError (fst res)) (\<lambda>proof.
      Ok (proof, \<lparr>RevisionNumber = te_ParseChainID E (Tc_ChainID chain), RevisionHeight = snd res + 1\<rparr>)))"

definition QueryProofAtHeight :: "'a test_env \<Rightarrow> bytes \<Rightarrow> i64 \<Rightarrow> 'a TestChain \<Rightarrow> (bytes \<times> Height) res" where
  "QueryProofAtHeight E key height = query_proof E ''store/ibc/key'' (height - 1) key"

definition QueryProof :: "'a test_env \<Rightarrow> bytes \<Rightarrow> 'a TestChain \<Rightarrow> (bytes \<times> Height) res" where
  "QueryProof E key chain = QueryProofAtHeight E key (te_LastBlockHeight E (Tc_App chain)) chain"

definition QueryUpgradeProof :: "'a test_env \<Rightarrow> bytes \<Rightarrow> u64 \<Rightarrow> 'a TestChain \<Rightarrow> (bytes \<times> Height) res" where
  "QueryUpgradeProof E key height = query_proof E ''store/upgrade/key'' (height - 1) key"

definition GetClientState :: "'a test_env \<Rightarrow> string \<Rightarrow> 'a TestChain \<Rightarrow> ClientState res" where
  "GetClientState E clientID chain = require_Some (te_GetClientState E clientID (Tc_App chain))"

definition QueryConsensusStateProof ::
  "'a test_env \<Rightarrow> (string \<Rightarrow> Height \<Rightarrow> bytes) \<Rightarrow> string \<Rightarrow> 'a TestChain \<Rightarrow> (bytes \<times> Height) res" where
  "QueryConsensusStateProof E FullConsensusStateKey clientID chain =
     res_bind (GetClientState E clientID chain) (\<lambda>clientState.
     let consensusHeight = GetLatestHeight clientState in
     res_bind (QueryProof E (FullConsensusStateKey clientID consensusHeight) chain) (\<lambda>(proofConsensus, _).
     Ok (proofConsensus, consensusHeight)))"

definition GetAcknowledgement :: "'a test_env \<Rightarrow> Packet \<Rightarrow> 'a TestChain \<Rightarrow> bytes res" where
  "GetAcknowledgement E packet chain =
     require_Some
       (te_GetPacketAcknowledgement E (Pkt_DestPort packet) (Pkt_DestChannel packet) (Pkt_Sequence packet) (Tc_App chain))"

text \<open>The validators of an earlier block; the second result of the code is that there is a value.\<close>

definition GetValsAtHeight :: "'a test_env \<Rightarrow> i64 \<Rightarrow> 'a TestChain \<Rightarrow> TmValidatorSet option res" where
  "GetValsAtHeight E height chain =
     (case te_GetHistoricalInfo E height (Tc_App chain) of
        None \<Rightarrow> Ok None
      | Some valSet \<Rightarrow>
          (case te_ToTmValidators E valSet of
             Ok tmValidators \<Rightarrow> Ok (Some (te_NewValidatorSet E tmValidators))
           | _ \<Rightarrow> Panic))"

subsection \<open>Headers\<close>

definition proto_or_panic :: "'a test_env \<Rightarrow> TmValidatorSet \<Rightarrow> bytes res" where
  "proto_or_panic E vals = require_NoError (te_ValsToProto E vals)"

definition CreateTMClientHeader ::
  "'a test_env \<Rightarrow> string \<Rightarrow> i64 \<Rightarrow> Height \<Rightarrow> gotime \<Rightarrow> TmValidatorSet option \<Rightarrow> TmValidatorSet option \<Rightarrow> bytes list \<Rightarrow>
   'a TestChain \<Rightarrow> TmHeader res" where
  "CreateTMClientHeader E chainID blockHeight trustedHeight timestamp tmValSet tmTrustedVals signers chain =
     res_bind (require_Some tmValSet) (\<lambda>vals.
     let vsetHash = te_ValsHash E vals;
         tmHeader =
           \<lparr>Hd_Version = (te_BlockProtocol E, 2), Hd_ChainID = chainID, Hd_Height = blockHeight, Hd_Time = timestamp,
            Hd_LastBlockID = MakeBlockID (replicate 32 CHR 0x00) 10000 (replicate 32 CHR 0x00),
            Hd_LastCommitHash = te_LastCommitHash E (Tc_App chain),
            Hd_DataHash = te_Sum E ''data_hash'', Hd_ValidatorsHash = vsetHash, Hd_NextValidatorsHash = vsetHash,
            Hd_ConsensusHash = te_Sum E ''consensus_hash'', Hd_AppHash = Hd_AppHash (Tc_CurrentHeader chain),
            Hd_LastResultsHash = te_Sum E ''last_results_hash'', Hd_EvidenceHash = te_Sum E ''evidence_hash'',
            Hd_ProposerAddress = Val_Address (Vs_Proposer vals)\<rparr>;
         blockID = MakeBlockID (te_HeaderHash E tmHeader) 3 (te_Sum E ''part_set'')
     in
     res_bind (require_NoError (te_MakeCommit E blockID blockHeight chainID vals signers timestamp)) (\<lambda>commit.
     res_bind (proto_or_panic E vals) (\<lambda>valSet.
     res_bind (case tmTrustedVals of None \<Rightarrow> Ok None | Some tv \<Rightarrow> res_bind (proto_or_panic E tv) (\<lambda>b. Ok (Some b)))
       (\<lambda>trustedVals.
     Ok \<lparr>Tmh_Header = tmHeader, Tmh_Commit = commit, Tmh_ValidatorSet = valSet, Tmh_TrustedHeight = trustedHeight,
         Tmh_TrustedValidators = trustedVals\<rparr>))))"

definition CurrentTMClientHeader :: "'a test_env \<Rightarrow> 'a TestChain \<Rightarrow> TmHeader res" where
  "CurrentTMClientHeader E chain =
     CreateTMClientHeader E (Tc_ChainID chain) (Hd_Height (Tc_CurrentHeader chain)) ZeroHeight
       (Hd_Time (Tc_CurrentHeader chain)) (Some (Tc_Vals chain)) None (Tc_Signers chain) chain"

definition CreateWasmClientHeader ::
  "'a test_env \<Rightarrow> string \<Rightarrow> i64 \<Rightarrow> Height \<Rightarrow> gotime \<Rightarrow> TmValidatorSet option \<Rightarrow> TmValidatorSet option \<Rightarrow> bytes list \<Rightarrow>
   'a TestChain \<Rightarrow> (bytes \<times> Height) res" where
  "CreateWasmClientHeader E chainID blockHeight trustedHeight timestamp tmValSet tmTrustedVals signers chain =
     res_bind (CreateTMClientHeader E chainID blockHeight trustedHeight timestamp tmValSet tmTrustedVals signers chain)
       (\<lambda>tmHeader.
     res_bind (require_NoError (te_MarshalHeader E tmHeader)) (\<lambda>tmWasmHeaderData.
     Ok (tmWasmHeaderData, te_GetHeight E tmHeader)))"

text \<open>The next block: the header of the block that was committed is kept, and the one after it begins.\<close>

definition next_header :: "'a test_env \<Rightarrow> 'a TestChain \<Rightarrow> Header" where
  "next_header E chain =
     empty_header
       \<lparr>Hd_ChainID := Tc_ChainID chain,
        Hd_Height := te_LastBlockHeight E (Tc_App chain) + 1,
        Hd_AppHash := te_LastCommitHash E (Tc_App chain),
        Hd_Time := Hd_Time (Tc_CurrentHeader chain),
        Hd_ValidatorsHash := te_ValsHash E (Tc_Vals chain),
        Hd_NextValidatorsHash := te_ValsHash E (Tc_Vals chain)\<rparr>"

definition NextBlock :: "'a test_env \<Rightarrow> ('a TestChain, unit) op" where
  "NextBlock E chain =
     (case CurrentTMClientHeader E chain of
        Ok lastHeader \<Rightarrow>
          let chain = chain\<lparr>Tc_LastHeader := Some lastHeader\<rparr>;
              chain = chain\<lparr>Tc_CurrentHeader := next_header E chain\<rparr>
          in chain_BeginBlock E chain
      | _ \<Rightarrow> (Panic, chain))"

subsection \<open>Transactions\<close>

definition DefaultGas :: u64 where
  "DefaultGas = 1200000"

text \<open>
  \<open>SignAndDeliver\<close> runs a block with one transaction. An outcome the caller does not expect ends the test before the
  block ends; the error of an expected failure is returned once the block is committed.
\<close>

definition SignAndDeliver ::
  "'a test_env \<Rightarrow> Header \<Rightarrow> Msg list \<Rightarrow> string \<Rightarrow> u64 list \<Rightarrow> u64 list \<Rightarrow> bool \<Rightarrow> bytes list \<Rightarrow> ('a, Event list) op" where
  "SignAndDeliver E header msgs chainID accNums accSeqs expPass priv app =
     (let tx = \<lparr>Tx_Msgs = msgs, Tx_FeeAmt = [\<lparr>Coin_Denom = ''stake'', Coin_Amount = 0\<rparr>], Tx_Gas = 2 * DefaultGas,
                Tx_ChainID = chainID, Tx_AccNums = accNums, Tx_AccSeqs = accSeqs, Tx_Priv = priv\<rparr>
      in
      if \<not> te_signs E tx then (Panic, app)
      else
        case run_BeginBlock E header app of
          (Ok _, app) \<Rightarrow>
            (case te_SimDeliver E tx app of
               (Ok res, app) \<Rightarrow> if expPass then (Ok res, te_Commit E (te_EndBlock E app)) else (Panic, app)
             | (Err err, app) \<Rightarrow> if expPass then (Panic, app) else (Err err, te_Commit E (te_EndBlock E app))
             | (Panic, app) \<Rightarrow> (Panic, app))
        | (_, app) \<Rightarrow> (Panic, app))"

definition sign_and_deliver :: "'a test_env \<Rightarrow> bool \<Rightarrow> Msg list \<Rightarrow> ('a TestChain, Event list) op" where
  "sign_and_deliver E expPass msgs chain =
     on_App
       (SignAndDeliver E (Tc_CurrentHeader chain) msgs (Tc_ChainID chain) [Acc_Number (Tc_SenderAccount chain)]
         [Acc_Sequence (Tc_SenderAccount chain)] expPass [Tc_senderPrivKey chain]) chain"

definition increment_sequence :: "('a TestChain, unit) op" where
  "increment_sequence chain =
     (let acc = Tc_SenderAccount chain in
      (Ok (), chain\<lparr>Tc_SenderAccount := acc\<lparr>Acc_Sequence := Acc_Sequence acc + 1\<rparr>\<rparr>))"

definition captureIBCEvents :: "Event list \<Rightarrow> ('a TestChain, unit) op" where
  "captureIBCEvents events chain =
     (case getSendPackets events of
        Ok toSend \<Rightarrow>
          let chain = (if toSend \<noteq> [] then chain\<lparr>Tc_PendingSendPackets := Tc_PendingSendPackets chain @ toSend\<rparr> else chain)
          in (case getAckPackets events of
                Ok toAck \<Rightarrow>
                  (Ok (), if toAck \<noteq> [] then chain\<lparr>Tc_PendingAckPackets := Tc_PendingAckPackets chain @ toAck\<rparr> else chain)
              | _ \<Rightarrow> (Panic, chain))
      | _ \<Rightarrow> (Panic, chain))"

section \<open>Signers and capabilities\<close>

definition CreateSortedSignerArray :: "'p \<Rightarrow> 'p \<Rightarrow> TmValidator \<Rightarrow> TmValidator \<Rightarrow> 'p list" where
  "CreateSortedSignerArray altPrivVal suitePrivVal altVal suiteVal =
     (if sint (Val_VotingPower altVal) > sint (Val_VotingPower suiteVal) then [altPrivVal, suitePrivVal]
      else if sint (Val_VotingPower altVal) < sint (Val_VotingPower suiteVal) then [suitePrivVal, altPrivVal]
      else if Val_Address altVal < Val_Address suiteVal then [altPrivVal, suitePrivVal]
      else [suitePrivVal, altPrivVal])"

text \<open>
  A port or a channel is bound through the scoped keeper of IBC and claimed through the one that is passed in; then a
  block is committed, at the time of the one before.
\<close>

definition CreateCapability ::
  "'a test_env \<Rightarrow> (bytes \<Rightarrow> string \<Rightarrow> ('a, unit) op) \<Rightarrow> string \<Rightarrow> ('a TestChain, unit) op" where
  "CreateCapability E ClaimCapability path =
     op_bind
       (\<lambda>chain.
          if te_GetCapability E path (Tc_App chain) = None then
            op_bind (on_App (op_must (te_NewCapability E path))) (\<lambda>capability.
            on_App (op_must (ClaimCapability capability path))) chain
          else (Ok (), chain)) (\<lambda>_.
     op_bind (chain_Commit E) (\<lambda>_. NextBlock E))"

definition CreatePortCapability ::
  "'a test_env \<Rightarrow> (string \<Rightarrow> string) \<Rightarrow> (bytes \<Rightarrow> string \<Rightarrow> ('a, unit) op) \<Rightarrow> string \<Rightarrow> ('a TestChain, unit) op" where
  "CreatePortCapability E PortPath ClaimCapability portID = CreateCapability E ClaimCapability (PortPath portID)"

definition CreateChannelCapability ::
  "'a test_env \<Rightarrow> (string \<Rightarrow> string \<Rightarrow> string) \<Rightarrow> (bytes \<Rightarrow> string \<Rightarrow> ('a, unit) op) \<Rightarrow> string \<Rightarrow> string \<Rightarrow>
   ('a TestChain, unit) op" where
  "CreateChannelCapability E ChannelCapabilityPath ClaimCapability portID channelID =
     CreateCapability E ClaimCapability (ChannelCapabilityPath portID channelID)"

definition GetPortCapability :: "'a test_env \<Rightarrow> (string \<Rightarrow> string) \<Rightarrow> string \<Rightarrow> 'a TestChain \<Rightarrow> bytes res" where
  "GetPortCapability E PortPath portID chain = require_Some (te_GetCapability E (PortPath portID) (Tc_App chain))"

definition GetChannelCapability ::
  "'a test_env \<Rightarrow> (string \<Rightarrow> string \<Rightarrow> string) \<Rightarrow> string \<Rightarrow> string \<Rightarrow> 'a TestChain \<Rightarrow> bytes res" where
  "GetChannelCapability E ChannelCapabilityPath portID channelID chain =
     require_Some (te_GetCapability E (ChannelCapabilityPath portID channelID) (Tc_App chain))"

end
