(* ===== verification/Test_Coordinator.thy ===== *)
theory Test_Coordinator
  imports Test_Chain
begin

text \<open>
  The coordinator of the chains under test (\<open>app/ibctesting/coordinator.go\<close>, and the functions of \<open>chain.go\<close> that go
  through it): one clock for all chains, blocks, transactions, and the headers a client of one chain is updated with on
  another. Every chain is kept under its identifier; a pointer to it is that identifier.
\<close>

section \<open>State\<close>

record 'a Coordinator =
  Co_CurrentTime :: gotime
  Co_Chains :: "string list"
  Co_CodeID :: bytes
  Co_heap :: "string \<Rightarrow> 'a TestChain option"

type_synonym ('a, 'z, 'r) co_op = "(('a, 'z) Coordinator_scheme, 'r) op"

text \<open>A method of a chain, called through the pointer to it.\<close>

definition on_chain :: "string \<Rightarrow> ('a TestChain, 'r) op \<Rightarrow> ('a, 'z, 'r) co_op" where
  "on_chain cid m co =
     (case Co_heap co cid of
        None \<Rightarrow> (Panic, co)
      | Some chain \<Rightarrow> (case m chain of (r, chain') \<Rightarrow> (r, co\<lparr>Co_heap := (Co_heap co)(cid \<mapsto> chain')\<rparr>)))"

definition read_chain :: "string \<Rightarrow> ('a TestChain \<Rightarrow> 'r res) \<Rightarrow> ('a, 'z, 'r) co_op" where
  "read_chain cid f co = (case Co_heap co cid of None \<Rightarrow> (Panic, co) | Some chain \<Rightarrow> (f chain, co))"

section \<open>Time\<close>

text \<open>4 December 2020, 10:30 UTC.\<close>

definition globalStartTime :: gotime where
  "globalStartTime = 63742674600 * 10 ^ 9"

definition TimeIncrement :: duration where
  "TimeIncrement = 5 * 10 ^ 9"

definition ChainIDPrefix :: string where
  "ChainIDPrefix = ''testchain''"

definition GetChainID :: "nat \<Rightarrow> string" where
  "GetChainID index = ChainIDPrefix @ show_nat index"

definition set_time :: "gotime \<Rightarrow> 'a TestChain \<Rightarrow> 'a TestChain" where
  "set_time t chain = chain\<lparr>Tc_CurrentHeader := (Tc_CurrentHeader chain)\<lparr>Hd_Time := t\<rparr>\<rparr>"

definition UpdateTimeForChain :: "'a test_env \<Rightarrow> string \<Rightarrow> ('a, 'z, unit) co_op" where
  "UpdateTimeForChain E cid co = on_chain cid (\<lambda>chain. chain_BeginBlock E (set_time (Co_CurrentTime co) chain)) co"

text \<open>The chains are visited in the order of the list; Go visits the entries of a map in any order.\<close>

definition UpdateTime :: "'a test_env \<Rightarrow> ('a, 'z, unit) co_op" where
  "UpdateTime E co = op_each (UpdateTimeForChain E) (Co_Chains co) co"

definition IncrementTimeBy :: "'a test_env \<Rightarrow> duration \<Rightarrow> ('a, 'z, unit) co_op" where
  "IncrementTimeBy E increment co = UpdateTime E (co\<lparr>Co_CurrentTime := Co_CurrentTime co + increment\<rparr>)"

definition IncrementTime :: "'a test_env \<Rightarrow> ('a, 'z, unit) co_op" where
  "IncrementTime E = IncrementTimeBy E TimeIncrement"

definition ExpireClient :: "'a test_env \<Rightarrow> duration \<Rightarrow> ('a, 'z, unit) co_op" where
  "ExpireClient E amount = IncrementTimeBy E amount"

section \<open>Blocks\<close>

definition commit_and_next :: "'a test_env \<Rightarrow> string \<Rightarrow> ('a, 'z, unit) co_op" where
  "commit_and_next E cid = op_bind (on_chain cid (chain_Commit E)) (\<lambda>_. on_chain cid (NextBlock E))"

definition CommitBlock :: "'a test_env \<Rightarrow> string list \<Rightarrow> ('a, 'z, unit) co_op" where
  "CommitBlock E cids = op_bind (op_each (commit_and_next E) cids) (\<lambda>_. IncrementTime E)"

fun CommitNBlocks :: "'a test_env \<Rightarrow> string \<Rightarrow> nat \<Rightarrow> ('a, 'z, unit) co_op" where
  "CommitNBlocks E cid 0 = op_lift (Ok ())"
| "CommitNBlocks E cid (Suc n) =
     op_bind (on_chain cid (chain_BeginBlock E)) (\<lambda>_.
     op_bind (commit_and_next E cid) (\<lambda>_.
     op_bind (IncrementTime E) (\<lambda>_.
     CommitNBlocks E cid n)))"

section \<open>Construction\<close>

text \<open>What \<open>NewTestChain\<close> generates: the key of the validator and that of the sender.\<close>

record fresh_keys =
  Fk_privVal :: bytes
  Fk_validator :: TmValidator
  Fk_senderPrivKey :: bytes
  Fk_sender :: string

definition new_chain :: "'a test_env \<Rightarrow> fresh_keys \<Rightarrow> gotime \<Rightarrow> string \<Rightarrow> 'a TestChain" where
  "new_chain E k now chainID =
     (let valSet = te_NewValidatorSet E [(Fk_validator k)\<lparr>Val_VotingPower := 1\<rparr>];
          app = te_SetupWithGenesisValSet E now valSet (Fk_sender k)
                  [\<lparr>Coin_Denom = ''stake'', Coin_Amount = 10 ^ 22\<rparr>]
      in \<lparr>Tc_App = te_SetChainID E chainID app, Tc_ChainID = chainID, Tc_LastHeader = None,
          Tc_CurrentHeader = empty_header\<lparr>Hd_ChainID := chainID, Hd_Height := 1, Hd_Time := now\<rparr>,
          Tc_Vals = valSet, Tc_Signers = [Fk_privVal k], Tc_senderPrivKey = Fk_senderPrivKey k,
          Tc_SenderAccount = \<lparr>Acc_Address = Fk_sender k, Acc_Number = 0, Acc_Sequence = 0\<rparr>,
          Tc_PendingSendPackets = [], Tc_PendingAckPackets = [], Tc_UseWasmClient = False\<rparr>)"

definition NewTestChain :: "'a test_env \<Rightarrow> fresh_keys \<Rightarrow> string \<Rightarrow> ('a, 'z, unit) co_op" where
  "NewTestChain E k chainID co =
     CommitBlock E [chainID]
       (co\<lparr>Co_heap := (Co_heap co)(chainID \<mapsto> new_chain E k (Co_CurrentTime co) chainID)\<rparr>)"

text \<open>The coordinator knows no chain before all of them are made.\<close>

definition NewCoordinator :: "'a test_env \<Rightarrow> (nat \<Rightarrow> fresh_keys) \<Rightarrow> nat \<Rightarrow> unit res \<times> 'a Coordinator" where
  "NewCoordinator E keys n =
     (let coord = \<lparr>Co_CurrentTime = globalStartTime, Co_Chains = [], Co_CodeID = [], Co_heap = (\<lambda>_. None)\<rparr> in
      op_bind (op_each (\<lambda>i. NewTestChain E (keys i) (GetChainID i)) [0..<n]) (\<lambda>_.
        \<lambda>coord. (Ok (), coord\<lparr>Co_Chains := map GetChainID [0..<n]\<rparr>)) coord)"

definition GetChain :: "string \<Rightarrow> ('a, 'z, string) co_op" where
  "GetChain chainID co = (if chainID \<in> set (Co_Chains co) then (Ok chainID, co) else (Panic, co))"

section \<open>Transactions\<close>

definition SendMsgsWithExpPass :: "'a test_env \<Rightarrow> bool \<Rightarrow> string \<Rightarrow> Msg list \<Rightarrow> ('a, 'z, Event list) co_op" where
  "SendMsgsWithExpPass E expPass cid msgs =
     op_bind (UpdateTimeForChain E cid) (\<lambda>_.
     op_bind (on_chain cid (sign_and_deliver E expPass msgs)) (\<lambda>r.
     op_bind (on_chain cid (NextBlock E)) (\<lambda>_.
     op_bind (on_chain cid increment_sequence) (\<lambda>_.
     op_bind (IncrementTime E) (\<lambda>_.
     op_bind (on_chain cid (captureIBCEvents r)) (\<lambda>_.
     op_lift (Ok r)))))))"

definition SendMsgs :: "'a test_env \<Rightarrow> string \<Rightarrow> Msg list \<Rightarrow> ('a, 'z, Event list) co_op" where
  "SendMsgs E cid msgs =
     op_bind (UpdateTimeForChain E cid) (\<lambda>_.
     op_bind (on_chain cid (sign_and_deliver E True msgs)) (\<lambda>r.
     op_bind (on_chain cid (NextBlock E)) (\<lambda>_.
     op_bind (on_chain cid increment_sequence) (\<lambda>_.
     op_bind (IncrementTime E) (\<lambda>_.
     op_bind (on_chain cid (captureIBCEvents r)) (\<lambda>_.
     op_lift (Ok r)))))))"

definition sendMsgs :: "'a test_env \<Rightarrow> string \<Rightarrow> Msg list \<Rightarrow> ('a, 'z, unit) co_op" where
  "sendMsgs E cid msgs = op_bind (SendMsgs E cid msgs) (\<lambda>_. op_lift (Ok ()))"

section \<open>Client headers\<close>

text \<open>
  The header a client on one chain is updated with is the last header of its counterparty. It is a pointer: the trusted
  height and validators are written into the header the counterparty keeps.
\<close>

definition set_trusted :: "(TmHeader \<Rightarrow> TmHeader) \<Rightarrow> 'a TestChain \<Rightarrow> 'a TestChain" where
  "set_trusted f counterparty = counterparty\<lparr>Tc_LastHeader := map_option f (Tc_LastHeader counterparty)\<rparr>"

definition trusted_validators :: "'a test_env \<Rightarrow> Height \<Rightarrow> TmHeader \<Rightarrow> 'a TestChain \<Rightarrow> TmValidatorSet option res" where
  "trusted_validators E trustedHeight header counterparty =
     (if trustedHeight = te_GetHeight E header then Ok (Some (Tc_Vals counterparty))
      else GetValsAtHeight E (RevisionHeight trustedHeight + 1) counterparty)"

definition inject_trusted :: "'a test_env \<Rightarrow> Height \<Rightarrow> ('a TestChain, TmHeader) op" where
  "inject_trusted E trustedHeight counterparty =
     (case Tc_LastHeader counterparty of
        None \<Rightarrow> (Panic, counterparty)
      | Some header \<Rightarrow>
          (case trusted_validators E trustedHeight header counterparty of
             Ok None \<Rightarrow> (Err (ErrLib ''ErrInvalidHeaderHeight''), counterparty)
           | Ok (Some tmTrustedVals) \<Rightarrow>
               let header = header\<lparr>Tmh_TrustedHeight := trustedHeight\<rparr> in
               (case te_ValsToProto E tmTrustedVals of
                  Ok trustedVals \<Rightarrow>
                    let header = header\<lparr>Tmh_TrustedValidators := Some trustedVals\<rparr>
                    in (Ok header, set_trusted (\<lambda>_. header) counterparty)
                | Err e \<Rightarrow> (Err e, set_trusted (\<lambda>_. header) counterparty)
                | Panic \<Rightarrow> (Panic, set_trusted (\<lambda>_. header) counterparty))
           | _ \<Rightarrow> (Panic, counterparty)))"

definition ConstructUpdateTMClientHeaderWithTrustedHeight ::
  "'a test_env \<Rightarrow> string \<Rightarrow> string \<Rightarrow> string \<Rightarrow> Height \<Rightarrow> ('a, 'z, TmHeader) co_op" where
  "ConstructUpdateTMClientHeaderWithTrustedHeight E cid counterparty clientID trustedHeight =
     op_bind (if trustedHeight = ZeroHeight
              then read_chain cid (\<lambda>chain. res_bind (GetClientState E clientID chain) (\<lambda>cs. Ok (GetLatestHeight cs)))
              else op_lift (Ok trustedHeight)) (\<lambda>trustedHeight.
     on_chain counterparty (inject_trusted E trustedHeight))"

definition ConstructUpdateTMClientHeader ::
  "'a test_env \<Rightarrow> string \<Rightarrow> string \<Rightarrow> string \<Rightarrow> ('a, 'z, TmHeader) co_op" where
  "ConstructUpdateTMClientHeader E cid counterparty clientID =
     ConstructUpdateTMClientHeaderWithTrustedHeight E cid counterparty clientID ZeroHeight"

definition ConstructUpdateWasmClientHeaderWithTrustedHeight ::
  "'a test_env \<Rightarrow> string \<Rightarrow> string \<Rightarrow> string \<Rightarrow> Height \<Rightarrow> ('a, 'z, bytes \<times> Height) co_op" where
  "ConstructUpdateWasmClientHeaderWithTrustedHeight E cid counterparty clientID trustedHeight =
     op_bind (ConstructUpdateTMClientHeaderWithTrustedHeight E cid counterparty clientID trustedHeight) (\<lambda>tmHeader.
     op_bind (op_lift (te_MarshalHeader E tmHeader)) (\<lambda>tmWasmHeaderData.
     op_lift (Ok (tmWasmHeaderData, te_GetHeight E tmHeader))))"

definition ConstructUpdateWasmClientHeader ::
  "'a test_env \<Rightarrow> string \<Rightarrow> string \<Rightarrow> string \<Rightarrow> ('a, 'z, bytes \<times> Height) co_op" where
  "ConstructUpdateWasmClientHeader E cid counterparty clientID =
     ConstructUpdateWasmClientHeaderWithTrustedHeight E cid counterparty clientID ZeroHeight"

end
