(* ===== verification/Test_Path.thy ===== *)
theory Test_Path
  imports Test_Coordinator
begin

text \<open>
  The two endpoints of a path between chains under test (\<open>app/ibctesting/endpoint.go\<close>, \<open>path.go\<close>, \<open>config.go\<close>) and the
  handshakes the coordinator drives over them (\<open>coordinator.go\<close>): clients, connections, channels and single packets.
  The store keys of ICS 24 and the parsers of identifiers are parameters.
\<close>

section \<open>Configuration\<close>

record TendermintConfig =
  Tmc_TrustLevel :: "u64 \<times> u64"
  Tmc_TrustingPeriod :: duration
  Tmc_UnbondingPeriod :: duration
  Tmc_MaxClockDrift :: duration
  Tmc_IsWasmClient :: bool

definition hour :: duration where
  "hour = 3600 * 10 ^ 9"

definition TrustingPeriod :: duration where
  "TrustingPeriod = hour * 24 * 7 * 2"

definition UnbondingPeriod :: duration where
  "UnbondingPeriod = hour * 24 * 7 * 3"

definition MaxClockDrift :: duration where
  "MaxClockDrift = 10 * 10 ^ 9"

definition UpgradePath :: "string list" where
  "UpgradePath = [''upgrade'', ''upgradedIBCState'']"

definition NewTendermintConfig :: "u64 \<times> u64 \<Rightarrow> bool \<Rightarrow> TendermintConfig" where
  "NewTendermintConfig DefaultTrustLevel isWasmClient =
     \<lparr>Tmc_TrustLevel = DefaultTrustLevel, Tmc_TrustingPeriod = TrustingPeriod, Tmc_UnbondingPeriod = UnbondingPeriod,
      Tmc_MaxClockDrift = MaxClockDrift, Tmc_IsWasmClient = isWasmClient\<rparr>"

definition Tendermint :: string where
  "Tendermint = ''07-tendermint''"

definition Wasm_client :: string where
  "Wasm_client = ''08-wasm''"

definition Solomachine :: string where
  "Solomachine = ''06-solomachine''"

definition GetClientType :: "TendermintConfig \<Rightarrow> string" where
  "GetClientType tmcfg = (if Tmc_IsWasmClient tmcfg then Wasm_client else Tendermint)"

text \<open>A value of the interface: the type it answers with, and what it is when it is a \<open>TendermintConfig\<close>.\<close>

record ClientConfig =
  Cc_ClientType :: string
  Cc_Tendermint :: "TendermintConfig option"

definition tm_client_config :: "TendermintConfig \<Rightarrow> ClientConfig" where
  "tm_client_config c = \<lparr>Cc_ClientType = GetClientType c, Cc_Tendermint = Some c\<rparr>"

record ConnectionConfig =
  Cn_DelayPeriod :: u64
  Cn_Version :: bytes

definition NewConnectionConfig :: "bytes \<Rightarrow> ConnectionConfig" where
  "NewConnectionConfig ConnectionVersion = \<lparr>Cn_DelayPeriod = 0, Cn_Version = ConnectionVersion\<rparr>"

record ChannelConfig =
  Ch_PortID :: string
  Ch_Version :: string
  Ch_Order :: Order

definition NewChannelConfig :: "string \<Rightarrow> string \<Rightarrow> ChannelConfig" where
  "NewChannelConfig mock_PortID mock_Version =
     \<lparr>Ch_PortID = mock_PortID, Ch_Version = mock_Version, Ch_Order = UNORDERED\<rparr>"

section \<open>Endpoints\<close>

record Endpoint =
  Ep_Chain :: string
  Ep_ClientID :: string
  Ep_ConnectionID :: string
  Ep_ChannelID :: string
  Ep_ClientConfig :: ClientConfig
  Ep_ConnectionConfig :: ConnectionConfig
  Ep_ChannelConfig :: ChannelConfig

record path_lib =
  pl_PacketCommitmentKey :: "string \<Rightarrow> string \<Rightarrow> u64 \<Rightarrow> bytes"
  pl_PacketReceiptKey :: "string \<Rightarrow> string \<Rightarrow> u64 \<Rightarrow> bytes"
  pl_PacketAcknowledgementKey :: "string \<Rightarrow> string \<Rightarrow> u64 \<Rightarrow> bytes"
  pl_NextSequenceRecvKey :: "string \<Rightarrow> string \<Rightarrow> bytes"
  pl_ConnectionKey :: "string \<Rightarrow> bytes"
  pl_ChannelKey :: "string \<Rightarrow> string \<Rightarrow> bytes"
  pl_FullClientStateKey :: "string \<Rightarrow> bytes"
  pl_FullConsensusStateKey :: "string \<Rightarrow> Height \<Rightarrow> bytes"
  pl_ParseClientIDFromEvents :: "Event list \<Rightarrow> string res"
  pl_ParseConnectionIDFromEvents :: "Event list \<Rightarrow> string res"
  pl_ParseChannelIDFromEvents :: "Event list \<Rightarrow> string res"
  pl_DefaultOpenInitVersion :: bytes
  pl_ConnectionVersion :: bytes
  pl_SDKSpecs :: bytes
  pl_UpgradePath :: "string list"
  pl_TransferPort :: string
  pl_MockPort :: string
  pl_NewTendermintConfig :: "bool \<Rightarrow> ClientConfig"
  pl_NewConnectionConfig :: ConnectionConfig
  pl_NewChannelConfig :: ChannelConfig

text \<open>The path is kept with the coordinator; the counterparty of one endpoint is the other.\<close>

datatype side = EA | EB

fun counter :: "side \<Rightarrow> side" where
  "counter EA = EB"
| "counter EB = EA"

record 'a path_net = "'a Coordinator" +
  Pn_EndpointA :: Endpoint
  Pn_EndpointB :: Endpoint

type_synonym ('a, 'r) path_op = "('a path_net, 'r) op"

fun ep :: "side \<Rightarrow> 'a path_net \<Rightarrow> Endpoint" where
  "ep EA pn = Pn_EndpointA pn"
| "ep EB pn = Pn_EndpointB pn"

fun upd_ep :: "side \<Rightarrow> (Endpoint \<Rightarrow> Endpoint) \<Rightarrow> 'a path_net \<Rightarrow> 'a path_net" where
  "upd_ep EA f pn = pn\<lparr>Pn_EndpointA := f (Pn_EndpointA pn)\<rparr>"
| "upd_ep EB f pn = pn\<lparr>Pn_EndpointB := f (Pn_EndpointB pn)\<rparr>"

definition set_ep :: "side \<Rightarrow> (Endpoint \<Rightarrow> Endpoint) \<Rightarrow> ('a, unit) path_op" where
  "set_ep s f pn = (Ok (), upd_ep s f pn)"

text \<open>A step that reads the endpoint, its counterparty, and the two chains they are on.\<close>

definition with_ends :: "side \<Rightarrow> (Endpoint \<Rightarrow> Endpoint \<Rightarrow> ('a, 'r) path_op) \<Rightarrow> ('a, 'r) path_op" where
  "with_ends s f pn = f (ep s pn) (ep (counter s) pn) pn"

definition signer :: "side \<Rightarrow> ('a, string) path_op" where
  "signer s = with_ends s (\<lambda>e c. read_chain (Ep_Chain e) (\<lambda>chain. Ok (Acc_Address (Tc_SenderAccount chain))))"

definition ep_send :: "'a test_env \<Rightarrow> side \<Rightarrow> (string \<Rightarrow> Msg) \<Rightarrow> ('a, Event list) path_op" where
  "ep_send E s msg =
     op_bind (signer s) (\<lambda>a. with_ends s (\<lambda>e c. SendMsgs E (Ep_Chain e) [msg a]))"

definition ep_send_only :: "'a test_env \<Rightarrow> side \<Rightarrow> (string \<Rightarrow> Msg) \<Rightarrow> ('a, unit) path_op" where
  "ep_send_only E s msg =
     op_bind (signer s) (\<lambda>a. with_ends s (\<lambda>e c. sendMsgs E (Ep_Chain e) [msg a]))"

definition NewDefaultEndpoint :: "path_lib \<Rightarrow> 'a TestChain \<Rightarrow> Endpoint" where
  "NewDefaultEndpoint L chain =
     \<lparr>Ep_Chain = Tc_ChainID chain, Ep_ClientID = [], Ep_ConnectionID = [], Ep_ChannelID = [],
      Ep_ClientConfig = pl_NewTendermintConfig L (Tc_UseWasmClient chain),
      Ep_ConnectionConfig = pl_NewConnectionConfig L, Ep_ChannelConfig = pl_NewChannelConfig L\<rparr>"

definition NewPath :: "path_lib \<Rightarrow> 'a TestChain \<Rightarrow> 'a TestChain \<Rightarrow> 'a Coordinator \<Rightarrow> 'a path_net" where
  "NewPath L chainA chainB co =
     Coordinator.extend co
       \<lparr>Pn_EndpointA = NewDefaultEndpoint L chainA, Pn_EndpointB = NewDefaultEndpoint L chainB\<rparr>"

subsection \<open>Proofs\<close>

definition ep_QueryProofAtHeight :: "'a test_env \<Rightarrow> side \<Rightarrow> bytes \<Rightarrow> u64 \<Rightarrow> ('a, bytes \<times> Height) path_op" where
  "ep_QueryProofAtHeight E s key height =
     with_ends s (\<lambda>e c. read_chain (Ep_Chain e) (QueryProofAtHeight E key height))"

definition ep_QueryProof :: "'a test_env \<Rightarrow> side \<Rightarrow> bytes \<Rightarrow> ('a, bytes \<times> Height) path_op" where
  "ep_QueryProof E s key =
     op_bind (with_ends s (\<lambda>e c. read_chain (Ep_Chain c) (GetClientState E (Ep_ClientID c)))) (\<lambda>clientState.
     ep_QueryProofAtHeight E s key (RevisionHeight (GetLatestHeight clientState)))"

text \<open>A proof of the counterparty chain at its last height, and the prefix of its store.\<close>

definition counter_proof :: "'a test_env \<Rightarrow> side \<Rightarrow> (Endpoint \<Rightarrow> bytes) \<Rightarrow> ('a, bytes \<times> Height) path_op" where
  "counter_proof E s key = with_ends s (\<lambda>e c. read_chain (Ep_Chain c) (QueryProof E (key c)))"

definition counter_prefix :: "'a test_env \<Rightarrow> side \<Rightarrow> ('a, bytes) path_op" where
  "counter_prefix E s =
     with_ends s (\<lambda>e c. read_chain (Ep_Chain c) (\<lambda>chain. Ok (te_GetCommitmentPrefix E (Tc_App chain))))"

definition QueryConnectionHandshakeProof ::
  "'a test_env \<Rightarrow> path_lib \<Rightarrow> side \<Rightarrow> ('a, ClientState \<times> bytes \<times> bytes \<times> Height \<times> bytes \<times> Height) path_op" where
  "QueryConnectionHandshakeProof E L s =
     op_bind (with_ends s (\<lambda>e c. read_chain (Ep_Chain c) (GetClientState E (Ep_ClientID c)))) (\<lambda>clientState.
     op_bind (with_ends s (\<lambda>e c. ep_QueryProof E (counter s) (pl_FullClientStateKey L (Ep_ClientID c))))
       (\<lambda>(proofClient, proofHeight).
     let consensusHeight = GetLatestHeight clientState in
     op_bind (with_ends s (\<lambda>e c.
         ep_QueryProofAtHeight E (counter s) (pl_FullConsensusStateKey L (Ep_ClientID c) consensusHeight)
           (RevisionHeight proofHeight))) (\<lambda>(proofConsensus, _).
     op_bind (with_ends s (\<lambda>e c.
         ep_QueryProofAtHeight E (counter s) (pl_ConnectionKey L (Ep_ConnectionID c)) (RevisionHeight proofHeight)))
       (\<lambda>(proofConnection, _).
     op_lift (Ok (clientState, proofClient, proofConsensus, consensusHeight, proofConnection, proofHeight))))))"

section \<open>Clients\<close>

definition tm_client_state :: "'a test_env \<Rightarrow> path_lib \<Rightarrow> string list \<Rightarrow> TendermintConfig \<Rightarrow> 'a TestChain \<Rightarrow> TmHeader \<Rightarrow> TmClientState" where
  "tm_client_state E L upgradePath tmConfig counterparty lastHeader =
     \<lparr>Tcs_ChainID = Tc_ChainID counterparty, Tcs_TrustLevel = Tmc_TrustLevel tmConfig,
      Tcs_TrustingPeriod = Tmc_TrustingPeriod tmConfig, Tcs_UnbondingPeriod = Tmc_UnbondingPeriod tmConfig,
      Tcs_MaxClockDrift = Tmc_MaxClockDrift tmConfig, Tcs_LatestHeight = te_GetHeight E lastHeader,
      Tcs_ProofSpecs = pl_SDKSpecs L, Tcs_UpgradePath = upgradePath\<rparr>"

text \<open>
  The states a client is created with. Those of a solo machine stay nil, and the message that would carry them cannot be
  packed, which ends the test.
\<close>

definition client_states ::
  "'a test_env \<Rightarrow> path_lib \<Rightarrow> bytes \<Rightarrow> ClientConfig \<Rightarrow> 'a TestChain \<Rightarrow> (ClientState \<times> ConsensusState) res" where
  "client_states E L codeID config counterparty =
     (let ty = Cc_ClientType config in
      if ty = Tendermint then
        res_bind (require_Some (Cc_Tendermint config)) (\<lambda>tmConfig.
        res_bind (require_Some (Tc_LastHeader counterparty)) (\<lambda>lastHeader.
        Ok (Tm_ClientState (tm_client_state E L (pl_UpgradePath L) tmConfig counterparty lastHeader),
            Tm_ConsensusState (te_ConsensusState E lastHeader))))
      else if ty = Solomachine then Panic
      else if ty = Wasm_client then
        res_bind (require_Some (Cc_Tendermint config)) (\<lambda>tmConfig.
        res_bind (require_Some (Tc_LastHeader counterparty)) (\<lambda>lastHeader.
        res_bind (te_MarshalClientState E (tm_client_state E L UpgradePath tmConfig counterparty lastHeader))
          (\<lambda>wasmClientState.
        res_bind (te_MarshalConsensusState E (te_ConsensusState E lastHeader)) (\<lambda>wasmConsensusState.
        Ok (Wasm_ClientState wasmClientState codeID (te_GetHeight E lastHeader),
            Wasm_ConsensusState wasmConsensusState (Tcn_Timestamp (te_ConsensusState E lastHeader)))))))
      else Err (ErrPlain ''client type is not supported''))"

definition CreateClient :: "'a test_env \<Rightarrow> path_lib \<Rightarrow> side \<Rightarrow> ('a, unit) path_op" where
  "CreateClient E L s =
     op_bind (with_ends s (\<lambda>e c. CommitBlock E [Ep_Chain c])) (\<lambda>_.
     op_bind (with_ends s (\<lambda>e c pn.
         read_chain (Ep_Chain c) (client_states E L (Co_CodeID pn) (Ep_ClientConfig e)) pn))
       (\<lambda>(clientState, consensusState).
     op_bind (ep_send E s (MsgCreateClient clientState consensusState)) (\<lambda>res.
     op_bind (op_lift (require_NoError (pl_ParseClientIDFromEvents L res))) (\<lambda>clientID.
     set_ep s (\<lambda>e. e\<lparr>Ep_ClientID := clientID\<rparr>)))))"

definition update_header :: "'a test_env \<Rightarrow> Endpoint \<Rightarrow> Endpoint \<Rightarrow> ('a, ClientMessage) path_op" where
  "update_header E e c =
     (let ty = Cc_ClientType (Ep_ClientConfig e) in
      if ty = Tendermint then
        op_bind (ConstructUpdateTMClientHeader E (Ep_Chain e) (Ep_Chain c) (Ep_ClientID e)) (\<lambda>h. op_lift (Ok (Tm_Header h)))
      else if ty = Wasm_client then
        op_bind (ConstructUpdateWasmClientHeader E (Ep_Chain e) (Ep_Chain c) (Ep_ClientID e)) (\<lambda>(data, height).
        op_lift (Ok (Wasm_Header data height)))
      else op_lift (Err (ErrPlain ''client type is not supported'')))"

definition UpdateClient :: "'a test_env \<Rightarrow> side \<Rightarrow> ('a, unit) path_op" where
  "UpdateClient E s =
     op_bind (with_ends s (\<lambda>e c. CommitBlock E [Ep_Chain c])) (\<lambda>_.
     op_bind (with_ends s (update_header E)) (\<lambda>header.
     with_ends s (\<lambda>e c. ep_send_only E s (MsgUpdateClient (Ep_ClientID e) header))))"

section \<open>Connections\<close>

definition ConnOpenInit :: "'a test_env \<Rightarrow> path_lib \<Rightarrow> side \<Rightarrow> ('a, unit) path_op" where
  "ConnOpenInit E L s =
     op_bind (counter_prefix E s) (\<lambda>prefix.
     op_bind (with_ends s (\<lambda>e c.
         ep_send E s (MsgConnectionOpenInit (Ep_ClientID e) (Ep_ClientID c) prefix (pl_DefaultOpenInitVersion L)
           (Cn_DelayPeriod (Ep_ConnectionConfig e))))) (\<lambda>res.
     op_bind (op_lift (require_NoError (pl_ParseConnectionIDFromEvents L res))) (\<lambda>connectionID.
     set_ep s (\<lambda>e. e\<lparr>Ep_ConnectionID := connectionID\<rparr>))))"

definition ConnOpenTry :: "'a test_env \<Rightarrow> path_lib \<Rightarrow> side \<Rightarrow> ('a, unit) path_op" where
  "ConnOpenTry E L s =
     op_bind (UpdateClient E s) (\<lambda>_.
     op_bind (QueryConnectionHandshakeProof E L s)
       (\<lambda>(counterpartyClient, proofClient, proofConsensus, consensusHeight, proofInit, proofHeight).
     op_bind (counter_prefix E s) (\<lambda>prefix.
     op_bind (with_ends s (\<lambda>e c.
         ep_send E s (MsgConnectionOpenTry (Ep_ClientID e) (Ep_ConnectionID c) (Ep_ClientID c) counterpartyClient prefix
           [pl_ConnectionVersion L] (Cn_DelayPeriod (Ep_ConnectionConfig e)) proofInit proofClient proofConsensus
           proofHeight consensusHeight))) (\<lambda>res.
     with_ends s (\<lambda>e c.
       if Ep_ConnectionID e = [] then
         op_bind (op_lift (require_NoError (pl_ParseConnectionIDFromEvents L res))) (\<lambda>connectionID.
         set_ep s (\<lambda>e. e\<lparr>Ep_ConnectionID := connectionID\<rparr>))
       else op_lift (Ok ()))))))"

definition ConnOpenAck :: "'a test_env \<Rightarrow> path_lib \<Rightarrow> side \<Rightarrow> ('a, unit) path_op" where
  "ConnOpenAck E L s =
     op_bind (UpdateClient E s) (\<lambda>_.
     op_bind (QueryConnectionHandshakeProof E L s)
       (\<lambda>(counterpartyClient, proofClient, proofConsensus, consensusHeight, proofTry, proofHeight).
     with_ends s (\<lambda>e c.
       ep_send_only E s (MsgConnectionOpenAck (Ep_ConnectionID e) (Ep_ConnectionID c) counterpartyClient proofTry
         proofClient proofConsensus proofHeight consensusHeight (pl_ConnectionVersion L)))))"

definition ConnOpenConfirm :: "'a test_env \<Rightarrow> path_lib \<Rightarrow> side \<Rightarrow> ('a, unit) path_op" where
  "ConnOpenConfirm E L s =
     op_bind (UpdateClient E s) (\<lambda>_.
     op_bind (counter_proof E s (\<lambda>c. pl_ConnectionKey L (Ep_ConnectionID c))) (\<lambda>(proof, height).
     with_ends s (\<lambda>e c. ep_send_only E s (MsgConnectionOpenConfirm (Ep_ConnectionID e) proof height))))"

section \<open>Channels\<close>

definition channel_key :: "path_lib \<Rightarrow> Endpoint \<Rightarrow> bytes" where
  "channel_key L c = pl_ChannelKey L (Ch_PortID (Ep_ChannelConfig c)) (Ep_ChannelID c)"

definition ChanOpenInit :: "'a test_env \<Rightarrow> path_lib \<Rightarrow> side \<Rightarrow> ('a, unit) path_op" where
  "ChanOpenInit E L s =
     op_bind (with_ends s (\<lambda>e c.
         ep_send E s (MsgChannelOpenInit (Ch_PortID (Ep_ChannelConfig e)) (Ch_Version (Ep_ChannelConfig e))
           (Ch_Order (Ep_ChannelConfig e)) [Ep_ConnectionID e] (Ch_PortID (Ep_ChannelConfig c))))) (\<lambda>res.
     op_bind (op_lift (require_NoError (pl_ParseChannelIDFromEvents L res))) (\<lambda>channelID.
     set_ep s (\<lambda>e. e\<lparr>Ep_ChannelID := channelID\<rparr>)))"

definition ChanOpenTry :: "'a test_env \<Rightarrow> path_lib \<Rightarrow> side \<Rightarrow> ('a, unit) path_op" where
  "ChanOpenTry E L s =
     op_bind (UpdateClient E s) (\<lambda>_.
     op_bind (counter_proof E s (channel_key L)) (\<lambda>(proof, height).
     op_bind (with_ends s (\<lambda>e c.
         ep_send E s (MsgChannelOpenTry (Ch_PortID (Ep_ChannelConfig e)) (Ch_Version (Ep_ChannelConfig e))
           (Ch_Order (Ep_ChannelConfig e)) [Ep_ConnectionID e] (Ch_PortID (Ep_ChannelConfig c)) (Ep_ChannelID c)
           (Ch_Version (Ep_ChannelConfig c)) proof height))) (\<lambda>res.
     with_ends s (\<lambda>e c.
       if Ep_ChannelID e = [] then
         op_bind (op_lift (require_NoError (pl_ParseChannelIDFromEvents L res))) (\<lambda>channelID.
         set_ep s (\<lambda>e. e\<lparr>Ep_ChannelID := channelID\<rparr>))
       else op_lift (Ok ())))))"

definition ChanOpenAck :: "'a test_env \<Rightarrow> path_lib \<Rightarrow> side \<Rightarrow> ('a, unit) path_op" where
  "ChanOpenAck E L s =
     op_bind (UpdateClient E s) (\<lambda>_.
     op_bind (counter_proof E s (channel_key L)) (\<lambda>(proof, height).
     with_ends s (\<lambda>e c.
       ep_send_only E s (MsgChannelOpenAck (Ch_PortID (Ep_ChannelConfig e)) (Ep_ChannelID e) (Ep_ChannelID c)
         (Ch_Version (Ep_ChannelConfig c)) proof height))))"

definition ChanOpenConfirm :: "'a test_env \<Rightarrow> path_lib \<Rightarrow> side \<Rightarrow> ('a, unit) path_op" where
  "ChanOpenConfirm E L s =
     op_bind (UpdateClient E s) (\<lambda>_.
     op_bind (counter_proof E s (channel_key L)) (\<lambda>(proof, height).
     with_ends s (\<lambda>e c.
       ep_send_only E s (MsgChannelOpenConfirm (Ch_PortID (Ep_ChannelConfig e)) (Ep_ChannelID e) proof height))))"

definition ChanCloseInit :: "'a test_env \<Rightarrow> side \<Rightarrow> ('a, unit) path_op" where
  "ChanCloseInit E s =
     with_ends s (\<lambda>e c. ep_send_only E s (MsgChannelCloseInit (Ch_PortID (Ep_ChannelConfig e)) (Ep_ChannelID e)))"

definition ChanCloseConfirm :: "'a test_env \<Rightarrow> path_lib \<Rightarrow> side \<Rightarrow> ('a, unit) path_op" where
  "ChanCloseConfirm E L s =
     op_bind (with_ends s (\<lambda>e c. ep_QueryProof E (counter s) (channel_key L c))) (\<lambda>(proof, proofHeight).
     with_ends s (\<lambda>e c.
       ep_send_only E s (MsgChannelCloseConfirm (Ch_PortID (Ep_ChannelConfig e)) (Ep_ChannelID e) proof proofHeight)))"

section \<open>Packets\<close>

definition RecvPacket :: "'a test_env \<Rightarrow> path_lib \<Rightarrow> side \<Rightarrow> Packet \<Rightarrow> ('a, unit) path_op" where
  "RecvPacket E L s packet =
     op_bind (counter_proof E s (\<lambda>_.
         pl_PacketCommitmentKey L (Pkt_SourcePort packet) (Pkt_SourceChannel packet) (Pkt_Sequence packet)))
       (\<lambda>(proof, proofHeight).
     op_bind (ep_send_only E s (MsgRecvPacket packet proof proofHeight)) (\<lambda>_.
     UpdateClient E (counter s)))"

definition AcknowledgePacket :: "'a test_env \<Rightarrow> path_lib \<Rightarrow> side \<Rightarrow> Packet \<Rightarrow> bytes \<Rightarrow> ('a, unit) path_op" where
  "AcknowledgePacket E L s packet ack =
     op_bind (ep_QueryProof E (counter s)
         (pl_PacketAcknowledgementKey L (Pkt_DestPort packet) (Pkt_DestChannel packet) (Pkt_Sequence packet)))
       (\<lambda>(proof, proofHeight).
     ep_send_only E s (MsgAcknowledgement packet ack proof proofHeight))"

definition TimeoutPacket :: "'a test_env \<Rightarrow> path_lib \<Rightarrow> side \<Rightarrow> Packet \<Rightarrow> ('a, unit) path_op" where
  "TimeoutPacket E L s packet =
     op_bind (with_ends s (\<lambda>e c. op_lift
        (case Ch_Order (Ep_ChannelConfig e) of
           ORDERED \<Rightarrow> Ok (pl_NextSequenceRecvKey L (Pkt_DestPort packet) (Pkt_DestChannel packet))
         | UNORDERED \<Rightarrow> Ok (pl_PacketReceiptKey L (Pkt_DestPort packet) (Pkt_DestChannel packet) (Pkt_Sequence packet))
         | ORDER_NONE \<Rightarrow> Err (ErrPlain ''unsupported order type'')))) (\<lambda>packetKey.
     op_bind (ep_QueryProof E (counter s) packetKey) (\<lambda>(proof, proofHeight).
     op_bind (with_ends s (\<lambda>e c. read_chain (Ep_Chain c) (\<lambda>chain.
         require_Some (te_GetNextSequenceRecv E (Ch_PortID (Ep_ChannelConfig e)) (Ep_ChannelID e) (Tc_App chain)))))
       (\<lambda>nextSeqRecv.
     ep_send_only E s (MsgTimeout packet nextSeqRecv proof proofHeight))))"

section \<open>Handshakes\<close>

definition SetupClients :: "'a test_env \<Rightarrow> path_lib \<Rightarrow> ('a, unit) path_op" where
  "SetupClients E L = op_bind (op_must (CreateClient E L EA)) (\<lambda>_. op_must (CreateClient E L EB))"

definition CreateConnections :: "'a test_env \<Rightarrow> path_lib \<Rightarrow> ('a, unit) path_op" where
  "CreateConnections E L =
     op_bind (op_must (ConnOpenInit E L EA)) (\<lambda>_.
     op_bind (op_must (ConnOpenTry E L EB)) (\<lambda>_.
     op_bind (op_must (ConnOpenAck E L EA)) (\<lambda>_.
     op_bind (op_must (ConnOpenConfirm E L EB)) (\<lambda>_.
     op_must (UpdateClient E EA)))))"

definition CreateChannels :: "'a test_env \<Rightarrow> path_lib \<Rightarrow> ('a, unit) path_op" where
  "CreateChannels E L =
     op_bind (op_must (ChanOpenInit E L EA)) (\<lambda>_.
     op_bind (op_must (ChanOpenTry E L EB)) (\<lambda>_.
     op_bind (op_must (ChanOpenAck E L EA)) (\<lambda>_.
     op_bind (op_must (ChanOpenConfirm E L EB)) (\<lambda>_.
     op_must (UpdateClient E EA)))))"

definition SetupConnections :: "'a test_env \<Rightarrow> path_lib \<Rightarrow> ('a, unit) path_op" where
  "SetupConnections E L = op_bind (SetupClients E L) (\<lambda>_. CreateConnections E L)"

definition Setup :: "'a test_env \<Rightarrow> path_lib \<Rightarrow> ('a, unit) path_op" where
  "Setup E L = op_bind (SetupConnections E L) (\<lambda>_. CreateChannels E L)"

definition set_ports :: "string \<Rightarrow> 'a path_net \<Rightarrow> 'a path_net" where
  "set_ports port pn =
     pn\<lparr>Pn_EndpointA := (Pn_EndpointA pn)\<lparr>Ep_ChannelConfig := (Ep_ChannelConfig (Pn_EndpointA pn))\<lparr>Ch_PortID := port\<rparr>\<rparr>,
        Pn_EndpointB := (Pn_EndpointB pn)\<lparr>Ep_ChannelConfig := (Ep_ChannelConfig (Pn_EndpointB pn))\<lparr>Ch_PortID := port\<rparr>\<rparr>\<rparr>"

definition CreateMockChannels :: "'a test_env \<Rightarrow> path_lib \<Rightarrow> ('a, unit) path_op" where
  "CreateMockChannels E L pn = CreateChannels E L (set_ports (pl_MockPort L) pn)"

definition CreateTransferChannels :: "'a test_env \<Rightarrow> path_lib \<Rightarrow> ('a, unit) path_op" where
  "CreateTransferChannels E L pn = CreateChannels E L (set_ports (pl_TransferPort L) pn)"

definition ConnOpenInitOnBothChains :: "'a test_env \<Rightarrow> path_lib \<Rightarrow> ('a, unit) path_op" where
  "ConnOpenInitOnBothChains E L =
     op_bind (ConnOpenInit E L EA) (\<lambda>_.
     op_bind (ConnOpenInit E L EB) (\<lambda>_.
     op_bind (UpdateClient E EA) (\<lambda>_. UpdateClient E EB)))"

definition ChanOpenInitOnBothChains :: "'a test_env \<Rightarrow> path_lib \<Rightarrow> ('a, unit) path_op" where
  "ChanOpenInitOnBothChains E L =
     op_bind (ChanOpenInit E L EA) (\<lambda>_.
     op_bind (ChanOpenInit E L EB) (\<lambda>_.
     op_bind (UpdateClient E EA) (\<lambda>_. UpdateClient E EB)))"

definition CloseChannel :: "'a test_env \<Rightarrow> path_lib \<Rightarrow> ('a, unit) path_op" where
  "CloseChannel E L =
     op_bind (op_must (ChanCloseInit E EA)) (\<lambda>_.
     op_bind (IncrementTime E) (\<lambda>_.
     op_bind (op_must (UpdateClient E EB)) (\<lambda>_.
     op_must (ChanCloseConfirm E L EB))))"

section \<open>Relay of pending packets\<close>

definition pending_sends :: "side \<Rightarrow> ('a, Packet list) path_op" where
  "pending_sends s = with_ends s (\<lambda>e c. read_chain (Ep_Chain e) (\<lambda>chain. Ok (Tc_PendingSendPackets chain)))"

definition pending_acks :: "side \<Rightarrow> ('a, PacketAck list) path_op" where
  "pending_acks s = with_ends s (\<lambda>e c. read_chain (Ep_Chain e) (\<lambda>chain. Ok (Tc_PendingAckPackets chain)))"

definition clear_sends :: "side \<Rightarrow> ('a, unit) path_op" where
  "clear_sends s = with_ends s (\<lambda>e c. on_chain (Ep_Chain e) (\<lambda>chain. (Ok (), chain\<lparr>Tc_PendingSendPackets := []\<rparr>)))"

definition clear_acks :: "side \<Rightarrow> ('a, unit) path_op" where
  "clear_acks s = with_ends s (\<lambda>e c. on_chain (Ep_Chain e) (\<lambda>chain. (Ok (), chain\<lparr>Tc_PendingAckPackets := []\<rparr>)))"

definition RelayAndAckPendingPackets :: "'a test_env \<Rightarrow> path_lib \<Rightarrow> ('a, unit) path_op" where
  "RelayAndAckPendingPackets E L =
     op_bind (pending_sends EA) (\<lambda>toSend.
     op_bind (IncrementTime E) (\<lambda>_.
     op_bind (with_ends EA (\<lambda>src dest. CommitBlock E [Ep_Chain src])) (\<lambda>_.
     op_bind (UpdateClient E EB) (\<lambda>_.
     op_bind (op_each (RecvPacket E L EB) toSend) (\<lambda>_.
     op_bind (clear_sends EA) (\<lambda>_.
     op_bind (pending_acks EB) (\<lambda>toAck.
     op_bind (IncrementTime E) (\<lambda>_.
     op_bind (with_ends EA (\<lambda>src dest. CommitBlock E [Ep_Chain dest])) (\<lambda>_.
     op_bind (UpdateClient E EA) (\<lambda>_.
     op_bind (op_each (\<lambda>ack. AcknowledgePacket E L EA (Pa_Packet ack) (Pa_Ack ack)) toAck) (\<lambda>_.
     clear_acks EB)))))))))))"

definition RelayAndAckPendingPacketsReverse :: "'a test_env \<Rightarrow> path_lib \<Rightarrow> ('a, unit) path_op" where
  "RelayAndAckPendingPacketsReverse E L =
     op_bind (pending_sends EB) (\<lambda>toSend.
     op_bind (IncrementTime E) (\<lambda>_.
     op_bind (with_ends EB (\<lambda>src dest. CommitBlock E [Ep_Chain src])) (\<lambda>_.
     op_bind (UpdateClient E EA) (\<lambda>_.
     op_bind (op_each (RecvPacket E L EA) toSend) (\<lambda>_.
     op_bind (clear_sends EB) (\<lambda>_.
     op_bind (pending_acks EA) (\<lambda>toAck.
     op_bind (IncrementTime E) (\<lambda>_.
     op_bind (with_ends EB (\<lambda>src dest. CommitBlock E [Ep_Chain dest])) (\<lambda>_.
     op_bind (UpdateClient E EB) (\<lambda>_.
     op_bind (op_each (\<lambda>ack. AcknowledgePacket E L EB (Pa_Packet ack) (Pa_Ack ack)) toAck) (\<lambda>_.
     clear_acks EA)))))))))))"

definition timeout_pending :: "'a test_env \<Rightarrow> path_lib \<Rightarrow> side \<Rightarrow> Packet \<Rightarrow> ('a, unit) path_op" where
  "timeout_pending E L src packet =
     op_bind (ep_QueryProof E (counter src)
         (pl_PacketReceiptKey L (Pkt_DestPort packet) (Pkt_DestChannel packet) (Pkt_Sequence packet)))
       (\<lambda>(proofUnreceived, proofHeight).
     ep_send_only E src (MsgTimeout packet (Pkt_Sequence packet) proofUnreceived proofHeight))"

definition TimeoutPendingPackets :: "'a test_env \<Rightarrow> path_lib \<Rightarrow> ('a, unit) path_op" where
  "TimeoutPendingPackets E L =
     op_bind (pending_sends EA) (\<lambda>toSend.
     op_bind (UpdateClient E EA) (\<lambda>_.
     op_bind (IncrementTime E) (\<lambda>_.
     op_bind (with_ends EA (\<lambda>src dest. CommitBlock E [Ep_Chain src, Ep_Chain dest])) (\<lambda>_.
     op_bind (op_each (timeout_pending E L EA) toSend) (\<lambda>_.
     op_bind (clear_sends EA) (\<lambda>_.
     clear_acks EB))))))"

definition TimeoutPendingPacketsReverse :: "'a test_env \<Rightarrow> path_lib \<Rightarrow> ('a, unit) path_op" where
  "TimeoutPendingPacketsReverse E L =
     op_bind (pending_sends EB) (\<lambda>toSend.
     op_bind (UpdateClient E EB) (\<lambda>_.
     op_bind (IncrementTime E) (\<lambda>_.
     op_bind (with_ends EB (\<lambda>src dest. CommitBlock E [Ep_Chain src, Ep_Chain dest])) (\<lambda>_.
     op_bind (op_each (timeout_pending E L EB) toSend) (\<lambda>_.
     op_bind (clear_sends EB) (\<lambda>_.
     clear_acks EA))))))"

end
