(* ===== verification/Test_Safety.thy ===== *)
theory Test_Safety
  imports Test_Path
begin

text \<open>
  What every call of the test framework keeps. A test that goes on after a call is one in which the call did not end it;
  \<open>safe\<close> is the invariance of a predicate up to that. The locale \<open>net_invariant\<close> derives the invariance of all calls of
  the coordinator and of the endpoints from a few steps, \<open>chain_invariant\<close> that of a predicate on single chains.
  They are interpreted for the heights of the blocks and for the clocks.
\<close>

section \<open>Safe operations\<close>

named_theorems safe_intros \<open>operations that keep an invariant, by their structure\<close>

definition safe :: "('s \<Rightarrow> bool) \<Rightarrow> ('s, 'r) op \<Rightarrow> bool" where
  "safe I m \<longleftrightarrow> (\<forall>s. I s \<longrightarrow> fst (m s) \<noteq> Panic \<longrightarrow> I (snd (m s)))"

lemma safeI: "(\<And>s r t. I s \<Longrightarrow> m s = (r, t) \<Longrightarrow> r \<noteq> Panic \<Longrightarrow> I t) \<Longrightarrow> safe I m"
  unfolding safe_def by (metis prod.collapse)

lemma safeD: "safe I m \<Longrightarrow> I s \<Longrightarrow> m s = (r, t) \<Longrightarrow> r \<noteq> Panic \<Longrightarrow> I t"
  unfolding safe_def by (metis fst_conv snd_conv)

lemma safe_bind [safe_intros]: "safe I m \<Longrightarrow> (\<And>r. safe I (f r)) \<Longrightarrow> safe I (op_bind m f)"
  unfolding safe_def op_bind_def by (force split: prod.splits res.splits)

lemma safe_lift [safe_intros]: "safe I (op_lift r)"
  by (simp add: safe_def op_lift_def)

lemma safe_must [safe_intros]: "safe I m \<Longrightarrow> safe I (op_must m)"
  unfolding safe_def op_must_def by (force split: prod.splits res.splits)

lemma safe_each [safe_intros]:
  assumes "\<And>x. safe I (f x)"
  shows "safe I (op_each f xs)"
proof (induction xs)
  case (Cons x xs)
  have "op_each f (x # xs) = op_bind (f x) (\<lambda>_. op_each f xs)"
    by (rule ext) (simp add: op_bind_def split: prod.split res.split)
  then show ?case using assms Cons.IH by (simp add: safe_bind)
qed (simp add: safe_def)

lemma safe_if [safe_intros]: "safe I m \<Longrightarrow> safe I n \<Longrightarrow> safe I (if b then m else n)"
  by simp

lemma safe_prod [safe_intros]: "(\<And>a b. safe I (f a b)) \<Longrightarrow> safe I (case p of (a, b) \<Rightarrow> f a b)"
  by (cases p) simp

lemma safe_read [safe_intros]: "safe I (read_chain cid f)" "safe I (\<lambda>co. read_chain cid (g co) co)"
  by (auto simp: safe_def read_chain_def split: option.split)

lemma safe_with_ends [safe_intros]: "(\<And>e c. safe I (f e c)) \<Longrightarrow> safe I (with_ends s f)"
  by (simp add: safe_def with_ends_def)

text \<open>A result that is never an error.\<close>

definition never_errs :: "('s, 'r) op \<Rightarrow> bool" where
  "never_errs m \<longleftrightarrow> (\<forall>s e. fst (m s) \<noteq> Err e)"

lemma never_errsD: "never_errs m \<Longrightarrow> m s = (r, t) \<Longrightarrow> r \<noteq> Panic \<Longrightarrow> \<exists>a. r = Ok a"
  unfolding never_errs_def by (cases r) (metis fst_conv res.exhaust)+

lemma never_errs_not: "never_errs m \<Longrightarrow> m s \<noteq> (Err e, t)"
  unfolding never_errs_def by (metis fst_conv)

lemma never_errs_bind: "never_errs m \<Longrightarrow> (\<And>r. never_errs (f r)) \<Longrightarrow> never_errs (op_bind m f)"
  unfolding never_errs_def
proof (intro allI)
  fix s e
  assume m: "\<forall>s e. fst (m s) \<noteq> Err e" and f: "\<And>r. \<forall>s e. fst (f r s) \<noteq> Err e"
  obtain r t where "m s = (r, t)" by fastforce
  then show "fst (op_bind m f s) \<noteq> Err e" using m [rule_format, of s] f by (cases r) (auto simp: op_bind_def)
qed

lemma never_errs_each: "(\<And>x. never_errs (f x)) \<Longrightarrow> never_errs (op_each f xs)"
proof (induction xs)
  case (Cons x xs)
  have "op_each f (x # xs) = op_bind (f x) (\<lambda>_. op_each f xs)"
    by (rule ext) (simp add: op_bind_def split: prod.split res.split)
  then show ?case using Cons by (simp add: never_errs_bind)
qed (simp add: never_errs_def)

lemma never_errs_on_chain: "never_errs m \<Longrightarrow> never_errs (on_chain cid m)"
  by (auto simp: never_errs_def on_chain_def split: option.splits prod.splits) (metis fst_conv)

lemma never_errs_BeginBlock: "never_errs (\<lambda>chain. chain_BeginBlock E (g chain))"
  by (auto simp: never_errs_def chain_BeginBlock_def on_App_def run_BeginBlock_def op_must_def split: prod.splits res.splits)

lemma never_errs_NextBlock: "never_errs (NextBlock E)"
  unfolding never_errs_def NextBlock_def Let_def
  using never_errs_BeginBlock [of E "\<lambda>c. c", unfolded never_errs_def] by (auto split: res.splits)

lemma never_errs_time: "never_errs (UpdateTimeForChain E cid)" "never_errs (IncrementTimeBy E d)"
proof -
  have one: "never_errs (UpdateTimeForChain E cid)" for cid
    unfolding never_errs_def UpdateTimeForChain_def
    using never_errs_on_chain [OF never_errs_BeginBlock, unfolded never_errs_def] by blast
  then show "never_errs (UpdateTimeForChain E cid)" .
  show "never_errs (IncrementTimeBy E d)"
    using never_errs_each [where f = "UpdateTimeForChain E", OF one] unfolding never_errs_def IncrementTimeBy_def UpdateTime_def by blast
qed

lemma never_errs_sign: "never_errs (sign_and_deliver E True msgs)"
  by (auto simp: never_errs_def sign_and_deliver_def on_App_def SignAndDeliver_def Let_def
      split: prod.splits res.splits if_splits)

lemma never_errs_capture: "never_errs (captureIBCEvents evs)" "never_errs increment_sequence"
  by (auto simp: never_errs_def captureIBCEvents_def increment_sequence_def Let_def split: res.splits)

text \<open>
  The error that \<open>SendMsgs\<close> is declared to return is never returned: a transaction that fails ends the test first.
\<close>

lemma SendMsgs_never_errs: "never_errs (SendMsgs E cid msgs)"
  unfolding SendMsgs_def IncrementTime_def
  by (intro never_errs_bind never_errs_time never_errs_on_chain never_errs_sign never_errs_NextBlock never_errs_capture)
    (simp add: never_errs_def op_lift_def)

section \<open>Operations on one chain\<close>

lemma op_bind_assoc: "op_bind (op_bind m f) g = op_bind m (\<lambda>a. op_bind (f a) g)"
  by (rule ext) (simp add: op_bind_def split: prod.splits res.splits)

lemma on_chain_bind: "op_bind (on_chain cid m) (\<lambda>r. on_chain cid (f r)) = on_chain cid (op_bind m f)"
  by (rule ext) (auto simp: on_chain_def op_bind_def split: option.splits prod.splits res.splits)

lemma on_chain_lift: "on_chain cid m co = (r, co') \<Longrightarrow>
    (\<exists>chain chain'. Co_heap co cid = Some chain \<and> m chain = (r, chain') \<and>
       co' = co\<lparr>Co_heap := (Co_heap co)(cid \<mapsto> chain')\<rparr>) \<or> (Co_heap co cid = None \<and> r = Panic \<and> co' = co)"
  by (auto simp: on_chain_def split: option.splits prod.splits)

definition transact :: "'a test_env \<Rightarrow> bool \<Rightarrow> Msg list \<Rightarrow> ('a TestChain, Event list) op" where
  "transact E expPass msgs =
     op_bind (sign_and_deliver E expPass msgs) (\<lambda>r.
     op_bind (NextBlock E) (\<lambda>_.
     op_bind increment_sequence (\<lambda>_. op_lift (Ok r))))"

lemma transact_on_chain:
  "op_bind (on_chain cid (transact E ok msgs)) g =
     op_bind (on_chain cid (sign_and_deliver E ok msgs)) (\<lambda>r. op_bind (on_chain cid (NextBlock E)) (\<lambda>_.
     op_bind (on_chain cid increment_sequence) (\<lambda>_. g r)))"
  unfolding transact_def
  by (rule ext) (auto simp: on_chain_def op_bind_def op_lift_def split: option.splits prod.splits res.splits)

lemma SendMsgsWithExpPass_eq:
  "SendMsgsWithExpPass E ok cid msgs =
     op_bind (UpdateTimeForChain E cid) (\<lambda>_.
     op_bind (on_chain cid (transact E ok msgs)) (\<lambda>r.
     op_bind (IncrementTime E) (\<lambda>_.
     op_bind (on_chain cid (captureIBCEvents r)) (\<lambda>_. op_lift (Ok r)))))"
  by (simp only: SendMsgsWithExpPass_def transact_on_chain)

lemma SendMsgs_expects_success: "SendMsgs E = SendMsgsWithExpPass E True"
  by (rule ext)+ (simp only: SendMsgs_def SendMsgsWithExpPass_def)

lemmas SendMsgs_eq = SendMsgsWithExpPass_eq [of _ True, folded SendMsgs_expects_success]

section \<open>Test scripts\<close>

text \<open>The calls a test makes of the coordinator, of the chains and of the endpoints, and a test as a list of them.\<close>

datatype call =
    Call_IncrementTime duration
  | Call_CommitBlock "string list"
  | Call_CommitNBlocks string nat
  | Call_SendMsgs string "Msg list"
  | Call_CreateClient side
  | Call_UpdateClient side
  | Call_ConnOpenInit side
  | Call_ConnOpenTry side
  | Call_ConnOpenAck side
  | Call_ConnOpenConfirm side
  | Call_ChanOpenInit side
  | Call_ChanOpenTry side
  | Call_ChanOpenAck side
  | Call_ChanOpenConfirm side
  | Call_ChanCloseInit side
  | Call_ChanCloseConfirm side
  | Call_RecvPacket side Packet
  | Call_AcknowledgePacket side Packet bytes
  | Call_TimeoutPacket side Packet
  | Call_Setup
  | Call_SetupConnections
  | Call_CreateChannels
  | Call_CreateTransferChannels
  | Call_CreateMockChannels
  | Call_ConnOpenInitOnBothChains
  | Call_ChanOpenInitOnBothChains
  | Call_CloseChannel
  | Call_Relay
  | Call_RelayReverse
  | Call_Timeout
  | Call_TimeoutReverse

fun run_call :: "'a test_env \<Rightarrow> path_lib \<Rightarrow> call \<Rightarrow> ('a, unit) path_op" where
  "run_call E L (Call_IncrementTime d) = IncrementTimeBy E d"
| "run_call E L (Call_CommitBlock cids) = CommitBlock E cids"
| "run_call E L (Call_CommitNBlocks cid n) = CommitNBlocks E cid n"
| "run_call E L (Call_SendMsgs cid msgs) = sendMsgs E cid msgs"
| "run_call E L (Call_CreateClient s) = CreateClient E L s"
| "run_call E L (Call_UpdateClient s) = UpdateClient E s"
| "run_call E L (Call_ConnOpenInit s) = ConnOpenInit E L s"
| "run_call E L (Call_ConnOpenTry s) = ConnOpenTry E L s"
| "run_call E L (Call_ConnOpenAck s) = ConnOpenAck E L s"
| "run_call E L (Call_ConnOpenConfirm s) = ConnOpenConfirm E L s"
| "run_call E L (Call_ChanOpenInit s) = ChanOpenInit E L s"
| "run_call E L (Call_ChanOpenTry s) = ChanOpenTry E L s"
| "run_call E L (Call_ChanOpenAck s) = ChanOpenAck E L s"
| "run_call E L (Call_ChanOpenConfirm s) = ChanOpenConfirm E L s"
| "run_call E L (Call_ChanCloseInit s) = ChanCloseInit E s"
| "run_call E L (Call_ChanCloseConfirm s) = ChanCloseConfirm E L s"
| "run_call E L (Call_RecvPacket s p) = RecvPacket E L s p"
| "run_call E L (Call_AcknowledgePacket s p ack) = AcknowledgePacket E L s p ack"
| "run_call E L (Call_TimeoutPacket s p) = TimeoutPacket E L s p"
| "run_call E L Call_Setup = Setup E L"
| "run_call E L Call_SetupConnections = SetupConnections E L"
| "run_call E L Call_CreateChannels = CreateChannels E L"
| "run_call E L Call_CreateTransferChannels = CreateTransferChannels E L"
| "run_call E L Call_CreateMockChannels = CreateMockChannels E L"
| "run_call E L Call_ConnOpenInitOnBothChains = ConnOpenInitOnBothChains E L"
| "run_call E L Call_ChanOpenInitOnBothChains = ChanOpenInitOnBothChains E L"
| "run_call E L Call_CloseChannel = CloseChannel E L"
| "run_call E L Call_Relay = RelayAndAckPendingPackets E L"
| "run_call E L Call_RelayReverse = RelayAndAckPendingPacketsReverse E L"
| "run_call E L Call_Timeout = TimeoutPendingPackets E L"
| "run_call E L Call_TimeoutReverse = TimeoutPendingPacketsReverse E L"

definition run_script :: "'a test_env \<Rightarrow> path_lib \<Rightarrow> call list \<Rightarrow> ('a, unit) path_op" where
  "run_script E L calls = op_each (run_call E L) calls"

section \<open>Invariants of the whole framework\<close>

text \<open>A port is an update of both endpoints.\<close>

definition set_port :: "string \<Rightarrow> Endpoint \<Rightarrow> Endpoint" where
  "set_port port e = e\<lparr>Ep_ChannelConfig := (Ep_ChannelConfig e)\<lparr>Ch_PortID := port\<rparr>\<rparr>"

lemma set_ports_eq: "set_ports port pn = upd_ep EA (set_port port) (upd_ep EB (set_port port) pn)"
  by (simp add: set_ports_def set_port_def)

locale net_invariant =
  fixes E :: "'a test_env" and I :: "'a path_net \<Rightarrow> bool"
  assumes time: "safe I (IncrementTimeBy E d)"
    and begins: "safe I (on_chain cid (chain_BeginBlock E))"
    and block: "safe I (commit_and_next E cid)"
    and send: "safe I (SendMsgs E cid msgs)"
    and trusted: "safe I (on_chain cid (inject_trusted E h))"
    and clears: "safe I (on_chain cid (\<lambda>chain. (Ok (), chain\<lparr>Tc_PendingSendPackets := []\<rparr>)))"
      "safe I (on_chain cid (\<lambda>chain. (Ok (), chain\<lparr>Tc_PendingAckPackets := []\<rparr>)))"
    and endpoints: "I pn \<Longrightarrow> I (upd_ep s f pn)"
begin

lemma set_ep: "safe I (set_ep s f)"
  by (simp add: safe_def set_ep_def endpoints)

lemma time_step: "safe I (IncrementTime E)"
  unfolding IncrementTime_def by (rule time)

lemma commit: "safe I (CommitBlock E cids)"
  unfolding CommitBlock_def by (intro safe_intros block time_step)

lemma commits: "safe I (CommitNBlocks E cid n)"
  by (induction n) (auto intro!: safe_intros begins block time_step)

lemma sends: "safe I (sendMsgs E cid msgs)"
  unfolding sendMsgs_def by (intro safe_intros send)

lemma endpoint_sends: "safe I (ep_send E s m)" "safe I (ep_send_only E s m)"
  unfolding ep_send_def ep_send_only_def signer_def by (intro safe_intros send sends)+

lemma header: "safe I (update_header E e c)"
  unfolding update_header_def Let_def ConstructUpdateTMClientHeader_def ConstructUpdateWasmClientHeader_def
    ConstructUpdateWasmClientHeaderWithTrustedHeight_def ConstructUpdateTMClientHeaderWithTrustedHeight_def
  by (intro safe_intros trusted)

lemma proofs: "safe I (ep_QueryProof E s key)" "safe I (counter_proof E s k)" "safe I (counter_prefix E s)"
  "safe I (QueryConnectionHandshakeProof E L s)"
  unfolding ep_QueryProof_def ep_QueryProofAtHeight_def counter_proof_def counter_prefix_def
    QueryConnectionHandshakeProof_def Let_def
  by (intro safe_intros)+

lemma clients: "safe I (CreateClient E L s)" "safe I (UpdateClient E s)"
  unfolding CreateClient_def UpdateClient_def by (intro safe_intros commit endpoint_sends set_ep header)+

lemma connections: "safe I (ConnOpenInit E L s)" "safe I (ConnOpenTry E L s)" "safe I (ConnOpenAck E L s)"
  "safe I (ConnOpenConfirm E L s)"
  unfolding ConnOpenInit_def ConnOpenTry_def ConnOpenAck_def ConnOpenConfirm_def
  by (intro safe_intros clients proofs endpoint_sends set_ep)+

lemma channels: "safe I (ChanOpenInit E L s)" "safe I (ChanOpenTry E L s)" "safe I (ChanOpenAck E L s)"
  "safe I (ChanOpenConfirm E L s)" "safe I (ChanCloseInit E s)" "safe I (ChanCloseConfirm E L s)"
  unfolding ChanOpenInit_def ChanOpenTry_def ChanOpenAck_def ChanOpenConfirm_def ChanCloseInit_def ChanCloseConfirm_def
  by (intro safe_intros clients proofs endpoint_sends set_ep)+

lemma packets: "safe I (RecvPacket E L s p)" "safe I (AcknowledgePacket E L s p ack)" "safe I (TimeoutPacket E L s p)"
  "safe I (timeout_pending E L s p)"
  unfolding RecvPacket_def AcknowledgePacket_def TimeoutPacket_def timeout_pending_def
  by (intro safe_intros clients proofs endpoint_sends)+

lemma handshakes: "safe I (CreateConnections E L)" "safe I (CreateChannels E L)" "safe I (SetupConnections E L)"
  "safe I (Setup E L)" "safe I (ConnOpenInitOnBothChains E L)" "safe I (ChanOpenInitOnBothChains E L)"
  "safe I (CloseChannel E L)"
  unfolding CreateConnections_def CreateChannels_def SetupConnections_def Setup_def SetupClients_def
    ConnOpenInitOnBothChains_def ChanOpenInitOnBothChains_def CloseChannel_def
  by (intro safe_intros clients connections channels time_step)+

lemma ports: "safe I (CreateTransferChannels E L)" "safe I (CreateMockChannels E L)"
  using handshakes(2) [of L]
  by (simp_all add: safe_def CreateTransferChannels_def CreateMockChannels_def set_ports_eq endpoints del: upd_ep.simps)

lemma queues: "safe I (pending_sends s)" "safe I (pending_acks s)" "safe I (clear_sends s)" "safe I (clear_acks s)"
  unfolding pending_sends_def pending_acks_def clear_sends_def clear_acks_def by (intro safe_intros clears)+

lemma relays: "safe I (RelayAndAckPendingPackets E L)" "safe I (RelayAndAckPendingPacketsReverse E L)"
  "safe I (TimeoutPendingPackets E L)" "safe I (TimeoutPendingPacketsReverse E L)"
  unfolding RelayAndAckPendingPackets_def RelayAndAckPendingPacketsReverse_def TimeoutPendingPackets_def
    TimeoutPendingPacketsReverse_def
  by (intro safe_intros queues time_step commit clients packets)+

lemma call: "safe I (run_call E L c)"
  by (cases c) (simp_all add: time commit commits sends clients connections channels packets handshakes ports relays)

lemma script: "safe I (run_script E L calls)"
  unfolding run_script_def by (intro safe_each call)

end

section \<open>Invariants of every chain\<close>

definition all_chains :: "('a TestChain \<Rightarrow> bool) \<Rightarrow> ('a, 'z) Coordinator_scheme \<Rightarrow> bool" where
  "all_chains J co \<longleftrightarrow> (\<forall>cid chain. Co_heap co cid = Some chain \<longrightarrow> J chain)"

lemma safe_on_chain: "safe J m \<Longrightarrow> safe (all_chains J) (on_chain cid m)"
proof (rule safeI)
  fix co r co'
  assume m: "safe J m" and co: "all_chains J co" and run: "on_chain cid m co = (r, co')" "r \<noteq> Panic"
  then obtain chain chain' where chain: "Co_heap co cid = Some chain" "m chain = (r, chain')"
    and co': "co' = co\<lparr>Co_heap := (Co_heap co)(cid \<mapsto> chain')\<rparr>"
    using on_chain_lift by blast
  have "J chain'" using safeD [OF m _ chain(2) run(2)] co chain(1) by (simp add: all_chains_def)
  then show "all_chains J co'" using co co' by (simp add: all_chains_def)
qed

locale chain_invariant =
  fixes E :: "'a test_env" and J :: "'a TestChain \<Rightarrow> bool"
  assumes clock: "J chain \<Longrightarrow> J (set_time t chain)"
    and chain_begins: "safe J (chain_BeginBlock E)"
    and blocks: "safe J (op_bind (chain_Commit E) (\<lambda>_. NextBlock E))"
    and transacts: "safe J (transact E True msgs)"
    and captures: "safe J (captureIBCEvents evs)"
    and trusts: "safe J (inject_trusted E h)"
    and cleared: "J chain \<Longrightarrow> J (chain\<lparr>Tc_PendingSendPackets := []\<rparr>)" "J chain \<Longrightarrow> J (chain\<lparr>Tc_PendingAckPackets := []\<rparr>)"
begin

lemma one_clock: "safe (all_chains J) (UpdateTimeForChain E cid)"
proof (rule safeI)
  fix co r co'
  assume "all_chains J co" "UpdateTimeForChain E cid co = (r, co')" "r \<noteq> Panic"
  moreover have "safe J (\<lambda>chain. chain_BeginBlock E (set_time t chain))" for t
    using chain_begins clock by (auto simp: safe_def)
  ultimately show "all_chains J co'"
    unfolding UpdateTimeForChain_def using safeD [OF safe_on_chain] by blast
qed

lemma all_clocks: "safe (all_chains J) (IncrementTimeBy E d)"
proof (rule safeI)
  fix co :: "('a, 'z) Coordinator_scheme" and r co'
  assume "all_chains J co" "IncrementTimeBy E d co = (r, co')" "r \<noteq> Panic"
  then show "all_chains J co'"
    using safeD [OF safe_each [of "all_chains J" "UpdateTimeForChain E", OF one_clock],
        of "co\<lparr>Co_CurrentTime := Co_CurrentTime co + d\<rparr>"]
    by (simp add: IncrementTimeBy_def UpdateTime_def all_chains_def)
qed

lemma all_sends: "safe (all_chains J) (SendMsgs E cid msgs)"
  unfolding SendMsgs_eq IncrementTime_def
  by (intro safe_intros one_clock all_clocks safe_on_chain transacts captures)

lemma all_blocks: "safe (all_chains J) (commit_and_next E cid)"
  unfolding commit_and_next_def on_chain_bind by (rule safe_on_chain, rule blocks)

end

sublocale chain_invariant \<subseteq> net_invariant E "all_chains J :: 'a path_net \<Rightarrow> bool"
proof unfold_locales
  show "all_chains J (upd_ep s f pn)" if "all_chains J pn" for s f and pn :: "'a path_net"
    using that by (cases s) (simp_all add: all_chains_def)
  show "safe (all_chains J) (on_chain cid (\<lambda>chain. (Ok (), chain\<lparr>Tc_PendingSendPackets := []\<rparr>)))"
    "safe (all_chains J) (on_chain cid (\<lambda>chain. (Ok (), chain\<lparr>Tc_PendingAckPackets := []\<rparr>)))" for cid
    by (rule safe_on_chain, simp add: safe_def cleared)+
qed (intro all_clocks all_sends all_blocks safe_on_chain chain_begins trusts)+

end
