(* ===== verification/Test_Invariants.thy ===== *)
theory Test_Invariants
  imports Test_Safety
begin

text \<open>
  Invariants of every test: the blocks of a chain are numbered consecutively, the chains share the clock of the
  coordinator once it has moved, and an invariant of the application is one of all applications under test.
\<close>

section \<open>Heights\<close>

text \<open>The documented behaviour of a base application: only a commit moves its height, by one.\<close>

definition height_laws :: "'a test_env \<Rightarrow> bool" where
  "height_laws E \<longleftrightarrow>
     (\<forall>h a. te_LastBlockHeight E (snd (te_BeginBlock E h a)) = te_LastBlockHeight E a) \<and>
     (\<forall>tx a. te_LastBlockHeight E (snd (te_SimDeliver E tx a)) = te_LastBlockHeight E a) \<and>
     (\<forall>a. te_LastBlockHeight E (te_EndBlock E a) = te_LastBlockHeight E a) \<and>
     (\<forall>a. te_LastBlockHeight E (te_Commit E a) = te_LastBlockHeight E a + 1)"

definition next_height :: "'a test_env \<Rightarrow> 'a TestChain \<Rightarrow> bool" where
  "next_height E chain \<longleftrightarrow> Hd_Height (Tc_CurrentHeader chain) = te_LastBlockHeight E (Tc_App chain) + 1"

definition numbered :: "'a test_env \<Rightarrow> 'a TestChain \<Rightarrow> bool" where
  "numbered E chain \<longleftrightarrow> height_laws E \<longrightarrow> next_height E chain"

lemma height_begin:
  "height_laws E \<Longrightarrow> chain_BeginBlock E chain = (r, chain') \<Longrightarrow>
     te_LastBlockHeight E (Tc_App chain') = te_LastBlockHeight E (Tc_App chain) \<and>
     Tc_CurrentHeader chain' = Tc_CurrentHeader chain"
  by (auto simp: height_laws_def chain_BeginBlock_def on_App_def run_BeginBlock_def op_must_def
      split: prod.splits res.splits) (metis snd_conv)+

lemma NextBlock_next_height:
  assumes "height_laws E" "NextBlock E chain = (r, chain')" "r \<noteq> Panic"
  shows "next_height E chain'"
  using assms height_begin [OF assms(1)]
  by (auto simp: NextBlock_def Let_def next_height_def next_header_def split: res.splits)

lemma safe_establish: "(\<And>s r t. m s = (r, t) \<Longrightarrow> r \<noteq> Panic \<Longrightarrow> I t) \<Longrightarrow> safe I m"
  unfolding safe_def by (metis prod.collapse)

lemma numbered_frame:
  "Tc_App chain' = Tc_App chain \<Longrightarrow> Hd_Height (Tc_CurrentHeader chain') = Hd_Height (Tc_CurrentHeader chain) \<Longrightarrow>
     numbered E chain \<Longrightarrow> numbered E chain'"
  by (simp add: numbered_def next_height_def)

lemma capture_frame:
  "captureIBCEvents evs chain = (r, chain') \<Longrightarrow> Tc_App chain' = Tc_App chain \<and> Tc_CurrentHeader chain' = Tc_CurrentHeader chain"
  by (auto simp: captureIBCEvents_def Let_def split: res.splits if_splits)

lemma trust_frame:
  "inject_trusted E h chain = (r, chain') \<Longrightarrow> Tc_App chain' = Tc_App chain \<and> Tc_CurrentHeader chain' = Tc_CurrentHeader chain"
  by (auto simp: inject_trusted_def Let_def set_trusted_def split: res.splits option.splits)

lemma transact_Ok_or_Panic: "transact E True msgs chain = (r, chain') \<Longrightarrow> r \<noteq> Panic \<Longrightarrow> \<exists>evs. r = Ok evs"
proof -
  have "never_errs (transact E True msgs)"
    unfolding transact_def
    by (intro never_errs_bind never_errs_sign never_errs_NextBlock never_errs_capture) (simp add: never_errs_def op_lift_def)
  then show "transact E True msgs chain = (r, chain') \<Longrightarrow> r \<noteq> Panic \<Longrightarrow> \<exists>evs. r = Ok evs"
    by (rule never_errsD)
qed

lemma NextBlock_then:
  assumes "op_bind m (\<lambda>_. NextBlock E) chain = (r, chain')" "r \<noteq> Panic" "never_errs m" "height_laws E"
  shows "next_height E chain'"
  using assms NextBlock_next_height [OF assms(4)]
  by (auto simp: op_bind_def never_errs_def split: prod.splits res.splits) (metis fst_conv)

interpretation heights: chain_invariant E "numbered E" for E :: "'a test_env"
proof unfold_locales
  show "safe (numbered E) (chain_BeginBlock E)"
    by (rule safeI) (use height_begin [of E] in \<open>auto simp: numbered_def next_height_def\<close>)
  show "safe (numbered E) (op_bind (chain_Commit E) (\<lambda>_. NextBlock E))"
    by (rule safe_establish, unfold numbered_def, rule impI, rule NextBlock_then)
      (auto simp: never_errs_def chain_Commit_def)
  show "safe (numbered E) (transact E True msgs)" for msgs
  proof (rule safe_establish)
    fix chain r chain'
    assume run: "transact E True msgs chain = (r, chain')" "r \<noteq> Panic"
    then obtain evs where "transact E True msgs chain = (Ok evs, chain')"
      using transact_Ok_or_Panic by metis
    then obtain c1 c2 where "NextBlock E c1 = (Ok (), c2)" "increment_sequence c2 = (Ok (), chain')"
      by (auto simp: transact_def op_bind_eq_Ok)
    then show "numbered E chain'"
      using NextBlock_next_height [of E c1 "Ok ()" c2]
      by (auto simp: numbered_def next_height_def increment_sequence_def Let_def)
  qed
  show "safe (numbered E) (captureIBCEvents evs)" for evs
    by (rule safeI) (use capture_frame in \<open>metis numbered_frame\<close>)
  show "safe (numbered E) (inject_trusted E h)" for h
    by (rule safeI) (use trust_frame in \<open>metis numbered_frame\<close>)
qed (auto simp: numbered_def next_height_def set_time_def)

section \<open>Clocks\<close>

definition in_sync :: "('a, 'z) Coordinator_scheme \<Rightarrow> bool" where
  "in_sync co \<longleftrightarrow>
     (\<forall>cid \<in> set (Co_Chains co). \<exists>chain. Co_heap co cid = Some chain \<and>
        Hd_Time (Tc_CurrentHeader chain) = Co_CurrentTime co)"

text \<open>A step on a chain that leaves the time of its header.\<close>

definition keeps_time :: "('a TestChain, 'r) op \<Rightarrow> bool" where
  "keeps_time m \<longleftrightarrow> (\<forall>chain. Hd_Time (Tc_CurrentHeader (snd (m chain))) = Hd_Time (Tc_CurrentHeader chain))"

lemma sync_on_chain: "keeps_time m \<Longrightarrow> safe in_sync (on_chain cid m)"
proof (rule safeI)
  fix co r co'
  assume m: "keeps_time m" and sync: "in_sync co" and run: "on_chain cid m co = (r, co')" "r \<noteq> Panic"
  then obtain c c' where c: "Co_heap co cid = Some c" "m c = (r, c')" and co': "co' = co\<lparr>Co_heap := (Co_heap co)(cid \<mapsto> c')\<rparr>"
    using on_chain_lift by blast
  have "Hd_Time (Tc_CurrentHeader c') = Hd_Time (Tc_CurrentHeader c)"
    using m c(2) unfolding keeps_time_def by (metis snd_conv)
  then show "in_sync co'" using sync c(1) co' by (auto simp: in_sync_def)
qed

lemma keeps_time_bind: "keeps_time m \<Longrightarrow> (\<And>r. keeps_time (f r)) \<Longrightarrow> keeps_time (op_bind m f)"
  unfolding keeps_time_def
proof (rule allI)
  fix chain
  assume m: "\<forall>c. Hd_Time (Tc_CurrentHeader (snd (m c))) = Hd_Time (Tc_CurrentHeader c)"
    and f: "\<And>r. \<forall>c. Hd_Time (Tc_CurrentHeader (snd (f r c))) = Hd_Time (Tc_CurrentHeader c)"
  obtain r c where "m chain = (r, c)" by fastforce
  then show "Hd_Time (Tc_CurrentHeader (snd (op_bind m f chain))) = Hd_Time (Tc_CurrentHeader chain)"
    using m [rule_format, of chain] f by (cases r) (auto simp: op_bind_def)
qed

lemma keeps_time_App: "keeps_time (\<lambda>chain. on_App (m chain) chain)"
  by (auto simp: keeps_time_def on_App_def split: prod.split)

lemma keeps_time_steps: "keeps_time (chain_BeginBlock E)" "keeps_time (sign_and_deliver E ok msgs)"
  "keeps_time (chain_Commit E)" "keeps_time increment_sequence" "keeps_time (NextBlock E)"
proof -
  show "keeps_time (chain_BeginBlock E)"
    unfolding chain_BeginBlock_def [abs_def] by (rule keeps_time_App)
  then show "keeps_time (NextBlock E)"
    by (auto simp: keeps_time_def NextBlock_def next_header_def Let_def split: res.split)
  show "keeps_time (sign_and_deliver E ok msgs)"
    unfolding sign_and_deliver_def [abs_def] by (rule keeps_time_App)
qed (simp_all add: keeps_time_def chain_Commit_def increment_sequence_def Let_def)

lemma keeps_time_frames: "keeps_time (captureIBCEvents evs)" "keeps_time (inject_trusted E h)" "keeps_time (op_lift r)"
proof -
  show "keeps_time (captureIBCEvents evs)"
    unfolding keeps_time_def using capture_frame by (metis prod.collapse)
  show "keeps_time (inject_trusted E h)"
    unfolding keeps_time_def using trust_frame by (metis prod.collapse)
qed (simp add: keeps_time_def op_lift_def)

lemma UpdateTimeForChain_Ok:
  assumes "UpdateTimeForChain E cid co = (Ok (), co')"
  shows "Co_CurrentTime co' = Co_CurrentTime co \<and> Co_Chains co' = Co_Chains co \<and>
         (\<exists>chain chain'. Co_heap co cid = Some chain \<and> Co_heap co' = (Co_heap co)(cid \<mapsto> chain') \<and>
            Hd_Time (Tc_CurrentHeader chain') = Co_CurrentTime co)"
proof -
  obtain chain chain' where c: "Co_heap co cid = Some chain"
    and run: "chain_BeginBlock E (set_time (Co_CurrentTime co) chain) = (Ok (), chain')"
    and co': "co' = co\<lparr>Co_heap := (Co_heap co)(cid \<mapsto> chain')\<rparr>"
    using on_chain_lift [OF assms [unfolded UpdateTimeForChain_def]] by auto
  have "Hd_Time (Tc_CurrentHeader chain') = Co_CurrentTime co"
    using run by (auto simp: chain_BeginBlock_def on_App_def set_time_def split: prod.splits)
  then show ?thesis using c co' by (simp, metis)
qed

text \<open>Going through the chains brings each of them to the clock, in whatever order they come.\<close>

lemma UpdateTime_syncs:
  assumes "op_each (UpdateTimeForChain E) cids co = (Ok (), co')"
  shows "Co_CurrentTime co' = Co_CurrentTime co \<and> Co_Chains co' = Co_Chains co \<and>
         (\<forall>cid. cid \<in> set cids \<or>
            (\<exists>chain. Co_heap co cid = Some chain \<and> Hd_Time (Tc_CurrentHeader chain) = Co_CurrentTime co) \<longrightarrow>
            (\<exists>chain. Co_heap co' cid = Some chain \<and> Hd_Time (Tc_CurrentHeader chain) = Co_CurrentTime co))"
  using assms
proof (induction cids arbitrary: co)
  case (Cons cid cids)
  then obtain co1 where one: "UpdateTimeForChain E cid co = (Ok (), co1)"
    and rest: "op_each (UpdateTimeForChain E) cids co1 = (Ok (), co')"
    by (auto split: prod.splits res.splits)
  note step = UpdateTimeForChain_Ok [OF one]
  then show ?case using Cons.IH [OF rest] by (auto simp: fun_upd_apply split: if_splits)
qed simp

lemma IncrementTimeBy_syncs:
  assumes "IncrementTimeBy E d co = (r, co')" "r \<noteq> Panic"
  shows "in_sync co' \<and> Co_CurrentTime co' = Co_CurrentTime co + d \<and> Co_Chains co' = Co_Chains co"
proof -
  have "r = Ok ()"
    using never_errsD [OF never_errs_time(2) assms] by auto
  then show ?thesis
    using UpdateTime_syncs [of E "Co_Chains co" "co\<lparr>Co_CurrentTime := Co_CurrentTime co + d\<rparr>" co'] assms(1)
    by (auto simp: IncrementTimeBy_def UpdateTime_def in_sync_def)
qed

lemma sync_UpdateTimeForChain: "safe in_sync (UpdateTimeForChain E cid)"
proof (rule safeI)
  fix co r co'
  assume sync: "in_sync co" and run: "UpdateTimeForChain E cid co = (r, co')" "r \<noteq> Panic"
  have "r = Ok ()"
    using never_errsD [OF never_errs_time(1) run] by auto
  then show "in_sync co'"
    using UpdateTimeForChain_Ok [of E cid co co'] run(1) sync by (auto simp: in_sync_def fun_upd_apply split: if_splits)
qed

interpretation clocks: net_invariant E "in_sync :: 'a path_net \<Rightarrow> bool" for E :: "'a test_env"
proof unfold_locales
  show time: "safe in_sync (IncrementTimeBy E d)" for d
    by (rule safe_establish) (simp add: IncrementTimeBy_syncs)
  show "safe in_sync (SendMsgs E cid msgs)" for cid msgs
    unfolding SendMsgs_def IncrementTime_def
    by (intro safe_intros sync_UpdateTimeForChain sync_on_chain keeps_time_steps keeps_time_frames time)
  show "safe in_sync (commit_and_next E cid)" for cid
    unfolding commit_and_next_def by (intro safe_intros sync_on_chain keeps_time_steps)
  show "in_sync (upd_ep s f pn)" if "in_sync pn" for s f and pn :: "'a path_net"
    using that by (cases s) (simp_all add: in_sync_def)
  show "safe in_sync (on_chain cid (\<lambda>chain. (Ok (), chain\<lparr>Tc_PendingSendPackets := []\<rparr>)))"
    "safe in_sync (on_chain cid (\<lambda>chain. (Ok (), chain\<lparr>Tc_PendingAckPackets := []\<rparr>)))" for cid
    by (rule sync_on_chain, simp add: keeps_time_def)+
qed (intro sync_on_chain keeps_time_steps keeps_time_frames)+

section \<open>Applications\<close>

text \<open>A predicate that the steps of the application keep.\<close>

definition app_keeps :: "'a test_env \<Rightarrow> ('a \<Rightarrow> bool) \<Rightarrow> bool" where
  "app_keeps E P \<longleftrightarrow>
     (\<forall>h. keeps P (te_BeginBlock E h)) \<and> (\<forall>tx. keeps P (te_SimDeliver E tx)) \<and>
     (\<forall>a. P a \<longrightarrow> P (te_EndBlock E a)) \<and> (\<forall>a. P a \<longrightarrow> P (te_Commit E a))"

definition app_holds :: "'a test_env \<Rightarrow> ('a \<Rightarrow> bool) \<Rightarrow> 'a TestChain \<Rightarrow> bool" where
  "app_holds E P chain \<longleftrightarrow> app_keeps E P \<longrightarrow> P (Tc_App chain)"

lemma app_begin: "app_keeps E P \<Longrightarrow> keeps P (run_BeginBlock E h)"
  unfolding run_BeginBlock_def by (rule keeps_must) (simp add: app_keeps_def)

lemma app_deliver:
  assumes "app_keeps E P"
  shows "keeps P (SignAndDeliver E header msgs chainID nums seqs ok priv)"
proof -
  have b: "\<And>a r t. P a \<Longrightarrow> run_BeginBlock E header a = (r, t) \<Longrightarrow> P t"
    using app_begin [OF assms, of header] unfolding keeps_def by (metis snd_conv)
  have d: "\<And>tx a r t. P a \<Longrightarrow> te_SimDeliver E tx a = (r, t) \<Longrightarrow> P t"
    using assms unfolding app_keeps_def keeps_def by (metis snd_conv)
  have e: "\<And>a. P a \<Longrightarrow> P (te_Commit E (te_EndBlock E a))"
    using assms by (simp add: app_keeps_def)
  show ?thesis
    unfolding keeps_def SignAndDeliver_def Let_def
    by (auto split: prod.splits res.splits intro: b d e dest: b d)
qed

lemma safe_on_App: "(app_keeps E P \<Longrightarrow> \<forall>chain. keeps P (m chain)) \<Longrightarrow> safe (app_holds E P) (\<lambda>chain. on_App (m chain) chain)"
  by (auto simp: safe_def app_holds_def on_App_def keeps_def split: prod.splits) (metis snd_conv)

lemma safe_app_steps: "safe (app_holds E P) (chain_BeginBlock E)" "safe (app_holds E P) (sign_and_deliver E ok msgs)"
  "safe (app_holds E P) (chain_Commit E)" "safe (app_holds E P) increment_sequence" "safe (app_holds E P) (NextBlock E)"
proof -
  show begins: "safe (app_holds E P) (chain_BeginBlock E)"
    unfolding chain_BeginBlock_def [abs_def] by (rule safe_on_App) (simp add: app_begin)
  then show "safe (app_holds E P) (NextBlock E)"
    by (auto simp: safe_def NextBlock_def Let_def app_holds_def split: res.split)
  show "safe (app_holds E P) (sign_and_deliver E ok msgs)"
    unfolding sign_and_deliver_def [abs_def] by (rule safe_on_App) (simp add: app_deliver)
qed (auto simp: safe_def app_holds_def chain_Commit_def increment_sequence_def Let_def app_keeps_def)

interpretation apps: chain_invariant E "app_holds E P" for E :: "'a test_env" and P
proof unfold_locales
  show "safe (app_holds E P) (op_bind (chain_Commit E) (\<lambda>_. NextBlock E))"
    by (intro safe_intros safe_app_steps)
  show "safe (app_holds E P) (transact E True msgs)" for msgs
    unfolding transact_def by (intro safe_intros safe_app_steps)
  show "safe (app_holds E P) (captureIBCEvents evs)" for evs
    by (rule safeI) (auto simp: app_holds_def dest!: capture_frame)
  show "safe (app_holds E P) (inject_trusted E h)" for h
    by (rule safeI) (auto simp: app_holds_def dest!: trust_frame)
qed (auto simp: app_holds_def set_time_def intro: safe_app_steps)

section \<open>Construction\<close>

lemma NewTestChain_numbered: "safe (all_chains (numbered E)) (NewTestChain E k cid)"
proof (rule safeI)
  fix co r co'
  assume co: "all_chains (numbered E) co" and run: "NewTestChain E k cid co = (r, co')" "r \<noteq> Panic"
  define start where "start = co\<lparr>Co_heap := (Co_heap co)(cid \<mapsto> new_chain E k (Co_CurrentTime co) cid)\<rparr>"
  have others: "numbered E chain" if "Co_heap start c = Some chain" "c \<noteq> cid" for c chain
    using co that by (simp add: all_chains_def start_def)
  have block: "all_chains (numbered E) co1" if b: "commit_and_next E cid start = (r1, co1)" "r1 \<noteq> Panic" for r1 co1
  proof -
    obtain c0 c1 where c1: "op_bind (chain_Commit E) (\<lambda>_. NextBlock E) c0 = (r1, c1)"
      and co1: "co1 = start\<lparr>Co_heap := (Co_heap start)(cid \<mapsto> c1)\<rparr>"
      using on_chain_lift [OF b(1) [unfolded commit_and_next_def on_chain_bind]] b(2) by auto
    have "numbered E c1"
      using NextBlock_then [OF c1 b(2)] by (auto simp: numbered_def never_errs_def chain_Commit_def)
    then show ?thesis using others by (auto simp: all_chains_def co1)
  qed
  have "CommitBlock E [cid] start = (r, co')" using run(1) by (simp add: NewTestChain_def start_def)
  then obtain r1 co1 where r1: "commit_and_next E cid start = (r1, co1)"
    and rest: "r1 = Ok () \<and> IncrementTime E co1 = (r, co') \<or> r1 = r \<and> co1 = co'"
    using run(2) by (auto simp: CommitBlock_def op_bind_def split: prod.splits res.splits)
  have "r1 \<noteq> Panic" using rest run(2) by auto
  note co1 = block [OF r1 this]
  from rest show "all_chains (numbered E) co'"
  proof
    assume "r1 = Ok () \<and> IncrementTime E co1 = (r, co')"
    then show ?thesis using safeD [OF heights.all_clocks co1 _ run(2), of TimeIncrement] by (simp add: IncrementTime_def)
  qed (use co1 in simp)
qed

lemma NewCoordinator_numbered:
  assumes "NewCoordinator E keys n = (Ok (), co)"
  shows "all_chains (numbered E) co" and "Co_Chains co = map GetChainID [0..<n]"
proof -
  define start :: "'a Coordinator" where
    "start = \<lparr>Co_CurrentTime = globalStartTime, Co_Chains = [], Co_CodeID = [], Co_heap = (\<lambda>_. None)\<rparr>"
  obtain co1 where run: "op_each (\<lambda>i. NewTestChain E (keys i) (GetChainID i)) [0..<n] start = (Ok (), co1)"
    and co: "co = co1\<lparr>Co_Chains := map GetChainID [0..<n]\<rparr>"
    using assms by (auto simp: NewCoordinator_def op_bind_eq_Ok start_def Let_def)
  have "all_chains (numbered E) start" by (simp add: all_chains_def start_def)
  then have "all_chains (numbered E) co1"
    using safeD [OF safe_each [of "all_chains (numbered E)" "\<lambda>i. NewTestChain E (keys i) (GetChainID i)",
        OF NewTestChain_numbered] _ run] by simp
  then show "all_chains (numbered E) co" and "Co_Chains co = map GetChainID [0..<n]"
    by (simp_all add: co all_chains_def)
qed

lemma NewPath_frame:
  "all_chains J (NewPath L a b co) = all_chains J co" "Co_Chains (NewPath L a b co) = Co_Chains co"
  "Co_heap (NewPath L a b co) = Co_heap co"
  by (simp_all add: NewPath_def all_chains_def Coordinator.defs)

end
