(* ===== verification/Test_Log.thy ===== *)
theory Test_Log
  imports Test_Invariants
begin

text \<open>
  What the test framework does to the chains, as a log: which transactions run on which chain, in which order. A chain is
  viewed through the transactions it has delivered, the packets and acknowledgements that wait on it, and the sequence of
  its sender. \<open>performs\<close> gives the log of every call by its messages.
\<close>

section \<open>Views and logs\<close>

type_synonym delivery = "Msg list \<times> Event list"

record chain_view =
  cv_history :: "delivery list"
  cv_sends :: "Packet list"
  cv_acks :: "PacketAck list"
  cv_sequence :: u64

type_synonym net_view = "string \<Rightarrow> chain_view option"

text \<open>An observer of the transactions an application has delivered.\<close>

definition history_laws :: "'a test_env \<Rightarrow> ('a \<Rightarrow> delivery list) \<Rightarrow> bool" where
  "history_laws E obs \<longleftrightarrow>
     (\<forall>h a. obs (snd (te_BeginBlock E h a)) = obs a) \<and>
     (\<forall>tx a evs a'. te_SimDeliver E tx a = (Ok evs, a') \<longrightarrow> obs a' = obs a @ [(Tx_Msgs tx, evs)]) \<and>
     (\<forall>a. obs (te_EndBlock E a) = obs a) \<and> (\<forall>a. obs (te_Commit E a) = obs a)"

definition view_of :: "('a \<Rightarrow> delivery list) \<Rightarrow> 'a TestChain \<Rightarrow> chain_view" where
  "view_of obs chain =
     \<lparr>cv_history = obs (Tc_App chain), cv_sends = Tc_PendingSendPackets chain, cv_acks = Tc_PendingAckPackets chain,
      cv_sequence = Acc_Sequence (Tc_SenderAccount chain)\<rparr>"

definition net_view_of :: "('a \<Rightarrow> delivery list) \<Rightarrow> ('a, 'z) Coordinator_scheme \<Rightarrow> net_view" where
  "net_view_of obs co = (\<lambda>cid. map_option (view_of obs) (Co_heap co cid))"

definition read_sends :: "Event list \<Rightarrow> Packet list" where
  "read_sends evs = (case getSendPackets evs of Ok ps \<Rightarrow> ps | _ \<Rightarrow> [])"

definition read_acks :: "Event list \<Rightarrow> PacketAck list" where
  "read_acks evs = (case getAckPackets evs of Ok acks \<Rightarrow> acks | _ \<Rightarrow> [])"

definition after_delivery :: "delivery \<Rightarrow> chain_view \<Rightarrow> chain_view" where
  "after_delivery d v =
     \<lparr>cv_history = cv_history v @ [d], cv_sends = cv_sends v @ read_sends (snd d),
      cv_acks = cv_acks v @ read_acks (snd d), cv_sequence = cv_sequence v + 1\<rparr>"

type_synonym log = "(string \<times> delivery) list"

definition on_view :: "string \<Rightarrow> (chain_view \<Rightarrow> chain_view) \<Rightarrow> net_view \<Rightarrow> net_view" where
  "on_view cid f v = v(cid := map_option f (v cid))"

definition run_log :: "log \<Rightarrow> net_view \<Rightarrow> net_view" where
  "run_log = fold (\<lambda>(cid, d). on_view cid (after_delivery d))"

text \<open>A message, as far as the log tells it.\<close>

datatype brief =
    Plain string
  | Receives Packet
  | Acknowledges Packet bytes
  | TimesOut Packet

fun brief_msg :: "Msg \<Rightarrow> brief" where
  "brief_msg (MsgCreateClient _ _ _) = Plain ''MsgCreateClient''"
| "brief_msg (MsgUpdateClient _ _ _) = Plain ''MsgUpdateClient''"
| "brief_msg (MsgConnectionOpenInit _ _ _ _ _ _) = Plain ''MsgConnectionOpenInit''"
| "brief_msg (MsgConnectionOpenTry _ _ _ _ _ _ _ _ _ _ _ _ _) = Plain ''MsgConnectionOpenTry''"
| "brief_msg (MsgConnectionOpenAck _ _ _ _ _ _ _ _ _ _) = Plain ''MsgConnectionOpenAck''"
| "brief_msg (MsgConnectionOpenConfirm _ _ _ _) = Plain ''MsgConnectionOpenConfirm''"
| "brief_msg (MsgChannelOpenInit _ _ _ _ _ _) = Plain ''MsgChannelOpenInit''"
| "brief_msg (MsgChannelOpenTry _ _ _ _ _ _ _ _ _ _) = Plain ''MsgChannelOpenTry''"
| "brief_msg (MsgChannelOpenAck _ _ _ _ _ _ _) = Plain ''MsgChannelOpenAck''"
| "brief_msg (MsgChannelOpenConfirm _ _ _ _ _) = Plain ''MsgChannelOpenConfirm''"
| "brief_msg (MsgChannelCloseInit _ _ _) = Plain ''MsgChannelCloseInit''"
| "brief_msg (MsgChannelCloseConfirm _ _ _ _ _) = Plain ''MsgChannelCloseConfirm''"
| "brief_msg (MsgRecvPacket p _ _ _) = Receives p"
| "brief_msg (MsgAcknowledgement p ack _ _ _) = Acknowledges p ack"
| "brief_msg (MsgTimeout p _ _ _ _) = TimesOut p"
| "brief_msg (Msg_Other _) = Plain ''other''"

definition briefs :: "log \<Rightarrow> (string \<times> brief list) list" where
  "briefs = map (\<lambda>(cid, d). (cid, map brief_msg (fst d)))"

lemma run_log_append [simp]: "run_log (k @ l) v = run_log l (run_log k v)"
  by (simp add: run_log_def)

lemma run_log_Nil [simp]: "run_log [] v = v"
  by (simp add: run_log_def)

lemma briefs_append [simp]: "briefs (k @ l) = briefs k @ briefs l"
  by (simp add: briefs_def)

lemma briefs_Nil [simp]: "briefs [] = []" "briefs l = [] \<longleftrightarrow> l = []"
  by (simp_all add: briefs_def)

section \<open>Logs of operations\<close>

definition ends :: "'a path_net \<Rightarrow> side \<Rightarrow> string" where
  "ends pn s = Ep_Chain (ep s pn)"

type_synonym plan = "(side \<Rightarrow> string) \<Rightarrow> (string \<times> brief list) list"

text \<open>\<open>m\<close> runs the transactions of the plan, and keeps the ends of the path on their chains.\<close>

definition performs :: "('a \<Rightarrow> delivery list) \<Rightarrow> ('a, 'r) path_op \<Rightarrow> plan \<Rightarrow> bool" where
  "performs obs m B \<longleftrightarrow>
     (\<forall>pn r pn'. m pn = (Ok r, pn') \<longrightarrow>
        ends pn' = ends pn \<and>
        (\<exists>log. briefs log = B (ends pn) \<and> net_view_of obs pn' = run_log log (net_view_of obs pn)))"

abbreviation silent :: plan where
  "silent \<equiv> \<lambda>_. []"

named_theorems log_intros \<open>logs of operations, by their structure\<close>

lemma performsD:
  assumes "performs obs m B" "m pn = (Ok r, pn')"
  obtains log where "ends pn' = ends pn" "briefs log = B (ends pn)"
    "net_view_of obs pn' = run_log log (net_view_of obs pn)"
  using assms unfolding performs_def by blast

lemma performs_bind:
  assumes "performs obs m B" "\<And>r. performs obs (f r) C"
  shows "performs obs (op_bind m f) (\<lambda>n. B n @ C n)"
  unfolding performs_def
proof (intro allI impI)
  fix pn x pn'
  assume "op_bind m f pn = (Ok x, pn')"
  then obtain r pn1 where m: "m pn = (Ok r, pn1)" and f: "f r pn1 = (Ok x, pn')" by (auto simp: op_bind_eq_Ok)
  obtain k where k: "ends pn1 = ends pn" "briefs k = B (ends pn)" "net_view_of obs pn1 = run_log k (net_view_of obs pn)"
    using performsD [OF assms(1) m] by blast
  obtain l where l: "ends pn' = ends pn1" "briefs l = C (ends pn1)" "net_view_of obs pn' = run_log l (net_view_of obs pn1)"
    using performsD [OF assms(2) f] by blast
  have "briefs (k @ l) = B (ends pn) @ C (ends pn)" using k l by simp
  moreover have "net_view_of obs pn' = run_log (k @ l) (net_view_of obs pn)" using k l by simp
  ultimately show "ends pn' = ends pn \<and>
      (\<exists>log. briefs log = B (ends pn) @ C (ends pn) \<and> net_view_of obs pn' = run_log log (net_view_of obs pn))"
    using k(1) l(1) by (auto intro!: exI [of _ "k @ l"])
qed

text \<open>The same with one silent part, so that plans do not grow empty lists.\<close>

lemma performs_after [log_intros]: "performs obs m silent \<Longrightarrow> (\<And>r. performs obs (f r) C) \<Longrightarrow> performs obs (op_bind m f) C"
  using performs_bind [of obs m silent f C] by simp

lemma performs_before: "performs obs m B \<Longrightarrow> (\<And>r. performs obs (f r) silent) \<Longrightarrow> performs obs (op_bind m f) B"
  using performs_bind [of obs m B f silent] by simp

lemma performs_frame:
  assumes "\<And>pn r pn'. m pn = (Ok r, pn') \<Longrightarrow> ends pn' = ends pn \<and> net_view_of obs pn' = net_view_of obs pn"
  shows "performs obs m silent"
  using assms unfolding performs_def by (metis briefs_Nil(1) run_log_Nil)

lemma performs_lift [log_intros]: "performs obs (op_lift r) silent"
  by (rule performs_frame) simp

lemma performs_read [log_intros]: "performs obs (read_chain cid f) silent" "performs obs (\<lambda>pn. read_chain cid (g pn) pn) silent"
  by (rule performs_frame, auto simp: read_chain_def split: option.splits)+

lemma performs_must: "performs obs m B \<Longrightarrow> performs obs (op_must m) B"
  by (simp add: performs_def)

lemma performs_prod [log_intros]: "(\<And>a b. performs obs (f a b) B) \<Longrightarrow> performs obs (case p of (a, b) \<Rightarrow> f a b) B"
  by (cases p) simp

lemma performs_if [log_intros]: "performs obs m B \<Longrightarrow> performs obs n B \<Longrightarrow> performs obs (if b then m else n) B"
  by simp

lemma performs_each:
  assumes "\<And>x. performs obs (f x) (B x)"
  shows "performs obs (op_each f xs) (\<lambda>n. concat (map (\<lambda>x. B x n) xs))"
proof (induction xs)
  case Nil
  then show ?case by (simp add: performs_def)
next
  case (Cons x xs)
  have "op_each f (x # xs) = op_bind (f x) (\<lambda>_. op_each f xs)"
    by (rule ext) (simp add: op_bind_def split: prod.split res.split)
  then show ?case using performs_bind [OF assms [of x] Cons.IH] by simp
qed

lemma concat_nils: "concat (map (\<lambda>_. []) xs) = []"
  by (induction xs) simp_all

lemma performs_each_silent: "(\<And>x. performs obs (f x) silent) \<Longrightarrow> performs obs (op_each f xs) silent"
  using performs_each [of obs f "\<lambda>_. silent" xs] by (simp add: concat_nils)

lemma performs_ends:
  fixes obs :: "'a \<Rightarrow> delivery list"
  assumes "\<And>e c. performs obs (f e c) (B e c)"
    and "\<And>pn :: 'a path_net. B (ep s pn) (ep (counter s) pn) (ends pn) = C (ends pn)"
  shows "performs obs (with_ends s f) C"
  unfolding performs_def with_ends_def
proof (intro allI impI)
  fix pn r pn'
  assume "f (ep s pn) (ep (counter s) pn) pn = (Ok r, pn')"
  from performsD [OF assms(1) this]
  show "ends pn' = ends pn \<and> (\<exists>log. briefs log = C (ends pn) \<and> net_view_of obs pn' = run_log log (net_view_of obs pn))"
    using assms(2) [of pn] by metis
qed

lemma performs_ends_same [log_intros]: "(\<And>e c. performs obs (f e c) B) \<Longrightarrow> performs obs (with_ends s f) B"
  by (rule performs_ends [where B = "\<lambda>_ _. B"]) auto

lemma performs_set_ep:
  fixes obs :: "'a \<Rightarrow> delivery list"
  shows "(\<And>e. Ep_Chain (f e) = Ep_Chain e) \<Longrightarrow> performs obs (set_ep s f) silent"
proof (rule performs_frame)
  fix pn :: "'a path_net" and r pn'
  assume f: "\<And>e. Ep_Chain (f e) = Ep_Chain e" and run: "set_ep s f pn = (Ok r, pn')"
  have "ends (upd_ep s f pn) x = ends pn x" for x
    by (cases s; cases x) (simp_all add: ends_def f)
  moreover have "net_view_of obs (upd_ep s f pn) = net_view_of obs pn"
    by (cases s) (simp_all add: net_view_of_def)
  ultimately show "ends pn' = ends pn \<and> net_view_of obs pn' = net_view_of obs pn"
    using run by (auto simp: set_ep_def)
qed

section \<open>Steps of one chain\<close>

text \<open>A step that the view does not see.\<close>

definition unseen :: "('a \<Rightarrow> delivery list) \<Rightarrow> ('a TestChain, 'r) op \<Rightarrow> bool" where
  "unseen obs m \<longleftrightarrow> (\<forall>chain. view_of obs (snd (m chain)) = view_of obs chain)"

lemma ends_heap [simp]: "ends (pn\<lparr>Co_heap := h\<rparr>) = ends pn" "ends (pn\<lparr>Co_CurrentTime := t\<rparr>) = ends pn"
  by (rule ext, rename_tac s, case_tac s; simp add: ends_def)+

lemma on_chain_view:
  assumes "on_chain cid m co = (Ok r, co')"
  obtains chain chain' where "Co_heap co cid = Some chain" "m chain = (Ok r, chain')"
    "net_view_of obs co' = (net_view_of obs co)(cid \<mapsto> view_of obs chain')"
    "co' = co\<lparr>Co_heap := (Co_heap co)(cid \<mapsto> chain')\<rparr>"
  using on_chain_lift [OF assms] by (auto simp: net_view_of_def fun_eq_iff)

lemma performs_unseen: "unseen obs m \<Longrightarrow> performs obs (on_chain cid m) silent"
proof (rule performs_frame)
  fix pn :: "'a path_net" and r pn'
  assume m: "unseen obs m" and run: "on_chain cid m pn = (Ok r, pn')"
  then obtain chain chain' where c: "Co_heap pn cid = Some chain" "m chain = (Ok r, chain')"
    "net_view_of obs pn' = (net_view_of obs pn)(cid \<mapsto> view_of obs chain')" "pn' = pn\<lparr>Co_heap := (Co_heap pn)(cid \<mapsto> chain')\<rparr>"
    using on_chain_view by metis
  have "view_of obs chain' = view_of obs chain" using m c(2) unfolding unseen_def by (metis snd_conv)
  then have "net_view_of obs pn' = net_view_of obs pn" using c(1,3) by (auto simp: net_view_of_def)
  then show "ends pn' = ends pn \<and> net_view_of obs pn' = net_view_of obs pn" using c(4) by simp
qed

lemma unseen_begin: "history_laws E obs \<Longrightarrow> unseen obs (\<lambda>chain. chain_BeginBlock E (set_time t chain))"
  "history_laws E obs \<Longrightarrow> unseen obs (chain_BeginBlock E)"
  by (auto simp: unseen_def history_laws_def chain_BeginBlock_def on_App_def run_BeginBlock_def op_must_def view_of_def
      set_time_def split: prod.splits res.splits) (metis snd_conv)+

lemma unseen_next: "history_laws E obs \<Longrightarrow> unseen obs (NextBlock E)"
  using unseen_begin(2) [of E obs]
  by (auto simp: unseen_def NextBlock_def Let_def view_of_def split: res.split)

lemma unseen_commit: "history_laws E obs \<Longrightarrow> unseen obs (chain_Commit E)"
  by (simp add: unseen_def chain_Commit_def view_of_def history_laws_def)

lemma unseen_trust: "unseen obs (inject_trusted E h)"
  by (auto simp: unseen_def inject_trusted_def set_trusted_def view_of_def Let_def split: res.splits option.splits)

lemma silent_time: "history_laws E obs \<Longrightarrow> performs obs (UpdateTimeForChain E cid) silent"
proof -
  assume h: "history_laws E obs"
  have "performs obs (on_chain cid (\<lambda>chain. chain_BeginBlock E (set_time t chain))) silent" for t
    by (rule performs_unseen [OF unseen_begin(1) [OF h]])
  then show ?thesis
    unfolding performs_def UpdateTimeForChain_def by blast
qed

lemma silent_increment: "history_laws E obs \<Longrightarrow> performs obs (IncrementTimeBy E d) silent"
proof -
  assume h: "history_laws E obs"
  have each: "performs obs (op_each (UpdateTimeForChain E) cids) silent" for cids
    by (rule performs_each_silent [OF silent_time [OF h]])
  have view: "net_view_of obs (pn\<lparr>Co_CurrentTime := t\<rparr>) = net_view_of obs pn" for pn :: "'a path_net" and t
    by (simp add: net_view_of_def)
  show ?thesis
    unfolding performs_def IncrementTimeBy_def UpdateTime_def
    using each unfolding performs_def by (metis ends_heap(2) view)
qed

lemma silent_commit:
  assumes "history_laws E obs"
  shows "performs obs (CommitBlock E cids) silent"
proof -
  have "performs obs (commit_and_next E cid) silent" for cid
    unfolding commit_and_next_def
    by (intro log_intros performs_unseen unseen_commit unseen_next assms)
  from performs_each_silent [OF this]
  show ?thesis
    unfolding CommitBlock_def IncrementTime_def by (intro performs_after silent_increment assms)
qed

text \<open>One transaction.\<close>

lemma deliver_history:
  assumes h: "history_laws E obs" and run: "SignAndDeliver E header msgs cid nums seqs True priv a = (Ok evs, a')"
  shows "obs a' = obs a @ [(msgs, evs)]"
proof -
  define tx where "tx =
    \<lparr>Tx_Msgs = msgs, Tx_FeeAmt = [\<lparr>Coin_Denom = ''stake'', Coin_Amount = 0\<rparr>], Tx_Gas = 2 * DefaultGas,
     Tx_ChainID = cid, Tx_AccNums = nums, Tx_AccSeqs = seqs, Tx_Priv = priv\<rparr>"
  obtain a1 a2 where b: "run_BeginBlock E header a = (Ok (), a1)"
    and d: "te_SimDeliver E tx a1 = (Ok evs, a2)" and a': "a' = te_Commit E (te_EndBlock E a2)"
    using run by (auto simp: SignAndDeliver_def Let_def tx_def split: prod.splits res.splits if_splits)
  have "obs a1 = obs a"
    using h b unfolding history_laws_def run_BeginBlock_def op_must_eq_Ok by (metis snd_conv)
  moreover have "obs a2 = obs a1 @ [(msgs, evs)]" using h d by (simp add: history_laws_def tx_def)
  ultimately show ?thesis using h by (simp add: a' history_laws_def)
qed

lemma sign_view:
  assumes "history_laws E obs" "sign_and_deliver E True msgs chain = (Ok evs, chain')"
  shows "view_of obs chain' = (view_of obs chain)\<lparr>cv_history := obs (Tc_App chain) @ [(msgs, evs)]\<rparr>"
  using assms(2) deliver_history [OF assms(1)]
  by (auto simp: sign_and_deliver_def on_App_def view_of_def split: prod.splits)

lemma SendMsgs_view:
  assumes "history_laws E obs" "SendMsgs E cid msgs pn = (Ok evs, pn')"
  shows "net_view_of obs pn' = on_view cid (after_delivery (msgs, evs)) (net_view_of obs pn) \<and> ends pn' = ends pn"
proof -
  obtain p1 p2 p3 where p1: "UpdateTimeForChain E cid pn = (Ok (), p1)"
    and p2: "on_chain cid (transact E True msgs) p1 = (Ok evs, p2)"
    and p3: "IncrementTime E p2 = (Ok (), p3)" and p4: "on_chain cid (captureIBCEvents evs) p3 = (Ok (), pn')"
    using assms(2) by (auto simp: SendMsgs_eq op_bind_eq_Ok)
  have v1: "net_view_of obs p1 = net_view_of obs pn" "ends p1 = ends pn"
    using performsD [OF silent_time [OF assms(1)] p1] by (metis briefs_Nil(2) run_log_Nil)+
  have v3: "net_view_of obs p3 = net_view_of obs p2" "ends p3 = ends p2"
    using performsD [OF silent_increment [OF assms(1)] p3 [unfolded IncrementTime_def]]
    by (metis briefs_Nil(2) run_log_Nil)+
  obtain c c' where c: "Co_heap p1 cid = Some c" "transact E True msgs c = (Ok evs, c')"
    "net_view_of obs p2 = (net_view_of obs p1)(cid \<mapsto> view_of obs c')" "p2 = p1\<lparr>Co_heap := (Co_heap p1)(cid \<mapsto> c')\<rparr>"
    using on_chain_view [OF p2] by metis
  obtain d d' where d: "Co_heap p3 cid = Some d" "captureIBCEvents evs d = (Ok (), d')"
    "net_view_of obs pn' = (net_view_of obs p3)(cid \<mapsto> view_of obs d')" "pn' = p3\<lparr>Co_heap := (Co_heap p3)(cid \<mapsto> d')\<rparr>"
    using on_chain_view [OF p4] by metis
  obtain c1 c2 where c12: "sign_and_deliver E True msgs c = (Ok evs, c1)" "NextBlock E c1 = (Ok (), c2)"
    "increment_sequence c2 = (Ok (), c')"
    using c(2) by (auto simp: transact_def op_bind_eq_Ok)
  have "view_of obs c2 = view_of obs c1"
    using unseen_next [OF assms(1)] c12(2) unfolding unseen_def by (metis snd_conv)
  moreover have "view_of obs c' = (view_of obs c2)\<lparr>cv_sequence := cv_sequence (view_of obs c2) + 1\<rparr>"
    using c12(3) by (auto simp: increment_sequence_def view_of_def Let_def)
  ultimately have c': "view_of obs c' =
      (view_of obs c)\<lparr>cv_history := cv_history (view_of obs c) @ [(msgs, evs)], cv_sequence := cv_sequence (view_of obs c) + 1\<rparr>"
    using sign_view [OF assms(1) c12(1)] by (simp add: view_of_def)
  have "view_of obs d = view_of obs c'"
  proof -
    have "net_view_of obs p3 cid = Some (view_of obs c')" using c(3) v3(1) by simp
    then show ?thesis using d(1) by (simp add: net_view_of_def)
  qed
  moreover have "view_of obs d' =
      (view_of obs d)\<lparr>cv_sends := cv_sends (view_of obs d) @ read_sends evs, cv_acks := cv_acks (view_of obs d) @ read_acks evs\<rparr>"
    using d(2) by (auto simp: captureIBCEvents_def read_sends_def read_acks_def view_of_def Let_def split: res.splits if_splits)
  ultimately have "view_of obs d' = after_delivery (msgs, evs) (view_of obs c)"
    by (simp add: c' after_delivery_def)
  moreover have "net_view_of obs p1 cid = Some (view_of obs c)" using c(1) by (simp add: net_view_of_def)
  ultimately show ?thesis
    using c(3,4) d(3,4) v1 v3 by (simp add: on_view_def)
qed

end
