(* ===== verification/Test_Reference.thy ===== *)
theory Test_Reference
  imports Test_Invariants
begin

text \<open>
  One concrete application for the test framework, on which the witnesses compute: it accepts every transaction, keeps
  the list of those it has delivered with their events, answers a received packet with an acknowledgement and sends the
  packet a message asks it to send.
\<close>

record ref_app =
  ra_height :: i64
  ra_history :: "(Msg list \<times> Event list) list"

definition asked_packet :: "bytes \<Rightarrow> Packet" where
  "asked_packet data =
     \<lparr>Pkt_Sequence = 1, Pkt_SourcePort = ''transfer'', Pkt_SourceChannel = ''channel-0'', Pkt_DestPort = ''transfer'',
      Pkt_DestChannel = ''channel-0'', Pkt_Data = data, Pkt_TimeoutHeight = \<lparr>RevisionNumber = 1, RevisionHeight = 110\<rparr>,
      Pkt_TimeoutTimestamp = 0\<rparr>"

fun ref_emitted :: "Msg \<Rightarrow> emitted list" where
  "ref_emitted (MsgRecvPacket p _ _ _) = [Acked p ''ok'']"
| "ref_emitted (Msg_Other data) = [Sent (asked_packet data)]"
| "ref_emitted _ = []"

fun ref_event :: "emitted \<Rightarrow> Event" where
  "ref_event (Sent p) = \<lparr>Evt_Type = ''send_packet'', Evt_Attributes = packet_attributes p\<rparr>"
| "ref_event (Acked p a) =
     \<lparr>Evt_Type = ''write_acknowledgement'', Evt_Attributes = packet_attributes p @ [(''packet_ack'', a)]\<rparr>"
| "ref_event Unrelated = \<lparr>Evt_Type = ''message'', Evt_Attributes = []\<rparr>"

definition ref_events :: "Msg list \<Rightarrow> Event list" where
  "ref_events msgs = map ref_event (concat (map ref_emitted msgs))"

lemma ref_event_tells: "tells (ref_event x) x"
  using attributes_carry [of "[]"] attributes_carry [of "[]" _ _ "[]"]
  by (cases x) (simp_all add: packet_attributes_def)

definition ref_vals :: "TmValidator list \<Rightarrow> TmValidatorSet" where
  "ref_vals vs = \<lparr>Vs_Validators = vs, Vs_Proposer = \<lparr>Val_Address = ''val'', Val_PubKey = ''key'', Val_VotingPower = 1\<rparr>\<rparr>"

definition ref_client :: ClientState where
  "ref_client = Wasm_ClientState ''state'' ''code'' \<lparr>RevisionNumber = 0, RevisionHeight = 1\<rparr>"

text \<open>The rest of the environment, around the steps of an application.\<close>

definition env_around ::
  "'a \<Rightarrow> (Header \<Rightarrow> ('a, unit) op) \<Rightarrow> (Tx \<Rightarrow> ('a, Event list) op) \<Rightarrow> ('a \<Rightarrow> 'a) \<Rightarrow> ('a \<Rightarrow> i64) \<Rightarrow> 'a test_env" where
  "env_around start begins delivers commits height =
     \<lparr>te_SetupWithGenesisValSet = (\<lambda>_ _ _ _. start),
      te_SetChainID = (\<lambda>_ a. a),
      te_BeginBlock = begins,
      te_SimDeliver = delivers,
      te_EndBlock = (\<lambda>a. a),
      te_Commit = commits,
      te_LastBlockHeight = height,
      te_LastCommitHash = (\<lambda>_. ''hash''),
      te_Query = (\<lambda>_ h _ _. (Ok ''proof'', h)),
      te_GetClientState = (\<lambda>_ _. Some ref_client),
      te_GetHistoricalInfo = (\<lambda>_ _. Some []),
      te_GetPacketAcknowledgement = (\<lambda>_ _ _ _. Some ''ok''),
      te_GetNextSequenceRecv = (\<lambda>_ _ _. Some 1),
      te_GetCommitmentPrefix = (\<lambda>_. ''ibc''),
      te_GetCapability = (\<lambda>_ _. Some ''cap''),
      te_NewCapability = (\<lambda>_. op_lift (Ok ''cap'')),
      te_signs = (\<lambda>_. True),
      te_ToTmValidators = (\<lambda>_. Ok []),
      te_NewValidatorSet = ref_vals,
      te_ValsHash = (\<lambda>_. ''vals''),
      te_ValsToProto = (\<lambda>_. Ok ''vals''),
      te_HeaderHash = (\<lambda>_. ''header''),
      te_MakeCommit = (\<lambda>_ _ _ _ _ _. Ok ''commit''),
      te_Sum = (\<lambda>b. b),
      te_BlockProtocol = 11,
      te_ParseChainID = (\<lambda>_. 0),
      te_GetHeight = (\<lambda>h. \<lparr>RevisionNumber = 0, RevisionHeight = Hd_Height (Tmh_Header h)\<rparr>),
      te_ConsensusState = (\<lambda>_. \<lparr>Tcn_Timestamp = 0, Tcn_Data = ''root''\<rparr>),
      te_MarshalHeader = (\<lambda>_. Ok ''header''),
      te_MarshalClientState = (\<lambda>_. Ok ''client''),
      te_MarshalConsensusState = (\<lambda>_. Ok ''consensus'')\<rparr>"

definition ref_env :: "ref_app test_env" where
  "ref_env =
     env_around \<lparr>ra_height = 1, ra_history = []\<rparr> (\<lambda>_ a. (Ok (), a))
       (\<lambda>tx a. let evs = ref_events (Tx_Msgs tx)
               in (Ok evs, a\<lparr>ra_history := ra_history a @ [(Tx_Msgs tx, evs)]\<rparr>))
       (\<lambda>a. a\<lparr>ra_height := ra_height a + 1\<rparr>) ra_height"

lemmas ref_env_simps = ref_env_def env_around_def

definition ref_path :: path_lib where
  "ref_path =
     \<lparr>pl_PacketCommitmentKey = (\<lambda>_ _ _. ''commitment''), pl_PacketReceiptKey = (\<lambda>_ _ _. ''receipt''),
      pl_PacketAcknowledgementKey = (\<lambda>_ _ _. ''ack''), pl_NextSequenceRecvKey = (\<lambda>_ _. ''next''),
      pl_ConnectionKey = (\<lambda>_. ''connection''), pl_ChannelKey = (\<lambda>_ _. ''channel''), pl_FullClientStateKey = (\<lambda>_. ''client''),
      pl_FullConsensusStateKey = (\<lambda>_ _. ''consensus''), pl_ParseClientIDFromEvents = (\<lambda>_. Ok ''07-tendermint-0''),
      pl_ParseConnectionIDFromEvents = (\<lambda>_. Ok ''connection-0''), pl_ParseChannelIDFromEvents = (\<lambda>_. Ok ''channel-0''),
      pl_DefaultOpenInitVersion = [], pl_ConnectionVersion = ''1'', pl_SDKSpecs = ''specs'', pl_UpgradePath = UpgradePath,
      pl_TransferPort = ''transfer'', pl_MockPort = ''mock'',
      pl_NewTendermintConfig = (\<lambda>w. tm_client_config (NewTendermintConfig (1, 3) w)),
      pl_NewConnectionConfig = NewConnectionConfig ''1'', pl_NewChannelConfig = NewChannelConfig ''mock'' ''mock-version''\<rparr>"

definition ref_keys :: "nat \<Rightarrow> fresh_keys" where
  "ref_keys i =
     \<lparr>Fk_privVal = ''priv'', Fk_validator = \<lparr>Val_Address = ''val'', Val_PubKey = ''key'', Val_VotingPower = 1\<rparr>,
      Fk_senderPrivKey = ''sender key'', Fk_sender = ''sender'' @ show_nat i\<rparr>"

text \<open>Two chains of the same coordinator and the path between them.\<close>

definition ref_coordinator :: "ref_app Coordinator" where
  "ref_coordinator = snd (NewCoordinator ref_env ref_keys 2)"

definition ref_net :: "ref_app path_net" where
  "ref_net =
     NewPath ref_path (new_chain ref_env (ref_keys 0) 0 ''testchain0'') (new_chain ref_env (ref_keys 1) 0 ''testchain1'')
       ref_coordinator"

lemma ref_coordinator_made: "NewCoordinator ref_env ref_keys 2 = (Ok (), ref_coordinator)"
proof -
  have "fst (NewCoordinator ref_env ref_keys 2) = Ok ()" by code_simp
  then show ?thesis by (simp add: ref_coordinator_def prod_eq_iff)
qed

lemma ref_height_laws: "height_laws ref_env"
  by (simp add: height_laws_def ref_env_simps Let_def)

end
