(* ===== verification/Test_Liveness.thy ===== *)
theory Test_Liveness
  imports Test_Reference
begin

text \<open>
  The relay returns: where the applications accept what a relayer sends them, updating a client, receiving,
  acknowledging and timing out a packet succeed, and so do the loops over the pending ones.
\<close>

section \<open>Operations that succeed\<close>

named_theorems works_intros \<open>operations that succeed, by their structure\<close>

definition works :: "('s \<Rightarrow> bool) \<Rightarrow> ('r \<Rightarrow> bool) \<Rightarrow> ('s, 'r) op \<Rightarrow> bool" where
  "works I Q m \<longleftrightarrow> (\<forall>s. I s \<longrightarrow> (\<exists>r s'. m s = (Ok r, s') \<and> I s' \<and> Q r))"

abbreviation anything :: "'r \<Rightarrow> bool" where
  "anything \<equiv> \<lambda>_. True"

lemma worksI: "(\<And>s. I s \<Longrightarrow> \<exists>r s'. m s = (Ok r, s') \<and> I s' \<and> Q r) \<Longrightarrow> works I Q m"
  by (simp add: works_def)

lemma worksD: "works I Q m \<Longrightarrow> I s \<Longrightarrow> \<exists>r s'. m s = (Ok r, s') \<and> I s' \<and> Q r"
  by (simp add: works_def)

lemma works_bind_with:
  assumes "works I R m" "\<And>r. R r \<Longrightarrow> works I Q (f r)"
  shows "works I Q (op_bind m f)"
proof (rule worksI)
  fix s assume "I s"
  from worksD [OF assms(1) this] obtain r s' where m: "m s = (Ok r, s')" "I s'" "R r" by blast
  from worksD [OF assms(2) [OF m(3)] m(2)] show "\<exists>x t. op_bind m f s = (Ok x, t) \<and> I t \<and> Q x"
    by (simp add: op_bind_def m(1))
qed

lemma works_bind [works_intros]: "works I anything m \<Longrightarrow> (\<And>r. works I Q (f r)) \<Longrightarrow> works I Q (op_bind m f)"
  by (rule works_bind_with)

lemma works_lift [works_intros]: "Q r \<Longrightarrow> works I Q (op_lift (Ok r))"
  by (simp add: works_def op_lift_def)

lemma works_prod [works_intros]: "(\<And>a b. works I Q (f a b)) \<Longrightarrow> works I Q (case p of (a, b) \<Rightarrow> f a b)"
  by (cases p) simp

lemma works_each:
  assumes "\<And>x. x \<in> set xs \<Longrightarrow> works I anything (f x)"
  shows "works I anything (op_each f xs)"
  using assms
proof (induction xs)
  case (Cons x xs)
  have "op_each f (x # xs) = op_bind (f x) (\<lambda>_. op_each f xs)"
    by (rule ext) (simp add: op_bind_def split: prod.split res.split)
  then show ?case using Cons by (simp add: works_bind)
qed (simp add: works_def)

lemma works_must [works_intros]: "works I Q m \<Longrightarrow> works I Q (op_must m)"
  unfolding works_def op_must_def by fastforce

section \<open>Accepting applications\<close>

text \<open>The messages a relayer sends, and events its packets can be read from.\<close>

fun relayed :: "Msg \<Rightarrow> bool" where
  "relayed (MsgUpdateClient _ _ _) = True"
| "relayed (MsgRecvPacket _ _ _ _) = True"
| "relayed (MsgAcknowledgement _ _ _ _ _) = True"
| "relayed (MsgTimeout _ _ _ _ _) = True"
| "relayed _ = False"

definition readable :: "Event list \<Rightarrow> bool" where
  "readable evs \<longleftrightarrow> (\<exists>ps acks. getSendPackets evs = Ok ps \<and> getAckPackets evs = Ok acks)"

text \<open>
  An application in a state of \<open>Acc\<close> begins blocks, accepts the messages of a relayer, answers queries and knows the
  clients of \<open>K\<close>; its steps stay in \<open>Acc\<close>.
\<close>

definition accepting_app :: "'a test_env \<Rightarrow> string set \<Rightarrow> 'a \<Rightarrow> bool" where
  "accepting_app E K a \<longleftrightarrow>
     (\<forall>h. \<exists>a'. te_BeginBlock E h a = (Ok (), a')) \<and>
     (\<forall>tx. list_all relayed (Tx_Msgs tx) \<longrightarrow> (\<exists>evs a'. te_SimDeliver E tx a = (Ok evs, a') \<and> readable evs)) \<and>
     (\<forall>path h k. \<exists>b. fst (te_Query E path h k a) = Ok b) \<and>
     (\<forall>cl \<in> K. te_GetClientState E cl a \<noteq> None) \<and>
     (\<forall>h. \<exists>vs tv. te_GetHistoricalInfo E h a = Some vs \<and> te_ToTmValidators E vs = Ok tv)"

definition accepting :: "'a test_env \<Rightarrow> ('a \<Rightarrow> bool) \<Rightarrow> string set \<Rightarrow> bool" where
  "accepting E Acc K \<longleftrightarrow>
     app_keeps E Acc \<and> (\<forall>a. Acc a \<longrightarrow> accepting_app E K a) \<and> (\<forall>tx. te_signs E tx) \<and>
     (\<forall>v. \<exists>b. te_ValsToProto E v = Ok b) \<and> (\<forall>b h c v s t. \<exists>x. te_MakeCommit E b h c v s t = Ok x) \<and>
     (\<forall>h. \<exists>b. te_MarshalHeader E h = Ok b)"

definition chain_ready :: "('a \<Rightarrow> bool) \<Rightarrow> 'a TestChain \<Rightarrow> bool" where
  "chain_ready Acc chain \<longleftrightarrow> Acc (Tc_App chain) \<and> Tc_LastHeader chain \<noteq> None"

lemma acceptingD:
  assumes "accepting E Acc K" "Acc a"
  shows "\<exists>a'. te_BeginBlock E h a = (Ok (), a') \<and> Acc a'"
    and "list_all relayed (Tx_Msgs tx) \<Longrightarrow> \<exists>evs a'. te_SimDeliver E tx a = (Ok evs, a') \<and> readable evs \<and> Acc a'"
    and "\<exists>b. fst (te_Query E path q k a) = Ok b"
    and "cl \<in> K \<Longrightarrow> \<exists>cs. te_GetClientState E cl a = Some cs"
    and "\<exists>vs tv. te_GetHistoricalInfo E g a = Some vs \<and> te_ToTmValidators E vs = Ok tv"
    and "Acc (te_EndBlock E a)" and "Acc (te_Commit E a)"
proof -
  have app: "accepting_app E K a" using assms by (simp add: accepting_def)
  have steps: "keeps Acc (te_BeginBlock E h)" "keeps Acc (te_SimDeliver E tx)"
    using assms(1) by (simp_all add: accepting_def app_keeps_def)
  show "\<exists>a'. te_BeginBlock E h a = (Ok (), a') \<and> Acc a'"
    using app steps(1) assms(2) unfolding accepting_app_def keeps_def by (metis snd_conv)
  show "list_all relayed (Tx_Msgs tx) \<Longrightarrow> \<exists>evs a'. te_SimDeliver E tx a = (Ok evs, a') \<and> readable evs \<and> Acc a'"
    using app steps(2) assms(2) unfolding accepting_app_def keeps_def by (metis snd_conv)
qed (use assms in \<open>auto simp: accepting_def accepting_app_def app_keeps_def\<close>)

lemma begins_works: "accepting E Acc K \<Longrightarrow> works (chain_ready Acc) anything (chain_BeginBlock E)"
proof (rule worksI)
  fix chain assume a: "accepting E Acc K" and c: "chain_ready Acc chain"
  obtain a' where "te_BeginBlock E (Tc_CurrentHeader chain) (Tc_App chain) = (Ok (), a')" "Acc a'"
    using acceptingD(1) [OF a] c unfolding chain_ready_def by metis
  then show "\<exists>r s'. chain_BeginBlock E chain = (Ok r, s') \<and> chain_ready Acc s' \<and> True"
    using c by (simp add: chain_BeginBlock_def on_App_def run_BeginBlock_def op_must_def chain_ready_def)
qed

lemma header_exists: "accepting E Acc K \<Longrightarrow> \<exists>h. CurrentTMClientHeader E chain = Ok h"
proof -
  assume a: "accepting E Acc K"
  obtain b where b: "te_ValsToProto E (Tc_Vals chain) = Ok b" using a unfolding accepting_def by blast
  have "\<exists>x. te_MakeCommit E i h c v s t = Ok x" for i h c v s t using a unfolding accepting_def by blast
  then show ?thesis
    unfolding CurrentTMClientHeader_def CreateTMClientHeader_def Let_def proto_or_panic_def by (simp add: b)
qed

lemma next_works: "accepting E Acc K \<Longrightarrow> works (chain_ready Acc) anything (NextBlock E)"
proof (rule worksI)
  fix chain assume a: "accepting E Acc K" and c: "chain_ready Acc chain"
  obtain h where h: "CurrentTMClientHeader E chain = Ok h" using header_exists [OF a] by blast
  have "chain_ready Acc (chain\<lparr>Tc_LastHeader := Some h, Tc_CurrentHeader := next_header E (chain\<lparr>Tc_LastHeader := Some h\<rparr>)\<rparr>)"
    using c by (simp add: chain_ready_def)
  from worksD [OF begins_works [OF a] this]
  show "\<exists>r s'. NextBlock E chain = (Ok r, s') \<and> chain_ready Acc s' \<and> True"
    by (simp add: NextBlock_def h Let_def)
qed

lemma commits_work: "accepting E Acc K \<Longrightarrow> works (chain_ready Acc) anything (chain_Commit E)"
  using acceptingD(7) by (fastforce simp: works_def chain_Commit_def chain_ready_def)

lemma sign_works:
  assumes a: "accepting E Acc K" and msgs: "list_all relayed msgs"
  shows "works (chain_ready Acc) readable (sign_and_deliver E True msgs)"
proof (rule worksI)
  fix chain assume c: "chain_ready Acc chain"
  define tx where "tx =
    \<lparr>Tx_Msgs = msgs, Tx_FeeAmt = [\<lparr>Coin_Denom = ''stake'', Coin_Amount = 0\<rparr>], Tx_Gas = 2 * DefaultGas,
     Tx_ChainID = Tc_ChainID chain, Tx_AccNums = [Acc_Number (Tc_SenderAccount chain)],
     Tx_AccSeqs = [Acc_Sequence (Tc_SenderAccount chain)], Tx_Priv = [Tc_senderPrivKey chain]\<rparr>"
  obtain a1 where a1: "te_BeginBlock E (Tc_CurrentHeader chain) (Tc_App chain) = (Ok (), a1)" "Acc a1"
    using acceptingD(1) [OF a] c unfolding chain_ready_def by metis
  obtain evs a2 where a2: "te_SimDeliver E tx a1 = (Ok evs, a2)" "readable evs" "Acc a2"
    using acceptingD(2) [OF a a1(2), of tx] msgs by (auto simp: tx_def)
  have "Acc (te_Commit E (te_EndBlock E a2))"
    using acceptingD(6,7) [OF a] a2(3) by blast
  moreover have "te_signs E tx" using a by (simp add: accepting_def)
  ultimately show "\<exists>r s'. sign_and_deliver E True msgs chain = (Ok r, s') \<and> chain_ready Acc s' \<and> readable r"
    using a1 a2 c
    by (simp add: sign_and_deliver_def SignAndDeliver_def on_App_def run_BeginBlock_def op_must_def chain_ready_def tx_def)
qed

lemma transact_works: "accepting E Acc K \<Longrightarrow> list_all relayed msgs \<Longrightarrow> works (chain_ready Acc) readable (transact E True msgs)"
  unfolding transact_def
  by (rule works_bind_with [OF sign_works], assumption+) (intro works_intros next_works, assumption,
    simp add: works_def increment_sequence_def Let_def chain_ready_def)

lemma capture_works: "readable evs \<Longrightarrow> works (chain_ready Acc) anything (captureIBCEvents evs)"
  by (auto simp: works_def readable_def captureIBCEvents_def Let_def chain_ready_def)

lemma trust_works: "accepting E Acc K \<Longrightarrow> works (chain_ready Acc) anything (inject_trusted E h)"
proof (rule worksI)
  fix chain assume a: "accepting E Acc K" and c: "chain_ready Acc chain"
  obtain lh where lh: "Tc_LastHeader chain = Some lh" using c by (auto simp: chain_ready_def)
  obtain vs tv where "te_GetHistoricalInfo E (RevisionHeight h + 1) (Tc_App chain) = Some vs" "te_ToTmValidators E vs = Ok tv"
    using acceptingD(5) [OF a] c unfolding chain_ready_def by blast
  then have "\<exists>vals. trusted_validators E h lh chain = Ok (Some vals)"
    by (simp add: trusted_validators_def GetValsAtHeight_def)
  then obtain vals where "trusted_validators E h lh chain = Ok (Some vals)" by blast
  moreover obtain b where "te_ValsToProto E vals = Ok b" using a unfolding accepting_def by blast
  ultimately show "\<exists>r s'. inject_trusted E h chain = (Ok r, s') \<and> chain_ready Acc s' \<and> True"
    using c lh by (simp add: inject_trusted_def Let_def set_trusted_def chain_ready_def)
qed

section \<open>The framework with two endpoints\<close>

definition net_ready :: "('a \<Rightarrow> bool) \<Rightarrow> string set \<Rightarrow> Endpoint \<Rightarrow> Endpoint \<Rightarrow> 'a path_net \<Rightarrow> bool" where
  "net_ready Acc D eA eB pn \<longleftrightarrow>
     set (Co_Chains pn) \<subseteq> D \<and> (\<forall>cid \<in> D. \<exists>chain. Co_heap pn cid = Some chain \<and> chain_ready Acc chain) \<and>
     Pn_EndpointA pn = eA \<and> Pn_EndpointB pn = eB"

definition relay_end :: "string set \<Rightarrow> string set \<Rightarrow> Endpoint \<Rightarrow> bool" where
  "relay_end K D e \<longleftrightarrow> Ep_Chain e \<in> D \<and> Ep_ClientID e \<in> K \<and> Cc_ClientType (Ep_ClientConfig e) \<in> {Tendermint, Wasm_client}"

fun end_of :: "Endpoint \<Rightarrow> Endpoint \<Rightarrow> side \<Rightarrow> Endpoint" where
  "end_of eA eB EA = eA"
| "end_of eA eB EB = eB"

lemma works_ends [works_intros]:
  "works (net_ready Acc D eA eB) Q (f (end_of eA eB s) (end_of eA eB (counter s))) \<Longrightarrow>
     works (net_ready Acc D eA eB) Q (with_ends s f)"
  by (cases s) (auto simp: works_def with_ends_def net_ready_def)

lemma works_on_chain: "cid \<in> D \<Longrightarrow> works (chain_ready Acc) Q m \<Longrightarrow> works (net_ready Acc D eA eB) Q (on_chain cid m)"
proof (rule worksI)
  fix pn assume cid: "cid \<in> D" and m: "works (chain_ready Acc) Q m" and pn: "net_ready Acc D eA eB pn"
  obtain chain where chain: "Co_heap pn cid = Some chain" "chain_ready Acc chain"
    using pn cid by (auto simp: net_ready_def)
  obtain r chain' where "m chain = (Ok r, chain')" "chain_ready Acc chain'" "Q r"
    using worksD [OF m chain(2)] by blast
  then show "\<exists>r s'. on_chain cid m pn = (Ok r, s') \<and> net_ready Acc D eA eB s' \<and> Q r"
    using chain(1) pn by (simp add: on_chain_def net_ready_def)
qed

lemma works_read:
  "cid \<in> D \<Longrightarrow> (\<And>chain. chain_ready Acc chain \<Longrightarrow> \<exists>r. f chain = Ok r \<and> Q r) \<Longrightarrow>
     works (net_ready Acc D eA eB) Q (read_chain cid f)"
proof (rule worksI)
  fix pn assume cid: "cid \<in> D" and f: "\<And>chain. chain_ready Acc chain \<Longrightarrow> \<exists>r. f chain = Ok r \<and> Q r"
    and pn: "net_ready Acc D eA eB pn"
  obtain chain where chain: "Co_heap pn cid = Some chain" "chain_ready Acc chain"
    using pn cid by (auto simp: net_ready_def)
  then show "\<exists>r s'. read_chain cid f pn = (Ok r, s') \<and> net_ready Acc D eA eB s' \<and> Q r"
    using f pn by (auto simp: read_chain_def)
qed

lemma clock_works: "accepting E Acc K \<Longrightarrow> cid \<in> D \<Longrightarrow> works (net_ready Acc D eA eB) anything (UpdateTimeForChain E cid)"
proof (rule worksI)
  fix pn :: "'a path_net" assume a: "accepting E Acc K" and cid: "cid \<in> D" and pn: "net_ready Acc D eA eB pn"
  have "works (chain_ready Acc) anything (\<lambda>chain. chain_BeginBlock E (set_time t chain))" for t
    using begins_works [OF a] by (simp add: works_def set_time_def chain_ready_def)
  from worksD [OF works_on_chain [OF cid this] pn]
  show "\<exists>r s'. UpdateTimeForChain E cid pn = (Ok r, s') \<and> net_ready Acc D eA eB s' \<and> True"
    by (simp add: UpdateTimeForChain_def)
qed

lemma time_works: "accepting E Acc K \<Longrightarrow> works (net_ready Acc D eA eB) anything (IncrementTimeBy E d)"
proof (rule worksI)
  fix pn :: "'a path_net" assume a: "accepting E Acc K" and pn: "net_ready Acc D eA eB pn"
  have "works (net_ready Acc D eA eB) anything (op_each (UpdateTimeForChain E) (Co_Chains pn))"
    using pn by (intro works_each clock_works [OF a]) (auto simp: net_ready_def)
  moreover have "net_ready Acc D eA eB (pn\<lparr>Co_CurrentTime := Co_CurrentTime pn + d\<rparr>)"
    using pn by (simp add: net_ready_def)
  ultimately show "\<exists>r s'. IncrementTimeBy E d pn = (Ok r, s') \<and> net_ready Acc D eA eB s' \<and> True"
    using worksD by (fastforce simp: IncrementTimeBy_def UpdateTime_def)
qed

lemma block_works:
  assumes "accepting E Acc K" "set cids \<subseteq> D"
  shows "works (net_ready Acc D eA eB) anything (CommitBlock E cids)"
  unfolding CommitBlock_def IncrementTime_def commit_and_next_def
  using assms by (intro works_intros works_each works_on_chain time_works [OF assms(1)] commits_work [OF assms(1)]
      next_works [OF assms(1)]) auto

lemma sends_work:
  assumes "accepting E Acc K" "cid \<in> D" "list_all relayed msgs"
  shows "works (net_ready Acc D eA eB) anything (sendMsgs E cid msgs)"
proof -
  have "works (net_ready Acc D eA eB) anything (SendMsgs E cid msgs)"
    unfolding SendMsgs_eq IncrementTime_def
    by (intro works_bind clock_works [OF assms(1,2)] works_bind_with [OF works_on_chain [OF assms(2) transact_works [OF assms(1,3)]]]
        time_works [OF assms(1)] works_on_chain [OF assms(2)] capture_works works_lift) auto
  then show ?thesis unfolding sendMsgs_def by (intro works_intros) simp_all
qed

lemma endpoint_works:
  assumes "accepting E Acc K" "\<forall>s. relay_end K D (end_of eA eB s)" "\<And>a. relayed (m a)"
  shows "works (net_ready Acc D eA eB) anything (ep_send_only E s m)"
  unfolding ep_send_only_def signer_def
  using assms by (intro works_intros works_read sends_work [OF assms(1)]) (auto simp: relay_end_def)

text \<open>From here on, both ends of the path meet \<open>relay_end\<close>.\<close>

definition relay_net :: "'a test_env \<Rightarrow> ('a \<Rightarrow> bool) \<Rightarrow> string set \<Rightarrow> string set \<Rightarrow> Endpoint \<Rightarrow> Endpoint \<Rightarrow> bool" where
  "relay_net E Acc K D eA eB \<longleftrightarrow> accepting E Acc K \<and> relay_end K D eA \<and> relay_end K D eB"

lemma relay_netD:
  assumes "relay_net E Acc K D eA eB"
  shows "accepting E Acc K" "relay_end K D (end_of eA eB s)" "Ep_Chain (end_of eA eB s) \<in> D"
    "Ep_ClientID (end_of eA eB s) \<in> K"
  using assms by (cases s; simp add: relay_net_def relay_end_def)+

lemma sends_works:
  "relay_net E Acc K D eA eB \<Longrightarrow> (\<And>a. relayed (m a)) \<Longrightarrow> works (net_ready Acc D eA eB) anything (ep_send_only E s m)"
  by (rule endpoint_works [of E Acc K]) (simp_all add: relay_netD)

lemma client_known:
  assumes "relay_net E Acc K D eA eB" "cid \<in> D" "cl \<in> K"
  shows "works (net_ready Acc D eA eB) anything (read_chain cid (GetClientState E cl))"
  using acceptingD(4) [OF relay_netD(1) [OF assms(1)] _ assms(3)] assms(2)
  by (intro works_read) (auto simp: GetClientState_def chain_ready_def)

lemma header_works:
  assumes "relay_net E Acc K D eA eB"
  shows "works (net_ready Acc D eA eB) anything (update_header E (end_of eA eB s) (end_of eA eB (counter s)))"
proof -
  have read: "works (net_ready Acc D eA eB) anything
      (read_chain (Ep_Chain (end_of eA eB s)) (\<lambda>chain. res_bind (GetClientState E (Ep_ClientID (end_of eA eB s)) chain)
        (\<lambda>cs. Ok (GetLatestHeight cs))))"
    using acceptingD(4) [OF relay_netD(1) [OF assms] _ relay_netD(4) [OF assms, of s]] relay_netD(3) [OF assms, of s]
    by (intro works_read) (fastforce simp: GetClientState_def chain_ready_def)+
  then have tm: "works (net_ready Acc D eA eB) anything
      (ConstructUpdateTMClientHeader E (Ep_Chain (end_of eA eB s)) (Ep_Chain (end_of eA eB (counter s)))
        (Ep_ClientID (end_of eA eB s)))"
    unfolding ConstructUpdateTMClientHeader_def ConstructUpdateTMClientHeaderWithTrustedHeight_def
    using relay_netD [OF assms] by (auto intro!: works_bind works_on_chain trust_works)
  have marshal: "\<exists>b. te_MarshalHeader E h = Ok b" for h
    using relay_netD(1) [OF assms] by (simp add: accepting_def)
  have "works (net_ready Acc D eA eB) anything (op_lift (te_MarshalHeader E h))" for h
    using marshal [of h] by (auto intro!: works_lift)
  then have "works (net_ready Acc D eA eB) anything
      (ConstructUpdateWasmClientHeader E (Ep_Chain (end_of eA eB s)) (Ep_Chain (end_of eA eB (counter s)))
        (Ep_ClientID (end_of eA eB s)))"
    using tm unfolding ConstructUpdateWasmClientHeader_def ConstructUpdateWasmClientHeaderWithTrustedHeight_def
      ConstructUpdateTMClientHeader_def
    by (intro works_bind works_lift) simp_all
  then show ?thesis
    using tm relay_netD(2) [OF assms, of s]
    by (auto simp: update_header_def relay_end_def Tendermint_def Wasm_client_def intro!: works_bind works_lift works_prod)
qed

lemma update_works: "relay_net E Acc K D eA eB \<Longrightarrow> works (net_ready Acc D eA eB) anything (UpdateClient E s)"
  unfolding UpdateClient_def
  by (intro works_intros block_works header_works sends_works) (auto dest: relay_netD)

lemma proof_works:
  assumes "relay_net E Acc K D eA eB" "cid \<in> D"
  shows "works (net_ready Acc D eA eB) anything (read_chain cid (QueryProofAtHeight E key h))"
    and "works (net_ready Acc D eA eB) anything (read_chain cid (QueryProof E key))"
proof -
  have q: "\<exists>r. query_proof E p g key chain = Ok r" if "chain_ready Acc chain" for chain p g
    using acceptingD(3) [OF relay_netD(1) [OF assms(1)], of "Tc_App chain" p g key] that
    by (auto simp: query_proof_def chain_ready_def Let_def)
  show "works (net_ready Acc D eA eB) anything (read_chain cid (QueryProofAtHeight E key h))"
    "works (net_ready Acc D eA eB) anything (read_chain cid (QueryProof E key))"
    using q assms(2) by (auto intro!: works_read simp: QueryProofAtHeight_def QueryProof_def)
qed

lemma queries_work:
  assumes "relay_net E Acc K D eA eB"
  shows "works (net_ready Acc D eA eB) anything (counter_proof E s key)"
    and "works (net_ready Acc D eA eB) anything (ep_QueryProof E s k)"
  unfolding counter_proof_def ep_QueryProof_def ep_QueryProofAtHeight_def
  by (intro works_intros proof_works [OF assms] client_known [OF assms] relay_netD [OF assms])+

lemma packets_work:
  assumes "relay_net E Acc K D eA eB"
  shows "works (net_ready Acc D eA eB) anything (RecvPacket E L s p)"
    and "works (net_ready Acc D eA eB) anything (AcknowledgePacket E L s p ack)"
    and "works (net_ready Acc D eA eB) anything (timeout_pending E L s p)"
  unfolding RecvPacket_def AcknowledgePacket_def timeout_pending_def
  by (intro works_bind works_prod queries_work [OF assms] update_works [OF assms] sends_works [OF assms], simp)+

lemma queues_work:
  assumes "relay_net E Acc K D eA eB"
  shows "works (net_ready Acc D eA eB) anything (pending_sends s)" "works (net_ready Acc D eA eB) anything (pending_acks s)"
    "works (net_ready Acc D eA eB) anything (clear_sends s)" "works (net_ready Acc D eA eB) anything (clear_acks s)"
  unfolding pending_sends_def pending_acks_def clear_sends_def clear_acks_def
  using relay_netD(3) [OF assms]
  by (intro works_intros works_read works_on_chain; simp add: works_def chain_ready_def)+

lemma relays_work:
  assumes "relay_net E Acc K D eA eB"
  shows "works (net_ready Acc D eA eB) anything (RelayAndAckPendingPackets E L)"
    and "works (net_ready Acc D eA eB) anything (TimeoutPendingPackets E L)"
proof -
  have time: "works (net_ready Acc D eA eB) anything (IncrementTime E)"
    unfolding IncrementTime_def using relay_netD(1) [OF assms] by (rule time_works)
  have block: "works (net_ready Acc D eA eB) anything (with_ends EA (\<lambda>src dest. CommitBlock E [Ep_Chain src]))"
    "works (net_ready Acc D eA eB) anything (with_ends EA (\<lambda>src dest. CommitBlock E [Ep_Chain dest]))"
    "works (net_ready Acc D eA eB) anything (with_ends EA (\<lambda>src dest. CommitBlock E [Ep_Chain src, Ep_Chain dest]))"
    using relay_netD(3) [OF assms, of EA] relay_netD(3) [OF assms, of EB]
    by (intro works_ends block_works [OF relay_netD(1) [OF assms]], simp)+
  note steps = time block queues_work [OF assms] update_works [OF assms] packets_work [OF assms]
  show "works (net_ready Acc D eA eB) anything (RelayAndAckPendingPackets E L)"
    unfolding RelayAndAckPendingPackets_def by (intro works_bind works_each steps)
  show "works (net_ready Acc D eA eB) anything (TimeoutPendingPackets E L)"
    unfolding TimeoutPendingPackets_def by (intro works_bind works_each steps)
qed

end
