(* ===== verification/Test_Relay.thy ===== *)
theory Test_Relay
  imports Test_Log Test_Liveness
begin

text \<open>
  The logs of the endpoints and of the coordinator: the order of the handshakes, and the relay of pending packets and
  acknowledgements between the two chains of a path.
\<close>

section \<open>Logs of the endpoints\<close>

definition sends_one :: "side \<Rightarrow> brief \<Rightarrow> plan" where
  "sends_one s b n = [(n s, [b])]"

definition updates :: "side \<Rightarrow> plan" where
  "updates s = sends_one s (Plain ''MsgUpdateClient'')"

lemma log_SendMsgs: "history_laws E obs \<Longrightarrow> performs obs (SendMsgs E cid msgs) (\<lambda>_. [(cid, map brief_msg msgs)])"
  unfolding performs_def
proof (intro allI impI)
  fix pn :: "'a path_net" and evs pn'
  assume "history_laws E obs" "SendMsgs E cid msgs pn = (Ok evs, pn')"
  from SendMsgs_view [OF this]
  show "ends pn' = ends pn \<and>
      (\<exists>log. briefs log = [(cid, map brief_msg msgs)] \<and> net_view_of obs pn' = run_log log (net_view_of obs pn))"
    by (intro conjI exI [of _ "[(cid, msgs, evs)]"]) (simp_all add: briefs_def run_log_def)
qed

lemma log_sendMsgs: "history_laws E obs \<Longrightarrow> performs obs (sendMsgs E cid msgs) (\<lambda>_. [(cid, map brief_msg msgs)])"
  unfolding sendMsgs_def by (rule performs_before [OF log_SendMsgs performs_lift])

lemma log_ep_send:
  assumes "history_laws E obs" "\<And>a. brief_msg (m a) = b"
  shows "performs obs (ep_send E s m) (sends_one s b)" and "performs obs (ep_send_only E s m) (sends_one s b)"
proof -
  have signer: "performs obs (signer s) silent"
    unfolding signer_def by (intro log_intros)
  show "performs obs (ep_send E s m) (sends_one s b)"
    unfolding ep_send_def
    by (rule performs_after [OF signer], rule performs_ends, rule log_SendMsgs [OF assms(1)])
      (simp add: sends_one_def ends_def assms(2) fun_eq_iff)
  show "performs obs (ep_send_only E s m) (sends_one s b)"
    unfolding ep_send_only_def
    by (rule performs_after [OF signer], rule performs_ends, rule log_sendMsgs [OF assms(1)])
      (simp add: sends_one_def ends_def assms(2) fun_eq_iff)
qed

lemma log_header: "performs obs (update_header E e c) silent"
  unfolding update_header_def Let_def ConstructUpdateTMClientHeader_def ConstructUpdateWasmClientHeader_def
    ConstructUpdateWasmClientHeaderWithTrustedHeight_def ConstructUpdateTMClientHeaderWithTrustedHeight_def
  by (intro log_intros performs_unseen unseen_trust)

lemma log_proofs: "performs obs (ep_QueryProof E s key) silent" "performs obs (counter_proof E s k) silent"
  "performs obs (counter_prefix E s) silent" "performs obs (QueryConnectionHandshakeProof E L s) silent"
  unfolding ep_QueryProof_def ep_QueryProofAtHeight_def counter_proof_def counter_prefix_def
    QueryConnectionHandshakeProof_def Let_def
  by (intro log_intros)+

lemma log_identifier:
  "performs obs (op_bind (op_lift r) (\<lambda>x. set_ep s (\<lambda>e. e\<lparr>Ep_ClientID := x\<rparr>))) silent"
  "performs obs (op_bind (op_lift r) (\<lambda>x. set_ep s (\<lambda>e. e\<lparr>Ep_ConnectionID := x\<rparr>))) silent"
  "performs obs (op_bind (op_lift r) (\<lambda>x. set_ep s (\<lambda>e. e\<lparr>Ep_ChannelID := x\<rparr>))) silent"
  by (intro log_intros performs_set_ep; simp)+

lemma log_commit_counter: "history_laws E obs \<Longrightarrow> performs obs (with_ends s (\<lambda>e c. CommitBlock E [Ep_Chain c])) silent"
  by (intro log_intros silent_commit)

lemma log_UpdateClient: "history_laws E obs \<Longrightarrow> performs obs (UpdateClient E s) (updates s)"
  unfolding UpdateClient_def updates_def
  by (intro performs_after log_commit_counter performs_ends_same log_header log_ep_send) simp_all

lemma log_CreateClient: "history_laws E obs \<Longrightarrow> performs obs (CreateClient E L s) (sends_one s (Plain ''MsgCreateClient''))"
  unfolding CreateClient_def
  by (intro performs_after log_commit_counter performs_ends_same performs_prod performs_read
      performs_before [OF log_ep_send(1)] log_identifier) simp_all

lemma log_ConnOpen:
  assumes "history_laws E obs"
  shows "performs obs (ConnOpenInit E L s) (sends_one s (Plain ''MsgConnectionOpenInit''))"
    and "performs obs (ConnOpenTry E L s) (\<lambda>n. updates s n @ sends_one s (Plain ''MsgConnectionOpenTry'') n)"
    and "performs obs (ConnOpenAck E L s) (\<lambda>n. updates s n @ sends_one s (Plain ''MsgConnectionOpenAck'') n)"
    and "performs obs (ConnOpenConfirm E L s) (\<lambda>n. updates s n @ sends_one s (Plain ''MsgConnectionOpenConfirm'') n)"
  unfolding ConnOpenInit_def ConnOpenTry_def ConnOpenAck_def ConnOpenConfirm_def
  subgoal
    by (intro performs_after log_proofs performs_before [OF performs_ends_same] log_ep_send(1) [OF assms] log_identifier) simp
  subgoal
    by (intro performs_bind log_UpdateClient assms performs_after log_proofs performs_prod
        performs_before [OF performs_ends_same] log_ep_send(1) [OF assms] performs_ends_same performs_if log_identifier
        performs_lift) simp
  subgoal
    by (intro performs_bind log_UpdateClient assms performs_after log_proofs performs_prod performs_ends_same
        log_ep_send(2) [OF assms]) simp
  subgoal
    by (intro performs_bind log_UpdateClient assms performs_after log_proofs performs_prod performs_ends_same
        log_ep_send(2) [OF assms]) simp
  done

lemma log_ChanOpen:
  assumes "history_laws E obs"
  shows "performs obs (ChanOpenInit E L s) (sends_one s (Plain ''MsgChannelOpenInit''))"
    and "performs obs (ChanOpenTry E L s) (\<lambda>n. updates s n @ sends_one s (Plain ''MsgChannelOpenTry'') n)"
    and "performs obs (ChanOpenAck E L s) (\<lambda>n. updates s n @ sends_one s (Plain ''MsgChannelOpenAck'') n)"
    and "performs obs (ChanOpenConfirm E L s) (\<lambda>n. updates s n @ sends_one s (Plain ''MsgChannelOpenConfirm'') n)"
  unfolding ChanOpenInit_def ChanOpenTry_def ChanOpenAck_def ChanOpenConfirm_def
  subgoal
    by (intro performs_before [OF performs_ends_same] log_ep_send(1) [OF assms] log_identifier) simp
  subgoal
    by (intro performs_bind log_UpdateClient assms performs_after log_proofs performs_prod
        performs_before [OF performs_ends_same] log_ep_send(1) [OF assms] performs_ends_same performs_if log_identifier
        performs_lift) simp
  subgoal
    by (intro performs_bind log_UpdateClient assms performs_after log_proofs performs_prod performs_ends_same
        log_ep_send(2) [OF assms]) simp
  subgoal
    by (intro performs_bind log_UpdateClient assms performs_after log_proofs performs_prod performs_ends_same
        log_ep_send(2) [OF assms]) simp
  done

lemma log_packets:
  assumes "history_laws E obs"
  shows "performs obs (RecvPacket E L s p) (\<lambda>n. sends_one s (Receives p) n @ updates (counter s) n)"
    and "performs obs (AcknowledgePacket E L s p ack) (sends_one s (Acknowledges p ack))"
    and "performs obs (timeout_pending E L s p) (sends_one s (TimesOut p))"
  unfolding RecvPacket_def AcknowledgePacket_def timeout_pending_def
  subgoal
    by (intro performs_after log_proofs performs_prod performs_bind log_ep_send(2) [OF assms] log_UpdateClient assms) simp
  subgoal
    by (intro performs_after log_proofs performs_prod log_ep_send(2) [OF assms]) simp
  subgoal
    by (intro performs_after log_proofs performs_prod log_ep_send(2) [OF assms]) simp
  done

section \<open>Handshakes\<close>

text \<open>The transactions of a handshake between the chains \<open>a\<close> and \<open>b\<close>, in their order.\<close>

definition connection_plan :: "string \<Rightarrow> string \<Rightarrow> (string \<times> brief list) list" where
  "connection_plan a b =
     [(a, [Plain ''MsgConnectionOpenInit'']),
      (b, [Plain ''MsgUpdateClient'']), (b, [Plain ''MsgConnectionOpenTry'']),
      (a, [Plain ''MsgUpdateClient'']), (a, [Plain ''MsgConnectionOpenAck'']),
      (b, [Plain ''MsgUpdateClient'']), (b, [Plain ''MsgConnectionOpenConfirm'']),
      (a, [Plain ''MsgUpdateClient''])]"

definition channel_plan :: "string \<Rightarrow> string \<Rightarrow> (string \<times> brief list) list" where
  "channel_plan a b =
     [(a, [Plain ''MsgChannelOpenInit'']),
      (b, [Plain ''MsgUpdateClient'']), (b, [Plain ''MsgChannelOpenTry'']),
      (a, [Plain ''MsgUpdateClient'']), (a, [Plain ''MsgChannelOpenAck'']),
      (b, [Plain ''MsgUpdateClient'']), (b, [Plain ''MsgChannelOpenConfirm'']),
      (a, [Plain ''MsgUpdateClient''])]"

definition setup_plan :: "string \<Rightarrow> string \<Rightarrow> (string \<times> brief list) list" where
  "setup_plan a b =
     [(a, [Plain ''MsgCreateClient'']), (b, [Plain ''MsgCreateClient''])] @ connection_plan a b @ channel_plan a b"

lemma performs_plan: "performs obs m B \<Longrightarrow> (\<And>n. B n = C n) \<Longrightarrow> performs obs m C"
  unfolding performs_def by simp

lemma log_CreateConnections:
  assumes "history_laws E obs"
  shows "performs obs (CreateConnections E L) (\<lambda>n. connection_plan (n EA) (n EB))"
  unfolding CreateConnections_def
  by (rule performs_plan, (rule performs_bind performs_must log_ConnOpen log_UpdateClient assms)+)
    (simp add: connection_plan_def updates_def sends_one_def)

lemma log_CreateChannels:
  assumes "history_laws E obs"
  shows "performs obs (CreateChannels E L) (\<lambda>n. channel_plan (n EA) (n EB))"
  unfolding CreateChannels_def
  by (rule performs_plan, (rule performs_bind performs_must log_ChanOpen log_UpdateClient assms)+)
    (simp add: channel_plan_def updates_def sends_one_def)

lemma log_Setup:
  assumes "history_laws E obs"
  shows "performs obs (Setup E L) (\<lambda>n. setup_plan (n EA) (n EB))"
  unfolding Setup_def SetupConnections_def SetupClients_def
  by (rule performs_plan, (rule performs_bind performs_must log_CreateConnections log_CreateChannels log_CreateClient assms)+)
    (simp add: setup_plan_def sends_one_def)

section \<open>Relay\<close>

definition drop_sends :: "chain_view \<Rightarrow> chain_view" where
  "drop_sends v = v\<lparr>cv_sends := []\<rparr>"

definition drop_acks :: "chain_view \<Rightarrow> chain_view" where
  "drop_acks v = v\<lparr>cv_acks := []\<rparr>"

definition receive_plan :: "string \<Rightarrow> string \<Rightarrow> Packet list \<Rightarrow> (string \<times> brief list) list" where
  "receive_plan src dest ps =
     (dest, [Plain ''MsgUpdateClient'']) #
     concat (map (\<lambda>p. [(dest, [Receives p]), (src, [Plain ''MsgUpdateClient''])]) ps)"

definition acknowledge_plan :: "string \<Rightarrow> PacketAck list \<Rightarrow> (string \<times> brief list) list" where
  "acknowledge_plan src acks =
     (src, [Plain ''MsgUpdateClient'']) # map (\<lambda>k. (src, [Acknowledges (Pa_Packet k) (Pa_Ack k)])) acks"

definition timeout_plan :: "string \<Rightarrow> Packet list \<Rightarrow> (string \<times> brief list) list" where
  "timeout_plan src ps = (src, [Plain ''MsgUpdateClient'']) # map (\<lambda>p. (src, [TimesOut p])) ps"

text \<open>
  The relay on views: the pending packets are received one after the other, the queue of the source is emptied, the
  acknowledgements that then wait on the destination are delivered to the source, and their queue is emptied.
\<close>

definition relays :: "string \<Rightarrow> string \<Rightarrow> net_view \<Rightarrow> net_view \<Rightarrow> bool" where
  "relays src dest v v' \<longleftrightarrow>
     (\<exists>vs vd l1 l2. v src = Some vs \<and>
        (let v1 = on_view src drop_sends (run_log l1 v) in
         v1 dest = Some vd \<and>
         briefs l1 = receive_plan src dest (cv_sends vs) \<and> briefs l2 = acknowledge_plan src (cv_acks vd) \<and>
         v' = on_view dest drop_acks (run_log l2 v1)))"

definition times_out :: "string \<Rightarrow> string \<Rightarrow> net_view \<Rightarrow> net_view \<Rightarrow> bool" where
  "times_out src dest v v' \<longleftrightarrow>
     (\<exists>vs l. v src = Some vs \<and> briefs l = timeout_plan src (cv_sends vs) \<and>
        v' = on_view dest drop_acks (on_view src drop_sends (run_log l v)))"

text \<open>Both directions of the code are one function of the side that sends.\<close>

definition relay_from :: "'a test_env \<Rightarrow> path_lib \<Rightarrow> side \<Rightarrow> ('a, unit) path_op" where
  "relay_from E L s =
     op_bind (pending_sends s) (\<lambda>toSend.
     op_bind (IncrementTime E) (\<lambda>_.
     op_bind (with_ends s (\<lambda>src dest. CommitBlock E [Ep_Chain src])) (\<lambda>_.
     op_bind (UpdateClient E (counter s)) (\<lambda>_.
     op_bind (op_each (RecvPacket E L (counter s)) toSend) (\<lambda>_.
     op_bind (clear_sends s) (\<lambda>_.
     op_bind (pending_acks (counter s)) (\<lambda>toAck.
     op_bind (IncrementTime E) (\<lambda>_.
     op_bind (with_ends s (\<lambda>src dest. CommitBlock E [Ep_Chain dest])) (\<lambda>_.
     op_bind (UpdateClient E s) (\<lambda>_.
     op_bind (op_each (\<lambda>ack. AcknowledgePacket E L s (Pa_Packet ack) (Pa_Ack ack)) toAck) (\<lambda>_.
     clear_acks (counter s))))))))))))"

lemma relay_directions:
  "RelayAndAckPendingPackets E L = relay_from E L EA" "RelayAndAckPendingPacketsReverse E L = relay_from E L EB"
  by (simp_all add: RelayAndAckPendingPackets_def RelayAndAckPendingPacketsReverse_def relay_from_def)

definition timeout_from :: "'a test_env \<Rightarrow> path_lib \<Rightarrow> side \<Rightarrow> ('a, unit) path_op" where
  "timeout_from E L s =
     op_bind (pending_sends s) (\<lambda>toSend.
     op_bind (UpdateClient E s) (\<lambda>_.
     op_bind (IncrementTime E) (\<lambda>_.
     op_bind (with_ends s (\<lambda>src dest. CommitBlock E [Ep_Chain src, Ep_Chain dest])) (\<lambda>_.
     op_bind (op_each (timeout_pending E L s) toSend) (\<lambda>_.
     op_bind (clear_sends s) (\<lambda>_.
     clear_acks (counter s)))))))"

lemma timeout_directions:
  "TimeoutPendingPackets E L = timeout_from E L EA" "TimeoutPendingPacketsReverse E L = timeout_from E L EB"
  by (simp_all add: TimeoutPendingPackets_def TimeoutPendingPacketsReverse_def timeout_from_def)

text \<open>Reading and emptying a queue.\<close>

lemma pending_view:
  "pending_sends s pn = (Ok ps, pn') \<Longrightarrow> pn' = pn \<and> (\<exists>v. net_view_of obs pn (ends pn s) = Some v \<and> cv_sends v = ps)"
  "pending_acks s pn = (Ok acks, pn') \<Longrightarrow> pn' = pn \<and> (\<exists>v. net_view_of obs pn (ends pn s) = Some v \<and> cv_acks v = acks)"
  by (auto simp: pending_sends_def pending_acks_def with_ends_def read_chain_def net_view_of_def view_of_def ends_def
      split: option.splits)

lemma clear_view:
  "clear_sends s pn = (Ok u, pn') \<Longrightarrow>
     ends pn' = ends pn \<and> net_view_of obs pn' = on_view (ends pn s) drop_sends (net_view_of obs pn)"
  "clear_acks s pn = (Ok u, pn') \<Longrightarrow>
     ends pn' = ends pn \<and> net_view_of obs pn' = on_view (ends pn s) drop_acks (net_view_of obs pn)"
  by (auto simp: clear_sends_def clear_acks_def with_ends_def on_chain_def net_view_of_def view_of_def drop_sends_def
      drop_acks_def on_view_def ends_def [symmetric] fun_eq_iff split: option.splits)

lemma log_time:
  assumes "history_laws E obs"
  shows "performs obs (IncrementTime E) silent"
    and "performs obs (with_ends s (\<lambda>src dest. CommitBlock E [Ep_Chain src])) silent"
    and "performs obs (with_ends s (\<lambda>src dest. CommitBlock E [Ep_Chain src, Ep_Chain dest])) silent"
  unfolding IncrementTime_def
  by (intro silent_increment assms performs_ends_same silent_commit)+

text \<open>The two halves of a relay, and a round of timeouts, between the accesses to the queues.\<close>

definition receive_phase :: "'a test_env \<Rightarrow> path_lib \<Rightarrow> side \<Rightarrow> Packet list \<Rightarrow> ('a, unit) path_op" where
  "receive_phase E L s ps =
     op_bind (IncrementTime E) (\<lambda>_.
     op_bind (with_ends s (\<lambda>src dest. CommitBlock E [Ep_Chain src])) (\<lambda>_.
     op_bind (UpdateClient E (counter s)) (\<lambda>_. op_each (RecvPacket E L (counter s)) ps)))"

definition acknowledge_phase :: "'a test_env \<Rightarrow> path_lib \<Rightarrow> side \<Rightarrow> PacketAck list \<Rightarrow> ('a, unit) path_op" where
  "acknowledge_phase E L s acks =
     op_bind (IncrementTime E) (\<lambda>_.
     op_bind (with_ends s (\<lambda>src dest. CommitBlock E [Ep_Chain dest])) (\<lambda>_.
     op_bind (UpdateClient E s) (\<lambda>_.
     op_each (\<lambda>ack. AcknowledgePacket E L s (Pa_Packet ack) (Pa_Ack ack)) acks)))"

definition timeout_phase :: "'a test_env \<Rightarrow> path_lib \<Rightarrow> side \<Rightarrow> Packet list \<Rightarrow> ('a, unit) path_op" where
  "timeout_phase E L s ps =
     op_bind (UpdateClient E s) (\<lambda>_.
     op_bind (IncrementTime E) (\<lambda>_.
     op_bind (with_ends s (\<lambda>src dest. CommitBlock E [Ep_Chain src, Ep_Chain dest])) (\<lambda>_.
     op_each (timeout_pending E L s) ps)))"

lemma relay_phases:
  "relay_from E L s =
     op_bind (pending_sends s) (\<lambda>toSend.
     op_bind (receive_phase E L s toSend) (\<lambda>_.
     op_bind (clear_sends s) (\<lambda>_.
     op_bind (pending_acks (counter s)) (\<lambda>toAck.
     op_bind (acknowledge_phase E L s toAck) (\<lambda>_.
     clear_acks (counter s))))))"
  by (simp only: relay_from_def receive_phase_def acknowledge_phase_def op_bind_assoc)

lemma timeout_phases:
  "timeout_from E L s =
     op_bind (pending_sends s) (\<lambda>toSend.
     op_bind (timeout_phase E L s toSend) (\<lambda>_.
     op_bind (clear_sends s) (\<lambda>_.
     clear_acks (counter s))))"
  by (simp only: timeout_from_def timeout_phase_def op_bind_assoc)

lemma concat_singles: "concat (map (\<lambda>x. [f x]) xs) = map f xs"
  by (induction xs) simp_all

lemma log_receives:
  assumes "history_laws E obs"
  shows "performs obs (receive_phase E L s ps) (\<lambda>n. receive_plan (n s) (n (counter s)) ps)"
proof -
  have each: "performs obs (op_each (RecvPacket E L (counter s)) ps)
      (\<lambda>n. concat (map (\<lambda>p. sends_one (counter s) (Receives p) n @ updates (counter (counter s)) n) ps))"
    by (rule performs_each) (rule log_packets [OF assms])
  show ?thesis
    unfolding receive_phase_def
    by (rule performs_plan, rule performs_after [OF log_time(1) [OF assms]], rule performs_after [OF log_time(2) [OF assms]],
        rule performs_bind [OF log_UpdateClient [OF assms] each])
      (cases s; simp add: receive_plan_def updates_def sends_one_def)
qed

lemma log_acknowledges:
  assumes "history_laws E obs"
  shows "performs obs (acknowledge_phase E L s acks) (\<lambda>n. acknowledge_plan (n s) acks)"
proof -
  have each: "performs obs (op_each (\<lambda>ack. AcknowledgePacket E L s (Pa_Packet ack) (Pa_Ack ack)) acks)
      (\<lambda>n. concat (map (\<lambda>k. sends_one s (Acknowledges (Pa_Packet k) (Pa_Ack k)) n) acks))"
    by (rule performs_each) (rule log_packets [OF assms])
  show ?thesis
    unfolding acknowledge_phase_def
    by (rule performs_plan, rule performs_after [OF log_time(1) [OF assms]],
        rule performs_after [OF log_commit_counter [OF assms]], rule performs_bind [OF log_UpdateClient [OF assms] each])
      (simp add: acknowledge_plan_def updates_def sends_one_def concat_singles)
qed

lemma log_timeouts:
  assumes "history_laws E obs"
  shows "performs obs (timeout_phase E L s ps) (\<lambda>n. timeout_plan (n s) ps)"
proof -
  have each: "performs obs (op_each (timeout_pending E L s) ps) (\<lambda>n. concat (map (\<lambda>p. sends_one s (TimesOut p) n) ps))"
    by (rule performs_each) (rule log_packets [OF assms])
  show ?thesis
    unfolding timeout_phase_def
    by (rule performs_plan, rule performs_bind [OF log_UpdateClient [OF assms]], rule performs_after [OF log_time(1) [OF assms]],
        rule performs_after [OF log_time(3) [OF assms] each])
      (simp add: timeout_plan_def updates_def sends_one_def concat_singles)
qed

section \<open>The relay on views\<close>

lemma op_bindE:
  assumes "op_bind m f s = (Ok b, t)"
  obtains a s' where "m s = (Ok a, s')" "f a s' = (Ok b, t)"
  using assms by (auto simp: op_bind_eq_Ok)

lemma relay_from_relays:
  assumes h: "history_laws E obs" and run: "relay_from E L s pn = (Ok (), pn')"
  shows "ends pn' = ends pn \<and> relays (ends pn s) (ends pn (counter s)) (net_view_of obs pn) (net_view_of obs pn')"
proof -
  obtain ps p0 p1 p2 acks p3 p4 where ps: "pending_sends s pn = (Ok ps, p0)"
    and r1: "receive_phase E L s ps p0 = (Ok (), p1)" and c1: "clear_sends s p1 = (Ok (), p2)"
    and acks: "pending_acks (counter s) p2 = (Ok acks, p3)"
    and r2: "acknowledge_phase E L s acks p3 = (Ok (), p4)" and c2: "clear_acks (counter s) p4 = (Ok (), pn')"
    using run unfolding relay_phases by (elim op_bindE) auto
  obtain vs where vs: "net_view_of obs pn (ends pn s) = Some vs" "cv_sends vs = ps" and p0: "p0 = pn"
    using pending_view(1) [OF ps] by blast
  obtain l1 where l1: "ends p1 = ends pn" "briefs l1 = receive_plan (ends pn s) (ends pn (counter s)) ps"
    "net_view_of obs p1 = run_log l1 (net_view_of obs pn)"
    by (rule performsD [OF log_receives [OF h] r1]) (simp add: p0)
  note c1 = clear_view(1) [OF c1, of obs]
  obtain vd where vd: "net_view_of obs p2 (ends p2 (counter s)) = Some vd" "cv_acks vd = acks" and p3: "p3 = p2"
    using pending_view(2) [OF acks] by blast
  obtain l2 where l2: "ends p4 = ends p2" "briefs l2 = acknowledge_plan (ends p2 s) acks"
    "net_view_of obs p4 = run_log l2 (net_view_of obs p2)"
    by (rule performsD [OF log_acknowledges [OF h] r2]) (simp add: p3)
  note c2 = clear_view(2) [OF c2, of obs]
  have "ends p2 = ends pn" using l1(1) c1 by simp
  then show ?thesis
    unfolding relays_def Let_def using vs l1 c1 vd l2 c2
    by (intro conjI exI [of _ vs] exI [of _ vd] exI [of _ l1] exI [of _ l2]) simp_all
qed

lemma timeout_from_times_out:
  assumes h: "history_laws E obs" and run: "timeout_from E L s pn = (Ok (), pn')"
  shows "ends pn' = ends pn \<and> times_out (ends pn s) (ends pn (counter s)) (net_view_of obs pn) (net_view_of obs pn')"
proof -
  obtain ps p0 p1 p2 where ps: "pending_sends s pn = (Ok ps, p0)"
    and r1: "timeout_phase E L s ps p0 = (Ok (), p1)"
    and c1: "clear_sends s p1 = (Ok (), p2)" and c2: "clear_acks (counter s) p2 = (Ok (), pn')"
    using run unfolding timeout_phases by (elim op_bindE) auto
  obtain vs where vs: "net_view_of obs pn (ends pn s) = Some vs" "cv_sends vs = ps" and p0: "p0 = pn"
    using pending_view(1) [OF ps] by blast
  obtain l where l: "ends p1 = ends pn" "briefs l = timeout_plan (ends pn s) ps"
    "net_view_of obs p1 = run_log l (net_view_of obs pn)"
    by (rule performsD [OF log_timeouts [OF h] r1]) (simp add: p0)
  show ?thesis
    unfolding times_out_def using vs l clear_view(1) [OF c1, of obs] clear_view(2) [OF c2, of obs]
    by (intro conjI exI [of _ vs] exI [of _ l]) simp_all
qed

end
