(* ===== verification/Test_Relay_Props.thy ===== *)
theory Test_Relay_Props
  imports Test_Relay
begin

text \<open>
  What the relay of the test framework achieves, by the transactions each chain delivers: every pending packet is received
  once, every acknowledgement is delivered once, timeouts empty the queues, and the relay returns.
\<close>

section \<open>Logs by chain\<close>

definition entries :: "string \<Rightarrow> log \<Rightarrow> delivery list" where
  "entries cid l = map snd (filter (\<lambda>e. fst e = cid) l)"

definition plan_of :: "string \<Rightarrow> (string \<times> brief list) list \<Rightarrow> brief list list" where
  "plan_of cid bs = map snd (filter (\<lambda>e. fst e = cid) bs)"

definition brief_of :: "delivery list \<Rightarrow> brief list list" where
  "brief_of ds = map (\<lambda>d. map brief_msg (fst d)) ds"

lemma brief_entries: "brief_of (entries cid l) = plan_of cid (briefs l)"
  by (induction l) (auto simp: brief_of_def entries_def plan_of_def briefs_def)

lemma brief_of_simps [simp]: "brief_of [] = []" "brief_of (ds @ es) = brief_of ds @ brief_of es"
  "brief_of ds = [] \<longleftrightarrow> ds = []" "length (brief_of ds) = length ds"
  by (simp_all add: brief_of_def)

lemma fold_after_delivery:
  "fold after_delivery ds v =
     \<lparr>cv_history = cv_history v @ ds, cv_sends = cv_sends v @ concat (map (\<lambda>d. read_sends (snd d)) ds),
      cv_acks = cv_acks v @ concat (map (\<lambda>d. read_acks (snd d)) ds), cv_sequence = cv_sequence v + of_nat (length ds)\<rparr>"
  by (induction ds arbitrary: v) (simp_all add: after_delivery_def add.assoc)

lemma run_log_at: "run_log l v cid = map_option (fold after_delivery (entries cid l)) (v cid)"
proof (induction l arbitrary: v)
  case (Cons e l)
  obtain c d where e: "e = (c, d)" by (cases e)
  have "run_log (e # l) v = run_log l (on_view c (after_delivery d) v)" by (simp add: run_log_def e)
  then show ?case
    using Cons.IH by (cases "v cid") (auto simp: e on_view_def entries_def)
qed (simp add: entries_def option.map_id0)

lemma on_view_at: "on_view c f v cid = (if cid = c then map_option f (v cid) else v cid)"
  by (simp add: on_view_def)

lemma plan_of_receives:
  assumes "a \<noteq> b"
  shows "plan_of b (receive_plan a b ps) = [Plain ''MsgUpdateClient''] # map (\<lambda>p. [Receives p]) ps"
    and "plan_of a (receive_plan a b ps) = replicate (length ps) [Plain ''MsgUpdateClient'']"
    and "c \<noteq> a \<Longrightarrow> c \<noteq> b \<Longrightarrow> plan_of c (receive_plan a b ps) = []"
proof -
  have "plan_of c (concat (map (\<lambda>p. [(b, [Receives p]), (a, [Plain ''MsgUpdateClient''])]) ps)) =
      (if c = a then replicate (length ps) [Plain ''MsgUpdateClient''] else if c = b then map (\<lambda>p. [Receives p]) ps else [])"
    for c using assms by (induction ps) (auto simp: plan_of_def)
  then show "plan_of b (receive_plan a b ps) = [Plain ''MsgUpdateClient''] # map (\<lambda>p. [Receives p]) ps"
    "plan_of a (receive_plan a b ps) = replicate (length ps) [Plain ''MsgUpdateClient'']"
    "c \<noteq> a \<Longrightarrow> c \<noteq> b \<Longrightarrow> plan_of c (receive_plan a b ps) = []"
    using assms by (auto simp: receive_plan_def plan_of_def)
qed

lemma plan_of_acknowledges:
  "plan_of a (acknowledge_plan a acks) =
     [Plain ''MsgUpdateClient''] # map (\<lambda>k. [Acknowledges (Pa_Packet k) (Pa_Ack k)]) acks"
  "c \<noteq> a \<Longrightarrow> plan_of c (acknowledge_plan a acks) = []"
  by (induction acks) (auto simp: acknowledge_plan_def plan_of_def)

lemma plan_of_timeouts:
  "plan_of a (timeout_plan a ps) = [Plain ''MsgUpdateClient''] # map (\<lambda>p. [TimesOut p]) ps"
  "c \<noteq> a \<Longrightarrow> plan_of c (timeout_plan a ps) = []"
  by (induction ps) (auto simp: timeout_plan_def plan_of_def)

section \<open>What a relay achieves\<close>

lemma relays_by_chain:
  assumes "relays a b v v'" "a \<noteq> b"
  shows "\<exists>va vb va' vb' new_a new_b.
     v a = Some va \<and> v b = Some vb \<and> v' a = Some va' \<and> v' b = Some vb' \<and>
     cv_history vb' = cv_history vb @ new_b \<and>
     brief_of new_b = [Plain ''MsgUpdateClient''] # map (\<lambda>p. [Receives p]) (cv_sends va) \<and>
     cv_history va' = cv_history va @ new_a \<and>
     brief_of new_a = replicate (length (cv_sends va) + 1) [Plain ''MsgUpdateClient''] @
       map (\<lambda>k. [Acknowledges (Pa_Packet k) (Pa_Ack k)])
         (cv_acks vb @ concat (map (\<lambda>d. read_acks (snd d)) new_b)) \<and>
     cv_acks vb' = [] \<and>
     cv_sends va' = concat (map (\<lambda>d. read_sends (snd d)) (drop (length (cv_sends va)) new_a)) \<and>
     cv_sequence va' = cv_sequence va + of_nat (length new_a) \<and>
     cv_sequence vb' = cv_sequence vb + of_nat (length new_b) \<and>
     (\<forall>c. c \<noteq> a \<and> c \<noteq> b \<longrightarrow> v' c = v c)"
proof -
  obtain va vd l1 l2 where va: "v a = Some va" and vd: "on_view a drop_sends (run_log l1 v) b = Some vd"
    and l1: "briefs l1 = receive_plan a b (cv_sends va)" and l2: "briefs l2 = acknowledge_plan a (cv_acks vd)"
    and v': "v' = on_view b drop_acks (run_log l2 (on_view a drop_sends (run_log l1 v)))"
    using assms(1) unfolding relays_def Let_def by blast
  obtain vb where vb: "v b = Some vb" and vd': "vd = fold after_delivery (entries b l1) vb"
    using vd assms(2) by (auto simp: on_view_at run_log_at split: if_splits)
  define new_b where "new_b = entries b l1"
  define new_a where "new_a = entries a l1 @ entries a l2"
  have b1: "brief_of new_b = [Plain ''MsgUpdateClient''] # map (\<lambda>p. [Receives p]) (cv_sends va)"
    using plan_of_receives(1) [OF assms(2)] by (simp add: new_b_def brief_entries l1)
  have b2: "entries b l2 = []"
    using plan_of_acknowledges(2) [of b a] assms(2) brief_entries [of b l2] by (simp add: l2)
  have a1: "brief_of (entries a l1) = replicate (length (cv_sends va)) [Plain ''MsgUpdateClient'']"
    using plan_of_receives(2) [OF assms(2)] by (simp add: brief_entries l1)
  have a2: "brief_of (entries a l2) = [Plain ''MsgUpdateClient''] # map (\<lambda>k. [Acknowledges (Pa_Packet k) (Pa_Ack k)]) (cv_acks vd)"
    using plan_of_acknowledges(1) by (simp add: brief_entries l2)
  have acks: "cv_acks vd = cv_acks vb @ concat (map (\<lambda>d. read_acks (snd d)) new_b)"
    by (simp add: vd' fold_after_delivery new_b_def)
  have len: "length (entries a l1) = length (cv_sends va)" using arg_cong [OF a1, of length] by simp
  have others: "v' c = v c" if "c \<noteq> a" "c \<noteq> b" for c
  proof -
    have "entries c l1 = []" "entries c l2 = []"
      using plan_of_receives(3) [OF assms(2) that] plan_of_acknowledges(2) [OF that(1)] brief_entries [of c]
      by (metis brief_of_simps(3) l1 l2)+
    then show ?thesis using that by (simp add: v' on_view_at run_log_at option.map_id0)
  qed
  have va': "v' a = Some (fold after_delivery (entries a l2) (drop_sends (fold after_delivery (entries a l1) va)))"
    using assms(2) by (simp add: v' on_view_at run_log_at va)
  have vb': "v' b = Some (drop_acks vd)"
    using assms(2) by (simp add: v' on_view_at run_log_at vb vd' b2)
  define va' where "va' = fold after_delivery (entries a l2) (drop_sends (fold after_delivery (entries a l1) va))"
  have new_a: "brief_of new_a = replicate (length (cv_sends va) + 1) [Plain ''MsgUpdateClient''] @
       map (\<lambda>k. [Acknowledges (Pa_Packet k) (Pa_Ack k)]) (cv_acks vd)"
    by (simp add: new_a_def a1 a2 replicate_app_Cons_same)
  have drop: "entries a l2 = drop (length (cv_sends va)) new_a" by (simp add: new_a_def len)
  have "cv_history va' = cv_history va @ new_a \<and>
      cv_sends va' = concat (map (\<lambda>d. read_sends (snd d)) (drop (length (cv_sends va)) new_a)) \<and>
      cv_sequence va' = cv_sequence va + of_nat (length new_a)"
    unfolding drop [symmetric] by (simp add: va'_def fold_after_delivery drop_sends_def new_a_def)
  moreover have "cv_history (drop_acks vd) = cv_history vb @ new_b \<and> cv_acks (drop_acks vd) = [] \<and>
      cv_sequence (drop_acks vd) = cv_sequence vb + of_nat (length new_b)"
    by (simp add: vd' drop_acks_def fold_after_delivery new_b_def)
  moreover have "v' a = Some va'" using va' by (simp add: va'_def)
  ultimately show ?thesis
    using va vb vb' b1 new_a [unfolded acks] others
    by (intro exI [of _ va] exI [of _ vb] exI [of _ va'] exI [of _ "drop_acks vd"] exI [of _ new_a] exI [of _ new_b]) simp
qed

lemma times_out_by_chain:
  assumes "times_out a b v v'" "a \<noteq> b"
  shows "\<exists>va va' new_a.
     v a = Some va \<and> v' a = Some va' \<and>
     cv_history va' = cv_history va @ new_a \<and>
     brief_of new_a = [Plain ''MsgUpdateClient''] # map (\<lambda>p. [TimesOut p]) (cv_sends va) \<and>
     cv_sends va' = [] \<and> v' b = map_option drop_acks (v b) \<and> (\<forall>c. c \<noteq> a \<and> c \<noteq> b \<longrightarrow> v' c = v c)"
proof -
  obtain va l where va: "v a = Some va" and l: "briefs l = timeout_plan a (cv_sends va)"
    and v': "v' = on_view b drop_acks (on_view a drop_sends (run_log l v))"
    using assms(1) unfolding times_out_def by blast
  have others: "entries c l = []" if "c \<noteq> a" for c
    using plan_of_timeouts(2) [OF that] brief_entries [of c l] by (simp add: l)
  have "brief_of (entries a l) = [Plain ''MsgUpdateClient''] # map (\<lambda>p. [TimesOut p]) (cv_sends va)"
    using plan_of_timeouts(1) by (simp add: brief_entries l)
  then show ?thesis
    using assms(2) others
    by (intro exI [of _ va] exI [of _ "drop_sends (fold after_delivery (entries a l) va)"] exI [of _ "entries a l"])
      (simp add: v' va on_view_at run_log_at fold_after_delivery drop_sends_def option.map_id0)
qed

text \<open>
  Two consequences the code does not mention: a round of timeouts throws the acknowledgements that wait on the
  destination away, and packets the source sends while its packets are received are not relayed later.
\<close>

lemma timeouts_discard_acks:
  assumes "times_out a b v v'" "a \<noteq> b" "v b = Some vb"
  shows "\<exists>vb'. v' b = Some vb' \<and> cv_history vb' = cv_history vb \<and> cv_acks vb' = []"
  using times_out_by_chain [OF assms(1,2)] assms(3) by (auto simp: drop_acks_def)

text \<open>
  C19: When the relay returns, every packet that waited on the sending chain has been received once on the other, in the
  order of the queue, after the client there was updated. Every acknowledgement that waited there or was written by these
  transactions has then been delivered once to the sending chain, in order. No acknowledgement is left, what is left of the
  packets are those sent by the second half, the sequences count the transactions, and other chains deliver nothing.
\<close>

theorem relay_delivers:
  assumes "history_laws E obs" "Ep_Chain (Pn_EndpointA pn) = a" "Ep_Chain (Pn_EndpointB pn) = b" "a \<noteq> b"
    and "RelayAndAckPendingPackets E L pn = (Ok (), pn')"
  shows "\<exists>va vb va' vb' new_a new_b.
     net_view_of obs pn a = Some va \<and> net_view_of obs pn b = Some vb \<and>
     net_view_of obs pn' a = Some va' \<and> net_view_of obs pn' b = Some vb' \<and>
     cv_history vb' = cv_history vb @ new_b \<and>
     brief_of new_b = [Plain ''MsgUpdateClient''] # map (\<lambda>p. [Receives p]) (cv_sends va) \<and>
     cv_history va' = cv_history va @ new_a \<and>
     brief_of new_a = replicate (length (cv_sends va) + 1) [Plain ''MsgUpdateClient''] @
       map (\<lambda>k. [Acknowledges (Pa_Packet k) (Pa_Ack k)])
         (cv_acks vb @ concat (map (\<lambda>d. read_acks (snd d)) new_b)) \<and>
     cv_acks vb' = [] \<and>
     cv_sends va' = concat (map (\<lambda>d. read_sends (snd d)) (drop (length (cv_sends va)) new_a)) \<and>
     cv_sequence va' = cv_sequence va + of_nat (length new_a) \<and>
     cv_sequence vb' = cv_sequence vb + of_nat (length new_b) \<and>
     (\<forall>c. c \<noteq> a \<and> c \<noteq> b \<longrightarrow> net_view_of obs pn' c = net_view_of obs pn c)"
proof -
  have "relays a b (net_view_of obs pn) (net_view_of obs pn')"
    using relay_from_relays [OF assms(1), of L EA pn pn'] assms(2,3,5) by (simp add: relay_directions(1) ends_def)
  then show ?thesis by (rule relays_by_chain [OF _ assms(4)])
qed


section \<open>The reference framework\<close>

text \<open>A packet waits on the first chain of the path, an acknowledgement on the second.\<close>

definition ref_header :: TmHeader where
  "ref_header =
     \<lparr>Tmh_Header = empty_header, Tmh_Commit = ''commit'', Tmh_ValidatorSet = ''vals'', Tmh_TrustedHeight = ZeroHeight,
      Tmh_TrustedValidators = None\<rparr>"

definition ref_chain :: "string \<Rightarrow> ref_app TestChain" where
  "ref_chain cid = (new_chain ref_env (ref_keys 0) 0 cid)\<lparr>Tc_LastHeader := Some ref_header\<rparr>"

definition ref_waiting :: "ref_app path_net" where
  "ref_waiting =
     NewPath ref_path (ref_chain ''A'') (ref_chain ''B'')
       \<lparr>Co_CurrentTime = 0, Co_Chains = [''A'', ''B''], Co_CodeID = [],
        Co_heap =
          [''A'' \<mapsto> (ref_chain ''A'')\<lparr>Tc_PendingSendPackets := [ex_relayed]\<rparr>,
           ''B'' \<mapsto> (ref_chain ''B'')\<lparr>Tc_PendingAckPackets := [\<lparr>Pa_Packet = ex_relayed, Pa_Ack = ''ok''\<rparr>]\<rparr>]\<rparr>"

lemma ref_history_laws: "history_laws ref_env ra_history"
  by (simp add: history_laws_def ref_env_simps Let_def)

lemma ref_readable: "readable (ref_events msgs)"
proof -
  have "list_all2 tells (map ref_event xs) xs" for xs
    by (simp add: list_all2_conv_all_nth ref_event_tells)
  from read_back [OF this] show ?thesis by (simp add: readable_def ref_events_def)
qed

lemma ref_accepting: "accepting ref_env (\<lambda>_. True) K"
  by (auto simp: accepting_def accepting_app_def app_keeps_def keeps_def ref_env_simps Let_def ref_readable)

lemma ref_ends:
  "Ep_Chain (Pn_EndpointA ref_waiting) = ''A''" "Ep_Chain (Pn_EndpointB ref_waiting) = ''B''"
  by (simp_all add: ref_waiting_def NewPath_def Coordinator.defs NewDefaultEndpoint_def ref_chain_def new_chain_def Let_def)

lemma ref_relay_net:
  "relay_net ref_env (\<lambda>_. True) {[]} {''A'', ''B''} (Pn_EndpointA ref_waiting) (Pn_EndpointB ref_waiting)"
  by (simp add: relay_net_def ref_accepting relay_end_def ref_ends)
    (simp add: ref_waiting_def NewPath_def Coordinator.defs NewDefaultEndpoint_def ref_path_def tm_client_config_def
      GetClientType_def)

lemma ref_net_ready:
  "net_ready (\<lambda>_. True) {''A'', ''B''} (Pn_EndpointA ref_waiting) (Pn_EndpointB ref_waiting) ref_waiting"
  by (simp add: net_ready_def chain_ready_def)
    (simp add: ref_waiting_def NewPath_def Coordinator.defs ref_chain_def)

lemma ref_view:
  "net_view_of ra_history ref_waiting ''A'' =
     Some \<lparr>cv_history = [], cv_sends = [ex_relayed], cv_acks = [], cv_sequence = 0\<rparr>"
  "net_view_of ra_history ref_waiting ''B'' =
     Some \<lparr>cv_history = [], cv_sends = [], cv_acks = [\<lparr>Pa_Packet = ex_relayed, Pa_Ack = ''ok''\<rparr>], cv_sequence = 0\<rparr>"
  by (simp_all add: net_view_of_def view_of_def ref_waiting_def NewPath_def Coordinator.defs ref_chain_def new_chain_def
      ref_env_simps Let_def)


lemma relay_delivers_witness:
  "\<exists>pn. RelayAndAckPendingPackets ref_env ref_path ref_waiting = (Ok (), pn) \<and>
     (\<exists>v. net_view_of ra_history pn ''B'' = Some v \<and> cv_acks v = [] \<and>
        brief_of (cv_history v) = [[Plain ''MsgUpdateClient''], [Receives ex_relayed]])"
proof -
  obtain pn where run: "RelayAndAckPendingPackets ref_env ref_path ref_waiting = (Ok (), pn)"
    using worksD [OF relays_work(1) [OF ref_relay_net] ref_net_ready, of ref_path] by auto
  have "''A'' \<noteq> ''B''" by simp
  from relay_delivers [OF ref_history_laws ref_ends this run] run show ?thesis
    by (auto simp: ref_view)
qed

end
