(* ===== verification/Test_Props.thy ===== *)
theory Test_Props
  imports Test_Relay_Props
begin

text \<open>
  Properties of whole tests: consecutive blocks, one clock, the order of the handshakes, and what a transaction that is
  expected to fail leaves behind.
\<close>

section \<open>Blocks and clocks\<close>

text \<open>
  C22: From the construction of the coordinator on, after any list of calls that does not end the test, the header of the
  current block of every chain has the height after the one its application has committed last, so no block is begun with
  a height the application refuses.
\<close>

theorem blocks_are_consecutive:
  assumes "height_laws E" "NewCoordinator E keys n = (Ok (), co)"
    and "run_script E L calls (NewPath L a b co) = (r, pn)" "r \<noteq> Panic" "Co_heap pn cid = Some chain"
  shows "Hd_Height (Tc_CurrentHeader chain) = te_LastBlockHeight E (Tc_App chain) + 1"
proof -
  have "all_chains (numbered E) (NewPath L a b co)"
    using NewCoordinator_numbered(1) [OF assms(2)] by (simp add: NewPath_frame)
  from safeD [OF heights.script this assms(3,4)] assms(1,5) show ?thesis
    by (simp add: all_chains_def numbered_def next_height_def)
qed

lemma blocks_are_consecutive_witness:
  "\<exists>chain. Co_heap (snd (run_script ref_env ref_path [Call_IncrementTime 7] ref_net)) ''testchain1'' = Some chain \<and>
     Hd_Height (Tc_CurrentHeader chain) = te_LastBlockHeight ref_env (Tc_App chain) + 1"
proof -
  let ?run = "run_script ref_env ref_path [Call_IncrementTime 7] ref_net"
  have ok: "fst ?run = Ok ()" by code_simp
  have "Co_heap (snd ?run) ''testchain1'' \<noteq> None" by code_simp
  then obtain chain where chain: "Co_heap (snd ?run) ''testchain1'' = Some chain" by blast
  have "?run = (Ok (), snd ?run)" using ok by (simp add: prod_eq_iff)
  from blocks_are_consecutive [OF ref_height_laws ref_coordinator_made this [unfolded ref_net_def] _ chain [unfolded ref_net_def]]
  show ?thesis using chain by simp
qed

text \<open>The chains a coordinator knows do not change.\<close>

lemma safe_members_on_chain: "safe (\<lambda>pn. Co_Chains pn = cids) (on_chain cid m)"
  by (auto simp: safe_def on_chain_def split: option.split prod.split)

lemma safe_members_time: "safe (\<lambda>pn. Co_Chains pn = cids) (UpdateTimeForChain E cid)"
  by (auto simp: safe_def UpdateTimeForChain_def on_chain_def split: option.split prod.split)

interpretation members: net_invariant E "\<lambda>pn :: 'a path_net. Co_Chains pn = cids" for E :: "'a test_env" and cids
proof unfold_locales
  show time: "safe (\<lambda>pn. Co_Chains pn = cids) (IncrementTimeBy E d)" for d
    by (rule safeI) (simp add: IncrementTimeBy_syncs)
  show "safe (\<lambda>pn. Co_Chains pn = cids) (SendMsgs E cid msgs)" for cid msgs
    unfolding SendMsgs_def IncrementTime_def
    by (intro safe_intros safe_members_time safe_members_on_chain time)
  show "safe (\<lambda>pn. Co_Chains pn = cids) (commit_and_next E cid)" for cid
    unfolding commit_and_next_def by (intro safe_intros safe_members_on_chain)
  show "Co_Chains (upd_ep s f pn) = cids" if "Co_Chains pn = cids" for s f and pn :: "'a path_net"
    using that by (cases s) simp_all
qed (rule safe_members_on_chain)+

text \<open>
  Once the time has been moved after the construction, every chain of the coordinator has the time of the coordinator
  in the header of its current block, after any list of calls that does not end the test.
\<close>

lemma chains_share_clock:
  assumes "NewCoordinator E keys n = (Ok (), co)"
    and "run_script E L (Call_IncrementTime d # calls) (NewPath L a b co) = (r, pn)" "r \<noteq> Panic" "i < n"
  shows "\<exists>chain. Co_heap pn (GetChainID i) = Some chain \<and> Hd_Time (Tc_CurrentHeader chain) = Co_CurrentTime pn"
proof -
  have first: "Co_Chains (NewPath L a b co) = map GetChainID [0..<n]"
    using NewCoordinator_numbered(2) [OF assms(1)] by (simp add: NewPath_frame)
  obtain r1 p1 where p1: "IncrementTimeBy E d (NewPath L a b co) = (r1, p1)" by fastforce
  have "r1 \<noteq> Panic" using assms(2,3) p1 by (auto simp: run_script_def)
  with never_errsD [OF never_errs_time(2) p1] have ok: "r1 = Ok ()" by auto
  have rest: "run_script E L calls p1 = (r, pn)"
    using assms(2) p1 ok by (simp add: run_script_def)
  have "in_sync p1 \<and> Co_Chains p1 = map GetChainID [0..<n]"
    using IncrementTimeBy_syncs [OF p1] ok first by simp
  then have "in_sync pn" "Co_Chains pn = map GetChainID [0..<n]"
    using safeD [OF clocks.script _ rest assms(3)] safeD [OF members.script _ rest assms(3)] by blast+
  then show ?thesis using assms(4) by (auto simp: in_sync_def)
qed

lemma chains_share_clock_witness:
  "\<exists>chain. Co_heap (snd (run_script ref_env ref_path [Call_IncrementTime 7] ref_net)) (GetChainID 1) = Some chain \<and>
     Hd_Time (Tc_CurrentHeader chain) = Co_CurrentTime (snd (run_script ref_env ref_path [Call_IncrementTime 7] ref_net))"
proof -
  let ?run = "run_script ref_env ref_path [Call_IncrementTime 7] ref_net"
  have "fst ?run = Ok ()" by code_simp
  then have "?run = (Ok (), snd ?run)" by (simp add: prod_eq_iff)
  from chains_share_clock [OF ref_coordinator_made this [unfolded ref_net_def], of 1] show ?thesis
    by (simp add: ref_net_def)
qed

text \<open>
  Before that, they do not: the coordinator moves its clock while it makes the chains, but knows none of them yet, so the
  chain made first is behind by five seconds for every chain.
\<close>

lemma op_each_snoc: "op_each f (xs @ [x]) s = op_bind (op_each f xs) (\<lambda>_. f x) s"
proof (induction xs arbitrary: s)
  case (Cons y ys)
  then show ?case by (simp add: op_bind_def split: prod.split res.split)
qed (simp add: op_bind_def split: prod.split res.split)

lemma GetChainID_inj: "GetChainID i = GetChainID j \<longleftrightarrow> i = j"
  unfolding GetChainID_def by (metis digits_val_show_nat option.inject same_append_eq)

lemma NewTestChain_time:
  assumes "NewTestChain E k cid co = (Ok (), co')" "Co_Chains co = []"
  shows "Co_Chains co' = [] \<and> Co_CurrentTime co' = Co_CurrentTime co + TimeIncrement \<and>
         (\<exists>chain. Co_heap co' = (Co_heap co)(cid \<mapsto> chain) \<and> Hd_Time (Tc_CurrentHeader chain) = Co_CurrentTime co)"
proof -
  define start where "start = co\<lparr>Co_heap := (Co_heap co)(cid \<mapsto> new_chain E k (Co_CurrentTime co) cid)\<rparr>"
  have "CommitBlock E [cid] start = (Ok (), co')" using assms(1) by (simp add: NewTestChain_def start_def)
  then obtain co1 where b: "commit_and_next E cid start = (Ok (), co1)" and t: "IncrementTime E co1 = (Ok (), co')"
    by (auto simp: CommitBlock_def op_bind_def split: prod.splits res.splits)
  obtain c c' where c: "Co_heap start cid = Some c" "op_bind (chain_Commit E) (\<lambda>_. NextBlock E) c = (Ok (), c')"
    and co1: "co1 = start\<lparr>Co_heap := (Co_heap start)(cid \<mapsto> c')\<rparr>"
    using on_chain_lift [OF b [unfolded commit_and_next_def on_chain_bind]] by auto
  have "keeps_time (op_bind (chain_Commit E) (\<lambda>_. NextBlock E))"
    by (intro keeps_time_bind keeps_time_steps)
  then have "Hd_Time (Tc_CurrentHeader c') = Hd_Time (Tc_CurrentHeader c)"
    using c(2) unfolding keeps_time_def by (metis snd_conv)
  also have "\<dots> = Co_CurrentTime co" using c(1) by (auto simp: start_def new_chain_def Let_def)
  finally have time: "Hd_Time (Tc_CurrentHeader c') = Co_CurrentTime co" .
  have "co' = co1\<lparr>Co_CurrentTime := Co_CurrentTime co1 + TimeIncrement\<rparr>"
    using t assms(2) by (simp add: IncrementTime_def IncrementTimeBy_def UpdateTime_def co1 start_def)
  then show ?thesis using assms(2) time by (auto simp: co1 start_def)
qed

lemma new_chains_behind:
  assumes "NewCoordinator E keys n = (Ok (), co)"
  shows "Co_CurrentTime co = globalStartTime + int n * TimeIncrement" and
    "i < n \<Longrightarrow> \<exists>chain. Co_heap co (GetChainID i) = Some chain \<and>
        Hd_Time (Tc_CurrentHeader chain) = globalStartTime + int i * TimeIncrement"
proof -
  define start :: "'a Coordinator" where
    "start = \<lparr>Co_CurrentTime = globalStartTime, Co_Chains = [], Co_CodeID = [], Co_heap = (\<lambda>_. None)\<rparr>"
  let ?make = "\<lambda>i. NewTestChain E (keys i) (GetChainID i)"
  have made: "Co_Chains c = [] \<and> Co_CurrentTime c = globalStartTime + int m * TimeIncrement \<and>
      (\<forall>i < m. \<exists>chain. Co_heap c (GetChainID i) = Some chain \<and>
         Hd_Time (Tc_CurrentHeader chain) = globalStartTime + int i * TimeIncrement)"
    if "op_each ?make [0..<m] start = (Ok (), c)" for m c
    using that
  proof (induction m arbitrary: c)
    case (Suc m)
    then obtain c1 where c1: "op_each ?make [0..<m] start = (Ok (), c1)" and last: "?make m c1 = (Ok (), c)"
      by (auto simp: op_each_snoc op_bind_eq_Ok)
    note IH = Suc.IH [OF c1]
    then have "Co_Chains c1 = []" by blast
    from NewTestChain_time [OF last this] IH show ?case
      by (auto simp: less_Suc_eq algebra_simps GetChainID_inj)
  qed (simp add: start_def)
  obtain co1 where run: "op_each ?make [0..<n] start = (Ok (), co1)" and co: "co = co1\<lparr>Co_Chains := map GetChainID [0..<n]\<rparr>"
    using assms by (auto simp: NewCoordinator_def op_bind_eq_Ok start_def Let_def)
  show "Co_CurrentTime co = globalStartTime + int n * TimeIncrement"
    "i < n \<Longrightarrow> \<exists>chain. Co_heap co (GetChainID i) = Some chain \<and>
        Hd_Time (Tc_CurrentHeader chain) = globalStartTime + int i * TimeIncrement"
    using made [OF run] by (simp_all add: co)
qed

section \<open>Handshakes\<close>

text \<open>
  A set-up that returns has run the transactions of the two clients, of the connection and of the channel in the order
  of the IBC handshakes, each step that needs a proof after an update of the client, and nothing else on any chain.
\<close>

lemma setup_handshake_order:
  assumes "history_laws E obs" "Setup E L pn = (Ok (), pn')"
  shows "\<exists>log. briefs log = setup_plan (Ep_Chain (Pn_EndpointA pn)) (Ep_Chain (Pn_EndpointB pn)) \<and>
     net_view_of obs pn' = run_log log (net_view_of obs pn)"
  using performsD [OF log_Setup [OF assms(1)] assms(2)] by (auto simp: ends_def)

section \<open>Failed transactions\<close>

lemma failed_delivery_commits:
  assumes laws: "height_laws E" and run: "SignAndDeliver E header msgs ch nums seqs False priv a = (Err e, a')"
  shows "te_LastBlockHeight E a' = te_LastBlockHeight E a + 1"
proof -
  define tx where "tx =
    \<lparr>Tx_Msgs = msgs, Tx_FeeAmt = [\<lparr>Coin_Denom = ''stake'', Coin_Amount = 0\<rparr>], Tx_Gas = 2 * DefaultGas,
     Tx_ChainID = ch, Tx_AccNums = nums, Tx_AccSeqs = seqs, Tx_Priv = priv\<rparr>"
  obtain a1 a2 where b: "run_BeginBlock E header a = (Ok (), a1)"
    and d: "te_SimDeliver E tx a1 = (Err e, a2)" and a': "a' = te_Commit E (te_EndBlock E a2)"
    using run by (auto simp: SignAndDeliver_def Let_def tx_def split: prod.splits res.splits if_splits)
  have "te_LastBlockHeight E a1 = te_LastBlockHeight E a"
    using laws b unfolding height_laws_def run_BeginBlock_def op_must_eq_Ok by (metis snd_conv)
  moreover have "te_LastBlockHeight E a2 = te_LastBlockHeight E a1"
    using laws d unfolding height_laws_def by (metis snd_conv)
  ultimately show ?thesis using laws by (simp add: a' height_laws_def)
qed

text \<open>
  A transaction that is expected to fail, and does, is committed in a block of its own, but neither the header nor the
  sequence of the chain moves: the current header has the height of the block that is already committed, so the test has to
  begin the next block itself. Its queues and its last header stay as they were.
\<close>

lemma failed_transaction_stops_header:
  assumes "height_laws E" "Co_heap co cid = Some chain" "next_height E chain"
    and "SendMsgsWithExpPass E False cid msgs co = (Err e, co')"
  shows "\<exists>chain'. Co_heap co' cid = Some chain' \<and>
     te_LastBlockHeight E (Tc_App chain') = te_LastBlockHeight E (Tc_App chain) + 1 \<and>
     Hd_Height (Tc_CurrentHeader chain') = te_LastBlockHeight E (Tc_App chain') \<and>
     Tc_SenderAccount chain' = Tc_SenderAccount chain \<and> Tc_LastHeader chain' = Tc_LastHeader chain \<and>
     Tc_PendingSendPackets chain' = Tc_PendingSendPackets chain \<and> Tc_PendingAckPackets chain' = Tc_PendingAckPackets chain"
proof -
  let ?g = "te_LastBlockHeight E"
  obtain co1 where t: "UpdateTimeForChain E cid co = (Ok (), co1)"
    and rest: "op_bind (on_chain cid (sign_and_deliver E False msgs)) (\<lambda>r. op_bind (on_chain cid (NextBlock E)) (\<lambda>_.
      op_bind (on_chain cid increment_sequence) (\<lambda>_. op_bind (IncrementTime E) (\<lambda>_.
      op_bind (on_chain cid (captureIBCEvents r)) (\<lambda>_. op_lift (Ok r)))))) co1 = (Err e, co')"
    using assms(4) never_errs_not [OF never_errs_time(1), of E cid co]
    by (auto simp: SendMsgsWithExpPass_def op_bind_def [of "UpdateTimeForChain E cid"] split: prod.splits res.splits)
  have later: "never_errs (op_bind (on_chain cid (NextBlock E)) (\<lambda>_.
      op_bind (on_chain cid increment_sequence) (\<lambda>_. op_bind (IncrementTime E) (\<lambda>_.
      op_bind (on_chain cid (captureIBCEvents r)) (\<lambda>_. op_lift (Ok r))))))" for r
    unfolding IncrementTime_def
    by (intro never_errs_bind never_errs_on_chain never_errs_NextBlock never_errs_capture never_errs_time)
      (simp add: never_errs_def op_lift_def)
  have s: "on_chain cid (sign_and_deliver E False msgs) co1 = (Err e, co')"
    using rest never_errs_not [OF later] by (auto simp: op_bind_def [of "on_chain cid (sign_and_deliver E False msgs)"] split: prod.splits res.splits)
  obtain c1 where c1: "Co_heap co1 cid = Some c1" "chain_BeginBlock E (set_time (Co_CurrentTime co) chain) = (Ok (), c1)"
    using on_chain_lift [OF t [unfolded UpdateTimeForChain_def]] assms(2) by auto
  obtain c2 where c2: "sign_and_deliver E False msgs c1 = (Err e, c2)" "Co_heap co' cid = Some c2"
    using on_chain_lift [OF s] c1(1) by auto
  have one: "?g (Tc_App c1) = ?g (Tc_App chain) \<and> Hd_Height (Tc_CurrentHeader c1) = Hd_Height (Tc_CurrentHeader chain) \<and>
      Tc_SenderAccount c1 = Tc_SenderAccount chain \<and> Tc_LastHeader c1 = Tc_LastHeader chain \<and>
      Tc_PendingSendPackets c1 = Tc_PendingSendPackets chain \<and> Tc_PendingAckPackets c1 = Tc_PendingAckPackets chain"
    using height_begin [OF assms(1) c1(2)] c1(2)
    by (auto simp: set_time_def chain_BeginBlock_def on_App_def split: prod.splits)
  obtain a where a: "c2 = c1\<lparr>Tc_App := a\<rparr>"
    and deliver: "SignAndDeliver E (Tc_CurrentHeader c1) msgs (Tc_ChainID c1) [Acc_Number (Tc_SenderAccount c1)]
      [Acc_Sequence (Tc_SenderAccount c1)] False [Tc_senderPrivKey c1] (Tc_App c1) = (Err e, a)"
    using c2(1) by (auto simp: sign_and_deliver_def on_App_def split: prod.splits)
  note g = failed_delivery_commits [OF assms(1) deliver]
  show ?thesis
    using c2(2) one g assms(3) by (intro exI [of _ c2]) (simp add: a next_height_def)
qed

text \<open>An application that refuses every transaction.\<close>

definition ref_refusing :: "ref_app test_env" where
  "ref_refusing = ref_env\<lparr>te_SimDeliver := (\<lambda>_ a. (Err ErrUnknownRequest, a))\<rparr>"

definition ref_alone :: "ref_app Coordinator" where
  "ref_alone =
     \<lparr>Co_CurrentTime = 5, Co_Chains = [''A''], Co_CodeID = [],
      Co_heap = [''A'' \<mapsto> (ref_chain ''A'')\<lparr>Tc_CurrentHeader := empty_header\<lparr>Hd_Height := 2\<rparr>\<rparr>]\<rparr>"

lemma failed_transaction_stops_header_witness:
  "\<exists>chain. Co_heap (snd (SendMsgsWithExpPass ref_refusing False ''A'' [Msg_Other []] ref_alone)) ''A'' = Some chain \<and>
     Hd_Height (Tc_CurrentHeader chain) = te_LastBlockHeight ref_refusing (Tc_App chain)"
proof -
  let ?c = "(ref_chain ''A'')\<lparr>Tc_CurrentHeader := empty_header\<lparr>Hd_Height := 2\<rparr>\<rparr>"
  have laws: "height_laws ref_refusing"
    using ref_height_laws by (simp add: height_laws_def ref_refusing_def ref_env_simps Let_def)
  have c: "Co_heap ref_alone ''A'' = Some ?c" by (simp add: ref_alone_def)
  have "next_height ref_refusing ?c"
    by (simp add: next_height_def ref_refusing_def ref_env_simps ref_chain_def new_chain_def Let_def)
  moreover have "SendMsgsWithExpPass ref_refusing False ''A'' [Msg_Other []] ref_alone =
      (Err ErrUnknownRequest, snd (SendMsgsWithExpPass ref_refusing False ''A'' [Msg_Other []] ref_alone))"
  proof -
    have "fst (SendMsgsWithExpPass ref_refusing False ''A'' [Msg_Other []] ref_alone) = Err ErrUnknownRequest" by code_simp
    then show ?thesis by (simp add: prod_eq_iff)
  qed
  ultimately show ?thesis
    using failed_transaction_stops_header [OF laws c] by blast
qed

text \<open>What the tests do then by hand brings the chain back: the next block, and with it the height.\<close>

lemma next_block_recovers:
  "height_laws E \<Longrightarrow> NextBlock E chain = (Ok (), chain') \<Longrightarrow> next_height E chain'"
  using NextBlock_next_height by blast

section \<open>Client headers and signers\<close>

text \<open>
  The header for an update trusts the latest height of the client, and is the very header its chain keeps: what is written
  into the one is in the other, so the same header serves the next update until its chain has a new block.
\<close>

lemma update_header_shared:
  assumes "ConstructUpdateTMClientHeader E cid cp cl co = (Ok h, co')"
  shows "\<exists>chain cs counterparty. Co_heap co cid = Some chain \<and> te_GetClientState E cl (Tc_App chain) = Some cs \<and>
     Tmh_TrustedHeight h = GetLatestHeight cs \<and> Tmh_TrustedValidators h \<noteq> None \<and>
     Co_heap co' cp = Some counterparty \<and> Tc_LastHeader counterparty = Some h"
proof -
  obtain g where g: "read_chain cid (\<lambda>chain. res_bind (GetClientState E cl chain) (\<lambda>cs. Ok (GetLatestHeight cs))) co = (Ok g, co)"
    and t: "on_chain cp (inject_trusted E g) co = (Ok h, co')"
    using assms
    by (auto simp: ConstructUpdateTMClientHeader_def ConstructUpdateTMClientHeaderWithTrustedHeight_def op_bind_eq_Ok
        read_chain_def split: option.splits)
  obtain c c' where "inject_trusted E g c = (Ok h, c')" "Co_heap co' cp = Some c'"
    using on_chain_lift [OF t] by auto
  moreover have "Tmh_TrustedHeight h = g \<and> Tmh_TrustedValidators h \<noteq> None \<and> Tc_LastHeader c' = Some h"
    using calculation(1)
    by (auto simp: inject_trusted_def set_trusted_def Let_def split: option.splits res.splits)
  ultimately show ?thesis
    using g by (auto simp: read_chain_def GetClientState_def split: option.splits)
qed

text \<open>The order of two signers does not depend on the order they are named in, unless they tie in power and address.\<close>

lemma sorted_signers_symmetric:
  "Val_VotingPower v \<noteq> Val_VotingPower w \<or> Val_Address v \<noteq> Val_Address w \<Longrightarrow>
     CreateSortedSignerArray p q v w = CreateSortedSignerArray q p w v"
  by (auto simp: CreateSortedSignerArray_def signed_word_eqI not_less_iff_gr_or_eq)

end
