(* ===== verification/Test_Composable.thy ===== *)
theory Test_Composable
  imports Test_Relay_Props Chain
begin

text \<open>
  Tests of the modelled application: when the application under test moves along the steps of the chain (\<open>Chain\<close>), the
  invariants of its modules hold on every chain of the test, whatever the test does.
\<close>

definition moves :: "'b begin_env \<Rightarrow> 'b ibc_env \<Rightarrow> 'b chain \<Rightarrow> 'b chain \<Rightarrow> bool" where
  "moves B P = (chain_step B P)\<^sup>*\<^sup>*"

definition drives_chain :: "'b begin_env \<Rightarrow> 'b ibc_env \<Rightarrow> 'b chain test_env \<Rightarrow> bool" where
  "drives_chain B P E \<longleftrightarrow>
     (\<forall>h c. moves B P c (snd (te_BeginBlock E h c))) \<and> (\<forall>tx c. moves B P c (snd (te_SimDeliver E tx c))) \<and>
     (\<forall>c. moves B P c (te_EndBlock E c)) \<and> (\<forall>c. moves B P c (te_Commit E c))"

lemma moves_reachable: "moves B P c d \<Longrightarrow> chain_reachable B P g c \<Longrightarrow> chain_reachable B P g d"
  unfolding moves_def by (induction rule: rtranclp_induct) (auto intro: chain_next)

lemma drives_keeps: "drives_chain B P E \<Longrightarrow> app_keeps E (chain_reachable B P g)"
  unfolding drives_chain_def app_keeps_def keeps_def by (metis moves_reachable)

text \<open>
  When every chain of a test runs an application in a state reached from genesis, and the blocks and transactions of
  the test move it along the steps of the chain, then after any list of calls that does not end the test (transactions,
  handshakes, relays and timeouts in any order) the token registry of every chain is consistent, its rate limits are within
  their allowance and the boundaries of \<open>x/tx-boundary\<close> are those of genesis.
\<close>

lemma tests_keep_module_invariants:
  assumes "drives_chain B P E" "\<forall>cid chain. Co_heap pn cid = Some chain \<longrightarrow> chain_reachable B P g (Tc_App chain)"
    and "run_script E L calls pn = (r, pn')" "r \<noteq> Panic" "Co_heap pn' cid = Some chain"
    and "\<forall>r \<in> set (Rg_RateLimits (cg_rl g)). Ratelimit_Safety.limit_ok r"
    and "others_keep_stores B" "ibc_laws (be_lib B) P" "addr_laws (be_lib B)"
  shows "registry_ok (as_tfmw (ch_app (Tc_App chain))) \<and> limits_safe (as_rl (ch_app (Tc_App chain))) \<and>
         GetDelegateBoundary (ch_txb (Tc_App chain)) = Ok (Xg_DelegateBoundary (cg_txb g)) \<and>
         GetRedelegateBoundary (ch_txb (Tc_App chain)) = Ok (Xg_RedelegateBoundary (cg_txb g))"
proof -
  have "all_chains (app_holds E (chain_reachable B P g)) pn"
    using assms(2) by (simp add: all_chains_def app_holds_def)
  from safeD [OF apps.script this assms(3,4)] have "chain_reachable B P g (Tc_App chain)"
    using drives_keeps [OF assms(1)] assms(5) by (simp add: all_chains_def app_holds_def)
  from chain_inv_reachable [OF this assms(6-9)] show ?thesis
    using txb_ok_boundaries by (auto simp: chain_inv_def app_inv_def)
qed

section \<open>A test of the reference chain\<close>

text \<open>
  Blocks begin with the modules of the application, and a packet passes the stack of middlewares; the other messages of a
  relayer act outside the modules.
\<close>

fun demo_message :: "Msg \<Rightarrow> ledger chain \<Rightarrow> ledger chain" where
  "demo_message (MsgRecvPacket p _ _ rly) c =
     (if packet_ok (be_lib demo_env) p
      then after_packet (OnRecvPacket (chain_stack (be_lib demo_env) demo_parts) p rly) c else c)"
| "demo_message (MsgAcknowledgement p ack _ _ rly) c =
     (if packet_ok (be_lib demo_env) p
      then after_packet (OnAcknowledgementPacket (chain_stack (be_lib demo_env) demo_parts) p ack rly) c else c)"
| "demo_message (MsgTimeout p _ _ _ rly) c =
     (if packet_ok (be_lib demo_env) p
      then after_packet (OnTimeoutPacket (chain_stack (be_lib demo_env) demo_parts) p rly) c else c)"
| "demo_message _ c = c"

definition demo_test :: "ledger chain test_env" where
  "demo_test =
     env_around demo_later
       (\<lambda>h c. (Ok (), c\<lparr>ch_app := snd (app_BeginBlock demo_env \<lparr>BlockTime = Hd_Time h, BlockHeight = Hd_Height h\<rparr> (ch_app c))\<rparr>))
       (\<lambda>tx c. (Ok [], fold demo_message (Tx_Msgs tx) c)) (\<lambda>c. c) (\<lambda>_. 1)"

lemma demo_drives: "drives_chain demo_env demo_parts demo_test"
proof -
  have one: "moves demo_env demo_parts c (demo_message m c)" for m c
    by (cases m) (auto simp: moves_def intro!: r_into_rtranclp intro: step_receive step_acknowledge step_timeout)
  have "moves demo_env demo_parts c (fold demo_message ms c)" for ms c
    using one unfolding moves_def by (induction ms arbitrary: c) (auto intro: rtranclp_trans)
  moreover have "moves demo_env demo_parts c (c\<lparr>ch_app := snd (app_BeginBlock demo_env ctx (ch_app c))\<rparr>)" for ctx c
    by (auto simp: moves_def intro: step_block)
  ultimately show ?thesis
    by (simp add: drives_chain_def demo_test_def env_around_def) (simp add: moves_def)
qed

definition demo_chain_under_test :: "string \<Rightarrow> Packet list \<Rightarrow> ledger chain TestChain" where
  "demo_chain_under_test cid ps =
     (new_chain demo_test (ref_keys 0) 0 cid)\<lparr>Tc_LastHeader := Some ref_header, Tc_PendingSendPackets := ps\<rparr>"

text \<open>A token waits to be relayed from one chain to the other.\<close>

definition demo_net :: "ledger chain path_net" where
  "demo_net =
     NewPath ref_path (demo_chain_under_test ''A'' []) (demo_chain_under_test ''B'' [])
       \<lparr>Co_CurrentTime = 0, Co_Chains = [''A'', ''B''], Co_CodeID = [],
        Co_heap = [''A'' \<mapsto> demo_chain_under_test ''A'' [ex_in_packet], ''B'' \<mapsto> demo_chain_under_test ''B'' []]\<rparr>"

lemma demo_relays: "\<exists>pn. run_script demo_test ref_path [Call_Relay] demo_net = (Ok (), pn) \<and>
    net_ready (\<lambda>_. True) {''A'', ''B''} (Pn_EndpointA demo_net) (Pn_EndpointB demo_net) pn"
proof -
  have acc: "accepting demo_test (\<lambda>_. True) K" for K
    by (auto simp: accepting_def accepting_app_def app_keeps_def keeps_def demo_test_def env_around_def readable_def)
  have path: "Ep_Chain (Pn_EndpointA demo_net) = ''A''" "Ep_Chain (Pn_EndpointB demo_net) = ''B''"
    by (simp_all add: demo_net_def NewPath_def Coordinator.defs NewDefaultEndpoint_def demo_chain_under_test_def
        new_chain_def Let_def)
  have "relay_net demo_test (\<lambda>_. True) {[]} {''A'', ''B''} (Pn_EndpointA demo_net) (Pn_EndpointB demo_net)"
    by (simp add: relay_net_def acc relay_end_def path)
      (simp add: demo_net_def NewPath_def Coordinator.defs NewDefaultEndpoint_def ref_path_def tm_client_config_def
        GetClientType_def)
  moreover have "net_ready (\<lambda>_. True) {''A'', ''B''} (Pn_EndpointA demo_net) (Pn_EndpointB demo_net) demo_net"
    by (simp add: net_ready_def chain_ready_def)
      (simp add: demo_net_def NewPath_def Coordinator.defs demo_chain_under_test_def)
  ultimately have "\<exists>pn. RelayAndAckPendingPackets demo_test ref_path demo_net = (Ok (), pn) \<and>
      net_ready (\<lambda>_. True) {''A'', ''B''} (Pn_EndpointA demo_net) (Pn_EndpointB demo_net) pn"
    using worksD [OF relays_work(1), of demo_test "\<lambda>_. True" "{[]}" "{''A'', ''B''}" "Pn_EndpointA demo_net"
        "Pn_EndpointB demo_net" demo_net ref_path] by auto
  then show ?thesis by (auto simp: run_script_def)
qed

lemma tests_keep_module_invariants_witness:
  "\<exists>pn chain. run_script demo_test ref_path [Call_Relay] demo_net = (Ok (), pn) \<and> Co_heap pn ''B'' = Some chain \<and>
     registry_ok (as_tfmw (ch_app (Tc_App chain))) \<and> limits_safe (as_rl (ch_app (Tc_App chain)))"
proof -
  obtain pn where run: "run_script demo_test ref_path [Call_Relay] demo_net = (Ok (), pn)"
    and ready: "net_ready (\<lambda>_. True) {''A'', ''B''} (Pn_EndpointA demo_net) (Pn_EndpointB demo_net) pn"
    using demo_relays by blast
  then obtain chain where chain: "Co_heap pn ''B'' = Some chain" by (auto simp: net_ready_def)
  have start: "\<forall>cid chain. Co_heap demo_net cid = Some chain \<longrightarrow>
      chain_reachable demo_env demo_parts demo_genesis (Tc_App chain)"
    using demo_reachable
    by (auto simp: demo_net_def NewPath_frame demo_chain_under_test_def new_chain_def demo_test_def env_around_def Let_def
        split: if_splits)
  have "\<forall>r \<in> set (Rg_RateLimits (cg_rl demo_genesis)). Ratelimit_Safety.limit_ok r"
    by (simp add: demo_genesis_def Ratelimit_Props.ex_genesis_def ex_limit_def Ratelimit_Safety.limit_ok_def
        net_outflow_def send_allowance_nonneg)
  from tests_keep_module_invariants [OF demo_drives start run _ chain this demo_laws] run chain show ?thesis by auto
qed

end
