(* ===== verification/Simapp.thy ===== *)
theory Simapp
  imports Keepers
begin

text \<open>
  The simulation application (\<open>app/ibctesting/simapp/app.go\<close>): a copy of that of ibc-go with the transfer middleware put
  in. Its modules, keys, subspaces and accounts, the statements that build its keepers, and the checks the module manager
  makes when it is given an order. The construction reads the IBC keeper before there is one, so it always panics.
\<close>

section \<open>Modules, keys and accounts\<close>

datatype sim_module = M app_module | ibctm | solomachine | ibcmock | ibcfee | icacontroller | icahost | mockfee | icamock

definition sim_ModuleBasics :: "sim_module list" where
  "sim_ModuleBasics =
     [M auth, M genutil, M bank, M capability, M staking, M mint, M distr, M gov, M group_m, M params, M crisis,
      M slashing, M ibchost, ibctm, solomachine, M feegrant, M upgrade, M evidence, M ibctransfer, ibcmock, M ica,
      M authz, M vesting, ibcfee, M consensusparam]"

datatype sim_account = Named sim_module | Sim_FeeCollector | Sim_BondedPool | Sim_NotBondedPool

definition sim_maccPerms :: "(sim_account \<times> permission list) list" where
  "sim_maccPerms =
     [(Sim_FeeCollector, []),
      (Named (M distr), []),
      (Named (M mint), [Minter_p]),
      (Sim_BondedPool, [Burner_p, Staking_p]),
      (Sim_NotBondedPool, [Burner_p, Staking_p]),
      (Named (M gov), [Burner_p]),
      (Named (M ibctransfer), [Minter_p, Burner_p]),
      (Named ibcfee, []),
      (Named (M ica), []),
      (Named ibcmock, [])]"

definition sim_kv_store_keys :: "sim_module list" where
  "sim_kv_store_keys =
     [M auth, M bank, M staking, M crisis, M mint, M distr, M slashing, M gov, M group_m, M params, M ibchost, M upgrade,
      M feegrant, M evidence, M ibctransfer, icacontroller, icahost, M capability, M authz, ibcfee, M consensusparam]"

definition sim_initParamsKeeper :: "(sim_module \<times> bool) list" where
  "sim_initParamsKeeper =
     [(M auth, False), (M bank, False), (M staking, True), (M mint, True), (M distr, False), (M slashing, False),
      (M gov, False), (M crisis, False), (M ibctransfer, False), (M ibchost, False), (icacontroller, False),
      (icahost, False)]"

text \<open>The subspace of a module among the registered ones; that of any other module is the zero value, as its error is dropped.\<close>

definition sim_GetSubspace :: "(sim_module \<times> bool) list \<Rightarrow> sim_module \<Rightarrow> sim_module option" where
  "sim_GetSubspace spaces moduleName = (if moduleName \<in> fst ` set spaces then Some moduleName else None)"

definition sim_GetKey :: "sim_module \<Rightarrow> sim_module option" where
  "sim_GetKey storeKey = (if storeKey \<in> set sim_kv_store_keys then Some storeKey else None)"

definition sim_GetTKey :: "sim_module \<Rightarrow> sim_module option" where
  "sim_GetTKey storeKey = (if storeKey = M params then Some storeKey else None)"

definition sim_GetMemKey :: "sim_module \<Rightarrow> sim_module option" where
  "sim_GetMemKey memKey = (if memKey = M capability then Some memKey else None)"

text \<open>Addresses that may not receive funds; \<open>addr\<close> is the text of the address of an account.\<close>

definition GetMaccPerms :: "(sim_account \<times> permission list) list" where
  "GetMaccPerms = fold (\<lambda>(k, v) dup. AList.update k v dup) sim_maccPerms []"

definition sim_ModuleAccountAddrs :: "(sim_account \<Rightarrow> string) \<Rightarrow> (string \<rightharpoonup> bool)" where
  "sim_ModuleAccountAddrs addr =
     fold (\<lambda>(acc, _) m. if acc = Named ibcmock then m else m(addr acc \<mapsto> True)) sim_maccPerms Map.empty"

definition ModuleAccountAddrsLegacy :: "(sim_account \<Rightarrow> string) \<Rightarrow> (string \<rightharpoonup> bool)" where
  "ModuleAccountAddrsLegacy addr = fold (\<lambda>(acc, _) m. m(addr acc \<mapsto> True)) GetMaccPerms Map.empty"

definition BlockedAddresses :: "(sim_account \<Rightarrow> string) \<Rightarrow> (string \<rightharpoonup> bool)" where
  "BlockedAddresses addr =
     (ModuleAccountAddrsLegacy addr)(addr (Named (M gov)) := None, addr (Named ibcmock) := None)"

section \<open>The statements that build the keepers\<close>

text \<open>
  A statement sets a field of the application or a local variable from others, or calls a method of one. An argument is
  the value of another (which may be a nil pointer), something reached through it, which panics on a nil pointer, or the
  address of one of the two. Store key and subspace are named apart. A keeper that takes a subspace gives it a key table,
  which panics on a zero subspace, because the table of that is a nil map; a store key is only kept.
\<close>

datatype sim_keeper =
    Fld keeper | IBCFeeKeeper | ICAControllerKeeper | ScopedFeeMockKeeper | ScopedICAControllerKeeper | ScopedIBCMockKeeper
  | ScopedICAMockKeeper | ICAAuthModule | FeeMockModule | Local string

datatype access = Val sim_keeper | Through sim_keeper | At sim_keeper | AtThrough sim_keeper

datatype sim_stmt =
    Assign sim_keeper "sim_module option" "sim_module option" "access list"
  | Invoke sim_keeper "access list"

definition sim_pointers :: "sim_keeper list" where
  "sim_pointers = [Fld CapabilityKeeper, Fld StakingKeeper, Fld CrisisKeeper, Fld UpgradeKeeper, Fld IBCKeeper]"

definition scope :: "string \<Rightarrow> sim_stmt" where
  "scope v = Assign (Local v) None None [Through (Fld CapabilityKeeper)]"

definition sim_special_keepers :: "sim_stmt list" where
  "sim_special_keepers =
     [Assign (Fld ParamsKeeper) (Some (M params)) None [],
      Assign (Fld ConsensusParamsKeeper) (Some (M consensusparam)) None [],
      Assign (Fld ParamStore) None None [At (Fld ConsensusParamsKeeper)],
      Assign (Fld CapabilityKeeper) (Some (M capability)) None [],
      scope ''scopedIBCKeeper'',
      scope ''scopedTransferKeeper'',
      scope ''scopedICAControllerKeeper'',
      scope ''scopedICAHostKeeper'',
      scope ''scopedIBCMockKeeper'',
      scope ''scopedFeeMockKeeper'',
      scope ''scopedICAMockKeeper'',
      Invoke (Fld CapabilityKeeper) []]"

definition sim_sdk_keepers :: "sim_stmt list" where
  "sim_sdk_keepers =
     [Assign (Fld AccountKeeper) (Some (M auth)) None [],
      Assign (Fld BankKeeper) (Some (M bank)) None [Val (Fld AccountKeeper)],
      Assign (Fld StakingKeeper) (Some (M staking)) None [Val (Fld AccountKeeper), Val (Fld BankKeeper)],
      Assign (Fld MintKeeper) (Some (M mint)) None [Val (Fld StakingKeeper), Val (Fld AccountKeeper), Val (Fld BankKeeper)],
      Assign (Fld DistrKeeper) (Some (M distr)) None [Val (Fld AccountKeeper), Val (Fld BankKeeper), Val (Fld StakingKeeper)],
      Assign (Fld SlashingKeeper) (Some (M slashing)) None [Val (Fld StakingKeeper)],
      Invoke (Fld StakingKeeper) [Through (Fld DistrKeeper), Through (Fld SlashingKeeper)],
      Assign (Fld CrisisKeeper) (Some (M crisis)) None [Val (Fld BankKeeper)],
      Assign (Fld FeeGrantKeeper) (Some (M feegrant)) None [Val (Fld AccountKeeper)],
      Assign (Fld UpgradeKeeper) (Some (M upgrade)) None []]"

definition sim_tfmw_keeper :: sim_stmt where
  "sim_tfmw_keeper =
     Assign (Fld TransferMiddlewareKeeper) (Some (M transfermiddleware)) (Some (M transfermiddleware))
       [Through (Fld IBCKeeper), Val (Fld TransferKeeper), Val (Fld BankKeeper)]"

definition sim_ibc_keepers :: "sim_stmt list" where
  "sim_ibc_keepers =
     [Assign (Fld AuthzKeeper) (Some (M authz)) None [Val (Fld AccountKeeper)],
      Assign (Fld IBCKeeper) (Some (M ibchost)) (Some (M ibchost))
        [Val (Fld StakingKeeper), Val (Fld UpgradeKeeper), Val (Local ''scopedIBCKeeper'')],
      Assign (Fld govRouter) None None [Val (Fld ParamsKeeper), Val (Fld UpgradeKeeper), Through (Fld IBCKeeper)],
      Assign (Fld govKeeper) (Some (M gov)) None [Val (Fld AccountKeeper), Val (Fld BankKeeper), Val (Fld StakingKeeper)],
      Invoke (Fld govKeeper) [Val (Fld govRouter)],
      Assign (Fld GovKeeper) None None [Through (Fld govKeeper)],
      Assign (Fld GroupKeeper) (Some (M group_m)) None [Val (Fld AccountKeeper)],
      Assign IBCFeeKeeper (Some ibcfee) None
        [Through (Fld IBCKeeper), AtThrough (Fld IBCKeeper), Val (Fld AccountKeeper), Val (Fld BankKeeper)],
      Assign ICAControllerKeeper (Some icacontroller) (Some icacontroller)
        [Val IBCFeeKeeper, Through (Fld IBCKeeper), AtThrough (Fld IBCKeeper), Val (Local ''scopedICAControllerKeeper'')],
      Assign (Fld ICAHostKeeper) (Some icahost) (Some icahost)
        [Val IBCFeeKeeper, Through (Fld IBCKeeper), AtThrough (Fld IBCKeeper), Val (Fld AccountKeeper),
         Val (Local ''scopedICAHostKeeper'')],
      Assign (Fld ibcRouter) None None [],
      Assign (Fld TransferKeeper) (Some (M ibctransfer)) (Some (M ibctransfer))
        [Val IBCFeeKeeper, Through (Fld IBCKeeper), AtThrough (Fld IBCKeeper), Val (Fld AccountKeeper), Val (Fld BankKeeper),
         Val (Local ''scopedTransferKeeper'')]]"

definition sim_stacks :: "sim_stmt list" where
  "sim_stacks =
     [Assign (Local ''mockModule'') None None [AtThrough (Fld IBCKeeper)],
      Assign (Local ''mockIBCModule'') None None [At (Local ''mockModule''), Val (Local ''scopedIBCMockKeeper'')],
      Assign (Local ''transferStack'') None None [Val (Fld TransferKeeper)],
      Assign (Local ''transferStack'') None None [Val (Local ''transferStack''), Val IBCFeeKeeper],
      Assign (Local ''transfermiddlewareModule'') None None [At (Fld TransferMiddlewareKeeper)],
      Assign (Fld transfermiddlewareStack) None None [Val (Local ''transferStack''), Val (Fld TransferMiddlewareKeeper)],
      Assign (Local ''icaControllerStack'') None None [At (Local ''mockModule''), Val (Local ''scopedICAMockKeeper'')],
      Assign ICAAuthModule None None [Val (Local ''icaControllerStack'')],
      Assign (Local ''icaControllerStack'') None None [Val (Local ''icaControllerStack''), Val ICAControllerKeeper],
      Assign (Local ''icaControllerStack'') None None [Val (Local ''icaControllerStack''), Val IBCFeeKeeper],
      Assign (Fld icaHostStack) None None [Val (Fld ICAHostKeeper)],
      Assign (Fld icaHostStack) None None [Val (Fld icaHostStack), Val IBCFeeKeeper],
      Assign (Local ''feeMockModule'') None None [At (Local ''mockModule''), Val (Local ''scopedFeeMockKeeper'')],
      Assign FeeMockModule None None [Val (Local ''feeMockModule'')],
      Assign (Local ''feeWithMockModule'') None None [Val (Local ''feeMockModule''), Val IBCFeeKeeper],
      Invoke (Fld IBCKeeper) [Val (Fld ibcRouter)],
      Assign (Fld evidenceKeeper) (Some (M evidence)) None [Val (Fld StakingKeeper), Val (Fld SlashingKeeper)],
      Assign (Fld EvidenceKeeper) None None [Through (Fld evidenceKeeper)]]"

definition sim_scoped_fields :: "sim_stmt list" where
  "sim_scoped_fields =
     [Assign (Fld ScopedIBCKeeper) None None [Val (Local ''scopedIBCKeeper'')],
      Assign (Fld ScopedTransferKeeper) None None [Val (Local ''scopedTransferKeeper'')],
      Assign ScopedICAControllerKeeper None None [Val (Local ''scopedICAControllerKeeper'')],
      Assign (Fld ScopedICAHostKeeper) None None [Val (Local ''scopedICAHostKeeper'')],
      Assign ScopedIBCMockKeeper None None [Val (Local ''scopedIBCMockKeeper'')],
      Assign ScopedICAMockKeeper None None [Val (Local ''scopedICAMockKeeper'')],
      Assign ScopedFeeMockKeeper None None [Val (Local ''scopedFeeMockKeeper'')]]"

definition sim_keepers :: "sim_stmt list" where
  "sim_keepers = sim_special_keepers @ sim_sdk_keepers @ [sim_tfmw_keeper] @ sim_ibc_keepers @ sim_stacks"

text \<open>The modules of the IBC router, and the stack behind each.\<close>

definition sim_routes :: "(sim_module \<times> sim_keeper) list" where
  "sim_routes =
     [(ibcmock, Local ''mockIBCModule''),
      (M ibctransfer, Fld transfermiddlewareStack),
      (icacontroller, Local ''icaControllerStack''),
      (icahost, Fld icaHostStack),
      (icamock, Local ''icaControllerStack''),
      (mockfee, Local ''feeWithMockModule'')]"

section \<open>Running them\<close>

text \<open>The state is the list of what has been set; a pointer that has not been set is nil.\<close>

definition is_nil :: "sim_keeper list \<Rightarrow> sim_keeper \<Rightarrow> bool" where
  "is_nil set_fields k \<longleftrightarrow> k \<in> set sim_pointers \<and> k \<notin> set set_fields"

fun access_ok :: "sim_keeper list \<Rightarrow> access \<Rightarrow> bool" where
  "access_ok s (Val k) = True"
| "access_ok s (At k) = True"
| "access_ok s (Through k) = (\<not> is_nil s k)"
| "access_ok s (AtThrough k) = (\<not> is_nil s k)"

fun space_ok :: "(sim_module \<times> bool) list \<Rightarrow> sim_module option \<Rightarrow> bool" where
  "space_ok spaces None = True"
| "space_ok spaces (Some m) = (sim_GetSubspace spaces m \<noteq> None)"

fun sim_step :: "(sim_module \<times> bool) list \<Rightarrow> sim_stmt \<Rightarrow> (sim_keeper list, unit) op" where
  "sim_step spaces (Assign t store space args) s =
     (if list_all (access_ok s) args \<and> space_ok spaces space then (Ok (), s @ [t]) else (Panic, s))"
| "sim_step spaces (Invoke k args) s =
     (if \<not> is_nil s k \<and> list_all (access_ok s) args then (Ok (), s) else (Panic, s))"

section \<open>Module manager\<close>

definition sim_ModuleManager :: "sim_module list" where
  "sim_ModuleManager =
     [M genutil, M auth, M vesting, M bank, M capability, M crisis, M feegrant, M gov, M mint, M slashing, M distr,
      M staking, M upgrade, M evidence, M params, M authz, M group_m, M consensusparam, M ibchost, M ibctransfer, ibcfee,
      M ica, ibcmock, M transfermiddleware]"

definition sim_OrderBeginBlockers :: "sim_module list" where
  "sim_OrderBeginBlockers =
     [M upgrade, M capability, M mint, M distr, M slashing, M evidence, M staking, M ibchost, M ibctransfer, M auth,
      M bank, M gov, M crisis, M genutil, M authz, M feegrant, M params, M vesting, M ica, ibcfee, ibcmock, M group_m,
      M consensusparam]"

definition sim_OrderEndBlockers :: "sim_module list" where
  "sim_OrderEndBlockers =
     [M crisis, M gov, M staking, M ibchost, M ibctransfer, M capability, M auth, M bank, M distr, M slashing, M mint,
      M genutil, M evidence, M authz, M feegrant, M params, M upgrade, M vesting, M ica, ibcfee, ibcmock, M group_m,
      M consensusparam]"

definition sim_OrderInitGenesis :: "sim_module list" where
  "sim_OrderInitGenesis =
     [M capability, M auth, M bank, M distr, M staking, M slashing, M gov, M mint, M crisis, M ibchost, M genutil,
      M evidence, M authz, M ibctransfer, M ica, ibcfee, ibcmock, M feegrant, M params, M upgrade, M vesting, M group_m,
      M consensusparam]"

definition sim_SimulationManager :: "sim_module list" where
  "sim_SimulationManager =
     [M auth, M bank, M capability, M feegrant, M gov, M staking, M distr, M slashing, M params, M evidence, M authz,
      M ibchost, M ibctransfer, M ica]"

text \<open>
  Documented behaviour of the manager: an order that forgets a module of the manager with that hook panics. Which modules
  of the SDK and of ibc-go have a hook is a parameter; the transfer middleware has all three (\<open>x/transfermiddleware/module.go\<close>).
\<close>

datatype hook = Hook_BeginBlock | Hook_EndBlock | Hook_InitGenesis

definition has_hook :: "(hook \<Rightarrow> sim_module \<Rightarrow> bool) \<Rightarrow> hook \<Rightarrow> sim_module \<Rightarrow> bool" where
  "has_hook others h m \<longleftrightarrow> m = M transfermiddleware \<or> others h m"

definition SetOrder :: "(hook \<Rightarrow> sim_module \<Rightarrow> bool) \<Rightarrow> hook \<Rightarrow> sim_module list \<Rightarrow> unit res" where
  "SetOrder others h order =
     (if list_all (\<lambda>m. has_hook others h m \<longrightarrow> m \<in> set order) sim_ModuleManager then Ok () else Panic)"

text \<open>
  The constructor: the keepers, the orders, and the rest (services, stores, the ante handler, upgrades, loading), which is
  a parameter, before the scopes are kept. \<open>spaces\<close> are the subspaces \<open>initParamsKeeper\<close> registers.
\<close>

definition NewSimApp ::
  "(hook \<Rightarrow> sim_module \<Rightarrow> bool) \<Rightarrow> (sim_module \<times> bool) list \<Rightarrow> (sim_keeper list, unit) op \<Rightarrow> sim_stmt list \<Rightarrow>
   (sim_keeper list, unit) op" where
  "NewSimApp others spaces rest keepers =
     op_bind (op_each (sim_step spaces) keepers) (\<lambda>_.
     op_bind (op_lift (SetOrder others Hook_BeginBlock sim_OrderBeginBlockers)) (\<lambda>_.
     op_bind (op_lift (SetOrder others Hook_EndBlock sim_OrderEndBlockers)) (\<lambda>_.
     op_bind (op_lift (SetOrder others Hook_InitGenesis sim_OrderInitGenesis)) (\<lambda>_.
     op_bind rest (\<lambda>_.
     op_each (sim_step spaces) sim_scoped_fields)))))"

section \<open>What the construction does\<close>

text \<open>Up to the transfer middleware all is well; then the channel keeper of an IBC keeper that is nil is read.\<close>

lemma before_tfmw_keeper:
  "fst (op_each (sim_step sim_initParamsKeeper) (sim_special_keepers @ sim_sdk_keepers) []) = Ok ()"
  "is_nil (snd (op_each (sim_step sim_initParamsKeeper) (sim_special_keepers @ sim_sdk_keepers) [])) (Fld IBCKeeper)"
  by code_simp+

text \<open>
  With the statement moved behind the keepers it reads, it panics there all the same, on the zero subspace; with a
  subspace for the transfer middleware as well, all keepers are built.
\<close>

definition repaired_keepers :: "sim_stmt list" where
  "repaired_keepers = sim_special_keepers @ sim_sdk_keepers @ sim_ibc_keepers @ [sim_tfmw_keeper] @ sim_stacks"

definition repaired_spaces :: "(sim_module \<times> bool) list" where
  "repaired_spaces = sim_initParamsKeeper @ [(M transfermiddleware, False)]"

lemma repaired_before_tfmw:
  "fst (op_each (sim_step sim_initParamsKeeper) (sim_special_keepers @ sim_sdk_keepers @ sim_ibc_keepers) []) = Ok ()"
  "Fld IBCKeeper \<in> set (snd (op_each (sim_step sim_initParamsKeeper) (sim_special_keepers @ sim_sdk_keepers @ sim_ibc_keepers) []))"
  by code_simp+

lemma repaired_keepers_built: "fst (op_each (sim_step repaired_spaces) repaired_keepers []) = Ok ()"
  by code_simp

lemma stops_at:
  assumes "op_each f before s0 = (Ok (), s)" "f stmt s = (Panic, s)"
  shows "op_each f (before @ stmt # rest) s0 = (Panic, s)"
  using assms op_each_append [of f before "stmt # rest" s0] by (simp add: op_bind_def)

lemma orders_forget_tfmw:
  "SetOrder others Hook_BeginBlock sim_OrderBeginBlockers = Panic"
  "SetOrder others Hook_EndBlock sim_OrderEndBlockers = Panic"
  "SetOrder others Hook_InitGenesis sim_OrderInitGenesis = Panic"
  by (simp_all add: SetOrder_def has_hook_def sim_ModuleManager_def sim_OrderBeginBlockers_def sim_OrderEndBlockers_def
      sim_OrderInitGenesis_def)

text \<open>The store of the transfer middleware has no key and its parameters no subspace.\<close>

lemma tfmw_without_store:
  "sim_GetKey (M transfermiddleware) = None" "sim_GetSubspace sim_initParamsKeeper (M transfermiddleware) = None"
  by (simp_all add: sim_GetKey_def sim_kv_store_keys_def sim_GetSubspace_def sim_initParamsKeeper_def)

text \<open>
  C32: The simulation application is never built: its constructor panics, whatever hooks the other modules have and
  whatever follows. It stops at the keeper of the transfer middleware, the first statement that reads the IBC keeper, which
  is still nil. Were that statement moved behind the keepers it reads, which are then all set, it would panic on the
  parameter subspace, which \<open>initParamsKeeper\<close> does not register. Were it registered too, all keepers would be built,
  and the module manager would still refuse each of the three orders, which forget the transfer middleware.
\<close>

theorem simapp_never_built:
  "fst (NewSimApp others sim_initParamsKeeper rest sim_keepers []) = Panic \<and>
   (\<exists>s. op_each (sim_step sim_initParamsKeeper) (sim_special_keepers @ sim_sdk_keepers) [] = (Ok (), s) \<and>
        sim_step sim_initParamsKeeper sim_tfmw_keeper s = (Panic, s) \<and> Fld IBCKeeper \<notin> set s) \<and>
   fst (NewSimApp others sim_initParamsKeeper rest repaired_keepers []) = Panic \<and>
   (\<exists>s. op_each (sim_step sim_initParamsKeeper) (sim_special_keepers @ sim_sdk_keepers @ sim_ibc_keepers) [] = (Ok (), s) \<and>
        sim_step sim_initParamsKeeper sim_tfmw_keeper s = (Panic, s) \<and> Fld IBCKeeper \<in> set s) \<and>
   fst (op_each (sim_step repaired_spaces) repaired_keepers []) = Ok () \<and>
   fst (NewSimApp others repaired_spaces rest repaired_keepers []) = Panic \<and>
   SetOrder others Hook_BeginBlock sim_OrderBeginBlockers = Panic \<and>
   SetOrder others Hook_EndBlock sim_OrderEndBlockers = Panic \<and>
   SetOrder others Hook_InitGenesis sim_OrderInitGenesis = Panic"
proof -
  obtain s where s: "op_each (sim_step sim_initParamsKeeper) (sim_special_keepers @ sim_sdk_keepers) [] = (Ok (), s)"
    "is_nil s (Fld IBCKeeper)"
    using before_tfmw_keeper by (metis (full_types) prod.collapse)
  have p: "sim_step sim_initParamsKeeper sim_tfmw_keeper s = (Panic, s)" using s(2) by (simp add: sim_tfmw_keeper_def)
  obtain s' where s': "op_each (sim_step sim_initParamsKeeper) (sim_special_keepers @ sim_sdk_keepers @ sim_ibc_keepers) [] = (Ok (), s')"
    "Fld IBCKeeper \<in> set s'"
    using repaired_before_tfmw by (metis (full_types) prod.collapse)
  have p': "sim_step sim_initParamsKeeper sim_tfmw_keeper s' = (Panic, s')"
    by (simp add: sim_tfmw_keeper_def tfmw_without_store)
  obtain s'' where r: "op_each (sim_step repaired_spaces) repaired_keepers [] = (Ok (), s'')"
    using repaired_keepers_built by (metis (full_types) prod.collapse)
  have "op_each (sim_step sim_initParamsKeeper) sim_keepers [] = (Panic, s)"
    "op_each (sim_step sim_initParamsKeeper) repaired_keepers [] = (Panic, s')"
    using stops_at [OF s(1) p, of "sim_ibc_keepers @ sim_stacks"] stops_at [OF s'(1) p', of sim_stacks]
    by (simp_all add: sim_keepers_def repaired_keepers_def)
  then show ?thesis
    using s p s' p' r orders_forget_tfmw [of others]
    by (simp add: NewSimApp_def op_bind_def op_lift_def is_nil_def)
qed

section \<open>Blocks, upgrades and accounts\<close>

definition sim_BeginBlocker :: "(ctx \<Rightarrow> ('w, 'r) op) \<Rightarrow> ctx \<Rightarrow> ('w, 'r) op" where
  "sim_BeginBlocker mm_BeginBlock ctx = mm_BeginBlock ctx"

definition sim_EndBlocker :: "(ctx \<Rightarrow> ('w, 'r) op) \<Rightarrow> ctx \<Rightarrow> ('w, 'r) op" where
  "sim_EndBlocker mm_EndBlock ctx = mm_EndBlock ctx"

definition sim_InitChainer ::
    "(bytes \<Rightarrow> 'g option) \<Rightarrow> ('w \<Rightarrow> 'w) \<Rightarrow> ('g \<Rightarrow> ('w, 'r) op) \<Rightarrow> bytes \<Rightarrow> ('w, 'r) op" where
  "sim_InitChainer Unmarshal SetModuleVersionMap mm_InitGenesis AppStateBytes w =
     (case Unmarshal AppStateBytes of
        None \<Rightarrow> (Panic, w)
      | Some genesisState \<Rightarrow> mm_InitGenesis genesisState (SetModuleVersionMap w))"

text \<open>The upgrades and the handler each name gets; those of versions 6 and 7 first run the migrations of ibc-go.\<close>

type_synonym ('w, 'vm) sim_handler = "'vm \<Rightarrow> ('w, 'vm) op"

definition sim_DefaultUpgradeHandler :: "('w, 'vm) sim_handler \<Rightarrow> ('w, 'vm) sim_handler" where
  "sim_DefaultUpgradeHandler RunMigrations vm = RunMigrations vm"

definition sim_v6_UpgradeHandler :: "('w, unit) op \<Rightarrow> ('w, 'vm) sim_handler \<Rightarrow> ('w, 'vm) sim_handler" where
  "sim_v6_UpgradeHandler MigrateICS27ChannelCapability RunMigrations vm =
     op_bind MigrateICS27ChannelCapability (\<lambda>_. RunMigrations vm)"

definition sim_v7_UpgradeHandler ::
  "('w, 'n) op \<Rightarrow> ('w, unit) op \<Rightarrow> ('w, 'vm) sim_handler \<Rightarrow> ('w, 'vm) sim_handler" where
  "sim_v7_UpgradeHandler PruneExpiredConsensusStates MigrateParams RunMigrations vm =
     op_bind PruneExpiredConsensusStates (\<lambda>_. op_bind (op_must MigrateParams) (\<lambda>_. RunMigrations vm))"

definition sim_setupUpgradeHandlers ::
  "('w, unit) op \<Rightarrow> ('w, 'n) op \<Rightarrow> ('w, unit) op \<Rightarrow> ('w, 'vm) sim_handler \<Rightarrow> (string \<times> ('w, 'vm) sim_handler) list" where
  "sim_setupUpgradeHandlers Migrate6 Prune MigrateParams RunMigrations =
     [(''normal upgrade'', sim_DefaultUpgradeHandler RunMigrations),
      (''v6'', sim_v6_UpgradeHandler Migrate6 RunMigrations),
      (''v7'', sim_v7_UpgradeHandler Prune MigrateParams RunMigrations)]"

text \<open>The stores added when the node restarts for version 7; a file that cannot be read ends the program.\<close>

definition sim_setupUpgradeStoreLoaders :: "(string \<times> i64) res \<Rightarrow> (i64 \<Rightarrow> bool) \<Rightarrow> (i64 \<times> sim_module list) option res" where
  "sim_setupUpgradeStoreLoaders ReadUpgradeInfoFromDisk IsSkipHeight =
     res_bind (case ReadUpgradeInfoFromDisk of Ok i \<Rightarrow> Ok i | _ \<Rightarrow> Panic) (\<lambda>(name, height).
     Ok (if name = ''v7'' \<and> \<not> IsSkipHeight height then Some (height, [M consensusparam, M crisis]) else None))"

text \<open>
  The stores added for version 7 are among those of the application, and the handlers have one name each.
\<close>

lemma v7_stores_mounted:
  "sim_setupUpgradeStoreLoaders info skip = Ok (Some (h, ms)) \<Longrightarrow> set ms \<subseteq> set sim_kv_store_keys"
  by (cases info) (auto simp: sim_setupUpgradeStoreLoaders_def sim_kv_store_keys_def split: if_splits)

text \<open>
  Every module account but those of gov and of the mock module is blocked, where accounts have addresses of their own.
\<close>

lemma GetMaccPerms_copy: "map_of GetMaccPerms = map_of sim_maccPerms"
  by (rule ext) (simp add: GetMaccPerms_def sim_maccPerms_def)

lemma blocked_accounts:
  assumes "inj addr"
  shows "BlockedAddresses addr (addr a) = Some True \<longleftrightarrow>
     a \<in> fst ` set sim_maccPerms \<and> a \<noteq> Named (M gov) \<and> a \<noteq> Named ibcmock"
proof -
  have e: "addr x = addr y \<longleftrightarrow> x = y" for x y using assms by (auto dest: injD)
  show ?thesis
    by (simp add: BlockedAddresses_def ModuleAccountAddrsLegacy_def GetMaccPerms_def sim_maccPerms_def e) blast
qed

lemma mock_may_receive: "inj addr \<Longrightarrow> sim_ModuleAccountAddrs addr (addr (Named ibcmock)) = None"
  by (simp add: sim_ModuleAccountAddrs_def sim_maccPerms_def inj_eq)

text \<open>
  The transfer middleware mints and burns under an account that this application does not know, so its swaps would fail.
\<close>

lemma tfmw_has_no_account: "map_of sim_maccPerms (Named (M transfermiddleware)) = None"
  by (simp add: sim_maccPerms_def)

text \<open>A packet for the transfer module passes the transfer middleware, then the fee middleware, then the application.\<close>

lemma transfer_route: "map_of sim_routes (M ibctransfer) = Some (Fld transfermiddlewareStack)"
  by (simp add: sim_routes_def)

end
