(* ===== verification/Test_Genesis.thy ===== *)
theory Test_Genesis
  imports App_Export Test_Coordinator
begin

text \<open>
  The genesis of an application under test (\<open>app/test_helpers.go\<close>, \<open>app/helpers/test_helpers.go\<close>,
  \<open>app/ibctesting/simapp/test_helpers.go\<close>) and the account commands that edit a genesis file with its supply. The
  bank refuses a genesis whose supply is not the sum of the balances, the staking module one whose bonded pool is not the
  sum of the bonded tokens: this decides which validators and balances a test may start from.
\<close>

section \<open>Genesis of the modules\<close>

datatype BondStatus = BondStatus_Unspecified | BondStatus_Unbonded | BondStatus_Unbonding | BondStatus_Bonded

text \<open>A validator; its description is empty. Shares and rates are decimals in units of \<open>10 ^ -18\<close>.\<close>

record tg_Validator =
  Tv_OperatorAddress :: string
  Tv_ConsensusPubkey :: bytes
  Tv_Jailed :: bool
  Tv_Status :: BondStatus
  Tv_Tokens :: int
  Tv_DelegatorShares :: int
  Tv_UnbondingHeight :: i64
  Tv_UnbondingTime :: gotime
  Tv_Commission :: "int \<times> int \<times> int"
  Tv_MinSelfDelegation :: int

record tg_Delegation =
  Tdl_Delegator :: string
  Tdl_Validator :: bytes
  Tdl_Shares :: int

record tg_bank =
  Tb_Balances :: "gen_Balance list"
  Tb_Supply :: Coins

type_synonym GenesisState = "string \<rightharpoonup> bytes"

text \<open>\<open>tg_Pubkey\<close> converts the key of a Tendermint validator and packs it.\<close>

record tg_lib =
  tg_Add :: "Coins \<Rightarrow> Coins \<Rightarrow> Coins res"
  tg_Pubkey :: "bytes \<Rightarrow> bytes res"
  tg_ValAddress :: "bytes \<Rightarrow> string"
  tg_ModuleAddress :: "string \<Rightarrow> string"
  tg_auth_JSON :: "Account list \<Rightarrow> bytes"
  tg_staking_JSON :: "tg_Validator list \<Rightarrow> tg_Delegation list \<Rightarrow> bytes"
  tg_bank_JSON :: "tg_bank \<Rightarrow> bytes"

definition stake_coin :: "int \<Rightarrow> Coin" where
  "stake_coin amt = \<lparr>Coin_Denom = ''stake'', Coin_Amount = amt\<rparr>"

definition unix_epoch :: gotime where
  "unix_epoch = 62135596800 * 10 ^ 9"

definition bonded_validator :: "tg_lib \<Rightarrow> int \<Rightarrow> TmValidator \<Rightarrow> tg_Validator res" where
  "bonded_validator T bondAmt val =
     res_bind (require_NoError (tg_Pubkey T (Val_PubKey val))) (\<lambda>pkAny.
     Ok \<lparr>Tv_OperatorAddress = tg_ValAddress T (Val_Address val), Tv_ConsensusPubkey = pkAny, Tv_Jailed = False,
         Tv_Status = BondStatus_Bonded, Tv_Tokens = bondAmt, Tv_DelegatorShares = 10 ^ 18, Tv_UnbondingHeight = 0,
         Tv_UnbondingTime = unix_epoch, Tv_Commission = (0, 0, 0), Tv_MinSelfDelegation = 0\<rparr>)"

text \<open>The simulation application ignores the errors of the conversion; they leave the key empty.\<close>

definition loose_validator :: "tg_lib \<Rightarrow> int \<Rightarrow> TmValidator \<Rightarrow> tg_Validator" where
  "loose_validator T DefaultPowerReduction val =
     \<lparr>Tv_OperatorAddress = tg_ValAddress T (Val_Address val),
      Tv_ConsensusPubkey = (case tg_Pubkey T (Val_PubKey val) of Ok pk \<Rightarrow> pk | _ \<Rightarrow> []), Tv_Jailed = False,
      Tv_Status = BondStatus_Bonded, Tv_Tokens = DefaultPowerReduction, Tv_DelegatorShares = 10 ^ 18,
      Tv_UnbondingHeight = 0, Tv_UnbondingTime = unix_epoch, Tv_Commission = (0, 0, 0), Tv_MinSelfDelegation = 0\<rparr>"

text \<open>
  Every validator has one delegation, of the first account; without accounts the index panics. \<open>mk\<close> makes the validator.
\<close>

fun bonded_validators ::
  "(TmValidator \<Rightarrow> tg_Validator res) \<Rightarrow> Account list \<Rightarrow> TmValidator list \<Rightarrow> (tg_Validator list \<times> tg_Delegation list) res" where
  "bonded_validators mk genAccs [] = Ok ([], [])"
| "bonded_validators mk genAccs (val # vals) =
     res_bind (mk val) (\<lambda>validator.
     res_bind (require_Some (case genAccs of [] \<Rightarrow> None | acc # _ \<Rightarrow> Some acc)) (\<lambda>acc.
     res_bind (bonded_validators mk genAccs vals) (\<lambda>(validators, delegations).
     Ok (validator # validators,
         \<lparr>Tdl_Delegator = Acc_Address acc, Tdl_Validator = Val_Address val, Tdl_Shares = 10 ^ 18\<rparr> # delegations))))"

definition bonded_pool :: "tg_lib \<Rightarrow> int \<Rightarrow> gen_Balance" where
  "bonded_pool T bondAmt =
     \<lparr>Gb_Address = tg_ModuleAddress T ''bonded_tokens_pool'', Gb_Coins = [stake_coin bondAmt]\<rparr>"

text \<open>\<open>totalSupply = totalSupply.Add(...)\<close> over a list of coins.\<close>

fun add_all :: "tg_lib \<Rightarrow> Coins list \<Rightarrow> Coins \<Rightarrow> Coins res" where
  "add_all T [] acc = Ok acc"
| "add_all T (c # cs) acc = res_bind (tg_Add T acc c) (add_all T cs)"

text \<open>The supply of \<open>app/test_helpers.go\<close>: the bonded amount is added once for every balance.\<close>

fun app_supply :: "tg_lib \<Rightarrow> int \<Rightarrow> gen_Balance list \<Rightarrow> Coins \<Rightarrow> Coins res" where
  "app_supply T bondAmt [] totalSupply = Ok totalSupply"
| "app_supply T bondAmt (b # bs) totalSupply =
     res_bind (tg_Add T (Gb_Coins b) [stake_coin bondAmt]) (\<lambda>c.
     res_bind (tg_Add T totalSupply c) (app_supply T bondAmt bs))"

definition app_bank :: "tg_lib \<Rightarrow> int \<Rightarrow> gen_Balance list \<Rightarrow> tg_bank res" where
  "app_bank T bondAmt balances =
     res_bind (app_supply T bondAmt balances []) (\<lambda>totalSupply.
     Ok \<lparr>Tb_Balances = balances @ [bonded_pool T bondAmt], Tb_Supply = totalSupply\<rparr>)"

text \<open>The supply of the simulation application: once for every delegation.\<close>

definition sim_bank :: "tg_lib \<Rightarrow> int \<Rightarrow> tg_Delegation list \<Rightarrow> gen_Balance list \<Rightarrow> tg_bank res" where
  "sim_bank T bondAmt delegations balances =
     res_bind (add_all T (map Gb_Coins balances) []) (\<lambda>totalSupply.
     res_bind (add_all T (map (\<lambda>_. [stake_coin bondAmt]) delegations) totalSupply) (\<lambda>totalSupply.
     Ok \<lparr>Tb_Balances = balances @ [bonded_pool T bondAmt], Tb_Supply = totalSupply\<rparr>))"

definition BondAmt :: int where
  "BondAmt = 1000000000000"

definition app_genesis ::
  "tg_lib \<Rightarrow> TmValidator list \<Rightarrow> Account list \<Rightarrow> gen_Balance list \<Rightarrow> GenesisState \<Rightarrow> GenesisState res" where
  "app_genesis T vals genAccs balances genesisState =
     (let genesisState = genesisState(''auth'' \<mapsto> tg_auth_JSON T genAccs) in
      res_bind (bonded_validators (bonded_validator T BondAmt) genAccs vals) (\<lambda>(validators, delegations).
      let genesisState = genesisState(''staking'' \<mapsto> tg_staking_JSON T validators delegations) in
      res_bind (app_bank T BondAmt balances) (\<lambda>bankGenesis.
      Ok (genesisState(''bank'' \<mapsto> tg_bank_JSON T bankGenesis)))))"

definition genesisStateWithValSet ::
  "tg_lib \<Rightarrow> int \<Rightarrow> TmValidator list \<Rightarrow> Account list \<Rightarrow> gen_Balance list \<Rightarrow> GenesisState \<Rightarrow> GenesisState res" where
  "genesisStateWithValSet T DefaultPowerReduction vals genAccs balances genesisState =
     (let genesisState = genesisState(''auth'' \<mapsto> tg_auth_JSON T genAccs) in
      res_bind (bonded_validators (\<lambda>val. Ok (loose_validator T DefaultPowerReduction val)) genAccs vals) (\<lambda>(validators, delegations).
      let genesisState = genesisState(''staking'' \<mapsto> tg_staking_JSON T validators delegations) in
      res_bind (sim_bank T DefaultPowerReduction delegations balances) (\<lambda>bankGenesis.
      Ok (genesisState(''bank'' \<mapsto> tg_bank_JSON T bankGenesis)))))"

section \<open>The first blocks\<close>

text \<open>
  An application that was just built, from its genesis to its first block. \<open>InitChain\<close> gets the time, the chain identifier
  and the encoded genesis; it panics where a module refuses its part.
\<close>

record InitChainRequest =
  Ic_Time :: gotime
  Ic_ChainId :: string
  Ic_AppState :: bytes

definition first_header :: "'a test_env \<Rightarrow> string \<Rightarrow> bytes \<Rightarrow> 'a \<Rightarrow> Header" where
  "first_header E chainID valsHash app =
     empty_header
       \<lparr>Hd_ChainID := chainID,
        Hd_Height := te_LastBlockHeight E app + 1,
        Hd_AppHash := te_LastCommitHash E app,
        Hd_ValidatorsHash := valsHash,
        Hd_NextValidatorsHash := valsHash\<rparr>"

definition init_and_begin ::
  "'a test_env \<Rightarrow> (InitChainRequest \<Rightarrow> ('a, unit) op) \<Rightarrow> InitChainRequest \<Rightarrow> ('a \<Rightarrow> Header) \<Rightarrow> ('a, unit) op" where
  "init_and_begin E InitChain req header =
     op_bind (op_must (InitChain req)) (\<lambda>_ app.
     let app = te_Commit E app in run_BeginBlock E (header app) app)"

definition SetupWithGenesisValSet ::
  "'a test_env \<Rightarrow> tg_lib \<Rightarrow> (GenesisState \<Rightarrow> bytes res) \<Rightarrow> (InitChainRequest \<Rightarrow> ('a, unit) op) \<Rightarrow> GenesisState \<Rightarrow>
   gotime \<Rightarrow> TmValidatorSet \<Rightarrow> Account list \<Rightarrow> gen_Balance list \<Rightarrow> ('a, unit) op" where
  "SetupWithGenesisValSet E T MarshalIndent InitChain NewDefaultGenesisState ctxTime valSet genAccs balances =
     op_bind (op_lift (app_genesis T (Vs_Validators valSet) genAccs balances NewDefaultGenesisState)) (\<lambda>genesisState.
     op_bind (op_lift (require_NoError (MarshalIndent genesisState))) (\<lambda>stateBytes.
     init_and_begin E InitChain \<lparr>Ic_Time = ctxTime, Ic_ChainId = [], Ic_AppState = stateBytes\<rparr>
       (first_header E [] (te_ValsHash E valSet))))"

text \<open>The other helper takes the genesis of the SDK's test utilities and names the chain.\<close>

definition helpers_SetupWithGenesisValSet ::
  "'a test_env \<Rightarrow> (GenesisState \<Rightarrow> TmValidatorSet \<Rightarrow> Account list \<Rightarrow> gen_Balance list \<Rightarrow> GenesisState res) \<Rightarrow>
   (GenesisState \<Rightarrow> bytes res) \<Rightarrow> (InitChainRequest \<Rightarrow> ('a, unit) op) \<Rightarrow> GenesisState \<Rightarrow>
   TmValidatorSet \<Rightarrow> Account list \<Rightarrow> string \<Rightarrow> gen_Balance list \<Rightarrow> ('a, unit) op" where
  "helpers_SetupWithGenesisValSet E GenesisStateWithValSet MarshalIndent InitChain NewDefaultGenesisState
       valSet genAccs chainID balances =
     op_bind (op_lift (require_NoError (GenesisStateWithValSet NewDefaultGenesisState valSet genAccs balances)))
       (\<lambda>genesisState.
     op_bind (op_lift (require_NoError (MarshalIndent genesisState))) (\<lambda>stateBytes app.
     init_and_begin E InitChain \<lparr>Ic_Time = zero_time, Ic_ChainId = chainID, Ic_AppState = stateBytes\<rparr>
       (first_header E chainID (te_ValsHash E valSet)) (te_SetChainID E chainID app)))"

definition helpers_Setup ::
  "(GenesisState \<Rightarrow> bytes res) \<Rightarrow> (InitChainRequest \<Rightarrow> ('a, unit) op) \<Rightarrow> GenesisState \<Rightarrow> bool \<Rightarrow> ('a, unit) op" where
  "helpers_Setup MarshalIndent InitChain NewDefaultGenesisState isCheckTx =
     (if isCheckTx then op_lift (Ok ())
      else op_bind (op_lift (require_NoError (MarshalIndent NewDefaultGenesisState))) (\<lambda>stateBytes.
           op_must (InitChain \<lparr>Ic_Time = zero_time, Ic_ChainId = [], Ic_AppState = stateBytes\<rparr>)))"

definition one_validator :: "'a test_env \<Rightarrow> fresh_keys \<Rightarrow> TmValidatorSet" where
  "one_validator E k = te_NewValidatorSet E [(Fk_validator k)\<lparr>Val_VotingPower := 1\<rparr>]"

definition one_account :: "fresh_keys \<Rightarrow> Account" where
  "one_account k = \<lparr>Acc_Address = Fk_sender k, Acc_Number = 0, Acc_Sequence = 0\<rparr>"

definition SetupComposableAppWithValSet ::
  "'a test_env \<Rightarrow> (GenesisState \<Rightarrow> TmValidatorSet \<Rightarrow> Account list \<Rightarrow> gen_Balance list \<Rightarrow> GenesisState res) \<Rightarrow>
   (GenesisState \<Rightarrow> bytes res) \<Rightarrow> (InitChainRequest \<Rightarrow> ('a, unit) op) \<Rightarrow> GenesisState \<Rightarrow> fresh_keys \<Rightarrow> ('a, unit) op" where
  "SetupComposableAppWithValSet E GV MI IC G k =
     helpers_SetupWithGenesisValSet E GV MI IC G (one_validator E k) [one_account k] ''notional''
       [\<lparr>Gb_Address = Fk_sender k, Gb_Coins = [stake_coin (10 ^ 19)]\<rparr>]"

definition SetupComposableAppWithValSetWithGenAccout ::
  "'a test_env \<Rightarrow> tg_lib \<Rightarrow> int \<Rightarrow>
   (GenesisState \<Rightarrow> TmValidatorSet \<Rightarrow> Account list \<Rightarrow> gen_Balance list \<Rightarrow> GenesisState res) \<Rightarrow>
   (GenesisState \<Rightarrow> bytes res) \<Rightarrow> (InitChainRequest \<Rightarrow> ('a, unit) op) \<Rightarrow> GenesisState \<Rightarrow> fresh_keys \<Rightarrow>
   ('a, string \<times> tg_Validator list) op" where
  "SetupComposableAppWithValSetWithGenAccout E T DefaultPowerReduction GV MI IC G k =
     op_bind (SetupComposableAppWithValSet E GV MI IC G k) (\<lambda>_.
     op_lift (Ok (Fk_sender k,
       map (loose_validator T DefaultPowerReduction) (Vs_Validators (one_validator E k)))))"

text \<open>
  The simulation application: an error of the encoding is ignored in one helper and panics in the other, whose first
  block has a height only.
\<close>

definition sim_SetupWithGenesisValSet ::
  "'a test_env \<Rightarrow> tg_lib \<Rightarrow> int \<Rightarrow> (GenesisState \<Rightarrow> bytes res) \<Rightarrow> (InitChainRequest \<Rightarrow> ('a, unit) op) \<Rightarrow> GenesisState \<Rightarrow>
   TmValidatorSet \<Rightarrow> Account list \<Rightarrow> gen_Balance list \<Rightarrow> ('a, unit) op" where
  "sim_SetupWithGenesisValSet E T DefaultPowerReduction MarshalIndent InitChain NewDefaultGenesisState valSet genAccs balances =
     op_bind (op_lift (genesisStateWithValSet T DefaultPowerReduction (Vs_Validators valSet) genAccs balances
                         NewDefaultGenesisState)) (\<lambda>genesisState.
     op_bind (op_lift (case MarshalIndent genesisState of Ok bz \<Rightarrow> Ok bz | Err _ \<Rightarrow> Ok [] | Panic \<Rightarrow> Panic)) (\<lambda>stateBytes.
     init_and_begin E InitChain \<lparr>Ic_Time = zero_time, Ic_ChainId = [], Ic_AppState = stateBytes\<rparr>
       (first_header E [] (te_ValsHash E valSet))))"

definition sim_Setup ::
  "'a test_env \<Rightarrow> tg_lib \<Rightarrow> int \<Rightarrow> (GenesisState \<Rightarrow> bytes res) \<Rightarrow> (InitChainRequest \<Rightarrow> ('a, unit) op) \<Rightarrow> GenesisState \<Rightarrow>
   fresh_keys \<Rightarrow> ('a, unit) op" where
  "sim_Setup E T DefaultPowerReduction MarshalIndent InitChain NewDefaultGenesisState k =
     sim_SetupWithGenesisValSet E T DefaultPowerReduction MarshalIndent InitChain NewDefaultGenesisState
       (one_validator E k) [one_account k] [\<lparr>Gb_Address = Fk_sender k, Gb_Coins = [stake_coin (10 ^ 14)]\<rparr>]"

definition sim_account_genesis ::
  "tg_lib \<Rightarrow> Account list \<Rightarrow> gen_Balance list \<Rightarrow> GenesisState \<Rightarrow> GenesisState res" where
  "sim_account_genesis T genAccs balances genesisState =
     (let genesisState = genesisState(''auth'' \<mapsto> tg_auth_JSON T genAccs) in
      res_bind (add_all T (map Gb_Coins balances) []) (\<lambda>totalSupply.
      Ok (genesisState(''bank'' \<mapsto> tg_bank_JSON T \<lparr>Tb_Balances = balances, Tb_Supply = totalSupply\<rparr>))))"

definition sim_SetupWithGenesisAccounts ::
  "'a test_env \<Rightarrow> tg_lib \<Rightarrow> (GenesisState \<Rightarrow> bytes res) \<Rightarrow> (InitChainRequest \<Rightarrow> ('a, unit) op) \<Rightarrow> GenesisState \<Rightarrow>
   Account list \<Rightarrow> gen_Balance list \<Rightarrow> ('a, unit) op" where
  "sim_SetupWithGenesisAccounts E T MarshalIndent InitChain NewDefaultGenesisState genAccs balances =
     op_bind (op_lift (sim_account_genesis T genAccs balances NewDefaultGenesisState)) (\<lambda>genesisState.
     op_bind (op_lift (require_NoError (MarshalIndent genesisState))) (\<lambda>stateBytes.
     init_and_begin E InitChain \<lparr>Ic_Time = zero_time, Ic_ChainId = [], Ic_AppState = stateBytes\<rparr>
       (\<lambda>app. empty_header\<lparr>Hd_Height := te_LastBlockHeight E app + 1\<rparr>)))"

section \<open>Which genesis the modules accept\<close>

text \<open>
  Documented behaviour of the modules at genesis: the bank compares a supply that is not empty with the sum of the
  balances, the staking module compares the balance of the pool with the tokens of the bonded validators. \<open>Coins.Add\<close> adds
  the amounts of each denomination.
\<close>

definition total_of :: "gen_Balance list \<Rightarrow> string \<Rightarrow> int" where
  "total_of bs d = sum_list (map (\<lambda>b. AmountOf (Gb_Coins b) d) bs)"

definition bank_accepts :: "tg_bank \<Rightarrow> bool" where
  "bank_accepts g \<longleftrightarrow> Tb_Supply g = [] \<or> AmountOf (Tb_Supply g) = total_of (Tb_Balances g)"

definition bonded_tokens :: "tg_Validator list \<Rightarrow> int" where
  "bonded_tokens vs = sum_list (map Tv_Tokens (filter (\<lambda>v. Tv_Status v = BondStatus_Bonded) vs))"

definition staking_accepts :: "tg_lib \<Rightarrow> tg_Validator list \<Rightarrow> tg_bank \<Rightarrow> bool" where
  "staking_accepts T vs g \<longleftrightarrow>
     bonded_tokens vs =
       total_of (filter (\<lambda>b. Gb_Address b = tg_ModuleAddress T ''bonded_tokens_pool'') (Tb_Balances g)) ''stake''"

definition add_laws :: "tg_lib \<Rightarrow> bool" where
  "add_laws T \<longleftrightarrow> (\<forall>a b c. tg_Add T a b = Ok c \<longrightarrow> AmountOf c = (\<lambda>d. AmountOf a d + AmountOf b d))"

lemma add_lawsD: "add_laws T \<Longrightarrow> tg_Add T a b = Ok c \<Longrightarrow> AmountOf c d = AmountOf a d + AmountOf b d"
  by (simp add: add_laws_def)

lemma total_of_simps [simp]:
  "total_of [] d = 0"
  "total_of (b # bs) d = AmountOf (Gb_Coins b) d + total_of bs d"
  "total_of (bs @ bs') d = total_of bs d + total_of bs' d"
  by (simp_all add: total_of_def)

lemma stake_coin_simps [simp]: "Coin_Denom (stake_coin a) = ''stake''" "Coin_Amount (stake_coin a) = a"
  by (simp_all add: stake_coin_def)

lemma add_all_amount:
  "add_laws T \<Longrightarrow> add_all T cs t = Ok s \<Longrightarrow> AmountOf s d = AmountOf t d + (\<Sum>c\<leftarrow>cs. AmountOf c d)"
  by (induction cs arbitrary: t) (auto simp: res_bind_eq_Ok add_lawsD)

lemma app_supply_amount:
  "add_laws T \<Longrightarrow> app_supply T a bs t = Ok s \<Longrightarrow>
     AmountOf s d = AmountOf t d + total_of bs d + int (length bs) * (if d = ''stake'' then a else 0)"
proof (induction bs arbitrary: t)
  case (Cons b bs)
  then obtain c t' where "tg_Add T (Gb_Coins b) [stake_coin a] = Ok c" "tg_Add T t c = Ok t'" "app_supply T a bs t' = Ok s"
    by (auto simp: res_bind_eq_Ok)
  with Cons show ?case by (auto simp: add_lawsD algebra_simps)
qed simp

definition bonds :: "int \<Rightarrow> (TmValidator \<Rightarrow> tg_Validator res) \<Rightarrow> bool" where
  "bonds a mk \<longleftrightarrow> (\<forall>val v. mk val = Ok v \<longrightarrow> Tv_Tokens v = a \<and> Tv_Status v = BondStatus_Bonded)"

lemma bonds_both [simp]: "bonds a (bonded_validator T a)" "bonds a (\<lambda>val. Ok (loose_validator T a val))"
  by (auto simp: bonds_def bonded_validator_def loose_validator_def res_bind_eq_Ok)

lemma bonded_validators_tokens:
  assumes "bonds a mk"
  shows "bonded_validators mk accs vals = Ok (vs, ds) \<Longrightarrow>
     bonded_tokens vs = int (length vals) * a \<and> length vs = length vals \<and> length ds = length vals"
proof (induction vals arbitrary: vs ds)
  case (Cons val vals)
  then obtain v vs' ds' d where r: "mk val = Ok v" "bonded_validators mk accs vals = Ok (vs', ds')"
    and "vs = v # vs'" "ds = d # ds'"
    by (auto simp: res_bind_eq_Ok)
  moreover have "Tv_Tokens v = a" "Tv_Status v = BondStatus_Bonded"
    using r(1) assms by (auto simp: bonds_def)
  ultimately show ?case using Cons.IH [OF r(2)] by (simp add: bonded_tokens_def algebra_simps)
qed (simp add: bonded_tokens_def)

text \<open>A supply that counts the bonded amount \<open>n\<close> times beside a pool that holds it once.\<close>

lemma accepted_once:
  assumes "Tb_Balances g = balances @ [bonded_pool T a]" "0 < a" "n \<noteq> 0" "\<forall>d. 0 \<le> total_of balances d"
    and amt: "\<And>d. AmountOf (Tb_Supply g) d = total_of balances d + int n * (if d = ''stake'' then a else 0)"
  shows "bank_accepts g \<longleftrightarrow> n = 1"
proof -
  have "0 < int n * a" using assms(2,3) by simp
  then have "AmountOf (Tb_Supply g) ''stake'' \<noteq> 0" using assms(4) [rule_format, of "''stake''"] amt [of "''stake''"] by simp
  then have "Tb_Supply g \<noteq> []" by auto
  then have "bank_accepts g \<longleftrightarrow> (\<forall>d. int n * (if d = ''stake'' then a else 0) = (if d = ''stake'' then a else 0))"
    by (simp add: bank_accepts_def fun_eq_iff amt assms(1) bonded_pool_def eq_commute [of "''stake''"])
  also have "\<dots> \<longleftrightarrow> int n * a = a" by auto
  also have "\<dots> \<longleftrightarrow> n = 1" using assms(2) by simp
  finally show ?thesis .
qed

text \<open>
  The genesis of \<open>app/test_helpers.go\<close> is accepted by the bank exactly when there is one balance, whatever the validators,
  and by the staking module exactly when there is one validator: the bonded amount is counted for each balance in the
  supply, for each validator in the tokens, and once in the pool. The simulation application counts it for each delegation
  in the supply, so one validator is what both modules need.
\<close>

lemma app_genesis_accepted:
  assumes "add_laws T" "app_bank T a balances = Ok g" "0 < a" "balances \<noteq> []" "\<forall>d. 0 \<le> total_of balances d"
  shows "bank_accepts g \<longleftrightarrow> length balances = 1"
proof -
  obtain s where s: "app_supply T a balances [] = Ok s" and g: "g = \<lparr>Tb_Balances = balances @ [bonded_pool T a], Tb_Supply = s\<rparr>"
    using assms(2) by (auto simp: app_bank_def res_bind_eq_Ok)
  show ?thesis
    by (rule accepted_once [OF _ assms(3) _ assms(5)]) (simp_all add: g assms(4) app_supply_amount [OF assms(1) s])
qed

lemma sim_genesis_accepted:
  assumes "add_laws T" "sim_bank T a ds balances = Ok g" "0 < a" "ds \<noteq> []" "\<forall>d. 0 \<le> total_of balances d"
  shows "bank_accepts g \<longleftrightarrow> length ds = 1"
proof -
  obtain s t where t: "add_all T (map Gb_Coins balances) [] = Ok t"
    and s: "add_all T (map (\<lambda>_. [stake_coin a]) ds) t = Ok s"
    and g: "g = \<lparr>Tb_Balances = balances @ [bonded_pool T a], Tb_Supply = s\<rparr>"
    using assms(2) by (auto simp: sim_bank_def res_bind_eq_Ok)
  have "AmountOf s d = total_of balances d + int (length ds) * (if d = ''stake'' then a else 0)" for d
    using add_all_amount [OF assms(1) t, of d] add_all_amount [OF assms(1) s, of d]
    by (auto simp: total_of_def comp_def sum_list_triv)
  then show ?thesis
    by (intro accepted_once [OF _ assms(3) _ assms(5)]) (simp_all add: g assms(4))
qed

lemma staking_genesis_accepted:
  assumes "bonds a mk" "bonded_validators mk accs vals = Ok (vs, ds)" "0 < a"
    and pool: "tg_ModuleAddress T ''bonded_tokens_pool'' \<notin> Gb_Address ` set balances"
    and bal: "Tb_Balances g = balances @ [bonded_pool T a]"
  shows "staking_accepts T vs g \<longleftrightarrow> length vals = 1"
proof -
  have "filter (\<lambda>b. Gb_Address b = tg_ModuleAddress T ''bonded_tokens_pool'') balances = []"
    using pool by (force simp: filter_empty_conv)
  then show ?thesis
    using bonded_validators_tokens [OF assms(1,2)] assms(3) by (simp add: staking_accepts_def bal bonded_pool_def)
qed

text \<open>Without a bonded pool every set of balances has the supply the bank computes.\<close>

lemma account_genesis_accepted:
  assumes "add_laws T" "add_all T (map Gb_Coins balances) [] = Ok s"
  shows "bank_accepts \<lparr>Tb_Balances = balances, Tb_Supply = s\<rparr>"
  using add_all_amount [OF assms] by (auto simp: bank_accepts_def fun_eq_iff total_of_def comp_def)

text \<open>A chain under test starts from one validator and one balance, so both modules take its genesis.\<close>

lemma new_chain_genesis_accepted:
  assumes "add_laws T" "tg_Pubkey T (Val_PubKey v) = Ok pk" "0 \<le> amt"
    and "tg_ModuleAddress T ''bonded_tokens_pool'' \<noteq> Acc_Address acc"
    and "app_bank T BondAmt [\<lparr>Gb_Address = Acc_Address acc, Gb_Coins = [stake_coin amt]\<rparr>] = Ok g"
  shows "\<exists>vs ds. bonded_validators (bonded_validator T BondAmt) [acc] [v] = Ok (vs, ds) \<and> staking_accepts T vs g \<and> bank_accepts g"
proof -
  obtain vs ds where vs: "bonded_validators (bonded_validator T BondAmt) [acc] [v] = Ok (vs, ds)"
    using assms(2) by (simp add: bonded_validator_def)
  have "Tb_Balances g = [\<lparr>Gb_Address = Acc_Address acc, Gb_Coins = [stake_coin amt]\<rparr>] @ [bonded_pool T BondAmt]"
    using assms(5) by (auto simp: app_bank_def res_bind_eq_Ok)
  with vs assms(4) have "staking_accepts T vs g"
    by (subst staking_genesis_accepted [OF bonds_both(1) vs]) (auto simp: BondAmt_def)
  moreover have "bank_accepts g"
    using app_genesis_accepted [OF assms(1,5)] assms(3) by (simp add: BondAmt_def total_of_def)
  ultimately show ?thesis using vs by blast
qed

end
