(* ===== verification/Simapp_State.thy ===== *)
theory Simapp_State
  imports Simapp Test_Genesis Ante
begin

text \<open>
  The rest of the simulation application (\<open>app/ibctesting/simapp\<close>): its ante handler, the export of its state
  (\<open>export.go\<close>) and the accounts of a genesis (\<open>genesis_account.go\<close>, \<open>simd/cmd/genaccounts.go\<close>).
\<close>

section \<open>Ante handler\<close>

text \<open>\<open>has_account\<close>, \<open>has_bank\<close> and \<open>has_sign\<close>: whether the keepers and the sign mode handler are given.\<close>

definition sim_NewAnteHandler ::
    "(('w, 't) ante_decorator list \<Rightarrow> ('w, 't) ante_handler) \<Rightarrow> ('w, 't) sdk_decorators \<Rightarrow> ('w, 't) ante_decorator \<Rightarrow>
     bool \<Rightarrow> bool \<Rightarrow> bool \<Rightarrow> ('w, 't) ante_handler res" where
  "sim_NewAnteHandler ChainAnteDecorators D ExtensionOptionsDecorator has_account has_bank has_sign =
     (if \<not> has_account then Err (ErrLib ''account keeper is required for AnteHandler'')
      else if \<not> has_bank then Err (ErrLib ''bank keeper is required for AnteHandler'')
      else if \<not> has_sign then Err (ErrLib ''sign mode handler is required for AnteHandler'')
      else Ok (ChainAnteDecorators
       [SetUpContextDecorator D,
        ExtensionOptionsDecorator,
        ValidateBasicDecorator D,
        TxTimeoutHeightDecorator D,
        ValidateMemoDecorator D,
        ConsumeGasForTxSizeDecorator D,
        DeductFeeDecorator D,
        SetPubKeyDecorator D,
        ValidateSigCountDecorator D,
        SigGasConsumeDecorator D,
        SigVerificationDecorator D,
        IncrementSequenceDecorator D,
        RedundantRelayDecorator D]))"

section \<open>Export\<close>

text \<open>
  The export for height zero differs from that of the application in two loops: the commission is withdrawn from every
  validator and an error is dropped, and an error of the hook stops the loop over the validators without a word.
\<close>

definition sim_withdraw_commissions :: "('b, 'x, 'c) export_keepers \<Rightarrow> ctx \<Rightarrow> ('b, unit) op" where
  "sim_withdraw_commissions K ctx b =
     op_each (\<lambda>val. ignore_err (xk_WithdrawValidatorCommission K ctx (Xv_Operator val))) (xk_IterateValidators K b) b"

definition sim_reinit_validator :: "('b, 'x, 'c) export_keepers \<Rightarrow> ctx \<Rightarrow> 'x ex_Validator \<Rightarrow> ('b, bool) op" where
  "sim_reinit_validator K ctx val b =
     (let scraps = xk_OutstandingRewardsCoins K b (Xv_Operator val)
      in op_bind (op_lift (xk_AddCoins K (xk_CommunityPool K b) scraps)) (\<lambda>pool b.
           case xk_AfterValidatorCreated K ctx (Xv_Operator val) (xk_SetCommunityPool K pool b) of
             (Ok _, b) \<Rightarrow> (Ok False, b)
           | (Err _, b) \<Rightarrow> (Ok True, b)
           | (Panic, b) \<Rightarrow> (Panic, b)) b)"

definition sim_reinit_validators :: "('b, 'x, 'c) export_keepers \<Rightarrow> ctx \<Rightarrow> ('b, unit) op" where
  "sim_reinit_validators K ctx b = op_iterate (sim_reinit_validator K ctx) (xk_IterateValidators K b) b"

definition sim_prepForZeroHeightGenesis ::
    "('b, 'x, 'c) export_keepers \<Rightarrow> ctx \<Rightarrow> string list \<Rightarrow> ('b, unit) op" where
  "sim_prepForZeroHeightGenesis K ctx jailAllowedAddrs =
     (let applyAllowedAddrs = 0 < length jailAllowedAddrs
      in op_bind (op_lift (if list_all (\<lambda>a. xk_ValAddressFromBech32 K a \<noteq> None) jailAllowedAddrs then Ok () else Panic)) (\<lambda>_.
         op_bind (xk_AssertInvariants K ctx) (\<lambda>_.
         op_bind (sim_withdraw_commissions K ctx) (\<lambda>_ b.
           let dels = xk_GetAllDelegations K b
           in op_bind (withdraw_rewards K ctx dels) (\<lambda>_ b.
              let b = xk_DeleteAllValidatorHistoricalRewards K (xk_DeleteAllValidatorSlashEvents K b);
                  ctx0 = ctx\<lparr>BlockHeight := 0\<rparr>
              in op_bind (sim_reinit_validators K ctx0) (\<lambda>_.
                 op_bind (reinit_delegations K ctx0 dels) (\<lambda>_ b.
                   op_bind (reset_validators K applyAllowedAddrs jailAllowedAddrs) (\<lambda>_.
                   op_bind (op_must (xk_ApplyAndReturnValidatorSetUpdates K ctx)) (\<lambda>_ b.
                     (Ok (), reset_signing_infos K b))) (reset_creation_heights K b))) b) b))))"

text \<open>An error of the validators is returned beside the export.\<close>

definition sim_ExportAppStateAndValidators ::
    "('b, 'x, 'c) export_keepers \<Rightarrow> (ctx \<Rightarrow> 'b \<Rightarrow> 'g res) \<Rightarrow> ('g \<Rightarrow> bytes res) \<Rightarrow> (ctx \<Rightarrow> 'b \<Rightarrow> 'v res) \<Rightarrow>
     (ctx \<Rightarrow> 'b \<Rightarrow> 'p) \<Rightarrow> ctx \<Rightarrow> bool \<Rightarrow> string list \<Rightarrow> ('b, ('v, 'p) ExportedApp) op" where
  "sim_ExportAppStateAndValidators K mm_ExportGenesis MarshalIndent WriteValidators GetConsensusParams ctx forZeroHeight
       jailAllowedAddrs =
     op_bind (if forZeroHeight then sim_prepForZeroHeightGenesis K ctx jailAllowedAddrs else op_lift (Ok ())) (\<lambda>_ b.
       op_bind (op_lift (res_bind (mm_ExportGenesis ctx b) MarshalIndent)) (\<lambda>appState b.
       op_bind (op_lift (WriteValidators ctx b)) (\<lambda>validators b.
         (Ok \<lparr>Xa_AppState = appState, Xa_Validators = validators,
              Xa_Height = (if forZeroHeight then 0 else BlockHeight ctx + 1),
              Xa_ConsensusParams = GetConsensusParams ctx b\<rparr>, b)) b) b)"

text \<open>
  The two exports agree where the hook does not fail and withdrawing fails for those validators only that have no
  commission, and then changes nothing, as the distribution module documents.
\<close>

definition export_hooks_succeed :: "('b, 'x, 'c) export_keepers \<Rightarrow> bool" where
  "export_hooks_succeed K \<longleftrightarrow>
     (\<forall>ctx a b e. fst (xk_AfterValidatorCreated K ctx a b) \<noteq> Err e) \<and>
     (\<forall>ctx a b. xk_CommissionIsZero K b a \<longrightarrow> (\<exists>e. xk_WithdrawValidatorCommission K ctx a b = (Err e, b))) \<and>
     (\<forall>ctx a b e. \<not> xk_CommissionIsZero K b a \<longrightarrow> fst (xk_WithdrawValidatorCommission K ctx a b) \<noteq> Err e)"

lemma op_each_cong: "(\<And>x s. f x s = g x s) \<Longrightarrow> op_each f xs s = op_each g xs s"
  by (induction xs arbitrary: s) (auto split: prod.split res.split)

lemma op_iterate_never_stops:
  "(\<And>x s. f x s = op_bind (g x) (\<lambda>_. op_lift (Ok False)) s) \<Longrightarrow> op_iterate f xs s = op_each g xs s"
  by (induction xs arbitrary: s) (auto simp: op_bind_def op_lift_def split: prod.split res.split)

lemma withdraw_commissions_agree:
  assumes "export_hooks_succeed K"
  shows "sim_withdraw_commissions K ctx b = withdraw_commissions K ctx b"
  unfolding sim_withdraw_commissions_def withdraw_commissions_def
proof (rule op_each_cong)
  fix val b
  show "ignore_err (xk_WithdrawValidatorCommission K ctx (Xv_Operator val)) b =
      (if xk_CommissionIsZero K b (Xv_Operator val) then (Ok (), b)
       else op_must (xk_WithdrawValidatorCommission K ctx (Xv_Operator val)) b)"
  proof (cases "xk_CommissionIsZero K b (Xv_Operator val)")
    case True
    then obtain e where "xk_WithdrawValidatorCommission K ctx (Xv_Operator val) b = (Err e, b)"
      using assms unfolding export_hooks_succeed_def by blast
    with True show ?thesis by (simp add: ignore_err_def)
  next
    case False
    then have "fst (xk_WithdrawValidatorCommission K ctx (Xv_Operator val) b) \<noteq> Err e" for e
      using assms unfolding export_hooks_succeed_def by blast
    with False show ?thesis
      by (auto simp: ignore_err_def op_must_def split: prod.split res.split) (metis fst_conv)+
  qed
qed

lemma reinit_validators_agree:
  assumes "export_hooks_succeed K"
  shows "sim_reinit_validators K ctx b = reinit_validators K ctx b"
  unfolding sim_reinit_validators_def reinit_validators_def
proof (rule op_iterate_never_stops)
  fix val b
  have "fst (xk_AfterValidatorCreated K ctx a b) \<noteq> Err e" for a b e
    using assms by (simp add: export_hooks_succeed_def)
  then show "sim_reinit_validator K ctx val b =
      op_bind (\<lambda>b. let scraps = xk_OutstandingRewardsCoins K b (Xv_Operator val)
         in op_bind (op_lift (xk_AddCoins K (xk_CommunityPool K b) scraps)) (\<lambda>pool b.
              op_must (xk_AfterValidatorCreated K ctx (Xv_Operator val)) (xk_SetCommunityPool K pool b)) b)
        (\<lambda>_. op_lift (Ok False)) b"
    by (auto simp: sim_reinit_validator_def op_bind_def op_lift_def op_must_def Let_def
        split: prod.split res.split) (metis fst_conv)+
qed

lemma exports_agree:
  assumes "export_hooks_succeed K"
  shows "sim_ExportAppStateAndValidators K = ExportAppStateAndValidators K"
proof -
  have "sim_withdraw_commissions K = withdraw_commissions K" "sim_reinit_validators K = reinit_validators K"
    using withdraw_commissions_agree [OF assms] reinit_validators_agree [OF assms] by (auto simp: fun_eq_iff)
  then have "sim_prepForZeroHeightGenesis K = prepForZeroHeightGenesis K"
    by (intro ext) (simp only: sim_prepForZeroHeightGenesis_def prepForZeroHeightGenesis_def)
  then show ?thesis
    by (intro ext) (simp only: sim_ExportAppStateAndValidators_def ExportAppStateAndValidators_def)
qed

text \<open>Where the hook fails for the first validator, the application panics and this one leaves the others out.\<close>

lemma failing_hook_leaves_validators:
  assumes "xk_IterateValidators K b = v # vs" "xk_AddCoins K (xk_CommunityPool K b) (xk_OutstandingRewardsCoins K b (Xv_Operator v)) = Ok pool"
    and "xk_AfterValidatorCreated K ctx (Xv_Operator v) (xk_SetCommunityPool K pool b) = (Err e, b')"
  shows "sim_reinit_validators K ctx b = (Ok (), b')" "reinit_validators K ctx b = (Panic, b')"
  using assms
  by (simp_all add: sim_reinit_validators_def sim_reinit_validator_def reinit_validators_def op_bind_def op_lift_def
      op_must_def)

section \<open>Accounts of a genesis\<close>

record SimGenesisAccount =
  Sga_OriginalVesting :: Coins
  Sga_StartTime :: i64
  Sga_EndTime :: i64
  Sga_ModuleName :: string
  Sga_ModulePermissions :: "string list"

text \<open>The base account and the module account are checked by the SDK.\<close>

definition SimGenesisAccount_Validate ::
  "(Coins \<Rightarrow> bool) \<Rightarrow> unit res \<Rightarrow> (string \<Rightarrow> string list \<Rightarrow> unit res) \<Rightarrow> SimGenesisAccount \<Rightarrow> unit res" where
  "SimGenesisAccount_Validate IsZero base_Validate module_Validate sga =
     res_bind (if \<not> IsZero (Sga_OriginalVesting sga) \<and> sint (Sga_StartTime sga) \<ge> sint (Sga_EndTime sga)
               then Err (ErrPlain ''vesting start-time cannot be before end-time'') else Ok ()) (\<lambda>_.
     res_bind (if Sga_ModuleName sga \<noteq> [] then module_Validate (Sga_ModuleName sga) (Sga_ModulePermissions sga) else Ok ())
       (\<lambda>_. base_Validate))"

lemma SimGenesisAccount_Validate_Ok:
  "SimGenesisAccount_Validate iz bv mv sga = Ok () \<longleftrightarrow>
     (iz (Sga_OriginalVesting sga) \<or> sint (Sga_StartTime sga) < sint (Sga_EndTime sga)) \<and>
     (Sga_ModuleName sga = [] \<or> mv (Sga_ModuleName sga) (Sga_ModulePermissions sga) = Ok ()) \<and> bv = Ok ()"
  by (auto simp: SimGenesisAccount_Validate_def res_bind_eq_Ok split: if_splits)

text \<open>The genesis file with the supply of the bank; the node of the chain leaves the supply as it was.\<close>

record supplied_file =
  Sf_File :: genesis_file
  Sf_Supply :: Coins

definition centaurid_AddGenesisAccount ::
  "genesis_lib \<Rightarrow> string \<Rightarrow> string \<Rightarrow> i64 \<Rightarrow> i64 \<Rightarrow> string \<Rightarrow> (supplied_file, unit) op" where
  "centaurid_AddGenesisAccount G arg0 arg1 vestingStart vestingEnd vestingAmtStr =
     op_on Sf_File (\<lambda>f s. s\<lparr>Sf_File := f\<rparr>) (AddGenesisAccount G arg0 arg1 vestingStart vestingEnd vestingAmtStr)"

definition simd_AddGenesisAccount ::
  "genesis_lib \<Rightarrow> tg_lib \<Rightarrow> string \<Rightarrow> string \<Rightarrow> i64 \<Rightarrow> i64 \<Rightarrow> string \<Rightarrow> (supplied_file, unit) op" where
  "simd_AddGenesisAccount G T arg0 arg1 vestingStart vestingEnd vestingAmtStr s =
     (case (case gl_AccAddressFromBech32 G arg0 of Some addr \<Rightarrow> Some addr | None \<Rightarrow> gl_Keybase G arg0) of
        None \<Rightarrow> (Err (ErrPlain ''failed to get address from Keyring''), s)
      | Some addr \<Rightarrow>
          (case gl_ParseCoinsNormalized G arg1 of
             None \<Rightarrow> (Err (ErrPlain ''failed to parse coins''), s)
           | Some coins \<Rightarrow>
               (case gl_ParseCoinsNormalized G vestingAmtStr of
                  None \<Rightarrow> (Err (ErrPlain ''failed to parse vesting amount''), s)
                | Some vestingAmt \<Rightarrow>
                    (let balances = \<lparr>Gb_Address = gl_AccAddress_String G addr, Gb_Coins = gl_Sort G coins\<rparr>
                     in op_bind (op_lift (res_bind
                            (new_gen_account G addr (Gb_Coins balances) vestingAmt vestingStart vestingEnd)
                            (\<lambda>genAccount. res_bind (gl_Validate G genAccount) (\<lambda>_. Ok genAccount))))
                          (\<lambda>genAccount s.
                             if gl_Contains G (Gf_Accounts (Sf_File s)) addr
                             then (Err (ErrPlain ''cannot add account at existing address''), s)
                             else op_bind (op_lift (tg_Add T (Sf_Supply s) (Gb_Coins balances))) (\<lambda>supply s.
                               (Ok (), s\<lparr>Sf_File := (Sf_File s)\<lparr>
                                           Gf_Accounts := gl_SanitizeAccounts G (Gf_Accounts (Sf_File s) @ [genAccount]),
                                           Gf_Balances := gl_SanitizeBalances G (Gf_Balances (Sf_File s) @ [balances])\<rparr>,
                                         Sf_Supply := supply\<rparr>)) s) s))))"

text \<open>
  With a supply that is the sum of the balances, the command of \<open>simd\<close> keeps it so. That of the node does not: unless the
  account has no coins, the bank refuses the genesis, or the supply of the file is empty and the bank computes it.
\<close>

definition exact_supply :: "supplied_file \<Rightarrow> bool" where
  "exact_supply s \<longleftrightarrow> AmountOf (Sf_Supply s) = total_of (Gf_Balances (Sf_File s))"

definition keeps_totals :: "genesis_lib \<Rightarrow> bool" where
  "keeps_totals G \<longleftrightarrow> (\<forall>bs. total_of (gl_SanitizeBalances G bs) = total_of bs)"

definition file_accepted :: "supplied_file \<Rightarrow> bool" where
  "file_accepted s \<longleftrightarrow> bank_accepts \<lparr>Tb_Balances = Gf_Balances (Sf_File s), Tb_Supply = Sf_Supply s\<rparr>"

lemma simd_keeps_supply:
  assumes "keeps_totals G" "add_laws T" "exact_supply s"
    and "simd_AddGenesisAccount G T a0 a1 vs ve va s = (Ok (), s')"
  shows "exact_supply s' \<and> file_accepted s'"
proof -
  obtain addr coins new_supply accs where add: "tg_Add T (Sf_Supply s) (gl_Sort G coins) = Ok new_supply"
    and s': "s' = s\<lparr>Sf_File := (Sf_File s)\<lparr>Gf_Accounts := accs,
        Gf_Balances := gl_SanitizeBalances G (Gf_Balances (Sf_File s) @
          [\<lparr>Gb_Address = gl_AccAddress_String G addr, Gb_Coins = gl_Sort G coins\<rparr>])\<rparr>, Sf_Supply := new_supply\<rparr>"
    using assms(4)
    by (auto simp: simd_AddGenesisAccount_def Let_def op_bind_eq_Ok op_lift_def split: option.splits if_splits)
  have "exact_supply s'"
    using assms(1,3) add_lawsD [OF assms(2) add] by (simp add: s' exact_supply_def keeps_totals_def fun_eq_iff)
  then show ?thesis by (simp add: file_accepted_def bank_accepts_def exact_supply_def)
qed

lemma centaurid_breaks_supply:
  assumes "keeps_totals G" "exact_supply s" "Sf_Supply s \<noteq> []"
    and "gl_ParseCoinsNormalized G a1 = Some coins" "AmountOf (gl_Sort G coins) d \<noteq> 0"
    and "centaurid_AddGenesisAccount G a0 a1 vs ve va s = (Ok (), s')"
  shows "\<not> file_accepted s'"
proof -
  obtain addr f where f: "s' = s\<lparr>Sf_File := f\<rparr>"
    "Gf_Balances f = gl_SanitizeBalances G (Gf_Balances (Sf_File s) @
       [\<lparr>Gb_Address = gl_AccAddress_String G addr, Gb_Coins = gl_Sort G coins\<rparr>])"
    using assms(4,6)
    by (auto simp: centaurid_AddGenesisAccount_def op_on_def AddGenesisAccount_def Let_def op_bind_eq_Ok op_lift_def
        split: option.splits if_splits prod.splits)
  have "AmountOf (Sf_Supply s) d \<noteq> total_of (Gf_Balances f) d"
    using assms(1,2,5) by (simp add: f(2) exact_supply_def keeps_totals_def)
  then show ?thesis using assms(3) by (auto simp: file_accepted_def bank_accepts_def f(1))
qed

end
