(* ===== verification/Test_Accounts.thy ===== *)
theory Test_Accounts
  imports Test_Chain
begin

text \<open>
  Accounts, keys and funds of the tests (\<open>app/test_helpers.go\<close>): addresses and public keys from numbered hexadecimal
  strings, funding through the mint account, and the transactions that differ in their sequence only.
\<close>

section \<open>Hexadecimal\<close>

definition hex_val :: "char \<Rightarrow> nat option" where
  "hex_val c =
     (let n = of_char c :: nat
      in if 48 \<le> n \<and> n \<le> 57 then Some (n - 48)
         else if 97 \<le> n \<and> n \<le> 102 then Some (n - 87)
         else if 65 \<le> n \<and> n \<le> 70 then Some (n - 55)
         else None)"

text \<open>\<open>hex.DecodeString\<close>: an odd length is an error, as is any other character.\<close>

fun hex_DecodeString :: "string \<Rightarrow> bytes option" where
  "hex_DecodeString [] = Some []"
| "hex_DecodeString [c] = None"
| "hex_DecodeString (c # d # s) =
     (case (hex_val c, hex_val d) of
        (Some m, Some n) \<Rightarrow> map_option (\<lambda>bs. char_of (16 * m + n) # bs) (hex_DecodeString s)
      | _ \<Rightarrow> None)"

definition hex_upper :: "nat \<Rightarrow> char" where
  "hex_upper n = (if n < 10 then digit_char n else char_of (n + 55))"

text \<open>The verb \<open>%X\<close> on bytes.\<close>

fun print_hex :: "bytes \<Rightarrow> string" where
  "print_hex [] = []"
| "print_hex (b # bs) = (let n = of_char b :: nat in hex_upper (n div 16) # hex_upper (n mod 16) # print_hex bs)"

lemma hex_val_upper: "n < 16 \<Longrightarrow> hex_val (hex_upper n) = Some n"
  by (auto simp: hex_val_def hex_upper_def digit_char_def Let_def)

lemma hex_round_trip: "hex_DecodeString (print_hex bs) = Some bs"
proof (induction bs)
  case (Cons b bs)
  have "(of_char b :: nat) < 256" by (rule nat_of_char_less_256)
  then have "(of_char b :: nat) div 16 < 16" by (simp only: less_mult_imp_div_less)
  moreover have "(of_char b :: nat) mod 16 < 16" by simp
  ultimately have "(of_char b :: nat) div 16 < 16 \<and> (of_char b :: nat) mod 16 < 16" ..
  with Cons show ?case by (simp add: Let_def hex_val_upper)
qed simp

lemma hex_DecodeString_length: "hex_DecodeString s = Some bs \<Longrightarrow> length s = 2 * length bs"
  by (induction s arbitrary: bs rule: hex_DecodeString.induct) (auto split: option.splits)

lemma append_fun: "append [] = (\<lambda>t. t)" "append (x # xs) = (\<lambda>t. x # xs @ t)"
  by auto

lemma hex_DecodeString_append:
  "even (length s) \<Longrightarrow>
     hex_DecodeString (s @ t) =
       (case hex_DecodeString s of None \<Rightarrow> None | Some bs \<Rightarrow> map_option (append bs) (hex_DecodeString t))"
  by (induction s rule: hex_DecodeString.induct) (auto simp: option.map_comp comp_def append_fun option.map_ident split: option.splits)

lemma hex_val_char:
  "hex_val (CHR ''0'') = Some 0" "hex_val (CHR ''1'') = Some 1" "hex_val (CHR ''2'') = Some 2" "hex_val (CHR ''3'') = Some 3"
  "hex_val (CHR ''4'') = Some 4" "hex_val (CHR ''5'') = Some 5" "hex_val (CHR ''6'') = Some 6" "hex_val (CHR ''7'') = Some 7"
  "hex_val (CHR ''8'') = Some 8" "hex_val (CHR ''9'') = Some 9" "hex_val (CHR ''A'') = Some 10" "hex_val (CHR ''B'') = Some 11"
  "hex_val (CHR ''C'') = Some 12" "hex_val (CHR ''D'') = Some 13" "hex_val (CHR ''E'') = Some 14" "hex_val (CHR ''F'') = Some 15"
  by (simp_all add: hex_val_def)

lemma hex_val_digit: "d < 10 \<Longrightarrow> hex_val (digit_char d) = Some d"
  by (simp add: hex_val_def digit_char_def Let_def)

section \<open>Numbered addresses and keys\<close>

text \<open>Addresses of the SDK: from hexadecimal, to and from the Bech32 text.\<close>

record addr_lib =
  al_FromHexUnsafe :: "string \<Rightarrow> bytes res"
  al_String :: "bytes \<Rightarrow> string"
  al_FromBech32 :: "string \<Rightarrow> bytes res"

text \<open>The last branch returns an error that is nil beside an address that is nil.\<close>

definition TestAddr :: "addr_lib \<Rightarrow> string \<Rightarrow> string \<Rightarrow> bytes res" where
  "TestAddr A addr bech =
     res_bind (al_FromHexUnsafe A addr) (\<lambda>r.
     if bech \<noteq> al_String A r then Err (ErrPlain ''bech encoding does not match reference'')
     else res_bind (al_FromBech32 A bech) (\<lambda>bechres.
          if bechres \<noteq> r then Ok [] else Ok r))"

definition base_address :: string where
  "base_address = ''A58856F0FD53BF058B4909A21AEC019107BA6''"

definition incremental_account :: "addr_lib \<Rightarrow> nat \<Rightarrow> bytes res" where
  "incremental_account A i =
     (let buffer = base_address @ show_nat i in
      res_bind (require_NoError (al_FromHexUnsafe A buffer)) (\<lambda>r.
      require_NoError (TestAddr A buffer (al_String A r))))"

fun res_map :: "('a \<Rightarrow> 'b res) \<Rightarrow> 'a list \<Rightarrow> 'b list res" where
  "res_map f [] = Ok []"
| "res_map f (x # xs) = res_bind (f x) (\<lambda>y. res_bind (res_map f xs) (\<lambda>ys. Ok (y # ys)))"

definition createIncrementalAccounts :: "addr_lib \<Rightarrow> nat \<Rightarrow> bytes list res" where
  "createIncrementalAccounts A accNum = res_map (incremental_account A) [100..<accNum + 100]"

text \<open>\<open>fresh i\<close> is the address of the \<open>i\<close>-th key that is generated.\<close>

definition createRandomAccounts :: "(nat \<Rightarrow> bytes) \<Rightarrow> nat \<Rightarrow> bytes list" where
  "createRandomAccounts fresh accNum = map fresh [0..<accNum]"

definition NewPubKeyFromHex :: "string \<Rightarrow> bytes res" where
  "NewPubKeyFromHex pk =
     (case hex_DecodeString pk of
        None \<Rightarrow> Panic
      | Some pkBytes \<Rightarrow> if length pkBytes \<noteq> 32 then Panic else Ok pkBytes)"

definition base_pubkey :: string where
  "base_pubkey = ''0B485CFC0EECC619440448436F8FC9DF40566F2369E72400281454CB552AF''"

definition CreateTestPubKeys :: "nat \<Rightarrow> bytes list res" where
  "CreateTestPubKeys numPubKeys =
     res_map (\<lambda>i. NewPubKeyFromHex (base_pubkey @ show_nat i)) [100..<numPubKeys + 100]"

definition ConvertAddrsToValAddrs :: "bytes list \<Rightarrow> bytes list" where
  "ConvertAddrsToValAddrs addrs = map (\<lambda>addr. addr) addrs"

section \<open>Funds\<close>

definition FundAccount :: "'b bank \<Rightarrow> bytes \<Rightarrow> Coins \<Rightarrow> ('b, unit) op" where
  "FundAccount B addr amounts =
     op_bind (MintCoins B ''mint'' amounts) (\<lambda>_. SendCoinsFromModuleToAccount B ''mint'' addr amounts)"

definition tests_FundModuleAccount :: "'b bank \<Rightarrow> string \<Rightarrow> Coins \<Rightarrow> ('b, unit) op" where
  "tests_FundModuleAccount B recipientMod amounts =
     op_bind (MintCoins B ''mint'' amounts) (\<lambda>_. SendCoinsFromModuleToModule B ''mint'' recipientMod amounts)"

definition initAccountWithCoins :: "'b bank \<Rightarrow> Coins \<Rightarrow> bytes \<Rightarrow> ('b, unit) op" where
  "initAccountWithCoins B coins addr =
     op_bind (op_must (MintCoins B ''mint'' coins)) (\<lambda>_.
     op_must (SendCoinsFromModuleToAccount B ''mint'' addr coins))"

text \<open>The coins every account starts with.\<close>

definition init_coins :: "lib \<Rightarrow> string \<Rightarrow> int \<Rightarrow> Coins res" where
  "init_coins L bondDenom accAmt = res_bind (NewCoin L bondDenom accAmt) (\<lambda>c. NewCoins L [c])"

definition addTestAddrs :: "lib \<Rightarrow> 'b bank \<Rightarrow> string \<Rightarrow> nat \<Rightarrow> int \<Rightarrow> (nat \<Rightarrow> bytes list res) \<Rightarrow> ('b, bytes list) op" where
  "addTestAddrs L B bondDenom accNum accAmt strategy =
     op_bind (op_lift (strategy accNum)) (\<lambda>testAddrs.
     op_bind (op_lift (init_coins L bondDenom accAmt)) (\<lambda>initCoins.
     op_bind (op_each (initAccountWithCoins B initCoins) testAddrs) (\<lambda>_.
     op_lift (Ok testAddrs))))"

definition AddTestAddrs :: "lib \<Rightarrow> 'b bank \<Rightarrow> (nat \<Rightarrow> bytes) \<Rightarrow> string \<Rightarrow> nat \<Rightarrow> int \<Rightarrow> ('b, bytes list) op" where
  "AddTestAddrs L B fresh bondDenom accNum accAmt =
     addTestAddrs L B bondDenom accNum accAmt (\<lambda>n. Ok (createRandomAccounts fresh n))"

definition AddTestAddrsIncremental :: "lib \<Rightarrow> 'b bank \<Rightarrow> addr_lib \<Rightarrow> string \<Rightarrow> nat \<Rightarrow> int \<Rightarrow> ('b, bytes list) op" where
  "AddTestAddrsIncremental L B A bondDenom accNum accAmt =
     addTestAddrs L B bondDenom accNum accAmt (createIncrementalAccounts A)"

text \<open>\<open>address\<close> is the address of a public key.\<close>

definition AddTestAddrsFromPubKeys ::
  "lib \<Rightarrow> 'b bank \<Rightarrow> ('k \<Rightarrow> bytes) \<Rightarrow> string \<Rightarrow> 'k list \<Rightarrow> int \<Rightarrow> ('b, unit) op" where
  "AddTestAddrsFromPubKeys L B address bondDenom pubKeys accAmt =
     op_bind (op_lift (init_coins L bondDenom accAmt)) (\<lambda>initCoins.
     op_each (\<lambda>pk. initAccountWithCoins B initCoins (address pk)) pubKeys)"

section \<open>Transactions\<close>

definition incrementAllSequenceNumbers :: "u64 list \<Rightarrow> u64 list" where
  "incrementAllSequenceNumbers initSeqNums = map (\<lambda>n. n + 1) initSeqNums"

text \<open>
  \<open>sign\<close> is \<open>GenSignedMockTx\<close> with the arguments that do not change. The result has the transactions, the rest nil after
  an error, the error, and the sequence numbers of the caller, whose slice is written.
\<close>

fun GenSequenceOfTxs :: "(u64 list \<Rightarrow> 't res) \<Rightarrow> u64 list \<Rightarrow> nat \<Rightarrow> 't option list \<times> err option \<times> u64 list" where
  "GenSequenceOfTxs sign seqs 0 = ([], None, seqs)"
| "GenSequenceOfTxs sign seqs (Suc n) =
     (case sign seqs of
        Ok tx \<Rightarrow>
          (case GenSequenceOfTxs sign (incrementAllSequenceNumbers seqs) n of (txs, e, s) \<Rightarrow> (Some tx # txs, e, s))
      | Err e \<Rightarrow> (replicate (Suc n) None, Some e, seqs)
      | Panic \<Rightarrow> (replicate (Suc n) None, None, seqs))"

text \<open>
  \<open>SignCheckDeliver\<close> simulates the transaction first; otherwise it is \<open>SignAndDeliver\<close>. \<open>Encode\<close> and \<open>Simulate\<close> are of the
  application. \<open>sim_SignAndDeliver\<close> of the simulation application neither begins nor ends a block.
\<close>

definition expected :: "bool \<Rightarrow> 'r res \<Rightarrow> unit res" where
  "expected pass r = (case r of Ok _ \<Rightarrow> require pass | Err _ \<Rightarrow> require (\<not> pass) | Panic \<Rightarrow> Panic)"

definition mock_tx :: "u64 \<Rightarrow> Msg list \<Rightarrow> string \<Rightarrow> u64 list \<Rightarrow> u64 list \<Rightarrow> bytes list \<Rightarrow> Tx" where
  "mock_tx gas msgs chainID accNums accSeqs priv =
     \<lparr>Tx_Msgs = msgs, Tx_FeeAmt = [\<lparr>Coin_Denom = ''stake'', Coin_Amount = 0\<rparr>], Tx_Gas = gas,
      Tx_ChainID = chainID, Tx_AccNums = accNums, Tx_AccSeqs = accSeqs, Tx_Priv = priv\<rparr>"

definition SignCheckDeliver ::
  "'a test_env \<Rightarrow> (Tx \<Rightarrow> bytes res) \<Rightarrow> (bytes \<Rightarrow> ('a, Event list) op) \<Rightarrow> Header \<Rightarrow> Msg list \<Rightarrow> string \<Rightarrow> u64 list \<Rightarrow> u64 list \<Rightarrow>
   bool \<Rightarrow> bool \<Rightarrow> bytes list \<Rightarrow> ('a, Event list) op" where
  "SignCheckDeliver E Encode Simulate header msgs chainID accNums accSeqs expSimPass expPass priv app =
     (let tx = mock_tx (2 * DefaultGas) msgs chainID accNums accSeqs priv in
      if \<not> te_signs E tx then (Panic, app)
      else
        op_bind (op_lift (require_NoError (Encode tx))) (\<lambda>txBytes app.
          case Simulate txBytes app of
            (r, app) \<Rightarrow>
              op_bind (op_lift (expected expSimPass r)) (\<lambda>_.
                SignAndDeliver E header msgs chainID accNums accSeqs expPass priv) app) app)"

definition sim_SignAndDeliver ::
  "'a test_env \<Rightarrow> u64 \<Rightarrow> Msg list \<Rightarrow> string \<Rightarrow> u64 list \<Rightarrow> u64 list \<Rightarrow> bool \<Rightarrow> bytes list \<Rightarrow> ('a, Event list) op" where
  "sim_SignAndDeliver E DefaultGenTxGas msgs chainID accNums accSeqs expPass priv app =
     (let tx = mock_tx DefaultGenTxGas msgs chainID accNums accSeqs priv in
      if \<not> te_signs E tx then (Panic, app)
      else case te_SimDeliver E tx app of
             (r, app) \<Rightarrow> op_bind (op_lift (expected expPass r)) (\<lambda>_. op_lift r) app)"

section \<open>Numbered accounts\<close>

text \<open>
  The number has three digits, and the base is short of three: from 100 up to 999 the address has 20 bytes and the key 32. From
  1000 on the string has an odd length, so that at most 900 accounts can be asked for, not the 999 of the comment.
\<close>

lemma show_nat_3:
  assumes "100 \<le> n" "n < 1000"
  shows "show_nat n = [digit_char (n div 100), digit_char (n div 10 mod 10), digit_char (n mod 10)]"
proof -
  have "n div 10 div 10 = n div 100" "n div 100 < 10" "\<not> n < 10" "\<not> n div 10 < 10"
    using assms by (simp_all add: div_mult2_eq [symmetric] less_mult_imp_div_less)
  then show ?thesis by (simp add: show_nat.simps [of n] show_nat.simps [of "n div 10"] show_nat.simps [of "n div 100"])
qed

definition address_of :: "nat \<Rightarrow> bytes" where
  "address_of n =
     the (hex_DecodeString (take 36 base_address)) @ [char_of (96 + n div 100), char_of (16 * (n div 10 mod 10) + n mod 10)]"

lemma show_nat_1000: "show_nat 1000 = ''1000''"
  by (simp add: show_nat.simps digit_char_def) code_simp

definition key_of :: "nat \<Rightarrow> bytes" where
  "key_of n =
     the (hex_DecodeString (take 60 base_pubkey)) @ [char_of (240 + n div 100), char_of (16 * (n div 10 mod 10) + n mod 10)]"

lemma numbered_decoded:
  assumes "100 \<le> n" "n < 1000"
  shows "hex_DecodeString (base_address @ show_nat n) = Some (address_of n)"
    and "hex_DecodeString (base_pubkey @ show_nat n) = Some (key_of n)"
proof -
  have "n div 100 < 10" using assms by (simp add: less_mult_imp_div_less)
  with assms show "hex_DecodeString (base_address @ show_nat n) = Some (address_of n)"
    and "hex_DecodeString (base_pubkey @ show_nat n) = Some (key_of n)"
    by (simp_all add: show_nat_3 base_address_def address_of_def base_pubkey_def key_of_def hex_val_digit hex_val_char)
qed

lemma beyond_999:
  "hex_DecodeString (base_address @ ''1000'') = None" "hex_DecodeString (base_pubkey @ ''1000'') = None"
  by (simp_all add: base_address_def base_pubkey_def hex_val_char)

lemma numbered_length: "length (address_of n) = 20" "length (key_of n) = 32"
  by (simp_all add: address_of_def key_of_def base_address_def base_pubkey_def hex_val_char)

lemma low_byte:
  assumes "a < 10" "b < 10" "c < 10" "d < 10"
    and "(char_of (16 * a + b :: nat) :: char) = char_of (16 * c + d)"
  shows "a = c" "b = d"
proof -
  have "16 * a + b = 16 * c + d" using assms by simp
  from arg_cong [OF this, of "\<lambda>x. x div 16"] arg_cong [OF this, of "\<lambda>x. x mod 16"] assms(1-4)
  show "a = c" "b = d" by simp_all
qed

lemma high_byte:
  assumes "a < 10" "c < 10" "k < 246" and "(char_of (k + a :: nat) :: char) = char_of (k + c)"
  shows "a = c"
  using assms by simp

lemma three_digits_eq:
  assumes "(m::nat) div 100 = n div 100" "m div 10 mod 10 = n div 10 mod 10" "m mod 10 = n mod 10"
  shows "m = n"
proof -
  have "k = (10 * (k div 100) + k div 10 mod 10) * 10 + k mod 10" for k :: nat
    using div_mult_mod_eq [of k 10] div_mult_mod_eq [of "k div 10" 10] by (simp add: div_mult2_eq [symmetric] mult.commute)
  from this [of m] this [of n] assms show ?thesis by simp
qed

lemma numbered_distinct: "inj_on address_of {100..<1000}" "inj_on key_of {100..<1000}"
proof -
  have *: "m = n"
    if "m < 1000" "n < 1000" "k < 246" and high: "(char_of (k + m div 100) :: char) = char_of (k + n div 100)"
      and low: "(char_of (16 * (m div 10 mod 10) + m mod 10) :: char) = char_of (16 * (n div 10 mod 10) + n mod 10)"
    for m n k :: nat
  proof -
    have "m div 100 < 10" "n div 100 < 10" using that by (simp_all add: less_mult_imp_div_less)
    then have "m div 100 = n div 100" by (rule high_byte [OF _ _ \<open>k < 246\<close> high])
    moreover have "m div 10 mod 10 = n div 10 mod 10" by (rule low_byte(1) [OF _ _ _ _ low]) simp_all
    moreover have "m mod 10 = n mod 10" by (rule low_byte(2) [OF _ _ _ _ low]) simp_all
    ultimately show ?thesis by (rule three_digits_eq)
  qed
  show "inj_on address_of {100..<1000}" by (rule inj_onI, rule * [where k = 96]) (simp_all add: address_of_def del: char_of_quasi_inj)
  show "inj_on key_of {100..<1000}" by (rule inj_onI, rule * [where k = 240]) (simp_all add: key_of_def del: char_of_quasi_inj)
qed

text \<open>The laws of the addresses: hexadecimal is read as \<open>encoding/hex\<close> does, and a Bech32 text is read back.\<close>

definition hex_addr_laws :: "addr_lib \<Rightarrow> bool" where
  "hex_addr_laws A \<longleftrightarrow>
     (\<forall>s. al_FromHexUnsafe A s =
        (case hex_DecodeString s of
           None \<Rightarrow> Err (ErrPlain ''encoding/hex'')
         | Some b \<Rightarrow> if b = [] then Err (ErrPlain ''decoding address from hex string failed: empty address'') else Ok b)) \<and>
     (\<forall>b. length b = 20 \<longrightarrow> al_FromBech32 A (al_String A b) = Ok b)"

lemma incremental_account_Ok:
  assumes "hex_addr_laws A" "100 \<le> i" "i < 1000"
  shows "incremental_account A i = Ok (address_of i)"
proof -
  have "address_of i \<noteq> []" by (simp add: address_of_def)
  with assms show ?thesis
    by (simp add: incremental_account_def TestAddr_def hex_addr_laws_def numbered_decoded numbered_length require_NoError.simps Let_def)
qed

lemma res_map_Ok: "(\<And>x. x \<in> set xs \<Longrightarrow> f x = Ok (g x)) \<Longrightarrow> res_map f xs = Ok (map g xs)"
  by (induction xs) simp_all

lemma res_map_append: "res_map f (xs @ ys) = res_bind (res_map f xs) (\<lambda>us. res_bind (res_map f ys) (\<lambda>vs. Ok (us @ vs)))"
proof (induction xs)
  case Nil
  show ?case by (cases "res_map f ys") simp_all
next
  case (Cons x xs)
  then show ?case by (simp add: res_bind_assoc)
qed

lemma res_map_first_panic:
  assumes "\<And>i. \<lbrakk>a \<le> i; i < k\<rbrakk> \<Longrightarrow> f i = Ok (g i)" "f k = Panic" "a \<le> k" "k < n"
  shows "res_map f [a..<n] = Panic"
proof -
  have "[a..<n] = [a..<k] @ k # [Suc k..<n]"
    using assms(3,4) upt_add_eq_append [of a k "n - k"] by (simp add: upt_conv_Cons)
  moreover have "res_map f [a..<k] = Ok (map g [a..<k])" using assms(1) by (intro res_map_Ok) simp
  ultimately show ?thesis using assms(2) by (simp add: res_map_append)
qed

lemma createIncrementalAccounts_cases:
  assumes "hex_addr_laws A"
  shows "createIncrementalAccounts A n = (if n \<le> 900 then Ok (map address_of [100..<n + 100]) else Panic)"
proof -
  have "incremental_account A 1000 = Panic"
    using assms
    by (simp add: incremental_account_def hex_addr_laws_def show_nat_1000 beyond_999 require_NoError.simps Let_def)
  then show ?thesis
    using assms
    by (auto simp: createIncrementalAccounts_def intro!: res_map_Ok incremental_account_Ok
        res_map_first_panic [where k = 1000 and g = address_of])
qed

lemma CreateTestPubKeys_cases: "CreateTestPubKeys n = (if n \<le> 900 then Ok (map key_of [100..<n + 100]) else Panic)"
proof -
  have "NewPubKeyFromHex (base_pubkey @ show_nat i) = Ok (key_of i)" if "100 \<le> i" "i < 1000" for i
    using that by (simp add: NewPubKeyFromHex_def numbered_decoded numbered_length)
  moreover have "NewPubKeyFromHex (base_pubkey @ show_nat 1000) = Panic"
    by (simp add: NewPubKeyFromHex_def show_nat_1000 beyond_999)
  ultimately show ?thesis
    by (auto simp: CreateTestPubKeys_def intro!: res_map_Ok res_map_first_panic [where k = 1000 and g = key_of])
qed

text \<open>The \<open>k\<close>-th transaction is signed with every sequence number \<open>k\<close> higher, modulo \<open>2\<^sup>6\<^sup>4\<close>.\<close>

lemma GenSequenceOfTxs_Ok:
  assumes "\<And>seqs. sign seqs = Ok (tx seqs)"
  shows "GenSequenceOfTxs sign seqs n =
    (map (\<lambda>k. Some (tx (map (\<lambda>s. s + of_nat k) seqs))) [0..<n], None, map (\<lambda>s. s + of_nat n) seqs)"
proof (induction n arbitrary: seqs)
  case 0
  show ?case by (simp add: map_idI)
next
  case (Suc n)
  have "[0..<Suc n] = 0 # map Suc [0..<n]" by (simp add: map_Suc_upt upt_conv_Cons)
  then show ?case by (simp add: Suc assms [of seqs] incrementAllSequenceNumbers_def comp_def add.assoc)
qed

lemma GenSequenceOfTxs_length: "length (fst (GenSequenceOfTxs sign seqs n)) = n"
  by (induction sign seqs n rule: GenSequenceOfTxs.induct) (auto split: res.splits prod.splits)

section \<open>What funding does\<close>

text \<open>Every account listed gets the coins once per occurrence, and all of them are new: the mint account keeps what it had.\<close>

definition funded :: "'b bank \<Rightarrow> Coins \<Rightarrow> bytes list \<Rightarrow> 'b \<Rightarrow> 'b \<Rightarrow> bool" where
  "funded B coins addrs b b' \<longleftrightarrow>
     (\<forall>a d. GetBalance B b' a d = GetBalance B b a d + int (count_list addrs a) * AmountOf coins d) \<and>
     (\<forall>d. GetSupply B b' d = GetSupply B b d + int (length addrs) * AmountOf coins d)"

lemma initAccountWithCoins_funds:
  assumes B: "bank_laws B mac" and ok: "initAccountWithCoins B coins addr b = (Ok u, b')"
  shows "funded B coins [addr] b b'"
proof -
  obtain c where m: "MintCoins B ''mint'' coins b = (Ok (), c)" and s: "SendCoinsFromModuleToAccount B ''mint'' addr coins c = (Ok (), b')"
    using ok by (auto simp: initAccountWithCoins_def op_bind_eq_Ok)
  from bank_laws_dests(5) [OF B m] bank_laws_dests(2) [OF B s] show ?thesis by (auto simp: funded_def issued_def moved_def)
qed

lemma funded_Cons: "funded B coins [a] b c \<Longrightarrow> funded B coins as c b' \<Longrightarrow> funded B coins (a # as) b b'"
  by (simp add: funded_def algebra_simps)

lemma accounts_funded:
  assumes B: "bank_laws B mac" and "op_each (initAccountWithCoins B coins) addrs b = (Ok (), b')"
  shows "funded B coins addrs b b'"
  using assms(2)
proof (induction addrs arbitrary: b)
  case Nil
  then show ?case by (simp add: funded_def)
next
  case (Cons a as)
  then obtain u c where "initAccountWithCoins B coins a b = (Ok u, c)" "op_each (initAccountWithCoins B coins) as c = (Ok (), b')"
    by (auto split: prod.splits res.splits)
  then show ?case by (intro funded_Cons [OF initAccountWithCoins_funds [OF B] Cons.IH])
qed

lemma addTestAddrs_OkE:
  assumes "addTestAddrs L B bondDenom n amt strategy b = (Ok addrs, b')"
  obtains coins where "strategy n = Ok addrs" "init_coins L bondDenom amt = Ok coins"
    "op_each (initAccountWithCoins B coins) addrs b = (Ok (), b')"
proof -
  from assms obtain a s' coins s'' u t where "strategy n = Ok a" "s' = b" "init_coins L bondDenom amt = Ok coins" "s'' = s'"
    "op_each (initAccountWithCoins B coins) a s'' = (Ok u, t)" "addrs = a" "b' = t"
    unfolding addTestAddrs_def op_bind_eq_Ok op_lift_eq by (elim exE conjE) (metis res.inject(1))
  with that show ?thesis by simp
qed

lemma AddTestAddrsIncremental_funds:
  assumes B: "bank_laws B mac" and A: "hex_addr_laws A"
    and ok: "AddTestAddrsIncremental L B A bondDenom n amt b = (Ok addrs, b')"
  shows "n \<le> 900" "addrs = map address_of [100..<n + 100]" "distinct addrs"
    and "\<exists>coins. init_coins L bondDenom amt = Ok coins \<and> funded B coins addrs b b'"
proof -
  from ok obtain coins where s: "createIncrementalAccounts A n = Ok addrs" and c: "init_coins L bondDenom amt = Ok coins"
    and e: "op_each (initAccountWithCoins B coins) addrs b = (Ok (), b')"
    unfolding AddTestAddrsIncremental_def by (rule addTestAddrs_OkE)
  from s show n: "n \<le> 900" and a: "addrs = map address_of [100..<n + 100]"
    by (auto simp: createIncrementalAccounts_cases [OF A] split: if_splits)
  show "distinct addrs" using n by (auto simp: a distinct_map intro: inj_on_subset [OF numbered_distinct(1)])
  show "\<exists>coins. init_coins L bondDenom amt = Ok coins \<and> funded B coins addrs b b'"
    using c accounts_funded [OF B e] by blast
qed

end
