(* ===== verification/Simapp_Sim.thy ===== *)
theory Simapp_Sim
  imports Simapp_State Test_Accounts
begin

text \<open>
  The simulations of the simulation application: the flags and the configuration (\<open>config.go\<close>), the set-up, the export
  and the log of a comparison of stores (\<open>utils.go\<close>), and the state a simulation starts from (\<open>state.go\<close>).
\<close>

section \<open>Flags and configuration\<close>

record sim_flags =
  GenesisFileValue :: string
  ParamsFileValue :: string
  ExportParamsPathValue :: string
  ExportParamsHeightValue :: int
  ExportStatePathValue :: string
  ExportStatsPathValue :: string
  SeedValue :: i64
  InitialBlockHeightValue :: int
  NumBlocksValue :: int
  BlockSizeValue :: int
  LeanValue :: bool
  CommitValue :: bool
  OnOperationValue :: bool
  AllInvariantsValue :: bool
  EnabledValue :: bool
  VerboseValue :: bool
  PeriodValue :: nat
  GenesisTimeValue :: i64

text \<open>The values of the flags that are not given.\<close>

definition SimulatorFlags :: sim_flags where
  "SimulatorFlags =
     \<lparr>GenesisFileValue = [], ParamsFileValue = [], ExportParamsPathValue = [], ExportParamsHeightValue = 0,
      ExportStatePathValue = [], ExportStatsPathValue = [], SeedValue = 42, InitialBlockHeightValue = 1,
      NumBlocksValue = 500, BlockSizeValue = 200, LeanValue = False, CommitValue = False, OnOperationValue = False,
      AllInvariantsValue = False, EnabledValue = False, VerboseValue = False, PeriodValue = 0, GenesisTimeValue = 0\<rparr>"

text \<open>The configuration of the SDK; the chain and the database have no flag.\<close>

record sim_config =
  Cfg_GenesisFile :: string
  Cfg_ParamsFile :: string
  Cfg_ExportParamsPath :: string
  Cfg_ExportParamsHeight :: int
  Cfg_ExportStatePath :: string
  Cfg_ExportStatsPath :: string
  Cfg_Seed :: i64
  Cfg_InitialBlockHeight :: int
  Cfg_NumBlocks :: int
  Cfg_BlockSize :: int
  Cfg_ChainID :: string
  Cfg_Lean :: bool
  Cfg_Commit :: bool
  Cfg_OnOperation :: bool
  Cfg_AllInvariants :: bool
  Cfg_DBBackend :: string

definition NewConfigFromFlags :: "sim_flags \<Rightarrow> sim_config" where
  "NewConfigFromFlags f =
     \<lparr>Cfg_GenesisFile = GenesisFileValue f, Cfg_ParamsFile = ParamsFileValue f,
      Cfg_ExportParamsPath = ExportParamsPathValue f, Cfg_ExportParamsHeight = ExportParamsHeightValue f,
      Cfg_ExportStatePath = ExportStatePathValue f, Cfg_ExportStatsPath = ExportStatsPathValue f,
      Cfg_Seed = SeedValue f, Cfg_InitialBlockHeight = InitialBlockHeightValue f, Cfg_NumBlocks = NumBlocksValue f,
      Cfg_BlockSize = BlockSizeValue f, Cfg_ChainID = [], Cfg_Lean = LeanValue f, Cfg_Commit = CommitValue f,
      Cfg_OnOperation = OnOperationValue f, Cfg_AllInvariants = AllInvariantsValue f, Cfg_DBBackend = []\<rparr>"

section \<open>Set-up and export\<close>

text \<open>
  \<open>MkdirTemp\<close> and \<open>NewDB\<close> are of the operating system and of the database library. Without the flag the simulation is
  skipped.
\<close>

datatype ('d, 'db) sim_setup = Skipped | Ready sim_config 'db 'd bool

definition SetupSimulation ::
  "(string \<Rightarrow> 'd res) \<Rightarrow> (string \<Rightarrow> string \<Rightarrow> 'd \<Rightarrow> 'db res) \<Rightarrow> sim_flags \<Rightarrow> string \<Rightarrow> string \<Rightarrow> ('d, 'db) sim_setup res" where
  "SetupSimulation MkdirTemp NewDB flags dirPrefix dbName =
     (if \<not> EnabledValue flags then Ok Skipped
      else
        let config = (NewConfigFromFlags flags)\<lparr>Cfg_ChainID := ''simulation-app''\<rparr> in
        res_bind (MkdirTemp dirPrefix) (\<lambda>dir.
        res_bind (NewDB dbName (Cfg_DBBackend config) dir) (\<lambda>db.
        Ok (Ready config db dir (VerboseValue flags)))))"

text \<open>\<open>Write\<close> writes a file; the state is that of the application and of the files.\<close>

definition CheckExportSimulation ::
  "('w, ('v, 'p) ExportedApp) op \<Rightarrow> (string \<Rightarrow> bytes \<Rightarrow> ('w, unit) op) \<Rightarrow> ('q \<Rightarrow> bytes res) \<Rightarrow> sim_config \<Rightarrow> 'q \<Rightarrow>
   ('w, unit) op" where
  "CheckExportSimulation export Write MarshalIndent config simParams =
     op_bind (if Cfg_ExportStatePath config \<noteq> []
              then op_bind export (\<lambda>exported. Write (Cfg_ExportStatePath config) (Xa_AppState exported))
              else op_lift (Ok ())) (\<lambda>_.
     if Cfg_ExportParamsPath config \<noteq> []
     then op_bind (op_lift (MarshalIndent simParams)) (\<lambda>paramsBz. Write (Cfg_ExportParamsPath config) paramsBz)
     else op_lift (Ok ()))"

section \<open>Log of a comparison\<close>

record kv_pair =
  Kv_Key :: bytes
  Kv_Value :: bytes

definition two_stores :: "kv_pair \<Rightarrow> kv_pair \<Rightarrow> string" where
  "two_stores a b =
     ''store A '' @ print_hex (Kv_Key a) @ '' => '' @ print_hex (Kv_Value a) @ [CHR 0x0A] @
     ''store B '' @ print_hex (Kv_Key b) @ '' => '' @ print_hex (Kv_Value b) @ [CHR 0x0A]"

text \<open>The loop runs over the first list; an index behind the end of the second panics.\<close>

fun GetSimulationLog ::
  "string \<Rightarrow> (string \<rightharpoonup> (kv_pair \<Rightarrow> kv_pair \<Rightarrow> string)) \<Rightarrow> kv_pair list \<Rightarrow> kv_pair list \<Rightarrow> string \<Rightarrow> string res" where
  "GetSimulationLog storeName sdr [] kvBs log = Ok log"
| "GetSimulationLog storeName sdr (a # kvAs) [] log = Panic"
| "GetSimulationLog storeName sdr (a # kvAs) (b # kvBs) log =
     (if length (Kv_Value a) = 0 \<and> length (Kv_Value b) = 0 then GetSimulationLog storeName sdr kvAs kvBs log
      else GetSimulationLog storeName sdr kvAs kvBs
             (log @ (case sdr storeName of Some decoder \<Rightarrow> decoder a b | None \<Rightarrow> two_stores a b)))"

section \<open>State a simulation starts from\<close>

text \<open>
  The parts of a genesis the code reads: the validators and the bond denomination of the staking module, the balances of
  the bank; the rest of both is kept as it is. \<open>'r\<close> is the source of random numbers, \<open>'p\<close> a parameter file.
\<close>

record sim_staking =
  Ss_Validators :: "tg_Validator list"
  Ss_BondDenom :: string

record sim_doc =
  Sd_GenesisTime :: gotime
  Sd_ChainID :: string
  Sd_AppState :: bytes

record sim_Account =
  Sm_PrivKey :: bytes
  Sm_PubKey :: bytes
  Sm_Address :: bytes

record ('r, 'p, 's, 'b) sim_lib =
  sl_ReadFile :: "string \<Rightarrow> bytes res"
  sl_UnmarshalState :: "bytes \<Rightarrow> GenesisState option"
  sl_MarshalState :: "GenesisState \<Rightarrow> bytes res"
  sl_UnmarshalParams :: "bytes \<Rightarrow> 'p option"
  sl_no_params :: 'p
  sl_UnmarshalDoc :: "bytes \<Rightarrow> sim_doc option"
  sl_UnmarshalStaking :: "bytes \<Rightarrow> 's sim_staking_scheme option"
  sl_StakingJSON :: "'s sim_staking_scheme \<Rightarrow> bytes"
  sl_UnmarshalBank :: "bytes \<Rightarrow> 'b tg_bank_scheme option"
  sl_BankJSON :: "'b tg_bank_scheme \<Rightarrow> bytes"
  sl_auth_accounts :: "bytes \<Rightarrow> bytes option list option"
  sl_RandTimestamp :: "'r \<Rightarrow> gotime \<times> 'r"
  sl_Int63n :: "int \<Rightarrow> 'r \<Rightarrow> int \<times> 'r"
  sl_Intn :: "int \<Rightarrow> 'r \<Rightarrow> int \<times> 'r"
  sl_GetOrGenerate :: "'p \<Rightarrow> string \<Rightarrow> ('r \<Rightarrow> int \<times> 'r) \<Rightarrow> 'r \<Rightarrow> int \<times> 'r"
  sl_Read :: "nat \<Rightarrow> ('r, bytes) op"
  sl_GenPrivKeyFromSecret :: "bytes \<Rightarrow> bytes \<times> bytes"
  sl_ModuleAddress :: "string \<Rightarrow> string"

definition or_panic :: "'a option \<Rightarrow> ('r, 'a) op" where
  "or_panic m = op_lift (case m of Some a \<Rightarrow> Ok a | None \<Rightarrow> Panic)"

definition read_file :: "('r, 'p, 's, 'b) sim_lib \<Rightarrow> string \<Rightarrow> ('r, bytes) op" where
  "read_file S f = op_lift (require_NoError (sl_ReadFile S f))"

definition drawn :: "('r \<Rightarrow> 'a \<times> 'r) \<Rightarrow> ('r, 'a) op" where
  "drawn f r = apfst Ok (f r)"

text \<open>The random genesis; \<open>generate\<close> is the simulation manager, which fills the state the modules share.\<close>

definition AppStateRandomizedFn ::
  "('r, 'p, 's, 'b) sim_lib \<Rightarrow> ('p \<Rightarrow> int \<Rightarrow> int \<Rightarrow> gotime \<Rightarrow> sim_Account list \<Rightarrow> GenesisState \<Rightarrow> ('r, GenesisState) op) \<Rightarrow>
   GenesisState \<Rightarrow> sim_Account list \<Rightarrow> gotime \<Rightarrow> 'p \<Rightarrow> ('r, bytes \<times> sim_Account list) op" where
  "AppStateRandomizedFn S generate NewDefaultGenesisState accs genesisTimestamp appParams =
     op_bind (drawn (sl_GetOrGenerate S appParams ''stake_per_account'' (sl_Int63n S (10 ^ 12)))) (\<lambda>initialStake.
     op_bind (drawn (sl_GetOrGenerate S appParams ''initially_bonded_validators'' (sl_Intn S 300))) (\<lambda>numInitiallyBonded.
     let numInitiallyBonded = min numInitiallyBonded (int (length accs)) in
     op_bind (generate appParams initialStake numInitiallyBonded genesisTimestamp accs NewDefaultGenesisState) (\<lambda>genesisState.
     op_bind (op_lift (require_NoError (sl_MarshalState S genesisState))) (\<lambda>appState.
     op_lift (Ok (appState, accs))))))"

text \<open>Accounts of a genesis file get random keys, since theirs are not known.\<close>

fun simulator_accounts :: "('r, 'p, 's, 'b) sim_lib \<Rightarrow> bytes option list \<Rightarrow> ('r, sim_Account list) op" where
  "simulator_accounts S [] = op_lift (Ok [])"
| "simulator_accounts S (acc # accs) =
     op_bind (op_must (sl_Read S 15)) (\<lambda>privkeySeed.
     op_bind (or_panic acc) (\<lambda>addr.
     let privKey = sl_GenPrivKeyFromSecret S privkeySeed in
     op_bind (simulator_accounts S accs) (\<lambda>newAccs.
     op_lift (Ok (\<lparr>Sm_PrivKey = fst privKey, Sm_PubKey = snd privKey, Sm_Address = addr\<rparr> # newAccs)))))"

definition AppStateFromGenesisFileFn ::
  "('r, 'p, 's, 'b) sim_lib \<Rightarrow> string \<Rightarrow> ('r, sim_doc \<times> sim_Account list) op" where
  "AppStateFromGenesisFileFn S genesisFile =
     op_bind (read_file S genesisFile) (\<lambda>bz.
     op_bind (or_panic (sl_UnmarshalDoc S bz)) (\<lambda>genesis.
     op_bind (or_panic (sl_UnmarshalState S (Sd_AppState genesis))) (\<lambda>appState.
     op_bind (case appState ''auth'' of None \<Rightarrow> op_lift (Ok []) | Some bz \<Rightarrow> or_panic (sl_auth_accounts S bz)) (\<lambda>accs.
     op_bind (simulator_accounts S accs) (\<lambda>newAccs.
     op_lift (Ok (genesis, newAccs)))))))"

definition notBondedTokens :: "tg_Validator list \<Rightarrow> int" where
  "notBondedTokens validators =
     fold (\<lambda>val n. if Tv_Status val \<noteq> BondStatus_Unbonded then n else n + Tv_Tokens val) validators 0"

text \<open>The balance of the pool of tokens that are not bonded is appended to those of the bank.\<close>

definition add_not_bonded_pool ::
  "lib \<Rightarrow> ('r, 'p, 's, 'b) sim_lib \<Rightarrow> 's sim_staking_scheme \<Rightarrow> 'b tg_bank_scheme \<Rightarrow> 'b tg_bank_scheme res" where
  "add_not_bonded_pool L S stakingState bankState =
     res_bind (NewCoin L (Ss_BondDenom stakingState) (notBondedTokens (Ss_Validators stakingState))) (\<lambda>notBondedCoins.
     res_bind (NewCoins L [notBondedCoins]) (\<lambda>coins.
     Ok (bankState\<lparr>Tb_Balances := Tb_Balances bankState @
           [\<lparr>Gb_Address = sl_ModuleAddress S ''not_bonded_tokens_pool'', Gb_Coins = coins\<rparr>]\<rparr>)))"

definition with_not_bonded_pool ::
  "lib \<Rightarrow> ('r, 'p, 's, 'b) sim_lib \<Rightarrow> bytes \<Rightarrow> ('r, bytes) op" where
  "with_not_bonded_pool L S appState =
     op_bind (or_panic (sl_UnmarshalState S appState)) (\<lambda>rawState.
     op_bind (op_bind (or_panic (rawState ''staking'')) (\<lambda>bz. or_panic (sl_UnmarshalStaking S bz))) (\<lambda>stakingState.
     op_bind (op_bind (or_panic (rawState ''bank'')) (\<lambda>bz. or_panic (sl_UnmarshalBank S bz))) (\<lambda>bankState.
     op_bind (op_lift (add_not_bonded_pool L S stakingState bankState)) (\<lambda>bankState.
     op_lift (require_NoError (sl_MarshalState S
       (rawState(''staking'' \<mapsto> sl_StakingJSON S stakingState, ''bank'' \<mapsto> sl_BankJSON S bankState))))))))"

text \<open>State, accounts, chain and time; \<open>unix\<close> is a number of seconds since 1970.\<close>

definition AppStateFn ::
  "lib \<Rightarrow> ('r, 'p, 's, 'b) sim_lib \<Rightarrow> ('p \<Rightarrow> int \<Rightarrow> int \<Rightarrow> gotime \<Rightarrow> sim_Account list \<Rightarrow> GenesisState \<Rightarrow> ('r, GenesisState) op) \<Rightarrow>
   GenesisState \<Rightarrow> i64 \<Rightarrow> sim_Account list \<Rightarrow> sim_config \<Rightarrow> ('r, bytes \<times> sim_Account list \<times> string \<times> gotime) op" where
  "AppStateFn L S generate NewDefaultGenesisState genesisTime accs config =
     op_bind (if genesisTime = 0 then drawn (sl_RandTimestamp S)
              else op_lift (Ok (unix_epoch + sint genesisTime * 10 ^ 9))) (\<lambda>genesisTimestamp.
     op_bind
       (if Cfg_ParamsFile config \<noteq> [] \<and> Cfg_GenesisFile config \<noteq> [] then op_lift Panic
        else if Cfg_GenesisFile config \<noteq> [] then
          op_bind (AppStateFromGenesisFileFn S (Cfg_GenesisFile config)) (\<lambda>(genesisDoc, accounts).
          op_lift (Ok (Sd_AppState genesisDoc, accounts, Sd_ChainID genesisDoc,
                       if genesisTime = 0 then Sd_GenesisTime genesisDoc else genesisTimestamp)))
        else
          op_bind (if Cfg_ParamsFile config \<noteq> []
                   then op_bind (read_file S (Cfg_ParamsFile config)) (\<lambda>bz. or_panic (sl_UnmarshalParams S bz))
                   else op_lift (Ok (sl_no_params S))) (\<lambda>appParams.
          op_bind (AppStateRandomizedFn S generate NewDefaultGenesisState accs genesisTimestamp appParams) (\<lambda>(appState, simAccs).
          op_lift (Ok (appState, simAccs, Cfg_ChainID config, genesisTimestamp)))))
       (\<lambda>(appState, simAccs, chainID, genesisTimestamp).
     op_bind (with_not_bonded_pool L S appState) (\<lambda>appState.
     op_lift (Ok (appState, simAccs, chainID, genesisTimestamp)))))"

definition sim_operations ::
  "('r, 'p, 's, 'b) sim_lib \<Rightarrow> ('p \<Rightarrow> 'c) \<Rightarrow> ('p \<Rightarrow> 'c \<Rightarrow> 'o) \<Rightarrow> sim_config \<Rightarrow> ('r, 'o) op" where
  "sim_operations S GetProposalContents WeightedOperations config =
     op_bind (if Cfg_ParamsFile config \<noteq> []
              then op_bind (read_file S (Cfg_ParamsFile config)) (\<lambda>bz. or_panic (sl_UnmarshalParams S bz))
              else op_lift (Ok (sl_no_params S))) (\<lambda>appParams.
     op_lift (Ok (WeightedOperations appParams (GetProposalContents appParams))))"

section \<open>What the simulations do\<close>

text \<open>
  No configuration names a database, and the database library refuses a name it does not know: a simulation that is
  enabled is never set up.
\<close>

lemma simulation_never_set_up:
  assumes "EnabledValue flags" "\<And>n d. NewDB n [] d = Err e"
  shows "SetupSimulation MkdirTemp NewDB flags dirPrefix dbName \<noteq> Ok r"
  using assms by (cases "MkdirTemp dirPrefix") (simp_all add: SetupSimulation_def NewConfigFromFlags_def Let_def)

lemma simulation_skipped:
  "SetupSimulation MkdirTemp NewDB SimulatorFlags dirPrefix dbName = Ok Skipped"
  by (simp add: SetupSimulation_def SimulatorFlags_def)

text \<open>The log has an entry for every pair with a value, where the second list is long enough, and panics otherwise.\<close>

lemma GetSimulationLog_spec:
  "GetSimulationLog storeName sdr kvAs kvBs log =
     (if length kvBs < length kvAs then Panic
      else Ok (log @ concat (map (\<lambda>(a, b). case sdr storeName of Some decoder \<Rightarrow> decoder a b | None \<Rightarrow> two_stores a b)
                 (filter (\<lambda>(a, b). Kv_Value a \<noteq> [] \<or> Kv_Value b \<noteq> []) (zip kvAs kvBs)))))"
  by (induction storeName sdr kvAs kvBs log rule: GetSimulationLog.induct) auto

text \<open>What is written of keys and values is not lost: it can be read back from the hexadecimal digits.\<close>

lemma print_hex_inj: "print_hex k = print_hex k' \<Longrightarrow> k = k'"
  by (metis hex_round_trip option.inject)

text \<open>Both files together panic, and without a file nothing of the file system is read.\<close>

lemma both_files_panic:
  assumes "Cfg_ParamsFile config \<noteq> []" "Cfg_GenesisFile config \<noteq> []"
  shows "fst (AppStateFn L S generate g t accs config r) = Panic"
  using assms by (cases "sl_RandTimestamp S r") (simp add: AppStateFn_def op_bind_def op_lift_def drawn_def)

text \<open>
  The pool gets the tokens of the validators that are unbonded; those that are unbonding count as bonded here, though the
  staking module keeps their tokens in the same pool. A bank whose supply counts the pool is accepted afterwards.
\<close>

lemma notBondedTokens_sum:
  "notBondedTokens vs = sum_list (map Tv_Tokens (filter (\<lambda>v. Tv_Status v = BondStatus_Unbonded) vs))"
proof -
  have "fold (\<lambda>val n. if Tv_Status val \<noteq> BondStatus_Unbonded then n else n + Tv_Tokens val) vs n =
      n + sum_list (map Tv_Tokens (filter (\<lambda>v. Tv_Status v = BondStatus_Unbonded) vs))" for n
    by (induction vs arbitrary: n) simp_all
  then show ?thesis by (simp add: notBondedTokens_def)
qed

lemma AmountOf_pool:
  assumes "coin_laws L" "NewCoin L denom n = Ok c" "NewCoins L [c] = Ok cs"
  shows "AmountOf cs d = (if d = denom then n else 0)"
  using coin_laws_NewCoin [OF assms(1,2)] coin_laws_NewCoins_amount [OF assms] by auto

lemma pool_accepted:
  assumes "coin_laws L" "add_not_bonded_pool L S st bk = Ok bk'" "Tb_Supply bk \<noteq> []"
  shows "bank_accepts \<lparr>Tb_Balances = Tb_Balances bk', Tb_Supply = Tb_Supply bk'\<rparr> \<longleftrightarrow>
    (\<forall>d. AmountOf (Tb_Supply bk) d = total_of (Tb_Balances bk) d +
       (if d = Ss_BondDenom st then notBondedTokens (Ss_Validators st) else 0))"
proof -
  obtain c cs where c: "NewCoin L (Ss_BondDenom st) (notBondedTokens (Ss_Validators st)) = Ok c" "NewCoins L [c] = Ok cs"
    and bk: "bk' = bk\<lparr>Tb_Balances := Tb_Balances bk @ [\<lparr>Gb_Address = sl_ModuleAddress S ''not_bonded_tokens_pool'', Gb_Coins = cs\<rparr>]\<rparr>"
    using assms(2) by (auto simp: add_not_bonded_pool_def)
  show ?thesis
    using assms(3) AmountOf_pool [OF assms(1) c] by (simp add: bank_accepts_def fun_eq_iff bk)
qed

text \<open>A genesis file with its accounts: one account for each of them, with its address.\<close>

lemma simulator_accounts_addresses:
  "simulator_accounts S accs r = (Ok sims, r') \<Longrightarrow> map (\<lambda>a. Some (Sm_Address a)) sims = accs"
proof (induction accs arbitrary: r sims)
  case Nil
  then show ?case by simp
next
  case (Cons acc accs)
  then obtain r1 addr new priv pub where "acc = Some addr" "simulator_accounts S accs r1 = (Ok new, r')"
    and "sims = \<lparr>Sm_PrivKey = priv, Sm_PubKey = pub, Sm_Address = addr\<rparr> # new"
    by (auto simp: op_bind_eq_Ok or_panic_def Let_def split: option.splits)
  with Cons.IH show ?case by simp
qed

end
